(* ===== verification/Prelude.thy ===== *)
theory Prelude
  imports Main "HOL-Library.Word"
begin

text \<open>
  The vocabulary every component of the chat service shares.

  \<^item> Go errors as values (\<open>goerr\<close>): package-level sentinels, \<open>fmt.Errorf\<close> with or without
    a \<open>%w\<close> operand, and the typed errors the code inspects.  \<open>errors_Is\<close> and the two
    \<open>errors_As\<close> functions walk the same unwrap chain as Go's \<open>errors\<close> package.
  \<^item> Fallible results (\<open>'a result\<close>): \<open>Inl\<close> the error, \<open>Inr\<close> the value.
  \<^item> The environment (\<open>env\<close>): the clock, the source of random identifiers, and the schedule of
    infrastructure faults and of the choices SQL leaves open.  Every operation takes the
    environment as an argument, so a theorem about an operation holds for every clock, every
    random source and every fault schedule.
  \<^item> Lemmas on lists that several components use.
\<close>

section \<open>Collections of facts\<close>

named_theorems quiet_simps \<open>evaluation where the clock stands still and no fault is due\<close>

section \<open>Decimal output\<close>

definition digit_char :: "nat \<Rightarrow> char" where
  "digit_char d = char_of (48 + d)"

fun nat_itoa :: "nat \<Rightarrow> string" where
  "nat_itoa n = (if n < 10 then [digit_char n] else nat_itoa (n div 10) @ [digit_char (n mod 10)])"

declare nat_itoa.simps [simp del]

definition itoa :: "int \<Rightarrow> string" where
  "itoa i = (if i < 0 then ''-'' @ nat_itoa (nat (- i)) else nat_itoa (nat i))"

section \<open>Quoted output\<close>

text \<open>
  \<open>fmt\<close>'s verb \<open>%q\<close> on ASCII text: quotes, backslashes and control characters are escaped.
  Characters beyond ASCII are copied (Go copies the printable ones).
\<close>

definition hex_digit :: "nat \<Rightarrow> char" where
  "hex_digit n = (if n < 10 then char_of (48 + n) else char_of (87 + n))"

definition quote_char :: "char \<Rightarrow> string" where
  "quote_char c =
     (let n = of_char c :: nat; bs = char_of (92 :: nat) in
      if n = 34 \<or> n = 92 then [bs, c]
      else if n = 7 then [bs, CHR ''a'']
      else if n = 8 then [bs, CHR ''b'']
      else if n = 9 then [bs, CHR ''t'']
      else if n = 10 then [bs, CHR ''n'']
      else if n = 11 then [bs, CHR ''v'']
      else if n = 12 then [bs, CHR ''f'']
      else if n = 13 then [bs, CHR ''r'']
      else if n < 32 \<or> n = 127 then [bs, CHR ''x'', hex_digit (n div 16), hex_digit (n mod 16)]
      else [c])"

definition strconv_Quote :: "string \<Rightarrow> string" where
  "strconv_Quote s = [char_of (34 :: nat)] @ concat (map quote_char s) @ [char_of (34 :: nat)]"

section \<open>Cutting texts\<close>

text \<open>\<open>strings.Split\<close> at a separator of one character.\<close>

fun strings_Split :: "char \<Rightarrow> string \<Rightarrow> string list" where
  "strings_Split d [] = [[]]"
| "strings_Split d (c # cs) =
     (if c = d then [] # strings_Split d cs
      else (case strings_Split d cs of p # ps \<Rightarrow> (c # p) # ps | [] \<Rightarrow> [[c]]))"

definition has_prefix :: "string \<Rightarrow> string \<Rightarrow> bool" where
  "has_prefix s p \<longleftrightarrow> take (length p) s = p"

definition strings_TrimPrefix :: "string \<Rightarrow> string \<Rightarrow> string" where
  "strings_TrimPrefix s p = (if has_prefix s p then drop (length p) s else s)"

section \<open>Errors\<close>

text \<open>
  \<open>New name text\<close> is a sentinel made by \<open>errors.New\<close> at package level: its identity is the
  variable that holds it, so two sentinels with one text stay different.  \<open>Errorf text wrapped\<close>
  is the result of \<open>fmt.Errorf\<close>: the text is computed eagerly, and \<open>wrapped\<close> is the operand of
  \<open>%w\<close> where the format has one; \<open>%v\<close> keeps no link.
\<close>

datatype goerr =
    New string string
  | Errorf string "goerr option"
  | ServerError int string goerr
  | HTTPError int string
  | HTTPErrorInternal int string goerr
  | NotFoundError string
  | NotSingularError string
  | ValidationError string goerr
  | ConstraintError string
  | DriverError string

type_synonym 'a result = "goerr + 'a"

primrec errtext :: "goerr \<Rightarrow> string" where
  "errtext (New n t) = t"
| "errtext (Errorf t e) = t"
| "errtext (ServerError c m e) = m @ '': '' @ errtext e"
| "errtext (HTTPError c m) = ''code='' @ itoa c @ '', message='' @ m"
| "errtext (HTTPErrorInternal c m e) = ''code='' @ itoa c @ '', message='' @ m @ '', internal='' @ errtext e"
| "errtext (NotFoundError l) = ''store: '' @ l @ '' not found''"
| "errtext (NotSingularError l) = ''store: '' @ l @ '' not singular''"
| "errtext (ValidationError n e) = errtext e"
| "errtext (ConstraintError m) = ''store: constraint failed: '' @ m"
| "errtext (DriverError m) = m"

text \<open>\<open>fmt.Errorf("prefix: %v", err)\<close> and \<open>fmt.Errorf("prefix: %w", err)\<close>.\<close>

definition errorf_v :: "string \<Rightarrow> goerr \<Rightarrow> goerr" where
  "errorf_v p e = Errorf (p @ '': '' @ errtext e) None"

definition errorf_w :: "string \<Rightarrow> goerr \<Rightarrow> goerr" where
  "errorf_w p e = Errorf (p @ '': '' @ errtext e) (Some e)"

text \<open>\<open>fmt.Errorf("%w: %v", sentinel, err)\<close>: the sentinel stays in the chain, the cause does not.\<close>

definition errorf_wv :: "goerr \<Rightarrow> goerr \<Rightarrow> goerr" where
  "errorf_wv s e = Errorf (errtext s @ '': '' @ errtext e) (Some s)"

text \<open>
  \<open>errors.Is\<close> for the targets the code uses, which are sentinels (or shared \<open>HTTPError\<close>
  values): equality on the way down the unwrap chain.  \<open>ServerError\<close> has no \<open>Unwrap\<close> method but
  an \<open>Is\<close> method that asks its cause.
\<close>

fun errors_Is :: "goerr \<Rightarrow> goerr \<Rightarrow> bool" where
  "errors_Is (New n t) tgt = (New n t = tgt)"
| "errors_Is (Errorf t e) tgt = (case e of None \<Rightarrow> False | Some e' \<Rightarrow> errors_Is e' tgt)"
| "errors_Is (ServerError c m e) tgt = errors_Is e tgt"
| "errors_Is (HTTPError c m) tgt = (HTTPError c m = tgt)"
| "errors_Is (HTTPErrorInternal c m e) tgt = (HTTPErrorInternal c m e = tgt \<or> errors_Is e tgt)"
| "errors_Is (NotFoundError l) tgt = False"
| "errors_Is (NotSingularError l) tgt = False"
| "errors_Is (ValidationError n e) tgt = errors_Is e tgt"
| "errors_Is (ConstraintError m) tgt = False"
| "errors_Is (DriverError m) tgt = False"

fun errors_As_ServerError :: "goerr \<Rightarrow> (int \<times> string \<times> goerr) option" where
  "errors_As_ServerError (New n t) = None"
| "errors_As_ServerError (Errorf t e) =
     (case e of None \<Rightarrow> None | Some e' \<Rightarrow> errors_As_ServerError e')"
| "errors_As_ServerError (ServerError c m e) = Some (c, m, e)"
| "errors_As_ServerError (HTTPError c m) = None"
| "errors_As_ServerError (HTTPErrorInternal c m e) = errors_As_ServerError e"
| "errors_As_ServerError (NotFoundError l) = None"
| "errors_As_ServerError (NotSingularError l) = None"
| "errors_As_ServerError (ValidationError n e) = errors_As_ServerError e"
| "errors_As_ServerError (ConstraintError m) = None"
| "errors_As_ServerError (DriverError m) = None"

fun errors_As_HTTPError :: "goerr \<Rightarrow> (int \<times> string \<times> goerr option) option" where
  "errors_As_HTTPError (New n t) = None"
| "errors_As_HTTPError (Errorf t e) =
     (case e of None \<Rightarrow> None | Some e' \<Rightarrow> errors_As_HTTPError e')"
| "errors_As_HTTPError (ServerError c m e) = None"
| "errors_As_HTTPError (HTTPError c m) = Some (c, m, None)"
| "errors_As_HTTPError (HTTPErrorInternal c m e) = Some (c, m, Some e)"
| "errors_As_HTTPError (NotFoundError l) = None"
| "errors_As_HTTPError (NotSingularError l) = None"
| "errors_As_HTTPError (ValidationError n e) = errors_As_HTTPError e"
| "errors_As_HTTPError (ConstraintError m) = None"
| "errors_As_HTTPError (DriverError m) = None"

fun errors_As_NotFound :: "goerr \<Rightarrow> bool" where
  "errors_As_NotFound (New n t) = False"
| "errors_As_NotFound (Errorf t e) =
     (case e of None \<Rightarrow> False | Some e' \<Rightarrow> errors_As_NotFound e')"
| "errors_As_NotFound (ServerError c m e) = False"
| "errors_As_NotFound (HTTPError c m) = False"
| "errors_As_NotFound (HTTPErrorInternal c m e) = errors_As_NotFound e"
| "errors_As_NotFound (NotFoundError l) = True"
| "errors_As_NotFound (NotSingularError l) = False"
| "errors_As_NotFound (ValidationError n e) = errors_As_NotFound e"
| "errors_As_NotFound (ConstraintError m) = False"
| "errors_As_NotFound (DriverError m) = False"

lemma errors_Is_errorf_v [simp]: "\<not> errors_Is (errorf_v p e) tgt"
  by (simp add: errorf_v_def)

lemma errors_Is_errorf_w [simp]: "errors_Is (errorf_w p e) tgt = errors_Is e tgt"
  by (simp add: errorf_w_def)

lemma errors_Is_errorf_wv [simp]: "errors_Is (errorf_wv s e) tgt = errors_Is s tgt"
  by (simp add: errorf_wv_def)

lemma errors_As_errorf_v [simp]:
  "errors_As_ServerError (errorf_v p e) = None"
  "errors_As_HTTPError (errorf_v p e) = None"
  "\<not> errors_As_NotFound (errorf_v p e)"
  by (simp_all add: errorf_v_def)

lemma errors_As_errorf_w [simp]:
  "errors_As_ServerError (errorf_w p e) = errors_As_ServerError e"
  "errors_As_HTTPError (errorf_w p e) = errors_As_HTTPError e"
  "errors_As_NotFound (errorf_w p e) = errors_As_NotFound e"
  by (simp_all add: errorf_w_def)

lemma errors_As_errorf_wv [simp]:
  "errors_As_ServerError (errorf_wv s e) = errors_As_ServerError s"
  "errors_As_HTTPError (errorf_wv s e) = errors_As_HTTPError s"
  "errors_As_NotFound (errorf_wv s e) = errors_As_NotFound s"
  by (simp_all add: errorf_wv_def)

section \<open>The environment\<close>

text \<open>
  Time is counted in nanoseconds from Go's zero time, so \<open>Time.IsZero\<close> is equality with 0.
\<close>

type_synonym time = int

definition millisecond :: time where "millisecond = 1000000"
definition second :: time where "second = 1000 * millisecond"
definition minute :: time where "minute = 60 * second"

text \<open>
  A fault of the infrastructure: the statement fails and has no effect (\<open>Fails\<close>), or it takes
  effect and the reply is lost (\<open>AckLost\<close>), so that the caller sees an error all the same.
\<close>

datatype fault = Fails string | AckLost string

text \<open>
  \<open>ticks\<close> is how far the clock moves at each reading, \<open>rnd\<close> the random 128-bit words that
  identifiers are made of, \<open>faults\<close> what happens to each statement sent to the database (\<open>None\<close>:
  it succeeds) and \<open>picks\<close> the rows that a \<open>LIMIT 1\<close> without an order returns.
\<close>

record env =
  clk :: time
  ticks :: "nat list"
  rnd :: "nat \<Rightarrow> 128 word"
  rnd_pos :: nat
  faults :: "fault option list"
  picks :: "nat list"

definition time_Now :: "'z env_scheme \<Rightarrow> time \<times> 'z env_scheme" where
  "time_Now w =
     (case ticks w of
        [] \<Rightarrow> (clk w, w)
      | d # ds \<Rightarrow> (clk w + int d, w\<lparr>clk := clk w + int d, ticks := ds\<rparr>))"

definition random_word :: "'z env_scheme \<Rightarrow> 128 word \<times> 'z env_scheme" where
  "random_word w = (rnd w (rnd_pos w), w\<lparr>rnd_pos := Suc (rnd_pos w)\<rparr>)"

definition next_fault :: "'z env_scheme \<Rightarrow> fault option \<times> 'z env_scheme" where
  "next_fault w =
     (case faults w of [] \<Rightarrow> (None, w) | f # fs \<Rightarrow> (f, w\<lparr>faults := fs\<rparr>))"

text \<open>\<open>pick_one xs\<close> chooses one element of a non-empty list, any one, as the schedule says.\<close>

definition pick_one :: "'a list \<Rightarrow> 'z env_scheme \<Rightarrow> 'a option \<times> 'z env_scheme" where
  "pick_one xs w =
     (if xs = [] then (None, w)
      else (case picks w of
              [] \<Rightarrow> (Some (hd xs), w)
            | n # ns \<Rightarrow> (Some (xs ! (n mod length xs)), w\<lparr>picks := ns\<rparr>)))"

text \<open>
  One statement sent to the database.  The body is the statement's effect and reply when nothing
  goes wrong; the schedule decides whether it runs and whether its reply arrives.
\<close>

definition statement ::
  "('z env_scheme \<Rightarrow> 'a result \<times> 'z env_scheme) \<Rightarrow> 'z env_scheme \<Rightarrow> 'a result \<times> 'z env_scheme" where
  "statement body w =
     (case next_fault w of
        (None, w') \<Rightarrow> body w'
      | (Some (Fails m), w') \<Rightarrow> (Inl (DriverError m), w')
      | (Some (AckLost m), w') \<Rightarrow> (Inl (DriverError m), snd (body w')))"

lemma time_Now_mono: "time_Now w = (t, w') \<Longrightarrow> clk w \<le> t \<and> clk w' = t"
  by (auto simp: time_Now_def split: list.splits)

lemma pick_one_in_set: "pick_one xs w = (Some x, w') \<Longrightarrow> x \<in> set xs"
  by (auto simp: pick_one_def split: if_splits list.splits)

lemma pick_one_None: "pick_one xs w = (None, w') \<longleftrightarrow> xs = [] \<and> w' = w"
  by (auto simp: pick_one_def split: list.splits)

lemma pick_one_exists: "xs \<noteq> [] \<Longrightarrow> \<exists>x w'. pick_one xs w = (Some x, w') \<and> x \<in> set xs"
  by (cases "pick_one xs w") (auto simp: pick_one_def split: list.splits)

lemma next_fault_none: "faults w = [] \<Longrightarrow> next_fault w = (None, w)"
  by (simp add: next_fault_def)

lemma statement_no_fault: "faults w = [] \<Longrightarrow> statement body w = body w"
  by (simp add: statement_def next_fault_none)

lemma time_Now_quiet [quiet_simps]: "ticks w = [] \<Longrightarrow> time_Now w = (clk w, w)"
  by (simp add: time_Now_def)

lemma pick_one_quiet [quiet_simps]:
  "picks w = [] \<Longrightarrow> pick_one xs w = (if xs = [] then None else Some (hd xs), w)"
  by (simp add: pick_one_def)

declare next_fault_none [quiet_simps] statement_no_fault [quiet_simps]

section \<open>Lists\<close>

lemma filter_single_update:
  assumes "distinct (map f xs)" and "x \<in> set xs"
  shows "filter (\<lambda>y. f y = f x) xs = [x]"
  using assms
proof (induction xs)
  case Nil
  then show ?case by simp
next
  case (Cons y ys)
  show ?case
  proof (cases "x = y")
    case True
    with Cons.prems have "f x \<notin> f ` set ys" by simp
    then have "\<forall>z \<in> set ys. f z \<noteq> f x" by (metis imageI)
    with True show ?thesis by (simp add: filter_empty_conv)
  next
    case False
    with Cons.prems have "x \<in> set ys" and "f y \<noteq> f x" by auto
    with Cons show ?thesis by simp
  qed
qed

lemma distinct_map_filter: "distinct (map f xs) \<Longrightarrow> distinct (map f (filter P xs))"
  by (induction xs) auto

lemma find_SomeD: "find P xs = Some x \<Longrightarrow> x \<in> set xs \<and> P x"
  by (induction xs) (auto split: if_splits)

lemma find_NoneD: "find P xs = None \<Longrightarrow> x \<in> set xs \<Longrightarrow> \<not> P x"
  by (auto simp: find_None_iff)

end
