(* ===== verification/Uuid.thy ===== *)
theory Uuid
  imports Prelude
begin

unbundle bit_operations_syntax

text \<open>
  Universally unique identifiers, from the vendored package \<open>google/uuid\<close>: a 16-byte array, kept
  as the 128-bit word of its bytes in order (the first byte is the most significant).  The theory
  models the random generator (\<open>NewRandom\<close>), the text form (\<open>String\<close>, \<open>MarshalText\<close>) and the
  parser with the four forms it accepts, and proves that parsing inverts printing.
\<close>

type_synonym uuid = "128 word"

definition uuid_Nil :: uuid where
  "uuid_Nil = 0"

text \<open>
  \<open>NewRandom\<close>: 16 random bytes with the version (4) in the high half of byte 6 and the variant
  (binary 10) in the two high bits of byte 8.  Byte \<open>i\<close> holds the bits from \<open>8 * (15 - i)\<close> on.
\<close>

definition uuid_NewRandom :: "128 word \<Rightarrow> uuid" where
  "uuid_NewRandom r =
     (r AND NOT (push_bit 76 15) AND NOT (push_bit 62 3)) OR push_bit 76 4 OR push_bit 62 2"

definition uuid_New :: "'z env_scheme \<Rightarrow> uuid \<times> 'z env_scheme" where
  "uuid_New w = (let (r, w') = random_word w in (uuid_NewRandom r, w'))"

lemma uuid_NewRandom_nonzero: "uuid_NewRandom r \<noteq> uuid_Nil"
proof
  assume "uuid_NewRandom r = uuid_Nil"
  then have "\<not> bit (uuid_NewRandom r) 63" by (simp add: uuid_Nil_def)
  then show False by (simp add: uuid_NewRandom_def bit_simps)
qed

section \<open>Bytes of an identifier\<close>

definition uuid_byte :: "uuid \<Rightarrow> nat \<Rightarrow> nat" where
  "uuid_byte u i = (unat u div 256 ^ (15 - i)) mod 256"

definition uuid_bytes :: "uuid \<Rightarrow> nat list" where
  "uuid_bytes u = map (uuid_byte u) [0..<16]"

fun be_nat :: "nat \<Rightarrow> nat list \<Rightarrow> nat" where
  "be_nat a [] = a"
| "be_nat a (b # bs) = be_nat (a * 256 + b) bs"

lemma be_nat_append: "be_nat a (xs @ ys) = be_nat (be_nat a xs) ys"
  by (induction xs arbitrary: a) auto

definition uuid_of_bytes :: "nat list \<Rightarrow> uuid" where
  "uuid_of_bytes bs = word_of_nat (be_nat 0 bs)"

lemma be_nat_digits:
  fixes n a :: nat
  shows "be_nat a (map (\<lambda>i. (n div 256 ^ (k - 1 - i)) mod 256) [0..<k]) =
     a * 256 ^ k + n mod 256 ^ k"
proof (induction k arbitrary: n a)
  case 0
  then show ?case by simp
next
  case (Suc k)
  have eq: "map (\<lambda>i. (n div 256 ^ (Suc k - 1 - i)) mod 256) [0..<k] =
      map (\<lambda>i. ((n div 256) div 256 ^ (k - 1 - i)) mod 256) [0..<k]"
  proof (rule map_cong [OF refl])
    fix i assume "i \<in> set [0..<k]"
    then have "Suc k - 1 - i = Suc (k - 1 - i)" by auto
    then show "(n div 256 ^ (Suc k - 1 - i)) mod 256 = ((n div 256) div 256 ^ (k - 1 - i)) mod 256"
      by (simp add: div_mult2_eq)
  qed
  have "n mod 256 ^ Suc k = 256 * ((n div 256) mod 256 ^ k) + n mod 256"
    by (simp add: mod_mult2_eq)
  then show ?case
    unfolding upt_Suc_append [OF le0] map_append be_nat_append eq
    using Suc.IH [where n = "n div 256" and a = a] by (simp add: algebra_simps)
qed

lemma uuid_of_bytes_bytes: "uuid_of_bytes (uuid_bytes u) = u"
proof -
  have "unat u < 2 ^ 128"
    using unsigned_less [of u, where ?'a = nat] by simp
  then have "be_nat 0 (uuid_bytes u) = unat u"
    using be_nat_digits [of 0 "unat u" 16] by (simp add: uuid_bytes_def uuid_byte_def [abs_def])
  then show ?thesis by (simp add: uuid_of_bytes_def)
qed

lemma length_uuid_bytes [simp]: "length (uuid_bytes u) = 16"
  by (simp add: uuid_bytes_def)

lemma uuid_bytes_lt: "b \<in> set (uuid_bytes u) \<Longrightarrow> b < 256"
  by (auto simp: uuid_bytes_def uuid_byte_def)

section \<open>Hexadecimal\<close>

text \<open>
  The table \<open>xvalues\<close> gives the value of a hexadecimal digit of either case and 255 for every
  other byte; \<open>xtob\<close> puts two of them together in 8 bits and says whether both were digits.
\<close>

definition hex_char :: "nat \<Rightarrow> char" where
  "hex_char n = (if n < 10 then char_of (48 + n) else char_of (87 + n))"

definition xvalues :: "char \<Rightarrow> nat" where
  "xvalues c =
     (let n = of_char c :: nat in
      if 48 \<le> n \<and> n \<le> 57 then n - 48
      else if 97 \<le> n \<and> n \<le> 102 then n - 87
      else if 65 \<le> n \<and> n \<le> 70 then n - 55
      else 255)"

definition xtob :: "char \<Rightarrow> char \<Rightarrow> nat \<times> bool" where
  "xtob c1 c2 =
     (let b1 = xvalues c1; b2 = xvalues c2 in
      ((b1 * 16) mod 256 OR b2, b1 \<noteq> 255 \<and> b2 \<noteq> 255))"

definition hex_byte :: "nat \<Rightarrow> string" where
  "hex_byte b = [hex_char (b div 16), hex_char (b mod 16)]"

lemma xvalues_hex_char: "n < 16 \<Longrightarrow> xvalues (hex_char n) = n"
  by (auto simp: xvalues_def hex_char_def Let_def)

lemma nibbles_or: "b div 16 * 16 OR b mod 16 = (b :: nat)"
proof -
  have "b div 16 * 16 OR b mod 16 = push_bit 4 (drop_bit 4 b) OR take_bit 4 b"
    by (simp add: push_bit_eq_mult drop_bit_eq_div take_bit_eq_mod)
  also have "\<dots> = b"
    by (rule bit_eqI) (auto simp: bit_simps)
  finally show ?thesis .
qed

lemma xtob_hex_char:
  assumes "b < 256"
  shows "xtob (hex_char (b div 16)) (hex_char (b mod 16)) = (b, True)"
proof -
  have "b div 16 < 16" using assms by simp
  moreover have "b div 16 * 16 mod 256 = b div 16 * 16" using assms by simp
  moreover have "b div 16 \<noteq> 255" "b mod 16 \<noteq> 255"
    using \<open>b div 16 < 16\<close> by auto
  ultimately show ?thesis
    by (simp add: xtob_def xvalues_hex_char Let_def nibbles_or)
qed

section \<open>Printing\<close>

text \<open>\<open>encodeHex\<close>: the 36-character form, lower case, with dashes after bytes 4, 6, 8 and 10.\<close>

definition uuid_encodeHex :: "uuid \<Rightarrow> string" where
  "uuid_encodeHex u =
     (let h = map hex_byte (uuid_bytes u) in
      concat (take 4 h) @ ''-'' @ concat (take 2 (drop 4 h)) @ ''-'' @
      concat (take 2 (drop 6 h)) @ ''-'' @ concat (take 2 (drop 8 h)) @ ''-'' @
      concat (drop 10 h))"

definition uuid_String :: "uuid \<Rightarrow> string" where
  "uuid_String u = uuid_encodeHex u"

definition uuid_MarshalText :: "uuid \<Rightarrow> string" where
  "uuid_MarshalText u = uuid_encodeHex u"

section \<open>Parsing\<close>

text \<open>
  \<open>Parse\<close> returns the array and an error.  Where it fails in the middle, the array keeps what has
  been written so far: the dashed form stores a byte only after the check, the raw form of 32
  characters before it.  \<open>parse_dashed_loop\<close> and \<open>parse_raw_loop\<close> return the bytes written and
  whether the loop ran to its end.
\<close>

fun parse_dashed_loop :: "string \<Rightarrow> nat list \<Rightarrow> nat list \<times> bool" where
  "parse_dashed_loop s [] = ([], True)"
| "parse_dashed_loop s (x # xs) =
     (let (v, ok) = xtob (s ! x) (s ! (x + 1)) in
      if \<not> ok then ([], False)
      else let (bs, r) = parse_dashed_loop s xs in (v # bs, r))"

fun parse_raw_loop :: "string \<Rightarrow> nat list \<Rightarrow> nat list \<times> bool" where
  "parse_raw_loop s [] = ([], True)"
| "parse_raw_loop s (i # is) =
     (let (v, ok) = xtob (s ! (i * 2)) (s ! (i * 2 + 1)) in
      if \<not> ok then ([v], False)
      else let (bs, r) = parse_raw_loop s is in (v # bs, r))"

definition dashed_offsets :: "nat list" where
  "dashed_offsets = [0, 2, 4, 6, 9, 11, 14, 16, 19, 21, 24, 26, 28, 30, 32, 34]"

definition fill16 :: "nat list \<Rightarrow> nat list" where
  "fill16 bs = bs @ replicate (16 - length bs) 0"

definition err_uuid_format :: goerr where
  "err_uuid_format = Errorf ''invalid UUID format'' None"

definition err_uuid_length :: "nat \<Rightarrow> goerr" where
  "err_uuid_length n = Errorf (''invalid UUID length: '' @ itoa (int n)) None"

definition err_urn_prefix :: "string \<Rightarrow> goerr" where
  "err_urn_prefix p = Errorf (''invalid urn prefix: '' @ strconv_Quote p) None"

definition lower :: "char \<Rightarrow> char" where
  "lower c = (let n = of_char c :: nat in if 65 \<le> n \<and> n \<le> 90 then char_of (n + 32) else c)"

definition loop_result :: "nat list \<times> bool \<Rightarrow> uuid \<times> goerr option" where
  "loop_result r = (uuid_of_bytes (fill16 (fst r)), if snd r then None else Some err_uuid_format)"

definition parse_dashed :: "string \<Rightarrow> uuid \<times> goerr option" where
  "parse_dashed s =
     (if s ! 8 \<noteq> CHR ''-'' \<or> s ! 13 \<noteq> CHR ''-'' \<or> s ! 18 \<noteq> CHR ''-'' \<or> s ! 23 \<noteq> CHR ''-''
      then (uuid_Nil, Some err_uuid_format)
      else loop_result (parse_dashed_loop s dashed_offsets))"

definition uuid_Parse :: "string \<Rightarrow> uuid \<times> goerr option" where
  "uuid_Parse s =
     (if length s = 36 then parse_dashed s
      else if length s = 36 + 9 then
        (if map lower (take 9 s) \<noteq> ''urn:uuid:'' then (uuid_Nil, Some (err_urn_prefix (take 9 s)))
         else parse_dashed (drop 9 s))
      else if length s = 36 + 2 then parse_dashed (drop 1 s)
      else if length s = 32 then loop_result (parse_raw_loop s [0..<16])
      else (uuid_Nil, Some (err_uuid_length (length s))))"

text \<open>
  \<open>UnmarshalText\<close> parses the bytes with \<open>ParseBytes\<close>, which is \<open>Parse\<close> on a byte slice, and
  stores the result only when there is no error.
\<close>

definition uuid_UnmarshalText :: "string \<Rightarrow> uuid \<Rightarrow> uuid \<times> goerr option" where
  "uuid_UnmarshalText s u =
     (case uuid_Parse s of (i, None) \<Rightarrow> (i, None) | (_, Some e) \<Rightarrow> (u, Some e))"

text \<open>\<open>Scan\<close> reads a database value; an empty text or a null leaves the array as it is.\<close>

datatype sqlvalue = SqlNull | SqlString string | SqlBytes string | SqlOther string

definition uuid_Scan_string :: "string \<Rightarrow> uuid \<Rightarrow> uuid \<times> goerr option" where
  "uuid_Scan_string s u =
     (if s = [] then (u, None)
      else (case uuid_Parse s of
              (i, None) \<Rightarrow> (i, None)
            | (_, Some e) \<Rightarrow> (u, Some (errorf_v ''Scan'' e))))"

fun uuid_Scan :: "sqlvalue \<Rightarrow> uuid \<Rightarrow> uuid \<times> goerr option" where
  "uuid_Scan SqlNull u = (u, None)"
| "uuid_Scan (SqlString s) u = uuid_Scan_string s u"
| "uuid_Scan (SqlBytes s) u =
     (if s = [] then (u, None)
      else if length s \<noteq> 16 then uuid_Scan_string s u
      else (uuid_of_bytes (map of_char s), None))"
| "uuid_Scan (SqlOther t) u =
     (u, Some (Errorf (''Scan: unable to scan type '' @ t @ '' into UUID'') None))"

section \<open>Parsing inverts printing\<close>

lemma uuid_bytes_list:
  "uuid_bytes u = [uuid_byte u 0, uuid_byte u 1, uuid_byte u 2, uuid_byte u 3, uuid_byte u 4,
     uuid_byte u 5, uuid_byte u 6, uuid_byte u 7, uuid_byte u 8, uuid_byte u 9, uuid_byte u 10,
     uuid_byte u 11, uuid_byte u 12, uuid_byte u 13, uuid_byte u 14, uuid_byte u 15]"
  by (simp add: uuid_bytes_def upt_conv_Cons numeral_eq_Suc)

lemma xtob_uuid_byte:
  "xtob (hex_char (uuid_byte u i div 16)) (hex_char (uuid_byte u i mod 16)) = (uuid_byte u i, True)"
  by (rule xtob_hex_char) (simp add: uuid_byte_def)

lemma uuid_encodeHex_list:
  "uuid_encodeHex u =
     (let h = (\<lambda>i. hex_char (uuid_byte u i div 16)); l = (\<lambda>i. hex_char (uuid_byte u i mod 16)) in
      [h 0, l 0, h 1, l 1, h 2, l 2, h 3, l 3, CHR ''-'', h 4, l 4, h 5, l 5, CHR ''-'',
       h 6, l 6, h 7, l 7, CHR ''-'', h 8, l 8, h 9, l 9, CHR ''-'',
       h 10, l 10, h 11, l 11, h 12, l 12, h 13, l 13, h 14, l 14, h 15, l 15])"
  by (simp add: uuid_encodeHex_def uuid_bytes_list Let_def hex_byte_def)

lemma length_uuid_encodeHex [simp]: "length (uuid_encodeHex u) = 36"
  by (simp add: uuid_encodeHex_list Let_def)

lemma uuid_encodeHex_not_Nil [simp]: "uuid_encodeHex u \<noteq> []"
  using length_uuid_encodeHex [of u] by (metis list.size(3) zero_neq_numeral)

lemma parse_dashed_loop_encodeHex:
  "parse_dashed_loop (uuid_encodeHex u) dashed_offsets = (uuid_bytes u, True)"
  by (simp add: uuid_encodeHex_list Let_def dashed_offsets_def xtob_uuid_byte uuid_bytes_list)

lemma parse_dashed_encodeHex: "parse_dashed (uuid_encodeHex u) = (u, None)"
  using parse_dashed_loop_encodeHex [of u]
  by (simp add: parse_dashed_def loop_result_def fill16_def uuid_of_bytes_bytes)
    (simp add: uuid_encodeHex_list Let_def)

lemma uuid_Parse_encodeHex: "uuid_Parse (uuid_encodeHex u) = (u, None)"
  by (simp add: uuid_Parse_def parse_dashed_encodeHex)

lemma uuid_encodeHex_inject: "uuid_encodeHex u = uuid_encodeHex v \<longleftrightarrow> u = v"
  by (metis uuid_Parse_encodeHex prod.inject)

end
