(* ===== verification/Types.thy ===== *)
theory Types
  imports Uuid
begin

text \<open>
  The typed identifiers of \<open>internal/types\<close>.  The Go types are nine copies of one template
  (\<open>cmd/gen-types\<close>) over the 16-byte array; here they are one type with a tag, so that a chat
  identifier and a user identifier cannot be confused, and each copy is the template's record of
  methods (\<open>gen_type\<close>) at the type's name.
\<close>

section \<open>Identifiers with a tag\<close>

datatype 'k id = Id (raw: uuid)

instantiation id :: (type) zero
begin

definition zero_id :: "'a id" where
  "0 = Id uuid_Nil"

instance ..

end

lemma raw_zero [simp]: "raw 0 = uuid_Nil"
  by (simp add: zero_id_def)

lemma Id_eq_zero: "Id u = 0 \<longleftrightarrow> u = uuid_Nil"
  by (simp add: zero_id_def)

datatype chat_tag = Chat_Tag
datatype event_tag = Event_Tag
datatype eventclient_tag = EventClient_Tag
datatype failedjob_tag = FailedJob_Tag
datatype job_tag = Job_Tag
datatype message_tag = Message_Tag
datatype problem_tag = Problem_Tag
datatype request_tag = Request_Tag
datatype user_tag = User_Tag

type_synonym ChatID = "chat_tag id"
type_synonym EventID = "event_tag id"
type_synonym EventClientID = "eventclient_tag id"
type_synonym FailedJobID = "failedjob_tag id"
type_synonym JobID = "job_tag id"
type_synonym MessageID = "message_tag id"
type_synonym ProblemID = "problem_tag id"
type_synonym RequestID = "request_tag id"
type_synonym UserID = "user_tag id"

section \<open>The methods of the template\<close>

text \<open>
  \<open>Scan\<close> and \<open>UnmarshalText\<close> have a pointer receiver: they take the old value and return the new
  one beside the error.  The argument of \<open>Matches\<close> is an interface value: \<open>None\<close> stands for a value
  of any other type.
\<close>

record 'k idops =
  op_Nil :: "'k id"
  op_String :: "'k id \<Rightarrow> string"
  op_Value :: "'k id \<Rightarrow> string result"
  op_Scan :: "sqlvalue \<Rightarrow> 'k id \<Rightarrow> 'k id \<times> goerr option"
  op_MarshalText :: "'k id \<Rightarrow> string result"
  op_UnmarshalText :: "string \<Rightarrow> 'k id \<Rightarrow> 'k id \<times> goerr option"
  op_IsZero :: "'k id \<Rightarrow> bool"
  op_Matches :: "'k id \<Rightarrow> 'k id option \<Rightarrow> bool"
  op_Validate :: "'k id \<Rightarrow> goerr option"

definition gen_type :: "string \<Rightarrow> 'k idops" where
  "gen_type typeName =
     \<lparr>op_Nil = Id uuid_Nil,
      op_String = (\<lambda>t. uuid_String (raw t)),
      op_Value = (\<lambda>t. Inr (uuid_String (raw t))),
      op_Scan = (\<lambda>src t. map_prod Id id (uuid_Scan src (raw t))),
      op_MarshalText = (\<lambda>t. Inr (uuid_MarshalText (raw t))),
      op_UnmarshalText = (\<lambda>data t. map_prod Id id (uuid_UnmarshalText data (raw t))),
      op_IsZero = (\<lambda>t. t = Id uuid_Nil),
      op_Matches = (\<lambda>t x. case x of None \<Rightarrow> False | Some v \<Rightarrow> uuid_String (raw t) = uuid_String (raw v)),
      op_Validate = (\<lambda>t. if t = Id uuid_Nil then Some (Errorf (''zero '' @ typeName) None) else None)\<rparr>"

definition ChatID :: "chat_tag idops" where
  "ChatID = gen_type ''ChatID''"

definition EventID :: "event_tag idops" where
  "EventID = gen_type ''EventID''"

definition EventClientID :: "eventclient_tag idops" where
  "EventClientID = gen_type ''EventClientID''"

definition FailedJobID :: "failedjob_tag idops" where
  "FailedJobID = gen_type ''FailedJobID''"

definition JobID :: "job_tag idops" where
  "JobID = gen_type ''JobID''"

definition MessageID :: "message_tag idops" where
  "MessageID = gen_type ''MessageID''"

definition ProblemID :: "problem_tag idops" where
  "ProblemID = gen_type ''ProblemID''"

definition RequestID :: "request_tag idops" where
  "RequestID = gen_type ''RequestID''"

definition UserID :: "user_tag idops" where
  "UserID = gen_type ''UserID''"

lemmas idops_defs = ChatID_def EventID_def EventClientID_def FailedJobID_def JobID_def MessageID_def ProblemID_def RequestID_def UserID_def

text \<open>\<open>New\<close>\<open>ID\<close> functions draw a random identifier; \<open>Parse\<close> keeps both results of the parser.\<close>

definition NewID :: "'z env_scheme \<Rightarrow> 'k id \<times> 'z env_scheme" where
  "NewID w = (let (u, w') = uuid_New w in (Id u, w'))"

definition types_Parse :: "string \<Rightarrow> 'k id \<times> goerr option" where
  "types_Parse s = (let (v, err) = uuid_Parse s in (Id v, err))"

text \<open>\<open>MustParse\<close> panics where the parser fails; \<open>None\<close> stands for the panic.\<close>

definition types_MustParse :: "string \<Rightarrow> 'k id option" where
  "types_MustParse s = (case types_Parse s of (t, None) \<Rightarrow> Some t | (_, Some e) \<Rightarrow> None)"

section \<open>What the methods do\<close>

lemma gen_type_simps [simp]:
  "op_Nil (gen_type n) = 0"
  "op_String (gen_type n) t = uuid_encodeHex (raw t)"
  "op_Value (gen_type n) t = Inr (uuid_encodeHex (raw t))"
  "op_MarshalText (gen_type n) t = Inr (uuid_encodeHex (raw t))"
  "op_IsZero (gen_type n) t \<longleftrightarrow> t = 0"
  "op_Matches (gen_type n) t x \<longleftrightarrow> x = Some t"
  by (auto simp: gen_type_def uuid_String_def uuid_MarshalText_def zero_id_def
      uuid_encodeHex_inject id.expand split: option.splits)

lemma gen_type_Validate:
  "op_Validate (gen_type n) t = (if t = 0 then Some (Errorf (''zero '' @ n) None) else None)"
  by (simp add: gen_type_def zero_id_def)

lemma gen_type_Validate_None [simp]: "op_Validate (gen_type n) t = None \<longleftrightarrow> t \<noteq> 0"
  by (simp add: gen_type_Validate)

lemma gen_type_UnmarshalText:
  "op_UnmarshalText (gen_type n) s t =
     (case types_Parse s of (i, None) \<Rightarrow> (i, None) | (_, Some e) \<Rightarrow> (t, Some e))"
  by (simp add: gen_type_def uuid_UnmarshalText_def types_Parse_def split: prod.splits option.splits)

lemma types_Parse_encodeHex [simp]: "types_Parse (uuid_encodeHex (raw t)) = (t, None)"
  by (simp add: types_Parse_def uuid_Parse_encodeHex)

lemma gen_type_UnmarshalText_encodeHex [simp]:
  "op_UnmarshalText (gen_type n) (uuid_encodeHex (raw t)) t0 = (t, None)"
  by (simp add: gen_type_UnmarshalText)

lemma NewID_nonzero: "NewID w = (t, w') \<Longrightarrow> t \<noteq> 0"
  by (auto simp: NewID_def uuid_New_def Id_eq_zero uuid_NewRandom_nonzero split: prod.splits)

lemma NewID_eq:
  "NewID w = (Id (uuid_NewRandom (rnd w (rnd_pos w))), w\<lparr>rnd_pos := Suc (rnd_pos w)\<rparr>)"
  by (simp add: NewID_def uuid_New_def random_word_def)

section \<open>Properties\<close>

text \<open>
  C13. The text of an identifier reads back as the identifier, through every way the service
  reads it: \<open>Parse\<close>, \<open>UnmarshalText\<close> (whatever the variable held before) and \<open>Scan\<close> of a text
  from the database; two identifiers with one text are equal, and \<open>Matches\<close> compares them.
\<close>

theorem identifier_text_roundtrip:
  "types_Parse (op_String (gen_type n) t) = (t, None) \<and>
   op_UnmarshalText (gen_type n) (op_String (gen_type n) t) old = (t, None) \<and>
   op_Scan (gen_type n) (SqlString (op_String (gen_type n) t)) old = (t, None) \<and>
   (op_String (gen_type n) t = op_String (gen_type n) u \<longleftrightarrow> t = u) \<and>
   (op_Matches (gen_type n) t (Some u) \<longleftrightarrow> t = u) \<and>
   length (op_String (gen_type n) t) = 36"
proof -
  have "uuid_encodeHex (raw t) \<noteq> []" by (simp add: length_uuid_encodeHex flip: length_0_conv)
  then have "op_Scan (gen_type n) (SqlString (op_String (gen_type n) t)) old = (t, None)"
    by (simp add: gen_type_def uuid_Scan_string_def uuid_Parse_encodeHex uuid_String_def)
  then show ?thesis
    by (auto simp: length_uuid_encodeHex uuid_encodeHex_inject intro: id.expand)
qed

end
