(* ===== verification/Validator.thy ===== *)
theory Validator
  imports Types
begin

text \<open>
  The struct validator the service uses (\<open>internal/validator\<close>, the vendored
  \<open>go-playground/validator\<close>): a field value with its list of tags, checked from left to right up
  to the first tag that fails, and the error texts of a struct and of a generated \<open>Options\<close>
  type.  String lengths are counted in runes, as \<open>utf8.RuneCountInString\<close> does, while the store
  counts bytes; the rune counter is here with the bounds that relate the two.
\<close>

section \<open>Counting runes\<close>

definition in_range :: "nat \<Rightarrow> nat \<Rightarrow> char \<Rightarrow> bool" where
  "in_range lo hi c \<longleftrightarrow> lo \<le> (of_char c :: nat) \<and> of_char c \<le> hi"

text \<open>
  The number of bytes of the first rune of \<open>c # cs\<close>.  A byte that starts no valid encoding, or
  whose continuation is short or out of range, is one rune of one byte.
\<close>

definition rune_len :: "char \<Rightarrow> string \<Rightarrow> nat" where
  "rune_len c cs =
     (let n = of_char c :: nat in
      if 194 \<le> n \<and> n \<le> 223 then
        (case cs of c1 # _ \<Rightarrow> if in_range 128 191 c1 then 2 else 1 | _ \<Rightarrow> 1)
      else if 224 \<le> n \<and> n \<le> 239 then
        (case cs of
           c1 # c2 # _ \<Rightarrow>
             if in_range (if n = 224 then 160 else 128) (if n = 237 then 159 else 191) c1
                \<and> in_range 128 191 c2
             then 3 else 1
         | _ \<Rightarrow> 1)
      else if 240 \<le> n \<and> n \<le> 244 then
        (case cs of
           c1 # c2 # c3 # _ \<Rightarrow>
             if in_range (if n = 240 then 144 else 128) (if n = 244 then 143 else 191) c1
                \<and> in_range 128 191 c2 \<and> in_range 128 191 c3
             then 4 else 1
         | _ \<Rightarrow> 1)
      else 1)"

fun rune_count :: "string \<Rightarrow> nat" where
  "rune_count [] = 0"
| "rune_count (c # cs) = Suc (rune_count (drop (rune_len c cs - 1) cs))"

lemma rune_len_bounds: "1 \<le> rune_len c cs \<and> rune_len c cs \<le> 4"
  by (auto simp: rune_len_def Let_def split: list.splits)

lemma rune_count_le_length: "rune_count s \<le> length s"
proof (induction s rule: rune_count.induct)
  case 1
  then show ?case by simp
next
  case (2 c cs)
  have "rune_count (c # cs) = Suc (rune_count (drop (rune_len c cs - 1) cs))" by simp
  also have "\<dots> \<le> Suc (length (drop (rune_len c cs - 1) cs))"
    using "2.IH" by simp
  also have "\<dots> \<le> length (c # cs)" by simp
  finally show ?case .
qed

lemma length_le_rune_count: "length s \<le> 4 * rune_count s"
proof (induction s rule: rune_count.induct)
  case 1
  then show ?case by simp
next
  case (2 c cs)
  have "length cs \<le> length (drop (rune_len c cs - 1) cs) + 3"
    unfolding length_drop using rune_len_bounds [of c cs] by arith
  with "2.IH" show ?case by simp
qed

lemma rune_count_eq_0 [simp]: "rune_count s = 0 \<longleftrightarrow> s = []"
  by (cases s) auto

lemma rune_len_ascii: "of_char c < (128 :: nat) \<Longrightarrow> rune_len c cs = 1"
  by (simp add: rune_len_def)

lemma rune_count_ascii: "\<forall>c \<in> set s. of_char c < (128 :: nat) \<Longrightarrow> rune_count s = length s"
  by (induction s) (auto simp: rune_len_ascii)

text \<open>A text of \<open>n\<close> copies of a two-byte letter, as Cyrillic ones are, has \<open>n\<close> runes.\<close>

fun two_byte_text :: "nat \<Rightarrow> char \<Rightarrow> char \<Rightarrow> string" where
  "two_byte_text 0 a b = []"
| "two_byte_text (Suc n) a b = a # b # two_byte_text n a b"

lemma rune_count_two_byte_text:
  assumes "in_range 194 223 a" and "in_range 128 191 b"
  shows "rune_count (two_byte_text n a b) = n"
  using assms by (induction n) (auto simp: rune_len_def Let_def in_range_def)

lemma length_two_byte_text: "length (two_byte_text n a b) = 2 * n"
  by (induction n) auto

section \<open>Field values and tags\<close>

datatype gvalue =
    VInt int
  | VStr string
  | VId uuid
  | VIface bool
  | VSlice nat
  | VBool bool

datatype vtag =
    Required
  | Omitempty
  | MinT int
  | MaxT int
  | Gte int
  | Lte int
  | OneOf "string list"
  | Base64url
  | Hexadecimal
  | HostnamePort

text \<open>\<open>hasValue\<close>: \<open>VIface b\<close> is an interface, pointer or function that is set when \<open>b\<close> holds.\<close>

fun has_value :: "gvalue \<Rightarrow> bool" where
  "has_value (VInt i) = (i \<noteq> 0)"
| "has_value (VStr s) = (s \<noteq> [])"
| "has_value (VId u) = (u \<noteq> uuid_Nil)"
| "has_value (VIface b) = b"
| "has_value (VSlice n) = (n \<noteq> 0)"
| "has_value (VBool b) = b"

text \<open>What \<open>min\<close> and \<open>max\<close> compare: the number itself, the runes of a text, the length of a slice.\<close>

fun magnitude :: "gvalue \<Rightarrow> int" where
  "magnitude (VInt i) = i"
| "magnitude (VStr s) = int (rune_count s)"
| "magnitude (VSlice n) = int n"
| "magnitude (VId u) = 16"
| "magnitude (VIface b) = 0"
| "magnitude (VBool b) = 0"

definition is_hexadecimal :: "string \<Rightarrow> bool" where
  "is_hexadecimal s =
     (let body = (case s of
                    c0 # c1 # rest \<Rightarrow>
                      if c0 = CHR ''0'' \<and> (c1 = CHR ''x'' \<or> c1 = CHR ''X'') then rest else s
                  | _ \<Rightarrow> s)
      in body \<noteq> [] \<and> list_all (\<lambda>c. xvalues c \<noteq> 255) body)"

definition is_b64url_char :: "char \<Rightarrow> bool" where
  "is_b64url_char c =
     (in_range 65 90 c \<or> in_range 97 122 c \<or> in_range 48 57 c \<or> c = CHR ''-'' \<or> c = CHR ''_'')"

text \<open>
  The regular expression of the tag \<open>base64url\<close>: groups of four characters of the alphabet, the
  last of which may end in one or two padding characters.
\<close>

fun is_base64url :: "string \<Rightarrow> bool" where
  "is_base64url (a # b # c # d # rest) =
     (is_b64url_char a \<and> is_b64url_char b \<and>
      (if rest = []
       then (is_b64url_char c \<and> (is_b64url_char d \<or> d = CHR ''='')) \<or> (c = CHR ''='' \<and> d = CHR ''='')
       else is_b64url_char c \<and> is_b64url_char d \<and> is_base64url rest))"
| "is_base64url _ = False"

text \<open>\<open>net.SplitHostPort\<close>: the port follows the last colon; a host in brackets may have colons.\<close>

definition net_SplitHostPort :: "string \<Rightarrow> (string \<times> string) option" where
  "net_SplitHostPort s =
     (let port = rev (takeWhile (\<lambda>c. c \<noteq> CHR '':'') (rev s)); hp = take (length s - length port - 1) s in
      if CHR '':'' \<notin> set s then None
      else if hd s = CHR ''['' then
        (let host = takeWhile (\<lambda>c. c \<noteq> CHR '']'') (tl s) in
         if CHR '']'' \<notin> set s \<or> length host + 2 \<noteq> length hp \<or> CHR ''['' \<in> set (tl s)
            \<or> CHR '']'' \<in> set (drop (length host + 2) s) then None
         else Some (host, port))
      else if CHR '':'' \<in> set hp \<or> CHR ''['' \<in> set s \<or> CHR '']'' \<in> set s then None
      else Some (hp, port))"

definition is_alnum :: "char \<Rightarrow> bool" where
  "is_alnum c \<longleftrightarrow> in_range 65 90 c \<or> in_range 97 122 c \<or> in_range 48 57 c"

definition is_host_label :: "string \<Rightarrow> bool" where
  "is_host_label s =
     (case s of [] \<Rightarrow> False
      | c # cs \<Rightarrow> is_alnum c \<and> length cs \<le> 62 \<and> list_all (\<lambda>d. is_alnum d \<or> d = CHR ''-'') cs)"

text \<open>A port is read by \<open>strconv.ParseInt\<close>, which takes a sign.\<close>

definition is_port :: "string \<Rightarrow> bool" where
  "is_port s =
     (let ds = (case s of c # cs \<Rightarrow> if c = CHR ''+'' then cs else s | [] \<Rightarrow> []);
          n = foldl (\<lambda>n c. n * 10 + (of_char c - 48)) (0 :: int) ds
      in ds \<noteq> [] \<and> list_all (in_range 48 57) ds \<and> 1 \<le> n \<and> n \<le> 65535)"

definition is_hostname_port :: "string \<Rightarrow> bool" where
  "is_hostname_port s =
     (case net_SplitHostPort s of
        None \<Rightarrow> False
      | Some (host, port) \<Rightarrow> is_port port \<and> (host = [] \<or> list_all is_host_label (strings_Split (CHR ''.'') host)))"

fun check_tag :: "vtag \<Rightarrow> gvalue \<Rightarrow> bool" where
  "check_tag Required v = has_value v"
| "check_tag Omitempty v = True"
| "check_tag (MinT n) v = (n \<le> magnitude v)"
| "check_tag (MaxT n) v = (magnitude v \<le> n)"
| "check_tag (Gte n) v = (n \<le> magnitude v)"
| "check_tag (Lte n) v = (magnitude v \<le> n)"
| "check_tag (OneOf xs) v = (case v of VStr s \<Rightarrow> s \<in> set xs | _ \<Rightarrow> False)"
| "check_tag Base64url v = (case v of VStr s \<Rightarrow> is_base64url s | _ \<Rightarrow> False)"
| "check_tag Hexadecimal v = (case v of VStr s \<Rightarrow> is_hexadecimal s | _ \<Rightarrow> False)"
| "check_tag HostnamePort v = (case v of VStr s \<Rightarrow> is_hostname_port s | _ \<Rightarrow> False)"

primrec tag_name :: "vtag \<Rightarrow> string" where
  "tag_name Required = ''required''"
| "tag_name Omitempty = ''omitempty''"
| "tag_name (MinT n) = ''min''"
| "tag_name (MaxT n) = ''max''"
| "tag_name (Gte n) = ''gte''"
| "tag_name (Lte n) = ''lte''"
| "tag_name (OneOf xs) = ''oneof''"
| "tag_name Base64url = ''base64url''"
| "tag_name Hexadecimal = ''hexadecimal''"
| "tag_name HostnamePort = ''hostname_port''"

text \<open>\<open>traverseField\<close>: the first tag that fails; \<open>omitempty\<close> ends the walk at an empty value.\<close>

fun run_tags :: "vtag list \<Rightarrow> gvalue \<Rightarrow> string option" where
  "run_tags [] v = None"
| "run_tags (t # ts) v =
     (if t = Omitempty \<and> \<not> has_value v then None
      else if check_tag t v then run_tags ts v
      else Some (tag_name t))"

section \<open>Errors of a struct and of generated options\<close>

definition field_error_text :: "string \<Rightarrow> string \<Rightarrow> string \<Rightarrow> string" where
  "field_error_text ns fld tag =
     ''Key: '' @ [CHR 0x27] @ ns @ [CHR 0x27] @ '' Error:Field validation for '' @ [CHR 0x27] @ fld
     @ [CHR 0x27] @ '' failed on the '' @ [CHR 0x27] @ tag @ [CHR 0x27] @ '' tag''"

fun join :: "string \<Rightarrow> string list \<Rightarrow> string" where
  "join sep [] = []"
| "join sep [x] = x"
| "join sep (x # y # xs) = x @ sep @ join sep (y # xs)"

type_synonym vfield = "string \<times> gvalue \<times> vtag list"

definition struct_errors :: "string \<Rightarrow> vfield list \<Rightarrow> string list" where
  "struct_errors nm fs =
     List.map_filter (\<lambda>(f, v, ts).
       map_option (\<lambda>t. field_error_text (nm @ ''.'' @ f) f t) (run_tags ts v)) fs"

text \<open>\<open>Validator.Struct\<close>: every field is checked; the texts of the failing ones, one per line.\<close>

definition validate_struct :: "string \<Rightarrow> vfield list \<Rightarrow> goerr option" where
  "validate_struct nm fs =
     (let es = struct_errors nm fs in
      if es = [] then None else Some (Errorf (join [CHR 0x0A] es) None))"

lemma validate_struct_None:
  "validate_struct nm fs = None \<longleftrightarrow> (\<forall>(f, v, ts) \<in> set fs. run_tags ts v = None)"
proof -
  have "struct_errors nm fs = [] \<longleftrightarrow> (\<forall>(f, v, ts) \<in> set fs. run_tags ts v = None)"
    by (induction fs) (auto simp: struct_errors_def List.map_filter_def)
  then show ?thesis by (simp add: validate_struct_def Let_def)
qed

lemma validate_struct_Is: "validate_struct nm fs = Some e \<Longrightarrow> \<not> errors_Is e tgt"
  by (auto simp: validate_struct_def Let_def split: if_splits)

text \<open>
  The \<open>Validate\<close> method that \<open>options-gen\<close> writes: each field on its own, and the failures in one
  error.
\<close>

definition options_errors :: "vfield list \<Rightarrow> string list" where
  "options_errors fs =
     List.map_filter (\<lambda>(f, v, ts).
       map_option (\<lambda>t. ''('' @ f @ ''): field `'' @ f @ ''` did not pass the test: ''
         @ field_error_text [] [] t) (run_tags ts v)) fs"

definition validate_options :: "vfield list \<Rightarrow> goerr option" where
  "validate_options fs =
     (let es = options_errors fs in
      if es = [] then None else Some (Errorf (''ValidationErrors: '' @ join ''; '' es) None))"

lemma validate_options_None:
  "validate_options fs = None \<longleftrightarrow> (\<forall>(f, v, ts) \<in> set fs. run_tags ts v = None)"
proof -
  have "options_errors fs = [] \<longleftrightarrow> (\<forall>(f, v, ts) \<in> set fs. run_tags ts v = None)"
    by (induction fs) (auto simp: options_errors_def List.map_filter_def)
  then show ?thesis by (simp add: validate_options_def Let_def)
qed

end
