(* ===== verification/Url.thy ===== *)
theory Url
  imports Validator
begin

text \<open>
  \<open>net/url\<close> as far as the tag \<open>url\<close> of the struct validator reads it (\<open>isURL\<close> and \<open>isFileURL\<close> in the
  vendored \<open>go-playground/validator\<close>): \<open>Parse\<close>, \<open>ParseRequestURI\<close> and what they call.  Only whether a part is
  empty matters for the tag, so of a URL the scheme, the opaque part, the host and the fragment are kept.
\<close>

section \<open>Escapes\<close>

datatype url_mode = encodePath | encodeUserPassword | encodeFragment | encodeHost | encodeZone

definition url_hex :: "char \<Rightarrow> int option" where
  "url_hex c =
     (if in_range 48 57 c then Some (of_char c - 48)
      else if in_range 97 102 c then Some (of_char c - 87)
      else if in_range 65 70 c then Some (of_char c - 55) else None)"

text \<open>\<open>shouldEscape\<close> in the modes of a host, which alone are asked.\<close>

definition host_shouldEscape :: "char \<Rightarrow> bool" where
  "host_shouldEscape c \<longleftrightarrow> \<not> is_alnum c \<and> c \<notin> set ''!$&()*+,;=:[]<>-_.~'' \<and> c \<noteq> CHR 0x27 \<and> c \<noteq> CHR 0x22"

text \<open>\<open>unescape\<close>: \<open>None\<close> is an error.\<close>

fun url_unescape :: "url_mode \<Rightarrow> string \<Rightarrow> string option" where
  "url_unescape mode [] = Some []"
| "url_unescape mode (c # cs) =
     (if c = CHR ''%'' then
        (case cs of
           a # b # rest \<Rightarrow>
             (case (url_hex a, url_hex b) of
                (Some x, Some y) \<Rightarrow>
                  if mode = encodeHost \<and> x < 8 \<and> [a, b] \<noteq> ''25'' then None
                  else if mode = encodeZone \<and> [a, b] \<noteq> ''25'' \<and> char_of (16 * x + y) \<noteq> CHR '' ''
                          \<and> host_shouldEscape (char_of (16 * x + y)) then None
                  else map_option (Cons (char_of (16 * x + y))) (url_unescape mode rest)
              | _ \<Rightarrow> None)
         | _ \<Rightarrow> None)
      else if (mode = encodeHost \<or> mode = encodeZone) \<and> of_char c < (128 :: nat) \<and> host_shouldEscape c then None
      else map_option (Cons c) (url_unescape mode cs))"

section \<open>The parts of a URL\<close>

text \<open>The text before the first, or around the last, occurrence of a character.\<close>

definition cut_first :: "char \<Rightarrow> string \<Rightarrow> string \<times> string" where
  "cut_first d s = (takeWhile (\<lambda>c. c \<noteq> d) s, drop 1 (dropWhile (\<lambda>c. c \<noteq> d) s))"

definition after_last :: "char \<Rightarrow> string \<Rightarrow> string" where
  "after_last d s = rev (takeWhile (\<lambda>c. c \<noteq> d) (rev s))"

definition before_last :: "char \<Rightarrow> string \<Rightarrow> string" where
  "before_last d s = take (length s - length (after_last d s) - 1) s"

text \<open>\<open>getScheme\<close>: the scheme and what follows it; without a scheme the whole text.\<close>

definition is_letter :: "char \<Rightarrow> bool" where
  "is_letter c \<longleftrightarrow> in_range 65 90 c \<or> in_range 97 122 c"

definition url_getScheme :: "string \<Rightarrow> (string \<times> string) option" where
  "url_getScheme s =
     (let p = takeWhile (\<lambda>c. is_alnum c \<or> c \<in> set ''+-.'') s; rest = drop (length p) s in
      if p \<noteq> [] \<and> \<not> is_letter (hd p) then Some ([], s)
      else (case rest of
              c # cs \<Rightarrow> if c \<noteq> CHR '':'' then Some ([], s) else if p = [] then None else Some (p, cs)
            | [] \<Rightarrow> Some ([], s)))"

definition validOptionalPort :: "string \<Rightarrow> bool" where
  "validOptionalPort port =
     (case port of [] \<Rightarrow> True | c # cs \<Rightarrow> c = CHR '':'' \<and> list_all (in_range 48 57) cs)"

text \<open>The index of \<open>%25\<close>, which starts the zone of an address in brackets.\<close>

fun zone_split :: "string \<Rightarrow> (string \<times> string) option" where
  "zone_split [] = None"
| "zone_split (c # cs) =
     (if take 3 (c # cs) = ''%25'' then Some ([], c # cs)
      else map_option (\<lambda>(a, b). (c # a, b)) (zone_split cs))"

definition url_parseHost :: "string \<Rightarrow> string option" where
  "url_parseHost host =
     (if take 1 host = ''['' then
        (if CHR '']'' \<notin> set host then None
         else if \<not> validOptionalPort (after_last CHR '']'' host) then None
         else (case zone_split (before_last CHR '']'' host) of
                 Some (h1, h2) \<Rightarrow>
                   (case (url_unescape encodeHost h1, url_unescape encodeZone h2,
                          url_unescape encodeHost (CHR '']'' # after_last CHR '']'' host)) of
                      (Some a, Some b, Some c) \<Rightarrow> Some (a @ b @ c)
                    | _ \<Rightarrow> None)
               | None \<Rightarrow> url_unescape encodeHost host))
      else if CHR '':'' \<in> set host \<and> \<not> validOptionalPort (CHR '':'' # after_last CHR '':'' host) then None
      else url_unescape encodeHost host)"

definition validUserinfo :: "string \<Rightarrow> bool" where
  "validUserinfo s = list_all (\<lambda>c. is_alnum c \<or> c \<in> set ''-._:~!$&()*+,;=%@'' \<or> c = CHR 0x27) s"

text \<open>\<open>parseAuthority\<close>: the host; the user is not needed beyond being well-formed.\<close>

definition url_parseAuthority :: "string \<Rightarrow> string option" where
  "url_parseAuthority authority =
     (if CHR ''@'' \<notin> set authority then url_parseHost authority
      else (case url_parseHost (after_last CHR ''@'' authority) of
              None \<Rightarrow> None
            | Some host \<Rightarrow>
                (let userinfo = before_last CHR ''@'' authority in
                 if \<not> validUserinfo userinfo then None
                 else if CHR '':'' \<notin> set userinfo
                 then (if url_unescape encodeUserPassword userinfo = None then None else Some host)
                 else (let (username, password) = cut_first CHR '':'' userinfo in
                       if url_unescape encodeUserPassword username = None \<or> url_unescape encodeUserPassword password = None
                       then None else Some host))))"

record url =
  url_Scheme :: string
  url_Opaque :: string
  url_Host :: string
  url_Fragment :: string

definition no_url :: url where
  "no_url = \<lparr>url_Scheme = [], url_Opaque = [], url_Host = [], url_Fragment = []\<rparr>"

definition is_ctl :: "char \<Rightarrow> bool" where
  "is_ctl c \<longleftrightarrow> of_char c < (32 :: nat) \<or> c = CHR 0x7F"

text \<open>\<open>parse\<close>; \<open>viaRequest\<close> tells that the text must be absolute.\<close>

definition url_parse :: "string \<Rightarrow> bool \<Rightarrow> url option" where
  "url_parse rawURL viaRequest =
     (if list_ex is_ctl rawURL then None
      else if rawURL = [] \<and> viaRequest then None
      else if rawURL = ''*'' then Some no_url
      else (case url_getScheme rawURL of
              None \<Rightarrow> None
            | Some (scheme, rest) \<Rightarrow>
                (let rest = fst (cut_first CHR ''?'' rest); u = no_url\<lparr>url_Scheme := scheme\<rparr> in
                 if take 1 rest \<noteq> ''/'' \<and> scheme \<noteq> [] then Some (u\<lparr>url_Opaque := rest\<rparr>)
                 else if take 1 rest \<noteq> ''/'' \<and> viaRequest then None
                 else if take 1 rest \<noteq> ''/'' \<and> CHR '':'' \<in> set (fst (cut_first CHR ''/'' rest)) then None
                 else if (scheme \<noteq> [] \<or> \<not> viaRequest \<and> take 3 rest \<noteq> ''///'') \<and> take 2 rest = ''//'' then
                   (let authority = takeWhile (\<lambda>c. c \<noteq> CHR ''/'') (drop 2 rest); path = dropWhile (\<lambda>c. c \<noteq> CHR ''/'') (drop 2 rest) in
                    case url_parseAuthority authority of
                      None \<Rightarrow> None
                    | Some host \<Rightarrow> if url_unescape encodePath path = None then None else Some (u\<lparr>url_Host := host\<rparr>))
                 else if url_unescape encodePath rest = None then None else Some u)))"

definition url_Parse :: "string \<Rightarrow> url option" where
  "url_Parse rawURL =
     (let (u, frag) = cut_first CHR ''#'' rawURL in
      case url_parse u False of
        None \<Rightarrow> None
      | Some url \<Rightarrow>
          if frag = [] then Some url
          else (case url_unescape encodeFragment frag of
                  None \<Rightarrow> None
                | Some f \<Rightarrow> Some (url\<lparr>url_Fragment := f\<rparr>)))"

section \<open>The tag\<close>

text \<open>
  \<open>strings.ToLower\<close>: ASCII letters, and the two other letters whose lower case is ASCII; the rest stays
  outside of ASCII, where the parser treats all bytes alike.
\<close>

fun url_ToLower :: "string \<Rightarrow> string" where
  "url_ToLower [] = []"
| "url_ToLower (c # cs) =
     (if in_range 65 90 c then char_of (of_char c + 32 :: nat) # url_ToLower cs
      else if c = CHR 0xC4 \<and> take 1 cs = [CHR 0xB0] then CHR ''i'' # url_ToLower (drop 1 cs)
      else if c = CHR 0xE2 \<and> take 2 cs = [CHR 0x84, CHR 0xAA] then CHR ''k'' # url_ToLower (drop 2 cs)
      else c # url_ToLower cs)"

definition isFileURL :: "string \<Rightarrow> bool" where
  "isFileURL path \<longleftrightarrow> take 6 path = ''file:/'' \<and> url_parse path True \<noteq> None"

definition isURL :: "string \<Rightarrow> bool" where
  "isURL field =
     (let s = url_ToLower field in
      if s = [] then False
      else if isFileURL s then True
      else (case url_Parse s of
              None \<Rightarrow> False
            | Some u \<Rightarrow> url_Scheme u \<noteq> [] \<and> \<not> (url_Host u = [] \<and> url_Fragment u = [] \<and> url_Opaque u = [])))"

lemma isURL_examples:
  "isURL ''http://localhost:3000''" "isURL ''HTTPS://user:pw@example.org:443/a%20b?c#d''" "isURL ''file:/etc''"
  "isURL ''http://[fe80::1%25en0]:80/''" "isURL ''mailto:a''"
  "isURL ''localhost:x/y z''" "\<not> isURL []" "\<not> isURL ''http://''" "\<not> isURL ''http://a:b/''"
  "\<not> isURL ''http://a b/''" "\<not> isURL ''DSN from Client Keys page''" "\<not> isURL ''//host/path''"
  by code_simp+

end
