(* ===== verification/GoTime.thy ===== *)
theory GoTime
  imports Prelude
begin

text \<open>
  The part of Go's \<open>time\<close> package that the service calls on instants and durations: durations in
  nanoseconds, \<open>IsZero\<close>, \<open>Equal\<close>, and \<open>AddDate\<close> for whole years, with the proleptic Gregorian
  calendar of \<open>time.Date\<close> (in UTC): February 29 becomes March 1 in a year that is not a leap year.
\<close>

definition hour :: time where "hour = 60 * minute"
definition day_ns :: time where "day_ns = 24 * hour"

lemmas duration_defs = millisecond_def second_def minute_def hour_def day_ns_def

definition time_IsZero :: "time \<Rightarrow> bool" where
  "time_IsZero t \<longleftrightarrow> t = 0"

definition time_Equal :: "time \<Rightarrow> time \<Rightarrow> bool" where
  "time_Equal t u \<longleftrightarrow> t = u"

text \<open>Years are counted from year 1, so \<open>years = 0\<close> is the year 1.\<close>

definition leap :: "int \<Rightarrow> bool" where
  "leap years \<longleftrightarrow> (years + 1) mod 4 = 0 \<and> ((years + 1) mod 100 \<noteq> 0 \<or> (years + 1) mod 400 = 0)"

definition days_before :: "int \<Rightarrow> int" where
  "days_before years = 365 * years + years div 4 - years div 100 + years div 400"

definition split_days :: "int \<Rightarrow> int \<times> int" where
  "split_days d =
     (let n400 = d div 146097; r = d mod 146097;
          n100 = min 3 (r div 36524); r = r - 36524 * n100;
          n4 = r div 1461; r = r mod 1461;
          n1 = min 3 (r div 365)
      in (400 * n400 + 100 * n100 + 4 * n4 + n1, r - 365 * n1))"

definition add_years :: "int \<Rightarrow> int \<Rightarrow> int" where
  "add_years n d =
     (let (y, yday) = split_days d;
          from_march = ((if leap y then 60 else 59) \<le> yday);
          base = (if leap y \<and> from_march then yday - 1 else yday)
      in days_before (y + n) + base + (if leap (y + n) \<and> from_march then 1 else 0))"

definition time_AddDate_years :: "int \<Rightarrow> time \<Rightarrow> time" where
  "time_AddDate_years n t = add_years n (t div day_ns) * day_ns + t mod day_ns"

lemma days_before_parts:
  assumes "0 \<le> b" "b \<le> 3" "0 \<le> c" "c \<le> 24" "0 \<le> n" "n \<le> (3 :: int)"
  shows "days_before (400 * a + 100 * b + 4 * c + n) = 146097 * a + 36524 * b + 1461 * c + 365 * n"
proof -
  have "(400 * a + 100 * b + 4 * c + n) div 4 = 100 * a + 25 * b + c"
    by (rule int_div_pos_eq [of _ _ _ n]) (use assms in simp_all)
  moreover have "(400 * a + 100 * b + 4 * c + n) div 100 = 4 * a + b"
    by (rule int_div_pos_eq [of _ _ _ "4 * c + n"]) (use assms in simp_all)
  moreover have "(400 * a + 100 * b + 4 * c + n) div 400 = a"
    by (rule int_div_pos_eq [of _ _ _ "100 * b + 4 * c + n"]) (use assms in simp_all)
  ultimately show ?thesis by (simp add: days_before_def)
qed

text \<open>The last unit of a cycle may be one day longer, so the quotient is capped.\<close>

lemma capped_div:
  fixes r k :: int
  assumes "0 < k" "0 \<le> r" "n = min 3 (r div k)"
  shows "0 \<le> n \<and> n \<le> 3 \<and> 0 \<le> r - k * n \<and> (r < 4 * k + e \<longrightarrow> 0 < e \<longrightarrow> r - k * n < k + e)"
proof (cases "r div k \<le> 3")
  case True
  then have n: "n = r div k" using assms(3) by simp
  have "r - k * n = r mod k" unfolding n by (simp add: minus_mult_div_eq_mod)
  moreover have "0 \<le> n" unfolding n using assms by (simp add: pos_imp_zdiv_nonneg_iff)
  moreover have "0 \<le> r mod k" "r mod k < k" using assms(1) by simp_all
  ultimately show ?thesis using True n by linarith
next
  case False
  then have n: "n = 3" using assms(3) by simp
  from False have "4 * k \<le> r div k * k" using assms(1) by (intro mult_right_mono) simp_all
  moreover have "r div k * k \<le> r"
    using assms(1) div_mult_mod_eq [of r k] pos_mod_sign [of k r] by linarith
  ultimately have "4 * k \<le> r" by (rule order_trans)
  then show ?thesis using n assms(1) by simp
qed

lemma split_days_sound:
  assumes "split_days d = (y, yday)"
  shows "days_before y + yday = d \<and> 0 \<le> yday"
proof -
  define n400 where "n400 = d div 146097"
  define r where "r = d mod 146097"
  define n100 where "n100 = min 3 (r div 36524)"
  define r1 where "r1 = r - 36524 * n100"
  define n4 where "n4 = r1 div 1461"
  define r2 where "r2 = r1 mod 1461"
  define n1 where "n1 = min 3 (r2 div 365)"
  have "split_days d = (400 * n400 + 100 * n100 + 4 * n4 + n1, r2 - 365 * n1)"
    unfolding split_days_def Let_def n400_def r_def n100_def r1_def n4_def r2_def n1_def by (rule refl)
  with assms have y: "y = 400 * n400 + 100 * n100 + 4 * n4 + n1" and yd: "yday = r2 - 365 * n1"
    by (simp_all only: prod.inject)
  have r: "0 \<le> r" "r < 4 * 36524 + 1" by (simp_all add: r_def)
  from capped_div [OF _ r(1) n100_def, of 1] r
  have n100: "0 \<le> n100" "n100 \<le> 3" and r1: "0 \<le> r1" "r1 < 36525" by (simp_all add: r1_def)
  have "n4 < 25" using r1 zdiv_mono1 [of r1 36524 1461] by (simp add: n4_def)
  moreover have "0 \<le> n4" using r1 by (simp add: n4_def pos_imp_zdiv_nonneg_iff)
  ultimately have n4: "0 \<le> n4" "n4 \<le> 24" by simp_all
  have r2: "0 \<le> r2" by (simp add: r2_def)
  from capped_div [OF _ r2 n1_def] have n1: "0 \<le> n1" "n1 \<le> 3" and yd0: "0 \<le> yday"
    by (simp_all add: yd)
  have "d = 146097 * n400 + r" unfolding n400_def r_def by (rule mult_div_mod_eq [symmetric])
  moreover have "r = 36524 * n100 + r1" by (simp add: r1_def)
  moreover have "r1 = 1461 * n4 + r2" unfolding n4_def r2_def by (rule mult_div_mod_eq [symmetric])
  moreover have "r2 = 365 * n1 + yday" by (simp add: yd)
  ultimately have "d = 146097 * n400 + 36524 * n100 + 1461 * n4 + 365 * n1 + yday" by simp
  with days_before_parts [OF n100 n4 n1, of n400] y yd0 show ?thesis by simp
qed

lemma add_years_100: "d < add_years 100 d"
proof -
  obtain y yday where s: "split_days d = (y, yday)" by force
  note sound = split_days_sound [OF s]
  have "(y + 100) div 4 = y div 4 + 25" using div_mult_self1 [of 4 y 25] by simp
  moreover have "(y + 100) div 100 = y div 100 + 1" by simp
  moreover have "y div 400 \<le> (y + 100) div 400" by (simp add: zdiv_mono1)
  ultimately have "days_before y + 36524 \<le> days_before (y + 100)" by (simp add: days_before_def)
  moreover have "days_before (y + 100) + yday - 1 \<le> add_years 100 d"
    by (simp add: add_years_def s Let_def)
  ultimately show ?thesis using sound by simp
qed

text \<open>\<open>time.Now().AddDate(100, 0, 0)\<close> is later than now.\<close>

lemma time_AddDate_century: "t < time_AddDate_years 100 t"
proof -
  have "t div day_ns + 1 \<le> add_years 100 (t div day_ns)" using add_years_100 [of "t div day_ns"] by simp
  then have "(t div day_ns + 1) * day_ns \<le> add_years 100 (t div day_ns) * day_ns"
    by (rule mult_right_mono) (simp add: duration_defs)
  moreover have "t = t div day_ns * day_ns + t mod day_ns" by simp
  moreover have "t mod day_ns < day_ns" "0 \<le> t mod day_ns" by (simp_all add: duration_defs)
  ultimately have "t < add_years 100 (t div day_ns) * day_ns + t mod day_ns"
    by (simp only: distrib_right)
  then show ?thesis by (simp only: time_AddDate_years_def)
qed

end
