(* ===== verification/Config.thy ===== *)
theory Config
  imports Url GoTime
begin

text \<open>
  The configuration of the service (\<open>internal/config\<close>): its sections as records, the validator's walk over the
  nested structs with their tags, and \<open>ParseAndValidate\<close>, for which the reader of TOML files is an argument.
\<close>

section \<open>The sections\<close>

record Keycloak =
  kk_BasePath :: string
  kk_Realm :: string
  kk_ClientID :: string
  kk_ClientSecret :: string
  kk_DebugMode :: bool

record ClientConfig =
  cc_Keycloak :: Keycloak

record GlobalConfig =
  gl_Env :: string

record LogConfig =
  lc_Level :: string

record RequiredAccess =
  ra_Resource :: string
  ra_Role :: string

record ClientServerConfig =
  cs_Addr :: string
  cs_AllowOrigins :: "string list"
  cs_SecWSProtocol :: string
  cs_RequiredAccess :: RequiredAccess

record ManagerServerConfig =
  gs_Addr :: string
  gs_AllowOrigins :: "string list"
  gs_SecWSProtocol :: string
  gs_RequiredAccess :: RequiredAccess

record DebugServerConfig =
  ds_Addr :: string

record ServersConfig =
  se_Client :: ClientServerConfig
  se_Manager :: ManagerServerConfig
  se_Debug :: DebugServerConfig

record SentryConfig =
  sn_DSN :: string

record PostgresConfig =
  pg_User :: string
  pg_Password :: string
  pg_Addr :: string
  pg_Database :: string
  pg_DebugMode :: bool

record DBConfig =
  dc_Postgres :: PostgresConfig

record AFCVerdictsProcessorConfig =
  vc_Brokers :: "string list"
  vc_Consumers :: int
  vc_ConsumerGroup :: string
  vc_VerdictsTopic :: string
  vc_VerdictsDlqTopic :: string
  vc_VerdictsSigningPublicKey :: string
  vc_BatchSize :: int

record MsgProducerConfig =
  pc_Brokers :: "string list"
  pc_Topic :: string
  pc_BatchSize :: int
  pc_EncryptKey :: string

record OutboxConfig =
  oc_Workers :: int
  oc_IdleTime :: time
  oc_ReserveFor :: time

record ManagerLoadConfig =
  lo_MaxProblems :: int

record ServicesConfig =
  sc_MsgProducerConfig :: MsgProducerConfig
  sc_OutboxConfig :: OutboxConfig
  sc_ManagerLoadConfig :: ManagerLoadConfig
  sc_AFCVerdictProcessorConfig :: AFCVerdictsProcessorConfig

record Config =
  co_Clients :: ClientConfig
  co_Global :: GlobalConfig
  co_Log :: LogConfig
  co_Servers :: ServersConfig
  co_Sentry :: SentryConfig
  co_DB :: DBConfig
  co_Services :: ServicesConfig

definition config_IsProduction :: "Config \<Rightarrow> bool" where
  "config_IsProduction c \<longleftrightarrow> gl_Env (co_Global c) = ''prod''"

section \<open>The walk of the validator\<close>

text \<open>
  What \<open>validateStruct\<close> meets: a field with tags, a slice whose tags after \<open>dive\<close> go to its elements, a nested
  struct, for which \<open>required\<close> is skipped.
\<close>

datatype config_tag = Basic vtag | UrlTag

datatype config_field =
    CField string gvalue "config_tag list"
  | CDive string "gvalue list" "config_tag list"
  | CStruct string "config_field list"

fun run_config_tags :: "config_tag list \<Rightarrow> gvalue \<Rightarrow> string option" where
  "run_config_tags [] v = None"
| "run_config_tags (Basic t # ts) v =
     (if t = Omitempty \<and> \<not> has_value v then None
      else if check_tag t v then run_config_tags ts v else Some (tag_name t))"
| "run_config_tags (UrlTag # ts) v =
     (if (case v of VStr s \<Rightarrow> isURL s | _ \<Rightarrow> False) then run_config_tags ts v else Some ''url'')"

definition field_errors :: "string \<Rightarrow> string \<Rightarrow> config_tag list \<Rightarrow> gvalue \<Rightarrow> string list" where
  "field_errors ns fld ts v =
     (case run_config_tags ts v of None \<Rightarrow> [] | Some t \<Rightarrow> [field_error_text (ns @ fld) fld t])"

definition element_name :: "string \<Rightarrow> nat \<Rightarrow> string" where
  "element_name fld i = fld @ ''['' @ nat_itoa i @ '']''"

fun config_errors :: "string \<Rightarrow> config_field \<Rightarrow> string list" where
  "config_errors ns (CField fld v ts) = field_errors ns fld ts v"
| "config_errors ns (CDive fld vs ts) =
     concat (map (\<lambda>(i, v). field_errors ns (element_name fld i) ts v) (List.enumerate 0 vs))"
| "config_errors ns (CStruct fld fs) = concat (map (config_errors (ns @ fld @ ''.'')) fs)"

text \<open>No error below a field.\<close>

fun config_passes :: "config_field \<Rightarrow> bool" where
  "config_passes (CField fld v ts) = (run_config_tags ts v = None)"
| "config_passes (CDive fld vs ts) = list_all (\<lambda>v. run_config_tags ts v = None) vs"
| "config_passes (CStruct fld fs) = list_all config_passes fs"

lemma config_errors_None: "config_errors ns f = [] \<longleftrightarrow> config_passes f"
proof (induction ns f rule: config_errors.induct)
  case (1 ns fld v ts)
  then show ?case by (simp add: field_errors_def split: option.splits)
next
  case (2 ns fld vs ts)
  have "concat (map (\<lambda>(i, v). field_errors ns (element_name fld i) ts v) (List.enumerate n vs)) = [] \<longleftrightarrow>
      list_all (\<lambda>v. run_config_tags ts v = None) vs" for n
    by (induction vs arbitrary: n) (auto simp: field_errors_def split: option.splits)
  then show ?case by (simp only: config_errors.simps config_passes.simps)
next
  case (3 ns fld fs)
  then show ?case by (auto simp: list_all_iff)
qed

section \<open>The tags of the configuration\<close>

definition required_field :: "string \<Rightarrow> string \<Rightarrow> config_field" where
  "required_field fld s = CField fld (VStr s) [Basic Required]"

definition hostport_field :: "string \<Rightarrow> string \<Rightarrow> config_field" where
  "hostport_field fld s = CField fld (VStr s) [Basic Required, Basic HostnamePort]"

definition AllowOrigins_field :: "string list \<Rightarrow> config_field" where
  "AllowOrigins_field xs = CDive ''AllowOrigins'' (map VStr xs) [Basic Required, UrlTag]"

definition Brokers_field :: "string list \<Rightarrow> config_field" where
  "Brokers_field xs = CDive ''Brokers'' (map VStr xs) [Basic Required, Basic HostnamePort, Basic (MinT 1)]"

definition RequiredAccess_fields :: "RequiredAccess \<Rightarrow> config_field list" where
  "RequiredAccess_fields a = [required_field ''Resource'' (ra_Resource a), required_field ''Role'' (ra_Role a)]"

definition ServersConfig_fields :: "ServersConfig \<Rightarrow> config_field list" where
  "ServersConfig_fields s =
     [CStruct ''Client''
        [hostport_field ''Addr'' (cs_Addr (se_Client s)), AllowOrigins_field (cs_AllowOrigins (se_Client s)),
         required_field ''SecWSProtocol'' (cs_SecWSProtocol (se_Client s)),
         CStruct ''RequiredAccess'' (RequiredAccess_fields (cs_RequiredAccess (se_Client s)))],
      CStruct ''Manager''
        [hostport_field ''Addr'' (gs_Addr (se_Manager s)), AllowOrigins_field (gs_AllowOrigins (se_Manager s)),
         required_field ''SecWSProtocol'' (gs_SecWSProtocol (se_Manager s)),
         CStruct ''RequiredAccess'' (RequiredAccess_fields (gs_RequiredAccess (se_Manager s)))],
      CStruct ''Debug'' [hostport_field ''Addr'' (ds_Addr (se_Debug s))]]"

definition PostgresConfig_fields :: "PostgresConfig \<Rightarrow> config_field list" where
  "PostgresConfig_fields p =
     [required_field ''User'' (pg_User p), required_field ''Password'' (pg_Password p), hostport_field ''Addr'' (pg_Addr p),
      required_field ''Database'' (pg_Database p)]"

definition Keycloak_fields :: "Keycloak \<Rightarrow> config_field list" where
  "Keycloak_fields k =
     [required_field ''BasePath'' (kk_BasePath k), required_field ''Realm'' (kk_Realm k), required_field ''ClientID'' (kk_ClientID k),
      required_field ''ClientSecret'' (kk_ClientSecret k)]"

definition ServicesConfig_fields :: "ServicesConfig \<Rightarrow> config_field list" where
  "ServicesConfig_fields s =
     (let p = sc_MsgProducerConfig s; o' = sc_OutboxConfig s; v = sc_AFCVerdictProcessorConfig s in
      [CStruct ''MsgProducerConfig''
         [Brokers_field (pc_Brokers p), required_field ''Topic'' (pc_Topic p),
          CField ''BatchSize'' (VInt (pc_BatchSize p)) [Basic Required, Basic (MinT 1), Basic (MaxT 1000)]],
       CStruct ''OutboxConfig''
         [CField ''Workers'' (VInt (oc_Workers o')) [Basic Required, Basic (Gte 1)],
          CField ''IdleTime'' (VInt (oc_IdleTime o')) [Basic Required],
          CField ''ReserveFor'' (VInt (oc_ReserveFor o')) [Basic Required]],
       CStruct ''ManagerLoadConfig''
         [CField ''MaxProblems'' (VInt (lo_MaxProblems (sc_ManagerLoadConfig s))) [Basic Required, Basic (Gte 1)]],
       CStruct ''AFCVerdictProcessorConfig''
         [Brokers_field (vc_Brokers v), CField ''Consumers'' (VInt (vc_Consumers v)) [Basic (MinT 1), Basic (MaxT 1000)],
          required_field ''ConsumerGroup'' (vc_ConsumerGroup v), required_field ''VerdictsTopic'' (vc_VerdictsTopic v),
          required_field ''VerdictsDlqTopic'' (vc_VerdictsDlqTopic v),
          required_field ''VerdictsSigningPublicKey'' (vc_VerdictsSigningPublicKey v),
          CField ''BatchSize'' (VInt (vc_BatchSize v)) [Basic (MinT 1), Basic (MaxT 1000)]]])"

text \<open>Fields without a tag pass; \<open>SentryConfig\<close> has no other.\<close>

definition Config_fields :: "Config \<Rightarrow> config_field" where
  "Config_fields c = CStruct ''Config''
     [CStruct ''Clients'' [CStruct ''Keycloak'' (Keycloak_fields (cc_Keycloak (co_Clients c)))],
      CStruct ''Global'' [CField ''Env'' (VStr (gl_Env (co_Global c)))
        [Basic Required, Basic (OneOf [''dev'', ''stage'', ''prod''])]],
      CStruct ''Log'' [CField ''Level'' (VStr (lc_Level (co_Log c)))
        [Basic Required, Basic (OneOf [''debug'', ''info'', ''warn'', ''error''])]],
      CStruct ''Servers'' (ServersConfig_fields (co_Servers c)),
      CStruct ''Sentry'' [],
      CStruct ''DB'' [CStruct ''Postgres'' (PostgresConfig_fields (dc_Postgres (co_DB c)))],
      CStruct ''Services'' (ServicesConfig_fields (co_Services c))]"

definition config_Validate :: "Config \<Rightarrow> goerr option" where
  "config_Validate c =
     (let es = config_errors [] (Config_fields c) in
      if es = [] then None else Some (Errorf (join [CHR 0x0A] es) None))"

definition ParseAndValidate :: "(string \<Rightarrow> Config result) \<Rightarrow> string \<Rightarrow> Config result" where
  "ParseAndValidate DecodeFile filename =
     (case DecodeFile filename of
        Inl err \<Rightarrow> Inl (errorf_v (''failed to decode file '' @ filename) err)
      | Inr config \<Rightarrow>
          (case config_Validate config of
             Some err \<Rightarrow> Inl (errorf_v ''failed to validate config'' err)
           | None \<Rightarrow> Inr config))"

end
