(* ===== verification/Schema.thy ===== *)
theory Schema
  imports Validator
begin

text \<open>
  The tables of the store (\<open>internal/store/schema\<close>, \<open>internal/store/migrate/schema.go\<close>): one record
  per row, the whole database as lists of rows, the constraints PostgreSQL enforces at an insertion
  (primary keys, unique columns, foreign keys) and the field validators the schema declares.  The
  well-formedness of a database (\<open>db_wf\<close>) is what the constraints keep; every operation of
  the store preserves it.
\<close>

section \<open>Rows\<close>

record chat_row =
  c_ID :: ChatID
  c_ClientID :: UserID
  c_CreatedAt :: time

record problem_row =
  p_ID :: ProblemID
  p_ChatID :: ChatID
  p_ManagerID :: "UserID option"
  p_ResolvedAt :: "time option"
  p_CreatedAt :: time

record message_row =
  m_ID :: MessageID
  m_ChatID :: ChatID
  m_ProblemID :: ProblemID
  m_AuthorID :: "UserID option"
  m_IsVisibleForClient :: bool
  m_IsVisibleForManager :: bool
  m_Body :: string
  m_CheckedAt :: "time option"
  m_IsBlocked :: bool
  m_IsService :: bool
  m_InitialRequestID :: RequestID
  m_CreatedAt :: time

record job_row =
  j_ID :: JobID
  j_Name :: string
  j_Payload :: string
  j_Attempts :: int
  j_AvailableAt :: time
  j_ReservedUntil :: time
  j_CreatedAt :: time

record failed_job_row =
  f_ID :: FailedJobID
  f_Name :: string
  f_Payload :: string
  f_Reason :: string
  f_CreatedAt :: time

record database =
  chats :: "chat_row list"
  problems :: "problem_row list"
  messages :: "message_row list"
  jobs :: "job_row list"
  failed_jobs :: "failed_job_row list"

definition empty_database :: database where
  "empty_database = \<lparr>chats = [], problems = [], messages = [], jobs = [], failed_jobs = []\<rparr>"

section \<open>Insertions under the constraints of the schema\<close>

definition insert_chat :: "chat_row \<Rightarrow> database \<Rightarrow> database result" where
  "insert_chat r d =
     (if c_ID r \<in> c_ID ` set (chats d) then Inl (ConstraintError ''chats_pkey'')
      else if c_ClientID r \<in> c_ClientID ` set (chats d)
      then Inl (ConstraintError ''chats_client_id_key'')
      else Inr (d\<lparr>chats := chats d @ [r]\<rparr>))"

definition insert_problem :: "problem_row \<Rightarrow> database \<Rightarrow> database result" where
  "insert_problem r d =
     (if p_ID r \<in> p_ID ` set (problems d) then Inl (ConstraintError ''problems_pkey'')
      else if p_ChatID r \<notin> c_ID ` set (chats d)
      then Inl (ConstraintError ''problems_chats_problems'')
      else Inr (d\<lparr>problems := problems d @ [r]\<rparr>))"

definition insert_message :: "message_row \<Rightarrow> database \<Rightarrow> database result" where
  "insert_message r d =
     (if m_ID r \<in> m_ID ` set (messages d) then Inl (ConstraintError ''messages_pkey'')
      else if m_InitialRequestID r \<in> m_InitialRequestID ` set (messages d)
      then Inl (ConstraintError ''messages_initial_request_id_key'')
      else if m_ChatID r \<notin> c_ID ` set (chats d)
      then Inl (ConstraintError ''messages_chats_messages'')
      else if m_ProblemID r \<notin> p_ID ` set (problems d)
      then Inl (ConstraintError ''messages_problems_messages'')
      else Inr (d\<lparr>messages := messages d @ [r]\<rparr>))"

definition insert_job :: "job_row \<Rightarrow> database \<Rightarrow> database result" where
  "insert_job r d =
     (if j_ID r \<in> j_ID ` set (jobs d) then Inl (ConstraintError ''jobs_pkey'')
      else Inr (d\<lparr>jobs := jobs d @ [r]\<rparr>))"

definition insert_failed_job :: "failed_job_row \<Rightarrow> database \<Rightarrow> database result" where
  "insert_failed_job r d =
     (if f_ID r \<in> f_ID ` set (failed_jobs d) then Inl (ConstraintError ''failed_jobs_pkey'')
      else Inr (d\<lparr>failed_jobs := failed_jobs d @ [r]\<rparr>))"

lemmas insert_defs =
  insert_chat_def insert_problem_def insert_message_def insert_job_def insert_failed_job_def

section \<open>Well-formed databases\<close>

definition db_wf :: "database \<Rightarrow> bool" where
  "db_wf d \<longleftrightarrow>
     distinct (map c_ID (chats d)) \<and> distinct (map c_ClientID (chats d)) \<and>
     distinct (map p_ID (problems d)) \<and> distinct (map m_ID (messages d)) \<and>
     distinct (map m_InitialRequestID (messages d)) \<and>
     distinct (map j_ID (jobs d)) \<and> distinct (map f_ID (failed_jobs d)) \<and>
     (\<forall>p \<in> set (problems d). p_ChatID p \<in> c_ID ` set (chats d)) \<and>
     (\<forall>m \<in> set (messages d). m_ChatID m \<in> c_ID ` set (chats d)
        \<and> m_ProblemID m \<in> p_ID ` set (problems d))"

lemma db_wf_empty: "db_wf empty_database"
  by (simp add: db_wf_def empty_database_def)

lemma insert_chat_wf: "insert_chat r d = Inr d' \<Longrightarrow> db_wf d \<Longrightarrow> db_wf d'"
  by (auto simp: insert_chat_def db_wf_def split: if_splits)

lemma insert_problem_wf: "insert_problem r d = Inr d' \<Longrightarrow> db_wf d \<Longrightarrow> db_wf d'"
  by (auto simp: insert_problem_def db_wf_def split: if_splits)

lemma insert_message_wf: "insert_message r d = Inr d' \<Longrightarrow> db_wf d \<Longrightarrow> db_wf d'"
  by (auto simp: insert_message_def db_wf_def split: if_splits)

lemma insert_job_wf: "insert_job r d = Inr d' \<Longrightarrow> db_wf d \<Longrightarrow> db_wf d'"
  by (auto simp: insert_job_def db_wf_def split: if_splits)

lemma insert_failed_job_wf: "insert_failed_job r d = Inr d' \<Longrightarrow> db_wf d \<Longrightarrow> db_wf d'"
  by (auto simp: insert_failed_job_def db_wf_def split: if_splits)

section \<open>Validators of the schema's fields\<close>

definition jobMaxAttempts :: int where "jobMaxAttempts = 30"

definition messageBodyMaxLength :: nat where "messageBodyMaxLength = 3000"

definition field_MinLen :: "nat \<Rightarrow> string \<Rightarrow> goerr option" where
  "field_MinLen n v =
     (if length v < n then Some (Errorf ''value is less than the required length'' None) else None)"

definition field_MaxLen :: "nat \<Rightarrow> string \<Rightarrow> goerr option" where
  "field_MaxLen n v =
     (if n < length v then Some (Errorf ''value is greater than the required length'' None)
      else None)"

definition field_NotEmpty :: "string \<Rightarrow> goerr option" where
  "field_NotEmpty v = field_MinLen 1 v"

definition field_Min :: "int \<Rightarrow> int \<Rightarrow> goerr option" where
  "field_Min n v = (if v < n then Some (Errorf ''value out of range'' None) else None)"

definition field_Max :: "int \<Rightarrow> int \<Rightarrow> goerr option" where
  "field_Max n v = (if v > n then Some (Errorf ''value out of range'' None) else None)"

text \<open>The first error of a list of checks made one after the other.\<close>

fun first_err :: "goerr option list \<Rightarrow> goerr option" where
  "first_err [] = None"
| "first_err (None # xs) = first_err xs"
| "first_err (Some e # xs) = Some e"

lemma first_err_None: "first_err xs = None \<longleftrightarrow> (\<forall>x \<in> set xs. x = None)"
  by (induction xs rule: first_err.induct) auto

definition job_AttemptsValidator :: "int \<Rightarrow> goerr option" where
  "job_AttemptsValidator n = first_err [field_Min 0 n, field_Max jobMaxAttempts n]"

definition message_BodyValidator :: "string \<Rightarrow> goerr option" where
  "message_BodyValidator b = first_err [field_NotEmpty b, field_MaxLen messageBodyMaxLength b]"

lemma message_BodyValidator_None:
  "message_BodyValidator b = None \<longleftrightarrow> b \<noteq> [] \<and> length b \<le> 3000"
  by (cases b)
    (auto simp: message_BodyValidator_def first_err_None field_NotEmpty_def field_MinLen_def
      field_MaxLen_def messageBodyMaxLength_def)

lemma job_AttemptsValidator_None: "job_AttemptsValidator n = None \<longleftrightarrow> 0 \<le> n \<and> n \<le> 30"
  by (auto simp: job_AttemptsValidator_def first_err_None field_Min_def field_Max_def
      jobMaxAttempts_def)

lemma field_NotEmpty_None: "field_NotEmpty b = None \<longleftrightarrow> b \<noteq> []"
  by (cases b) (auto simp: field_NotEmpty_def field_MinLen_def)

text \<open>The errors the generated builders make of a missing and of an invalid field.\<close>

definition missing_field :: "string \<Rightarrow> string \<Rightarrow> goerr" where
  "missing_field ent f =
     ValidationError f
       (Errorf (''store: missing required field '' @ strconv_Quote (ent @ ''.'' @ f)) None)"

definition missing_edge :: "string \<Rightarrow> string \<Rightarrow> goerr" where
  "missing_edge ent f =
     ValidationError f
       (Errorf (''store: missing required edge '' @ strconv_Quote (ent @ ''.'' @ f)) None)"

definition validator_failed :: "string \<Rightarrow> string \<Rightarrow> goerr \<Rightarrow> goerr" where
  "validator_failed ent f e =
     ValidationError f
       (errorf_w (''store: validator failed for field '' @ strconv_Quote (ent @ ''.'' @ f)) e)"

definition need_field :: "string \<Rightarrow> string \<Rightarrow> 'a option \<Rightarrow> goerr option" where
  "need_field ent f v = (case v of None \<Rightarrow> Some (missing_field ent f) | Some _ \<Rightarrow> None)"

definition need_edge :: "string \<Rightarrow> string \<Rightarrow> 'a option \<Rightarrow> goerr option" where
  "need_edge ent f v = (case v of None \<Rightarrow> Some (missing_edge ent f) | Some _ \<Rightarrow> None)"

definition valid_field ::
  "string \<Rightarrow> string \<Rightarrow> ('a \<Rightarrow> goerr option) \<Rightarrow> 'a option \<Rightarrow> goerr option" where
  "valid_field ent f V v =
     (case v of None \<Rightarrow> None | Some x \<Rightarrow> map_option (validator_failed ent f) (V x))"

lemma need_field_None [simp]: "need_field ent f v = None \<longleftrightarrow> v \<noteq> None"
  by (auto simp: need_field_def split: option.splits)

lemma need_edge_None [simp]: "need_edge ent f v = None \<longleftrightarrow> v \<noteq> None"
  by (auto simp: need_edge_def split: option.splits)

lemma valid_field_None [simp]: "valid_field ent f V v = None \<longleftrightarrow> (\<forall>x. v = Some x \<longrightarrow> V x = None)"
  by (auto simp: valid_field_def split: option.splits)

text \<open>No validation error of the store is a sentinel of the service, nor a missing row.\<close>

definition plain_error :: "goerr \<Rightarrow> bool" where
  "plain_error e \<longleftrightarrow> (\<forall>n t. \<not> errors_Is e (New n t)) \<and> \<not> errors_As_NotFound e
     \<and> errors_As_ServerError e = None \<and> errors_As_HTTPError e = None"

lemma plain_error_simps [simp]:
  "plain_error (DriverError m)" "plain_error (ConstraintError m)"
  "plain_error (NotSingularError m)" "plain_error (Errorf t None)"
  by (simp_all add: plain_error_def)

lemma plain_error_ValidationError [simp]: "plain_error (ValidationError f e) = plain_error e"
  by (simp add: plain_error_def)

lemma plain_error_errorf_v [simp]: "plain_error (errorf_v p e)"
  by (simp add: plain_error_def)

lemma plain_error_errorf_w [simp]: "plain_error (errorf_w p e) = plain_error e"
  by (simp add: plain_error_def)

end
