(* ===== verification/Database.thy ===== *)
theory Database
  imports Schema
begin

text \<open>
  The connection to the store (\<open>internal/store/database.go\<close>): the state that holds the database
  beside the environment, statements that insert, read, update and delete rows, and
  \<open>RunInTx\<close>.  The contract of \<open>RunInTx\<close> that the use cases rely on is the locale
  \<open>transactor\<close>: a body that fails leaves the database as it was, and a body that succeeds takes
  effect as a whole or not at all.
\<close>

section \<open>State and statements\<close>

record store = env +
  db :: database

text \<open>The part of Go's \<open>context.Context\<close> that the store reads: whether a transaction is open.\<close>

record gctx =
  ctx_tx :: bool

definition background :: gctx where
  "background = \<lparr>ctx_tx = False\<rparr>"

text \<open>
  A statement that changes the database: \<open>f\<close> gives the reply and the new database, or the error
  that the database reports.
\<close>

definition sql_exec ::
  "(database \<Rightarrow> ('a \<times> database) result) \<Rightarrow> 'z store_scheme \<Rightarrow> 'a result \<times> 'z store_scheme" where
  "sql_exec f = statement (\<lambda>w. case f (db w) of
       Inl e \<Rightarrow> (Inl e, w)
     | Inr (x, d) \<Rightarrow> (Inr x, w\<lparr>db := d\<rparr>))"

text \<open>A statement that reads rows.\<close>

definition sql_read ::
  "(database \<Rightarrow> 'a) \<Rightarrow> 'z store_scheme \<Rightarrow> 'a result \<times> 'z store_scheme" where
  "sql_read f = statement (\<lambda>w. (Inr (f (db w)), w))"

text \<open>\<open>SELECT ... LIMIT 1\<close> without an order: any of the rows that match.\<close>

definition sql_pick ::
  "(database \<Rightarrow> 'a list) \<Rightarrow> 'z store_scheme \<Rightarrow> 'a option result \<times> 'z store_scheme" where
  "sql_pick f = statement (\<lambda>w. let (x, w') = pick_one (f (db w)) w in (Inr x, w'))"

lemma db_snd [simp]:
  "db (snd (time_Now w)) = db w"
  "db (snd (next_fault w)) = db w"
  "db (snd (pick_one xs w)) = db w"
  "db (snd (NewID w)) = db w"
  by (auto simp: time_Now_def next_fault_def pick_one_def NewID_eq split: list.splits)

lemma db_time_Now: "time_Now w = (t, w') \<Longrightarrow> db w' = db w"
  using db_snd(1) [of w] by simp

lemma db_next_fault: "next_fault w = (f, w') \<Longrightarrow> db w' = db w"
  using db_snd(2) [of w] by simp

lemma db_pick_one: "pick_one xs w = (x, w') \<Longrightarrow> db w' = db w"
  using db_snd(3) [of xs w] by simp

lemma db_NewID: "NewID w = (x, w') \<Longrightarrow> db w' = db w"
  by (auto simp: NewID_eq)

text \<open>A read never changes the database, and its reply is what the database holds.\<close>

lemma sql_read_cases:
  assumes "sql_read f w = (r, w')"
  shows "db w' = db w \<and> (r = Inr (f (db w)) \<or> (\<exists>m. r = Inl (DriverError m)))"
proof -
  obtain flt w1 where nf: "next_fault w = (flt, w1)" by force
  with assms db_next_fault [OF nf] show ?thesis
    by (auto simp: sql_read_def statement_def split: option.splits fault.splits)
qed

lemma sql_pick_cases:
  assumes "sql_pick f w = (r, w')"
  shows "db w' = db w \<and>
    ((\<exists>x \<in> set (f (db w)). r = Inr (Some x)) \<or> (r = Inr None \<and> f (db w) = []) \<or>
     (\<exists>m. r = Inl (DriverError m)))"
proof -
  obtain flt w1 where nf: "next_fault w = (flt, w1)" by force
  note d1 = db_next_fault [OF nf]
  obtain x w2 where pk: "pick_one (f (db w1)) w1 = (x, w2)" by force
  note d2 = db_pick_one [OF pk]
  show ?thesis
  proof (cases x)
    case None
    with assms nf pk d1 d2 pick_one_None [of "f (db w1)" w1 w2] show ?thesis
      by (auto simp: sql_pick_def statement_def split: option.splits fault.splits)
  next
    case (Some y)
    with assms nf pk d1 d2 pick_one_in_set [of "f (db w1)" w1 y w2] show ?thesis
      by (auto simp: sql_pick_def statement_def split: option.splits fault.splits)
  qed
qed

text \<open>
  What a change can have done: it succeeded; the database refused it; it failed and did nothing;
  or it took effect and its reply was lost.
\<close>

lemma sql_exec_cases:
  assumes "sql_exec f w = (r, w')"
  obtains (ok) x d where "f (db w) = Inr (x, d)" "r = Inr x" "db w' = d"
  | (refused) e where "f (db w) = Inl e" "r = Inl e" "db w' = db w"
  | (failed) m where "r = Inl (DriverError m)" "db w' = db w"
  | (lost) m x d where "f (db w) = Inr (x, d)" "r = Inl (DriverError m)" "db w' = d"
proof -
  obtain flt w1 where nf: "next_fault w = (flt, w1)" by force
  then have d1: "db w1 = db w" by (rule db_next_fault)
  show ?thesis
  proof (cases flt)
    case None
    with nf assms d1 show ?thesis
      by (auto simp: sql_exec_def statement_def split: sum.splits intro: ok refused)
  next
    case (Some x)
    with nf assms d1 show ?thesis
      by (cases x) (auto simp: sql_exec_def statement_def split: sum.splits intro: failed lost)
  qed
qed

lemma sql_exec_quiet [quiet_simps]:
  "faults w = [] \<Longrightarrow> sql_exec f w =
     (case f (db w) of Inl e \<Rightarrow> (Inl e, w) | Inr (x, d) \<Rightarrow> (Inr x, w\<lparr>db := d\<rparr>))"
  by (simp add: sql_exec_def statement_no_fault)

lemma sql_read_quiet [quiet_simps]: "faults w = [] \<Longrightarrow> sql_read f w = (Inr (f (db w)), w)"
  by (simp add: sql_read_def statement_no_fault)

section \<open>Transactions\<close>

definition fault_text :: "fault \<Rightarrow> string" where
  "fault_text f = (case f of Fails m \<Rightarrow> m | AckLost m \<Rightarrow> m)"

text \<open>
  \<open>RunInTx\<close>: inside a transaction the function just runs.  Otherwise a transaction begins, the
  function runs in it, an error rolls back, and success commits.  A commit whose reply is lost
  has taken effect although the caller sees an error.
\<close>

definition RunInTx ::
  "gctx \<Rightarrow> (gctx \<Rightarrow> 'z store_scheme \<Rightarrow> 'a result \<times> 'z store_scheme) \<Rightarrow> 'z store_scheme
   \<Rightarrow> 'a result \<times> 'z store_scheme" where
  "RunInTx ctx f w =
     (if ctx_tx ctx then f ctx w
      else (case next_fault w of
          (Some flt, w1) \<Rightarrow> (Inl (errorf_w ''begin tx'' (DriverError (fault_text flt))), w1)
        | (None, w1) \<Rightarrow>
            (case f (ctx\<lparr>ctx_tx := True\<rparr>) w1 of
               (Inl e, w2) \<Rightarrow> (Inl e, w2\<lparr>db := db w1\<rparr>)
             | (Inr x, w2) \<Rightarrow>
                 (case next_fault w2 of
                    (None, w3) \<Rightarrow> (Inr x, w3)
                  | (Some (Fails m), w3) \<Rightarrow>
                      (Inl (errorf_w ''commit tx'' (DriverError m)), w3\<lparr>db := db w1\<rparr>)
                  | (Some (AckLost m), w3) \<Rightarrow>
                      (Inl (errorf_w ''commit tx'' (DriverError m)), w3)))))"

text \<open>
  The contract of a transactor: what the body of a transaction may rely on and what its caller
  gets.  \<open>dbof\<close> reads the durable state.
\<close>

locale transactor =
  fixes run :: "gctx \<Rightarrow> (gctx \<Rightarrow> 'w \<Rightarrow> 'a result \<times> 'w) \<Rightarrow> 'w \<Rightarrow> 'a result \<times> 'w"
    and dbof :: "'w \<Rightarrow> database"
  assumes nested: "ctx_tx ctx \<Longrightarrow> run ctx f w = f ctx w"
    and committed: "\<not> ctx_tx ctx \<Longrightarrow> run ctx f w = (Inr x, w') \<Longrightarrow>
      \<exists>w1 w2. dbof w1 = dbof w \<and> f (ctx\<lparr>ctx_tx := True\<rparr>) w1 = (Inr x, w2) \<and> dbof w' = dbof w2"
    and aborted: "\<not> ctx_tx ctx \<Longrightarrow> run ctx f w = (Inl e, w') \<Longrightarrow>
      (dbof w' = dbof w \<and>
        (plain_error e \<or> (\<exists>w1 w2. dbof w1 = dbof w \<and> f (ctx\<lparr>ctx_tx := True\<rparr>) w1 = (Inl e, w2)))) \<or>
      (plain_error e \<and>
        (\<exists>w1 w2 x. dbof w1 = dbof w \<and> f (ctx\<lparr>ctx_tx := True\<rparr>) w1 = (Inr x, w2) \<and> dbof w' = dbof w2))"
begin

text \<open>
  All or nothing: if every success of the body relates the database before to the one after by
  \<open>R\<close>, then the transaction either changes nothing or relates them by \<open>R\<close>, and a reported
  success always does.
\<close>

lemma all_or_nothing:
  assumes "\<not> ctx_tx ctx"
    and "\<And>w1 x w2. dbof w1 = dbof w \<Longrightarrow> f (ctx\<lparr>ctx_tx := True\<rparr>) w1 = (Inr x, w2) \<Longrightarrow>
      R x (dbof w) (dbof w2)"
    and "run ctx f w = (r, w')"
  shows "(\<exists>e. r = Inl e \<and> dbof w' = dbof w) \<or> (\<exists>e x. r = Inl e \<and> R x (dbof w) (dbof w')) \<or>
    (\<exists>x. r = Inr x \<and> R x (dbof w) (dbof w'))"
proof (cases r)
  case (Inl e)
  with aborted [OF assms(1), of f w e w'] assms(2,3) show ?thesis by metis
next
  case (Inr x)
  with committed [OF assms(1), of f w x w'] assms(2,3) show ?thesis by metis
qed

text \<open>An invariant that every success of the body keeps is kept by the transaction.\<close>

lemma keeps_invariant:
  assumes "\<not> ctx_tx ctx"
    and "\<And>w1 x w2. dbof w1 = dbof w \<Longrightarrow> f (ctx\<lparr>ctx_tx := True\<rparr>) w1 = (Inr x, w2) \<Longrightarrow> I (dbof w2)"
    and "I (dbof w)" and "run ctx f w = (r, w')"
  shows "I (dbof w')"
  using all_or_nothing [OF assms(1), where R = "\<lambda>x d d'. I d'" and f = f and w = w, OF _ assms(4)]
    assms(2,3) by auto

end

lemma RunInTx_cases:
  assumes "\<not> ctx_tx ctx" and "RunInTx ctx f w = (r, w')"
  shows "(\<exists>e. r = Inl e \<and> db w' = db w \<and>
      (plain_error e \<or> (\<exists>w1 w2. db w1 = db w \<and> f (ctx\<lparr>ctx_tx := True\<rparr>) w1 = (Inl e, w2)))) \<or>
    (\<exists>e x w1 w2. r = Inl e \<and> plain_error e \<and> db w1 = db w
      \<and> f (ctx\<lparr>ctx_tx := True\<rparr>) w1 = (Inr x, w2) \<and> db w' = db w2) \<or>
    (\<exists>x w1 w2. r = Inr x \<and> db w1 = db w
      \<and> f (ctx\<lparr>ctx_tx := True\<rparr>) w1 = (Inr x, w2) \<and> db w' = db w2)"
proof -
  obtain flt w1 where nf: "next_fault w = (flt, w1)" by force
  then have d1: "db w1 = db w" by (rule db_next_fault)
  show ?thesis
  proof (cases flt)
    case (Some x)
    with assms nf d1 show ?thesis by (auto simp: RunInTx_def)
  next
    case None
    obtain q w2 where f: "f (ctx\<lparr>ctx_tx := True\<rparr>) w1 = (q, w2)" by force
    obtain flt2 w3 where nf2: "next_fault w2 = (flt2, w3)" by force
    then have d3: "db w3 = db w2" by (rule db_next_fault)
    show ?thesis
    proof (cases q)
      case (Inl e)
      with assms nf None f d1 show ?thesis by (auto simp: RunInTx_def)
    next
      case (Inr x)
      have hyp: "db w1 = db w \<and> f (ctx\<lparr>ctx_tx := True\<rparr>) w1 = (Inr x, w2)"
        using f d1 Inr by simp
      have "(r = Inr x \<and> db w' = db w2) \<or>
          (\<exists>e. r = Inl e \<and> plain_error e \<and> (db w' = db w \<or> db w' = db w2))"
        using assms nf None f d1 nf2 d3 Inr
        by (auto simp: RunInTx_def split: option.splits fault.splits)
      with hyp show ?thesis by blast
    qed
  qed
qed

interpretation tx: transactor "RunInTx :: gctx \<Rightarrow>
    (gctx \<Rightarrow> 'z store_scheme \<Rightarrow> 'a result \<times> 'z store_scheme) \<Rightarrow> 'z store_scheme \<Rightarrow> 'a result \<times> 'z store_scheme"
  "db :: 'z store_scheme \<Rightarrow> database"
proof unfold_locales
  fix ctx :: gctx and f and w :: "'z store_scheme"
  assume "ctx_tx ctx"
  then show "RunInTx ctx f w = f ctx w" by (simp add: RunInTx_def)
next
  fix ctx :: gctx and f and w :: "'z store_scheme" and x and w'
  assume "\<not> ctx_tx ctx" and "RunInTx ctx f w = (Inr x, w')"
  from RunInTx_cases [OF this]
  show "\<exists>w1 w2. db w1 = db w \<and> f (ctx\<lparr>ctx_tx := True\<rparr>) w1 = (Inr x, w2) \<and> db w' = db w2" by auto
next
  fix ctx :: gctx and f and w :: "'z store_scheme" and e and w'
  assume "\<not> ctx_tx ctx" and "RunInTx ctx f w = (Inl e, w')"
  from RunInTx_cases [OF this]
  show "(db w' = db w \<and>
        (plain_error e \<or> (\<exists>w1 w2. db w1 = db w \<and> f (ctx\<lparr>ctx_tx := True\<rparr>) w1 = (Inl e, w2)))) \<or>
      (plain_error e \<and>
        (\<exists>w1 w2 x. db w1 = db w \<and> f (ctx\<lparr>ctx_tx := True\<rparr>) w1 = (Inr x, w2) \<and> db w' = db w2))"
    by auto
qed

section \<open>A store that nothing disturbs\<close>

text \<open>A store at rest: no fault is due, the clock stands still and identifiers are drawn in order.\<close>

definition quiet_store :: "database \<Rightarrow> time \<Rightarrow> store" where
  "quiet_store d t = \<lparr>clk = t, ticks = [], rnd = (\<lambda>n. of_nat (Suc n)), rnd_pos = 0, faults = [],
     picks = [], db = d\<rparr>"

lemma quiet_store_simps [simp]:
  "clk (quiet_store d t) = t" "ticks (quiet_store d t) = []" "faults (quiet_store d t) = []"
  "picks (quiet_store d t) = []" "db (quiet_store d t) = d"
  "rnd_pos (quiet_store d t) = 0" "rnd (quiet_store d t) n = of_nat (Suc n)"
  by (simp_all add: quiet_store_def)

section \<open>Properties\<close>

text \<open>
  C7. \<open>RunInTx\<close> outside a transaction is all or nothing: if every success of the body relates the
  database it starts from to the one it leaves by \<open>R\<close>, then the call either leaves the database as
  it was and reports an error, or has taken effect as a whole: success means that it has, and an
  error together with the whole effect is only possible as the lost reply of the commit.
\<close>

theorem RunInTx_all_or_nothing:
  assumes "\<not> ctx_tx ctx"
    and "\<And>w1 x w2. db w1 = db w \<Longrightarrow> f (ctx\<lparr>ctx_tx := True\<rparr>) w1 = (Inr x, w2) \<Longrightarrow> R (db w) (db w2)"
    and "RunInTx ctx f w = (r, w')"
  shows "(\<exists>e. r = Inl e \<and> db w' = db w) \<or> (\<exists>e. r = Inl e \<and> R (db w) (db w')) \<or>
    (\<exists>x. r = Inr x \<and> R (db w) (db w'))"
proof -
  from RunInTx_cases [OF assms(1,3)] consider e where "r = Inl e" "db w' = db w"
    | e x w1 w2 where "r = Inl e" "db w1 = db w" "f (ctx\<lparr>ctx_tx := True\<rparr>) w1 = (Inr x, w2)" "db w' = db w2"
    | x w1 w2 where "r = Inr x" "db w1 = db w" "f (ctx\<lparr>ctx_tx := True\<rparr>) w1 = (Inr x, w2)" "db w' = db w2"
    by blast
  then show ?thesis
  proof cases
    case (2 e x w1 w2)
    with assms(2) [OF 2(2,3)] show ?thesis by simp
  next
    case (3 x w1 w2)
    with assms(2) [OF 3(2,3)] show ?thesis by simp
  qed simp
qed

text \<open>A body that inserts a chat and then fails: nothing is left of it.\<close>

lemma RunInTx_all_or_nothing_witness:
  "let f = (\<lambda>ctx w. case sql_exec (\<lambda>d. case insert_chat \<lparr>c_ID = Id 1, c_ClientID = Id 2, c_CreatedAt = 5\<rparr> d of
              Inl e \<Rightarrow> Inl e | Inr d' \<Rightarrow> Inr ((), d')) w of
            (Inl e, w) \<Rightarrow> (Inl e, w) | (Inr _, w) \<Rightarrow> (Inl (DriverError ''later''), w :: store));
       w = quiet_store empty_database 7;
       (r, w') = RunInTx background f w
   in (\<exists>e. r = Inl e \<and> db w' = db w) \<or> (\<exists>e. r = Inl e \<and> False) \<or> (\<exists>x :: unit. r = Inr x \<and> False)"
  unfolding Let_def split_beta
  by (rule RunInTx_all_or_nothing [where R = "\<lambda>_ _. False", OF _ _ prod.collapse [symmetric]])
    (auto simp: background_def split: sum.splits)

end
