(* ===== verification/EventStream.thy ===== *)
theory EventStream
  imports Database "HOL-Library.Multiset"
begin

text \<open>
  The events (\<open>internal/services/event-stream/events.go\<close>) and the in-memory event stream
  (\<open>internal/services/event-stream/in-mem\<close>).  A user's subscribers are a Go slice: an address in a
  heap of arrays and a length.  \<open>Publish\<close> ranges over the slice it read at the start while
  \<open>clients.remove\<close> overwrites elements of the same array, so the array and the two lengths are
  modelled as they are; the lemmas show that all the same every subscriber is visited exactly once,
  that no channel is closed twice or written after it was closed, and that \<open>Publish\<close> does what the
  abstract description says.
\<close>

section \<open>Events\<close>

datatype event =
    MessageSentEvent EventID RequestID MessageID
  | MessageBlockEvent EventID RequestID MessageID
  | NewMessageEvent EventID RequestID ChatID MessageID UserID time string bool

definition NewMessageSentEvent :: "EventID \<Rightarrow> RequestID \<Rightarrow> MessageID \<Rightarrow> event" where
  "NewMessageSentEvent e r m = MessageSentEvent e r m"

definition NewMessageBlockEvent :: "EventID \<Rightarrow> RequestID \<Rightarrow> MessageID \<Rightarrow> event" where
  "NewMessageBlockEvent e r m = MessageBlockEvent e r m"

definition NewNewMessageEvent ::
  "EventID \<Rightarrow> RequestID \<Rightarrow> ChatID \<Rightarrow> MessageID \<Rightarrow> UserID \<Rightarrow> time \<Rightarrow> string \<Rightarrow> bool \<Rightarrow> event" where
  "NewNewMessageEvent e r c m u t b s = NewMessageEvent e r c m u t b s"

fun event_Validate :: "event \<Rightarrow> goerr option" where
  "event_Validate (MessageSentEvent e r m) = validate_struct ''MessageSentEvent''
     [(''EventID'', VId (raw e), [Required]), (''RequestID'', VId (raw r), [Required]),
      (''MessageID'', VId (raw m), [Required])]"
| "event_Validate (MessageBlockEvent e r m) = validate_struct ''MessageBlockEvent''
     [(''EventID'', VId (raw e), [Required]), (''RequestID'', VId (raw r), [Required]),
      (''MessageID'', VId (raw m), [Required])]"
| "event_Validate (NewMessageEvent e r c m u t b s) = validate_struct ''NewMessageEvent''
     [(''EventID'', VId (raw e), [Required]), (''RequestID'', VId (raw r), [Required]),
      (''ChatID'', VId (raw c), [Required]), (''MessageID'', VId (raw m), [Required]),
      (''UserID'', VId (raw u), [Required]), (''MessageBody'', VStr b, [Required])]"

section \<open>Subscribers\<close>

record event_client =
  ec_id :: EventClientID
  ec_userID :: UserID

record event_chan =
  ch_buf :: "event list"
  ch_closed :: bool

text \<open>A slice: the address of its array and its length.\<close>

record slice =
  sl_addr :: nat
  sl_len :: nat

text \<open>
  \<open>es_ctx_done\<close> is whether a subscriber's context is done and \<open>es_reads\<close> how many events it takes
  from its full channel before the timer of one second fires.
\<close>

record event_stream =
  es_arrays :: "nat \<Rightarrow> event_client list"
  es_next :: nat
  es_items :: "UserID \<Rightarrow> slice option"
  es_chans :: "EventClientID \<Rightarrow> event_chan option"
  es_closed :: bool
  es_ctx_done :: "EventClientID \<Rightarrow> bool"
  es_reads :: "EventClientID \<Rightarrow> nat"

definition chan_cap :: nat where "chan_cap = 1024"

definition inmemeventstream_ErrEventStreamClosed :: goerr where
  "inmemeventstream_ErrEventStreamClosed =
     New ''inmemeventstream.ErrEventStreamClosed'' ''event stream closed''"

definition inmemeventstream_New :: "(EventClientID \<Rightarrow> bool) \<Rightarrow> (EventClientID \<Rightarrow> nat) \<Rightarrow> event_stream" where
  "inmemeventstream_New don reads = \<lparr>es_arrays = (\<lambda>_. []), es_next = 0, es_items = (\<lambda>_. None),
     es_chans = (\<lambda>_. None), es_closed = False, es_ctx_done = don, es_reads = reads\<rparr>"

text \<open>
  \<open>append\<close>: in place when the array has room behind the slice, otherwise in a new array.
\<close>

definition append_client ::
  "event_stream \<Rightarrow> slice option \<Rightarrow> event_client \<Rightarrow> event_stream \<times> slice" where
  "append_client st s c =
     (case s of
        None \<Rightarrow>
          (st\<lparr>es_arrays := (es_arrays st)(es_next st := [c]), es_next := Suc (es_next st)\<rparr>,
           \<lparr>sl_addr = es_next st, sl_len = 1\<rparr>)
      | Some s \<Rightarrow>
          (let arr = es_arrays st (sl_addr s) in
           if sl_len s < length arr
           then (st\<lparr>es_arrays := (es_arrays st)(sl_addr s := arr[sl_len s := c])\<rparr>,
                 s\<lparr>sl_len := Suc (sl_len s)\<rparr>)
           else (st\<lparr>es_arrays := (es_arrays st)(es_next st := take (sl_len s) arr @ [c]),
                   es_next := Suc (es_next st)\<rparr>,
                 \<lparr>sl_addr = es_next st, sl_len = Suc (sl_len s)\<rparr>)))"

definition clients_add :: "EventClientID \<Rightarrow> UserID \<Rightarrow> event_stream \<Rightarrow> event_client \<times> event_stream" where
  "clients_add i u st =
     (let c = \<lparr>ec_id = i, ec_userID = u\<rparr>;
          st = st\<lparr>es_chans := (es_chans st)(i \<mapsto> \<lparr>ch_buf = [], ch_closed = False\<rparr>)\<rparr>;
          (st, s) = append_client st (es_items st u) c
      in (c, st\<lparr>es_items := (es_items st)(u \<mapsto> s)\<rparr>))"

text \<open>\<open>close\<close> of a channel panics (\<open>None\<close>) when the channel is closed already.\<close>

definition close_chan :: "EventClientID \<Rightarrow> event_stream \<Rightarrow> event_stream option" where
  "close_chan i st =
     (case es_chans st i of
        None \<Rightarrow> None
      | Some ch \<Rightarrow> if ch_closed ch then None
          else Some (st\<lparr>es_chans := (es_chans st)(i \<mapsto> ch\<lparr>ch_closed := True\<rparr>)\<rparr>))"

text \<open>\<open>s[i] = s[len(s)-1]; return s[:len(s)-1]\<close>, with the panic of an index out of range.\<close>

definition remove_at :: "slice \<Rightarrow> nat \<Rightarrow> event_stream \<Rightarrow> (slice \<times> event_stream) option" where
  "remove_at s i st =
     (let arr = es_arrays st (sl_addr s) in
      if i < sl_len s \<and> sl_len s \<le> length arr
      then Some (s\<lparr>sl_len := sl_len s - 1\<rparr>,
                 st\<lparr>es_arrays := (es_arrays st)(sl_addr s := arr[i := arr ! (sl_len s - 1)])\<rparr>)
      else None)"

text \<open>The loop of \<open>clients.remove\<close> over the indices of the slice it read.\<close>

fun remove_loop :: "nat list \<Rightarrow> slice \<Rightarrow> event_client \<Rightarrow> event_stream \<Rightarrow> event_stream option" where
  "remove_loop [] s c st = Some st"
| "remove_loop (i # is) s c st =
     (if ec_id (es_arrays st (sl_addr s) ! i) = ec_id c
      then (case remove_at s i st of
              None \<Rightarrow> None
            | Some (s', st) \<Rightarrow>
                (case close_chan (ec_id c) (st\<lparr>es_items := (es_items st)(ec_userID c \<mapsto> s')\<rparr>) of
                   None \<Rightarrow> None
                 | Some st \<Rightarrow> remove_loop is s c st))
      else remove_loop is s c st)"

definition clients_remove :: "event_client \<Rightarrow> event_stream \<Rightarrow> event_stream option" where
  "clients_remove c st =
     (case es_items st (ec_userID c) of
        None \<Rightarrow> Some st
      | Some s \<Rightarrow>
          (case remove_loop [0..<sl_len s] s c st of
             None \<Rightarrow> None
           | Some st \<Rightarrow>
               (case es_items st (ec_userID c) of
                  None \<Rightarrow> Some (st\<lparr>es_items := (es_items st)(ec_userID c := None)\<rparr>)
                | Some s' \<Rightarrow>
                    if sl_len s' = 0 then Some (st\<lparr>es_items := (es_items st)(ec_userID c := None)\<rparr>)
                    else Some st)))"

section \<open>The service\<close>

definition inmem_Subscribe ::
  "UserID \<Rightarrow> EventClientID \<Rightarrow> event_stream \<Rightarrow> EventClientID result \<times> event_stream" where
  "inmem_Subscribe u i st =
     (if es_closed st then (Inl inmemeventstream_ErrEventStreamClosed, st)
      else (let (c, st) = clients_add i u st in (Inr (ec_id c), st)))"

text \<open>
  One turn of the loop of \<open>Publish\<close>.  A send on a closed channel panics.  When the channel is full the
  subscriber may take events from it before the timer fires.
\<close>

definition publish_one :: "event \<Rightarrow> event_client \<Rightarrow> event_stream \<Rightarrow> event_stream option" where
  "publish_one ev c st =
     (if es_ctx_done st (ec_id c) then clients_remove c st
      else (case es_chans st (ec_id c) of
              None \<Rightarrow> None
            | Some ch \<Rightarrow>
                if ch_closed ch then None
                else if length (ch_buf ch) < chan_cap
                then Some (st\<lparr>es_chans := (es_chans st)(ec_id c \<mapsto> ch\<lparr>ch_buf := ch_buf ch @ [ev]\<rparr>)\<rparr>)
                else if es_reads st (ec_id c) = 0 then clients_remove c st
                else Some (st\<lparr>es_chans := (es_chans st)
                  (ec_id c \<mapsto> ch\<lparr>ch_buf := drop (es_reads st (ec_id c)) (ch_buf ch) @ [ev]\<rparr>)\<rparr>)))"

text \<open>\<open>for _, c := range s\<close>: the header is read once, the elements are read as the loop goes.\<close>

fun publish_loop :: "nat list \<Rightarrow> slice \<Rightarrow> event \<Rightarrow> event_stream \<Rightarrow> event_stream option" where
  "publish_loop [] s ev st = Some st"
| "publish_loop (k # ks) s ev st =
     (case publish_one ev (es_arrays st (sl_addr s) ! k) st of
        None \<Rightarrow> None
      | Some st \<Rightarrow> publish_loop ks s ev st)"

text \<open>\<open>Publish\<close>; the result \<open>None\<close> is a panic.\<close>

definition inmem_Publish :: "UserID \<Rightarrow> event \<Rightarrow> event_stream \<Rightarrow> (unit result \<times> event_stream) option" where
  "inmem_Publish u ev st =
     (case event_Validate ev of
        Some err \<Rightarrow> Some (Inl (errorf_v ''validate event'' err), st)
      | None \<Rightarrow>
          if es_closed st then Some (Inl inmemeventstream_ErrEventStreamClosed, st)
          else (case es_items st u of
                  None \<Rightarrow> Some (Inr (), st)
                | Some s \<Rightarrow>
                    (case publish_loop [0..<sl_len s] s ev st of
                       None \<Rightarrow> None
                     | Some st \<Rightarrow> Some (Inr (), st))))"

definition inmem_Close :: "event_stream \<Rightarrow> unit result \<times> event_stream" where
  "inmem_Close st = (Inr (), st\<lparr>es_closed := True\<rparr>)"

section \<open>The abstract stream\<close>

text \<open>The subscribers of a user, as the slice shows them.\<close>

definition subscribers :: "event_stream \<Rightarrow> UserID \<Rightarrow> event_client list" where
  "subscribers st u = (case es_items st u of None \<Rightarrow> [] | Some s \<Rightarrow> take (sl_len s) (es_arrays st (sl_addr s)))"

definition open_chan :: "event_stream \<Rightarrow> EventClientID \<Rightarrow> bool" where
  "open_chan st i \<longleftrightarrow> (\<exists>ch. es_chans st i = Some ch \<and> \<not> ch_closed ch)"

definition es_inv :: "event_stream \<Rightarrow> bool" where
  "es_inv st \<longleftrightarrow>
     (\<forall>u s. es_items st u = Some s \<longrightarrow>
        0 < sl_len s \<and> sl_len s \<le> length (es_arrays st (sl_addr s)) \<and> sl_addr s < es_next st \<and>
        distinct (map ec_id (subscribers st u)) \<and>
        (\<forall>c \<in> set (subscribers st u). ec_userID c = u \<and> open_chan st (ec_id c))) \<and>
     (\<forall>u v s t. es_items st u = Some s \<longrightarrow> es_items st v = Some t \<longrightarrow> sl_addr s = sl_addr t \<longrightarrow> u = v) \<and>
     (\<forall>u v. u \<noteq> v \<longrightarrow> ec_id ` set (subscribers st u) \<inter> ec_id ` set (subscribers st v) = {})"

text \<open>A subscriber is dropped when its context is done, or when its channel stays full.\<close>

definition dropped :: "event_stream \<Rightarrow> event_client \<Rightarrow> bool" where
  "dropped st c \<longleftrightarrow> es_ctx_done st (ec_id c) \<or>
     (\<exists>ch. es_chans st (ec_id c) = Some ch \<and> chan_cap \<le> length (ch_buf ch) \<and> es_reads st (ec_id c) = 0)"

text \<open>What a channel holds after a turn of \<open>Publish\<close>.\<close>

definition sent :: "event_stream \<Rightarrow> event \<Rightarrow> EventClientID \<Rightarrow> event_chan \<Rightarrow> event_chan" where
  "sent st ev i ch =
     (if es_ctx_done st i \<or> (chan_cap \<le> length (ch_buf ch) \<and> es_reads st i = 0)
      then ch\<lparr>ch_closed := True\<rparr>
      else if length (ch_buf ch) < chan_cap then ch\<lparr>ch_buf := ch_buf ch @ [ev]\<rparr>
      else ch\<lparr>ch_buf := drop (es_reads st i) (ch_buf ch) @ [ev]\<rparr>)"

section \<open>Removing one subscriber\<close>

lemma mset_swap_last:
  assumes "i < n" and "n \<le> length xs"
  shows "mset (take (n - 1) (xs[i := xs ! (n - 1)])) = mset (take n xs) - {# xs ! i #}"
proof -
  obtain m where n: "n = Suc m" using assms(1) by (cases n) auto
  have t: "take n xs = take m xs @ [xs ! m]" unfolding n using assms n by (simp add: take_Suc_conv_app_nth)
  show ?thesis
  proof (cases "i = m")
    case True
    then show ?thesis using t n by (simp add: take_update_swap)
  next
    case False
    then have i: "i < length (take m xs)" using assms n by simp
    have "take (n - 1) (xs[i := xs ! (n - 1)]) = (take m xs)[i := xs ! m]"
      using n by (simp add: take_update_swap)
    also have "mset \<dots> = add_mset (xs ! m) (mset (take m xs) - {# take m xs ! i #})"
      using i by (rule mset_update)
    also have "\<dots> = mset (take n xs) - {# xs ! i #}"
    proof -
      have "xs ! i = take m xs ! i" using i by simp
      moreover have "take m xs ! i \<in># mset (take m xs)" using i by (metis nth_mem set_mset_mset)
      ultimately show ?thesis unfolding t by simp
    qed
    finally show ?thesis .
  qed
qed

lemma distinct_take_nth:
  "distinct (map f (take n xs)) \<Longrightarrow> n \<le> length xs \<Longrightarrow> i < n \<Longrightarrow> j < n \<Longrightarrow> i \<noteq> j \<Longrightarrow> f (xs ! i) \<noteq> f (xs ! j)"
  by (simp add: distinct_conv_nth)

lemma distinct_mset_subset:
  assumes "mset xs \<subseteq># mset ys" and "distinct ys"
  shows "distinct xs"
proof -
  from assms(1) obtain zs where "mset ys = mset (xs @ zs)"
    by (metis ex_mset mset_append mset_subset_eq_exists_conv)
  with assms(2) have "distinct (xs @ zs)" by (metis mset_eq_imp_distinct_iff)
  then show ?thesis by simp
qed

lemma remove_loop_skip:
  "\<forall>i \<in> set is. ec_id (es_arrays st (sl_addr s) ! i) \<noteq> ec_id c \<Longrightarrow> remove_loop is s c st = Some st"
  by (induction "is") auto

lemma remove_loop_append:
  "remove_loop (is @ js) s c st =
     (case remove_loop is s c st of None \<Rightarrow> None | Some st \<Rightarrow> remove_loop js s c st)"
  by (induction "is" arbitrary: st) (auto split: option.splits)

text \<open>The state after a subscriber at index \<open>i\<close> was removed and its channel closed.\<close>

definition removed :: "event_client \<Rightarrow> slice \<Rightarrow> nat \<Rightarrow> event_stream \<Rightarrow> event_stream" where
  "removed c s i st =
     st\<lparr>es_arrays := (es_arrays st)(sl_addr s :=
          (es_arrays st (sl_addr s))[i := es_arrays st (sl_addr s) ! (sl_len s - 1)]),
        es_items := (es_items st)(ec_userID c :=
          (if sl_len s = 1 then None else Some (s\<lparr>sl_len := sl_len s - 1\<rparr>))),
        es_chans := (es_chans st)(ec_id c := map_option (\<lambda>ch. ch\<lparr>ch_closed := True\<rparr>) (es_chans st (ec_id c)))\<rparr>"

lemma clients_remove_at:
  assumes it: "es_items st (ec_userID c) = Some s" and len: "sl_len s \<le> length (es_arrays st (sl_addr s))"
    and dist: "distinct (map ec_id (take (sl_len s) (es_arrays st (sl_addr s))))"
    and i: "i < sl_len s" "es_arrays st (sl_addr s) ! i = c" and op: "open_chan st (ec_id c)"
  shows "clients_remove c st = Some (removed c s i st)"
proof -
  let ?arr = "es_arrays st (sl_addr s)" and ?n = "sl_len s"
  obtain ch where ch: "es_chans st (ec_id c) = Some ch" "\<not> ch_closed ch" using op by (auto simp: open_chan_def)
  let ?st1 = "st\<lparr>es_arrays := (es_arrays st)(sl_addr s := ?arr[i := ?arr ! (?n - 1)]),
    es_items := (es_items st)(ec_userID c \<mapsto> s\<lparr>sl_len := ?n - 1\<rparr>),
    es_chans := (es_chans st)(ec_id c \<mapsto> ch\<lparr>ch_closed := True\<rparr>)\<rparr>"
  have other: "ec_id (?arr ! j) \<noteq> ec_id c" if "j < ?n" "j \<noteq> i" for j
    using distinct_take_nth [OF dist len that(1) i(1) that(2)] i(2) by simp
  have split: "[0..<?n] = [0..<i] @ i # [Suc i..<?n]"
    using i(1) by (metis le_add_diff_inverse less_imp_le_nat plus_nat.add_0 upt_add_eq_append upt_conv_Cons le0)
  have "remove_loop [0..<i] s c st = Some st"
    by (rule remove_loop_skip) (use other i(1) in auto)
  moreover have "remove_loop (i # [Suc i..<?n]) s c st = remove_loop [Suc i..<?n] s c ?st1"
    using i len ch by (simp add: remove_at_def close_chan_def Let_def)
  moreover have "remove_loop [Suc i..<?n] s c ?st1 = Some ?st1"
    by (rule remove_loop_skip) (use other in auto)
  ultimately have "remove_loop [0..<?n] s c st = Some ?st1"
    unfolding split remove_loop_append by simp
  then show ?thesis
    using it i(1) ch by (auto simp: clients_remove_def removed_def)
qed

section \<open>The loop of Publish\<close>

text \<open>
  The state \<open>st\<close> of the loop after the first \<open>k\<close> of the subscribers \<open>olds\<close> that the slice \<open>s\<close> of the
  user \<open>u\<close> showed in the state \<open>st0\<close> at the start.
\<close>

definition publish_inv ::
  "event_stream \<Rightarrow> UserID \<Rightarrow> slice \<Rightarrow> event \<Rightarrow> nat \<Rightarrow> event_stream \<Rightarrow> bool" where
  "publish_inv st0 u s ev k st \<longleftrightarrow>
     (let orig = es_arrays st0 (sl_addr s); arr = es_arrays st (sl_addr s); olds = take (sl_len s) orig in
      length arr = length orig \<and> (\<forall>j. k \<le> j \<longrightarrow> j < sl_len s \<longrightarrow> arr ! j = orig ! j) \<and>
      (\<forall>t. es_items st u = Some t \<longrightarrow> sl_addr t = sl_addr s \<and> 0 < sl_len t \<and> sl_len t \<le> sl_len s) \<and>
      mset (subscribers st u) = mset (filter (\<lambda>c. \<not> dropped st0 c) (take k olds)) + mset (drop k olds) \<and>
      (\<forall>i. es_chans st i =
         (if i \<in> ec_id ` set (take k olds) then map_option (sent st0 ev i) (es_chans st0 i) else es_chans st0 i)) \<and>
      es_ctx_done st = es_ctx_done st0 \<and> es_reads st = es_reads st0 \<and> es_closed st = es_closed st0 \<and>
      es_next st = es_next st0 \<and>
      (\<forall>a. a \<noteq> sl_addr s \<longrightarrow> es_arrays st a = es_arrays st0 a) \<and>
      (\<forall>v. v \<noteq> u \<longrightarrow> es_items st v = es_items st0 v))"

lemma publish_invI:
  assumes "length (es_arrays st (sl_addr s)) = length (es_arrays st0 (sl_addr s))"
    and "\<And>j. k \<le> j \<Longrightarrow> j < sl_len s \<Longrightarrow> es_arrays st (sl_addr s) ! j = es_arrays st0 (sl_addr s) ! j"
    and "\<And>t. es_items st u = Some t \<Longrightarrow> sl_addr t = sl_addr s \<and> 0 < sl_len t \<and> sl_len t \<le> sl_len s"
    and "mset (subscribers st u) =
      mset (filter (\<lambda>c. \<not> dropped st0 c) (take k (take (sl_len s) (es_arrays st0 (sl_addr s)))))
      + mset (drop k (take (sl_len s) (es_arrays st0 (sl_addr s))))"
    and "\<And>i. es_chans st i =
      (if i \<in> ec_id ` set (take k (take (sl_len s) (es_arrays st0 (sl_addr s))))
       then map_option (sent st0 ev i) (es_chans st0 i) else es_chans st0 i)"
    and "es_ctx_done st = es_ctx_done st0" "es_reads st = es_reads st0" "es_closed st = es_closed st0"
      "es_next st = es_next st0"
    and "\<And>a. a \<noteq> sl_addr s \<Longrightarrow> es_arrays st a = es_arrays st0 a"
    and "\<And>v. v \<noteq> u \<Longrightarrow> es_items st v = es_items st0 v"
  shows "publish_inv st0 u s ev k st"
  unfolding publish_inv_def Let_def using assms by blast

lemma publish_inv_start:
  assumes "es_inv st0" and "es_items st0 u = Some s"
  shows "publish_inv st0 u s ev 0 st0"
  using assms by (auto simp: publish_inv_def es_inv_def subscribers_def Let_def)

lemma publish_inv_step:
  assumes inv0: "es_inv st0" and it0: "es_items st0 u = Some s"
    and inv: "publish_inv st0 u s ev k st" and k: "k < sl_len s"
  shows "\<exists>st'. publish_one ev (es_arrays st (sl_addr s) ! k) st = Some st' \<and> publish_inv st0 u s ev (Suc k) st'"
proof -
  define orig where "orig = es_arrays st0 (sl_addr s)"
  define arr where "arr = es_arrays st (sl_addr s)"
  define olds where "olds = take (sl_len s) orig"
  define c where "c = orig ! k"
  from inv have len: "length arr = length orig"
    and same: "\<And>j. k \<le> j \<Longrightarrow> j < sl_len s \<Longrightarrow> arr ! j = orig ! j"
    and items: "\<And>t. es_items st u = Some t \<Longrightarrow> sl_addr t = sl_addr s \<and> 0 < sl_len t \<and> sl_len t \<le> sl_len s"
    and subs: "mset (subscribers st u) = mset (filter (\<lambda>c. \<not> dropped st0 c) (take k olds)) + mset (drop k olds)"
    and chans: "\<And>i. es_chans st i =
        (if i \<in> ec_id ` set (take k olds) then map_option (sent st0 ev i) (es_chans st0 i) else es_chans st0 i)"
    and env: "es_ctx_done st = es_ctx_done st0" "es_reads st = es_reads st0" "es_closed st = es_closed st0"
      "es_next st = es_next st0"
    and others: "\<And>a. a \<noteq> sl_addr s \<Longrightarrow> es_arrays st a = es_arrays st0 a"
      "\<And>v. v \<noteq> u \<Longrightarrow> es_items st v = es_items st0 v"
    by (simp_all add: publish_inv_def Let_def orig_def arr_def olds_def)
  have l0: "sl_len s \<le> length orig" and olds_subs: "subscribers st0 u = olds"
    using inv0 it0 by (auto simp: es_inv_def orig_def olds_def subscribers_def)
  have dist: "distinct (map ec_id olds)" and users: "\<And>x. x \<in> set olds \<Longrightarrow> ec_userID x = u \<and> open_chan st0 (ec_id x)"
    using inv0 it0 olds_subs by (force simp: es_inv_def)+
  have ko: "k < length olds" "olds ! k = c" using k l0 by (simp_all add: olds_def c_def)
  have drop_k: "drop k olds = c # drop (Suc k) olds" using ko by (metis Cons_nth_drop_Suc)
  have take_k: "take (Suc k) olds = take k olds @ [c]" using ko by (simp add: take_Suc_conv_app_nth)
  have c_old: "c \<in> set olds" using ko by (metis nth_mem)
  have fresh: "ec_id c \<notin> ec_id ` set (take k olds)"
    using dist ko by (metis append_take_drop_id distinct_append disjoint_iff drop_k image_set list.set_intros(1)
        list.simps(9) map_append)
  have at_k: "es_arrays st (sl_addr s) ! k = c" using same [of k] k by (simp add: arr_def c_def)
  obtain ch where ch0: "es_chans st0 (ec_id c) = Some ch" "\<not> ch_closed ch"
    using users [OF c_old] by (auto simp: open_chan_def)
  then have ch: "es_chans st (ec_id c) = Some ch" using chans fresh by simp
  have drop_eq: "dropped st0 c \<longleftrightarrow> es_ctx_done st (ec_id c) \<or>
      (chan_cap \<le> length (ch_buf ch) \<and> es_reads st (ec_id c) = 0)"
    using ch0 env by (simp add: dropped_def)
  show ?thesis
  proof (cases "dropped st0 c")
    case False
    let ?ch = "sent st0 ev (ec_id c) ch"
    let ?st = "st\<lparr>es_chans := (es_chans st)(ec_id c \<mapsto> ?ch)\<rparr>"
    have one: "publish_one ev c st = Some ?st"
      using False drop_eq ch ch0(2) env by (auto simp: publish_one_def sent_def not_less)
    have "subscribers ?st u = subscribers st u" by (simp add: subscribers_def split: option.splits)
    with subs False drop_k take_k have
      "mset (subscribers ?st u) = mset (filter (\<lambda>c. \<not> dropped st0 c) (take (Suc k) olds)) + mset (drop (Suc k) olds)"
      by simp
    moreover have "es_chans ?st i = (if i \<in> ec_id ` set (take (Suc k) olds)
        then map_option (sent st0 ev i) (es_chans st0 i) else es_chans st0 i)" for i
      using chans [of i] ch0 take_k by auto
    moreover have "es_arrays ?st (sl_addr s) ! j = orig ! j" if "Suc k \<le> j" "j < sl_len s" for j
      using that same [of j] by (simp add: arr_def)
    moreover have "sl_addr t' = sl_addr s \<and> 0 < sl_len t' \<and> sl_len t' \<le> sl_len s"
      if "es_items ?st u = Some t'" for t'
      by (rule items) (use that in simp)
    moreover have "es_arrays ?st a = es_arrays st0 a" if "a \<noteq> sl_addr s" for a
      using that by (simp add: others)
    moreover have "es_items ?st v = es_items st0 v" if "v \<noteq> u" for v
      using that by (simp add: others)
    moreover have "length (es_arrays ?st (sl_addr s)) = length orig" using len by (simp add: arr_def)
    moreover have "es_ctx_done ?st = es_ctx_done st0" "es_reads ?st = es_reads st0"
      "es_closed ?st = es_closed st0" "es_next ?st = es_next st0"
      using env by simp_all
    ultimately have "publish_inv st0 u s ev (Suc k) ?st"
      by (rule_tac publish_invI [of ?st s st0 "Suc k" u ev, folded orig_def, folded olds_def])
    with one at_k show ?thesis by auto
  next
    case True
    have "c \<in># mset (subscribers st u)" using subs drop_k by simp
    then have c_cur: "c \<in> set (subscribers st u)" by simp
    then obtain t where t: "es_items st u = Some t" by (cases "es_items st u") (auto simp: subscribers_def)
    note tp = items [OF t]
    let ?n = "sl_len t"
    have cur: "subscribers st u = take ?n arr" using t tp by (simp add: subscribers_def arr_def)
    have "mset (map ec_id (subscribers st u)) \<subseteq># mset (map ec_id olds)"
    proof -
      have "mset (subscribers st u) \<subseteq># mset (take k olds) + mset (drop k olds)"
        unfolding subs by (intro subset_mset.add_mono) (simp_all add: mset_filter)
      also have "\<dots> = mset olds" by (metis append_take_drop_id mset_append)
      finally show ?thesis by (simp add: image_mset_subseteq_mono)
    qed
    then have dist_cur: "distinct (map ec_id (take ?n arr))"
      using distinct_mset_subset [OF _ dist] unfolding cur by blast
    obtain i where i: "i < length (subscribers st u)" "subscribers st u ! i = c"
      using c_cur by (metis in_set_conv_nth)
    then have i_n: "i < ?n" "arr ! i = c" using cur by simp_all
    have "i \<le> k"
    proof (rule ccontr)
      assume "\<not> i \<le> k"
      then have "k < i" "i < sl_len s" using i_n tp by simp_all
      then have "olds ! i = c" using same [of i] i_n(2) l0 by (simp add: olds_def)
      with distinct_take_nth [OF dist [unfolded olds_def] l0 k \<open>i < sl_len s\<close>] \<open>k < i\<close> ko l0
      show False using \<open>i < sl_len s\<close> by (simp add: olds_def)
    qed
    have user: "ec_userID c = u" using users c_old by blast
    have rem: "clients_remove c st = Some (removed c t i st)"
    proof (rule clients_remove_at)
      show "es_items st (ec_userID c) = Some t" using t user by simp
      show "sl_len t \<le> length (es_arrays st (sl_addr t))" using tp len l0 by (simp add: arr_def)
      show "distinct (map ec_id (take (sl_len t) (es_arrays st (sl_addr t))))"
        using dist_cur tp by (simp add: arr_def)
      show "i < sl_len t" "es_arrays st (sl_addr t) ! i = c" using i_n tp by (simp_all add: arr_def)
      show "open_chan st (ec_id c)" using ch ch0 by (simp add: open_chan_def)
    qed
    let ?st = "removed c t i st"
    have one: "publish_one ev c st = Some ?st"
      using True drop_eq ch ch0(2) rem by (auto simp: publish_one_def)
    have arr': "es_arrays ?st (sl_addr s) = arr[i := arr ! (?n - 1)]"
      using tp by (simp add: removed_def arr_def)
    have "subscribers ?st u = take (?n - 1) (arr[i := arr ! (?n - 1)])"
      using tp user arr' by (auto simp: subscribers_def removed_def)
    then have "mset (subscribers ?st u) = mset (subscribers st u) - {# c #}"
      using mset_swap_last [of i ?n arr] i_n tp len l0 cur by simp
    with subs drop_k take_k True have
      "mset (subscribers ?st u) = mset (filter (\<lambda>c. \<not> dropped st0 c) (take (Suc k) olds)) + mset (drop (Suc k) olds)"
      by simp
    moreover have "es_chans ?st j = (if j \<in> ec_id ` set (take (Suc k) olds)
        then map_option (sent st0 ev j) (es_chans st0 j) else es_chans st0 j)" for j
    proof (cases "j = ec_id c")
      case True
      with ch ch0 take_k \<open>dropped st0 c\<close> show ?thesis by (auto simp: removed_def sent_def dropped_def)
    next
      case False
      with chans [of j] take_k show ?thesis by (auto simp: removed_def)
    qed
    moreover have "es_arrays ?st (sl_addr s) ! j = orig ! j" if "Suc k \<le> j" "j < sl_len s" for j
      using that same [of j] \<open>i \<le> k\<close> arr' by simp
    moreover have "sl_addr t' = sl_addr s \<and> 0 < sl_len t' \<and> sl_len t' \<le> sl_len s"
      if "es_items ?st u = Some t'" for t'
      using that user tp by (auto simp: removed_def split: if_splits)
    moreover have "es_arrays ?st a = es_arrays st0 a" if "a \<noteq> sl_addr s" for a
      using that tp others by (simp add: removed_def)
    moreover have "es_items ?st v = es_items st0 v" if "v \<noteq> u" for v
      using that user others by (simp add: removed_def)
    moreover have "length (es_arrays ?st (sl_addr s)) = length orig" using arr' len by simp
    moreover have "es_ctx_done ?st = es_ctx_done st0" "es_reads ?st = es_reads st0"
      "es_closed ?st = es_closed st0" "es_next ?st = es_next st0"
      using env by (simp_all add: removed_def)
    ultimately have "publish_inv st0 u s ev (Suc k) ?st"
      by (rule_tac publish_invI [of ?st s st0 "Suc k" u ev, folded orig_def, folded olds_def])
    with one at_k show ?thesis by auto
  qed
qed

lemma publish_loop_ok:
  assumes "es_inv st0" and "es_items st0 u = Some s"
    and "publish_inv st0 u s ev k st" and "k \<le> sl_len s"
  shows "\<exists>st'. publish_loop [k..<sl_len s] s ev st = Some st' \<and> publish_inv st0 u s ev (sl_len s) st'"
  using assms(3, 4)
proof (induction "sl_len s - k" arbitrary: k st)
  case 0
  then show ?case by simp
next
  case (Suc d)
  then have k: "k < sl_len s" by simp
  from publish_inv_step [OF assms(1, 2) Suc.prems(1) k]
  obtain st1 where one: "publish_one ev (es_arrays st (sl_addr s) ! k) st = Some st1"
    and inv: "publish_inv st0 u s ev (Suc k) st1" by blast
  from Suc.hyps(1) [OF _ inv] Suc.hyps(2) k one show ?case by (simp add: upt_rec [of k])
qed

section \<open>What an operation keeps of the invariant\<close>

lemma es_invD:
  assumes "es_inv st"
  shows "es_items st u = Some s \<Longrightarrow> 0 < sl_len s"
    and "es_items st u = Some s \<Longrightarrow> sl_len s \<le> length (es_arrays st (sl_addr s))"
    and "es_items st u = Some s \<Longrightarrow> sl_addr s < es_next st"
    and "distinct (map ec_id (subscribers st u))"
    and "c \<in> set (subscribers st u) \<Longrightarrow> ec_userID c = u"
    and "c \<in> set (subscribers st u) \<Longrightarrow> open_chan st (ec_id c)"
    and "es_items st u = Some s \<Longrightarrow> es_items st v = Some t \<Longrightarrow> sl_addr s = sl_addr t \<Longrightarrow> u = v"
    and "u \<noteq> v \<Longrightarrow> c \<in> set (subscribers st u) \<Longrightarrow> d \<in> set (subscribers st v) \<Longrightarrow> ec_id c \<noteq> ec_id d"
proof -
  have a: "\<And>u s. es_items st u = Some s \<Longrightarrow>
      0 < sl_len s \<and> sl_len s \<le> length (es_arrays st (sl_addr s)) \<and> sl_addr s < es_next st \<and>
      distinct (map ec_id (subscribers st u)) \<and>
      (\<forall>c \<in> set (subscribers st u). ec_userID c = u \<and> open_chan st (ec_id c))"
    and b: "\<And>u v s t. es_items st u = Some s \<Longrightarrow> es_items st v = Some t \<Longrightarrow> sl_addr s = sl_addr t \<Longrightarrow> u = v"
    and c: "\<And>u v. u \<noteq> v \<Longrightarrow> ec_id ` set (subscribers st u) \<inter> ec_id ` set (subscribers st v) = {}"
    using assms unfolding es_inv_def by blast+
  show "es_items st u = Some s \<Longrightarrow> 0 < sl_len s"
    "es_items st u = Some s \<Longrightarrow> sl_len s \<le> length (es_arrays st (sl_addr s))"
    "es_items st u = Some s \<Longrightarrow> sl_addr s < es_next st"
    "es_items st u = Some s \<Longrightarrow> es_items st v = Some t \<Longrightarrow> sl_addr s = sl_addr t \<Longrightarrow> u = v"
    using a b by blast+
  show "u \<noteq> v \<Longrightarrow> c \<in> set (subscribers st u) \<Longrightarrow> d \<in> set (subscribers st v) \<Longrightarrow> ec_id c \<noteq> ec_id d"
    using c by fastforce
  show "distinct (map ec_id (subscribers st u))"
    "c \<in> set (subscribers st u) \<Longrightarrow> ec_userID c = u"
    "c \<in> set (subscribers st u) \<Longrightarrow> open_chan st (ec_id c)"
    using a [of u] by (cases "es_items st u"; force simp: subscribers_def)+
qed

lemma es_invI:
  assumes "\<And>u s. es_items st u = Some s \<Longrightarrow>
      0 < sl_len s \<and> sl_len s \<le> length (es_arrays st (sl_addr s)) \<and> sl_addr s < es_next st"
    and "\<And>u. distinct (map ec_id (subscribers st u))"
    and "\<And>u c. c \<in> set (subscribers st u) \<Longrightarrow> ec_userID c = u \<and> open_chan st (ec_id c)"
    and "\<And>u v s t. es_items st u = Some s \<Longrightarrow> es_items st v = Some t \<Longrightarrow> sl_addr s = sl_addr t \<Longrightarrow> u = v"
    and "\<And>u v c d. u \<noteq> v \<Longrightarrow> c \<in> set (subscribers st u) \<Longrightarrow> d \<in> set (subscribers st v) \<Longrightarrow> ec_id c \<noteq> ec_id d"
  shows "es_inv st"
  unfolding es_inv_def using assms by (auto simp: disjoint_iff) (metis+)?

lemma sent_closed:
  "es_chans st (ec_id c) = Some ch \<Longrightarrow> ch_closed (sent st ev (ec_id c) ch) \<longleftrightarrow> dropped st c \<or> ch_closed ch"
  by (auto simp: sent_def dropped_def)

lemma publish_end:
  assumes inv0: "es_inv st0" and it: "es_items st0 u = Some s"
    and inv: "publish_inv st0 u s ev (sl_len s) st"
  shows "mset (subscribers st u) = mset (filter (\<lambda>c. \<not> dropped st0 c) (subscribers st0 u))"
    and "v \<noteq> u \<Longrightarrow> subscribers st v = subscribers st0 v"
    and "es_chans st i = (if i \<in> ec_id ` set (subscribers st0 u)
      then map_option (sent st0 ev i) (es_chans st0 i) else es_chans st0 i)"
    and "es_inv st"
proof -
  have olds: "subscribers st0 u = take (sl_len s) (es_arrays st0 (sl_addr s))"
    using it by (simp add: subscribers_def)
  from inv have len: "length (es_arrays st (sl_addr s)) = length (es_arrays st0 (sl_addr s))"
    and items: "\<And>t. es_items st u = Some t \<Longrightarrow> sl_addr t = sl_addr s \<and> 0 < sl_len t \<and> sl_len t \<le> sl_len s"
    and subs: "mset (subscribers st u) = mset (filter (\<lambda>c. \<not> dropped st0 c) (subscribers st0 u))"
    and chans: "\<And>i. es_chans st i = (if i \<in> ec_id ` set (subscribers st0 u)
      then map_option (sent st0 ev i) (es_chans st0 i) else es_chans st0 i)"
    and nxt: "es_next st = es_next st0"
    and arrs: "\<And>a. a \<noteq> sl_addr s \<Longrightarrow> es_arrays st a = es_arrays st0 a"
    and its: "\<And>v. v \<noteq> u \<Longrightarrow> es_items st v = es_items st0 v"
    by (simp_all add: publish_inv_def Let_def olds)
  note inv0 = es_invD [OF inv0]
  have keep: "subscribers st v = subscribers st0 v" if "v \<noteq> u" for v
  proof (cases "es_items st0 v")
    case (Some t)
    then have "sl_addr t \<noteq> sl_addr s" using inv0(7) [OF it Some] that by auto
    then show ?thesis using Some that by (simp add: subscribers_def its arrs)
  qed (use that in \<open>simp add: subscribers_def its\<close>)
  have new: "c \<in> set (subscribers st0 u) \<and> \<not> dropped st0 c" if "c \<in> set (subscribers st u)" for c
    using that subs by (metis mem_Collect_eq set_filter set_mset_mset)
  have opn: "open_chan st (ec_id c)" if c: "c \<in> set (subscribers st v)" for c v
  proof (cases "v = u")
    case True
    with new c have *: "c \<in> set (subscribers st0 u)" "\<not> dropped st0 c" by auto
    obtain ch where ch: "es_chans st0 (ec_id c) = Some ch" "\<not> ch_closed ch"
      using inv0(6) [OF *(1)] by (auto simp: open_chan_def)
    then have "es_chans st (ec_id c) = Some (sent st0 ev (ec_id c) ch)"
      using chans [of "ec_id c"] *(1) by simp
    then show ?thesis using sent_closed [OF ch(1)] ch(2) *(2) by (simp add: open_chan_def)
  next
    case False
    with c keep have *: "c \<in> set (subscribers st0 v)" by simp
    then have "ec_id c \<notin> ec_id ` set (subscribers st0 u)" using inv0(8) [OF False] by fastforce
    then show ?thesis using inv0(6) [OF *] chans [of "ec_id c"] by (simp add: open_chan_def)
  qed
  have mem: "c \<in> set (subscribers st0 v)" if "c \<in> set (subscribers st v)" for c v
    using that new keep by (cases "v = u") auto
  show "mset (subscribers st u) = mset (filter (\<lambda>c. \<not> dropped st0 c) (subscribers st0 u))" by (rule subs)
  show "v \<noteq> u \<Longrightarrow> subscribers st v = subscribers st0 v" by (rule keep)
  show "es_chans st i = (if i \<in> ec_id ` set (subscribers st0 u)
      then map_option (sent st0 ev i) (es_chans st0 i) else es_chans st0 i)" by (rule chans)
  show "es_inv st"
  proof (rule es_invI)
    show "0 < sl_len t \<and> sl_len t \<le> length (es_arrays st (sl_addr t)) \<and> sl_addr t < es_next st"
      if t: "es_items st v = Some t" for v t
    proof (cases "v = u")
      case True
      with items t have "sl_addr t = sl_addr s" "0 < sl_len t" "sl_len t \<le> sl_len s" by auto
      then show ?thesis using inv0(2, 3) [OF it] len nxt by simp
    next
      case False
      then have t0: "es_items st0 v = Some t" using t its by simp
      then have "sl_addr t \<noteq> sl_addr s" using inv0(7) [OF it t0] False by auto
      then show ?thesis using inv0(1-3) [OF t0] arrs nxt by simp
    qed
    show "distinct (map ec_id (subscribers st v))" for v
    proof (cases "v = u")
      case True
      have "mset (map ec_id (subscribers st u)) = mset (map ec_id (filter (\<lambda>c. \<not> dropped st0 c) (subscribers st0 u)))"
        by (simp only: mset_map subs)
      then show ?thesis using True inv0(4) [of u] by (metis distinct_map_filter mset_eq_imp_distinct_iff)
    qed (use keep inv0(4) in simp)
    show "ec_userID c = v \<and> open_chan st (ec_id c)" if "c \<in> set (subscribers st v)" for v c
      using inv0(5) [OF mem [OF that]] opn [OF that] by simp
    show "v = w" if "es_items st v = Some t" "es_items st w = Some t'" "sl_addr t = sl_addr t'" for v w t t'
    proof -
      have "\<exists>r. es_items st0 x = Some r \<and> sl_addr r = sl_addr t" if "es_items st x = Some t" for x t
        using that it items its by (cases "x = u") auto
      with that inv0(7) show ?thesis by metis
    qed
    show "ec_id c \<noteq> ec_id d" if "v \<noteq> w" "c \<in> set (subscribers st v)" "d \<in> set (subscribers st w)" for v w c d
      using inv0(8) [OF that(1) mem [OF that(2)] mem [OF that(3)]] .
  qed
qed

lemma append_client_cases:
  assumes "append_client st os c = (st', s')"
    and "\<forall>s. os = Some s \<longrightarrow> sl_len s \<le> length (es_arrays st (sl_addr s))"
  obtains (in_place) s where "os = Some s" "sl_len s < length (es_arrays st (sl_addr s))"
      "st' = st\<lparr>es_arrays := (es_arrays st)(sl_addr s := (es_arrays st (sl_addr s))[sl_len s := c])\<rparr>"
      "s' = s\<lparr>sl_len := Suc (sl_len s)\<rparr>"
  | (moved) xs where "xs = (case os of None \<Rightarrow> [] | Some s \<Rightarrow> take (sl_len s) (es_arrays st (sl_addr s)))"
      "st' = st\<lparr>es_arrays := (es_arrays st)(es_next st := xs @ [c]), es_next := Suc (es_next st)\<rparr>"
      "s' = \<lparr>sl_addr = es_next st, sl_len = Suc (length xs)\<rparr>"
  using assms
  by (cases os) (auto simp: append_client_def Let_def split: if_splits)

lemma subscribe_inv:
  assumes inv: "es_inv st" and new: "es_chans st i = None"
  shows "es_inv (snd (inmem_Subscribe u i st))"
    and "\<not> es_closed st \<Longrightarrow>
      mset (subscribers (snd (inmem_Subscribe u i st)) u) = add_mset \<lparr>ec_id = i, ec_userID = u\<rparr> (mset (subscribers st u))"
proof -
  define c where "c = \<lparr>ec_id = i, ec_userID = u\<rparr>"
  define st1 where "st1 = st\<lparr>es_chans := (es_chans st)(i \<mapsto> \<lparr>ch_buf = [], ch_closed = False\<rparr>)\<rparr>"
  obtain st2 s where app: "append_client st1 (es_items st1 u) c = (st2, s)" by fastforce
  define st3 where "st3 = st2\<lparr>es_items := (es_items st2)(u \<mapsto> s)\<rparr>"
  note invD = es_invD [OF inv]
  have add: "snd (inmem_Subscribe u i st) = (if es_closed st then st else st3)"
    using app by (simp add: inmem_Subscribe_def clients_add_def c_def st1_def st3_def Let_def)
  have other: "ec_id d \<noteq> i" if "d \<in> set (subscribers st v)" for d v
    using invD(6) [OF that] new by (auto simp: open_chan_def)
  have len: "\<forall>s. es_items st1 u = Some s \<longrightarrow> sl_len s \<le> length (es_arrays st1 (sl_addr s))"
    using invD(2) by (simp add: st1_def)
  have "es_items st2 = es_items st \<and> es_chans st2 = (es_chans st)(i \<mapsto> \<lparr>ch_buf = [], ch_closed = False\<rparr>) \<and>
    take (sl_len s) (es_arrays st2 (sl_addr s)) = subscribers st u @ [c] \<and>
    0 < sl_len s \<and> sl_len s \<le> length (es_arrays st2 (sl_addr s)) \<and> sl_addr s < es_next st2 \<and>
    es_next st \<le> es_next st2 \<and>
    (\<forall>v t. v \<noteq> u \<longrightarrow> es_items st v = Some t \<longrightarrow>
      sl_addr t \<noteq> sl_addr s \<and> es_arrays st2 (sl_addr t) = es_arrays st (sl_addr t))"
    using app len
  proof (cases rule: append_client_cases)
    case (in_place s0)
    then have it: "es_items st u = Some s0" by (simp add: st1_def)
    then have "sl_addr t \<noteq> sl_addr s0" if "v \<noteq> u" "es_items st v = Some t" for v t
      using invD(7) [OF it that(2)] that(1) by auto
    then show ?thesis using in_place it invD(3) [OF it]
      by (auto simp: st1_def subscribers_def take_Suc_conv_app_nth)
  next
    case (moved xs)
    then have "xs = subscribers st u" by (simp add: subscribers_def st1_def cong: option.case_cong)
    moreover have "sl_addr t \<noteq> es_next st" if "es_items st v = Some t" for v t
      using invD(3) [OF that] by simp
    ultimately show ?thesis using moved by (auto simp: st1_def)
  qed
  then have env: "es_items st2 = es_items st" "es_chans st2 = (es_chans st)(i \<mapsto> \<lparr>ch_buf = [], ch_closed = False\<rparr>)"
    and mine: "take (sl_len s) (es_arrays st2 (sl_addr s)) = subscribers st u @ [c]"
    and bounds: "0 < sl_len s" "sl_len s \<le> length (es_arrays st2 (sl_addr s))" "sl_addr s < es_next st2"
      "es_next st \<le> es_next st2"
    and apart: "\<And>v t. v \<noteq> u \<Longrightarrow> es_items st v = Some t \<Longrightarrow>
      sl_addr t \<noteq> sl_addr s \<and> es_arrays st2 (sl_addr t) = es_arrays st (sl_addr t)"
    by blast+
  have subs_u: "subscribers st3 u = subscribers st u @ [c]"
    using mine by (simp add: subscribers_def st3_def)
  have subs_v: "subscribers st3 v = subscribers st v" if "v \<noteq> u" for v
    using that apart [OF that] by (auto simp: subscribers_def st3_def env split: option.splits)
  have "es_inv st3"
  proof (rule es_invI)
    show "0 < sl_len t \<and> sl_len t \<le> length (es_arrays st3 (sl_addr t)) \<and> sl_addr t < es_next st3"
      if "es_items st3 v = Some t" for v t
      using that bounds apart [of v t] invD(1-3) [of v t]
      by (cases "v = u") (auto simp: st3_def env)
    show "distinct (map ec_id (subscribers st3 v))" for v
      using invD(4) [of v] other [of _ u] by (cases "v = u") (auto simp: subs_u subs_v c_def)
    show "ec_userID d = v \<and> open_chan st3 (ec_id d)" if "d \<in> set (subscribers st3 v)" for v d
    proof (cases "d = c \<and> v = u")
      case True
      then show ?thesis by (simp add: c_def open_chan_def st3_def env)
    next
      case False
      then have d: "d \<in> set (subscribers st v)" using that by (cases "v = u") (auto simp: subs_u subs_v)
      then show ?thesis using invD(5, 6) [OF d] other [OF d] by (simp add: open_chan_def st3_def env)
    qed
    show "v = w" if "es_items st3 v = Some t" "es_items st3 w = Some t'" "sl_addr t = sl_addr t'" for v w t t'
      using that apart [of v t] apart [of w t'] invD(7) [of v t w t']
      by (cases "v = u"; cases "w = u") (auto simp: st3_def env)
    show "ec_id d \<noteq> ec_id e" if "v \<noteq> w" "d \<in> set (subscribers st3 v)" "e \<in> set (subscribers st3 w)" for v w d e
      using that invD(8) [of v w d e] other [of d v] other [of e w]
      by (cases "v = u"; cases "w = u") (auto simp: subs_u subs_v c_def)
  qed
  with inv show "es_inv (snd (inmem_Subscribe u i st))" by (simp add: add)
  show "mset (subscribers (snd (inmem_Subscribe u i st)) u) = add_mset \<lparr>ec_id = i, ec_userID = u\<rparr> (mset (subscribers st u))"
    if "\<not> es_closed st"
    using that by (simp add: add subs_u c_def)
qed

section \<open>Runs of the stream\<close>

text \<open>
  What may happen to a stream: the three methods, with a fresh identifier for every subscription, and
  the world around it: contexts end, subscribers take events from their channels.
\<close>

inductive es_reach :: "event_stream \<Rightarrow> bool" where
  start: "es_reach (inmemeventstream_New don reads)"
| subscribe: "es_reach st \<Longrightarrow> es_chans st i = None \<Longrightarrow> inmem_Subscribe u i st = (r, st') \<Longrightarrow> es_reach st'"
| publish: "es_reach st \<Longrightarrow> inmem_Publish u ev st = Some (r, st') \<Longrightarrow> es_reach st'"
| close: "es_reach st \<Longrightarrow> inmem_Close st = (r, st') \<Longrightarrow> es_reach st'"
| world: "es_reach st \<Longrightarrow> es_reach (st\<lparr>es_ctx_done := don, es_reads := reads\<rparr>)"
| receive: "es_reach st \<Longrightarrow> es_chans st i = Some ch \<Longrightarrow>
    es_reach (st\<lparr>es_chans := (es_chans st)(i \<mapsto> ch\<lparr>ch_buf := drop n (ch_buf ch)\<rparr>)\<rparr>)"

lemma es_inv_cong:
  assumes "es_inv st" and "es_items st' = es_items st" "es_arrays st' = es_arrays st" "es_next st' = es_next st"
    and "\<And>i. open_chan st' i = open_chan st i"
  shows "es_inv st'"
proof -
  have "subscribers st' = subscribers st" using assms(2, 3) by (auto simp: subscribers_def split: option.split)
  with assms show ?thesis by (simp add: es_inv_def)
qed

lemma publish_total:
  assumes "es_inv st"
  shows "\<exists>r st'. inmem_Publish u ev st = Some (r, st') \<and> es_inv st'"
proof (cases "event_Validate ev \<noteq> None \<or> es_closed st \<or> es_items st u = None")
  case True
  then show ?thesis using assms by (auto simp: inmem_Publish_def split: option.splits)
next
  case False
  then obtain s where s: "es_items st u = Some s" and ok: "event_Validate ev = None" "\<not> es_closed st" by auto
  obtain st' where st': "publish_loop [0..<sl_len s] s ev st = Some st'" "publish_inv st u s ev (sl_len s) st'"
    using publish_loop_ok [OF assms s publish_inv_start [OF assms s]] by blast
  with publish_end(4) [OF assms s] ok s show ?thesis by (simp add: inmem_Publish_def)
qed

lemma es_reach_inv: "es_reach st \<Longrightarrow> es_inv st"
proof (induction rule: es_reach.induct)
  case (start don reads)
  show ?case by (simp add: inmemeventstream_New_def es_inv_def subscribers_def)
next
  case (subscribe st i u r st')
  then show ?case using subscribe_inv(1) [of st i u] by simp
next
  case (publish st u ev r st')
  then show ?case using publish_total [of st u ev] by auto
next
  case (close st r st')
  then have "st' = st\<lparr>es_closed := True\<rparr>" by (simp add: inmem_Close_def)
  then show ?case using es_inv_cong [OF close.IH] by (simp add: open_chan_def)
next
  case (world st don reads)
  then show ?case using es_inv_cong [OF world.IH] by (simp add: open_chan_def)
next
  case (receive st i ch n)
  then show ?case by (intro es_inv_cong [OF receive.IH]) (auto simp: open_chan_def)
qed

text \<open>
  C16. No run of the event stream ends in a panic: whatever was subscribed, published, closed and read
  before, \<open>Publish\<close> finds every index in range and every channel it sends on or closes still open.
\<close>

theorem event_stream_never_panics:
  assumes "es_reach st"
  shows "\<exists>r st'. inmem_Publish u ev st = Some (r, st') \<and> es_reach st'"
  using publish_total [OF es_reach_inv [OF assms]] es_reach.publish [OF assms] by blast

text \<open>
  C15. \<open>Publish\<close> of a valid event on an open stream does exactly this: every subscriber of the user gets
  the event as the last of its channel, in one turn, and those whose context is done or whose channel
  stays full are dropped and their channels closed; the other subscribers stay, and the subscribers and
  channels of other users are left alone - although the loop runs over the array that it changes.
\<close>

theorem event_stream_publish:
  assumes "es_reach st" and "event_Validate ev = None" and "\<not> es_closed st"
  shows "\<exists>st'. inmem_Publish u ev st = Some (Inr (), st') \<and>
    mset (subscribers st' u) = mset (filter (\<lambda>c. \<not> dropped st c) (subscribers st u)) \<and>
    (\<forall>v. v = u \<or> subscribers st' v = subscribers st v) \<and>
    (\<forall>i. es_chans st' i = (if i \<in> ec_id ` set (subscribers st u)
       then map_option (sent st ev i) (es_chans st i) else es_chans st i))"
proof (cases "es_items st u")
  case None
  then have "subscribers st u = []" by (simp add: subscribers_def)
  with None assms show ?thesis by (simp add: inmem_Publish_def)
next
  case (Some s)
  note inv = es_reach_inv [OF assms(1)]
  obtain st' where st': "publish_loop [0..<sl_len s] s ev st = Some st'" "publish_inv st u s ev (sl_len s) st'"
    using publish_loop_ok [OF inv Some publish_inv_start [OF inv Some]] by blast
  note e = publish_end [OF inv Some st'(2)]
  have "inmem_Publish u ev st = Some (Inr (), st')" using assms Some st'(1) by (simp add: inmem_Publish_def)
  with e(1, 2, 3) show ?thesis by blast
qed

text \<open>A stream with two subscribers of one user, the first of which has gone.\<close>

definition sample_gone :: "EventClientID \<Rightarrow> bool" where "sample_gone i \<longleftrightarrow> i = Id 1"

definition sample_stream :: event_stream where
  "sample_stream =
     snd (inmem_Subscribe (Id 9) (Id 2) (snd (inmem_Subscribe (Id 9) (Id 1) (inmemeventstream_New sample_gone (\<lambda>_. 0)))))"

definition sample_event :: event where
  "sample_event = NewMessageSentEvent (Id 5) (Id 6) (Id 7)"

lemma sample_stream_reach: "es_reach sample_stream"
proof -
  let ?s0 = "inmemeventstream_New sample_gone (\<lambda>_. 0)"
  let ?s1 = "snd (inmem_Subscribe (Id 9) (Id 1) ?s0)"
  have "es_reach ?s1"
    by (rule es_reach.subscribe [OF es_reach.start _ prod.collapse [symmetric]])
       (simp add: inmemeventstream_New_def)
  then show ?thesis unfolding sample_stream_def
    by (rule es_reach.subscribe [OF _ _ prod.collapse [symmetric]])
       (simp add: inmemeventstream_New_def inmem_Subscribe_def clients_add_def append_client_def Let_def)
qed

lemma sample_stream_simps:
  "es_closed sample_stream = False"
  "subscribers sample_stream (Id 9) = [\<lparr>ec_id = Id 1, ec_userID = Id 9\<rparr>, \<lparr>ec_id = Id 2, ec_userID = Id 9\<rparr>]"
  "dropped sample_stream \<lparr>ec_id = Id 1, ec_userID = Id 9\<rparr>"
  "\<not> dropped sample_stream \<lparr>ec_id = Id 2, ec_userID = Id 9\<rparr>"
  "event_Validate sample_event = None"
  by (simp_all add: sample_stream_def sample_event_def inmem_Subscribe_def clients_add_def append_client_def
      inmemeventstream_New_def subscribers_def dropped_def sample_gone_def chan_cap_def
      NewMessageSentEvent_def validate_struct_None uuid_Nil_def Let_def)

theorem event_stream_never_panics_witness:
  "\<exists>r st'. inmem_Publish (Id 9) sample_event sample_stream = Some (r, st') \<and> es_reach st'"
  by (rule event_stream_never_panics [OF sample_stream_reach])

theorem event_stream_publish_witness:
  "\<exists>st'. inmem_Publish (Id 9) sample_event sample_stream = Some (Inr (), st') \<and>
     mset (subscribers st' (Id 9)) = {# \<lparr>ec_id = Id 2, ec_userID = Id 9\<rparr> #}"
  using event_stream_publish [OF sample_stream_reach, of sample_event "Id 9"]
  by (auto simp: sample_stream_simps)

end
