(* ===== verification/Json.thy ===== *)
theory Json
  imports Validator
begin

text \<open>
  \<open>encoding/json\<close> as the service uses it: values, the text that \<open>Marshal\<close> writes for them (compact,
  with the escapes that are safe in HTML) and the reader behind \<open>Unmarshal\<close> (white space, escapes,
  surrogate pairs, repair of invalid UTF-8).  Numbers keep their literal text, as the decoder converts
  it only when it knows the type of the field.  Texts are byte strings.

  The last section shows that what is written reads back: the value itself, with invalid UTF-8 in its
  texts replaced as Go replaces it.
\<close>

datatype json =
    JNull
  | JBool bool
  | JNum string
  | JStr string
  | JArr "json list"
  | JObj "(string \<times> json) list"

section \<open>Writing\<close>

definition backslash :: char where "backslash = CHR 0x5C"
definition dquote :: char where "dquote = CHR 0x22"

text \<open>The code point U+FFFD in UTF-8, and the separators that JavaScript takes for line ends.\<close>

definition replacement :: string where "replacement = [CHR 0xEF, CHR 0xBF, CHR 0xBD]"

definition is_line_separator :: "char \<Rightarrow> string \<Rightarrow> bool" where
  "is_line_separator c cs \<longleftrightarrow>
     c = CHR 0xE2 \<and> take 1 cs = [CHR 0x80] \<and> (take 1 (drop 1 cs) = [CHR 0xA8] \<or> take 1 (drop 1 cs) = [CHR 0xA9])"

definition u_escape :: "nat \<Rightarrow> string" where
  "u_escape n = [backslash, CHR ''u'', hex_digit (n div 4096 mod 16), hex_digit (n div 256 mod 16),
     hex_digit (n div 16 mod 16), hex_digit (n mod 16)]"

definition ascii_escape :: "char \<Rightarrow> string" where
  "ascii_escape c =
     (let n = of_char c :: nat in
      if c = dquote \<or> c = backslash then [backslash, c]
      else if n = 8 then [backslash, CHR ''b'']
      else if n = 12 then [backslash, CHR ''f'']
      else if n = 10 then [backslash, CHR ''n'']
      else if n = 13 then [backslash, CHR ''r'']
      else if n = 9 then [backslash, CHR ''t'']
      else if n < 32 \<or> c = CHR ''<'' \<or> c = CHR ''>'' \<or> c = CHR ''&'' then u_escape n
      else [c])"

fun json_escape :: "string \<Rightarrow> string" where
  "json_escape [] = []"
| "json_escape (c # cs) =
     (if of_char c < (128 :: nat) then ascii_escape c @ json_escape cs
      else if rune_len c cs = 1 then u_escape 0xFFFD @ json_escape cs
      else if is_line_separator c cs
      then u_escape (if take 1 (drop 1 cs) = [CHR 0xA8] then 0x2028 else 0x2029) @ json_escape (drop 2 cs)
      else c # take (rune_len c cs - 1) cs @ json_escape (drop (rune_len c cs - 1) cs))"

definition json_string :: "string \<Rightarrow> string" where
  "json_string s = dquote # json_escape s @ [dquote]"

fun json_Marshal :: "json \<Rightarrow> string" and json_elems :: "json list \<Rightarrow> string"
  and json_members :: "(string \<times> json) list \<Rightarrow> string" where
  "json_Marshal JNull = ''null''"
| "json_Marshal (JBool b) = (if b then ''true'' else ''false'')"
| "json_Marshal (JNum s) = s"
| "json_Marshal (JStr s) = json_string s"
| "json_Marshal (JArr xs) = ''['' @ json_elems xs @ '']''"
| "json_Marshal (JObj ms) = ''{'' @ json_members ms @ ''}''"
| "json_elems [] = []"
| "json_elems (x # xs) = json_Marshal x @ (if xs = [] then [] else '','' @ json_elems xs)"
| "json_members [] = []"
| "json_members ((k, v) # ms) =
     json_string k @ '':'' @ json_Marshal v @ (if ms = [] then [] else '','' @ json_members ms)"

section \<open>Reading\<close>

definition is_ws :: "char \<Rightarrow> bool" where
  "is_ws c \<longleftrightarrow> c = CHR '' '' \<or> c = CHR 0x09 \<or> c = CHR 0x0A \<or> c = CHR 0x0D"

definition skip_ws :: "string \<Rightarrow> string" where "skip_ws s = dropWhile is_ws s"

definition is_digit :: "char \<Rightarrow> bool" where "is_digit c \<longleftrightarrow> in_range 48 57 c"

definition hex_val :: "char \<Rightarrow> nat option" where
  "hex_val c =
     (let n = of_char c :: nat in
      if 48 \<le> n \<and> n \<le> 57 then Some (n - 48)
      else if 97 \<le> n \<and> n \<le> 102 then Some (n - 87)
      else if 65 \<le> n \<and> n \<le> 70 then Some (n - 55)
      else None)"

text \<open>\<open>getu4\<close>: a backslash, a \<open>u\<close> and four hexadecimal digits.\<close>

definition getu4 :: "string \<Rightarrow> nat option" where
  "getu4 s =
     (case s of
        b # u # h3 # h2 # h1 # h0 # _ \<Rightarrow>
          if b = backslash \<and> u = CHR ''u''
          then (case (hex_val h3, hex_val h2, hex_val h1, hex_val h0) of
                  (Some a, Some b, Some c, Some d) \<Rightarrow> Some (((a * 16 + b) * 16 + c) * 16 + d)
                | _ \<Rightarrow> None)
          else None
      | _ \<Rightarrow> None)"

definition utf8_encode :: "nat \<Rightarrow> string" where
  "utf8_encode n =
     (if n < 0x80 then [char_of n]
      else if n < 0x800 then [char_of (0xC0 + n div 64), char_of (0x80 + n mod 64)]
      else if 0xD800 \<le> n \<and> n \<le> 0xDFFF \<or> 0x10FFFF < n then replacement
      else if n < 0x10000
      then [char_of (0xE0 + n div 4096), char_of (0x80 + n div 64 mod 64), char_of (0x80 + n mod 64)]
      else [char_of (0xF0 + n div 262144), char_of (0x80 + n div 4096 mod 64),
            char_of (0x80 + n div 64 mod 64), char_of (0x80 + n mod 64)])"

definition simple_escape :: "char \<Rightarrow> char option" where
  "simple_escape e =
     (if e = dquote \<or> e = backslash \<or> e = CHR ''/'' then Some e
      else if e = CHR ''b'' then Some (CHR 0x08)
      else if e = CHR ''f'' then Some (CHR 0x0C)
      else if e = CHR ''n'' then Some (CHR 0x0A)
      else if e = CHR ''r'' then Some (CHR 0x0D)
      else if e = CHR ''t'' then Some (CHR 0x09)
      else None)"

text \<open>
  The rest of a string after its opening quote: the text it stands for and what follows the closing
  quote.
\<close>

function read_string :: "string \<Rightarrow> (string \<times> string) option" where
  "read_string [] = None"
| "read_string (c # cs) =
     (if c = dquote then Some ([], cs)
      else if c = backslash then
        (case getu4 (c # cs) of
           Some u \<Rightarrow>
             if 0xD800 \<le> u \<and> u < 0xDC00 then
               (case getu4 (drop 5 cs) of
                  Some v \<Rightarrow>
                    if 0xDC00 \<le> v \<and> v < 0xE000
                    then map_option (\<lambda>(s, r). (utf8_encode (0x10000 + (u - 0xD800) * 1024 + (v - 0xDC00)) @ s, r))
                           (read_string (drop 11 cs))
                    else map_option (\<lambda>(s, r). (replacement @ s, r)) (read_string (drop 5 cs))
                | None \<Rightarrow> map_option (\<lambda>(s, r). (replacement @ s, r)) (read_string (drop 5 cs)))
             else map_option (\<lambda>(s, r). (utf8_encode u @ s, r)) (read_string (drop 5 cs))
         | None \<Rightarrow>
             (case cs of
                [] \<Rightarrow> None
              | e # cs' \<Rightarrow>
                  (case simple_escape e of
                     None \<Rightarrow> None
                   | Some x \<Rightarrow> map_option (\<lambda>(s, r). (x # s, r)) (read_string cs'))))
      else if of_char c < (32 :: nat) then None
      else if of_char c < (128 :: nat) then map_option (\<lambda>(s, r). (c # s, r)) (read_string cs)
      else if rune_len c cs = 1 then map_option (\<lambda>(s, r). (replacement @ s, r)) (read_string cs)
      else map_option (\<lambda>(s, r). (c # take (rune_len c cs - 1) cs @ s, r))
             (read_string (drop (rune_len c cs - 1) cs)))"
  by pat_completeness auto
termination by (relation "measure length") auto

definition read_digits :: "string \<Rightarrow> string \<times> string" where
  "read_digits s = (takeWhile is_digit s, dropWhile is_digit s)"

text \<open>\<open>-? (0 | [1-9][0-9]*) (. [0-9]+)? ([eE] [+-]? [0-9]+)?\<close>\<close>

definition read_int_part :: "string \<Rightarrow> (string \<times> string) option" where
  "read_int_part s =
     (case s of
        [] \<Rightarrow> None
      | c # cs \<Rightarrow> if c = CHR ''0'' then Some ([c], cs) else if is_digit c then Some (read_digits s) else None)"

definition read_frac :: "string \<Rightarrow> (string \<times> string) option" where
  "read_frac s =
     (case s of
        c # cs \<Rightarrow>
          if c = CHR ''.'' then (let (d, r) = read_digits cs in if d = [] then None else Some (c # d, r))
          else Some ([], s)
      | [] \<Rightarrow> Some ([], []))"

definition read_exp :: "string \<Rightarrow> (string \<times> string) option" where
  "read_exp s =
     (case s of
        c # cs \<Rightarrow>
          if c = CHR ''e'' \<or> c = CHR ''E''
          then (let (sg, cs) = (case cs of
                                  x # xs \<Rightarrow> if x = CHR ''+'' \<or> x = CHR ''-'' then ([x], xs) else ([], cs)
                                | [] \<Rightarrow> ([], []));
                    (d, r) = read_digits cs
                in if d = [] then None else Some (c # sg @ d, r))
          else Some ([], s)
      | [] \<Rightarrow> Some ([], []))"

definition read_number :: "string \<Rightarrow> (string \<times> string) option" where
  "read_number s =
     (let (sg, s) = (case s of c # cs \<Rightarrow> if c = CHR ''-'' then ([c], cs) else ([], s) | [] \<Rightarrow> ([], [])) in
      case read_int_part s of
        None \<Rightarrow> None
      | Some (i, s) \<Rightarrow>
          (case read_frac s of
             None \<Rightarrow> None
           | Some (f, s) \<Rightarrow>
               (case read_exp s of None \<Rightarrow> None | Some (e, s) \<Rightarrow> Some (sg @ i @ f @ e, s))))"

definition read_word :: "string \<Rightarrow> 'a \<Rightarrow> string \<Rightarrow> ('a \<times> string) option" where
  "read_word wd x s = (if take (length wd) s = wd then Some (x, drop (length wd) s) else None)"

text \<open>
  A value, the elements of an array up to its closing bracket and the members of an object up to its
  closing brace.  The fuel bounds the recursion; \<open>Unmarshal\<close> starts with more than the text can use.
\<close>

fun read_value :: "nat \<Rightarrow> string \<Rightarrow> (json \<times> string) option"
  and read_elems :: "nat \<Rightarrow> string \<Rightarrow> (json list \<times> string) option"
  and read_members :: "nat \<Rightarrow> string \<Rightarrow> ((string \<times> json) list \<times> string) option" where
  "read_value 0 s = None"
| "read_value (Suc n) s =
     (case skip_ws s of
        [] \<Rightarrow> None
      | c # cs \<Rightarrow>
          if c = dquote then map_option (\<lambda>(x, r). (JStr x, r)) (read_string cs)
          else if c = CHR ''{'' then
            (case skip_ws cs of
               [] \<Rightarrow> None
             | d # ds \<Rightarrow> if d = CHR ''}'' then Some (JObj [], ds)
                 else map_option (\<lambda>(ms, r). (JObj ms, r)) (read_members n (d # ds)))
          else if c = CHR ''['' then
            (case skip_ws cs of
               [] \<Rightarrow> None
             | d # ds \<Rightarrow> if d = CHR '']'' then Some (JArr [], ds)
                 else map_option (\<lambda>(xs, r). (JArr xs, r)) (read_elems n (d # ds)))
          else if c = CHR ''t'' then read_word ''true'' (JBool True) (c # cs)
          else if c = CHR ''f'' then read_word ''false'' (JBool False) (c # cs)
          else if c = CHR ''n'' then read_word ''null'' JNull (c # cs)
          else map_option (\<lambda>(x, r). (JNum x, r)) (read_number (c # cs)))"
| "read_elems 0 s = None"
| "read_elems (Suc n) s =
     (case read_value n s of
        None \<Rightarrow> None
      | Some (x, r) \<Rightarrow>
          (case skip_ws r of
             [] \<Rightarrow> None
           | c # cs \<Rightarrow>
               if c = CHR '','' then map_option (\<lambda>(xs, r). (x # xs, r)) (read_elems n cs)
               else if c = CHR '']'' then Some ([x], cs) else None))"
| "read_members 0 s = None"
| "read_members (Suc n) s =
     (case skip_ws s of
        [] \<Rightarrow> None
      | q # qs \<Rightarrow>
          if q \<noteq> dquote then None
          else (case read_string qs of
                  None \<Rightarrow> None
                | Some (k, r) \<Rightarrow>
                    (case skip_ws r of
                       [] \<Rightarrow> None
                     | c # cs \<Rightarrow>
                         if c \<noteq> CHR '':'' then None
                         else (case read_value n cs of
                                 None \<Rightarrow> None
                               | Some (v, r) \<Rightarrow>
                                   (case skip_ws r of
                                      [] \<Rightarrow> None
                                    | d # ds \<Rightarrow>
                                        if d = CHR '','' then map_option (\<lambda>(ms, r). ((k, v) # ms, r)) (read_members n ds)
                                        else if d = CHR ''}'' then Some ([(k, v)], ds) else None)))))"

definition json_Unmarshal :: "string \<Rightarrow> json result" where
  "json_Unmarshal s =
     (case read_value (2 * length s + 2) s of
        Some (v, r) \<Rightarrow> if skip_ws r = [] then Inr v else Inl (New ''json.SyntaxError'' ''invalid character after top-level value'')
      | None \<Rightarrow> Inl (New ''json.SyntaxError'' ''invalid JSON''))"

section \<open>What is written reads back\<close>

text \<open>A text with every invalid byte replaced by U+FFFD.\<close>

fun utf8_repair :: "string \<Rightarrow> string" where
  "utf8_repair [] = []"
| "utf8_repair (c # cs) =
     (if of_char c < (128 :: nat) then c # utf8_repair cs
      else if rune_len c cs = 1 then replacement @ utf8_repair cs
      else c # take (rune_len c cs - 1) cs @ utf8_repair (drop (rune_len c cs - 1) cs))"

lemma utf8_repair_ascii: "\<forall>c \<in> set s. of_char c < (128 :: nat) \<Longrightarrow> utf8_repair s = s"
  by (induction s) auto

lemma rune_len_take:
  assumes "rune_len c cs \<noteq> 1"
  shows "rune_len c (take (rune_len c cs - 1) cs @ xs) = rune_len c cs"
proof -
  let ?n = "of_char c :: nat"
  consider (two) c1 r where "cs = c1 # r" "194 \<le> ?n" "?n \<le> 223" "in_range 128 191 c1"
    | (three) c1 c2 r where "cs = c1 # c2 # r" "\<not> (194 \<le> ?n \<and> ?n \<le> 223)" "224 \<le> ?n" "?n \<le> 239"
        "in_range (if ?n = 224 then 160 else 128) (if ?n = 237 then 159 else 191) c1" "in_range 128 191 c2"
    | (four) c1 c2 c3 r where "cs = c1 # c2 # c3 # r" "240 \<le> ?n" "?n \<le> 244"
        "in_range (if ?n = 240 then 144 else 128) (if ?n = 244 then 143 else 191) c1"
        "in_range 128 191 c2" "in_range 128 191 c3"
    using assms unfolding rune_len_def Let_def by (simp split: if_splits list.splits)
  then show ?thesis by cases (simp_all add: rune_len_def Let_def)
qed

lemma rune_len_length: "rune_len c cs - 1 \<le> length cs"
  by (auto simp: rune_len_def Let_def split: list.splits)

lemma hex_val_hex_digit: "d < 16 \<Longrightarrow> hex_val (hex_digit d) = Some d"
  by (auto simp: hex_val_def hex_digit_def Let_def)

lemma hex4: "n < 65536 \<Longrightarrow>
    ((n div 4096 mod 16 * 16 + n div 256 mod 16) * 16 + n div 16 mod 16) * 16 + n mod 16 = (n :: nat)"
proof -
  assume n: "n < 65536"
  have "n div 4096 = (n div 256) div 16" by (simp add: div_mult2_eq [symmetric])
  moreover have "n div 4096 mod 16 = n div 4096" using n by simp
  moreover have "n div 256 = n div 16 div 16" by (simp add: div_mult2_eq [symmetric])
  ultimately show ?thesis
    by (metis div_mult_mod_eq)
qed

lemma getu4_u_escape: "n < 65536 \<Longrightarrow> getu4 (u_escape n @ r) = Some n"
  using hex4 [of n] by (simp add: getu4_def u_escape_def hex_val_hex_digit)

lemma read_u_escape:
  assumes "n < 65536" and "n < 0xD800 \<or> 0xDC00 \<le> n"
  shows "read_string (u_escape n @ r) = map_option (\<lambda>(s, r). (utf8_encode n @ s, r)) (read_string r)"
proof -
  obtain t where t: "u_escape n @ r = backslash # t" "drop 5 t = r" by (simp add: u_escape_def)
  have "getu4 (backslash # t) = Some n" using getu4_u_escape [OF assms(1), of r] t by simp
  moreover have "backslash \<noteq> dquote" by (simp add: backslash_def dquote_def)
  ultimately show ?thesis using assms(2) t by auto
qed

lemma read_simple_escape:
  assumes "simple_escape e = Some x" and "e \<noteq> CHR ''u''"
  shows "read_string (backslash # e # r) = map_option (\<lambda>(s, r). (x # s, r)) (read_string r)"
proof -
  have "getu4 (backslash # e # r) = None" using assms(2) by (auto simp: getu4_def split: list.splits)
  moreover have "backslash \<noteq> dquote" by (simp add: backslash_def dquote_def)
  ultimately show ?thesis using assms(1) by simp
qed

lemma read_ascii_escape:
  assumes "of_char c < (128 :: nat)"
  shows "read_string (ascii_escape c @ r) = map_option (\<lambda>(s, r). (c # s, r)) (read_string r)"
proof -
  let ?n = "of_char c :: nat"
  consider "c = dquote \<or> c = backslash" | "?n = 8" | "?n = 12" | "?n = 10" | "?n = 13" | "?n = 9"
    | "c \<noteq> dquote" "c \<noteq> backslash" "?n \<notin> {8, 9, 10, 12, 13}" "?n < 32 \<or> c = CHR ''<'' \<or> c = CHR ''>'' \<or> c = CHR ''&''"
    | "c \<noteq> dquote" "c \<noteq> backslash" "\<not> ?n < 32" "c \<noteq> CHR ''<''" "c \<noteq> CHR ''>''" "c \<noteq> CHR ''&''" by auto
  then show ?thesis
  proof cases
    case 1
    then have "simple_escape c = Some c" "c \<noteq> CHR ''u''" by (auto simp: simple_escape_def dquote_def backslash_def)
    then show ?thesis using 1 read_simple_escape [of c c r] by (simp add: ascii_escape_def)
  next
    case 7
    then have "ascii_escape c = u_escape ?n" by (simp add: ascii_escape_def Let_def)
    moreover have "utf8_encode ?n = [c]" using assms by (simp add: utf8_encode_def)
    ultimately show ?thesis using read_u_escape [of ?n r] assms by simp
  next
    case 8
    then have "ascii_escape c = [c]" by (simp add: ascii_escape_def Let_def)
    then show ?thesis using 8 assms by simp
  next
    case 2
    then have "c = CHR 0x08" using of_char_eq_iff [of c "CHR 0x08", where ?'a = nat] by simp
    then show ?thesis using read_simple_escape [of "CHR ''b''" c r]
      by (simp add: ascii_escape_def simple_escape_def dquote_def backslash_def)
  next
    case 3
    then have "c = CHR 0x0C" using of_char_eq_iff [of c "CHR 0x0C", where ?'a = nat] by simp
    then show ?thesis using read_simple_escape [of "CHR ''f''" c r]
      by (simp add: ascii_escape_def simple_escape_def dquote_def backslash_def)
  next
    case 4
    then have "c = CHR 0x0A" using of_char_eq_iff [of c "CHR 0x0A", where ?'a = nat] by simp
    then show ?thesis using read_simple_escape [of "CHR ''n''" c r]
      by (simp add: ascii_escape_def simple_escape_def dquote_def backslash_def)
  next
    case 5
    then have "c = CHR 0x0D" using of_char_eq_iff [of c "CHR 0x0D", where ?'a = nat] by simp
    then show ?thesis using read_simple_escape [of "CHR ''r''" c r]
      by (simp add: ascii_escape_def simple_escape_def dquote_def backslash_def)
  next
    case 6
    then have "c = CHR 0x09" using of_char_eq_iff [of c "CHR 0x09", where ?'a = nat] by simp
    then show ?thesis using read_simple_escape [of "CHR ''t''" c r]
      by (simp add: ascii_escape_def simple_escape_def dquote_def backslash_def)
  qed
qed

lemma read_rune:
  assumes "\<not> of_char c < (128 :: nat)" and "rune_len c cs \<noteq> 1"
  shows "read_string (c # take (rune_len c cs - 1) cs @ xs) =
    map_option (\<lambda>(s, r). (c # take (rune_len c cs - 1) cs @ s, r)) (read_string xs)"
proof -
  let ?t = "take (rune_len c cs - 1) cs"
  have c: "c \<noteq> dquote" "c \<noteq> backslash" "\<not> of_char c < (32 :: nat)"
    using assms(1) by (auto simp: dquote_def backslash_def)
  have k: "rune_len c (?t @ xs) = rune_len c cs" by (rule rune_len_take [OF assms(2)])
  have l: "length ?t = rune_len c cs - 1" using rune_len_length [of c cs] by simp
  have d: "take (rune_len c cs - 1) (?t @ xs) = ?t" "drop (rune_len c cs - 1) (?t @ xs) = xs"
    using l by simp_all
  show ?thesis
    unfolding read_string.simps(2) [of c "?t @ xs"] k d using c assms by simp
qed

lemma read_escape: "read_string (json_escape s @ dquote # r) = Some (utf8_repair s, r)"
proof (induction s rule: json_escape.induct)
  case 1
  then show ?case by simp
next
  case (2 c cs)
  show ?case
  proof (cases "of_char c < (128 :: nat)")
    case True
    then show ?thesis using 2(1) by (simp add: read_ascii_escape)
  next
    case False
    note big = this
    show ?thesis
    proof (cases "rune_len c cs = 1")
      case True
      have "utf8_encode 0xFFFD = replacement" by (simp add: utf8_encode_def replacement_def char_of_eq_iff)
      then show ?thesis using big True 2(2) read_u_escape [of "0xFFFD"] by simp
    next
      case False
      show ?thesis
      proof (cases "is_line_separator c cs")
        case True
        then have c: "c = CHR 0xE2" and cs: "take 2 cs = [CHR 0x80, CHR 0xA8] \<or> take 2 cs = [CHR 0x80, CHR 0xA9]"
          by (cases cs; cases "tl cs"; auto simp: is_line_separator_def)+
        then obtain d ds where ds: "cs = CHR 0x80 # d # ds" "d = CHR 0xA8 \<or> d = CHR 0xA9"
          by (cases cs; cases "tl cs") auto
        then have "rune_len c cs = 3" using c by (auto simp: rune_len_def in_range_def)
        moreover have "utf8_encode 0x2028 = [CHR 0xE2, CHR 0x80, CHR 0xA8]" "utf8_encode 0x2029 = [CHR 0xE2, CHR 0x80, CHR 0xA9]"
          by (simp_all add: utf8_encode_def char_of_eq_iff)
        moreover have "json_escape (c # cs) = u_escape (if d = CHR 0xA8 then 0x2028 else 0x2029) @ json_escape ds"
          using big False True ds by (simp add: drop_Cons' take_Cons')
        moreover have "read_string (json_escape ds @ dquote # r) = Some (utf8_repair ds, r)"
          using 2(3) [OF big False True] ds by (simp add: drop_Cons')
        ultimately show ?thesis using big c ds
          by (auto simp: read_u_escape drop_Cons' take_Cons' simp del: read_string.simps json_escape.simps)
      next
        case ls: False
        let ?k = "rune_len c cs - 1"
        have "json_escape (c # cs) @ dquote # r = c # take ?k cs @ (json_escape (drop ?k cs) @ dquote # r)"
          unfolding json_escape.simps(2) using big False ls by simp
        moreover have "utf8_repair (c # cs) = c # take ?k cs @ utf8_repair (drop ?k cs)"
          unfolding utf8_repair.simps(2) using big False by simp
        ultimately show ?thesis
          using read_rune [OF big False, of "json_escape (drop ?k cs) @ dquote # r"] 2(4) [OF big False ls]
          by (simp only: option.map prod.case)
      qed
    qed
  qed
qed

lemma read_json_string: "read_string (tl (json_string s) @ r) = Some (utf8_repair s, r)"
  using read_escape [of s r] by (simp add: json_string_def)

subsection \<open>Numbers\<close>

lemma is_digit_digit_char: "d < 10 \<Longrightarrow> is_digit (digit_char d)"
  by (auto simp: is_digit_def in_range_def digit_char_def)

lemma nat_itoa_digits: "nat_itoa n \<noteq> [] \<and> (\<forall>c \<in> set (nat_itoa n). is_digit c)"
proof (induction n rule: nat_itoa.induct)
  case (1 n)
  then show ?case by (subst (1 2) nat_itoa.simps) (auto intro: is_digit_digit_char)
qed

lemma hd_nat_itoa: "0 < n \<Longrightarrow> hd (nat_itoa n) \<noteq> CHR ''0''"
proof (induction n rule: nat_itoa.induct)
  case (1 n)
  have "digit_char n \<noteq> CHR ''0''" if "n < 10" "0 < n"
    using that by (auto simp: digit_char_def char_of_eq_iff take_bit_eq_mod)
  moreover have "hd (nat_itoa n) = hd (nat_itoa (n div 10))" if "\<not> n < 10"
    using that nat_itoa_digits [of "n div 10"] by (subst nat_itoa.simps) simp
  ultimately show ?case
    using 1 nat_itoa.simps [of n] by (cases "n < 10") (auto simp: div_greater_zero_iff)
qed

text \<open>What may follow a number without being taken for a part of it.\<close>

definition number_ends :: "string \<Rightarrow> bool" where
  "number_ends r \<longleftrightarrow> (case r of [] \<Rightarrow> True | c # _ \<Rightarrow> \<not> is_digit c \<and> c \<noteq> CHR ''.'' \<and> c \<noteq> CHR ''e'' \<and> c \<noteq> CHR ''E'')"

lemma number_ends_rest: "number_ends r \<Longrightarrow> read_frac r = Some ([], r) \<and> read_exp r = Some ([], r)"
  by (cases r) (auto simp: number_ends_def read_frac_def read_exp_def)

lemma read_digits_append:
  assumes "\<forall>c \<in> set ds. is_digit c" and "number_ends r"
  shows "read_digits (ds @ r) = (ds, r)"
proof -
  have "takeWhile is_digit r = []" "dropWhile is_digit r = r"
    using assms(2) by (cases r; simp add: number_ends_def)+
  then show ?thesis using assms(1) by (simp add: read_digits_def takeWhile_append dropWhile_append)
qed

lemma read_int_part_itoa:
  assumes "number_ends r"
  shows "read_int_part (nat_itoa n @ r) = Some (nat_itoa n, r)"
proof (cases "n = 0")
  case True
  then have "nat_itoa n = [CHR ''0'']" by (subst nat_itoa.simps) (simp add: digit_char_def char_of_eq_iff)
  then show ?thesis by (simp add: read_int_part_def)
next
  case False
  obtain c cs where c: "nat_itoa n = c # cs" using nat_itoa_digits [of n] by (cases "nat_itoa n") auto
  with False hd_nat_itoa [of n] nat_itoa_digits [of n] have "c \<noteq> CHR ''0''" "is_digit c" by auto
  then show ?thesis using read_digits_append [OF conjunct2 [OF nat_itoa_digits [of n]] assms] c
    by (simp add: read_int_part_def)
qed

lemma read_number_itoa:
  assumes "number_ends r"
  shows "read_number (itoa i @ r) = Some (itoa i, r)"
proof -
  have "c \<noteq> CHR ''-''" if "is_digit c" for c using that by (auto simp: is_digit_def in_range_def)
  then have "(case nat_itoa n @ r of c # cs \<Rightarrow> if c = CHR ''-'' then ([c], cs) else ([], nat_itoa n @ r) | [] \<Rightarrow> ([], []))
      = ([], nat_itoa n @ r)" for n
    using nat_itoa_digits [of n] by (cases "nat_itoa n") auto
  then show ?thesis
    using read_int_part_itoa [OF assms] number_ends_rest [OF assms]
    by (simp add: read_number_def itoa_def)
qed

subsection \<open>Values\<close>

text \<open>The values the service writes: every number is an integer.\<close>

fun json_ints :: "json \<Rightarrow> bool" where
  "json_ints (JNum s) = (\<exists>i. s = itoa i)"
| "json_ints (JArr xs) = (\<forall>x \<in> set xs. json_ints x)"
| "json_ints (JObj ms) = (\<forall>kv \<in> set ms. json_ints (snd kv))"
| "json_ints v = True"

fun json_repair :: "json \<Rightarrow> json" where
  "json_repair (JStr s) = JStr (utf8_repair s)"
| "json_repair (JArr xs) = JArr (map json_repair xs)"
| "json_repair (JObj ms) = JObj (map (\<lambda>(k, v). (utf8_repair k, json_repair v)) ms)"
| "json_repair v = v"

lemma skip_ws_itoa: "skip_ws (itoa i @ r) = itoa i @ r \<and> (\<exists>c cs. itoa i = c # cs \<and> (c = CHR ''-'' \<or> is_digit c))"
proof -
  have "\<exists>c cs. itoa i = c # cs \<and> (c = CHR ''-'' \<or> is_digit c)"
  proof (cases "i < 0")
    case False
    then show ?thesis using nat_itoa_digits [of "nat i"] by (cases "nat_itoa (nat i)") (auto simp: itoa_def)
  qed (simp add: itoa_def)
  then obtain c cs where c: "itoa i = c # cs" "c = CHR ''-'' \<or> is_digit c" by blast
  then have "\<not> is_ws c" by (auto simp: is_digit_def in_range_def is_ws_def)
  with c show ?thesis by (simp add: skip_ws_def)
qed

lemma json_Marshal_start:
  "json_ints v \<Longrightarrow> \<exists>c cs. json_Marshal v = c # cs \<and> \<not> is_ws c \<and> c \<noteq> CHR '']'' \<and> c \<noteq> CHR ''}''"
proof (cases v)
  case (JNum s)
  moreover assume "json_ints v"
  ultimately obtain i where "s = itoa i" by auto
  then show ?thesis using JNum skip_ws_itoa [of i "[]"] by (auto simp: is_ws_def is_digit_def in_range_def)
qed (auto simp: json_string_def dquote_def is_ws_def)

lemma skip_ws_Cons: "\<not> is_ws c \<Longrightarrow> skip_ws (c # cs) = c # cs"
  by (simp add: skip_ws_def)

lemma delimiters [simp]:
  "\<not> is_ws (CHR '','')" "\<not> is_ws (CHR ''}'')" "\<not> is_ws (CHR '']'')" "\<not> is_ws (CHR '':'')" "\<not> is_ws dquote"
  "\<not> is_ws (CHR ''{'')" "\<not> is_ws (CHR ''['')" "\<not> is_ws (CHR ''t'')" "\<not> is_ws (CHR ''f'')" "\<not> is_ws (CHR ''n'')"
  by (simp_all add: is_ws_def dquote_def)

lemma number_ends_delimiters [simp]:
  "number_ends []" "number_ends (CHR '','' # r)" "number_ends (CHR ''}'' # r)" "number_ends (CHR '']'' # r)"
  by (simp_all add: number_ends_def is_digit_def in_range_def)

lemma read_value_scalar:
  "read_value (Suc n) (json_string s @ r) = Some (JStr (utf8_repair s), r)"
  "number_ends r \<Longrightarrow> read_value (Suc n) (itoa i @ r) = Some (JNum (itoa i), r)"
  "read_value (Suc n) (''true'' @ r) = Some (JBool True, r)"
  "read_value (Suc n) (''false'' @ r) = Some (JBool False, r)"
  "read_value (Suc n) (''null'' @ r) = Some (JNull, r)"
proof -
  show "read_value (Suc n) (json_string s @ r) = Some (JStr (utf8_repair s), r)"
    using read_json_string [of s r] by (simp add: json_string_def skip_ws_Cons)
  show "read_value (Suc n) (itoa i @ r) = Some (JNum (itoa i), r)" if "number_ends r"
  proof -
    from skip_ws_itoa [of i r] obtain c cs where c: "skip_ws (itoa i @ r) = itoa i @ r" "itoa i = c # cs"
      "c = CHR ''-'' \<or> is_digit c" by blast
    then have "c \<noteq> dquote" "c \<noteq> CHR ''{''" "c \<noteq> CHR ''[''" "c \<noteq> CHR ''t''" "c \<noteq> CHR ''f''" "c \<noteq> CHR ''n''"
      by (auto simp: is_digit_def in_range_def dquote_def)
    then show ?thesis using c read_number_itoa [OF that, of i] by simp
  qed
  show "read_value (Suc n) (''true'' @ r) = Some (JBool True, r)"
    "read_value (Suc n) (''false'' @ r) = Some (JBool False, r)"
    "read_value (Suc n) (''null'' @ r) = Some (JNull, r)"
    by (simp_all add: skip_ws_Cons read_word_def dquote_def)
qed

declare read_value.simps [simp del]

lemma read_Marshal:
  "json_ints v \<Longrightarrow> number_ends r \<Longrightarrow> 2 * length (json_Marshal v) \<le> n \<Longrightarrow>
     read_value n (json_Marshal v @ r) = Some (json_repair v, r)"
  "\<forall>x \<in> set xs. json_ints x \<Longrightarrow> xs \<noteq> [] \<Longrightarrow> 2 * length (json_elems xs) < m \<Longrightarrow>
     read_elems m (json_elems xs @ CHR '']'' # s) = Some (map json_repair xs, s)"
  "\<forall>kv \<in> set ms. json_ints (snd kv) \<Longrightarrow> ms \<noteq> [] \<Longrightarrow> 2 * length (json_members ms) < k \<Longrightarrow>
     read_members k (json_members ms @ CHR ''}'' # t) = Some (map (\<lambda>(k, v). (utf8_repair k, json_repair v)) ms, t)"
proof (induction v and xs and ms arbitrary: n r and m s and k t rule: json_Marshal_json_elems_json_members.induct)
  case 1
  then show ?case using read_value_scalar(5) [of "n - 1"] by (cases n) auto
next
  case (2 b)
  then show ?case using read_value_scalar(3, 4) [of "n - 1" r] by (cases n) (auto split: if_splits)
next
  case (3 x)
  then obtain i where i: "x = itoa i" by auto
  obtain n' where "n = Suc n'" using 3 i skip_ws_itoa [of i "[]"] by (cases n) auto
  then show ?case using i read_value_scalar(2) 3 by simp
next
  case (4 x)
  then show ?case using read_value_scalar(1) [of "n - 1" x] by (cases n) (auto simp: json_string_def)
next
  case (5 xs)
  then obtain n' where n: "n = Suc n'" by (cases n) auto
  show ?case
  proof (cases "xs = []")
    case True
    then show ?thesis using n by (simp add: skip_ws_Cons dquote_def read_value.simps)
  next
    case False
    then obtain y ys where y: "xs = y # ys" by (cases xs) auto
    obtain c cs where c: "json_elems xs = c # cs" "\<not> is_ws c" "c \<noteq> CHR '']''"
      using json_Marshal_start [of y] 5(2) y by auto
    have "read_elems n' (json_elems xs @ CHR '']'' # r) = Some (map json_repair xs, r)"
      using 5 False n by auto
    then show ?thesis using n c by (simp add: skip_ws_Cons dquote_def is_ws_def read_value.simps)
  qed
next
  case (6 ms)
  then obtain n' where n: "n = Suc n'" by (cases n) auto
  show ?case
  proof (cases "ms = []")
    case True
    then show ?thesis using n by (simp add: skip_ws_Cons dquote_def read_value.simps)
  next
    case False
    then obtain y ys where y: "ms = y # ys" by (cases ms) auto
    obtain cs where c: "json_members ms = dquote # cs"
      using y by (cases y) (auto simp: json_string_def)
    have "read_members n' (json_members ms @ CHR ''}'' # r) =
        Some (map (\<lambda>(k, v). (utf8_repair k, json_repair v)) ms, r)"
      using 6 False n by auto
    then show ?thesis using n c by (simp add: skip_ws_Cons dquote_def is_ws_def read_value.simps)
  qed
next
  case 7
  then show ?case by simp
next
  case (8 x xs)
  then obtain m' where m: "m = Suc m'" by (cases m) auto
  show ?case
  proof (cases "xs = []")
    case True
    then have "read_value m' (json_Marshal x @ CHR '']'' # s) = Some (json_repair x, CHR '']'' # s)"
      using 8 m by auto
    then show ?thesis using True m by (simp add: skip_ws_Cons)
  next
    case False
    let ?rest = "json_elems xs @ CHR '']'' # s"
    have "read_value m' (json_Marshal x @ CHR '','' # ?rest) = Some (json_repair x, CHR '','' # ?rest)"
      using 8 m False by auto
    moreover have "read_elems m' ?rest = Some (map json_repair xs, s)" using 8 m False by auto
    ultimately show ?thesis using False m by (simp add: skip_ws_Cons)
  qed
next
  case 9
  then show ?case by simp
next
  case (10 key v ms)
  then obtain k' where k: "k = Suc k'" by (cases k) auto
  have str: "read_string (json_escape key @ dquote # y) = Some (utf8_repair key, y)" for y by (rule read_escape)
  show ?case
  proof (cases "ms = []")
    case True
    then have "read_value k' (json_Marshal v @ CHR ''}'' # t) = Some (json_repair v, CHR ''}'' # t)"
      using 10 k by auto
    then show ?thesis using True k by (simp add: skip_ws_Cons json_string_def str)
  next
    case False
    let ?rest = "json_members ms @ CHR ''}'' # t"
    have "read_value k' (json_Marshal v @ CHR '','' # ?rest) = Some (json_repair v, CHR '','' # ?rest)"
      using 10 k False by auto
    moreover have "read_members k' ?rest = Some (map (\<lambda>(k, v). (utf8_repair k, json_repair v)) ms, t)"
      using 10 k False by auto
    ultimately show ?thesis using False k by (simp add: skip_ws_Cons json_string_def str)
  qed
qed

lemma json_roundtrip: "json_ints v \<Longrightarrow> json_Unmarshal (json_Marshal v) = Inr (json_repair v)"
  using read_Marshal(1) [of v "[]"] by (simp add: json_Unmarshal_def skip_ws_def)

end
