(* ===== verification/JsonDecode.thy ===== *)
theory JsonDecode
  imports Json
begin

text \<open>
  \<open>json.Unmarshal\<close> into a struct: a member goes to the field of its name, or else to the first field
  whose name is the same up to case; unknown members are skipped, \<open>null\<close> leaves a field as it is, later
  members win, and a value of the wrong type is an error that does not stop the walk.  A decoder of a
  field takes the value and the struct and gives the error, if any, and the struct after.
\<close>

type_synonym 's decoder = "json \<Rightarrow> 's \<Rightarrow> goerr option \<times> 's"

definition json_type_error :: "string \<Rightarrow> goerr" where
  "json_type_error t = New ''json.UnmarshalTypeError'' (''json: cannot unmarshal value of type '' @ t)"

text \<open>
  \<open>foldName\<close>: ASCII letters to upper case; of the other characters only the long s and the Kelvin sign
  fold to ASCII ones, so only these can make a name equal to one of ours.
\<close>

fun json_fold :: "string \<Rightarrow> string" where
  "json_fold [] = []"
| "json_fold (c # cs) =
     (if in_range 97 122 c then char_of (of_char c - 32 :: nat) # json_fold cs
      else if c = CHR 0xC5 \<and> take 1 cs = [CHR 0xBF] then CHR ''S'' # json_fold (drop 1 cs)
      else if c = CHR 0xE2 \<and> take 2 cs = [CHR 0x84, CHR 0xAA] then CHR ''K'' # json_fold (drop 2 cs)
      else c # json_fold cs)"

definition json_field :: "string \<Rightarrow> (string \<times> 'a) list \<Rightarrow> 'a option" where
  "json_field k fs =
     (case map_of fs k of
        Some f \<Rightarrow> Some f
      | None \<Rightarrow> map_of (map (\<lambda>(n, f). (json_fold n, f)) fs) (json_fold k))"

fun decode_members :: "(string \<times> 's decoder) list \<Rightarrow> (string \<times> json) list \<Rightarrow> goerr option \<times> 's \<Rightarrow> goerr option \<times> 's" where
  "decode_members fs [] x = x"
| "decode_members fs ((k, v) # ms) (e, s) =
     (case json_field k fs of
        None \<Rightarrow> decode_members fs ms (e, s)
      | Some d \<Rightarrow>
          (case d v s of
             (e', s') \<Rightarrow> decode_members fs ms (case e of None \<Rightarrow> e' | Some _ \<Rightarrow> e, s')))"

definition decode_object :: "string \<Rightarrow> (string \<times> 's decoder) list \<Rightarrow> 's decoder" where
  "decode_object t fs v s =
     (case v of
        JObj ms \<Rightarrow> decode_members fs ms (None, s)
      | JNull \<Rightarrow> (None, s)
      | _ \<Rightarrow> (Some (json_type_error t), s))"

definition decode_string :: "(string \<Rightarrow> 's \<Rightarrow> 's) \<Rightarrow> 's decoder" where
  "decode_string f v s =
     (case v of JStr x \<Rightarrow> (None, f x s) | JNull \<Rightarrow> (None, s) | _ \<Rightarrow> (Some (json_type_error ''string''), s))"

definition decode_bool :: "(bool \<Rightarrow> 's \<Rightarrow> 's) \<Rightarrow> 's decoder" where
  "decode_bool f v s =
     (case v of JBool b \<Rightarrow> (None, f b s) | JNull \<Rightarrow> (None, s) | _ \<Rightarrow> (Some (json_type_error ''bool''), s))"

text \<open>\<open>strconv.ParseInt\<close> of the literal of a number: an integer of 64 bits, or an error.\<close>

definition digits_val :: "string \<Rightarrow> int" where
  "digits_val ds = foldl (\<lambda>n c. n * 10 + (of_char c - 48)) 0 ds"

definition parse_int :: "string \<Rightarrow> int option" where
  "parse_int s =
     (let (neg, ds) = (case s of c # cs \<Rightarrow> if c = CHR ''-'' then (True, cs) else (False, s) | [] \<Rightarrow> (False, []));
          n = (if neg then - digits_val ds else digits_val ds)
      in if ds \<noteq> [] \<and> list_all is_digit ds \<and> - (2 ^ 63) \<le> n \<and> n < 2 ^ 63 then Some n else None)"

definition decode_int :: "(int \<Rightarrow> 's \<Rightarrow> 's) \<Rightarrow> 's decoder" where
  "decode_int f v s =
     (case v of
        JNum x \<Rightarrow> (case parse_int x of Some n \<Rightarrow> (None, f n s) | None \<Rightarrow> (Some (json_type_error ''int''), s))
      | JNull \<Rightarrow> (None, s)
      | _ \<Rightarrow> (Some (json_type_error ''int''), s))"

definition json_into :: "'s decoder \<Rightarrow> string \<Rightarrow> 's \<Rightarrow> 's result" where
  "json_into d doc s =
     (case json_Unmarshal doc of
        Inl e \<Rightarrow> Inl e
      | Inr v \<Rightarrow> (case d v s of (None, s') \<Rightarrow> Inr s' | (Some e, _) \<Rightarrow> Inl e))"

section \<open>Integers read back\<close>

lemma digits_val_append: "digits_val (xs @ [c]) = digits_val xs * 10 + (of_char c - 48)"
  by (simp add: digits_val_def)

lemma digits_val_itoa: "digits_val (nat_itoa n) = int n"
proof (induction n rule: nat_itoa.induct)
  case (1 n)
  have d: "of_char (digit_char m) - 48 = int m" if "m < 10" for m
  proof -
    have "(of_char (digit_char m) :: nat) = 48 + m" using that by (simp add: digit_char_def)
    then show ?thesis by (metis add_diff_cancel_left' of_nat_add of_nat_numeral of_nat_of_char)
  qed
  show ?case
  proof (cases "n < 10")
    case True
    then show ?thesis using d [of n] by (simp add: digits_val_def nat_itoa.simps [of n])
  next
    case False
    with 1 have "digits_val (nat_itoa (n div 10)) = int (n div 10)" by simp
    moreover have "of_char (digit_char (n mod 10)) - 48 = int (n mod 10)" using d by simp
    moreover have "int (n div 10) * 10 + int (n mod 10) = int n"
      by (metis div_mult_mod_eq of_nat_add of_nat_mult of_nat_numeral)
    ultimately show ?thesis using False by (simp add: digits_val_append nat_itoa.simps [of n])
  qed
qed

lemma parse_int_itoa: "- (2 ^ 63) \<le> i \<Longrightarrow> i < 2 ^ 63 \<Longrightarrow> parse_int (itoa i) = Some i"
proof -
  assume i: "- (2 ^ 63) \<le> i" "i < 2 ^ 63"
  have ds: "nat_itoa m \<noteq> []" "list_all is_digit (nat_itoa m)" for m
    using nat_itoa_digits [of m] by (simp_all add: list_all_iff)
  show ?thesis
  proof (cases "i < 0")
    case True
    then show ?thesis using i ds by (simp add: parse_int_def itoa_def digits_val_itoa is_digit_def)
  next
    case False
    then obtain c cs where c: "itoa i = c # cs" "nat_itoa (nat i) = c # cs"
      using ds(1) [of "nat i"] by (cases "nat_itoa (nat i)") (auto simp: itoa_def)
    with ds(2) [of "nat i"] have "c \<noteq> CHR ''-''" by (auto simp: is_digit_def in_range_def)
    then show ?thesis using i c ds(2) [of "nat i"] digits_val_itoa [of "nat i"] False by (simp add: parse_int_def)
  qed
qed

end
