(* ===== verification/Rfc3339.thy ===== *)
theory Rfc3339
  imports GoTime Json JsonDecode
begin

text \<open>
  The text of an instant in JSON (\<open>time.Time.MarshalJSON\<close>, \<open>UnmarshalJSON\<close>): RFC 3339 with as many digits
  of the second as it needs, in the zone of the process.  \<open>zone\<close> is the offset of that zone from UTC in
  minutes.  The reader is \<open>time.Parse\<close> with the layout RFC3339, which is more lenient than what is
  written: the hour may have one digit, the fraction may follow a comma, an offset may be +24:60.
\<close>

section \<open>Days of the year\<close>

definition daysBefore :: "nat list" where
  "daysBefore = [0, 31, 59, 90, 120, 151, 181, 212, 243, 273, 304, 334, 365]"

text \<open>The month, from 1, and the day of the month of a day of the year, from 0 (\<open>absDate\<close>).\<close>

definition month_day :: "bool \<Rightarrow> nat \<Rightarrow> nat \<times> nat" where
  "month_day lp yday =
     (if lp \<and> yday = 59 then (2, 29)
      else let day = (if lp \<and> 59 < yday then yday - 1 else yday);
               month = day div 31;
               next = daysBefore ! (month + 1)
           in if next \<le> day then (month + 2, day - next + 1)
              else (month + 1, day - daysBefore ! month + 1))"

definition daysIn :: "bool \<Rightarrow> nat \<Rightarrow> nat" where
  "daysIn lp month = (if month = 2 \<and> lp then 29 else daysBefore ! month - daysBefore ! (month - 1))"

text \<open>The day of the year of a date.\<close>

definition year_day :: "bool \<Rightarrow> nat \<Rightarrow> nat \<Rightarrow> nat" where
  "year_day lp month day = daysBefore ! (month - 1) + (if lp \<and> 2 < month then 1 else 0) + (day - 1)"

section \<open>Writing\<close>

definition two_digits :: "nat \<Rightarrow> string" where
  "two_digits n = [digit_char (n div 10 mod 10), digit_char (n mod 10)]"

definition four_digits :: "nat \<Rightarrow> string" where
  "four_digits n = two_digits (n div 100) @ two_digits (n mod 100)"

text \<open>The nine digits of the nanoseconds without trailing zeros.\<close>

fun fixed_digits :: "nat \<Rightarrow> nat \<Rightarrow> string" where
  "fixed_digits 0 n = []"
| "fixed_digits (Suc k) n = fixed_digits k (n div 10) @ [digit_char (n mod 10)]"

definition strip_zeros :: "string \<Rightarrow> string" where
  "strip_zeros s = rev (dropWhile (\<lambda>c. c = CHR ''0'') (rev s))"

definition fraction :: "nat \<Rightarrow> string" where
  "fraction ns = (let ds = strip_zeros (fixed_digits 9 ns) in if ds = [] then [] else CHR ''.'' # ds)"

definition zone_text :: "int \<Rightarrow> string" where
  "zone_text zone =
     (if zone = 0 then ''Z''
      else (if zone < 0 then CHR ''-'' else CHR ''+'') # two_digits (nat (\<bar>zone\<bar> div 60)) @ '':'' @ two_digits (nat (\<bar>zone\<bar> mod 60)))"

definition time_MarshalText :: "int \<Rightarrow> time \<Rightarrow> string result" where
  "time_MarshalText zone t =
     (let l = t + zone * minute; (y, yday) = split_days (l div day_ns); r = l mod day_ns;
          (month, day) = month_day (leap y) (nat yday)
      in if y + 1 < 0 \<or> 9999 < y + 1
         then Inl (New ''errors.New'' ''year outside of range [0,9999]'')
         else if 24 * 60 \<le> \<bar>zone\<bar> then Inl (New ''errors.New'' ''timezone hour outside of range [0,23]'')
         else Inr (four_digits (nat (y + 1)) @ ''-'' @ two_digits month @ ''-'' @ two_digits day @ ''T''
           @ two_digits (nat (r div hour)) @ '':'' @ two_digits (nat (r div minute mod 60)) @ '':''
           @ two_digits (nat (r div second mod 60)) @ fraction (nat (r mod second)) @ zone_text zone))"

section \<open>Reading\<close>

definition digit_value :: "char \<Rightarrow> nat" where "digit_value c = of_char c - 48"

definition read_two :: "string \<Rightarrow> (nat \<times> string) option" where
  "read_two s =
     (case s of a # b # r \<Rightarrow> if is_digit a \<and> is_digit b then Some (digit_value a * 10 + digit_value b, r) else None
      | _ \<Rightarrow> None)"

definition read_four :: "string \<Rightarrow> (nat \<times> string) option" where
  "read_four s =
     (case read_two s of
        None \<Rightarrow> None
      | Some (a, r) \<Rightarrow> (case read_two r of None \<Rightarrow> None | Some (b, r) \<Rightarrow> Some (a * 100 + b, r)))"

definition read_one_or_two :: "string \<Rightarrow> (nat \<times> string) option" where
  "read_one_or_two s =
     (case read_two s of
        Some x \<Rightarrow> Some x
      | None \<Rightarrow> (case s of a # r \<Rightarrow> if is_digit a then Some (digit_value a, r) else None | [] \<Rightarrow> None))"

definition expect :: "char \<Rightarrow> string \<Rightarrow> string option" where
  "expect c s = (case s of x # r \<Rightarrow> if x = c then Some r else None | [] \<Rightarrow> None)"

text \<open>Up to nine digits count; fewer are scaled up.\<close>

definition nanoseconds :: "string \<Rightarrow> nat" where
  "nanoseconds ds = foldl (\<lambda>n c. n * 10 + digit_value c) 0 (take 9 (ds @ replicate 9 (CHR ''0'')))"

definition read_fraction :: "string \<Rightarrow> nat \<times> string" where
  "read_fraction s =
     (case s of
        c # d # r \<Rightarrow>
          if (c = CHR ''.'' \<or> c = CHR '','') \<and> is_digit d
          then (nanoseconds (takeWhile is_digit (d # r)), dropWhile is_digit (d # r)) else (0, s)
      | _ \<Rightarrow> (0, s))"

definition read_zone :: "string \<Rightarrow> (int \<times> string) option" where
  "read_zone s =
     (case s of
        [] \<Rightarrow> None
      | c # r \<Rightarrow>
          if c = CHR ''Z'' then Some (0, r)
          else if c = CHR ''+'' \<or> c = CHR ''-'' then
            (case read_two r of
               None \<Rightarrow> None
             | Some (h, r) \<Rightarrow>
                 (case expect (CHR '':'') r of
                    None \<Rightarrow> None
                  | Some r \<Rightarrow>
                      (case read_two r of
                         None \<Rightarrow> None
                       | Some (m, r) \<Rightarrow>
                           if h \<le> 24 \<and> m \<le> 60
                           then Some ((if c = CHR ''-'' then -1 else 1) * (int h * 60 + int m), r) else None)))
          else None)"

definition time_parse :: "string \<Rightarrow> time option" where
  "time_parse s =
     Option.bind (read_four s) (\<lambda>(year, r).
     Option.bind (expect (CHR ''-'') r) (\<lambda>r.
     Option.bind (read_two r) (\<lambda>(month, r).
     Option.bind (expect (CHR ''-'') r) (\<lambda>r.
     Option.bind (read_two r) (\<lambda>(day, r).
     Option.bind (expect (CHR ''T'') r) (\<lambda>r.
     Option.bind (read_one_or_two r) (\<lambda>(h, r).
     Option.bind (expect (CHR '':'') r) (\<lambda>r.
     Option.bind (read_two r) (\<lambda>(mi, r).
     Option.bind (expect (CHR '':'') r) (\<lambda>r.
     Option.bind (read_two r) (\<lambda>(sec, r).
     let (ns, r) = read_fraction r; y = int year - 1 in
     Option.bind (read_zone r) (\<lambda>(zone, r).
       if r = [] \<and> 1 \<le> month \<and> month \<le> 12 \<and> h < 24 \<and> mi < 60 \<and> sec < 60 \<and> 1 \<le> day \<and> day \<le> daysIn (leap y) month
       then Some ((days_before y + int (year_day (leap y) month day)) * day_ns + int h * hour + int mi * minute
              + int sec * second + int ns - zone * minute)
       else None))))))))))))"

text \<open>
  \<open>UnmarshalJSON\<close> of a field: \<open>null\<close> leaves it, a text is parsed, anything else is an error.  Go parses the
  text between the quotes as it stands; a text that spells one of its characters as an escape is not
  told apart here.
\<close>

definition decode_time :: "(time \<Rightarrow> 's \<Rightarrow> 's) \<Rightarrow> 's decoder" where
  "decode_time f v s =
     (case v of
        JNull \<Rightarrow> (None, s)
      | JStr x \<Rightarrow>
          (case time_parse x of
             Some t \<Rightarrow> (None, f t s)
           | None \<Rightarrow> (Some (New ''time.ParseError'' ''parsing time''), s))
      | _ \<Rightarrow> (Some (New ''errors.New'' ''Time.UnmarshalJSON: input is not a JSON string''), s))"

section \<open>What is written reads back\<close>

lemma month_of_day:
  assumes "day < 365" "k = day div 31"
  shows "if daysBefore ! (k + 1) \<le> day
    then k + 2 \<le> 12 \<and> day < daysBefore ! (k + 2) else daysBefore ! k \<le> day"
    and "k < 12"
proof -
  have k: "31 * k \<le> day" "day < 31 * k + 31" using assms(2) by auto
  then show "k < 12" using assms(1) by simp
  then have "k = 0 \<or> k = 1 \<or> k = 2 \<or> k = 3 \<or> k = 4 \<or> k = 5 \<or> k = 6 \<or> k = 7 \<or> k = 8 \<or> k = 9 \<or> k = 10 \<or> k = 11"
    by presburger
  then consider "k = 0" | "k = 1" | "k = 2" | "k = 3" | "k = 4" | "k = 5" | "k = 6" | "k = 7" | "k = 8" | "k = 9" | "k = 10" | "k = 11"
    by blast
  then show "if daysBefore ! (k + 1) \<le> day then k + 2 \<le> 12 \<and> day < daysBefore ! (k + 2) else daysBefore ! k \<le> day"
    by cases (use k assms(1) in \<open>auto simp: daysBefore_def numeral_eq_Suc\<close>)
qed

lemma daysBefore_between:
  "1 \<le> m \<Longrightarrow> m \<le> 12 \<Longrightarrow> 28 \<le> daysBefore ! m - daysBefore ! (m - 1) \<and> daysBefore ! m - daysBefore ! (m - 1) \<le> 31
    \<and> (daysBefore ! (m - 1) < 59 \<longleftrightarrow> m \<le> 2)"
proof -
  assume "1 \<le> m" "m \<le> 12"
  then have "m = 1 \<or> m = 2 \<or> m = 3 \<or> m = 4 \<or> m = 5 \<or> m = 6 \<or> m = 7 \<or> m = 8 \<or> m = 9 \<or> m = 10 \<or> m = 11 \<or> m = 12"
    by presburger
  then consider "m = 1" | "m = 2" | "m = 3" | "m = 4" | "m = 5" | "m = 6" | "m = 7" | "m = 8" | "m = 9" | "m = 10" | "m = 11" | "m = 12"
    by blast
  then show ?thesis by cases (simp_all add: daysBefore_def)
qed

lemma split_days_bound:
  assumes "split_days d = (y, yday)"
  shows "0 \<le> yday \<and> yday < (if leap y then 366 else 365)"
proof -
  define r where "r = d mod 146097"
  define n100 where "n100 = min 3 (r div 36524)"
  define r1 where "r1 = r - 36524 * n100"
  define n4 where "n4 = r1 div 1461"
  define r2 where "r2 = r1 mod 1461"
  define n1 where "n1 = min 3 (r2 div 365)"
  have "split_days d = (400 * (d div 146097) + 100 * n100 + 4 * n4 + n1, r2 - 365 * n1)"
    unfolding split_days_def Let_def r_def n100_def r1_def n4_def r2_def n1_def by (rule refl)
  with assms have y: "y = 400 * (d div 146097) + 100 * n100 + 4 * n4 + n1" and yd: "yday = r2 - 365 * n1"
    by (simp_all only: prod.inject)
  have r: "0 \<le> r" "r < 4 * 36524 + 1" by (simp_all add: r_def)
  from capped_div [OF _ r(1) n100_def, of 1] r
  have n100: "0 \<le> n100" "n100 \<le> 3" and r1: "0 \<le> r1" "r1 < 36525" by (simp_all add: r1_def)
  have r2: "0 \<le> r2" "r2 < 1461" by (simp_all add: r2_def)
  from capped_div [OF _ r2(1) n1_def, of 1] r2(2) have n1: "0 \<le> n1" "n1 \<le> 3" and yday: "0 \<le> yday" "yday < 366" by (simp_all add: yd)
  show ?thesis
  proof (cases "yday = 365")
    case False
    then show ?thesis using yday by auto
  next
    case True
    then have n1': "n1 = 3" "r2 = 1460" using yd r2 n1 by (auto simp: n1_def min_def split: if_splits)
    have n4: "0 \<le> n4" "n4 \<le> 24" using r1 zdiv_mono1 [of r1 36524 1461] by (simp_all add: n4_def pos_imp_zdiv_nonneg_iff)
    have r1': "r1 = 1461 * n4 + 1460" using n1'(2) unfolding r2_def n4_def by (metis mult_div_mod_eq)
    have n: "y + 1 = 4 * (100 * (d div 146097) + 25 * n100 + n4 + 1)" using y n1' by simp
    have "leap y"
    proof (cases "n4 = 24")
      case True
      then have "r1 = 36524" using r1' by simp
      then have "n100 = 3" using r unfolding r1_def n100_def by (auto simp: min_def split: if_splits)
      then have "y + 1 = 400 * (d div 146097 + 1)" using y n1' True by simp
      then show ?thesis by (simp add: leap_def)
    next
      case False
      have "(y + 1) mod 4 = 0" using n by simp
      moreover have "(y + 1) mod 100 = 4 * (n4 + 1)"
      proof -
        have "y + 1 = 4 * (n4 + 1) + 100 * (4 * (d div 146097) + n100)" using n by simp
        then have "(y + 1) mod 100 = (4 * (n4 + 1)) mod 100" by (metis mod_mult_self2)
        then show ?thesis using n4 False by simp
      qed
      ultimately show ?thesis using n4 by (simp add: leap_def)
    qed
    then show ?thesis using yday by simp
  qed
qed

lemma is_digit_char [simp]: "d < 10 \<Longrightarrow> is_digit (digit_char d)" by (rule is_digit_digit_char)

lemma digit_value_char [simp]: "d < 10 \<Longrightarrow> digit_value (digit_char d) = d"
  by (simp add: digit_value_def digit_char_def)

lemma two_digits_read: "n < 100 \<Longrightarrow> read_two (two_digits n @ s) = Some (n, s)"
  by (simp add: read_two_def two_digits_def)

lemma four_digits_read: "n < 10000 \<Longrightarrow> read_four (four_digits n @ s) = Some (n, s)"
  by (simp add: read_four_def four_digits_def two_digits_read)

lemma one_or_two_read: "n < 100 \<Longrightarrow> read_one_or_two (two_digits n @ s) = Some (n, s)"
  by (simp add: read_one_or_two_def two_digits_read)

lemma length_fixed_digits [simp]: "length (fixed_digits k n) = k"
  by (induction k arbitrary: n) auto

lemma fixed_digits_digit: "c \<in> set (fixed_digits k n) \<Longrightarrow> is_digit c"
  by (induction k arbitrary: n) auto

lemma fixed_digits_value: "n < 10 ^ k \<Longrightarrow> foldl (\<lambda>n c. n * 10 + digit_value c) 0 (fixed_digits k n) = n"
  by (induction k arbitrary: n) (auto simp: less_mult_imp_div_less)

lemma strip_zeros_split: "\<exists>k. s = strip_zeros s @ replicate k (CHR ''0'')"
proof -
  have "rev s = takeWhile (\<lambda>c. c = CHR ''0'') (rev s) @ dropWhile (\<lambda>c. c = CHR ''0'') (rev s)" by simp
  then have "s = strip_zeros s @ rev (takeWhile (\<lambda>c. c = CHR ''0'') (rev s))"
    unfolding strip_zeros_def by (metis rev_append rev_rev_ident)
  moreover have "takeWhile (\<lambda>c. c = CHR ''0'') (rev s) = replicate (length (takeWhile (\<lambda>c. c = CHR ''0'') (rev s))) (CHR ''0'')"
    by (rule replicate_length_same [symmetric]) (auto dest: set_takeWhileD)
  ultimately show ?thesis by (metis rev_replicate)
qed

lemma nanoseconds_fraction:
  assumes "ns < 10 ^ 9"
  shows "nanoseconds (strip_zeros (fixed_digits 9 ns)) = ns"
proof -
  obtain k where k: "fixed_digits 9 ns = strip_zeros (fixed_digits 9 ns) @ replicate k (CHR ''0'')"
    using strip_zeros_split by blast
  let ?s = "strip_zeros (fixed_digits 9 ns)"
  have len: "length ?s + k = 9" using arg_cong [OF k, of length] by simp
  then have "take 9 (?s @ replicate 9 (CHR ''0'')) = ?s @ replicate k (CHR ''0'')" by simp
  then show ?thesis using k fixed_digits_value [OF assms] by (simp add: nanoseconds_def)
qed

definition zone_start :: "string \<Rightarrow> bool" where
  "zone_start r \<longleftrightarrow> (\<exists>c cs. r = c # cs \<and> \<not> is_digit c \<and> c \<noteq> CHR ''.'' \<and> c \<noteq> CHR '','')"

lemma zone_text_start: "zone_start (zone_text z @ r)"
  by (simp add: zone_start_def zone_text_def is_digit_def in_range_def)

lemma read_fraction_text:
  assumes "ns < 10 ^ 9" "zone_start r"
  shows "read_fraction (fraction ns @ r) = (ns, r)"
proof (cases "strip_zeros (fixed_digits 9 ns)")
  case Nil
  moreover have "nanoseconds [] = 0" by code_simp
  ultimately have "ns = 0" using nanoseconds_fraction [OF assms(1)] by simp
  moreover have "read_fraction r = (0, r)"
    using assms(2) by (auto simp: zone_start_def read_fraction_def split: list.splits)
  ultimately show ?thesis using Nil by (simp add: fraction_def)
next
  case (Cons d ds)
  have "set (strip_zeros (fixed_digits 9 ns)) \<subseteq> set (fixed_digits 9 ns)"
    using strip_zeros_split [of "fixed_digits 9 ns"] by (metis Un_upper1 set_append)
  then have dig: "\<forall>c \<in> set (d # ds). is_digit c" using fixed_digits_digit Cons by auto
  have "takeWhile is_digit (d # ds @ r) = d # ds" "dropWhile is_digit (d # ds @ r) = r"
    using dig assms(2) by (auto simp: zone_start_def takeWhile_append dropWhile_append)
  then show ?thesis using Cons dig nanoseconds_fraction [OF assms(1)] by (simp add: fraction_def read_fraction_def)
qed

lemma read_zone_text:
  assumes "\<bar>z\<bar> < 24 * 60"
  shows "read_zone (zone_text z) = Some (z, [])"
proof -
  let ?h = "nat (\<bar>z\<bar> div 60)" and ?m = "nat (\<bar>z\<bar> mod 60)"
  have b: "?h < 24" "?m < 60" using assms by (simp_all add: nat_less_iff)
  have nn: "0 \<le> \<bar>z\<bar> div 60" by (simp add: pos_imp_zdiv_nonneg_iff)
  then have v: "int ?h * 60 + int ?m = \<bar>z\<bar>" by simp
  have "read_two (two_digits ?m) = Some (?m, [])" using two_digits_read [of ?m "[]"] b by simp
  then show ?thesis
    using b v nn by (auto simp: read_zone_def zone_text_def two_digits_read expect_def)
qed

lemma month_day_plain:
  assumes "day < 365" "k = day div 31"
    and "(month, d) = (if daysBefore ! (k + 1) \<le> day then (k + 2, day - daysBefore ! (k + 1) + 1) else (k + 1, day - daysBefore ! k + 1))"
  shows "1 \<le> month \<and> month \<le> 12 \<and> 1 \<le> d \<and> d \<le> daysBefore ! month - daysBefore ! (month - 1) \<and> daysBefore ! (month - 1) + (d - 1) = day"
  using month_of_day [OF assms(1, 2)] assms(3) by (auto split: if_splits)

lemma month_day_bounds:
  assumes "yday < (if lp then 366 else 365)" "month_day lp yday = (month, day)"
  shows "1 \<le> month \<and> month \<le> 12 \<and> 1 \<le> day \<and> day \<le> daysIn lp month \<and> day \<le> 31 \<and> year_day lp month day = yday"
proof (cases "lp \<and> yday = 59")
  case True
  with assms(2) show ?thesis by (simp add: month_day_def daysIn_def year_day_def daysBefore_def)
next
  case False
  define dy where "dy = (if lp \<and> 59 < yday then yday - 1 else yday)"
  have dy: "dy < 365" using assms(1) False by (auto simp: dy_def split: if_splits)
  have "month_day lp yday = (if daysBefore ! (dy div 31 + 1) \<le> dy then (dy div 31 + 2, dy - daysBefore ! (dy div 31 + 1) + 1)
      else (dy div 31 + 1, dy - daysBefore ! (dy div 31) + 1))"
    using False unfolding month_day_def dy_def [symmetric] Let_def by (simp only: if_False)
  with assms(2) have "(month, day) = (if daysBefore ! (dy div 31 + 1) \<le> dy then (dy div 31 + 2, dy - daysBefore ! (dy div 31 + 1) + 1)
      else (dy div 31 + 1, dy - daysBefore ! (dy div 31) + 1))" by (rule trans [OF sym])
  note p = month_day_plain [OF dy refl this] and b = daysBefore_between [of month]
  have le: "day \<le> daysIn lp month" using p b by (auto simp: daysIn_def daysBefore_def)
  have "2 < month \<longleftrightarrow> 59 \<le> daysBefore ! (month - 1)" using p b by linarith
  moreover have "month \<le> 2 \<Longrightarrow> dy < 59"
  proof -
    assume "month \<le> 2"
    then have "month = 1 \<or> month = 2" using p by linarith
    then show "dy < 59" using p by (auto simp: daysBefore_def)
  qed
  ultimately have "year_day lp month day = yday"
    using p False unfolding year_day_def dy_def by (auto split: if_splits)
  with p b le show ?thesis by simp
qed

lemma clock_parts:
  assumes "r = l mod day_ns"
  shows "r div hour * hour + r div minute mod 60 * minute + r div second mod 60 * second + r mod second = r"
    and "0 \<le> r div hour \<and> r div hour < 24" and "0 \<le> r mod second \<and> r mod second < 10 ^ 9"
proof -
  define a where "a = r div second div 60 div 60"
  define b where "b = r div second div 60 mod 60"
  define c where "c = r div second mod 60"
  have e1: "r div minute mod 60 = b" and e2: "r div hour = a"
    by (simp_all add: a_def b_def duration_defs zdiv_zmult2_eq [symmetric])
  have "r div second = (a * 60 + b) * 60 + c" unfolding a_def b_def c_def by simp
  then have e3: "r = ((a * 60 + b) * 60 + c) * second + r mod second" by (metis div_mult_mod_eq)
  have e4: "a * hour + b * minute + c * second = ((a * 60 + b) * 60 + c) * second" by (simp add: duration_defs)
  show "r div hour * hour + r div minute mod 60 * minute + r div second mod 60 * second + r mod second = r"
    unfolding e1 e2 c_def [symmetric] using e3 e4 by linarith
  have "0 \<le> r" "r < day_ns" using assms by (simp_all add: duration_defs)
  then show "0 \<le> r div hour \<and> r div hour < 24"
    by (auto simp: duration_defs pos_imp_zdiv_nonneg_iff)
  show "0 \<le> r mod second \<and> r mod second < 10 ^ 9" by (simp add: duration_defs)
qed

lemma time_parse_parts:
  assumes "year < 10000" "1 \<le> month" "month \<le> 12" "1 \<le> day" "day \<le> 31" "day \<le> daysIn (leap (int year - 1)) month"
    and "h < 24" "mi < 60" "sec < 60" "ns < 10 ^ 9" "\<bar>zone\<bar> < 24 * 60"
  shows "time_parse (four_digits year @ CHR ''-'' # two_digits month @ CHR ''-'' # two_digits day @ CHR ''T'' # two_digits h
      @ CHR '':'' # two_digits mi @ CHR '':'' # two_digits sec @ fraction ns @ zone_text zone) =
    Some ((days_before (int year - 1) + int (year_day (leap (int year - 1)) month day)) * day_ns + int h * hour + int mi * minute
              + int sec * second + int ns - zone * minute)"
proof -
  have "month < 100" "day < 100" "h < 100" "mi < 100" "sec < 100" using assms by linarith+
  moreover have "read_fraction (fraction ns @ zone_text zone) = (ns, zone_text zone)"
    by (rule read_fraction_text [OF assms(10)]) (use zone_text_start [of zone "[]"] in simp)
  ultimately show ?thesis
    using assms read_zone_text [OF assms(11)]
    by (simp add: time_parse_def four_digits_read two_digits_read one_or_two_read expect_def Let_def)
qed

lemma time_text_roundtrip:
  assumes "time_MarshalText zone t = Inr s"
  shows "time_parse s = Some t"
proof -
  define l where "l = t + zone * minute"
  define r where "r = l mod day_ns"
  obtain y yday where yd: "split_days (l div day_ns) = (y, yday)" by force
  obtain month day where md: "month_day (leap y) (nat yday) = (month, day)" by force
  note sound = split_days_sound [OF yd] and bound = split_days_bound [OF yd]
  have mdb: "1 \<le> month \<and> month \<le> 12 \<and> 1 \<le> day \<and> day \<le> daysIn (leap y) month \<and> day \<le> 31 \<and> year_day (leap y) month day = nat yday"
    by (rule month_day_bounds [OF _ md]) (use bound in \<open>auto split: if_splits\<close>)
  have parts: "s = four_digits (nat (y + 1)) @ CHR ''-'' # two_digits month @ CHR ''-'' # two_digits day @ CHR ''T''
      # two_digits (nat (r div hour)) @ CHR '':'' # two_digits (nat (r div minute mod 60)) @ CHR '':''
      # two_digits (nat (r div second mod 60)) @ fraction (nat (r mod second)) @ zone_text zone"
    and y: "0 \<le> y + 1" "y + 1 \<le> 9999" and z: "\<bar>zone\<bar> < 24 * 60"
    using assms yd md by (auto simp: time_MarshalText_def l_def r_def Let_def split: if_splits)
  note c = clock_parts [OF r_def]
  have yn: "nat (y + 1) < 10000" "int (nat (y + 1)) - 1 = y" using y by linarith+
  have h: "nat (r div hour) < 24" "nat (r div minute mod 60) < 60" "nat (r div second mod 60) < 60"
    using c(2) by (simp_all add: nat_less_iff)
  have ns: "nat (r mod second) < 10 ^ 9" using c(3) by (simp add: nat_less_iff)
  have "time_parse s = Some ((days_before y + int (nat yday)) * day_ns + int (nat (r div hour)) * hour
      + int (nat (r div minute mod 60)) * minute + int (nat (r div second mod 60)) * second + int (nat (r mod second)) - zone * minute)"
    unfolding parts using time_parse_parts [OF yn(1) _ _ _ _ _ h ns z, of month day] mdb yn(2) by simp
  also have "\<dots> = Some ((l div day_ns) * day_ns + r - zone * minute)"
    using sound bound c by simp
  also have "\<dots> = Some t" by (simp add: r_def l_def)
  finally show ?thesis .
qed

end
