(* ===== verification/ApiJson.thy ===== *)
theory ApiJson
  imports Rfc3339 Types
begin

text \<open>
  What the generated models of the APIs share when they are written as JSON (\<open>server.gen.go\<close>,
  \<open>events.gen.go\<close>): identifiers are texts, a member with \<open>omitempty\<close> is left out at nil, and an instant
  may have no text; \<open>zone\<close> is the local offset from UTC at an instant, in minutes.
\<close>

definition id_json :: "'k id \<Rightarrow> json" where
  "id_json x = JStr (uuid_String (raw x))"

definition omit_nil :: "string \<Rightarrow> json option \<Rightarrow> (string \<times> json) list" where
  "omit_nil k v = (case v of None \<Rightarrow> [] | Some j \<Rightarrow> [(k, j)])"

definition time_json :: "(time \<Rightarrow> int) \<Rightarrow> time \<Rightarrow> json result" where
  "time_json zone t = (case time_MarshalText (zone t) t of Inl err \<Rightarrow> Inl err | Inr s \<Rightarrow> Inr (JStr s))"

fun json_array :: "('a \<Rightarrow> json result) \<Rightarrow> 'a list \<Rightarrow> json list result" where
  "json_array f [] = Inr []"
| "json_array f (x # xs) =
     (case f x of
        Inl err \<Rightarrow> Inl err
      | Inr j \<Rightarrow> (case json_array f xs of Inl err \<Rightarrow> Inl err | Inr js \<Rightarrow> Inr (j # js)))"

end
