(* ===== verification/ManagerPool.thy ===== *)
theory ManagerPool
  imports Types
begin

text \<open>
  The pool of free managers: the interface \<open>Pool\<close> (\<open>internal/services/manager-pool\<close>) and the
  in-memory service behind it (\<open>internal/services/manager-pool/in-mem\<close>).  The interface promises a
  concurrent-safe FIFO queue; its laws are the locale \<open>fifo_pool\<close>, whose lemmas are proved once and
  which the in-memory service interprets.  The service keeps a queue beside a set of its members; the
  last section shows that every run of it is a run of a bounded queue without duplicates.
\<close>

section \<open>The service\<close>

definition managerpool_ErrNoAvailableManagers :: goerr where
  "managerpool_ErrNoAvailableManagers = New ''managerpool.ErrNoAvailableManagers'' ''no available managers''"

definition ErrManagerCapacityExceeded :: goerr where
  "ErrManagerCapacityExceeded = New ''inmemmanagerpool.ErrManagerCapacityExceeded'' ''too many managers''"

definition managersMax :: nat where "managersMax = 1000"

record manager_pool =
  mp_queue :: "UserID list"
  mp_managers :: "UserID set"

definition inmempool_New :: manager_pool where
  "inmempool_New = \<lparr>mp_queue = [], mp_managers = {}\<rparr>"

definition inmempool_Close :: "manager_pool \<Rightarrow> unit result \<times> manager_pool" where
  "inmempool_Close s = (Inr (), s\<lparr>mp_queue := [], mp_managers := {}\<rparr>)"

definition inmempool_Get :: "manager_pool \<Rightarrow> UserID result \<times> manager_pool" where
  "inmempool_Get s =
     (case mp_queue s of
        [] \<Rightarrow> (Inl managerpool_ErrNoAvailableManagers, s)
      | manager # queue \<Rightarrow>
          (Inr manager, s\<lparr>mp_queue := queue, mp_managers := mp_managers s - {manager}\<rparr>))"

definition inmempool_Put :: "UserID \<Rightarrow> manager_pool \<Rightarrow> unit result \<times> manager_pool" where
  "inmempool_Put managerID s =
     (if card (mp_managers s) \<ge> managersMax then (Inl ErrManagerCapacityExceeded, s)
      else if managerID \<in> mp_managers s then (Inr (), s)
      else (Inr (), s\<lparr>mp_managers := insert managerID (mp_managers s), mp_queue := mp_queue s @ [managerID]\<rparr>))"

definition inmempool_Contains :: "UserID \<Rightarrow> manager_pool \<Rightarrow> bool result" where
  "inmempool_Contains managerID s = Inr (managerID \<in> mp_managers s)"

definition inmempool_Size :: "manager_pool \<Rightarrow> nat" where
  "inmempool_Size s = card (mp_managers s)"

section \<open>The interface\<close>

text \<open>The queue of a pool, what it keeps of its state, and the laws of the five methods.\<close>

locale fifo_pool =
  fixes queue :: "'p \<Rightarrow> UserID list" and ok :: "'p \<Rightarrow> bool" and cap :: nat
    and get :: "'p \<Rightarrow> UserID result \<times> 'p" and put :: "UserID \<Rightarrow> 'p \<Rightarrow> unit result \<times> 'p"
    and contains :: "UserID \<Rightarrow> 'p \<Rightarrow> bool result" and len :: "'p \<Rightarrow> nat"
    and close :: "'p \<Rightarrow> unit result \<times> 'p"
  assumes pool_distinct: "ok s \<Longrightarrow> distinct (queue s)"
    and pool_bounded: "ok s \<Longrightarrow> length (queue s) \<le> cap"
    and get_empty: "ok s \<Longrightarrow> queue s = [] \<Longrightarrow> get s = (Inl managerpool_ErrNoAvailableManagers, s)"
    and get_first: "ok s \<Longrightarrow> queue s = m # ms \<Longrightarrow>
      \<exists>s'. get s = (Inr m, s') \<and> ok s' \<and> queue s' = ms"
    and put_full: "ok s \<Longrightarrow> length (queue s) = cap \<Longrightarrow> put m s = (Inl ErrManagerCapacityExceeded, s)"
    and put_present: "ok s \<Longrightarrow> length (queue s) < cap \<Longrightarrow> m \<in> set (queue s) \<Longrightarrow> put m s = (Inr (), s)"
    and put_last: "ok s \<Longrightarrow> length (queue s) < cap \<Longrightarrow> m \<notin> set (queue s) \<Longrightarrow>
      \<exists>s'. put m s = (Inr (), s') \<and> ok s' \<and> queue s' = queue s @ [m]"
    and contains_queue: "ok s \<Longrightarrow> contains m s = Inr (m \<in> set (queue s))"
    and len_queue: "ok s \<Longrightarrow> len s = length (queue s)"
    and close_empties: "ok s \<Longrightarrow> \<exists>s'. close s = (Inr (), s') \<and> ok s' \<and> queue s' = []"
begin

lemma put_cases:
  assumes "ok s" and "put m s = (r, s')"
  shows "ok s' \<and> ((r = Inl ErrManagerCapacityExceeded \<and> s' = s \<and> length (queue s) = cap) \<or>
    (r = Inr () \<and> length (queue s) < cap \<and>
      queue s' = (if m \<in> set (queue s) then queue s else queue s @ [m])))"
proof (cases "length (queue s) < cap")
  case True
  then show ?thesis
    using assms put_present [OF assms(1), of m] put_last [OF assms(1), of m]
    by (cases "m \<in> set (queue s)") auto
next
  case False
  then show ?thesis using assms put_full [OF assms(1), of m] pool_bounded [OF assms(1)] by auto
qed

text \<open>Whoever was put is contained, and a second \<open>Put\<close> changes nothing or finds the pool full.\<close>

lemma put_contains:
  assumes "ok s" and "put m s = (Inr (), s')"
  shows "contains m s' = Inr True"
    and "put m s' = (Inr (), s') \<or> put m s' = (Inl ErrManagerCapacityExceeded, s')"
proof -
  from put_cases [OF assms] have *: "ok s'" "m \<in> set (queue s')"
    by (auto simp: ErrManagerCapacityExceeded_def split: if_splits)
  then show "contains m s' = Inr True" by (simp add: contains_queue)
  show "put m s' = (Inr (), s') \<or> put m s' = (Inl ErrManagerCapacityExceeded, s')"
    using put_present [OF *(1) _ *(2)] put_full [OF *(1)] pool_bounded [OF *(1)]
    by (cases "length (queue s') < cap") auto
qed

text \<open>Whoever is taken is no longer contained.\<close>

lemma get_removes:
  assumes "ok s" and "get s = (Inr m, s')"
  shows "ok s' \<and> contains m s' = Inr False \<and> queue s = m # queue s'"
proof (cases "queue s")
  case Nil
  with get_empty [OF assms(1) Nil] assms(2) show ?thesis by simp
next
  case (Cons a as)
  with get_first [OF assms(1) Cons] assms(2) have "a = m" "ok s'" "queue s' = as" by auto
  with pool_distinct [OF assms(1)] Cons show ?thesis by (simp add: contains_queue)
qed

text \<open>First in, first out: the managers of the queue come out in its order.\<close>

fun gets :: "nat \<Rightarrow> 'p \<Rightarrow> UserID result list \<times> 'p" where
  "gets 0 s = ([], s)"
| "gets (Suc n) s = (let (r, s) = get s; (rs, s) = gets n s in (r # rs, s))"

lemma gets_fifo:
  assumes "ok s" and "n \<le> length (queue s)"
  shows "\<exists>s'. gets n s = (map Inr (take n (queue s)), s') \<and> ok s' \<and> queue s' = drop n (queue s)"
  using assms
proof (induction n arbitrary: s)
  case 0
  then show ?case by simp
next
  case (Suc n)
  then obtain m ms where q: "queue s = m # ms" by (cases "queue s") auto
  with get_first [OF Suc.prems(1) q] obtain s1 where s1: "get s = (Inr m, s1)" "ok s1" "queue s1 = ms" by blast
  from Suc.IH [OF s1(2)] Suc.prems(2) q s1 show ?case by auto
qed

end

text \<open>The in-memory service keeps its set the set of its queue.\<close>

definition pool_ok :: "manager_pool \<Rightarrow> bool" where
  "pool_ok s \<longleftrightarrow> distinct (mp_queue s) \<and> mp_managers s = set (mp_queue s) \<and> length (mp_queue s) \<le> managersMax"

interpretation inmem: fifo_pool mp_queue pool_ok managersMax
  inmempool_Get inmempool_Put inmempool_Contains inmempool_Size inmempool_Close
  by unfold_locales
     (auto simp: pool_ok_def inmempool_Get_def inmempool_Put_def inmempool_Contains_def inmempool_Size_def
       inmempool_Close_def distinct_card)

section \<open>Runs against the abstract queue\<close>

datatype pool_op = GetOp | PutOp UserID | ContainsOp UserID | SizeOp | CloseOp

datatype pool_reply = Manager "UserID result" | Done "unit result" | Answer "bool result" | Number nat

text \<open>The abstract queue: a list without duplicates of at most \<open>managersMax\<close> managers.\<close>

fun queue_op :: "pool_op \<Rightarrow> UserID list \<Rightarrow> pool_reply \<times> UserID list" where
  "queue_op GetOp q =
     (case q of [] \<Rightarrow> (Manager (Inl managerpool_ErrNoAvailableManagers), []) | m # ms \<Rightarrow> (Manager (Inr m), ms))"
| "queue_op (PutOp m) q =
     (if length q = managersMax then (Done (Inl ErrManagerCapacityExceeded), q)
      else (Done (Inr ()), if m \<in> set q then q else q @ [m]))"
| "queue_op (ContainsOp m) q = (Answer (Inr (m \<in> set q)), q)"
| "queue_op SizeOp q = (Number (length q), q)"
| "queue_op CloseOp q = (Done (Inr ()), [])"

fun pool_step :: "pool_op \<Rightarrow> manager_pool \<Rightarrow> pool_reply \<times> manager_pool" where
  "pool_step GetOp s = map_prod Manager id (inmempool_Get s)"
| "pool_step (PutOp m) s = map_prod Done id (inmempool_Put m s)"
| "pool_step (ContainsOp m) s = (Answer (inmempool_Contains m s), s)"
| "pool_step SizeOp s = (Number (inmempool_Size s), s)"
| "pool_step CloseOp s = map_prod Done id (inmempool_Close s)"

fun run_ops :: "('o \<Rightarrow> 's \<Rightarrow> 'r \<times> 's) \<Rightarrow> 'o list \<Rightarrow> 's \<Rightarrow> 'r list \<times> 's" where
  "run_ops f [] s = ([], s)"
| "run_ops f (x # xs) s = (let (r, s) = f x s; (rs, s) = run_ops f xs s in (r # rs, s))"

text \<open>A simulation of single operations carries over to runs.\<close>

lemma run_ops_simulates:
  assumes "\<And>x s t. R s t \<Longrightarrow> fst (f x s) = fst (g x t) \<and> R (snd (f x s)) (snd (g x t))" and "R s t"
  shows "fst (run_ops f xs s) = fst (run_ops g xs t) \<and> R (snd (run_ops f xs s)) (snd (run_ops g xs t))"
  using assms(2)
proof (induction xs arbitrary: s t)
  case Nil
  then show ?case by simp
next
  case (Cons x xs)
  from assms(1) [OF Cons.prems, of x] Cons.IH [of "snd (f x s)" "snd (g x t)"]
  show ?case by (simp add: case_prod_unfold Let_def)
qed

lemma pool_step_refines:
  assumes "pool_ok s"
  shows "fst (pool_step x s) = fst (queue_op x (mp_queue s)) \<and>
    pool_ok (snd (pool_step x s)) \<and> mp_queue (snd (pool_step x s)) = snd (queue_op x (mp_queue s))"
proof (cases x)
  case GetOp
  then show ?thesis using assms inmem.get_empty [OF assms] inmem.get_first [OF assms]
    by (cases "mp_queue s") fastforce+
next
  case (PutOp m)
  obtain r s' where p: "inmempool_Put m s = (r, s')" by force
  from inmem.put_cases [OF assms p] PutOp p show ?thesis by auto
qed (use assms inmem.close_empties [OF assms] in \<open>auto simp: inmem.contains_queue inmem.len_queue\<close>)

text \<open>
  C17. Every sequence of calls of the in-memory pool answers as the abstract queue does - a list without
  duplicates of at most a thousand managers, served first in, first out - and leaves that list as its
  queue, with the set of its members beside it.
\<close>

theorem pool_is_bounded_fifo:
  "fst (run_ops pool_step ops inmempool_New) = fst (run_ops queue_op ops []) \<and>
   mp_queue (snd (run_ops pool_step ops inmempool_New)) = snd (run_ops queue_op ops []) \<and>
   mp_managers (snd (run_ops pool_step ops inmempool_New)) = set (snd (run_ops queue_op ops [])) \<and>
   distinct (snd (run_ops queue_op ops [])) \<and> length (snd (run_ops queue_op ops [])) \<le> managersMax"
proof -
  let ?R = "\<lambda>s q. pool_ok s \<and> mp_queue s = q"
  have "fst (run_ops pool_step ops inmempool_New) = fst (run_ops queue_op ops []) \<and>
      ?R (snd (run_ops pool_step ops inmempool_New)) (snd (run_ops queue_op ops []))"
  proof (rule run_ops_simulates [where R = ?R])
    show "fst (pool_step x s) = fst (queue_op x q) \<and> ?R (snd (pool_step x s)) (snd (queue_op x q))"
      if "?R s q" for x s q using pool_step_refines [of s x] that by simp
  qed (simp add: pool_ok_def inmempool_New_def)
  then show ?thesis by (auto simp: pool_ok_def)
qed

end
