(* ===== verification/World.thy ===== *)
theory World
  imports Database EventStream ManagerPool
begin

text \<open>
  The whole state of the running service: the store with its environment, the pool of free managers
  and the event stream of the process, the topic the service writes to, and of the verdicts the dead
  letters and the log of the messages committed to the broker.  A panic of a worker takes
  the process down; \<open>crashed\<close> records it.  The operations of the pool and the stream act on their part
  of the state (\<open>world_Put\<close>, \<open>world_Publish\<close>, ...).
\<close>

record kafka_Message =
  km_Key :: string
  km_Value :: string
  km_Time :: time

text \<open>A message that a reader of a topic gets: where it lies, and the headers that travel with it.\<close>

record kafka_Received = kafka_Message +
  km_Topic :: string
  km_Partition :: int
  km_Offset :: int
  km_Headers :: "(string \<times> string) list"

record world = store +
  pool :: manager_pool
  stream :: event_stream
  topic :: "kafka_Message list"
  dlq :: "kafka_Received list"
  committed :: "kafka_Received list"
  crashed :: bool

section \<open>The pool and the stream of the process\<close>

definition world_Put :: "UserID \<Rightarrow> world \<Rightarrow> unit result \<times> world" where
  "world_Put m w = (let (r, s) = inmempool_Put m (pool w) in (r, w\<lparr>pool := s\<rparr>))"

definition world_Get :: "world \<Rightarrow> UserID result \<times> world" where
  "world_Get w = (let (r, s) = inmempool_Get (pool w) in (r, w\<lparr>pool := s\<rparr>))"

definition world_Contains :: "UserID \<Rightarrow> world \<Rightarrow> bool result \<times> world" where
  "world_Contains m w = (inmempool_Contains m (pool w), w)"

definition world_Publish :: "UserID \<Rightarrow> event \<Rightarrow> world \<Rightarrow> unit result \<times> world" where
  "world_Publish u ev w =
     (case inmem_Publish u ev (stream w) of
        None \<Rightarrow> (Inl (New ''panic'' ''panic''), w\<lparr>crashed := True\<rparr>)
      | Some (r, s) \<Rightarrow> (r, w\<lparr>stream := s\<rparr>))"

definition world_Subscribe :: "UserID \<Rightarrow> world \<Rightarrow> EventClientID result \<times> world" where
  "world_Subscribe u w =
     (if es_closed (stream w) then (Inl inmemeventstream_ErrEventStreamClosed, w)
      else (let (i, w) = NewID w; (r, s) = inmem_Subscribe u i (stream w) in (r, w\<lparr>stream := s\<rparr>)))"

text \<open>
  A writer to the topic, as the interface \<open>KafkaWriter\<close> promises: the messages are appended, or the
  write fails, or they are appended and the acknowledgement is lost.
\<close>

definition topic_WriteMessages :: "kafka_Message list \<Rightarrow> world \<Rightarrow> unit result \<times> world" where
  "topic_WriteMessages msgs = statement (\<lambda>w. (Inr (), w\<lparr>topic := topic w @ msgs\<rparr>))"

text \<open>A world at rest: nothing fails, the clock stands still, nothing has been written.\<close>

definition quiet_world :: "database \<Rightarrow> time \<Rightarrow> world" where
  "quiet_world d t = \<lparr>clk = t, ticks = [], rnd = (\<lambda>n. of_nat (Suc n)), rnd_pos = 0, faults = [],
     picks = [], db = d, pool = inmempool_New, stream = inmemeventstream_New (\<lambda>_. False) (\<lambda>_. 0),
     topic = [], dlq = [], committed = [], crashed = False\<rparr>"

lemma quiet_world_simps [simp]:
  "clk (quiet_world d t) = t" "ticks (quiet_world d t) = []" "faults (quiet_world d t) = []"
  "picks (quiet_world d t) = []" "db (quiet_world d t) = d"
  "rnd_pos (quiet_world d t) = 0" "rnd (quiet_world d t) n = of_nat (Suc n)"
  "pool (quiet_world d t) = inmempool_New" "crashed (quiet_world d t) = False" "topic (quiet_world d t) = []"
  "dlq (quiet_world d t) = []" "committed (quiet_world d t) = []"
  "stream (quiet_world d t) = inmemeventstream_New (\<lambda>_. False) (\<lambda>_. 0)"
  by (simp_all add: quiet_world_def)

lemma db_world_ops [simp]:
  "db (snd (world_Put m w)) = db w" "db (snd (world_Get w)) = db w"
  "db (snd (world_Contains m w)) = db w" "db (snd (world_Publish u ev w)) = db w"
  by (simp_all add: world_Put_def world_Get_def world_Contains_def world_Publish_def Let_def
      case_prod_unfold split: option.split)

lemma world_Publish_reach:
  assumes "es_reach (stream w)"
  shows "\<exists>r s. world_Publish u ev w = (r, w\<lparr>stream := s\<rparr>) \<and> es_reach s"
  using publish_total [OF es_reach_inv [OF assms], of u ev] es_reach.publish [OF assms, of u ev]
  by (fastforce simp: world_Publish_def)

end
