(* ===== verification/Builders.thy ===== *)
theory Builders
  imports Database
begin

text \<open>
  The builders that \<open>ent\<close> generates for the five tables (\<open>internal/store/*_create.go\<close>,
  \<open>message_update.go\<close>, \<open>job_delete.go\<close>): a mutation records which fields were set, \<open>defaults\<close>
  fills the ones the schema gives a default, \<open>check\<close> validates in the order of the fields,
  \<open>createSpec\<close> makes the row and \<open>sqlSave\<close> sends the statement.  \<open>created\<close> is the outcome of a
  save: the row is inserted and returned, or an error is returned and the row is inserted or not.
\<close>

section \<open>What the builders share\<close>

definition or_zero :: "'a \<Rightarrow> 'a option \<Rightarrow> 'a" where
  "or_zero z x = (case x of None \<Rightarrow> z | Some v \<Rightarrow> v)"

lemma or_zero_simps [simp]: "or_zero z None = z" "or_zero z (Some v) = v"
  by (simp_all add: or_zero_def)

text \<open>\<open>SetNillable\<close> setters: the field is set when the pointer is not nil.\<close>

definition set_nillable :: "('a \<Rightarrow> 'm \<Rightarrow> 'm) \<Rightarrow> 'a option \<Rightarrow> 'm \<Rightarrow> 'm" where
  "set_nillable setf v m = (case v of None \<Rightarrow> m | Some x \<Rightarrow> setf x m)"

text \<open>One step of \<open>defaults\<close>: a field that is not set takes the schema's default.\<close>

definition set_default ::
  "('m \<Rightarrow> 'a option) \<Rightarrow> ('a \<Rightarrow> 'm \<Rightarrow> 'm) \<Rightarrow> ('w \<Rightarrow> 'a \<times> 'w) \<Rightarrow> 'm \<times> 'w \<Rightarrow> 'm \<times> 'w" where
  "set_default getf setf dflt mw =
     (case getf (fst mw) of
        Some _ \<Rightarrow> mw
      | None \<Rightarrow> (let (v, w) = dflt (snd mw) in (setf v (fst mw), w)))"

text \<open>\<open>sqlSave\<close>: the checks, then the insertion; the row is what the caller gets back.\<close>

definition ent_sqlSave ::
  "('m \<Rightarrow> goerr option) \<Rightarrow> ('m \<Rightarrow> 'r) \<Rightarrow> ('r \<Rightarrow> database \<Rightarrow> database result) \<Rightarrow> 'm
   \<Rightarrow> 'z store_scheme \<Rightarrow> 'r result \<times> 'z store_scheme" where
  "ent_sqlSave check spec ins m w =
     (case check m of
        Some e \<Rightarrow> (Inl e, w)
      | None \<Rightarrow> sql_exec (\<lambda>d. case ins (spec m) d of Inl e \<Rightarrow> Inl e | Inr d' \<Rightarrow> Inr (spec m, d')) w)"

definition created ::
  "('r \<Rightarrow> database \<Rightarrow> database result) \<Rightarrow> 'r \<Rightarrow> database \<Rightarrow> 'r result \<Rightarrow> database \<Rightarrow> bool" where
  "created ins row d r d' \<longleftrightarrow>
     (case r of
        Inr x \<Rightarrow> x = row \<and> ins row d = Inr d'
      | Inl e \<Rightarrow> plain_error e \<and> (d' = d \<or> ins row d = Inr d'))"

lemma createdE:
  assumes "created ins row d r d'"
  obtains "r = Inr row" "ins row d = Inr d'"
  | e where "r = Inl e" "plain_error e" "d' = d"
  | e where "r = Inl e" "plain_error e" "ins row d = Inr d'"
  using assms by (auto simp: created_def split: sum.splits)

lemma ent_sqlSave_created:
  assumes "ent_sqlSave check spec ins m w = (r, w')"
    and "\<And>e. check m = Some e \<Longrightarrow> plain_error e"
    and "\<And>e. ins (spec m) (db w) = Inl e \<Longrightarrow> plain_error e"
  shows "created ins (spec m) (db w) r (db w')"
proof (cases "check m")
  case None
  with assms(1) have "sql_exec (\<lambda>d. case ins (spec m) d of Inl e \<Rightarrow> Inl e | Inr d' \<Rightarrow> Inr (spec m, d')) w
      = (r, w')" by (simp add: ent_sqlSave_def)
  then show ?thesis
    by (cases rule: sql_exec_cases) (auto simp: created_def assms(3) split: sum.splits)
next
  case (Some e)
  with assms show ?thesis by (auto simp: ent_sqlSave_def created_def)
qed

definition plain_opt :: "goerr option \<Rightarrow> bool" where
  "plain_opt x \<longleftrightarrow> (\<forall>e. x = Some e \<longrightarrow> plain_error e)"

lemma plain_opt_None [simp]: "plain_opt None"
  by (simp add: plain_opt_def)

lemma plain_opt_Some [simp]: "plain_opt (Some e) = plain_error e"
  by (simp add: plain_opt_def)

lemma need_field_plain [simp]: "plain_opt (need_field ent f v)"
  by (simp add: need_field_def missing_field_def split: option.splits)

lemma need_edge_plain [simp]: "plain_opt (need_edge ent f v)"
  by (simp add: need_edge_def missing_edge_def split: option.splits)

lemma first_err_plain: "list_all plain_opt xs \<Longrightarrow> plain_opt (first_err xs)"
  by (induction xs rule: first_err.induct) auto

lemma first_err_plainD: "first_err xs = Some e \<Longrightarrow> list_all plain_opt xs \<Longrightarrow> plain_error e"
  using first_err_plain [of xs] by simp

lemma valid_field_plain [simp]:
  "(\<And>x. plain_opt (V x)) \<Longrightarrow> plain_opt (valid_field ent f V v)"
  by (auto simp: valid_field_def validator_failed_def plain_opt_def split: option.splits)

lemma field_plain [simp]:
  "plain_opt (field_MinLen k b)" "plain_opt (field_MaxLen k b)"
  "plain_opt (field_Min i n)" "plain_opt (field_Max i n)" "plain_opt (field_NotEmpty b)"
  "plain_opt (message_BodyValidator b)" "plain_opt (job_AttemptsValidator n)"
  "plain_opt (op_Validate (gen_type t) x)"
  by (auto simp: field_NotEmpty_def field_MinLen_def message_BodyValidator_def field_MaxLen_def
      job_AttemptsValidator_def field_Min_def field_Max_def gen_type_Validate intro!: first_err_plain)

lemma insert_plain:
  "insert_chat r1 d = Inl e \<Longrightarrow> plain_error e"
  "insert_problem r2 d = Inl e \<Longrightarrow> plain_error e"
  "insert_message r3 d = Inl e \<Longrightarrow> plain_error e"
  "insert_job r4 d = Inl e \<Longrightarrow> plain_error e"
  "insert_failed_job r5 d = Inl e \<Longrightarrow> plain_error e"
  by (auto simp: insert_defs split: if_splits)

section \<open>Jobs\<close>

record JobMutation =
  jm_name :: "string option"
  jm_payload :: "string option"
  jm_attempts :: "int option"
  jm_available_at :: "time option"
  jm_reserved_until :: "time option"
  jm_created_at :: "time option"
  jm_id :: "JobID option"

definition newJobMutation :: JobMutation where
  "newJobMutation = \<lparr>jm_name = None, jm_payload = None, jm_attempts = None, jm_available_at = None, jm_reserved_until = None, jm_created_at = None, jm_id = None\<rparr>"

definition JobCreate_SetName :: "string \<Rightarrow> JobMutation \<Rightarrow> JobMutation" where
  "JobCreate_SetName v m = m\<lparr>jm_name := Some v\<rparr>"

definition JobCreate_SetPayload :: "string \<Rightarrow> JobMutation \<Rightarrow> JobMutation" where
  "JobCreate_SetPayload v m = m\<lparr>jm_payload := Some v\<rparr>"

definition JobCreate_SetAttempts :: "int \<Rightarrow> JobMutation \<Rightarrow> JobMutation" where
  "JobCreate_SetAttempts v m = m\<lparr>jm_attempts := Some v\<rparr>"

definition JobCreate_SetAvailableAt :: "time \<Rightarrow> JobMutation \<Rightarrow> JobMutation" where
  "JobCreate_SetAvailableAt v m = m\<lparr>jm_available_at := Some v\<rparr>"

definition JobCreate_SetReservedUntil :: "time \<Rightarrow> JobMutation \<Rightarrow> JobMutation" where
  "JobCreate_SetReservedUntil v m = m\<lparr>jm_reserved_until := Some v\<rparr>"

definition JobCreate_SetCreatedAt :: "time \<Rightarrow> JobMutation \<Rightarrow> JobMutation" where
  "JobCreate_SetCreatedAt v m = m\<lparr>jm_created_at := Some v\<rparr>"

definition JobCreate_SetID :: "JobID \<Rightarrow> JobMutation \<Rightarrow> JobMutation" where
  "JobCreate_SetID v m = m\<lparr>jm_id := Some v\<rparr>"

definition JobCreate_SetNillableAttempts :: "int option \<Rightarrow> JobMutation \<Rightarrow> JobMutation" where
  "JobCreate_SetNillableAttempts v m = set_nillable JobCreate_SetAttempts v m"

definition JobCreate_SetNillableAvailableAt :: "time option \<Rightarrow> JobMutation \<Rightarrow> JobMutation" where
  "JobCreate_SetNillableAvailableAt v m = set_nillable JobCreate_SetAvailableAt v m"

definition JobCreate_SetNillableReservedUntil :: "time option \<Rightarrow> JobMutation \<Rightarrow> JobMutation" where
  "JobCreate_SetNillableReservedUntil v m = set_nillable JobCreate_SetReservedUntil v m"

definition JobCreate_SetNillableCreatedAt :: "time option \<Rightarrow> JobMutation \<Rightarrow> JobMutation" where
  "JobCreate_SetNillableCreatedAt v m = set_nillable JobCreate_SetCreatedAt v m"

definition JobCreate_SetNillableID :: "JobID option \<Rightarrow> JobMutation \<Rightarrow> JobMutation" where
  "JobCreate_SetNillableID v m = set_nillable JobCreate_SetID v m"

lemmas JobCreate_setters = JobCreate_SetName_def JobCreate_SetPayload_def JobCreate_SetAttempts_def JobCreate_SetAvailableAt_def JobCreate_SetReservedUntil_def JobCreate_SetCreatedAt_def JobCreate_SetID_def

definition JobCreate_defaults ::
  "JobMutation \<times> 'z env_scheme \<Rightarrow> JobMutation \<times> 'z env_scheme" where
  "JobCreate_defaults mw =
     set_default jm_id JobCreate_SetID NewID
       (set_default jm_created_at JobCreate_SetCreatedAt time_Now
       (set_default jm_reserved_until JobCreate_SetReservedUntil time_Now
       (set_default jm_available_at JobCreate_SetAvailableAt time_Now
       (set_default jm_attempts JobCreate_SetAttempts (Pair 0) mw))))"

definition JobCreate_check :: "JobMutation \<Rightarrow> goerr option" where
  "JobCreate_check m = first_err
     [need_field ''Job'' ''name'' (jm_name m),
      valid_field ''Job'' ''name'' field_NotEmpty (jm_name m),
      need_field ''Job'' ''payload'' (jm_payload m),
      valid_field ''Job'' ''payload'' field_NotEmpty (jm_payload m),
      need_field ''Job'' ''attempts'' (jm_attempts m),
      valid_field ''Job'' ''attempts'' job_AttemptsValidator (jm_attempts m),
      need_field ''Job'' ''available_at'' (jm_available_at m),
      need_field ''Job'' ''reserved_until'' (jm_reserved_until m),
      need_field ''Job'' ''created_at'' (jm_created_at m),
      valid_field ''Job'' ''id'' (op_Validate JobID) (jm_id m)]"

definition JobCreate_createSpec :: "JobMutation \<Rightarrow> job_row" where
  "JobCreate_createSpec m =
     \<lparr>j_ID = or_zero 0 (jm_id m),
      j_Name = or_zero [] (jm_name m),
      j_Payload = or_zero [] (jm_payload m),
      j_Attempts = or_zero 0 (jm_attempts m),
      j_AvailableAt = or_zero 0 (jm_available_at m),
      j_ReservedUntil = or_zero 0 (jm_reserved_until m),
      j_CreatedAt = or_zero 0 (jm_created_at m)\<rparr>"

definition JobCreate_sqlSave ::
  "JobMutation \<Rightarrow> 'z store_scheme \<Rightarrow> job_row result \<times> 'z store_scheme" where
  "JobCreate_sqlSave = ent_sqlSave JobCreate_check JobCreate_createSpec insert_job"

definition JobCreate_Save ::
  "JobMutation \<Rightarrow> 'z store_scheme \<Rightarrow> job_row result \<times> 'z store_scheme" where
  "JobCreate_Save m w = (let (m', w') = JobCreate_defaults (m, w) in JobCreate_sqlSave m' w')"

lemma JobCreate_check_plain: "JobCreate_check m = Some e \<Longrightarrow> plain_error e"
  unfolding JobCreate_check_def by (erule first_err_plainD) (simp add: idops_defs)

lemma JobCreate_Save_created:
  assumes "JobCreate_Save m w = (r, w')"
  obtains m' w1 where "JobCreate_defaults (m, w) = (m', w1)"
    "created insert_job (JobCreate_createSpec m') (db w1) r (db w')"
    "\<forall>x. r = Inr x \<longrightarrow> JobCreate_check m' = None"
proof -
  obtain m' w1 where d: "JobCreate_defaults (m, w) = (m', w1)" by force
  with assms have s: "ent_sqlSave JobCreate_check JobCreate_createSpec insert_job m' w1 = (r, w')"
    by (simp add: JobCreate_Save_def JobCreate_sqlSave_def)
  have "created insert_job (JobCreate_createSpec m') (db w1) r (db w')"
    using ent_sqlSave_created [OF s] JobCreate_check_plain insert_plain by blast
  moreover have "\<forall>x. r = Inr x \<longrightarrow> JobCreate_check m' = None"
    using s by (auto simp: ent_sqlSave_def split: option.splits)
  ultimately show ?thesis using d that by blast
qed

section \<open>Failed jobs\<close>

record FailedJobMutation =
  fm_name :: "string option"
  fm_payload :: "string option"
  fm_reason :: "string option"
  fm_created_at :: "time option"
  fm_id :: "FailedJobID option"

definition newFailedJobMutation :: FailedJobMutation where
  "newFailedJobMutation = \<lparr>fm_name = None, fm_payload = None, fm_reason = None, fm_created_at = None, fm_id = None\<rparr>"

definition FailedJobCreate_SetName :: "string \<Rightarrow> FailedJobMutation \<Rightarrow> FailedJobMutation" where
  "FailedJobCreate_SetName v m = m\<lparr>fm_name := Some v\<rparr>"

definition FailedJobCreate_SetPayload :: "string \<Rightarrow> FailedJobMutation \<Rightarrow> FailedJobMutation" where
  "FailedJobCreate_SetPayload v m = m\<lparr>fm_payload := Some v\<rparr>"

definition FailedJobCreate_SetReason :: "string \<Rightarrow> FailedJobMutation \<Rightarrow> FailedJobMutation" where
  "FailedJobCreate_SetReason v m = m\<lparr>fm_reason := Some v\<rparr>"

definition FailedJobCreate_SetCreatedAt :: "time \<Rightarrow> FailedJobMutation \<Rightarrow> FailedJobMutation" where
  "FailedJobCreate_SetCreatedAt v m = m\<lparr>fm_created_at := Some v\<rparr>"

definition FailedJobCreate_SetID :: "FailedJobID \<Rightarrow> FailedJobMutation \<Rightarrow> FailedJobMutation" where
  "FailedJobCreate_SetID v m = m\<lparr>fm_id := Some v\<rparr>"

definition FailedJobCreate_SetNillableCreatedAt :: "time option \<Rightarrow> FailedJobMutation \<Rightarrow> FailedJobMutation" where
  "FailedJobCreate_SetNillableCreatedAt v m = set_nillable FailedJobCreate_SetCreatedAt v m"

definition FailedJobCreate_SetNillableID :: "FailedJobID option \<Rightarrow> FailedJobMutation \<Rightarrow> FailedJobMutation" where
  "FailedJobCreate_SetNillableID v m = set_nillable FailedJobCreate_SetID v m"

lemmas FailedJobCreate_setters = FailedJobCreate_SetName_def FailedJobCreate_SetPayload_def FailedJobCreate_SetReason_def FailedJobCreate_SetCreatedAt_def FailedJobCreate_SetID_def

definition FailedJobCreate_defaults ::
  "FailedJobMutation \<times> 'z env_scheme \<Rightarrow> FailedJobMutation \<times> 'z env_scheme" where
  "FailedJobCreate_defaults mw =
     set_default fm_id FailedJobCreate_SetID NewID
       (set_default fm_created_at FailedJobCreate_SetCreatedAt time_Now mw)"

definition FailedJobCreate_check :: "FailedJobMutation \<Rightarrow> goerr option" where
  "FailedJobCreate_check m = first_err
     [need_field ''FailedJob'' ''name'' (fm_name m),
      valid_field ''FailedJob'' ''name'' field_NotEmpty (fm_name m),
      need_field ''FailedJob'' ''payload'' (fm_payload m),
      valid_field ''FailedJob'' ''payload'' field_NotEmpty (fm_payload m),
      need_field ''FailedJob'' ''reason'' (fm_reason m),
      valid_field ''FailedJob'' ''reason'' field_NotEmpty (fm_reason m),
      need_field ''FailedJob'' ''created_at'' (fm_created_at m),
      valid_field ''FailedJob'' ''id'' (op_Validate FailedJobID) (fm_id m)]"

definition FailedJobCreate_createSpec :: "FailedJobMutation \<Rightarrow> failed_job_row" where
  "FailedJobCreate_createSpec m =
     \<lparr>f_ID = or_zero 0 (fm_id m),
      f_Name = or_zero [] (fm_name m),
      f_Payload = or_zero [] (fm_payload m),
      f_Reason = or_zero [] (fm_reason m),
      f_CreatedAt = or_zero 0 (fm_created_at m)\<rparr>"

definition FailedJobCreate_sqlSave ::
  "FailedJobMutation \<Rightarrow> 'z store_scheme \<Rightarrow> failed_job_row result \<times> 'z store_scheme" where
  "FailedJobCreate_sqlSave = ent_sqlSave FailedJobCreate_check FailedJobCreate_createSpec insert_failed_job"

definition FailedJobCreate_Save ::
  "FailedJobMutation \<Rightarrow> 'z store_scheme \<Rightarrow> failed_job_row result \<times> 'z store_scheme" where
  "FailedJobCreate_Save m w = (let (m', w') = FailedJobCreate_defaults (m, w) in FailedJobCreate_sqlSave m' w')"

lemma FailedJobCreate_check_plain: "FailedJobCreate_check m = Some e \<Longrightarrow> plain_error e"
  unfolding FailedJobCreate_check_def by (erule first_err_plainD) (simp add: idops_defs)

lemma FailedJobCreate_Save_created:
  assumes "FailedJobCreate_Save m w = (r, w')"
  obtains m' w1 where "FailedJobCreate_defaults (m, w) = (m', w1)"
    "created insert_failed_job (FailedJobCreate_createSpec m') (db w1) r (db w')"
    "\<forall>x. r = Inr x \<longrightarrow> FailedJobCreate_check m' = None"
proof -
  obtain m' w1 where d: "FailedJobCreate_defaults (m, w) = (m', w1)" by force
  with assms have s: "ent_sqlSave FailedJobCreate_check FailedJobCreate_createSpec insert_failed_job m' w1 = (r, w')"
    by (simp add: FailedJobCreate_Save_def FailedJobCreate_sqlSave_def)
  have "created insert_failed_job (FailedJobCreate_createSpec m') (db w1) r (db w')"
    using ent_sqlSave_created [OF s] FailedJobCreate_check_plain insert_plain by blast
  moreover have "\<forall>x. r = Inr x \<longrightarrow> FailedJobCreate_check m' = None"
    using s by (auto simp: ent_sqlSave_def split: option.splits)
  ultimately show ?thesis using d that by blast
qed

section \<open>Problems\<close>

record ProblemMutation =
  pm_chat_id :: "ChatID option"
  pm_manager_id :: "UserID option"
  pm_resolved_at :: "time option"
  pm_created_at :: "time option"
  pm_id :: "ProblemID option"

definition newProblemMutation :: ProblemMutation where
  "newProblemMutation = \<lparr>pm_chat_id = None, pm_manager_id = None, pm_resolved_at = None, pm_created_at = None, pm_id = None\<rparr>"

definition ProblemCreate_SetChatID :: "ChatID \<Rightarrow> ProblemMutation \<Rightarrow> ProblemMutation" where
  "ProblemCreate_SetChatID v m = m\<lparr>pm_chat_id := Some v\<rparr>"

definition ProblemCreate_SetManagerID :: "UserID \<Rightarrow> ProblemMutation \<Rightarrow> ProblemMutation" where
  "ProblemCreate_SetManagerID v m = m\<lparr>pm_manager_id := Some v\<rparr>"

definition ProblemCreate_SetResolvedAt :: "time \<Rightarrow> ProblemMutation \<Rightarrow> ProblemMutation" where
  "ProblemCreate_SetResolvedAt v m = m\<lparr>pm_resolved_at := Some v\<rparr>"

definition ProblemCreate_SetCreatedAt :: "time \<Rightarrow> ProblemMutation \<Rightarrow> ProblemMutation" where
  "ProblemCreate_SetCreatedAt v m = m\<lparr>pm_created_at := Some v\<rparr>"

definition ProblemCreate_SetID :: "ProblemID \<Rightarrow> ProblemMutation \<Rightarrow> ProblemMutation" where
  "ProblemCreate_SetID v m = m\<lparr>pm_id := Some v\<rparr>"

definition ProblemCreate_SetNillableManagerID :: "UserID option \<Rightarrow> ProblemMutation \<Rightarrow> ProblemMutation" where
  "ProblemCreate_SetNillableManagerID v m = set_nillable ProblemCreate_SetManagerID v m"

definition ProblemCreate_SetNillableResolvedAt :: "time option \<Rightarrow> ProblemMutation \<Rightarrow> ProblemMutation" where
  "ProblemCreate_SetNillableResolvedAt v m = set_nillable ProblemCreate_SetResolvedAt v m"

definition ProblemCreate_SetNillableCreatedAt :: "time option \<Rightarrow> ProblemMutation \<Rightarrow> ProblemMutation" where
  "ProblemCreate_SetNillableCreatedAt v m = set_nillable ProblemCreate_SetCreatedAt v m"

definition ProblemCreate_SetNillableID :: "ProblemID option \<Rightarrow> ProblemMutation \<Rightarrow> ProblemMutation" where
  "ProblemCreate_SetNillableID v m = set_nillable ProblemCreate_SetID v m"

lemmas ProblemCreate_setters = ProblemCreate_SetChatID_def ProblemCreate_SetManagerID_def ProblemCreate_SetResolvedAt_def ProblemCreate_SetCreatedAt_def ProblemCreate_SetID_def

definition ProblemCreate_defaults ::
  "ProblemMutation \<times> 'z env_scheme \<Rightarrow> ProblemMutation \<times> 'z env_scheme" where
  "ProblemCreate_defaults mw =
     set_default pm_id ProblemCreate_SetID NewID
       (set_default pm_created_at ProblemCreate_SetCreatedAt time_Now mw)"

definition ProblemCreate_check :: "ProblemMutation \<Rightarrow> goerr option" where
  "ProblemCreate_check m = first_err
     [need_field ''Problem'' ''chat_id'' (pm_chat_id m),
      valid_field ''Problem'' ''chat_id'' (op_Validate ChatID) (pm_chat_id m),
      valid_field ''Problem'' ''manager_id'' (op_Validate UserID) (pm_manager_id m),
      need_field ''Problem'' ''created_at'' (pm_created_at m),
      valid_field ''Problem'' ''id'' (op_Validate ProblemID) (pm_id m),
      need_edge ''Problem'' ''chat'' (pm_chat_id m)]"

definition ProblemCreate_createSpec :: "ProblemMutation \<Rightarrow> problem_row" where
  "ProblemCreate_createSpec m =
     \<lparr>p_ID = or_zero 0 (pm_id m),
      p_ChatID = or_zero 0 (pm_chat_id m),
      p_ManagerID = pm_manager_id m,
      p_ResolvedAt = pm_resolved_at m,
      p_CreatedAt = or_zero 0 (pm_created_at m)\<rparr>"

definition ProblemCreate_sqlSave ::
  "ProblemMutation \<Rightarrow> 'z store_scheme \<Rightarrow> problem_row result \<times> 'z store_scheme" where
  "ProblemCreate_sqlSave = ent_sqlSave ProblemCreate_check ProblemCreate_createSpec insert_problem"

definition ProblemCreate_Save ::
  "ProblemMutation \<Rightarrow> 'z store_scheme \<Rightarrow> problem_row result \<times> 'z store_scheme" where
  "ProblemCreate_Save m w = (let (m', w') = ProblemCreate_defaults (m, w) in ProblemCreate_sqlSave m' w')"

lemma ProblemCreate_check_plain: "ProblemCreate_check m = Some e \<Longrightarrow> plain_error e"
  unfolding ProblemCreate_check_def by (erule first_err_plainD) (simp add: idops_defs)

lemma ProblemCreate_Save_created:
  assumes "ProblemCreate_Save m w = (r, w')"
  obtains m' w1 where "ProblemCreate_defaults (m, w) = (m', w1)"
    "created insert_problem (ProblemCreate_createSpec m') (db w1) r (db w')"
    "\<forall>x. r = Inr x \<longrightarrow> ProblemCreate_check m' = None"
proof -
  obtain m' w1 where d: "ProblemCreate_defaults (m, w) = (m', w1)" by force
  with assms have s: "ent_sqlSave ProblemCreate_check ProblemCreate_createSpec insert_problem m' w1 = (r, w')"
    by (simp add: ProblemCreate_Save_def ProblemCreate_sqlSave_def)
  have "created insert_problem (ProblemCreate_createSpec m') (db w1) r (db w')"
    using ent_sqlSave_created [OF s] ProblemCreate_check_plain insert_plain by blast
  moreover have "\<forall>x. r = Inr x \<longrightarrow> ProblemCreate_check m' = None"
    using s by (auto simp: ent_sqlSave_def split: option.splits)
  ultimately show ?thesis using d that by blast
qed

section \<open>Messages\<close>

record MessageMutation =
  mm_chat_id :: "ChatID option"
  mm_problem_id :: "ProblemID option"
  mm_author_id :: "UserID option"
  mm_is_visible_for_client :: "bool option"
  mm_is_visible_for_manager :: "bool option"
  mm_body :: "string option"
  mm_checked_at :: "time option"
  mm_is_blocked :: "bool option"
  mm_is_service :: "bool option"
  mm_initial_request_id :: "RequestID option"
  mm_created_at :: "time option"
  mm_id :: "MessageID option"

definition newMessageMutation :: MessageMutation where
  "newMessageMutation = \<lparr>mm_chat_id = None, mm_problem_id = None, mm_author_id = None, mm_is_visible_for_client = None, mm_is_visible_for_manager = None, mm_body = None, mm_checked_at = None, mm_is_blocked = None, mm_is_service = None, mm_initial_request_id = None, mm_created_at = None, mm_id = None\<rparr>"

definition MessageCreate_SetChatID :: "ChatID \<Rightarrow> MessageMutation \<Rightarrow> MessageMutation" where
  "MessageCreate_SetChatID v m = m\<lparr>mm_chat_id := Some v\<rparr>"

definition MessageCreate_SetProblemID :: "ProblemID \<Rightarrow> MessageMutation \<Rightarrow> MessageMutation" where
  "MessageCreate_SetProblemID v m = m\<lparr>mm_problem_id := Some v\<rparr>"

definition MessageCreate_SetAuthorID :: "UserID \<Rightarrow> MessageMutation \<Rightarrow> MessageMutation" where
  "MessageCreate_SetAuthorID v m = m\<lparr>mm_author_id := Some v\<rparr>"

definition MessageCreate_SetIsVisibleForClient :: "bool \<Rightarrow> MessageMutation \<Rightarrow> MessageMutation" where
  "MessageCreate_SetIsVisibleForClient v m = m\<lparr>mm_is_visible_for_client := Some v\<rparr>"

definition MessageCreate_SetIsVisibleForManager :: "bool \<Rightarrow> MessageMutation \<Rightarrow> MessageMutation" where
  "MessageCreate_SetIsVisibleForManager v m = m\<lparr>mm_is_visible_for_manager := Some v\<rparr>"

definition MessageCreate_SetBody :: "string \<Rightarrow> MessageMutation \<Rightarrow> MessageMutation" where
  "MessageCreate_SetBody v m = m\<lparr>mm_body := Some v\<rparr>"

definition MessageCreate_SetCheckedAt :: "time \<Rightarrow> MessageMutation \<Rightarrow> MessageMutation" where
  "MessageCreate_SetCheckedAt v m = m\<lparr>mm_checked_at := Some v\<rparr>"

definition MessageCreate_SetIsBlocked :: "bool \<Rightarrow> MessageMutation \<Rightarrow> MessageMutation" where
  "MessageCreate_SetIsBlocked v m = m\<lparr>mm_is_blocked := Some v\<rparr>"

definition MessageCreate_SetIsService :: "bool \<Rightarrow> MessageMutation \<Rightarrow> MessageMutation" where
  "MessageCreate_SetIsService v m = m\<lparr>mm_is_service := Some v\<rparr>"

definition MessageCreate_SetInitialRequestID :: "RequestID \<Rightarrow> MessageMutation \<Rightarrow> MessageMutation" where
  "MessageCreate_SetInitialRequestID v m = m\<lparr>mm_initial_request_id := Some v\<rparr>"

definition MessageCreate_SetCreatedAt :: "time \<Rightarrow> MessageMutation \<Rightarrow> MessageMutation" where
  "MessageCreate_SetCreatedAt v m = m\<lparr>mm_created_at := Some v\<rparr>"

definition MessageCreate_SetID :: "MessageID \<Rightarrow> MessageMutation \<Rightarrow> MessageMutation" where
  "MessageCreate_SetID v m = m\<lparr>mm_id := Some v\<rparr>"

definition MessageCreate_SetNillableAuthorID :: "UserID option \<Rightarrow> MessageMutation \<Rightarrow> MessageMutation" where
  "MessageCreate_SetNillableAuthorID v m = set_nillable MessageCreate_SetAuthorID v m"

definition MessageCreate_SetNillableIsVisibleForClient :: "bool option \<Rightarrow> MessageMutation \<Rightarrow> MessageMutation" where
  "MessageCreate_SetNillableIsVisibleForClient v m = set_nillable MessageCreate_SetIsVisibleForClient v m"

definition MessageCreate_SetNillableIsVisibleForManager :: "bool option \<Rightarrow> MessageMutation \<Rightarrow> MessageMutation" where
  "MessageCreate_SetNillableIsVisibleForManager v m = set_nillable MessageCreate_SetIsVisibleForManager v m"

definition MessageCreate_SetNillableCheckedAt :: "time option \<Rightarrow> MessageMutation \<Rightarrow> MessageMutation" where
  "MessageCreate_SetNillableCheckedAt v m = set_nillable MessageCreate_SetCheckedAt v m"

definition MessageCreate_SetNillableIsBlocked :: "bool option \<Rightarrow> MessageMutation \<Rightarrow> MessageMutation" where
  "MessageCreate_SetNillableIsBlocked v m = set_nillable MessageCreate_SetIsBlocked v m"

definition MessageCreate_SetNillableIsService :: "bool option \<Rightarrow> MessageMutation \<Rightarrow> MessageMutation" where
  "MessageCreate_SetNillableIsService v m = set_nillable MessageCreate_SetIsService v m"

definition MessageCreate_SetNillableCreatedAt :: "time option \<Rightarrow> MessageMutation \<Rightarrow> MessageMutation" where
  "MessageCreate_SetNillableCreatedAt v m = set_nillable MessageCreate_SetCreatedAt v m"

definition MessageCreate_SetNillableID :: "MessageID option \<Rightarrow> MessageMutation \<Rightarrow> MessageMutation" where
  "MessageCreate_SetNillableID v m = set_nillable MessageCreate_SetID v m"

lemmas MessageCreate_setters = MessageCreate_SetChatID_def MessageCreate_SetProblemID_def MessageCreate_SetAuthorID_def MessageCreate_SetIsVisibleForClient_def MessageCreate_SetIsVisibleForManager_def MessageCreate_SetBody_def MessageCreate_SetCheckedAt_def MessageCreate_SetIsBlocked_def MessageCreate_SetIsService_def MessageCreate_SetInitialRequestID_def MessageCreate_SetCreatedAt_def MessageCreate_SetID_def

definition MessageCreate_defaults ::
  "MessageMutation \<times> 'z env_scheme \<Rightarrow> MessageMutation \<times> 'z env_scheme" where
  "MessageCreate_defaults mw =
     set_default mm_id MessageCreate_SetID NewID
       (set_default mm_created_at MessageCreate_SetCreatedAt time_Now
       (set_default mm_is_service MessageCreate_SetIsService (Pair False)
       (set_default mm_is_blocked MessageCreate_SetIsBlocked (Pair False)
       (set_default mm_is_visible_for_manager MessageCreate_SetIsVisibleForManager (Pair False)
       (set_default mm_is_visible_for_client MessageCreate_SetIsVisibleForClient (Pair False) mw)))))"

definition MessageCreate_check :: "MessageMutation \<Rightarrow> goerr option" where
  "MessageCreate_check m = first_err
     [need_field ''Message'' ''chat_id'' (mm_chat_id m),
      valid_field ''Message'' ''chat_id'' (op_Validate ChatID) (mm_chat_id m),
      need_field ''Message'' ''problem_id'' (mm_problem_id m),
      valid_field ''Message'' ''problem_id'' (op_Validate ProblemID) (mm_problem_id m),
      valid_field ''Message'' ''author_id'' (op_Validate UserID) (mm_author_id m),
      need_field ''Message'' ''is_visible_for_client'' (mm_is_visible_for_client m),
      need_field ''Message'' ''is_visible_for_manager'' (mm_is_visible_for_manager m),
      need_field ''Message'' ''body'' (mm_body m),
      valid_field ''Message'' ''body'' message_BodyValidator (mm_body m),
      need_field ''Message'' ''is_blocked'' (mm_is_blocked m),
      need_field ''Message'' ''is_service'' (mm_is_service m),
      need_field ''Message'' ''initial_request_id'' (mm_initial_request_id m),
      valid_field ''Message'' ''initial_request_id'' (op_Validate RequestID) (mm_initial_request_id m),
      need_field ''Message'' ''created_at'' (mm_created_at m),
      valid_field ''Message'' ''id'' (op_Validate MessageID) (mm_id m),
      need_edge ''Message'' ''chat'' (mm_chat_id m),
      need_edge ''Message'' ''problem'' (mm_problem_id m)]"

definition MessageCreate_createSpec :: "MessageMutation \<Rightarrow> message_row" where
  "MessageCreate_createSpec m =
     \<lparr>m_ID = or_zero 0 (mm_id m),
      m_ChatID = or_zero 0 (mm_chat_id m),
      m_ProblemID = or_zero 0 (mm_problem_id m),
      m_AuthorID = mm_author_id m,
      m_IsVisibleForClient = or_zero False (mm_is_visible_for_client m),
      m_IsVisibleForManager = or_zero False (mm_is_visible_for_manager m),
      m_Body = or_zero [] (mm_body m),
      m_CheckedAt = mm_checked_at m,
      m_IsBlocked = or_zero False (mm_is_blocked m),
      m_IsService = or_zero False (mm_is_service m),
      m_InitialRequestID = or_zero 0 (mm_initial_request_id m),
      m_CreatedAt = or_zero 0 (mm_created_at m)\<rparr>"

definition MessageCreate_sqlSave ::
  "MessageMutation \<Rightarrow> 'z store_scheme \<Rightarrow> message_row result \<times> 'z store_scheme" where
  "MessageCreate_sqlSave = ent_sqlSave MessageCreate_check MessageCreate_createSpec insert_message"

definition MessageCreate_Save ::
  "MessageMutation \<Rightarrow> 'z store_scheme \<Rightarrow> message_row result \<times> 'z store_scheme" where
  "MessageCreate_Save m w = (let (m', w') = MessageCreate_defaults (m, w) in MessageCreate_sqlSave m' w')"

lemma MessageCreate_check_plain: "MessageCreate_check m = Some e \<Longrightarrow> plain_error e"
  unfolding MessageCreate_check_def by (erule first_err_plainD) (simp add: idops_defs)

lemma MessageCreate_Save_created:
  assumes "MessageCreate_Save m w = (r, w')"
  obtains m' w1 where "MessageCreate_defaults (m, w) = (m', w1)"
    "created insert_message (MessageCreate_createSpec m') (db w1) r (db w')"
    "\<forall>x. r = Inr x \<longrightarrow> MessageCreate_check m' = None"
proof -
  obtain m' w1 where d: "MessageCreate_defaults (m, w) = (m', w1)" by force
  with assms have s: "ent_sqlSave MessageCreate_check MessageCreate_createSpec insert_message m' w1 = (r, w')"
    by (simp add: MessageCreate_Save_def MessageCreate_sqlSave_def)
  have "created insert_message (MessageCreate_createSpec m') (db w1) r (db w')"
    using ent_sqlSave_created [OF s] MessageCreate_check_plain insert_plain by blast
  moreover have "\<forall>x. r = Inr x \<longrightarrow> MessageCreate_check m' = None"
    using s by (auto simp: ent_sqlSave_def split: option.splits)
  ultimately show ?thesis using d that by blast
qed

section \<open>Chats\<close>

record ChatMutation =
  cm_client_id :: "UserID option"
  cm_created_at :: "time option"
  cm_id :: "ChatID option"

definition newChatMutation :: ChatMutation where
  "newChatMutation = \<lparr>cm_client_id = None, cm_created_at = None, cm_id = None\<rparr>"

definition ChatCreate_SetClientID :: "UserID \<Rightarrow> ChatMutation \<Rightarrow> ChatMutation" where
  "ChatCreate_SetClientID v m = m\<lparr>cm_client_id := Some v\<rparr>"

definition ChatCreate_SetCreatedAt :: "time \<Rightarrow> ChatMutation \<Rightarrow> ChatMutation" where
  "ChatCreate_SetCreatedAt v m = m\<lparr>cm_created_at := Some v\<rparr>"

definition ChatCreate_SetID :: "ChatID \<Rightarrow> ChatMutation \<Rightarrow> ChatMutation" where
  "ChatCreate_SetID v m = m\<lparr>cm_id := Some v\<rparr>"

definition ChatCreate_SetNillableCreatedAt :: "time option \<Rightarrow> ChatMutation \<Rightarrow> ChatMutation" where
  "ChatCreate_SetNillableCreatedAt v m = set_nillable ChatCreate_SetCreatedAt v m"

definition ChatCreate_SetNillableID :: "ChatID option \<Rightarrow> ChatMutation \<Rightarrow> ChatMutation" where
  "ChatCreate_SetNillableID v m = set_nillable ChatCreate_SetID v m"

lemmas ChatCreate_setters = ChatCreate_SetClientID_def ChatCreate_SetCreatedAt_def ChatCreate_SetID_def

definition ChatCreate_defaults ::
  "ChatMutation \<times> 'z env_scheme \<Rightarrow> ChatMutation \<times> 'z env_scheme" where
  "ChatCreate_defaults mw =
     set_default cm_id ChatCreate_SetID NewID
       (set_default cm_created_at ChatCreate_SetCreatedAt time_Now mw)"

definition ChatCreate_check :: "ChatMutation \<Rightarrow> goerr option" where
  "ChatCreate_check m = first_err
     [need_field ''Chat'' ''client_id'' (cm_client_id m),
      valid_field ''Chat'' ''client_id'' (op_Validate UserID) (cm_client_id m),
      need_field ''Chat'' ''created_at'' (cm_created_at m),
      valid_field ''Chat'' ''id'' (op_Validate ChatID) (cm_id m)]"

definition ChatCreate_createSpec :: "ChatMutation \<Rightarrow> chat_row" where
  "ChatCreate_createSpec m =
     \<lparr>c_ID = or_zero 0 (cm_id m),
      c_ClientID = or_zero 0 (cm_client_id m),
      c_CreatedAt = or_zero 0 (cm_created_at m)\<rparr>"

definition ChatCreate_sqlSave ::
  "ChatMutation \<Rightarrow> 'z store_scheme \<Rightarrow> chat_row result \<times> 'z store_scheme" where
  "ChatCreate_sqlSave = ent_sqlSave ChatCreate_check ChatCreate_createSpec insert_chat"

definition ChatCreate_Save ::
  "ChatMutation \<Rightarrow> 'z store_scheme \<Rightarrow> chat_row result \<times> 'z store_scheme" where
  "ChatCreate_Save m w = (let (m', w') = ChatCreate_defaults (m, w) in ChatCreate_sqlSave m' w')"

lemma ChatCreate_check_plain: "ChatCreate_check m = Some e \<Longrightarrow> plain_error e"
  unfolding ChatCreate_check_def by (erule first_err_plainD) (simp add: idops_defs)

lemma ChatCreate_Save_created:
  assumes "ChatCreate_Save m w = (r, w')"
  obtains m' w1 where "ChatCreate_defaults (m, w) = (m', w1)"
    "created insert_chat (ChatCreate_createSpec m') (db w1) r (db w')"
    "\<forall>x. r = Inr x \<longrightarrow> ChatCreate_check m' = None"
proof -
  obtain m' w1 where d: "ChatCreate_defaults (m, w) = (m', w1)" by force
  with assms have s: "ent_sqlSave ChatCreate_check ChatCreate_createSpec insert_chat m' w1 = (r, w')"
    by (simp add: ChatCreate_Save_def ChatCreate_sqlSave_def)
  have "created insert_chat (ChatCreate_createSpec m') (db w1) r (db w')"
    using ent_sqlSave_created [OF s] ChatCreate_check_plain insert_plain by blast
  moreover have "\<forall>x. r = Inr x \<longrightarrow> ChatCreate_check m' = None"
    using s by (auto simp: ent_sqlSave_def split: option.splits)
  ultimately show ?thesis using d that by blast
qed

end
