(* ===== verification/Queries.thy ===== *)
theory Queries
  imports Builders "HOL-Library.Multiset"
begin

text \<open>
  Reading, updating and deleting rows with the generated clients of \<open>internal/store\<close>: the query
  builders (\<open>*_query.go\<close>: \<open>Where\<close>, \<open>Order\<close>, \<open>Limit\<close>, \<open>All\<close>, \<open>First\<close>, \<open>Only\<close>, \<open>Count\<close>), the
  predicates of \<open>*/where.go\<close> the service uses, \<open>MessageUpdateOne\<close>, \<open>JobDeleteOne\<close> and the upsert
  of a chat (\<open>ChatUpsertOne\<close>).  SQL leaves the order of rows open unless the query orders them:
  \<open>any_order\<close> arranges them as the environment's schedule says, so a theorem about a query holds for
  every arrangement.
\<close>

section \<open>Rows in an order that SQL leaves open\<close>

fun any_order :: "nat list \<Rightarrow> 'a list \<Rightarrow> 'a list" where
  "any_order ns [] = []"
| "any_order [] (x # xs) = x # xs"
| "any_order (n # ns) (x # xs) =
     (let ys = x # xs; i = n mod length ys in ys ! i # any_order ns (take i ys @ drop (Suc i) ys))"

lemma mset_remove_nth:
  assumes "i < length xs"
  shows "mset xs = add_mset (xs ! i) (mset (take i xs @ drop (Suc i) xs))"
  using id_take_nth_drop [OF assms] by (metis mset.simps(2) mset_append union_mset_add_mset_right)

lemma mset_any_order [simp]: "mset (any_order ns xs) = mset xs"
proof (induction ns xs rule: any_order.induct)
  case (3 n ns x xs)
  let ?i = "n mod length (x # xs)"
  have "?i < length (x # xs)" by simp
  from mset_remove_nth [OF this] 3 show ?case
    by (simp only: any_order.simps Let_def mset.simps)
qed simp_all

lemma set_any_order [simp]: "set (any_order ns xs) = set xs"
  by (metis mset_any_order set_mset_mset)

lemma length_any_order [simp]: "length (any_order ns xs) = length xs"
  by (metis mset_any_order size_mset)

lemma any_order_Nil_iff [simp]: "any_order ns xs = [] \<longleftrightarrow> xs = []"
  by (metis length_0_conv length_any_order)

lemma any_order_single [simp]: "any_order ns [x] = [x]"
  by (cases ns) simp_all

lemma any_order_nothing [simp]: "any_order [] xs = xs"
  by (cases xs) simp_all

text \<open>Every arrangement of the rows comes from some schedule.\<close>

lemma any_order_complete: "mset ys = mset xs \<Longrightarrow> \<exists>ns. any_order ns xs = ys"
proof (induction ys arbitrary: xs)
  case Nil
  then show ?case by simp
next
  case (Cons y ys)
  then have "y \<in> set xs" by (metis list.set_intros(1) set_mset_mset)
  then obtain i where i: "i < length xs" "xs ! i = y" by (metis in_set_conv_nth)
  then obtain x xs' where xs: "xs = x # xs'" by (cases xs) auto
  have "mset ys = mset (take i xs @ drop (Suc i) xs)"
    using Cons.prems mset_remove_nth [OF i(1)] i(2) by simp
  from Cons.IH [OF this] obtain ns where ns: "any_order ns (take i xs @ drop (Suc i) xs) = ys" by blast
  have "any_order (i # ns) xs = y # ys"
    using i ns xs by (simp add: Let_def)
  then show ?case by blast
qed

section \<open>Query builders\<close>

type_synonym 'r predicate = "database \<Rightarrow> 'r \<Rightarrow> bool"

record 'r query =
  q_label :: string
  q_rows :: "database \<Rightarrow> 'r list"
  q_where :: "'r predicate list"
  q_order :: "('r \<Rightarrow> int) option"
  q_limit :: "nat option"

definition new_query :: "string \<Rightarrow> (database \<Rightarrow> 'r list) \<Rightarrow> 'r query" where
  "new_query l rows = \<lparr>q_label = l, q_rows = rows, q_where = [], q_order = None, q_limit = None\<rparr>"

definition query_Where :: "'r predicate list \<Rightarrow> 'r query \<Rightarrow> 'r query" where
  "query_Where ps q = q\<lparr>q_where := q_where q @ ps\<rparr>"

definition query_Limit :: "nat \<Rightarrow> 'r query \<Rightarrow> 'r query" where
  "query_Limit n q = q\<lparr>q_limit := Some n\<rparr>"

text \<open>\<open>Order(store.Desc(column))\<close>.\<close>

definition query_Desc :: "('r \<Rightarrow> int) \<Rightarrow> 'r query \<Rightarrow> 'r query" where
  "query_Desc k q = q\<lparr>q_order := Some k\<rparr>"

definition matching :: "'r query \<Rightarrow> database \<Rightarrow> 'r list" where
  "matching q d = filter (\<lambda>r. \<forall>p \<in> set (q_where q). p d r) (q_rows q d)"

definition order_rows :: "('r \<Rightarrow> int) option \<Rightarrow> 'r list \<Rightarrow> 'r list" where
  "order_rows key xs = (case key of None \<Rightarrow> xs | Some k \<Rightarrow> sort_key (\<lambda>r. - k r) xs)"

definition limit_rows :: "nat option \<Rightarrow> 'r list \<Rightarrow> 'r list" where
  "limit_rows l xs = (case l of None \<Rightarrow> xs | Some n \<Rightarrow> take n xs)"

definition query_All :: "'r query \<Rightarrow> 'z store_scheme \<Rightarrow> 'r list result \<times> 'z store_scheme" where
  "query_All q = statement (\<lambda>w.
     let rows = matching q (db w) in
     (Inr (limit_rows (q_limit q) (order_rows (q_order q) (any_order (picks w) rows))),
      w\<lparr>picks := drop (length rows) (picks w)\<rparr>))"

definition query_First :: "'r query \<Rightarrow> 'z store_scheme \<Rightarrow> 'r result \<times> 'z store_scheme" where
  "query_First q w =
     (case query_All (query_Limit 1 q) w of
        (Inl e, w) \<Rightarrow> (Inl e, w)
      | (Inr nodes, w) \<Rightarrow>
          (if nodes = [] then (Inl (NotFoundError (q_label q)), w) else (Inr (nodes ! 0), w)))"

definition query_Only :: "'r query \<Rightarrow> 'z store_scheme \<Rightarrow> 'r result \<times> 'z store_scheme" where
  "query_Only q w =
     (case query_All (query_Limit 2 q) w of
        (Inl e, w) \<Rightarrow> (Inl e, w)
      | (Inr nodes, w) \<Rightarrow>
          (if length nodes = 1 then (Inr (nodes ! 0), w)
           else if length nodes = 0 then (Inl (NotFoundError (q_label q)), w)
           else (Inl (NotSingularError (q_label q)), w)))"

definition query_Count :: "'r query \<Rightarrow> 'z store_scheme \<Rightarrow> int result \<times> 'z store_scheme" where
  "query_Count q = sql_read (\<lambda>d. int (length (matching q d)))"

definition IsNotFound :: "goerr \<Rightarrow> bool" where
  "IsNotFound e = errors_As_NotFound e"

lemmas query_defs = new_query_def query_Where_def query_Limit_def query_Desc_def

lemma query_All_cases:
  assumes "query_All q w = (r, w')"
  shows "db w' = db w \<and> ((\<exists>m. r = Inl (DriverError m)) \<or>
    (\<exists>rows. mset rows = mset (matching q (db w))
      \<and> r = Inr (limit_rows (q_limit q) (order_rows (q_order q) rows))))"
proof -
  obtain flt w1 where nf: "next_fault w = (flt, w1)" by force
  with assms db_next_fault [OF nf] show ?thesis
    by (cases flt) (auto simp: query_All_def statement_def Let_def split: fault.splits
        intro!: exI [of _ "any_order (picks w1) (matching q (db w))"])
qed

lemma query_All_quiet [quiet_simps]:
  "faults w = [] \<Longrightarrow> picks w = [] \<Longrightarrow> query_All q w =
     (Inr (limit_rows (q_limit q) (order_rows (q_order q) (matching q (db w)))), w)"
  by (cases w) (simp add: query_All_def statement_no_fault Let_def)

lemma matching_Limit [simp]: "matching (query_Limit n q) = matching q"
  by (simp add: matching_def query_Limit_def fun_eq_iff)

lemma limit_Limit [simp]:
  "q_limit (query_Limit n q) = Some n" "q_order (query_Limit n q) = q_order q"
  "q_label (query_Limit n q) = q_label q"
  by (simp_all add: query_Limit_def)

lemma mset_order_rows [simp]: "mset (order_rows key xs) = mset xs"
  by (simp add: order_rows_def split: option.splits)

lemma order_rows_Nil [simp]: "order_rows key xs = [] \<longleftrightarrow> xs = []"
  by (metis mset_order_rows mset_zero_iff)

lemma length_order_rows [simp]: "length (order_rows key xs) = length xs"
  by (metis mset_order_rows size_mset)

lemma query_First_cases:
  assumes "query_First q w = (r, w')"
  shows "db w' = db w \<and> ((\<exists>m. r = Inl (DriverError m)) \<or>
    (matching q (db w) = [] \<and> r = Inl (NotFoundError (q_label q))) \<or>
    (\<exists>x \<in> set (matching q (db w)). r = Inr x))"
proof -
  obtain s w1 where all: "query_All (query_Limit 1 q) w = (s, w1)" by force
  from query_All_cases [OF all] have d: "db w1 = db w" and
    s: "(\<exists>m. s = Inl (DriverError m)) \<or> (\<exists>rows. mset rows = mset (matching q (db w))
      \<and> s = Inr (take 1 (order_rows (q_order q) rows)))"
    by (auto simp: limit_rows_def)
  from s show ?thesis
  proof (elim disjE exE conjE)
    fix m assume "s = Inl (DriverError m)"
    with all assms d show ?thesis by (auto simp: query_First_def)
  next
    fix rows
    assume rows: "mset rows = mset (matching q (db w))"
      and s: "s = Inr (take 1 (order_rows (q_order q) rows))"
    let ?o = "order_rows (q_order q) rows"
    have set_o: "set ?o = set (matching q (db w))"
      using rows by (metis mset_order_rows set_mset_mset)
    show ?thesis
    proof (cases ?o)
      case Nil
      with set_o all assms d s show ?thesis by (auto simp: query_First_def)
    next
      case (Cons x xs)
      with set_o have "x \<in> set (matching q (db w))" by auto
      with Cons all assms d s show ?thesis by (auto simp: query_First_def)
    qed
  qed
qed

text \<open>\<open>Only\<close> returns the one row that matches, whatever arrangement SQL chose.\<close>

lemma query_Only_cases:
  assumes "query_Only q w = (r, w')"
  shows "db w' = db w \<and> ((\<exists>m. r = Inl (DriverError m)) \<or>
    (matching q (db w) = [] \<and> r = Inl (NotFoundError (q_label q))) \<or>
    (\<exists>x. matching q (db w) = [x] \<and> r = Inr x) \<or>
    (length (matching q (db w)) \<ge> 2 \<and> r = Inl (NotSingularError (q_label q))))"
proof -
  obtain s w1 where all: "query_All (query_Limit 2 q) w = (s, w1)" by force
  from query_All_cases [OF all] have d: "db w1 = db w" and
    s: "(\<exists>m. s = Inl (DriverError m)) \<or> (\<exists>rows. mset rows = mset (matching q (db w))
      \<and> s = Inr (take 2 (order_rows (q_order q) rows)))"
    by (auto simp: limit_rows_def)
  from s show ?thesis
  proof (elim disjE exE conjE)
    fix m assume "s = Inl (DriverError m)"
    with all assms d show ?thesis by (auto simp: query_Only_def)
  next
    fix rows
    assume rows: "mset rows = mset (matching q (db w))"
      and s: "s = Inr (take 2 (order_rows (q_order q) rows))"
    let ?m = "matching q (db w)"
    let ?o = "order_rows (q_order q) rows"
    have mo: "mset ?o = mset ?m" using rows by simp
    then have len: "length ?o = length ?m" by (metis size_mset)
    consider "?m = []" | x where "?m = [x]" | "length ?m \<ge> 2"
      by (cases ?m; cases "tl ?m") auto
    then show ?thesis
    proof cases
      case 1
      with len all assms d s show ?thesis by (auto simp: query_Only_def)
    next
      case (2 x)
      with mo have "mset ?o = {#x#}" by simp
      then have "?o = [x]" by (simp only: mset_single_iff)
      with 2 all assms d s show ?thesis by (auto simp: query_Only_def)
    next
      case 3
      with len have "length (take 2 ?o) = 2" by simp
      with 3 all assms d s show ?thesis by (auto simp: query_Only_def)
    qed
  qed
qed

end
