(* ===== verification/Updates.thy ===== *)
theory Updates
  imports Queries
begin

text \<open>
  The statements of the store that change rows in place: \<open>MessageUpdateOne\<close>
  (\<open>internal/store/message_update.go\<close>), \<open>JobDelete\<close> and \<open>JobDeleteOne\<close>
  (\<open>internal/store/job_delete.go\<close>) and the upsert of a chat (\<open>ChatUpsertOne\<close> in
  \<open>internal/store/chat_create.go\<close> with the conflict clause that \<open>chatsrepo\<close> passes), together with
  the predicates of \<open>internal/store/*/where.go\<close> that the service's queries use.
\<close>

section \<open>Predicates\<close>

definition message_ID :: "MessageID \<Rightarrow> message_row predicate" where
  "message_ID v d m \<longleftrightarrow> m_ID m = v"

definition message_InitialRequestID :: "RequestID \<Rightarrow> message_row predicate" where
  "message_InitialRequestID v d m \<longleftrightarrow> m_InitialRequestID m = v"

definition message_IsVisibleForClient :: "bool \<Rightarrow> message_row predicate" where
  "message_IsVisibleForClient v d m \<longleftrightarrow> m_IsVisibleForClient m = v"

definition message_CreatedAtLT :: "time \<Rightarrow> message_row predicate" where
  "message_CreatedAtLT v d m \<longleftrightarrow> m_CreatedAt m < v"

definition message_HasChatWith :: "chat_row predicate list \<Rightarrow> message_row predicate" where
  "message_HasChatWith ps d m \<longleftrightarrow>
     (\<exists>c \<in> set (chats d). c_ID c = m_ChatID m \<and> (\<forall>p \<in> set ps. p d c))"

definition chat_ClientID :: "UserID \<Rightarrow> chat_row predicate" where
  "chat_ClientID v d c \<longleftrightarrow> c_ClientID c = v"

definition problem_ChatID :: "ChatID \<Rightarrow> problem_row predicate" where
  "problem_ChatID v d p \<longleftrightarrow> p_ChatID p = v"

text \<open>A comparison with a column that is \<open>NULL\<close> is not true.\<close>

definition problem_ManagerID :: "UserID \<Rightarrow> problem_row predicate" where
  "problem_ManagerID v d p \<longleftrightarrow> p_ManagerID p = Some v"

definition problem_ResolvedAtIsNil :: "problem_row predicate" where
  "problem_ResolvedAtIsNil d p \<longleftrightarrow> p_ResolvedAt p = None"

definition job_ID :: "JobID \<Rightarrow> job_row predicate" where
  "job_ID v d j \<longleftrightarrow> j_ID j = v"

lemmas predicate_defs = message_ID_def message_InitialRequestID_def message_IsVisibleForClient_def
  message_CreatedAtLT_def message_HasChatWith_def chat_ClientID_def problem_ChatID_def
  problem_ManagerID_def problem_ResolvedAtIsNil_def job_ID_def

section \<open>Updating one message\<close>

record MessageUpdateOne =
  mu_id :: "MessageID option"
  mu_chat_id :: "ChatID option"
  mu_problem_id :: "ProblemID option"
  mu_is_visible_for_client :: "bool option"
  mu_is_visible_for_manager :: "bool option"
  mu_checked_at :: "time option"
  mu_is_blocked :: "bool option"

definition MessageClient_UpdateOneID :: "MessageID \<Rightarrow> MessageUpdateOne" where
  "MessageClient_UpdateOneID i = \<lparr>mu_id = Some i, mu_chat_id = None, mu_problem_id = None,
     mu_is_visible_for_client = None, mu_is_visible_for_manager = None, mu_checked_at = None,
     mu_is_blocked = None\<rparr>"

definition MessageUpdateOne_SetChatID :: "ChatID \<Rightarrow> MessageUpdateOne \<Rightarrow> MessageUpdateOne" where
  "MessageUpdateOne_SetChatID v m = m\<lparr>mu_chat_id := Some v\<rparr>"

definition MessageUpdateOne_SetProblemID :: "ProblemID \<Rightarrow> MessageUpdateOne \<Rightarrow> MessageUpdateOne" where
  "MessageUpdateOne_SetProblemID v m = m\<lparr>mu_problem_id := Some v\<rparr>"

definition MessageUpdateOne_SetIsVisibleForClient :: "bool \<Rightarrow> MessageUpdateOne \<Rightarrow> MessageUpdateOne" where
  "MessageUpdateOne_SetIsVisibleForClient v m = m\<lparr>mu_is_visible_for_client := Some v\<rparr>"

definition MessageUpdateOne_SetIsVisibleForManager :: "bool \<Rightarrow> MessageUpdateOne \<Rightarrow> MessageUpdateOne" where
  "MessageUpdateOne_SetIsVisibleForManager v m = m\<lparr>mu_is_visible_for_manager := Some v\<rparr>"

definition MessageUpdateOne_SetCheckedAt :: "time \<Rightarrow> MessageUpdateOne \<Rightarrow> MessageUpdateOne" where
  "MessageUpdateOne_SetCheckedAt v m = m\<lparr>mu_checked_at := Some v\<rparr>"

definition MessageUpdateOne_SetIsBlocked :: "bool \<Rightarrow> MessageUpdateOne \<Rightarrow> MessageUpdateOne" where
  "MessageUpdateOne_SetIsBlocked v m = m\<lparr>mu_is_blocked := Some v\<rparr>"

lemmas MessageUpdateOne_setters = MessageClient_UpdateOneID_def MessageUpdateOne_SetChatID_def
  MessageUpdateOne_SetProblemID_def MessageUpdateOne_SetIsVisibleForClient_def
  MessageUpdateOne_SetIsVisibleForManager_def MessageUpdateOne_SetCheckedAt_def
  MessageUpdateOne_SetIsBlocked_def

definition MessageUpdateOne_check :: "MessageUpdateOne \<Rightarrow> goerr option" where
  "MessageUpdateOne_check m = first_err
     [valid_field ''Message'' ''chat_id'' (op_Validate ChatID) (mu_chat_id m),
      valid_field ''Message'' ''problem_id'' (op_Validate ProblemID) (mu_problem_id m)]"

text \<open>The columns that the statement sets.\<close>

definition MessageUpdateOne_apply :: "MessageUpdateOne \<Rightarrow> message_row \<Rightarrow> message_row" where
  "MessageUpdateOne_apply u m =
     m\<lparr>m_ChatID := or_zero (m_ChatID m) (mu_chat_id u),
       m_ProblemID := or_zero (m_ProblemID m) (mu_problem_id u),
       m_IsVisibleForClient := or_zero (m_IsVisibleForClient m) (mu_is_visible_for_client u),
       m_IsVisibleForManager := or_zero (m_IsVisibleForManager m) (mu_is_visible_for_manager u),
       m_CheckedAt := (case mu_checked_at u of None \<Rightarrow> m_CheckedAt m | Some t \<Rightarrow> Some t),
       m_IsBlocked := or_zero (m_IsBlocked m) (mu_is_blocked u)\<rparr>"

definition update_message ::
  "MessageID \<Rightarrow> (message_row \<Rightarrow> message_row) \<Rightarrow> database \<Rightarrow> (message_row \<times> database) result" where
  "update_message i f d =
     (case find (\<lambda>m. m_ID m = i) (messages d) of
        None \<Rightarrow> Inl (NotFoundError ''message'')
      | Some m \<Rightarrow>
          if m_ChatID (f m) \<notin> c_ID ` set (chats d)
          then Inl (ConstraintError ''messages_chats_messages'')
          else if m_ProblemID (f m) \<notin> p_ID ` set (problems d)
          then Inl (ConstraintError ''messages_problems_messages'')
          else Inr (f m, d\<lparr>messages := map (\<lambda>m. if m_ID m = i then f m else m) (messages d)\<rparr>))"

definition MessageUpdateOne_sqlSave ::
  "MessageUpdateOne \<Rightarrow> 'z store_scheme \<Rightarrow> message_row result \<times> 'z store_scheme" where
  "MessageUpdateOne_sqlSave u w =
     (case MessageUpdateOne_check u of
        Some e \<Rightarrow> (Inl e, w)
      | None \<Rightarrow>
          (case mu_id u of
             None \<Rightarrow> (Inl (ValidationError ''id'' (Errorf (''store: missing '' @ strconv_Quote ''Message.id'' @ '' for update'') None)), w)
           | Some i \<Rightarrow> sql_exec (update_message i (MessageUpdateOne_apply u)) w))"

definition MessageUpdateOne_Exec ::
  "MessageUpdateOne \<Rightarrow> 'z store_scheme \<Rightarrow> unit result \<times> 'z store_scheme" where
  "MessageUpdateOne_Exec u w =
     (case MessageUpdateOne_sqlSave u w of (Inl e, w) \<Rightarrow> (Inl e, w) | (Inr _, w) \<Rightarrow> (Inr (), w))"

section \<open>Deleting jobs\<close>

text \<open>\<open>JobDelete.Exec\<close> deletes the rows that match and says how many they were.\<close>

definition JobDelete_Exec ::
  "job_row predicate list \<Rightarrow> 'z store_scheme \<Rightarrow> int result \<times> 'z store_scheme" where
  "JobDelete_Exec ps = sql_exec (\<lambda>d.
     let hit = (\<lambda>j. \<forall>p \<in> set ps. p d j) in
     Inr (int (length (filter hit (jobs d))), d\<lparr>jobs := filter (\<lambda>j. \<not> hit j) (jobs d)\<rparr>))"

definition JobDeleteOne_Exec ::
  "job_row predicate list \<Rightarrow> 'z store_scheme \<Rightarrow> unit result \<times> 'z store_scheme" where
  "JobDeleteOne_Exec ps w =
     (case JobDelete_Exec ps w of
        (Inl e, w) \<Rightarrow> (Inl e, w)
      | (Inr n, w) \<Rightarrow> (if n = 0 then (Inl (NotFoundError ''job''), w) else (Inr (), w)))"

definition JobClient_DeleteOneID :: "JobID \<Rightarrow> job_row predicate list" where
  "JobClient_DeleteOneID i = [job_ID i]"

section \<open>Upserting a chat\<close>

text \<open>
  \<open>INSERT ... ON CONFLICT (client_id) DO UPDATE SET client_id = chats.client_id RETURNING id\<close>: a
  row that conflicts on \<open>client_id\<close> stays as it is and its identifier is returned.
\<close>

definition upsert_chat :: "chat_row \<Rightarrow> database \<Rightarrow> (ChatID \<times> database) result" where
  "upsert_chat r d =
     (case find (\<lambda>c. c_ClientID c = c_ClientID r) (chats d) of
        Some c \<Rightarrow> Inr (c_ID c, d)
      | None \<Rightarrow> (case insert_chat r d of Inl e \<Rightarrow> Inl e | Inr d' \<Rightarrow> Inr (c_ID r, d')))"

definition ChatUpsertOne_ID ::
  "ChatMutation \<Rightarrow> 'z store_scheme \<Rightarrow> ChatID result \<times> 'z store_scheme" where
  "ChatUpsertOne_ID m w =
     (let (m', w) = ChatCreate_defaults (m, w) in
      case ChatCreate_check m' of
        Some e \<Rightarrow> (Inl e, w)
      | None \<Rightarrow> sql_exec (upsert_chat (ChatCreate_createSpec m')) w)"

end
