(* ===== verification/Repositories.thy ===== *)
theory Repositories
  imports Updates
begin

text \<open>
  The repositories of chats and problems (\<open>internal/repositories/chats/api.go\<close>,
  \<open>internal/repositories/problems/api.go\<close>).  Both \<open>CreateIfNotExists\<close> operations are specified
  by what they do to the tables (\<open>ensures_chat\<close>, \<open>ensures_problem\<close>): the row that is
  already there is found and nothing changes, or one row is inserted.  The lemmas state the outcome
  for every fault of the database and every choice SQL leaves open.
\<close>

section \<open>Chats\<close>

definition chatsrepo_CreateIfNotExists ::
  "UserID \<Rightarrow> 'z store_scheme \<Rightarrow> ChatID result \<times> 'z store_scheme" where
  "chatsrepo_CreateIfNotExists userID w =
     (case ChatUpsertOne_ID (ChatCreate_SetClientID userID newChatMutation) w of
        (Inl err, w) \<Rightarrow> (Inl (errorf_v ''failed to create chat'' err), w)
      | (Inr chatID, w) \<Rightarrow> (Inr chatID, w))"

definition ensures_chat :: "UserID \<Rightarrow> ChatID \<Rightarrow> database \<Rightarrow> database \<Rightarrow> bool" where
  "ensures_chat u i d d' \<longleftrightarrow>
     (d' = d \<and> (\<exists>c \<in> set (chats d). c_ClientID c = u \<and> c_ID c = i)) \<or>
     ((\<forall>c \<in> set (chats d). c_ClientID c \<noteq> u) \<and>
      (\<exists>r. c_ClientID r = u \<and> c_ID r = i \<and> insert_chat r d = Inr d'))"

lemma ChatCreate_defaults_id:
  assumes "ChatCreate_defaults (ChatCreate_SetClientID u newChatMutation, w) = (m, w')"
  shows "db w' = db w \<and> cm_client_id m = Some u \<and>
    (\<exists>i t. i \<noteq> 0 \<and> cm_id m = Some i \<and> cm_created_at m = Some t)"
proof -
  obtain t w1 where t: "time_Now w = (t, w1)" by force
  obtain i :: ChatID and w2 where i: "NewID w1 = (i, w2)" by force
  from assms t i db_time_Now [OF t] db_NewID [OF i] NewID_nonzero [OF i] show ?thesis
    by (auto simp: ChatCreate_defaults_def set_default_def ChatCreate_setters newChatMutation_def)
qed

lemma upsert_chat_ensures:
  "upsert_chat r d = Inr (i, d') \<Longrightarrow> ensures_chat (c_ClientID r) i d d'"
  unfolding upsert_chat_def ensures_chat_def
  by (fastforce split: option.splits sum.splits dest: find_SomeD find_NoneD)

lemma upsert_chat_error: "upsert_chat r d = Inl e \<Longrightarrow> plain_error e"
  by (auto simp: upsert_chat_def insert_chat_def split: option.splits if_splits)

lemma chatsrepo_CreateIfNotExists_cases:
  assumes "chatsrepo_CreateIfNotExists u w = (r, w')"
  shows "(\<exists>e. r = Inl e \<and> plain_error e \<and> (db w' = db w \<or> (\<exists>i. ensures_chat u i (db w) (db w')))) \<or>
    (\<exists>i. r = Inr i \<and> ensures_chat u i (db w) (db w'))"
proof -
  obtain m w1 where m: "ChatCreate_defaults (ChatCreate_SetClientID u newChatMutation, w) = (m, w1)"
    by force
  note d = ChatCreate_defaults_id [OF m]
  have spec: "c_ClientID (ChatCreate_createSpec m) = u"
    using d by (auto simp: ChatCreate_createSpec_def)
  show ?thesis
  proof (cases "ChatCreate_check m")
    case (Some e)
    with assms m d show ?thesis
      by (auto simp: chatsrepo_CreateIfNotExists_def ChatUpsertOne_ID_def)
  next
    case None
    obtain q w2 where q: "sql_exec (upsert_chat (ChatCreate_createSpec m)) w1 = (q, w2)" by force
    from assms m None q have r: "w' = w2"
      "r = (case q of Inl e \<Rightarrow> Inl (errorf_v ''failed to create chat'' e) | Inr i \<Rightarrow> Inr i)"
      by (auto simp: chatsrepo_CreateIfNotExists_def ChatUpsertOne_ID_def split: sum.splits)
    from q show ?thesis
    proof (cases rule: sql_exec_cases)
      case (ok i d')
      with upsert_chat_ensures [OF ok(1)] spec d r show ?thesis by auto
    next
      case (refused e)
      with d r show ?thesis by auto
    next
      case (failed msg)
      with d r show ?thesis by auto
    next
      case (lost msg i d')
      with upsert_chat_ensures [OF lost(1)] spec d r show ?thesis by auto
    qed
  qed
qed

lemma ensures_chat_exists: "ensures_chat u i d d' \<Longrightarrow> \<exists>c \<in> set (chats d'). c_ClientID c = u \<and> c_ID c = i"
  by (auto simp: ensures_chat_def insert_chat_def split: if_splits)

lemma ensures_chat_frame:
  "ensures_chat u i d d' \<Longrightarrow> problems d' = problems d \<and> messages d' = messages d \<and> jobs d' = jobs d
     \<and> failed_jobs d' = failed_jobs d \<and> set (chats d) \<subseteq> set (chats d')"
  by (auto simp: ensures_chat_def insert_chat_def split: if_splits)

lemma ensures_chat_wf: "ensures_chat u i d d' \<Longrightarrow> db_wf d \<Longrightarrow> db_wf d'"
  by (auto simp: ensures_chat_def intro: insert_chat_wf)

section \<open>Problems\<close>

definition ProblemQuery :: "problem_row query" where
  "ProblemQuery = new_query ''problem'' problems"

definition problemsrepo_CreateIfNotExists ::
  "ChatID \<Rightarrow> 'z store_scheme \<Rightarrow> ProblemID result \<times> 'z store_scheme" where
  "problemsrepo_CreateIfNotExists chatID w =
     (case query_First (query_Where [problem_ChatID chatID, problem_ResolvedAtIsNil] ProblemQuery) w of
        (Inr p, w) \<Rightarrow> (Inr (p_ID p), w)
      | (Inl err, w) \<Rightarrow>
          if \<not> IsNotFound err then (Inl (errorf_v ''failed to query'' err), w)
          else (case ProblemCreate_Save (ProblemCreate_SetChatID chatID newProblemMutation) w of
                  (Inl err, w) \<Rightarrow> (Inl (errorf_v ''failed to create problem'' err), w)
                | (Inr p, w) \<Rightarrow> (Inr (p_ID p), w)))"

definition problemsrepo_GetManagerOpenProblemsCount ::
  "UserID \<Rightarrow> 'z store_scheme \<Rightarrow> int result \<times> 'z store_scheme" where
  "problemsrepo_GetManagerOpenProblemsCount managerID w =
     (case query_Count (query_Where [problem_ManagerID managerID, problem_ResolvedAtIsNil] ProblemQuery) w of
        (Inl err, w) \<Rightarrow> (Inl (errorf_v (''failed to count manager'' @ [char_of (39 :: nat)] @ ''s problems'') err), w)
      | (Inr n, w) \<Rightarrow> (Inr n, w))"

definition open_problem :: "ChatID \<Rightarrow> problem_row \<Rightarrow> bool" where
  "open_problem c p \<longleftrightarrow> p_ChatID p = c \<and> p_ResolvedAt p = None"

definition ensures_problem :: "ChatID \<Rightarrow> ProblemID \<Rightarrow> database \<Rightarrow> database \<Rightarrow> bool" where
  "ensures_problem c i d d' \<longleftrightarrow>
     (d' = d \<and> (\<exists>p \<in> set (problems d). open_problem c p \<and> p_ID p = i)) \<or>
     ((\<forall>p \<in> set (problems d). \<not> open_problem c p) \<and>
      (\<exists>r. open_problem c r \<and> p_ManagerID r = None \<and> p_ID r = i \<and> insert_problem r d = Inr d'))"

lemma ProblemCreate_defaults_open:
  assumes "ProblemCreate_defaults (ProblemCreate_SetChatID c newProblemMutation, w) = (m, w')"
  shows "db w' = db w \<and> open_problem c (ProblemCreate_createSpec m)
    \<and> p_ManagerID (ProblemCreate_createSpec m) = None"
proof -
  obtain t w1 where t: "time_Now w = (t, w1)" by force
  obtain i :: ProblemID and w2 where i: "NewID w1 = (i, w2)" by force
  from assms t i db_time_Now [OF t] db_NewID [OF i] show ?thesis
    by (auto simp: ProblemCreate_defaults_def set_default_def ProblemCreate_setters
        newProblemMutation_def ProblemCreate_createSpec_def open_problem_def)
qed

lemma matching_open_problems:
  "matching (query_Where [problem_ChatID c, problem_ResolvedAtIsNil] ProblemQuery) d =
     filter (open_problem c) (problems d)"
  by (rule filter_cong [THEN trans [rotated]])
    (auto simp: matching_def ProblemQuery_def query_defs predicate_defs open_problem_def)

lemma problemsrepo_CreateIfNotExists_cases:
  assumes "problemsrepo_CreateIfNotExists c w = (r, w')"
  shows "(\<exists>e. r = Inl e \<and> plain_error e \<and> (db w' = db w \<or> (\<exists>i. ensures_problem c i (db w) (db w')))) \<or>
    (\<exists>i. r = Inr i \<and> ensures_problem c i (db w) (db w'))"
proof -
  let ?q = "query_Where [problem_ChatID c, problem_ResolvedAtIsNil] ProblemQuery"
  obtain s w1 where s: "query_First ?q w = (s, w1)" by force
  from query_First_cases [OF s, unfolded matching_open_problems]
  have d1: "db w1 = db w" and
    "(\<exists>m. s = Inl (DriverError m)) \<or>
     (filter (open_problem c) (problems (db w)) = [] \<and> s = Inl (NotFoundError (q_label ?q))) \<or>
     (\<exists>p \<in> set (problems (db w)). open_problem c p \<and> s = Inr p)"
    by auto
  then show ?thesis
  proof (elim disjE exE conjE bexE)
    fix m assume "s = Inl (DriverError m)"
    with assms s d1 show ?thesis
      by (auto simp: problemsrepo_CreateIfNotExists_def IsNotFound_def)
  next
    fix p assume "p \<in> set (problems (db w))" "open_problem c p" "s = Inr p"
    with assms s d1 show ?thesis
      by (auto simp: problemsrepo_CreateIfNotExists_def ensures_problem_def)
  next
    assume none: "filter (open_problem c) (problems (db w)) = []"
      and nf: "s = Inl (NotFoundError (q_label ?q))"
    let ?m = "ProblemCreate_SetChatID c newProblemMutation"
    obtain q w2 where q: "ProblemCreate_Save ?m w1 = (q, w2)" by force
    have r: "w' = w2 \<and>
        r = (case q of Inl e \<Rightarrow> Inl (errorf_v ''failed to create problem'' e) | Inr p \<Rightarrow> Inr (p_ID p))"
      using assms s nf q
      by (auto simp: problemsrepo_CreateIfNotExists_def IsNotFound_def split: sum.splits)
    from q obtain m' w3 where m': "ProblemCreate_defaults (?m, w1) = (m', w3)"
      and cr: "created insert_problem (ProblemCreate_createSpec m') (db w3) q (db w2)"
      by (rule ProblemCreate_Save_created)
    note op = ProblemCreate_defaults_open [OF m']
    have ens: "insert_problem (ProblemCreate_createSpec m') (db w) = Inr d' \<Longrightarrow>
        ensures_problem c (p_ID (ProblemCreate_createSpec m')) (db w) d'" for d'
      using none op by (auto simp: ensures_problem_def filter_empty_conv)
    from cr show ?thesis
      by (cases rule: createdE) (use r op ens d1 in \<open>auto\<close>)
  qed
qed

lemma ensures_problem_exists:
  "ensures_problem c i d d' \<Longrightarrow> \<exists>p \<in> set (problems d'). open_problem c p \<and> p_ID p = i"
  by (auto simp: ensures_problem_def insert_problem_def split: if_splits)

lemma ensures_problem_frame:
  "ensures_problem c i d d' \<Longrightarrow> chats d' = chats d \<and> messages d' = messages d \<and> jobs d' = jobs d
     \<and> failed_jobs d' = failed_jobs d \<and> set (problems d) \<subseteq> set (problems d')"
  by (auto simp: ensures_problem_def insert_problem_def split: if_splits)

lemma ensures_problem_wf: "ensures_problem c i d d' \<Longrightarrow> db_wf d \<Longrightarrow> db_wf d'"
  by (auto simp: ensures_problem_def intro: insert_problem_wf)

text \<open>At most one problem of a chat is open, as long as problems are made here alone.\<close>

definition one_open_problem :: "database \<Rightarrow> bool" where
  "one_open_problem d \<longleftrightarrow>
     (\<forall>c. \<forall>p \<in> set (problems d). \<forall>q \<in> set (problems d). open_problem c p \<and> open_problem c q \<longrightarrow> p = q)"

lemma ensures_problem_one_open:
  "ensures_problem c i d d' \<Longrightarrow> one_open_problem d \<Longrightarrow> one_open_problem d'"
  unfolding ensures_problem_def one_open_problem_def insert_problem_def
  by (auto split: if_splits) (auto simp: open_problem_def)

lemma problemsrepo_GetManagerOpenProblemsCount_cases:
  assumes "problemsrepo_GetManagerOpenProblemsCount u w = (r, w')"
  shows "db w' = db w \<and> ((\<exists>e. r = Inl e \<and> plain_error e) \<or>
    r = Inr (int (length (filter (\<lambda>p. p_ManagerID p = Some u \<and> p_ResolvedAt p = None) (problems (db w))))))"
proof -
  let ?q = "query_Where [problem_ManagerID u, problem_ResolvedAtIsNil] ProblemQuery"
  have m: "matching ?q d = filter (\<lambda>p. p_ManagerID p = Some u \<and> p_ResolvedAt p = None) (problems d)" for d
    by (rule filter_cong [THEN trans [rotated]])
      (auto simp: matching_def ProblemQuery_def query_defs predicate_defs)
  obtain s w1 where s: "query_Count ?q w = (s, w1)" by force
  from sql_read_cases [OF s [unfolded query_Count_def m]] s assms show ?thesis
    by (auto simp: problemsrepo_GetManagerOpenProblemsCount_def split: sum.splits)
qed

section \<open>Properties\<close>

text \<open>
  C11. A client has one chat.  When \<open>CreateIfNotExists\<close> has given a client a chat, every later call
  that succeeds gives the same chat and changes nothing, whatever was added to the store in between.
\<close>

theorem chat_created_once:
  assumes "chatsrepo_CreateIfNotExists u w = (Inr i, w1)"
    and "set (chats (db w1)) \<subseteq> set (chats (db w2))" and "db_wf (db w2)"
    and "chatsrepo_CreateIfNotExists u w2 = (Inr i', w3)"
  shows "i' = i \<and> db w3 = db w2"
proof -
  from chatsrepo_CreateIfNotExists_cases [OF assms(1)] obtain c where
    c: "c \<in> set (chats (db w2))" "c_ClientID c = u" "c_ID c = i"
    using ensures_chat_exists assms(2) by blast
  from chatsrepo_CreateIfNotExists_cases [OF assms(4)] have "ensures_chat u i' (db w2) (db w3)" by simp
  with c obtain c' where "db w3 = db w2" "c' \<in> set (chats (db w2))" "c_ClientID c' = u" "c_ID c' = i'"
    by (auto simp: ensures_chat_def)
  moreover from this c have "c' = c"
    using assms(3) by (metis db_wf_def distinct_map inj_onD)
  ultimately show ?thesis using c by simp
qed

text \<open>A client without a chat asks twice.\<close>

lemmas chat_eval = chatsrepo_CreateIfNotExists_def ChatUpsertOne_ID_def ChatCreate_defaults_def
  set_default_def ChatCreate_setters newChatMutation_def NewID_eq ChatCreate_check_def idops_defs
  upsert_chat_def insert_chat_def empty_database_def ChatCreate_createSpec_def Id_eq_zero
  uuid_NewRandom_nonzero [unfolded uuid_Nil_def] need_field_def valid_field_def gen_type_Validate quiet_simps

lemma chat_created_once_witness:
  "\<exists>i w1 w2. chatsrepo_CreateIfNotExists (Id 5) (quiet_store empty_database 7) = (Inr i, w1)
     \<and> chatsrepo_CreateIfNotExists (Id 5) w1 = (Inr i, w2) \<and> db w2 = db w1 \<and> length (chats (db w1)) = 1"
proof -
  let ?i = "Id (uuid_NewRandom 1) :: ChatID"
  let ?c = "\<lparr>c_ID = ?i, c_ClientID = Id 5, c_CreatedAt = 7\<rparr>"
  let ?w1 = "(quiet_store empty_database 7)\<lparr>rnd_pos := 1, db := empty_database\<lparr>chats := [?c]\<rparr>\<rparr>"
  have one: "chatsrepo_CreateIfNotExists (Id 5) (quiet_store empty_database 7) = (Inr ?i, ?w1)"
    by (simp add: chat_eval uuid_Nil_def)
  have two: "chatsrepo_CreateIfNotExists (Id 5) ?w1 = (Inr ?i, ?w1\<lparr>rnd_pos := 2\<rparr>)"
    by (simp add: chat_eval uuid_Nil_def)
  have "?i = ?i \<and> db (?w1\<lparr>rnd_pos := 2\<rparr>) = db ?w1"
    by (rule chat_created_once [OF one _ _ two]) (simp_all add: db_wf_def empty_database_def)
  with one two show ?thesis by auto
qed

text \<open>
  C10. A chat keeps at most one open problem.  \<open>CreateIfNotExists\<close> of a problem keeps it so on
  every branch, errors included; when it succeeds the identifier it gives is that of the chat's one
  open problem afterwards, and when the chat had an open problem already, it is that one and nothing
  changes.
\<close>

theorem problem_one_open:
  assumes "db_wf (db w)" and "one_open_problem (db w)" and "problemsrepo_CreateIfNotExists c w = (r, w')"
  shows "one_open_problem (db w') \<and>
    (\<forall>i. r = Inr i \<longrightarrow> (\<exists>p. filter (open_problem c) (problems (db w')) = [p] \<and> p_ID p = i)) \<and>
    (\<forall>i. r = Inr i \<longrightarrow> (\<exists>p \<in> set (problems (db w)). open_problem c p) \<longrightarrow> db w' = db w)"
proof -
  note cs = problemsrepo_CreateIfNotExists_cases [OF assms(3)]
  have one: "one_open_problem (db w')" and wf: "db_wf (db w')"
    using cs ensures_problem_one_open ensures_problem_wf assms(1,2) by metis+
  have "\<exists>p. filter (open_problem c) (problems (db w')) = [p] \<and> p_ID p = i" if "r = Inr i" for i
  proof -
    from that cs obtain p where p: "p \<in> set (problems (db w'))" "open_problem c p" "p_ID p = i"
      using ensures_problem_exists by blast
    with one have "filter (open_problem c) (problems (db w')) = filter (\<lambda>q. id q = id p) (problems (db w'))"
      by (intro filter_cong) (auto simp: one_open_problem_def)
    moreover have "distinct (map id (problems (db w')))"
      using wf by (simp add: db_wf_def distinct_map)
    ultimately show ?thesis using filter_single_update p by metis
  qed
  moreover have "db w' = db w" if "r = Inr i" "\<exists>p \<in> set (problems (db w)). open_problem c p" for i
    using that cs by (auto simp: ensures_problem_def)
  ultimately show ?thesis using one by blast
qed

text \<open>A chat whose only problem is resolved gets a new one.\<close>

lemma problem_one_open_witness:
  "let p = \<lparr>p_ID = Id 3, p_ChatID = Id 1, p_ManagerID = Some (Id 9), p_ResolvedAt = Some 4, p_CreatedAt = 2\<rparr>;
       d = empty_database\<lparr>chats := [\<lparr>c_ID = Id 1, c_ClientID = Id 5, c_CreatedAt = 1\<rparr>], problems := [p]\<rparr>;
       (r, w') = problemsrepo_CreateIfNotExists (Id 1) (quiet_store d 7)
   in (\<exists>i. r = Inr i) \<and> length (problems (db w')) = 2 \<and> one_open_problem (db w')"
proof -
  let ?p = "\<lparr>p_ID = Id 3, p_ChatID = Id 1, p_ManagerID = Some (Id 9), p_ResolvedAt = Some 4, p_CreatedAt = 2\<rparr>"
  let ?d = "empty_database\<lparr>chats := [\<lparr>c_ID = Id 1, c_ClientID = Id 5, c_CreatedAt = 1\<rparr>], problems := [?p]\<rparr>"
  obtain r w' where run: "problemsrepo_CreateIfNotExists (Id 1) (quiet_store ?d 7) = (r, w')" by force
  have "one_open_problem (db w')"
    by (rule conjunct1 [OF problem_one_open [OF _ _ run]])
      (simp_all add: db_wf_def one_open_problem_def open_problem_def empty_database_def)
  moreover have ne: "uuid_NewRandom 1 \<noteq> 3" by (simp add: uuid_NewRandom_def)
  then have "(\<exists>i. r = Inr i) \<and> length (problems (db w')) = 2"
    using run [symmetric] by (simp add: problemsrepo_CreateIfNotExists_def query_First_def query_defs quiet_simps
        ProblemQuery_def matching_def predicate_defs empty_database_def limit_rows_def order_rows_def
        IsNotFound_def ProblemCreate_Save_def ProblemCreate_defaults_def set_default_def
        ProblemCreate_setters newProblemMutation_def NewID_eq ProblemCreate_sqlSave_def ent_sqlSave_def
        ProblemCreate_check_def idops_defs need_field_def need_edge_def valid_field_def gen_type_Validate
        Id_eq_zero uuid_NewRandom_nonzero [unfolded uuid_Nil_def] uuid_Nil_def insert_problem_def
        ProblemCreate_createSpec_def)
  ultimately show ?thesis using run by simp
qed

end
