(* ===== verification/Managers.thy ===== *)
theory Managers
  imports World Repositories
begin

text \<open>
  The manager side: the load of a manager (\<open>internal/services/manager-load\<close>) and the two use cases
  \<open>can-receive-problems\<close> and \<open>free-hands\<close> (\<open>internal/usecases/manager\<close>).  The services call each
  other through the interfaces in their options; \<open>None\<close> is a nil interface, which \<open>Validate\<close> refuses.
\<close>

section \<open>The load of a manager\<close>

text \<open>An interface value in an option, for the tag \<open>required\<close>.\<close>

definition iface :: "'a option \<Rightarrow> gvalue" where
  "iface x = VIface (\<not> Option.is_none x)"

lemma has_value_iface [simp]: "has_value (iface x) \<longleftrightarrow> x \<noteq> None"
  by (cases x) (simp_all add: iface_def)

type_synonym 'w problems_count = "UserID \<Rightarrow> 'w \<Rightarrow> int result \<times> 'w"

record 'w managerload_Options =
  mo_maxProblemsAtTime :: int
  mo_problemsRepo :: "'w problems_count option"

record 'w managerload_Service =
  ms_maxProblemsAtTime :: int
  ms_problemsRepo :: "'w problems_count"

text \<open>\<open>NewOptions\<close>: the mandatory options, then the optional setters in their order.\<close>

definition managerload_NewOptions ::
  "int \<Rightarrow> 'w problems_count option \<Rightarrow> ('w managerload_Options \<Rightarrow> 'w managerload_Options) list \<Rightarrow> 'w managerload_Options" where
  "managerload_NewOptions n repo options =
     foldl (\<lambda>o' opt. opt o') \<lparr>mo_maxProblemsAtTime = n, mo_problemsRepo = repo\<rparr> options"

definition managerload_Options_Validate :: "'w managerload_Options \<Rightarrow> goerr option" where
  "managerload_Options_Validate o' = validate_options
     [(''maxProblemsAtTime'', VInt (mo_maxProblemsAtTime o'), [Gte 1, Lte 30]),
      (''problemsRepo'', iface (mo_problemsRepo o'), [Required])]"

definition managerload_New :: "'w managerload_Options \<Rightarrow> 'w managerload_Service result" where
  "managerload_New opts =
     (case managerload_Options_Validate opts of
        Some err \<Rightarrow> Inl (errorf_v ''failed to validate options managerload'' err)
      | None \<Rightarrow> Inr \<lparr>ms_maxProblemsAtTime = mo_maxProblemsAtTime opts, ms_problemsRepo = the (mo_problemsRepo opts)\<rparr>)"

definition managerload_CanManagerTakeProblem ::
  "'w managerload_Service \<Rightarrow> UserID \<Rightarrow> 'w \<Rightarrow> bool result \<times> 'w" where
  "managerload_CanManagerTakeProblem s managerID w =
     (case ms_problemsRepo s managerID w of
        (Inl err, w) \<Rightarrow> (Inl (errorf_v ''failed to get open problems count'' err), w)
      | (Inr n, w) \<Rightarrow> (Inr (n < ms_maxProblemsAtTime s), w))"

lemma managerload_New_ok:
  "managerload_New opts = Inr s \<Longrightarrow> 1 \<le> ms_maxProblemsAtTime s \<and> ms_maxProblemsAtTime s \<le> 30 \<and>
     mo_problemsRepo opts = Some (ms_problemsRepo s) \<and> ms_maxProblemsAtTime s = mo_maxProblemsAtTime opts"
  by (auto simp: managerload_New_def managerload_Options_Validate_def validate_options_None
      split: option.splits if_splits)

section \<open>The use cases\<close>

record manager_request =
  mr_ID :: RequestID
  mr_ManagerID :: UserID

definition canreceiveproblems_Request_Validate :: "manager_request \<Rightarrow> goerr option" where
  "canreceiveproblems_Request_Validate r =
     (case op_Validate (gen_type ''RequestID'') (mr_ID r) of
        Some err \<Rightarrow> Some (errorf_v ''failed to validate request id'' err)
      | None \<Rightarrow>
          (case op_Validate (gen_type ''UserID'') (mr_ManagerID r) of
             Some err \<Rightarrow> Some (errorf_v ''failed to validate request manager id'' err)
           | None \<Rightarrow> None))"

definition freehands_Request_Validate :: "manager_request \<Rightarrow> goerr option" where
  "freehands_Request_Validate r =
     (case op_Validate (gen_type ''RequestID'') (mr_ID r) of
        Some err \<Rightarrow> Some (errorf_v ''failed to validate request id'' err)
      | None \<Rightarrow>
          (case op_Validate (gen_type ''UserID'') (mr_ManagerID r) of
             Some err \<Rightarrow> Some (errorf_v ''failed to validate request manager id'' err)
           | None \<Rightarrow> None))"

record 'w canreceiveproblems_Options =
  co_mngPool :: "(UserID \<Rightarrow> 'w \<Rightarrow> bool result \<times> 'w) option"
  co_mngLoad :: "(UserID \<Rightarrow> 'w \<Rightarrow> bool result \<times> 'w) option"

record 'w canreceiveproblems_UseCase =
  cu_Contains :: "UserID \<Rightarrow> 'w \<Rightarrow> bool result \<times> 'w"
  cu_CanManagerTakeProblem :: "UserID \<Rightarrow> 'w \<Rightarrow> bool result \<times> 'w"

definition canreceiveproblems_NewOptions ::
  "(UserID \<Rightarrow> 'w \<Rightarrow> bool result \<times> 'w) option \<Rightarrow> (UserID \<Rightarrow> 'w \<Rightarrow> bool result \<times> 'w) option \<Rightarrow>
   ('w canreceiveproblems_Options \<Rightarrow> 'w canreceiveproblems_Options) list \<Rightarrow> 'w canreceiveproblems_Options" where
  "canreceiveproblems_NewOptions mngPool mngLoad options =
     foldl (\<lambda>o' opt. opt o') \<lparr>co_mngPool = mngPool, co_mngLoad = mngLoad\<rparr> options"

definition canreceiveproblems_Options_Validate :: "'w canreceiveproblems_Options \<Rightarrow> goerr option" where
  "canreceiveproblems_Options_Validate o' = validate_options
     [(''mngPool'', iface (co_mngPool o'), [Required]), (''mngLoad'', iface (co_mngLoad o'), [Required])]"

definition canreceiveproblems_New :: "'w canreceiveproblems_Options \<Rightarrow> 'w canreceiveproblems_UseCase result" where
  "canreceiveproblems_New opts =
     (case canreceiveproblems_Options_Validate opts of
        Some err \<Rightarrow> Inl (errorf_v ''failed to validate options canreceiveproblems'' err)
      | None \<Rightarrow> Inr \<lparr>cu_Contains = the (co_mngPool opts), cu_CanManagerTakeProblem = the (co_mngLoad opts)\<rparr>)"

definition canreceiveproblems_Handle ::
  "'w canreceiveproblems_UseCase \<Rightarrow> manager_request \<Rightarrow> 'w \<Rightarrow> bool result \<times> 'w" where
  "canreceiveproblems_Handle u req w =
     (case canreceiveproblems_Request_Validate req of
        Some err \<Rightarrow> (Inl (errorf_v ''failed to validate request'' err), w)
      | None \<Rightarrow>
          (case cu_Contains u (mr_ManagerID req) w of
             (Inl err, w) \<Rightarrow> (Inl (errorf_v ''failed to get info from manager pool'' err), w)
           | (Inr ok, w) \<Rightarrow>
               if ok then (Inr False, w)
               else (case cu_CanManagerTakeProblem u (mr_ManagerID req) w of
                       (Inl err, w) \<Rightarrow> (Inl (errorf_v ''failed to get info from manager load'' err), w)
                     | (Inr ok, w) \<Rightarrow> (Inr ok, w))))"

definition freehands_ErrManagerOverloaded :: goerr where
  "freehands_ErrManagerOverloaded = New ''freehands.ErrManagerOverloaded'' ''manager overloaded''"

record 'w freehands_Options =
  fo_mngPool :: "(UserID \<Rightarrow> 'w \<Rightarrow> unit result \<times> 'w) option"
  fo_mngLoad :: "(UserID \<Rightarrow> 'w \<Rightarrow> bool result \<times> 'w) option"

record 'w freehands_UseCase =
  fu_Put :: "UserID \<Rightarrow> 'w \<Rightarrow> unit result \<times> 'w"
  fu_CanManagerTakeProblem :: "UserID \<Rightarrow> 'w \<Rightarrow> bool result \<times> 'w"

definition freehands_NewOptions ::
  "(UserID \<Rightarrow> 'w \<Rightarrow> unit result \<times> 'w) option \<Rightarrow> (UserID \<Rightarrow> 'w \<Rightarrow> bool result \<times> 'w) option \<Rightarrow>
   ('w freehands_Options \<Rightarrow> 'w freehands_Options) list \<Rightarrow> 'w freehands_Options" where
  "freehands_NewOptions mngPool mngLoad options =
     foldl (\<lambda>o' opt. opt o') \<lparr>fo_mngPool = mngPool, fo_mngLoad = mngLoad\<rparr> options"

definition freehands_Options_Validate :: "'w freehands_Options \<Rightarrow> goerr option" where
  "freehands_Options_Validate o' = validate_options
     [(''mngPool'', iface (fo_mngPool o'), [Required]), (''mngLoad'', iface (fo_mngLoad o'), [Required])]"

definition freehands_New :: "'w freehands_Options \<Rightarrow> 'w freehands_UseCase result" where
  "freehands_New opts =
     (case freehands_Options_Validate opts of
        Some err \<Rightarrow> Inl (errorf_v ''failed to validate options freehands'' err)
      | None \<Rightarrow> Inr \<lparr>fu_Put = the (fo_mngPool opts), fu_CanManagerTakeProblem = the (fo_mngLoad opts)\<rparr>)"

definition freehands_Handle ::
  "'w freehands_UseCase \<Rightarrow> manager_request \<Rightarrow> 'w \<Rightarrow> unit result \<times> 'w" where
  "freehands_Handle u req w =
     (case freehands_Request_Validate req of
        Some err \<Rightarrow> (Inl (errorf_v ''failed to validate request'' err), w)
      | None \<Rightarrow>
          (case fu_CanManagerTakeProblem u (mr_ManagerID req) w of
             (Inl err, w) \<Rightarrow> (Inl (errorf_v ''failed to get info from manager load'' err), w)
           | (Inr can, w) \<Rightarrow>
               if \<not> can then (Inl freehands_ErrManagerOverloaded, w)
               else (case fu_Put u (mr_ManagerID req) w of
                       (Inl err, w) \<Rightarrow> (Inl (errorf_v ''failed to put manager to pool'' err), w)
                     | (Inr _, w) \<Rightarrow> (Inr (), w))))"

section \<open>As the service wires them\<close>

definition main_managerLoad :: "int \<Rightarrow> world managerload_Service result" where
  "main_managerLoad n =
     managerload_New (managerload_NewOptions n (Some problemsrepo_GetManagerOpenProblemsCount) [])"

definition main_canReceiveProblems :: "world managerload_Service \<Rightarrow> world canreceiveproblems_UseCase result" where
  "main_canReceiveProblems ml = canreceiveproblems_New
     (canreceiveproblems_NewOptions (Some world_Contains) (Some (managerload_CanManagerTakeProblem ml)) [])"

definition main_freeHands :: "world managerload_Service \<Rightarrow> world freehands_UseCase result" where
  "main_freeHands ml = freehands_New
     (freehands_NewOptions (Some world_Put) (Some (managerload_CanManagerTakeProblem ml)) [])"

definition open_problems_of :: "UserID \<Rightarrow> database \<Rightarrow> nat" where
  "open_problems_of u d = length (filter (\<lambda>p. p_ManagerID p = Some u \<and> p_ResolvedAt p = None) (problems d))"

text \<open>Counting the problems of a manager touches neither the pool nor the stream.\<close>

lemma query_Count_frame:
  "query_Count q w = (r, w') \<Longrightarrow> pool w' = pool (w :: world) \<and> stream w' = stream w \<and> db w' = db w"
  by (auto simp: query_Count_def sql_read_def statement_def next_fault_def
      split: option.splits fault.splits list.splits)

lemma count_frame:
  assumes "problemsrepo_GetManagerOpenProblemsCount u w = (r, w' :: world)"
  shows "pool w' = pool w \<and> stream w' = stream w \<and> db w' = db w"
  using assms
  by (auto simp: problemsrepo_GetManagerOpenProblemsCount_def split: prod.splits sum.splits
      dest!: query_Count_frame)

lemma CanManagerTakeProblem_cases:
  assumes "main_managerLoad n = Inr ml" and "managerload_CanManagerTakeProblem ml u w = (r, w')"
  shows "pool w' = pool w \<and> db w' = db w \<and>
    ((\<exists>e. r = Inl e \<and> \<not> errors_Is e freehands_ErrManagerOverloaded) \<or> r = Inr (int (open_problems_of u (db w)) < n))"
proof -
  have ml: "ms_problemsRepo ml = problemsrepo_GetManagerOpenProblemsCount" "ms_maxProblemsAtTime ml = n"
    using managerload_New_ok [OF assms(1) [unfolded main_managerLoad_def]]
    by (simp_all add: managerload_NewOptions_def)
  obtain s w1 where s: "problemsrepo_GetManagerOpenProblemsCount u w = (s, w1)" by force
  from problemsrepo_GetManagerOpenProblemsCount_cases [OF s] count_frame [OF s] assms(2) s ml show ?thesis
    by (auto simp: managerload_CanManagerTakeProblem_def open_problems_of_def)
qed

section \<open>Properties\<close>

lemma main_freeHands_fields:
  "main_freeHands ml = Inr u \<Longrightarrow>
     fu_Put u = world_Put \<and> fu_CanManagerTakeProblem u = managerload_CanManagerTakeProblem ml"
  by (auto simp: main_freeHands_def freehands_New_def freehands_NewOptions_def split: option.splits)

lemma main_canReceiveProblems_fields:
  "main_canReceiveProblems ml = Inr u \<Longrightarrow>
     cu_Contains u = world_Contains \<and> cu_CanManagerTakeProblem u = managerload_CanManagerTakeProblem ml"
  by (auto simp: main_canReceiveProblems_def canreceiveproblems_New_def canreceiveproblems_NewOptions_def split: option.splits)

lemma ErrManagerOverloaded_simps [simp]:
  "errors_Is freehands_ErrManagerOverloaded freehands_ErrManagerOverloaded"
  "\<not> errors_Is ErrManagerCapacityExceeded freehands_ErrManagerOverloaded"
  by (simp_all add: freehands_ErrManagerOverloaded_def ErrManagerCapacityExceeded_def)

lemma freehands_Handle_cases:
  assumes "main_managerLoad n = Inr ml" and "main_freeHands ml = Inr u" and "pool_ok (pool w)"
    and "freehands_Handle u req w = (r, w')"
  obtains (invalid) e where "r = Inl e" "\<not> errors_Is e freehands_ErrManagerOverloaded" "pool w' = pool w" "db w' = db w"
  | (busy) "r = Inl freehands_ErrManagerOverloaded" "pool w' = pool w" "db w' = db w"
      "n \<le> int (open_problems_of (mr_ManagerID req) (db w))"
  | (full) e where "r = Inl e" "\<not> errors_Is e freehands_ErrManagerOverloaded" "pool w' = pool w" "db w' = db w"
      "length (mp_queue (pool w)) = managersMax"
  | (queued) "r = Inr ()" "db w' = db w" "int (open_problems_of (mr_ManagerID req) (db w)) < n"
      "pool_ok (pool w')" "length (mp_queue (pool w)) < managersMax"
      "mp_queue (pool w') = (if mr_ManagerID req \<in> set (mp_queue (pool w)) then mp_queue (pool w)
         else mp_queue (pool w) @ [mr_ManagerID req])"
proof (cases "freehands_Request_Validate req")
  case (Some err)
  with assms(4) show ?thesis by (intro invalid) (auto simp: freehands_Handle_def)
next
  case None
  note u = main_freeHands_fields [OF assms(2)]
  obtain c w1 where c: "managerload_CanManagerTakeProblem ml (mr_ManagerID req) w = (c, w1)" by force
  note cc = CanManagerTakeProblem_cases [OF assms(1) c]
  show ?thesis
  proof (cases c)
    case (Inl e)
    with assms(4) None c u cc show ?thesis by (intro invalid) (auto simp: freehands_Handle_def)
  next
    case (Inr can)
    show ?thesis
    proof (cases can)
      case False
      with assms(4) None c u cc Inr show ?thesis by (intro busy) (auto simp: freehands_Handle_def)
    next
      case True
      obtain p s where p: "inmempool_Put (mr_ManagerID req) (pool w1) = (p, s)" by force
      from cc assms(3) have ok: "pool_ok (pool w1)" "pool w1 = pool w" "db w1 = db w"
        "int (open_problems_of (mr_ManagerID req) (db w)) < n" using True Inr by auto
      from inmem.put_cases [OF ok(1) p] show ?thesis
      proof (elim conjE disjE)
        assume "p = Inl ErrManagerCapacityExceeded" "s = pool w1" "length (mp_queue (pool w1)) = managersMax"
        with assms(4) None c u Inr True p ok show ?thesis
          by (intro full) (auto simp: freehands_Handle_def world_Put_def)
      next
        assume "pool_ok s" "p = Inr ()" "length (mp_queue (pool w1)) < managersMax" "mp_queue s =
            (if mr_ManagerID req \<in> set (mp_queue (pool w1)) then mp_queue (pool w1) else mp_queue (pool w1) @ [mr_ManagerID req])"
        with assms(4) None c u Inr True p ok show ?thesis
          by (intro queued) (auto simp: freehands_Handle_def world_Put_def)
      qed
    qed
  qed
qed

text \<open>
  Free hands: whatever fails on the way, the use case leaves the pool well-formed and the store as
  it was; a manager whom it lets in had fewer open problems than the limit, which is at most 30, and
  now waits in the pool, behind those who waited before; in every other case the pool is unchanged.
\<close>

theorem freehands_bounded:
  assumes "main_managerLoad n = Inr ml" and "main_freeHands ml = Inr u" and "pool_ok (pool w)"
    and "freehands_Handle u req w = (r, w')"
  shows "pool_ok (pool w') \<and> db w' = db w \<and>
    (if r = Inr ()
     then int (open_problems_of (mr_ManagerID req) (db w)) < n \<and> n \<le> 30 \<and>
       mr_ManagerID req \<in> set (mp_queue (pool w')) \<and>
       (mp_queue (pool w') = mp_queue (pool w) \<or> mp_queue (pool w') = mp_queue (pool w) @ [mr_ManagerID req])
     else pool w' = pool w)"
proof -
  have n: "n \<le> 30" using managerload_New_ok [OF assms(1) [unfolded main_managerLoad_def]]
    by (simp_all add: managerload_NewOptions_def)
  from assms show ?thesis
  proof (cases rule: freehands_Handle_cases)
    case queued
    with n show ?thesis by auto
  qed (use assms(3) in auto)
qed

text \<open>
  The errors of free hands: the overload error is returned exactly when the count was read and the
  manager has reached the limit, so the handler that asks for it with \<open>errors.Is\<close> answers with the code
  for an overloaded manager in that case and in no other.
\<close>

theorem freehands_overload_error:
  assumes "main_managerLoad n = Inr ml" and "main_freeHands ml = Inr u" and "pool_ok (pool w)"
    and "freehands_Handle u req w = (Inl e, w')"
  shows "(errors_Is e freehands_ErrManagerOverloaded \<longleftrightarrow> e = freehands_ErrManagerOverloaded) \<and>
    (e \<noteq> freehands_ErrManagerOverloaded \<or> n \<le> int (open_problems_of (mr_ManagerID req) (db w))) \<and>
    pool w' = pool w"
  using assms by (cases rule: freehands_Handle_cases) auto

text \<open>
  The button: a manager is told that he may ask for problems only when he is not waiting in the pool
  already and has fewer open problems than the limit; asking changes neither the pool nor the store.
\<close>

theorem canreceiveproblems_answer:
  assumes "main_managerLoad n = Inr ml" and "main_canReceiveProblems ml = Inr u"
    and "canreceiveproblems_Handle u req w = (Inr b, w')"
  shows "pool w' = pool w \<and> db w' = db w \<and>
    (b \<longleftrightarrow> mr_ManagerID req \<notin> mp_managers (pool w) \<and> int (open_problems_of (mr_ManagerID req) (db w)) < n)"
proof -
  note u = main_canReceiveProblems_fields [OF assms(2)]
  obtain c w1 where c: "managerload_CanManagerTakeProblem ml (mr_ManagerID req) w = (c, w1)" by force
  from CanManagerTakeProblem_cases [OF assms(1) c] c assms(3) u show ?thesis
    by (auto simp: canreceiveproblems_Handle_def world_Contains_def inmempool_Contains_def
        split: option.splits if_splits sum.splits)
qed

text \<open>A store where a manager has one open problem, and the use cases wired with a limit of one.\<close>

definition sample_manager_db :: database where
  "sample_manager_db = empty_database\<lparr>problems := [\<lparr>p_ID = Id 1, p_ChatID = Id 2, p_ManagerID = Some (Id 7),
     p_ResolvedAt = None, p_CreatedAt = 5\<rparr>]\<rparr>"

lemma sample_manager_count:
  "problemsrepo_GetManagerOpenProblemsCount (Id 7) (quiet_world sample_manager_db 9) =
     (Inr 1, quiet_world sample_manager_db 9)"
  "problemsrepo_GetManagerOpenProblemsCount (Id 8) (quiet_world sample_manager_db 9) =
     (Inr 0, quiet_world sample_manager_db 9)"
  by (simp_all add: problemsrepo_GetManagerOpenProblemsCount_def query_Count_def matching_def ProblemQuery_def
      query_defs predicate_defs quiet_simps sample_manager_db_def)

definition sample_load :: "world managerload_Service" where
  "sample_load = \<lparr>ms_maxProblemsAtTime = 1, ms_problemsRepo = problemsrepo_GetManagerOpenProblemsCount\<rparr>"

lemma sample_load_New: "main_managerLoad 1 = Inr sample_load"
  by (simp add: main_managerLoad_def managerload_New_def managerload_NewOptions_def managerload_Options_Validate_def validate_options_None [THEN iffD2]
      sample_load_def)

definition sample_freeHands :: "world freehands_UseCase" where
  "sample_freeHands =
     \<lparr>fu_Put = world_Put, fu_CanManagerTakeProblem = managerload_CanManagerTakeProblem sample_load\<rparr>"

lemma sample_freeHands_New: "main_freeHands sample_load = Inr sample_freeHands"
  by (simp add: main_freeHands_def freehands_New_def freehands_NewOptions_def freehands_Options_Validate_def validate_options_None [THEN iffD2]
      sample_freeHands_def)

definition sample_canReceive :: "world canreceiveproblems_UseCase" where
  "sample_canReceive =
     \<lparr>cu_Contains = world_Contains, cu_CanManagerTakeProblem = managerload_CanManagerTakeProblem sample_load\<rparr>"

lemma sample_canReceive_New: "main_canReceiveProblems sample_load = Inr sample_canReceive"
  by (simp add: main_canReceiveProblems_def canreceiveproblems_New_def canreceiveproblems_NewOptions_def canreceiveproblems_Options_Validate_def
      validate_options_None [THEN iffD2] sample_canReceive_def)

lemmas sample_manager_eval = freehands_Handle_def canreceiveproblems_Handle_def freehands_Request_Validate_def
  canreceiveproblems_Request_Validate_def gen_type_Validate uuid_Nil_def Id_eq_zero sample_freeHands_def sample_canReceive_def
  managerload_CanManagerTakeProblem_def sample_load_def sample_manager_count world_Put_def world_Contains_def
  inmempool_Put_def inmempool_Contains_def inmempool_New_def managersMax_def

lemma pool_ok_quiet: "pool_ok (pool (quiet_world d t))"
  by (simp add: pool_ok_def inmempool_New_def)

definition free_request :: manager_request where "free_request = \<lparr>mr_ID = Id 1, mr_ManagerID = Id 8\<rparr>"
definition busy_request :: manager_request where "busy_request = \<lparr>mr_ID = Id 1, mr_ManagerID = Id 7\<rparr>"

theorem freehands_bounded_witness:
  "\<exists>w'. freehands_Handle sample_freeHands free_request (quiet_world sample_manager_db 9) = (Inr (), w') \<and>
     pool_ok (pool w') \<and> Id 8 \<in> set (mp_queue (pool w'))"
proof -
  let ?w = "quiet_world sample_manager_db 9"
  obtain w' where w': "freehands_Handle sample_freeHands free_request ?w = (Inr (), w')"
    by (simp add: sample_manager_eval free_request_def)
  from freehands_bounded [OF sample_load_New sample_freeHands_New pool_ok_quiet w'] w' show ?thesis
    by (simp add: free_request_def)
qed

theorem freehands_overload_error_witness:
  "\<exists>e w'. freehands_Handle sample_freeHands busy_request (quiet_world sample_manager_db 9) = (Inl e, w') \<and>
     errors_Is e freehands_ErrManagerOverloaded \<and> pool w' = inmempool_New"
proof -
  let ?w = "quiet_world sample_manager_db 9"
  have w': "freehands_Handle sample_freeHands busy_request ?w = (Inl freehands_ErrManagerOverloaded, ?w)"
    by (simp add: sample_manager_eval busy_request_def)
  from freehands_overload_error [OF sample_load_New sample_freeHands_New pool_ok_quiet w'] w' show ?thesis
    by simp
qed

theorem canreceiveproblems_answer_witness:
  "canreceiveproblems_Handle sample_canReceive free_request (quiet_world sample_manager_db 9) =
     (Inr True, quiet_world sample_manager_db 9) \<and>
   mr_ManagerID free_request \<notin> mp_managers inmempool_New"
proof -
  have w': "canreceiveproblems_Handle sample_canReceive free_request (quiet_world sample_manager_db 9) =
      (Inr True, quiet_world sample_manager_db 9)"
    by (simp add: sample_manager_eval free_request_def)
  from canreceiveproblems_answer [OF sample_load_New sample_canReceive_New w'] w' show ?thesis by simp
qed

end
