(* ===== verification/Http.thy ===== *)
theory Http
  imports Managers Rfc3339
begin

text \<open>
  What the two HTTP servers share: optional values (\<open>pkg/pointer\<close>), errors with a code of their own
  (\<open>internal/errors\<close>), the part of \<open>echo\<close> that the handlers use, and the handler that turns every error
  into a response (\<open>internal/server-client/errhandler\<close>).
\<close>

section \<open>Optional values\<close>

text \<open>A pointer to a value is an option; the zero value of its type is an argument.\<close>

definition pointer_Indirect :: "'a \<Rightarrow> 'a option \<Rightarrow> 'a" where
  "pointer_Indirect zero ptr = (case ptr of None \<Rightarrow> zero | Some v \<Rightarrow> v)"

definition pointer_Ptr :: "'a \<Rightarrow> 'a option" where
  "pointer_Ptr v = Some v"

definition pointer_PtrWithZeroAsNil :: "'a \<Rightarrow> 'a \<Rightarrow> 'a option" where
  "pointer_PtrWithZeroAsNil zero v = (if v = zero then None else Some v)"

lemma Indirect_PtrWithZeroAsNil [simp]: "pointer_Indirect zero (pointer_PtrWithZeroAsNil zero v) = v"
  by (simp add: pointer_Indirect_def pointer_PtrWithZeroAsNil_def)

section \<open>Errors with a code\<close>

definition NewServerError :: "int \<Rightarrow> string \<Rightarrow> goerr \<Rightarrow> goerr" where
  "NewServerError code msg err = ServerError code msg err"

definition ProcessServerError :: "goerr \<Rightarrow> int \<times> string \<times> string" where
  "ProcessServerError err =
     (case errors_As_ServerError err of
        Some (c, m, e) \<Rightarrow> (c, m, errtext (ServerError c m e))
      | None \<Rightarrow>
          (case errors_As_HTTPError err of
             Some (c, m, internal) \<Rightarrow>
               (c, m, errtext (case internal of None \<Rightarrow> HTTPError c m | Some e \<Rightarrow> HTTPErrorInternal c m e))
           | None \<Rightarrow> (500, ''something went wrong'', errtext err)))"

definition GetServerErrorCode :: "goerr \<Rightarrow> int" where
  "GetServerErrorCode err = (let (code, _, _) = ProcessServerError err in code)"

lemma ServerErrorCode_simps [simp]:
  "ProcessServerError (ServerError c m e) = (c, m, m @ '': '' @ errtext e)"
  "ProcessServerError (HTTPError c m) = (c, m, ''code='' @ itoa c @ '', message='' @ m)"
  "ProcessServerError (Errorf t (Some e)) = (if errors_As_ServerError e = None \<and> errors_As_HTTPError e = None
     then (500, ''something went wrong'', t) else ProcessServerError e)"
  "ProcessServerError (Errorf t None) = (500, ''something went wrong'', t)"
  by (auto simp: ProcessServerError_def split: option.splits)

section \<open>Requests and responses\<close>

text \<open>
  \<open>echo_Context\<close> is the context of one request: the request, the values stored with \<open>Set\<close>, the error
  with which a write to the client fails, if it does, and the responses written so far, each a status
  and a JSON value.  Headers of the response are left out.
\<close>

record http_Request =
  rq_Method :: string
  rq_Path :: string
  rq_Header :: "(string \<times> string) list"
  rq_ContentLength :: int
  rq_Body :: string

record 'v echo_Context =
  ec_Request :: http_Request
  ec_store :: "string \<rightharpoonup> 'v"
  ec_broken :: "goerr option"
  ec_responses :: "(int \<times> json option) list"

definition header_Values :: "string \<Rightarrow> http_Request \<Rightarrow> string list" where
  "header_Values key r = map snd (filter (\<lambda>(k, v). k = key) (rq_Header r))"

definition header_Get :: "string \<Rightarrow> http_Request \<Rightarrow> string" where
  "header_Get key r = (case header_Values key r of [] \<Rightarrow> [] | v # _ \<Rightarrow> v)"

text \<open>\<open>JSON\<close>: the value is marshalled before anything is written.\<close>

definition eCtx_JSON :: "int \<Rightarrow> json result \<Rightarrow> 'v echo_Context \<Rightarrow> goerr option \<times> 'v echo_Context" where
  "eCtx_JSON code body c =
     (case body of
        Inl err \<Rightarrow> (Some err, c)
      | Inr j \<Rightarrow>
          (case ec_broken c of
             Some err \<Rightarrow> (Some err, c)
           | None \<Rightarrow> (None, c\<lparr>ec_responses := ec_responses c @ [(code, Some j)]\<rparr>)))"

definition eCtx_NoContent :: "int \<Rightarrow> 'v echo_Context \<Rightarrow> goerr option \<times> 'v echo_Context" where
  "eCtx_NoContent code c = (None, c\<lparr>ec_responses := ec_responses c @ [(code, None)]\<rparr>)"

text \<open>A handler returns an error or nil, or panics; it may write responses and change the world.\<close>

datatype http_outcome = Returned "goerr option" | Panicked string

type_synonym ('v, 'w) echo_HandlerFunc = "'v echo_Context \<Rightarrow> 'w \<Rightarrow> http_outcome \<times> 'v echo_Context \<times> 'w"

definition echo_ErrBadRequest :: goerr where "echo_ErrBadRequest = HTTPError 400 ''Bad Request''"
definition echo_ErrNotFound :: goerr where "echo_ErrNotFound = HTTPError 404 ''Not Found''"
definition echo_ErrRequestEntityTooLarge :: goerr where
  "echo_ErrRequestEntityTooLarge = HTTPError 413 ''Request Entity Too Large''"
definition echo_ErrUnsupportedMediaType :: goerr where
  "echo_ErrUnsupportedMediaType = HTTPError 415 ''Unsupported Media Type''"
definition echo_ErrInternalServerError :: goerr where
  "echo_ErrInternalServerError = HTTPError 500 ''Internal Server Error''"

section \<open>Reading a body\<close>

text \<open>
  \<open>json.Decoder.Decode\<close> reads the first JSON value of the body and leaves the rest; the error of a
  decoder comes beside the value as far as it was filled.
\<close>

definition json_Decode :: "'s decoder \<Rightarrow> string \<Rightarrow> 's \<Rightarrow> goerr option \<times> 's" where
  "json_Decode d body s =
     (case read_value (2 * length body + 2) body of
        None \<Rightarrow> (Some (if skip_ws body = [] then New ''io.EOF'' ''EOF'' else New ''json.SyntaxError'' ''invalid JSON''), s)
      | Some (v, _) \<Rightarrow> d v s)"

text \<open>A field of a pointer type: \<open>null\<close> resets it, any other value goes to what it points to.\<close>

definition decode_ptr :: "('s \<Rightarrow> 'a option) \<Rightarrow> ('a option \<Rightarrow> 's \<Rightarrow> 's) \<Rightarrow> 'a \<Rightarrow> 'a decoder \<Rightarrow> 's decoder" where
  "decode_ptr get put zero d v s =
     (if v = JNull then (None, put None s)
      else (case d v (pointer_Indirect zero (get s)) of (e, x) \<Rightarrow> (e, put (Some x) s)))"

text \<open>
  \<open>Bind\<close> of a POST request whose route has no parameters: an empty body is no error; other media types
  (XML and forms) are the argument \<open>other\<close>.
\<close>

definition echo_Bind ::
  "(string \<Rightarrow> string \<Rightarrow> 's \<Rightarrow> goerr option \<times> 's) \<Rightarrow> 's decoder \<Rightarrow> 'v echo_Context \<Rightarrow> 's \<Rightarrow> goerr option \<times> 's" where
  "echo_Bind other d c s =
     (let req = ec_Request c; ctype = header_Get ''Content-Type'' req
      in if rq_ContentLength req = 0 then (None, s)
         else if has_prefix ctype ''application/json'' then
           (case json_Decode d (rq_Body req) s of
              (None, s) \<Rightarrow> (None, s)
            | (Some err, s) \<Rightarrow> (Some (HTTPErrorInternal 400 (errtext err) err), s))
         else if list_ex (has_prefix ctype) [''application/xml'', ''text/xml'',
             ''application/x-www-form-urlencoded'', ''multipart/form-data''] then other ctype (rq_Body req) s
         else (Some echo_ErrUnsupportedMediaType, s))"

section \<open>The handler of errors\<close>

text \<open>The model \<open>clientv1.Error\<close> of the API and the response around it.\<close>

record api_Error =
  ae_Code :: int
  ae_Details :: "string option"
  ae_Message :: string

definition api_Error_json :: "api_Error \<Rightarrow> json" where
  "api_Error_json e = JObj ([(''code'', JNum (itoa (ae_Code e)))]
     @ (case ae_Details e of None \<Rightarrow> [] | Some d \<Rightarrow> [(''details'', JStr d)]) @ [(''message'', JStr (ae_Message e))])"

record errhandler_Response =
  er_Error :: api_Error

definition errhandler_Response_json :: "errhandler_Response \<Rightarrow> json" where
  "errhandler_Response_json r = JObj [(''error'', api_Error_json (er_Error r))]"

definition ResponseBuilder :: "int \<Rightarrow> string \<Rightarrow> string \<Rightarrow> errhandler_Response" where
  "ResponseBuilder code msg details =
     (let e = \<lparr>ae_Code = code, ae_Details = None, ae_Message = msg\<rparr>
      in \<lparr>er_Error = (if details \<noteq> [] then e\<lparr>ae_Details := Some details\<rparr> else e)\<rparr>)"

text \<open>The logger is there or not; what it is told is not modelled.\<close>

record 'r errhandler_Options =
  eo_logger :: "unit option"
  eo_productionMode :: bool
  eo_responseBuilder :: "(int \<Rightarrow> string \<Rightarrow> string \<Rightarrow> 'r) option"

record 'r errhandler_Handler =
  eh_productionMode :: bool
  eh_responseBuilder :: "int \<Rightarrow> string \<Rightarrow> string \<Rightarrow> 'r"

definition errhandler_NewOptions where
  "errhandler_NewOptions logger productionMode responseBuilder options =
     foldl (\<lambda>o' opt. opt o') (\<lparr>eo_logger = logger, eo_productionMode = productionMode,
       eo_responseBuilder = responseBuilder\<rparr> :: 'r errhandler_Options) options"

definition errhandler_Options_Validate :: "'r errhandler_Options \<Rightarrow> goerr option" where
  "errhandler_Options_Validate o' = validate_options
     [(''logger'', iface (eo_logger o'), [Required]), (''responseBuilder'', iface (eo_responseBuilder o'), [Required])]"

definition errhandler_New :: "'r errhandler_Options \<Rightarrow> 'r errhandler_Handler result" where
  "errhandler_New opts =
     (case errhandler_Options_Validate opts of
        Some err \<Rightarrow> Inl (errorf_v ''failed to validate options errhandler'' err)
      | None \<Rightarrow> Inr \<lparr>eh_productionMode = eo_productionMode opts, eh_responseBuilder = the (eo_responseBuilder opts)\<rparr>)"

text \<open>\<open>Handle\<close>; a response that cannot be written is only logged.\<close>

definition errhandler_Handle :: "('r \<Rightarrow> json) \<Rightarrow> 'r errhandler_Handler \<Rightarrow> goerr \<Rightarrow> 'v echo_Context \<Rightarrow> 'v echo_Context" where
  "errhandler_Handle marshal h err c =
     (let (statusCode, message, details) = ProcessServerError err;
          details = (if eh_productionMode h then [] else details)
      in snd (eCtx_JSON 200 (Inr (marshal (eh_responseBuilder h statusCode message details))) c))"

text \<open>As both servers build it.\<close>

definition main_errHandler :: "bool \<Rightarrow> errhandler_Response errhandler_Handler result" where
  "main_errHandler isProduction = errhandler_New (errhandler_NewOptions (Some ()) isProduction (Some ResponseBuilder) [])"

definition error_response :: "bool \<Rightarrow> goerr \<Rightarrow> json" where
  "error_response isProduction err =
     (let (code, message, details) = ProcessServerError err
      in JObj [(''error'', JObj ([(''code'', JNum (itoa code))]
           @ (if isProduction \<or> details = [] then [] else [(''details'', JStr details)]) @ [(''message'', JStr message)]))])"

lemma main_errHandler_Handle:
  "main_errHandler p = Inr h \<Longrightarrow> errhandler_Handle errhandler_Response_json h err c =
     (if ec_broken c = None then c\<lparr>ec_responses := ec_responses c @ [(200, Some (error_response p err))]\<rparr> else c)"
  by (auto simp: main_errHandler_def errhandler_New_def errhandler_NewOptions_def errhandler_Options_Validate_def
      validate_options_None [THEN iffD2] errhandler_Handle_def eCtx_JSON_def error_response_def
      errhandler_Response_json_def ResponseBuilder_def api_Error_json_def Let_def split: prod.splits option.splits)

end
