(* ===== verification/JsonEncode.thy ===== *)
theory JsonEncode
  imports ApiJson Http "HOL-Library.List_Lexorder" "HOL-Library.Char_ord"
begin

text \<open>
  The rest of \<open>encoding/json\<close> and of its helpers that the events of the clients need: values that marshal
  themselves (their text is checked and compacted), the encoder that ends a value with a line feed, fields
  that read themselves from a text, and the merge of two documents
  (\<open>vendor/github.com/oapi-codegen/runtime\<close>, \<open>vendor/github.com/apapsch/go-jsonmerge\<close>).
\<close>

section \<open>Raw messages\<close>

text \<open>
  \<open>compact\<close> with HTML escapes: white space goes, and within a string the characters that are not safe in
  HTML or JavaScript are escaped.  The flag tells whether the scanner is within a string.
\<close>

fun json_compact :: "bool \<Rightarrow> string \<Rightarrow> string" where
  "json_compact inside [] = []"
| "json_compact False (c # cs) =
     (if is_ws c then json_compact False cs else c # json_compact (c = dquote) cs)"
| "json_compact True (c # cs) =
     (if c = dquote then c # json_compact False cs
      else if c = backslash then c # take 1 cs @ json_compact True (drop 1 cs)
      else if c = CHR ''<'' \<or> c = CHR ''>'' \<or> c = CHR ''&'' then u_escape (of_char c) @ json_compact True cs
      else if is_line_separator c cs
      then u_escape (if take 1 (drop 1 cs) = [CHR 0xA8] then 0x2028 else 0x2029) @ json_compact True (drop 2 cs)
      else c # json_compact True cs)"

text \<open>A \<open>RawMessage\<close> is a slice of bytes or nil.\<close>

definition raw_MarshalJSON :: "string option \<Rightarrow> string" where
  "raw_MarshalJSON m = (case m of None \<Rightarrow> ''null'' | Some b \<Rightarrow> b)"

text \<open>\<open>Encode\<close> of a value of type \<open>t\<close> whose \<open>MarshalJSON\<close> gives the text \<open>b\<close>.\<close>

definition json_Encode :: "string \<Rightarrow> string \<Rightarrow> string result" where
  "json_Encode t b =
     (case json_Unmarshal b of
        Inl err \<Rightarrow> Inl (Errorf (''json: error calling MarshalJSON for type '' @ t @ '': '' @ errtext err) (Some err))
      | Inr _ \<Rightarrow> Inr (json_compact False b @ [CHR 0x0A]))"

text \<open>A field that reads itself from a text, such as an identifier.\<close>

definition decode_text :: "'k idops \<Rightarrow> ('k id \<Rightarrow> 's \<Rightarrow> 's) \<Rightarrow> 's decoder" where
  "decode_text ops f v s =
     (case v of
        JStr x \<Rightarrow> (case op_UnmarshalText ops x (op_Nil ops) of (i, None) \<Rightarrow> (None, f i s) | (_, Some e) \<Rightarrow> (Some e, s))
      | JNull \<Rightarrow> (None, s)
      | _ \<Rightarrow> (Some (json_type_error ''types''), s))"

lemma decode_text_id: "decode_text (gen_type n) f (id_json i) s = (None, f i s)"
  by (simp add: decode_text_def id_json_def uuid_String_def)

section \<open>Merging documents\<close>

text \<open>A map keeps the last value of a key; it is written in the order of its keys.\<close>

definition go_map :: "(string \<times> 'a) list \<Rightarrow> (string \<times> 'a) list" where
  "go_map ms = (let m = map_of (rev ms) in map (\<lambda>k. (k, the (m k))) (sorted_list_of_set (fst ` set ms)))"

fun go_any :: "json \<Rightarrow> json" where
  "go_any (JObj ms) = JObj (go_map (map (\<lambda>(k, v). (k, go_any v)) ms))"
| "go_any (JArr xs) = JArr (map go_any xs)"
| "go_any v = v"

definition mergeValue :: "((string \<times> json) list \<Rightarrow> json) \<Rightarrow> (string \<times> json) list \<Rightarrow> string \<Rightarrow> json \<Rightarrow> json" where
  "mergeValue objects patch key value =
     (case map_of patch key of
        None \<Rightarrow> value
      | Some (JObj p) \<Rightarrow> (case value of JObj _ \<Rightarrow> objects p | JArr _ \<Rightarrow> objects p | _ \<Rightarrow> JObj p)
      | Some p \<Rightarrow> (case value of JObj _ \<Rightarrow> value | _ \<Rightarrow> p))"

text \<open>\<open>mergeObjects\<close> with the object of the patch as its second argument.\<close>

fun mergeObjects :: "json \<Rightarrow> (string \<times> json) list \<Rightarrow> json"
  and merge_elems :: "json list \<Rightarrow> nat \<Rightarrow> (string \<times> json) list \<Rightarrow> json list"
  and merge_members :: "(string \<times> json) list \<Rightarrow> (string \<times> json) list \<Rightarrow> (string \<times> json) list" where
  "mergeObjects (JArr xs) = (\<lambda>patch. JArr (merge_elems xs 0 patch))"
| "mergeObjects (JObj ms) =
     (\<lambda>patch. JObj (go_map (merge_members ms patch @ filter (\<lambda>(k, v). k \<notin> fst ` set ms) patch)))"
| "mergeObjects v = (\<lambda>patch. v)"
| "merge_elems [] = (\<lambda>i patch. [])"
| "merge_elems (x # xs) =
     (\<lambda>i patch. mergeValue (mergeObjects x) patch (itoa (int i)) x # merge_elems xs (Suc i) patch)"
| "merge_members [] = (\<lambda>patch. [])"
| "merge_members ((k, v) # ms) = (\<lambda>patch. (k, mergeValue (mergeObjects v) patch k v) # merge_members ms patch)"

text \<open>
  \<open>JSONMerge\<close>; a decoder reads the first value of a text and leaves what follows, so the reader of values is
  called directly.
\<close>

definition decode_any :: "string \<Rightarrow> json result" where
  "decode_any s =
     (case read_value (2 * length s + 2) s of
        Some (v, _) \<Rightarrow> Inr (go_any v)
      | None \<Rightarrow> Inl (New ''json.SyntaxError'' ''invalid JSON''))"

definition JSONMerge :: "string option \<Rightarrow> string option \<Rightarrow> string result" where
  "JSONMerge data patch =
     (case decode_any (case data of None \<Rightarrow> ''{}'' | Some b \<Rightarrow> b) of
        Inl err \<Rightarrow> Inl (errorf_v ''error in data JSON'' err)
      | Inr d \<Rightarrow>
          (case decode_any (case patch of None \<Rightarrow> ''{}'' | Some b \<Rightarrow> b) of
             Inl err \<Rightarrow> Inl (errorf_v ''error in patch JSON'' err)
           | Inr (JObj p) \<Rightarrow> Inr (json_Marshal (mergeObjects d p))
           | Inr _ \<Rightarrow> Inr (json_Marshal d)))"

section \<open>What Marshal writes is compact\<close>

lemma rune_conts:
  assumes "rune_len c cs \<noteq> 1"
  shows "\<forall>x \<in> set (take (rune_len c cs - 1) cs). 128 \<le> (of_char x :: nat) \<and> (of_char x :: nat) \<le> 191"
    and "c = CHR 0xE2 \<Longrightarrow> rune_len c cs = 3 \<and> 2 \<le> length cs"
proof -
  let ?n = "of_char c :: nat"
  consider (two) c1 r where "cs = c1 # r" "rune_len c cs = 2" "?n \<le> 223" "in_range 128 191 c1"
    | (three) c1 c2 r where "cs = c1 # c2 # r" "rune_len c cs = 3"
        "in_range (if ?n = 224 then 160 else 128) (if ?n = 237 then 159 else 191) c1" "in_range 128 191 c2"
    | (four) c1 c2 c3 r where "cs = c1 # c2 # c3 # r" "rune_len c cs = 4" "240 \<le> ?n"
        "in_range (if ?n = 240 then 144 else 128) (if ?n = 244 then 143 else 191) c1"
        "in_range 128 191 c2" "in_range 128 191 c3"
    using assms unfolding rune_len_def Let_def by (simp split: if_splits list.splits)
  note cs = this
  show "\<forall>x \<in> set (take (rune_len c cs - 1) cs). 128 \<le> (of_char x :: nat) \<and> (of_char x :: nat) \<le> 191"
    using cs by cases (simp_all add: in_range_def split: if_splits)
  show "rune_len c cs = 3 \<and> 2 \<le> length cs" if "c = CHR 0xE2"
    using cs by cases (simp_all add: that)
qed

lemma compact_conts:
  "\<forall>x \<in> set xs. 128 \<le> (of_char x :: nat) \<and> (of_char x :: nat) \<le> 191 \<Longrightarrow>
   json_compact True (xs @ r) = xs @ json_compact True r"
proof (induction xs)
  case (Cons x xs)
  then have "x \<noteq> dquote" "x \<noteq> backslash" "x \<noteq> CHR ''<''" "x \<noteq> CHR ''>''" "x \<noteq> CHR ''&''" "x \<noteq> CHR 0xE2"
    by (auto simp: dquote_def backslash_def)
  with Cons show ?case by (simp add: is_line_separator_def)
qed simp

lemma compact_u_escape: "json_compact True (u_escape n @ r) = u_escape n @ json_compact True r"
proof -
  have h: "x \<noteq> dquote \<and> x \<noteq> backslash \<and> x \<noteq> CHR ''<'' \<and> x \<noteq> CHR ''>'' \<and> x \<noteq> CHR ''&'' \<and> x \<noteq> CHR 0xE2"
    if "x = hex_digit (d mod 16)" for x d
    using that hex_val_hex_digit [of "d mod 16"]
    by (auto simp: hex_val_def dquote_def backslash_def Let_def split: if_splits)
  have b: "backslash \<noteq> dquote" by (simp add: backslash_def dquote_def)
  show ?thesis
    using h [OF refl, of "n div 4096"] h [OF refl, of "n div 256"] h [OF refl, of "n div 16"] h [OF refl, of n] b
    by (simp add: u_escape_def is_line_separator_def)
qed

lemma compact_ascii_escape:
  assumes "of_char c < (128 :: nat)"
  shows "json_compact True (ascii_escape c @ r) = ascii_escape c @ json_compact True r"
proof (cases "c = CHR ''<'' \<or> c = CHR ''>'' \<or> c = CHR ''&''")
  case True
  then have "ascii_escape c = u_escape (of_char c)"
    by (auto simp: ascii_escape_def dquote_def backslash_def Let_def)
  then show ?thesis by (simp add: compact_u_escape)
next
  case False
  have "backslash \<noteq> dquote" "c \<noteq> CHR 0xE2" using assms by (auto simp: backslash_def dquote_def)
  with False show ?thesis
    by (auto simp: ascii_escape_def Let_def compact_u_escape is_line_separator_def)
qed

lemma compact_escape: "json_compact True (json_escape s @ dquote # r) = json_escape s @ dquote # json_compact False r"
proof (induction s rule: json_escape.induct)
  case 1
  then show ?case by simp
next
  case (2 c cs)
  show ?case
  proof (cases "of_char c < (128 :: nat)")
    case True
    with 2(1) show ?thesis by (simp add: compact_ascii_escape)
  next
    case big: False
    show ?thesis
    proof (cases "rune_len c cs = 1 \<or> is_line_separator c cs")
      case True
      then obtain n xs where e: "json_escape (c # cs) = u_escape n @ json_escape xs"
        and ih: "json_compact True (json_escape xs @ dquote # r) = json_escape xs @ dquote # json_compact False r"
        using big 2(2, 3) unfolding json_escape.simps(2) by (cases "rune_len c cs = 1") auto
      show ?thesis unfolding e append_assoc compact_u_escape ih ..
    next
      case False
      let ?k = "rune_len c cs - 1"
      let ?t = "take ?k cs"
      have rl: "rune_len c cs \<noteq> 1" using False by simp
      have e: "json_escape (c # cs) = c # ?t @ json_escape (drop ?k cs)"
        unfolding json_escape.simps(2) using big False by simp
      have nl: "\<not> is_line_separator c (?t @ json_escape (drop ?k cs) @ dquote # r)"
      proof
        assume a: "is_line_separator c (?t @ json_escape (drop ?k cs) @ dquote # r)"
        then have "c = CHR 0xE2" by (simp add: is_line_separator_def)
        with rune_conts(2) [OF rl] obtain x y z where xyz: "cs = x # y # z" and "?k = 2"
          by (cases cs; cases "tl cs") auto
        then have t: "?t = [x, y]" by simp
        have "is_line_separator c (x # y # json_escape (drop ?k cs) @ dquote # r)" using a unfolding t by simp
        then have "is_line_separator c cs" unfolding xyz by (simp add: is_line_separator_def)
        with False show False by simp
      qed
      have c: "c \<noteq> dquote" "c \<noteq> backslash" "c \<noteq> CHR ''<''" "c \<noteq> CHR ''>''" "c \<noteq> CHR ''&''"
        using big by (auto simp: dquote_def backslash_def)
      show ?thesis
        unfolding e using c nl 2(4) [OF big] False compact_conts [OF rune_conts(1) [OF rl]] by simp
    qed
  qed
qed

lemma compact_string: "json_compact False (json_string s @ r) = json_string s @ json_compact False r"
proof -
  have "\<not> is_ws dquote" by (simp add: is_ws_def dquote_def)
  then show ?thesis by (simp add: json_string_def compact_escape)
qed

lemma compact_plain:
  "\<forall>x \<in> set xs. \<not> is_ws x \<and> x \<noteq> dquote \<Longrightarrow> json_compact False (xs @ r) = xs @ json_compact False r"
  by (induction xs) auto

lemma compact_itoa: "json_compact False (itoa i @ r) = itoa i @ json_compact False r"
proof (rule compact_plain)
  have "\<not> is_ws x \<and> x \<noteq> dquote" if "is_digit x" for x
    using that by (auto simp: is_digit_def in_range_def is_ws_def dquote_def)
  then show "\<forall>x \<in> set (itoa i). \<not> is_ws x \<and> x \<noteq> dquote"
    using nat_itoa_digits [of "nat i"] nat_itoa_digits [of "nat (- i)"]
    by (auto simp: itoa_def is_ws_def dquote_def)
qed

lemma compact_Marshal:
  "json_ints v \<Longrightarrow> json_compact False (json_Marshal v @ r) = json_Marshal v @ json_compact False r"
  "\<forall>x \<in> set xs. json_ints x \<Longrightarrow> json_compact False (json_elems xs @ r) = json_elems xs @ json_compact False r"
  "\<forall>kv \<in> set ms. json_ints (snd kv) \<Longrightarrow> json_compact False (json_members ms @ r) = json_members ms @ json_compact False r"
proof (induction v and xs and ms arbitrary: r and r and r rule: json_Marshal_json_elems_json_members.induct)
  case (3 s)
  then show ?case using compact_itoa by auto
next
  case (4 s)
  then show ?case using compact_string by simp
qed (auto simp: is_ws_def dquote_def compact_string)

lemma json_Encode_Marshal:
  assumes "json_ints v"
  shows "json_Encode t (json_Marshal v) = Inr (json_Marshal v @ [CHR 0x0A])"
  using json_roundtrip [OF assms] compact_Marshal(1) [OF assms, of "[]"] by (simp add: json_Encode_def)

end
