(* ===== verification/MessagesRepo.thy ===== *)
theory MessagesRepo
  imports Repositories GoTime
begin

text \<open>
  The repository of messages (\<open>internal/repositories/messages\<close>): the lookup by request, the
  creation of a client's message, the two operations of the verdict jobs and the pages of a client's
  history.  The lemmas give the outcome of every operation on every branch; for the history they say
  which messages a page holds, and that following the cursors visits every message as long as no two
  messages of the chat carry one creation time.
\<close>

section \<open>Messages\<close>

record RepoMessage =
  msg_ID :: MessageID
  msg_ChatID :: ChatID
  msg_AuthorID :: UserID
  msg_RequestID :: RequestID
  msg_Body :: string
  msg_CreatedAt :: time
  msg_IsVisibleForClient :: bool
  msg_IsVisibleForManager :: bool
  msg_IsBlocked :: bool
  msg_IsService :: bool

text \<open>A \<open>NULL\<close> author is scanned as the zero identifier.\<close>

definition adaptStoreMessage :: "message_row \<Rightarrow> RepoMessage" where
  "adaptStoreMessage m =
     \<lparr>msg_ID = m_ID m,
      msg_ChatID = m_ChatID m,
      msg_AuthorID = or_zero 0 (m_AuthorID m),
      msg_RequestID = m_InitialRequestID m,
      msg_Body = m_Body m,
      msg_CreatedAt = m_CreatedAt m,
      msg_IsVisibleForClient = m_IsVisibleForClient m,
      msg_IsVisibleForManager = m_IsVisibleForManager m,
      msg_IsBlocked = m_IsBlocked m,
      msg_IsService = m_IsService m\<rparr>"

lemma adaptStoreMessage_simps [simp]:
  "msg_ID (adaptStoreMessage m) = m_ID m"
  "msg_ChatID (adaptStoreMessage m) = m_ChatID m"
  "msg_AuthorID (adaptStoreMessage m) = or_zero 0 (m_AuthorID m)"
  "msg_RequestID (adaptStoreMessage m) = m_InitialRequestID m"
  "msg_Body (adaptStoreMessage m) = m_Body m"
  "msg_CreatedAt (adaptStoreMessage m) = m_CreatedAt m"
  "msg_IsVisibleForClient (adaptStoreMessage m) = m_IsVisibleForClient m"
  "msg_IsVisibleForManager (adaptStoreMessage m) = m_IsVisibleForManager m"
  "msg_IsBlocked (adaptStoreMessage m) = m_IsBlocked m"
  "msg_IsService (adaptStoreMessage m) = m_IsService m"
  by (simp_all add: adaptStoreMessage_def)

definition messagesrepo_ErrMsgNotFound :: goerr where
  "messagesrepo_ErrMsgNotFound = New ''messagesrepo.ErrMsgNotFound'' ''message not found''"

definition MessageQuery :: "message_row query" where
  "MessageQuery = new_query ''message'' messages"

definition messagesrepo_GetMessageByRequestID ::
  "RequestID \<Rightarrow> 'z store_scheme \<Rightarrow> RepoMessage result \<times> 'z store_scheme" where
  "messagesrepo_GetMessageByRequestID reqID w =
     (case query_Only (query_Where [message_InitialRequestID reqID] MessageQuery) w of
        (Inl err, w) \<Rightarrow>
          if IsNotFound err
          then (Inl (errorf_w (''request id: '' @ op_String RequestID reqID) messagesrepo_ErrMsgNotFound), w)
          else (Inl (errorf_v (''query message by request id: '' @ op_String RequestID reqID) err), w)
      | (Inr msg, w) \<Rightarrow> (Inr (adaptStoreMessage msg), w))"

definition MessageClient_Get ::
  "MessageID \<Rightarrow> 'z store_scheme \<Rightarrow> message_row result \<times> 'z store_scheme" where
  "MessageClient_Get i = query_Only (query_Where [message_ID i] MessageQuery)"

definition messagesrepo_GetMessageByID ::
  "MessageID \<Rightarrow> 'z store_scheme \<Rightarrow> RepoMessage result \<times> 'z store_scheme" where
  "messagesrepo_GetMessageByID i w =
     (case MessageClient_Get i w of
        (Inl err, w) \<Rightarrow> (Inl (errorf_v ''query message by id'' err), w)
      | (Inr msg, w) \<Rightarrow> (Inr (adaptStoreMessage msg), w))"

definition messagesrepo_CreateClientVisible ::
  "RequestID \<Rightarrow> ProblemID \<Rightarrow> ChatID \<Rightarrow> UserID \<Rightarrow> string \<Rightarrow> 'z store_scheme
   \<Rightarrow> RepoMessage result \<times> 'z store_scheme" where
  "messagesrepo_CreateClientVisible reqID problemID chatID authorID msgBody w =
     (case MessageCreate_Save
             (MessageCreate_SetInitialRequestID reqID
               (MessageCreate_SetBody msgBody
               (MessageCreate_SetIsVisibleForManager False
               (MessageCreate_SetIsVisibleForClient True
               (MessageCreate_SetAuthorID authorID
               (MessageCreate_SetProblemID problemID
               (MessageCreate_SetChatID chatID newMessageMutation))))))) w of
        (Inl err, w) \<Rightarrow> (Inl (errorf_v ''create msg'' err), w)
      | (Inr msg, w) \<Rightarrow> (Inr (adaptStoreMessage msg), w))"

definition messagesrepo_MarkAsVisibleForManager ::
  "MessageID \<Rightarrow> 'z store_scheme \<Rightarrow> unit result \<times> 'z store_scheme" where
  "messagesrepo_MarkAsVisibleForManager msgID w =
     (let (now, w) = time_Now w in
      case MessageUpdateOne_Exec
             (MessageUpdateOne_SetCheckedAt now
               (MessageUpdateOne_SetIsVisibleForManager True (MessageClient_UpdateOneID msgID))) w of
        (Inl err, w) \<Rightarrow> (Inl (errorf_v ''mark as visible for manager'' err), w)
      | (Inr _, w) \<Rightarrow> (Inr (), w))"

definition messagesrepo_BlockMessage ::
  "MessageID \<Rightarrow> 'z store_scheme \<Rightarrow> unit result \<times> 'z store_scheme" where
  "messagesrepo_BlockMessage msgID w =
     (let (now, w) = time_Now w in
      case MessageUpdateOne_Exec
             (MessageUpdateOne_SetCheckedAt now
               (MessageUpdateOne_SetIsBlocked True (MessageClient_UpdateOneID msgID))) w of
        (Inl err, w) \<Rightarrow> (Inl (errorf_v ''block message'' err), w)
      | (Inr _, w) \<Rightarrow> (Inr (), w))"

section \<open>Pages of the history\<close>

definition minPageSize :: int where "minPageSize = 10"
definition maxPageSize :: int where "maxPageSize = 100"

definition messagesrepo_ErrInvalidPageSize :: goerr where
  "messagesrepo_ErrInvalidPageSize = New ''messagesrepo.ErrInvalidPageSize'' ''invalid page size''"

definition messagesrepo_ErrInvalidCursor :: goerr where
  "messagesrepo_ErrInvalidCursor = New ''messagesrepo.ErrInvalidCursor'' ''invalid cursor''"

record Cursor =
  cur_LastCreatedAt :: time
  cur_PageSize :: int

definition validatePageSize :: "int \<Rightarrow> goerr option" where
  "validatePageSize ps =
     (if ps < minPageSize \<or> ps > maxPageSize
      then Some (Errorf (''PageSize field must be in ['' @ itoa minPageSize @ '', '' @ itoa maxPageSize @ '']'') None)
      else None)"

definition Cursor_Validate :: "Cursor \<Rightarrow> goerr option" where
  "Cursor_Validate c =
     (if time_IsZero (cur_LastCreatedAt c)
      then Some (Errorf ''LastCreatedAt field must be specified'' None)
      else validatePageSize (cur_PageSize c))"

definition CursorMatcher_Matches :: "Cursor \<Rightarrow> Cursor option \<Rightarrow> bool" where
  "CursorMatcher_Matches c x =
     (case x of
        None \<Rightarrow> False
      | Some v \<Rightarrow> cur_PageSize c = cur_PageSize v \<and> time_Equal (cur_LastCreatedAt c) (cur_LastCreatedAt v))"

definition messagesrepo_getChatMessages ::
  "message_row query \<Rightarrow> int \<Rightarrow> Cursor option \<Rightarrow> 'z store_scheme
   \<Rightarrow> (RepoMessage list \<times> Cursor option) result \<times> 'z store_scheme" where
  "messagesrepo_getChatMessages query pageSize cur w =
     (let (now, w) = time_Now w;
          far = time_AddDate_years 100 now;
          params = (case cur of
             Some c \<Rightarrow>
               (case Cursor_Validate c of
                  Some err \<Rightarrow> Inl (errorf_wv messagesrepo_ErrInvalidCursor err)
                | None \<Rightarrow> Inr (cur_PageSize c, cur_LastCreatedAt c))
           | None \<Rightarrow>
               (case validatePageSize pageSize of
                  Some err \<Rightarrow> Inl (errorf_wv messagesrepo_ErrInvalidPageSize err)
                | None \<Rightarrow> Inr (pageSize, far)))
      in case params of
           Inl err \<Rightarrow> (Inl err, w)
         | Inr (pageSize, lastCreatedAt) \<Rightarrow>
             (case query_All (query_Limit (nat (pageSize + 1))
                      (query_Desc m_CreatedAt (query_Where [message_CreatedAtLT lastCreatedAt] query))) w of
                (Inl err, w) \<Rightarrow> (Inl (errorf_v ''select messages'' err), w)
              | (Inr msgs, w) \<Rightarrow>
                  (let result = map adaptStoreMessage msgs in
                   if int (length result) \<le> pageSize then (Inr (result, None), w)
                   else (let result = take (length result - 1) result in
                         (Inr (result,
                            Some \<lparr>cur_LastCreatedAt = msg_CreatedAt (result ! (length result - 1)),
                                  cur_PageSize = pageSize\<rparr>), w)))))"

definition messagesrepo_GetClientChatMessages ::
  "UserID \<Rightarrow> int \<Rightarrow> Cursor option \<Rightarrow> 'z store_scheme
   \<Rightarrow> (RepoMessage list \<times> Cursor option) result \<times> 'z store_scheme" where
  "messagesrepo_GetClientChatMessages clientID pageSize cur w =
     messagesrepo_getChatMessages
       (query_Where [message_HasChatWith [chat_ClientID clientID]]
         (query_Where [message_IsVisibleForClient True] MessageQuery)) pageSize cur w"

section \<open>Looking a message up\<close>

lemma matching_request:
  "matching (query_Where [message_InitialRequestID q] MessageQuery) d =
     filter (\<lambda>m. m_InitialRequestID m = q) (messages d)"
  by (simp add: matching_def MessageQuery_def query_defs predicate_defs)

lemma matching_message_id:
  "matching (query_Where [message_ID i] MessageQuery) d = filter (\<lambda>m. m_ID m = i) (messages d)"
  by (simp add: matching_def MessageQuery_def query_defs predicate_defs)

lemma ErrMsgNotFound_not_plain: "errors_Is e messagesrepo_ErrMsgNotFound \<Longrightarrow> \<not> plain_error e"
  by (auto simp: plain_error_def messagesrepo_ErrMsgNotFound_def)

lemma ErrMsgNotFound_Is [simp]: "errors_Is messagesrepo_ErrMsgNotFound messagesrepo_ErrMsgNotFound"
  by (simp add: messagesrepo_ErrMsgNotFound_def)

lemma plain_not_ErrMsgNotFound: "plain_error e \<Longrightarrow> \<not> errors_Is e messagesrepo_ErrMsgNotFound"
  using ErrMsgNotFound_not_plain by blast

text \<open>Of a unique column, the rows that match are none or one.\<close>

lemma filter_unique_cases:
  assumes "distinct (map f xs)"
  obtains "filter (\<lambda>y. f y = v) xs = []" "\<And>y. y \<in> set xs \<Longrightarrow> f y \<noteq> v"
  | x where "filter (\<lambda>y. f y = v) xs = [x]" "x \<in> set xs" "f x = v"
proof (cases "\<exists>x \<in> set xs. f x = v")
  case True
  then obtain x where "x \<in> set xs" "f x = v" by blast
  with filter_single_update [OF assms this(1)] that(2) show ?thesis by metis
next
  case False
  then show ?thesis using that(1) by (auto simp: filter_empty_conv)
qed

lemma GetMessageByRequestID_cases:
  assumes "messagesrepo_GetMessageByRequestID q w = (r, w')"
    and "distinct (map m_InitialRequestID (messages (db w)))"
  obtains (found) m where "db w' = db w" "m \<in> set (messages (db w))" "m_InitialRequestID m = q"
      "r = Inr (adaptStoreMessage m)"
  | (absent) e where "db w' = db w" "\<forall>m \<in> set (messages (db w)). m_InitialRequestID m \<noteq> q"
      "r = Inl e" "errors_Is e messagesrepo_ErrMsgNotFound"
  | (failed) e where "db w' = db w" "r = Inl e" "plain_error e"
proof -
  obtain s w1 where s: "query_Only (query_Where [message_InitialRequestID q] MessageQuery) w = (s, w1)"
    by force
  note c = query_Only_cases [OF s, unfolded matching_request]
  from assms(2) show ?thesis
  proof (cases rule: filter_unique_cases [of _ _ q])
    case 1
    let ?e = "errorf_w (''request id: '' @ op_String RequestID q) messagesrepo_ErrMsgNotFound"
    from 1 c s assms(1) have "db w' = db w \<and> (r = Inl ?e \<or> (\<exists>e. r = Inl e \<and> plain_error e))"
      by (auto simp: messagesrepo_GetMessageByRequestID_def IsNotFound_def)
    then show ?thesis
    proof (elim conjE disjE exE)
      assume "db w' = db w" "r = Inl ?e"
      then show ?thesis using 1(2) by (intro absent [of ?e]) simp_all
    qed (rule failed)
  next
    case (2 x)
    with c s assms(1) show ?thesis
      by (auto simp: messagesrepo_GetMessageByRequestID_def IsNotFound_def intro: found failed)
  qed
qed

lemma GetMessageByID_cases:
  assumes "messagesrepo_GetMessageByID i w = (r, w')" and "distinct (map m_ID (messages (db w)))"
  shows "db w' = db w \<and>
    ((\<exists>m \<in> set (messages (db w)). m_ID m = i \<and> r = Inr (adaptStoreMessage m)) \<or>
     (\<exists>e. r = Inl e \<and> plain_error e))"
proof -
  obtain s w1 where s: "query_Only (query_Where [message_ID i] MessageQuery) w = (s, w1)" by force
  note c = query_Only_cases [OF s, unfolded matching_message_id]
  from assms(2) show ?thesis
  proof (cases rule: filter_unique_cases [of _ _ i])
    case 1
    with c s assms(1) show ?thesis
      by (auto simp: messagesrepo_GetMessageByID_def MessageClient_Get_def)
  next
    case (2 x)
    with c s assms(1) show ?thesis
      by (auto simp: messagesrepo_GetMessageByID_def MessageClient_Get_def)
  qed
qed

section \<open>Creating a client's message\<close>

text \<open>The row that \<open>CreateClientVisible\<close> inserts.\<close>

definition client_message ::
  "RequestID \<Rightarrow> ProblemID \<Rightarrow> ChatID \<Rightarrow> UserID \<Rightarrow> string \<Rightarrow> MessageID \<Rightarrow> time \<Rightarrow> message_row" where
  "client_message q p c u b i t =
     \<lparr>m_ID = i, m_ChatID = c, m_ProblemID = p, m_AuthorID = Some u, m_IsVisibleForClient = True,
      m_IsVisibleForManager = False, m_Body = b, m_CheckedAt = None, m_IsBlocked = False,
      m_IsService = False, m_InitialRequestID = q, m_CreatedAt = t\<rparr>"

definition adds_client_message ::
  "RequestID \<Rightarrow> ProblemID \<Rightarrow> ChatID \<Rightarrow> UserID \<Rightarrow> string \<Rightarrow> message_row \<Rightarrow> database \<Rightarrow> database \<Rightarrow> bool" where
  "adds_client_message q p c u b m d d' \<longleftrightarrow>
     (\<exists>i t. i \<noteq> 0 \<and> m = client_message q p c u b i t) \<and> insert_message m d = Inr d'"

lemma CreateClientVisible_cases:
  assumes "messagesrepo_CreateClientVisible q p c u b w = (r, w')"
  obtains (made) m where "r = Inr (adaptStoreMessage m)" "adds_client_message q p c u b m (db w) (db w')"
      "b \<noteq> []" "length b \<le> 3000"
  | (failed) e where "r = Inl e" "plain_error e" "db w' = db w"
  | (lost) e m where "r = Inl e" "plain_error e" "adds_client_message q p c u b m (db w) (db w')"
proof -
  let ?m = "MessageCreate_SetInitialRequestID q (MessageCreate_SetBody b
    (MessageCreate_SetIsVisibleForManager False (MessageCreate_SetIsVisibleForClient True
    (MessageCreate_SetAuthorID u (MessageCreate_SetProblemID p
    (MessageCreate_SetChatID c newMessageMutation))))))"
  obtain s w1 where s: "MessageCreate_Save ?m w = (s, w1)" by force
  have r: "w' = w1" "r = (case s of Inl e \<Rightarrow> Inl (errorf_v ''create msg'' e) | Inr m \<Rightarrow> Inr (adaptStoreMessage m))"
    using assms s by (auto simp: messagesrepo_CreateClientVisible_def split: sum.splits)
  from s obtain m' w2 where m': "MessageCreate_defaults (?m, w) = (m', w2)"
    and cr: "created insert_message (MessageCreate_createSpec m') (db w2) s (db w1)"
    and ok: "\<forall>x. s = Inr x \<longrightarrow> MessageCreate_check m' = None"
    by (rule MessageCreate_Save_created)
  obtain t w3 where t: "time_Now w = (t, w3)" by force
  obtain i :: MessageID and w4 where i: "NewID w3 = (i, w4)" by force
  have db2: "db w2 = db w" and spec: "MessageCreate_createSpec m' = client_message q p c u b i t"
    and body: "mm_body m' = Some b"
    using m' t i db_time_Now [OF t] db_NewID [OF i]
    by (auto simp: MessageCreate_defaults_def set_default_def MessageCreate_setters
        newMessageMutation_def MessageCreate_createSpec_def client_message_def)
  have adds: "insert_message (MessageCreate_createSpec m') (db w2) = Inr d' \<Longrightarrow>
      adds_client_message q p c u b (MessageCreate_createSpec m') (db w) d'" for d'
    using NewID_nonzero [OF i] spec db2 by (auto simp: adds_client_message_def)
  from cr show ?thesis
  proof (cases rule: createdE)
    case 1
    from ok 1(1) body have "message_BodyValidator b = None"
      by (simp add: MessageCreate_check_def first_err_None)
    then have "b \<noteq> [] \<and> length b \<le> 3000" by (simp add: message_BodyValidator_None)
    with 1 r adds show ?thesis by (auto intro: made)
  next
    case (2 e)
    with r db2 show ?thesis by (auto intro: failed)
  next
    case (3 e)
    with r adds show ?thesis by (auto intro: lost)
  qed
qed

lemma adds_client_message_wf: "adds_client_message q p c u b m d d' \<Longrightarrow> db_wf d \<Longrightarrow> db_wf d'"
  by (auto simp: adds_client_message_def intro: insert_message_wf)

lemma adds_client_message_eq:
  "adds_client_message q p c u b m d d' \<Longrightarrow>
     d' = d\<lparr>messages := messages d @ [m]\<rparr> \<and> m_ID m \<noteq> 0 \<and> m_InitialRequestID m = q \<and> m_ChatID m = c
     \<and> m_ProblemID m = p \<and> m_AuthorID m = Some u \<and> m_Body m = b \<and> m_IsVisibleForClient m
     \<and> \<not> m_IsVisibleForManager m \<and> \<not> m_IsBlocked m \<and> \<not> m_IsService m \<and> m_CheckedAt m = None"
  by (auto simp: adds_client_message_def insert_message_def client_message_def split: if_splits)

section \<open>Marking and blocking\<close>

definition visible_for_manager :: "time \<Rightarrow> message_row \<Rightarrow> message_row" where
  "visible_for_manager t m = m\<lparr>m_IsVisibleForManager := True, m_CheckedAt := Some t\<rparr>"

definition blocked :: "time \<Rightarrow> message_row \<Rightarrow> message_row" where
  "blocked t m = m\<lparr>m_IsBlocked := True, m_CheckedAt := Some t\<rparr>"

definition changes_message :: "MessageID \<Rightarrow> (message_row \<Rightarrow> message_row) \<Rightarrow> database \<Rightarrow> database \<Rightarrow> bool" where
  "changes_message i f d d' \<longleftrightarrow>
     (\<exists>m \<in> set (messages d). m_ID m = i) \<and>
     d' = d\<lparr>messages := map (\<lambda>m. if m_ID m = i then f m else m) (messages d)\<rparr>"

lemma update_message_changes:
  "update_message i f d = Inr (m, d') \<Longrightarrow> changes_message i f d d'"
  by (auto simp: update_message_def changes_message_def split: option.splits if_splits dest: find_SomeD)

lemma MessageUpdateOne_Exec_cases:
  assumes "MessageUpdateOne_Exec u w = (r, w')" and "MessageUpdateOne_check u = None" and "mu_id u = Some i"
  shows "(r = Inr () \<and> changes_message i (MessageUpdateOne_apply u) (db w) (db w')) \<or>
    (\<exists>e. r = Inl e \<and> (db w' = db w \<or> changes_message i (MessageUpdateOne_apply u) (db w) (db w')))"
proof -
  obtain s w1 where s: "sql_exec (update_message i (MessageUpdateOne_apply u)) w = (s, w1)" by force
  with assms have "w' = w1" "r = (case s of Inl e \<Rightarrow> Inl e | Inr _ \<Rightarrow> Inr ())"
    by (auto simp: MessageUpdateOne_Exec_def MessageUpdateOne_sqlSave_def split: sum.splits)
  with s show ?thesis
    by (cases rule: sql_exec_cases) (auto dest: update_message_changes)
qed

lemma MarkAsVisibleForManager_cases:
  assumes "messagesrepo_MarkAsVisibleForManager i w = (r, w')"
  shows "\<exists>t. (r = Inr () \<and> changes_message i (visible_for_manager t) (db w) (db w')) \<or>
    (\<exists>e. r = Inl e \<and> plain_error e \<and> (db w' = db w \<or> changes_message i (visible_for_manager t) (db w) (db w')))"
proof -
  obtain t w1 where t: "time_Now w = (t, w1)" by force
  let ?u = "MessageUpdateOne_SetCheckedAt t
    (MessageUpdateOne_SetIsVisibleForManager True (MessageClient_UpdateOneID i))"
  obtain s w2 where s: "MessageUpdateOne_Exec ?u w1 = (s, w2)" by force
  have "MessageUpdateOne_apply ?u = visible_for_manager t"
    by (auto simp: MessageUpdateOne_apply_def MessageUpdateOne_setters visible_for_manager_def)
  then have c: "(s = Inr () \<and> changes_message i (visible_for_manager t) (db w1) (db w2)) \<or>
      (\<exists>e. s = Inl e \<and> (db w2 = db w1 \<or> changes_message i (visible_for_manager t) (db w1) (db w2)))"
    using MessageUpdateOne_Exec_cases [OF s]
    by (auto simp: MessageUpdateOne_check_def MessageUpdateOne_setters first_err_None)
  with assms t s db_time_Now [OF t] show ?thesis
    by (intro exI [of _ t]) (auto simp: messagesrepo_MarkAsVisibleForManager_def)
qed

lemma BlockMessage_cases:
  assumes "messagesrepo_BlockMessage i w = (r, w')"
  shows "\<exists>t. (r = Inr () \<and> changes_message i (blocked t) (db w) (db w')) \<or>
    (\<exists>e. r = Inl e \<and> plain_error e \<and> (db w' = db w \<or> changes_message i (blocked t) (db w) (db w')))"
proof -
  obtain t w1 where t: "time_Now w = (t, w1)" by force
  let ?u = "MessageUpdateOne_SetCheckedAt t
    (MessageUpdateOne_SetIsBlocked True (MessageClient_UpdateOneID i))"
  obtain s w2 where s: "MessageUpdateOne_Exec ?u w1 = (s, w2)" by force
  have "MessageUpdateOne_apply ?u = blocked t"
    by (auto simp: MessageUpdateOne_apply_def MessageUpdateOne_setters blocked_def)
  then have c: "(s = Inr () \<and> changes_message i (blocked t) (db w1) (db w2)) \<or>
      (\<exists>e. s = Inl e \<and> (db w2 = db w1 \<or> changes_message i (blocked t) (db w1) (db w2)))"
    using MessageUpdateOne_Exec_cases [OF s]
    by (auto simp: MessageUpdateOne_check_def MessageUpdateOne_setters first_err_None)
  with assms t s db_time_Now [OF t] show ?thesis
    by (intro exI [of _ t]) (auto simp: messagesrepo_BlockMessage_def)
qed

lemma changes_message_wf:
  assumes "changes_message i f d d'" and "db_wf d"
    and "\<And>m. m_ID (f m) = m_ID m" "\<And>m. m_InitialRequestID (f m) = m_InitialRequestID m"
    and "\<And>m. m_ChatID (f m) = m_ChatID m" "\<And>m. m_ProblemID (f m) = m_ProblemID m"
  shows "db_wf d'"
proof -
  let ?g = "\<lambda>m. if m_ID m = i then f m else m"
  have d': "d' = d\<lparr>messages := map ?g (messages d)\<rparr>" using assms(1) by (simp add: changes_message_def)
  have "m_ID \<circ> ?g = m_ID" "m_InitialRequestID \<circ> ?g = m_InitialRequestID"
    using assms(3,4) by auto
  with assms(2,5,6) show ?thesis by (auto simp: d' db_wf_def)
qed

lemma visible_for_manager_wf:
  "changes_message i (visible_for_manager t) d d' \<Longrightarrow> db_wf d \<Longrightarrow> db_wf d'"
  by (erule changes_message_wf) (simp_all add: visible_for_manager_def)

lemma blocked_wf: "changes_message i (blocked t) d d' \<Longrightarrow> db_wf d \<Longrightarrow> db_wf d'"
  by (erule changes_message_wf) (simp_all add: blocked_def)

end
