(* ===== verification/History.thy ===== *)
theory History
  imports MessagesRepo
begin

text \<open>
  What the pages of a client's history hold (\<open>internal/repositories/messages/api_history.go\<close>).  One
  call is characterised by the abstract page of the sorted rows (\<open>page\<close>); the walk that follows the
  cursors from the first page to the last is shown to visit every message once, newest first, when no
  two messages of the history carry one creation time, and a history is exhibited in which two
  messages with one creation time make the walk skip one.
\<close>

section \<open>One page\<close>

definition client_visible :: "UserID \<Rightarrow> database \<Rightarrow> message_row \<Rightarrow> bool" where
  "client_visible u d m \<longleftrightarrow>
     m_IsVisibleForClient m \<and> (\<exists>c \<in> set (chats d). c_ID c = m_ChatID m \<and> c_ClientID c = u)"

definition history_before :: "UserID \<Rightarrow> time \<Rightarrow> database \<Rightarrow> message_row list" where
  "history_before u t d = filter (\<lambda>m. client_visible u d m \<and> m_CreatedAt m < t) (messages d)"

text \<open>The page of \<open>ps\<close> rows, and the cursor that continues it.\<close>

definition page :: "nat \<Rightarrow> message_row list \<Rightarrow> RepoMessage list \<times> Cursor option" where
  "page ps rows =
     (if length rows \<le> ps then (map adaptStoreMessage rows, None)
      else (map adaptStoreMessage (take ps rows),
            Some \<lparr>cur_LastCreatedAt = m_CreatedAt (rows ! (ps - 1)), cur_PageSize = int ps\<rparr>))"

definition newest_first :: "message_row list \<Rightarrow> bool" where
  "newest_first ms \<longleftrightarrow> sorted (map (\<lambda>m. - m_CreatedAt m) ms)"

lemma validatePageSize_None [simp]: "validatePageSize ps = None \<longleftrightarrow> 10 \<le> ps \<and> ps \<le> 100"
  by (auto simp: validatePageSize_def minPageSize_def maxPageSize_def)

lemma Cursor_Validate_None [simp]:
  "Cursor_Validate c = None \<longleftrightarrow> cur_LastCreatedAt c \<noteq> 0 \<and> 10 \<le> cur_PageSize c \<and> cur_PageSize c \<le> 100"
  by (auto simp: Cursor_Validate_def time_IsZero_def)

definition client_query :: "UserID \<Rightarrow> time \<Rightarrow> message_row query" where
  "client_query u t = query_Where [message_CreatedAtLT t]
     (query_Where [message_HasChatWith [chat_ClientID u]]
       (query_Where [message_IsVisibleForClient True] MessageQuery))"

lemma matching_client_query:
  "matching (query_Desc m_CreatedAt (client_query u t)) d = history_before u t d"
  unfolding matching_def history_before_def
  by (auto simp: client_query_def MessageQuery_def query_defs predicate_defs client_visible_def
      intro!: filter_cong)

lemma q_order_Desc: "q_order (query_Desc k q) = Some k"
  by (simp add: query_Desc_def)

lemma sort_newest_first: "newest_first (sort_key (\<lambda>m. - m_CreatedAt m) ms)"
  by (simp add: newest_first_def)

text \<open>The size and the bound of a request for a page.\<close>

definition page_params :: "int \<Rightarrow> Cursor option \<Rightarrow> time \<Rightarrow> int \<times> time" where
  "page_params ps cur now =
     (case cur of
        Some c \<Rightarrow> (cur_PageSize c, cur_LastCreatedAt c)
      | None \<Rightarrow> (ps, time_AddDate_years 100 now))"

definition page_request_ok :: "int \<Rightarrow> Cursor option \<Rightarrow> bool" where
  "page_request_ok ps cur \<longleftrightarrow>
     (case cur of Some c \<Rightarrow> Cursor_Validate c = None | None \<Rightarrow> validatePageSize ps = None)"

lemma page_params_size:
  "page_request_ok ps cur \<Longrightarrow> 10 \<le> fst (page_params ps cur now) \<and> fst (page_params ps cur now) \<le> 100"
  by (auto simp: page_request_ok_def page_params_def split: option.splits)

lemma take_page:
  assumes "10 \<le> ps"
  shows "(let result = map adaptStoreMessage (take (nat (ps + 1)) rows) in
      if int (length result) \<le> ps then (result, None)
      else (let result = take (length result - 1) result in
            (result, Some \<lparr>cur_LastCreatedAt = msg_CreatedAt (result ! (length result - 1)),
                           cur_PageSize = ps\<rparr>))) = page (nat ps) rows"
proof (cases "length rows \<le> nat ps")
  case True
  with assms show ?thesis by (simp add: page_def Let_def)
next
  case False
  then have len: "length (take (nat (ps + 1)) rows) = Suc (nat ps)" using assms by simp
  have "take (nat ps) (map adaptStoreMessage (take (nat (ps + 1)) rows)) =
      map adaptStoreMessage (take (nat ps) rows)"
    using assms by (simp add: take_map)
  with len False assms show ?thesis
    by (auto simp: page_def Let_def take_map [symmetric])
qed

lemma page_ok:
  assumes "messagesrepo_GetClientChatMessages u ps cur w = (Inr (ms, nxt), w')"
    and "page_params ps cur (fst (time_Now w)) = (sz, before)"
  shows "db w' = db w \<and> page_request_ok ps cur \<and> (\<exists>rows. newest_first rows
    \<and> mset rows = mset (history_before u before (db w)) \<and> (ms, nxt) = page (nat sz) rows)"
proof -
  obtain now w1 where now: "time_Now w = (now, w1)" by force
  then have pp: "page_params ps cur now = (sz, before)" using assms(2) by simp
  let ?q = "query_Limit (nat (sz + 1)) (query_Desc m_CreatedAt (client_query u before))"
  obtain s w2 where s: "query_All ?q w1 = (s, w2)" by force
  have ok: "page_request_ok ps cur"
    using assms(1) now
    by (auto simp: messagesrepo_GetClientChatMessages_def messagesrepo_getChatMessages_def
        page_request_ok_def Let_def split: option.splits)
  note szb = page_params_size [OF ok, of now]
  obtain msgs where msgs: "s = Inr msgs" and w': "w' = w2"
    and res: "(ms, nxt) = (let result = map adaptStoreMessage msgs in
      if int (length result) \<le> sz then (result, None)
      else (let result = take (length result - 1) result in
            (result, Some \<lparr>cur_LastCreatedAt = msg_CreatedAt (result ! (length result - 1)),
                           cur_PageSize = sz\<rparr>)))"
    using assms(1) now ok pp s
    by (cases s) (auto simp: messagesrepo_GetClientChatMessages_def messagesrepo_getChatMessages_def
        page_request_ok_def page_params_def client_query_def Let_def
        split: option.splits if_splits)
  from query_All_cases [OF s] msgs obtain rows where
    rows: "mset rows = mset (history_before u before (db w1))"
    and m: "msgs = take (nat (sz + 1)) (sort_key (\<lambda>m. - m_CreatedAt m) rows)"
    by (auto simp: matching_client_query limit_rows_def order_rows_def q_order_Desc)
  have "(ms, nxt) = page (nat sz) (sort_key (\<lambda>m. - m_CreatedAt m) rows)"
    using szb pp res unfolding m by (subst take_page [symmetric]) simp_all
  with rows ok w' query_All_cases [OF s] db_time_Now [OF now] sort_newest_first [of rows]
  show ?thesis by (metis mset_sort)
qed

text \<open>When a page cannot be had: an invalid cursor, an invalid size, or a failure of the database.\<close>

lemma page_error:
  assumes "messagesrepo_GetClientChatMessages u ps cur w = (Inl e, w')"
  shows "db w' = db w \<and>
    (if page_request_ok ps cur then plain_error e
     else if cur = None then errors_Is e messagesrepo_ErrInvalidPageSize
     else errors_Is e messagesrepo_ErrInvalidCursor)"
proof -
  obtain now w1 where now: "time_Now w = (now, w1)" by force
  obtain sz before where pp: "page_params ps cur now = (sz, before)" by force
  let ?q = "query_Limit (nat (sz + 1)) (query_Desc m_CreatedAt (client_query u before))"
  obtain s w2 where s: "query_All ?q w1 = (s, w2)" by force
  show ?thesis
  proof (cases "page_request_ok ps cur")
    case True
    with assms now pp s query_All_cases [OF s] db_time_Now [OF now] show ?thesis
      by (cases s) (auto simp: messagesrepo_GetClientChatMessages_def messagesrepo_getChatMessages_def
          page_request_ok_def page_params_def client_query_def Let_def
          simp del: Cursor_Validate_None validatePageSize_None split: option.splits if_splits)
  next
    case False
    with assms now db_time_Now [OF now] show ?thesis
      by (auto simp: messagesrepo_GetClientChatMessages_def messagesrepo_getChatMessages_def
          page_request_ok_def Let_def messagesrepo_ErrInvalidCursor_def
          messagesrepo_ErrInvalidPageSize_def split: option.splits)
  qed
qed

lemma page_served:
  assumes "faults w = []" and "page_request_ok ps cur"
  obtains ms nxt w' where "messagesrepo_GetClientChatMessages u ps cur w = (Inr (ms, nxt), w')"
    "faults w' = []" "db w' = db w"
proof -
  obtain r w' where r: "messagesrepo_GetClientChatMessages u ps cur w = (r, w')" by force
  obtain now w1 where now: "time_Now w = (now, w1)" by force
  then have f1: "faults w1 = []" using assms(1) by (auto simp: time_Now_def split: list.splits)
  have "(\<exists>x. r = Inr x) \<and> faults w' = []"
    using r now f1 assms(2)
    by (auto simp: messagesrepo_GetClientChatMessages_def messagesrepo_getChatMessages_def
        page_request_ok_def Let_def query_All_def statement_no_fault
        simp del: Cursor_Validate_None validatePageSize_None split: option.splits if_splits)
  with r page_ok [of u ps cur w] that show ?thesis by (metis prod.collapse)
qed

section \<open>Following the cursors\<close>

text \<open>
  A client that asks for the first page and then follows the cursors.  The fuel bounds the number of
  pages; \<open>None\<close> says that it did not suffice.
\<close>

fun history_walk ::
  "nat \<Rightarrow> UserID \<Rightarrow> int \<Rightarrow> Cursor option \<Rightarrow> 'z store_scheme \<Rightarrow> RepoMessage list result option \<times> 'z store_scheme" where
  "history_walk 0 u ps cur w = (None, w)"
| "history_walk (Suc n) u ps cur w =
     (case messagesrepo_GetClientChatMessages u ps cur w of
        (Inl e, w) \<Rightarrow> (Some (Inl e), w)
      | (Inr (ms, None), w) \<Rightarrow> (Some (Inr ms), w)
      | (Inr (ms, Some c), w) \<Rightarrow>
          (case history_walk n u ps (Some c) w of
             (Some (Inr rest), w) \<Rightarrow> (Some (Inr (ms @ rest)), w)
           | other \<Rightarrow> other))"

definition whole_history :: "UserID \<Rightarrow> database \<Rightarrow> message_row list" where
  "whole_history u d = sort_key (\<lambda>m. - m_CreatedAt m) (filter (client_visible u d) (messages d))"

definition distinct_times :: "UserID \<Rightarrow> database \<Rightarrow> bool" where
  "distinct_times u d \<longleftrightarrow> distinct (map m_CreatedAt (filter (client_visible u d) (messages d)))"

abbreviation strictly_newest_first :: "message_row list \<Rightarrow> bool" where
  "strictly_newest_first \<equiv> sorted_wrt (\<lambda>a b. m_CreatedAt b < m_CreatedAt a)"

lemma strictly_newest_first_iff:
  "strictly_newest_first ms \<longleftrightarrow> newest_first ms \<and> distinct (map m_CreatedAt ms)"
proof -
  have "sorted_wrt (\<lambda>a b. m_CreatedAt b < m_CreatedAt a) ms = sorted_wrt (<) (map (\<lambda>m. - m_CreatedAt m) ms)"
    by (simp add: sorted_wrt_map)
  moreover have "distinct (map (\<lambda>m. - m_CreatedAt m) ms) = distinct (map m_CreatedAt ms)"
    by (simp add: distinct_map inj_on_def)
  ultimately show ?thesis by (simp add: newest_first_def strict_sorted_iff)
qed

lemma strict_unique:
  "strictly_newest_first xs \<Longrightarrow> strictly_newest_first ys \<Longrightarrow> set xs = set ys \<Longrightarrow> xs = ys"
proof (induction xs arbitrary: ys)
  case Nil
  then show ?case by simp
next
  case (Cons x xs)
  then obtain y ys' where ys: "ys = y # ys'" by (cases ys) auto
  have "x = y"
    using Cons.prems unfolding ys by (metis list.set_intros(1) order_less_asym set_ConsD sorted_wrt.simps(2))
  moreover have "set xs = set ys'"
    using Cons.prems \<open>x = y\<close> unfolding ys by (auto simp: set_eq_iff)
  ultimately show ?case using Cons.IH Cons.prems unfolding ys by simp
qed

lemma strict_filter: "strictly_newest_first ms \<Longrightarrow> strictly_newest_first (filter P ms)"
  by (simp add: sorted_wrt_filter)

lemma strict_after:
  "strictly_newest_first ms \<Longrightarrow> k < length ms \<Longrightarrow>
     filter (\<lambda>m. m_CreatedAt m < m_CreatedAt (ms ! k)) ms = drop (Suc k) ms"
proof (induction ms arbitrary: k)
  case Nil
  then show ?case by simp
next
  case (Cons m ms)
  show ?case
  proof (cases k)
    case 0
    with Cons.prems(1) show ?thesis by (simp add: filter_id_conv)
  next
    case (Suc j)
    with Cons.prems have "ms ! j \<in> set ms" by simp
    with Cons.prems(1) have "\<not> m_CreatedAt m < m_CreatedAt (ms ! j)" by fastforce
    moreover have "filter (\<lambda>m. m_CreatedAt m < m_CreatedAt (ms ! j)) ms = drop (Suc j) ms"
      using Cons.IH [of j] Cons.prems Suc by simp
    ultimately show ?thesis using Suc by simp
  qed
qed

lemma whole_history_strict: "distinct_times u d \<Longrightarrow> strictly_newest_first (whole_history u d)"
  unfolding strictly_newest_first_iff distinct_times_def whole_history_def
  by (metis distinct_map mset_eq_imp_distinct_iff mset_map mset_sort set_sort sort_newest_first)

text \<open>With distinct times, the rows of a page are determined by its bound.\<close>

lemma page_rows_unique:
  assumes "distinct_times u d" and "newest_first rows"
    and "mset rows = mset (history_before u t d)"
  shows "rows = filter (\<lambda>m. m_CreatedAt m < t) (whole_history u d)"
proof (rule strict_unique)
  let ?v = "filter (client_visible u d) (messages d)"
  have hb: "history_before u t d = filter (\<lambda>m. m_CreatedAt m < t) ?v"
    by (simp add: history_before_def conj_commute)
  have "distinct (map m_CreatedAt (history_before u t d))"
    unfolding hb by (rule distinct_map_filter [OF assms(1) [unfolded distinct_times_def]])
  then have "distinct (map m_CreatedAt rows)"
    using assms(3) by (metis mset_eq_imp_distinct_iff mset_map)
  then show "strictly_newest_first rows" using assms(2) by (simp add: strictly_newest_first_iff)
  show "strictly_newest_first (filter (\<lambda>m. m_CreatedAt m < t) (whole_history u d))"
    by (rule strict_filter [OF whole_history_strict [OF assms(1)]])
  show "set rows = set (filter (\<lambda>m. m_CreatedAt m < t) (whole_history u d))"
    using mset_eq_setD [OF assms(3)] unfolding hb by (simp add: whole_history_def)
qed

lemma walk_from_cursor:
  assumes "faults w = []" and "db w = d" and "distinct_times u d"
    and "\<forall>m \<in> set (messages d). m_CreatedAt m \<noteq> 0"
    and "Cursor_Validate c = None"
    and "length (filter (\<lambda>m. m_CreatedAt m < cur_LastCreatedAt c) (whole_history u d)) < n"
  shows "fst (history_walk n u ps (Some c) w) =
    Some (Inr (map adaptStoreMessage (filter (\<lambda>m. m_CreatedAt m < cur_LastCreatedAt c) (whole_history u d))))"
  using assms
proof (induction n arbitrary: c w)
  case 0
  then show ?case by simp
next
  case (Suc n)
  let ?rows = "filter (\<lambda>m. m_CreatedAt m < cur_LastCreatedAt c) (whole_history u d)"
  let ?k = "nat (cur_PageSize c)"
  from Suc.prems(5) have "page_request_ok ps (Some c)" by (simp add: page_request_ok_def)
  with Suc.prems(1) obtain ms nxt w' where
    got: "messagesrepo_GetClientChatMessages u ps (Some c) w = (Inr (ms, nxt), w')"
    and w': "faults w' = []" "db w' = d"
    using page_served Suc.prems(2) by metis
  from page_ok [OF got] Suc.prems(2) obtain rows where
    "newest_first rows" "mset rows = mset (history_before u (cur_LastCreatedAt c) d)"
    "(ms, nxt) = page ?k rows"
    by (auto simp: page_params_def)
  with page_rows_unique [OF Suc.prems(3)] have pg: "(ms, nxt) = page ?k ?rows" by metis
  have k: "10 \<le> ?k" using Suc.prems(5) by (simp add: le_nat_iff)
  show ?case
  proof (cases "length ?rows \<le> ?k")
    case True
    with pg got show ?thesis by (simp add: page_def)
  next
    case False
    let ?x = "?rows ! (?k - 1)"
    let ?c = "\<lparr>cur_LastCreatedAt = m_CreatedAt ?x, cur_PageSize = cur_PageSize c\<rparr>"
    from False k have x: "?k - 1 < length ?rows" by linarith
    then have xin: "?x \<in> set ?rows" by (rule nth_mem)
    have ms: "ms = map adaptStoreMessage (take ?k ?rows)" and nxt: "nxt = Some ?c"
      using pg False k by (simp_all add: page_def)
    have "?x \<in> set (messages d)" using xin by (auto simp: whole_history_def)
    then have c': "Cursor_Validate ?c = None" using Suc.prems(4,5) by simp
    have "filter (\<lambda>m. m_CreatedAt m < m_CreatedAt ?x) (whole_history u d) =
        filter (\<lambda>m. m_CreatedAt m < m_CreatedAt ?x) ?rows"
      using xin by (auto intro!: filter_cong simp: filter_filter)
    also have "\<dots> = drop (Suc (?k - 1)) ?rows"
      by (rule strict_after [OF strict_filter [OF whole_history_strict [OF Suc.prems(3)]] x])
    finally have rest: "filter (\<lambda>m. m_CreatedAt m < cur_LastCreatedAt ?c) (whole_history u d) = drop ?k ?rows"
      using k by simp
    have "length (drop ?k ?rows) < n" using Suc.prems(6) k False by (simp only: length_drop)
    then have "fst (history_walk n u ps (Some ?c) w') = Some (Inr (map adaptStoreMessage (drop ?k ?rows)))"
      using Suc.IH [OF w' Suc.prems(3,4) c'] unfolding rest by blast
    then obtain w'' where "history_walk n u ps (Some ?c) w' =
        (Some (Inr (map adaptStoreMessage (drop ?k ?rows))), w'')"
      by (metis prod.collapse)
    then have "fst (history_walk (Suc n) u ps (Some c) w) =
        Some (Inr (ms @ map adaptStoreMessage (drop ?k ?rows)))"
      using got nxt by simp
    also have "ms @ map adaptStoreMessage (drop ?k ?rows) = map adaptStoreMessage ?rows"
      unfolding ms by (metis append_take_drop_id map_append)
    finally show ?thesis .
  qed
qed

lemma walk_from_start:
  assumes "faults w = []" and "db w = d" and "distinct_times u d"
    and "\<forall>m \<in> set (messages d). m_CreatedAt m \<noteq> 0 \<and> m_CreatedAt m \<le> clk w"
    and "10 \<le> ps" "ps \<le> 100" and "length (messages d) < n"
  shows "fst (history_walk (Suc n) u ps None w) = Some (Inr (map adaptStoreMessage (whole_history u d)))"
proof -
  let ?t = "time_AddDate_years 100 (fst (time_Now w))"
  let ?rows = "whole_history u d"
  let ?k = "nat ps"
  have "clk w \<le> fst (time_Now w)" using time_Now_mono by (metis prod.collapse)
  then have before: "\<forall>m \<in> set (messages d). m_CreatedAt m < ?t"
    using assms(4) time_AddDate_century [of "fst (time_Now w)"] by fastforce
  then have all: "filter (\<lambda>m. m_CreatedAt m < ?t) ?rows = ?rows"
    by (auto simp: filter_id_conv whole_history_def)
  from assms(5,6) have "page_request_ok ps None" by (simp add: page_request_ok_def)
  with assms(1,2) obtain ms nxt w' where
    got: "messagesrepo_GetClientChatMessages u ps None w = (Inr (ms, nxt), w')"
    and w': "faults w' = []" "db w' = d"
    using page_served by metis
  from page_ok [OF got] assms(2) obtain rows where
    "newest_first rows" "mset rows = mset (history_before u ?t d)" "(ms, nxt) = page ?k rows"
    by (auto simp: page_params_def)
  with page_rows_unique [OF assms(3)] all have pg: "(ms, nxt) = page ?k ?rows" by metis
  have k: "10 \<le> ?k" using assms(5) by (simp add: le_nat_iff)
  show ?thesis
  proof (cases "length ?rows \<le> ?k")
    case True
    with pg got show ?thesis by (simp add: page_def)
  next
    case False
    let ?x = "?rows ! (?k - 1)"
    let ?c = "\<lparr>cur_LastCreatedAt = m_CreatedAt ?x, cur_PageSize = ps\<rparr>"
    from False k have x: "?k - 1 < length ?rows" by linarith
    have ms: "ms = map adaptStoreMessage (take ?k ?rows)" and nxt: "nxt = Some ?c"
      using pg False k assms(5) by (simp_all add: page_def)
    have "?x \<in> set (messages d)" using nth_mem [OF x] by (auto simp: whole_history_def)
    then have c': "Cursor_Validate ?c = None" using assms(4,5,6) by simp
    have rest: "filter (\<lambda>m. m_CreatedAt m < cur_LastCreatedAt ?c) ?rows = drop ?k ?rows"
      using strict_after [OF whole_history_strict [OF assms(3)] x] k by simp
    have "length ?rows \<le> length (messages d)" by (simp add: whole_history_def)
    then have "length (drop ?k ?rows) < n" using assms(7) by (simp only: length_drop)
    then have "fst (history_walk n u ps (Some ?c) w') = Some (Inr (map adaptStoreMessage (drop ?k ?rows)))"
      using walk_from_cursor [OF w' assms(3) _ c', of n ps] assms(4) unfolding rest by blast
    then obtain w'' where "history_walk n u ps (Some ?c) w' =
        (Some (Inr (map adaptStoreMessage (drop ?k ?rows))), w'')"
      by (metis prod.collapse)
    then have "fst (history_walk (Suc n) u ps None w) =
        Some (Inr (ms @ map adaptStoreMessage (drop ?k ?rows)))"
      using got nxt by simp
    also have "ms @ map adaptStoreMessage (drop ?k ?rows) = map adaptStoreMessage ?rows"
      unfolding ms by (metis append_take_drop_id map_append)
    finally show ?thesis .
  qed
qed

section \<open>Properties\<close>

text \<open>
  C9. What one page of a client's history holds.  A page that is served was asked for with an
  admissible size or cursor; it holds at most as many messages as the size, newest first, each of
  them visible to this client in a chat of this client and older than the bound of the request.  If a
  cursor comes with it, the page is full, the cursor repeats the size and marks the last message of
  the page, and every message of the history above the mark is on the page; if none comes, every
  message below the bound is on the page.  Reading changes nothing.
\<close>

theorem history_page:
  assumes "messagesrepo_GetClientChatMessages u ps cur w = (Inr (ms, nxt), w')"
    and "page_params ps cur (fst (time_Now w)) = (sz, before)"
  shows "db w' = db w \<and> page_request_ok ps cur \<and> int (length ms) \<le> sz \<and>
    sorted (map (\<lambda>m. - msg_CreatedAt m) ms) \<and>
    (\<forall>m \<in> set ms. \<exists>row \<in> set (messages (db w)).
       m = adaptStoreMessage row \<and> client_visible u (db w) row \<and> m_CreatedAt row < before) \<and>
    (\<forall>c. nxt = Some c \<longrightarrow> int (length ms) = sz \<and> cur_PageSize c = sz \<and>
       cur_LastCreatedAt c = msg_CreatedAt (last ms)) \<and>
    (\<forall>row \<in> set (messages (db w)). client_visible u (db w) row \<and> m_CreatedAt row < before \<and>
       (\<forall>c. nxt = Some c \<longrightarrow> cur_LastCreatedAt c < m_CreatedAt row) \<longrightarrow> adaptStoreMessage row \<in> set ms)"
proof -
  from page_ok [OF assms] obtain rows where ok: "db w' = db w" "page_request_ok ps cur"
    and rows: "newest_first rows" "mset rows = mset (history_before u before (db w))"
    and pg: "(ms, nxt) = page (nat sz) rows" by blast
  have sz: "10 \<le> sz" using page_params_size [OF ok(2), of "fst (time_Now w)"] assms(2) by simp
  have set_rows: "set rows = set (history_before u before (db w))" using rows(2) by (rule mset_eq_setD)
  have srt: "sorted (map (\<lambda>m. - msg_CreatedAt m) (map adaptStoreMessage (take n rows)))" for n
    using rows(1) sorted_wrt_take [of "(\<le>)" "map (\<lambda>m. - m_CreatedAt m) rows" n]
    by (simp add: newest_first_def take_map comp_def)
  show ?thesis
  proof (cases "length rows \<le> nat sz")
    case True
    with pg have ms: "ms = map adaptStoreMessage rows" "nxt = None" by (simp_all add: page_def)
    with ok srt [of "length rows"] True sz show ?thesis
      by (auto simp: set_rows history_before_def)
  next
    case False
    let ?k = "nat sz" and ?x = "rows ! (nat sz - 1)"
    from False pg sz have ms: "ms = map adaptStoreMessage (take ?k rows)"
      and nxt: "nxt = Some \<lparr>cur_LastCreatedAt = m_CreatedAt ?x, cur_PageSize = sz\<rparr>"
      by (simp_all add: page_def)
    have k: "?k - 1 < length rows" "0 < ?k" using False sz by auto
    have len: "length ms = ?k" using False by (simp add: ms)
    have "last ms = adaptStoreMessage ?x"
      using k take_Suc_conv_app_nth [OF k(1)] by (simp add: ms)
    moreover have "row \<in> set (take ?k rows)" if "row \<in> set rows" "m_CreatedAt ?x < m_CreatedAt row" for row
    proof (rule ccontr)
      assume "row \<notin> set (take ?k rows)"
      with that(1) have "row \<in> set (drop ?k rows)" by (metis Un_iff append_take_drop_id set_append)
      then obtain i where i: "i < length (drop ?k rows)" "drop ?k rows ! i = row" by (metis in_set_conv_nth)
      then have "rows ! (?k + i) = row" "?k + i < length rows" by simp_all
      with rows(1) k have "m_CreatedAt row \<le> m_CreatedAt ?x"
        unfolding newest_first_def by (fastforce simp: sorted_iff_nth_mono)
      with that(2) show False by simp
    qed
    moreover have "set (take ?k rows) \<subseteq> set rows" by (rule set_take_subset)
    ultimately show ?thesis
      using ok len sz ms nxt srt [of ?k] set_rows by (fastforce simp: history_before_def)
  qed
qed

text \<open>
  C6. Following the cursors from the first page visits the whole history once, newest first: with no
  fault of the database and no two visible messages of one creation time, the walk ends and its
  messages are exactly those of the client's chat that the client may see.
\<close>

theorem history_walk_complete:
  assumes "faults w = []" and "distinct_times u (db w)"
    and "\<forall>m \<in> set (messages (db w)). m_CreatedAt m \<noteq> 0 \<and> m_CreatedAt m \<le> clk w"
    and "10 \<le> ps" and "ps \<le> 100" and "length (messages (db w)) < n"
  shows "fst (history_walk (Suc n) u ps None w) = Some (Inr (map adaptStoreMessage (whole_history u (db w))))"
  by (rule walk_from_start [OF assms(1) refl assms(2-6)])

text \<open>Eleven messages of a client, one per second of the clock's range, read in pages of ten.\<close>

abbreviation sample_client :: UserID where "sample_client \<equiv> Id 5"

definition sample_messages :: "time list \<Rightarrow> database" where
  "sample_messages ts = empty_database\<lparr>
     chats := [\<lparr>c_ID = Id 1, c_ClientID = sample_client, c_CreatedAt = 1\<rparr>],
     problems := [\<lparr>p_ID = Id 2, p_ChatID = Id 1, p_ManagerID = None, p_ResolvedAt = None, p_CreatedAt = 1\<rparr>],
     messages := map (\<lambda>(i, t). client_message (Id (of_nat (Suc i))) (Id 2) (Id 1) sample_client ''hi''
       (Id (of_nat (Suc i))) t) (enumerate 0 ts)\<rparr>"

lemma sample_visible:
  "m \<in> set (messages (sample_messages ts)) \<Longrightarrow> client_visible sample_client (sample_messages ts) m"
  by (auto simp: sample_messages_def client_visible_def client_message_def)

lemma sample_filter [simp]:
  "filter (client_visible sample_client (sample_messages ts)) (messages (sample_messages ts)) =
     messages (sample_messages ts)"
  by (simp add: filter_id_conv sample_visible)

lemma sample_times: "map m_CreatedAt (messages (sample_messages ts)) = ts"
proof -
  have "m_CreatedAt \<circ> (\<lambda>(i, t). client_message (Id (of_nat (Suc i))) (Id 2) (Id 1) sample_client ''hi''
      (Id (of_nat (Suc i))) t) = snd" by (auto simp: client_message_def)
  then show ?thesis by (simp add: sample_messages_def)
qed

lemma sample_length: "length (messages (sample_messages ts)) = length ts"
  by (simp add: sample_messages_def)

lemma history_walk_complete_witness:
  "let w = quiet_store (sample_messages [1..11]) 100
   in fst (history_walk 13 sample_client 10 None w) =
        Some (Inr (map adaptStoreMessage (whole_history sample_client (db w))))
      \<and> length (whole_history sample_client (db w)) = 11"
proof -
  let ?d = "sample_messages [1..11]"
  have "\<forall>m \<in> set (messages ?d). m_CreatedAt m \<in> set [1..11]"
    using sample_times [of "[1..11]"] by (metis imageI set_map)
  then have times: "\<forall>m \<in> set (messages ?d). m_CreatedAt m \<noteq> 0 \<and> m_CreatedAt m \<le> 100" by force
  have "fst (history_walk (Suc 12) sample_client 10 None (quiet_store ?d 100)) =
      Some (Inr (map adaptStoreMessage (whole_history sample_client (db (quiet_store ?d 100)))))"
    by (rule history_walk_complete)
      (use times in \<open>simp_all add: distinct_times_def sample_times sample_length\<close>)
  then show ?thesis by (simp add: whole_history_def sample_length)
qed

text \<open>
  C12. The mark of a cursor is a creation time alone, so messages of one creation time that do not
  fit on a page are never shown: if all messages of a history carry the time \<open>t\<close> and they are more
  than a page, the walk ends after one page of them.
\<close>

theorem history_walk_skips_ties:
  assumes "faults w = []" and "\<forall>m \<in> set (messages (db w)). client_visible u (db w) m \<longrightarrow> m_CreatedAt m = t"
    and "t \<noteq> 0" and "t \<le> clk w" and "10 \<le> ps" and "ps \<le> 100"
    and "ps < int (length (whole_history u (db w)))"
  shows "\<exists>ms. fst (history_walk 2 u ps None w) = Some (Inr ms) \<and> int (length ms) = ps"
proof -
  let ?d = "db w" and ?t = "time_AddDate_years 100 (fst (time_Now w))"
  have "clk w \<le> fst (time_Now w)" using time_Now_mono by (metis prod.collapse)
  then have far: "t < ?t" using assms(4) time_AddDate_century [of "fst (time_Now w)"] by simp
  from assms(5,6) have "page_request_ok ps None" by (simp add: page_request_ok_def)
  with assms(1) obtain ms nxt w1 where
    got: "messagesrepo_GetClientChatMessages u ps None w = (Inr (ms, nxt), w1)"
    and w1: "faults w1 = []" "db w1 = ?d" using page_served by metis
  from page_ok [OF got] obtain rows where
    rows: "mset rows = mset (history_before u ?t ?d)" and pg: "(ms, nxt) = page (nat ps) rows"
    by (auto simp: page_params_def)
  have hb: "history_before u ?t ?d = filter (client_visible u ?d) (messages ?d)"
    unfolding history_before_def by (rule filter_cong) (use assms(2) far in auto)
  have len: "length rows = length (whole_history u ?d)"
    using rows hb by (metis whole_history_def length_sort size_mset)
  then have more: "\<not> length rows \<le> nat ps" using assms(5,7) by linarith
  have "set rows = set (history_before u ?t ?d)" using rows by (rule mset_eq_setD)
  moreover have "rows ! (nat ps - 1) \<in> set rows" using more assms(5) by (intro nth_mem) simp
  ultimately have "m_CreatedAt (rows ! (nat ps - 1)) = t" using assms(2) by (auto simp: history_before_def)
  then have ms: "int (length ms) = ps" and nxt: "nxt = Some \<lparr>cur_LastCreatedAt = t, cur_PageSize = ps\<rparr>"
    using pg more assms(5) by (simp_all add: page_def)
  let ?c = "\<lparr>cur_LastCreatedAt = t, cur_PageSize = ps\<rparr>"
  have "page_request_ok ps (Some ?c)" using assms(3,5,6) by (simp add: page_request_ok_def)
  with w1 obtain ms2 nxt2 w2 where
    got2: "messagesrepo_GetClientChatMessages u ps (Some ?c) w1 = (Inr (ms2, nxt2), w2)"
    using page_served by metis
  have "history_before u t ?d = []" using assms(2) by (auto simp: history_before_def filter_empty_conv)
  with page_ok [OF got2] w1 have "(ms2, nxt2) = page (nat ps) []" by (auto simp: page_params_def)
  then have "ms2 = []" "nxt2 = None" by (simp_all add: page_def)
  with got got2 nxt ms show ?thesis by (simp add: numeral_2_eq_2)
qed

lemma history_walk_skips_ties_witness:
  "let w = quiet_store (sample_messages (replicate 11 7)) 100
   in (\<exists>ms. fst (history_walk 2 sample_client 10 None w) = Some (Inr ms) \<and> int (length ms) = 10)
      \<and> length (whole_history sample_client (db w)) = 11"
proof -
  let ?d = "sample_messages (replicate 11 7)"
  have "\<forall>m \<in> set (messages ?d). m_CreatedAt m \<in> set (replicate 11 7)"
    using sample_times [of "replicate 11 7"] by (metis imageI set_map)
  then have "\<exists>ms. fst (history_walk 2 sample_client 10 None (quiet_store ?d 100)) = Some (Inr ms)
      \<and> int (length ms) = 10"
    by (intro history_walk_skips_ties [where t = 7])
      (auto simp: whole_history_def sample_length)
  then show ?thesis by (simp add: whole_history_def sample_length)
qed

text \<open>A first page of ten of the eleven messages.\<close>

lemma history_page_witness:
  "\<exists>ms c w'. messagesrepo_GetClientChatMessages sample_client 10 None
       (quiet_store (sample_messages [1..11]) 100) = (Inr (ms, Some c), w')
     \<and> length ms = 10 \<and> sorted (map (\<lambda>m. - msg_CreatedAt m) ms)"
proof -
  let ?w = "quiet_store (sample_messages [1..11]) 100"
  have ok: "page_request_ok 10 None" by (simp add: page_request_ok_def)
  have f: "faults ?w = []" by simp
  obtain ms nxt w' where got: "messagesrepo_GetClientChatMessages sample_client 10 None ?w = (Inr (ms, nxt), w')"
    using page_served [OF f ok] by metis
  have pp: "page_params 10 None (fst (time_Now ?w)) = (10, time_AddDate_years 100 100)"
    by (simp add: page_params_def quiet_simps)
  note hp = history_page [OF got pp]
  have times: "\<forall>m \<in> set (messages (sample_messages [1..11])). m_CreatedAt m \<in> set [1..11]"
    using sample_times [of "[1..11]"] by (metis imageI set_map)
  from page_ok [OF got pp] obtain rows where
    rows: "mset rows = mset (history_before sample_client (time_AddDate_years 100 100) (sample_messages [1..11]))"
    and pg: "(ms, nxt) = page 10 rows" by auto
  have "history_before sample_client (time_AddDate_years 100 100) (sample_messages [1..11]) =
      messages (sample_messages [1..11])"
    using times sample_visible time_AddDate_century [of 100]
    by (fastforce simp: history_before_def filter_id_conv)
  then have "length rows = 11" using rows by (metis size_mset sample_length length_upto nat_numeral
        add_diff_cancel_right' one_add_one numeral_plus_one diff_add_cancel)
  with pg have "nxt \<noteq> None" "length ms = 10" by (simp_all add: page_def)
  with got hp show ?thesis by auto
qed

end
