(* ===== verification/Base64.thy ===== *)
theory Base64
  imports Validator
begin

text \<open>
  \<open>encoding/base64\<close> with the URL alphabet, as \<open>internal/cursor\<close> (padded) and the verdict processor
  (\<open>RawURLEncoding\<close>, not padded) use it.  The decoder skips line breaks anywhere, as Go's does, and does
  not ask for the unused low bits of the last digit to be zero.  The offset in the text of its error is
  left out: no caller lets it out of the process.
\<close>

definition b64_char :: "nat \<Rightarrow> char" where
  "b64_char n =
     (if n < 26 then char_of (65 + n)
      else if n < 52 then char_of (71 + n)
      else if n < 62 then char_of (n - 4)
      else if n = 62 then CHR ''-'' else CHR ''_'')"

definition b64_val :: "char \<Rightarrow> nat option" where
  "b64_val c =
     (let n = of_char c :: nat in
      if 65 \<le> n \<and> n \<le> 90 then Some (n - 65)
      else if 97 \<le> n \<and> n \<le> 122 then Some (n - 71)
      else if 48 \<le> n \<and> n \<le> 57 then Some (n + 4)
      else if c = CHR ''-'' then Some 62
      else if c = CHR ''_'' then Some 63
      else None)"

definition b64_pad :: char where "b64_pad = CHR ''=''"

fun b64_encode :: "string \<Rightarrow> string" where
  "b64_encode [] = []"
| "b64_encode [a] =
     (let n = of_char a :: nat in [b64_char (n div 4), b64_char (n mod 4 * 16), b64_pad, b64_pad])"
| "b64_encode [a, b] =
     (let n = of_char a :: nat; m = of_char b in
      [b64_char (n div 4), b64_char (n mod 4 * 16 + m div 16), b64_char (m mod 16 * 4), b64_pad])"
| "b64_encode (a # b # c # s) =
     (let n = of_char a :: nat; m = of_char b; k = of_char c in
      b64_char (n div 4) # b64_char (n mod 4 * 16 + m div 16) # b64_char (m mod 16 * 4 + k div 64)
      # b64_char (k mod 64) # b64_encode s)"

definition b64_bytes :: "nat \<Rightarrow> nat \<Rightarrow> nat \<Rightarrow> nat \<Rightarrow> string" where
  "b64_bytes p q r s = [char_of (p * 4 + q div 16), char_of (q mod 16 * 16 + r div 4), char_of (r mod 4 * 64 + s)]"

text \<open>The digits of a text without line breaks, four by four; \<open>padded\<close> tells the two encodings apart.\<close>

fun b64_quanta :: "bool \<Rightarrow> string \<Rightarrow> string option" where
  "b64_quanta padded [] = Some []"
| "b64_quanta padded (a # b # c # d # s) =
     (case (b64_val a, b64_val b) of
        (Some p, Some q) \<Rightarrow>
          (case (b64_val c, b64_val d) of
             (Some r, Some t) \<Rightarrow> map_option (\<lambda>x. b64_bytes p q r t @ x) (b64_quanta padded s)
           | (Some r, None) \<Rightarrow>
               if padded \<and> d = b64_pad \<and> s = [] then Some (take 2 (b64_bytes p q r 0)) else None
           | (None, _) \<Rightarrow>
               if padded \<and> c = b64_pad \<and> d = b64_pad \<and> s = [] then Some (take 1 (b64_bytes p q 0 0)) else None)
      | _ \<Rightarrow> None)"
| "b64_quanta padded [a, b, c] =
     (case (b64_val a, b64_val b, b64_val c) of
        (Some p, Some q, Some r) \<Rightarrow> if padded then None else Some (take 2 (b64_bytes p q r 0))
      | _ \<Rightarrow> None)"
| "b64_quanta padded [a, b] =
     (case (b64_val a, b64_val b) of
        (Some p, Some q) \<Rightarrow> if padded then None else Some (take 1 (b64_bytes p q 0 0))
      | _ \<Rightarrow> None)"
| "b64_quanta padded [a] = None"

definition is_line_break :: "char \<Rightarrow> bool" where
  "is_line_break c \<longleftrightarrow> c = CHR 0x0A \<or> c = CHR 0x0D"

definition b64_DecodeString :: "bool \<Rightarrow> string \<Rightarrow> string result" where
  "b64_DecodeString padded s =
     (case b64_quanta padded (filter (\<lambda>c. \<not> is_line_break c) s) of
        Some x \<Rightarrow> Inr x
      | None \<Rightarrow> Inl (New ''base64.CorruptInputError'' ''illegal base64 data''))"

section \<open>What is encoded decodes back\<close>

lemma b64_val_char [simp]: "n < 64 \<Longrightarrow> b64_val (b64_char n) = Some n"
proof -
  assume n: "n < 64"
  consider "n < 26" | "26 \<le> n" "n < 52" | "52 \<le> n" "n < 62" | "n = 62" | "n = 63" using n by linarith
  then show ?thesis by cases (simp_all add: b64_char_def b64_val_def Let_def, presburger+)
qed

lemma b64_val_pad [simp]: "b64_val b64_pad = None"
  by (simp add: b64_val_def b64_pad_def)

lemma b64_char_no_break: "n < 64 \<Longrightarrow> \<not> is_line_break (b64_char n)"
  using b64_val_char [of n] by (auto simp: is_line_break_def b64_val_def simp del: b64_val_char)

lemma of_char_small [simp]:
  "(of_char c :: nat) div 4 < 64" "(of_char c :: nat) div 16 < 16" "(of_char c :: nat) div 64 < 4"
proof -
  have "(of_char c :: nat) < 256" by (metis of_char_mod_256 mod_less_divisor zero_less_numeral)
  then show "(of_char c :: nat) div 4 < 64" "(of_char c :: nat) div 16 < 16" "(of_char c :: nat) div 64 < 4"
    by (auto intro: less_mult_imp_div_less)
qed

lemma digit_bounds [simp]:
  "(n :: nat) mod 4 * 16 < 64" "(n :: nat) mod 16 * 4 < 64" "(n :: nat) mod 64 < 64"
  "x < 16 \<Longrightarrow> (n :: nat) mod 4 * 16 + x < 64" "y < 4 \<Longrightarrow> (n :: nat) mod 16 * 4 + y < 64"
proof -
  have "n mod 4 \<le> 3" "n mod 16 \<le> 15" by simp_all
  then show "n mod 4 * 16 < 64" "n mod 16 * 4 < 64" "n mod 64 < 64"
    "x < 16 \<Longrightarrow> n mod 4 * 16 + x < 64" "y < 4 \<Longrightarrow> n mod 16 * 4 + y < 64"
    by linarith+
qed

lemma b64_encode_digits:
  "c \<in> set (b64_encode s) \<Longrightarrow> c = b64_pad \<or> (\<exists>n < 64. c = b64_char n)"
proof (induction s rule: b64_encode.induct)
  case (2 a)
  let ?p = "(of_char a :: nat) div 4" and ?q = "(of_char a :: nat) mod 4 * 16"
  have "c = b64_pad \<or> c = b64_char ?p \<or> c = b64_char ?q" using 2 by (auto simp: Let_def)
  moreover have "?p < 64" "?q < 64" by simp_all
  ultimately show ?case by blast
next
  case (3 a b)
  let ?p = "(of_char a :: nat) div 4" and ?q = "(of_char a :: nat) mod 4 * 16 + of_char b div 16"
    and ?r = "(of_char b :: nat) mod 16 * 4"
  have "c = b64_pad \<or> c = b64_char ?p \<or> c = b64_char ?q \<or> c = b64_char ?r"
    using 3 by (auto simp: Let_def)
  moreover have "?p < 64" "?q < 64" "?r < 64" by simp_all
  ultimately show ?case by blast
next
  case (4 a b d s)
  let ?p = "(of_char a :: nat) div 4" and ?q = "(of_char a :: nat) mod 4 * 16 + of_char b div 16"
    and ?r = "(of_char b :: nat) mod 16 * 4 + of_char d div 64" and ?t = "(of_char d :: nat) mod 64"
  have "c \<in> set (b64_encode s) \<or> c = b64_char ?p \<or> c = b64_char ?q \<or> c = b64_char ?r \<or> c = b64_char ?t"
    using 4(2) by (auto simp: Let_def)
  moreover have "?p < 64" "?q < 64" "?r < 64" "?t < 64" by simp_all
  ultimately show ?case using 4(1) by blast
qed simp

lemma b64_bytes_split:
  "b64_bytes (of_char a div 4) (of_char a mod 4 * 16 + x) r t = a # tl (b64_bytes (of_char a div 4) (of_char a mod 4 * 16 + x) r t)"
  if "x < 16"
proof -
  have "(of_char a mod 4 * 16 + x) div 16 = (of_char a mod 4 :: nat)" using that by simp
  moreover have "(of_char a :: nat) div 4 * 4 + of_char a mod 4 = of_char a" by simp
  ultimately show ?thesis by (simp add: b64_bytes_def)
qed

lemma b64_second_byte:
  "(n * 16 + of_char b div 16) mod 16 * 16 + ((of_char b :: nat) mod 16 * 4 + y) div 4 = of_char b" if "y < 4"
proof -
  have "(of_char b mod 16 * 4 + y) div 4 = (of_char b mod 16 :: nat)" using that by simp
  moreover have "(n * 16 + of_char b div 16) mod 16 = (of_char b div 16 :: nat)" by simp
  moreover have "(of_char b :: nat) div 16 * 16 + of_char b mod 16 = of_char b" by simp
  ultimately show ?thesis by simp
qed

lemma b64_third_byte: "(n * 4 + of_char c div 64) mod 4 * 64 + (of_char c :: nat) mod 64 = of_char c"
proof -
  have "(n * 4 + of_char c div 64) mod 4 = (of_char c div 64 :: nat)" by simp
  then show ?thesis by simp
qed

lemma b64_quanta_encode: "b64_quanta True (b64_encode s) = Some s"
proof (induction s rule: b64_encode.induct)
  case (2 a)
  show ?case using b64_bytes_split [of 0 a 0 0] by (simp add: Let_def b64_bytes_def)
next
  case (3 a b)
  have "b64_bytes (of_char a div 4) (of_char a mod 4 * 16 + of_char b div 16) (of_char b mod 16 * 4) 0 ! 1 = b"
    using b64_second_byte [of 0 "of_char a mod 4" b] by (simp add: b64_bytes_def)
  then show ?case using b64_bytes_split [of "of_char b div 16" a "of_char b mod 16 * 4" 0]
    by (simp add: Let_def b64_bytes_def numeral_2_eq_2)
next
  case (4 a b c s)
  have "b64_bytes (of_char a div 4) (of_char a mod 4 * 16 + of_char b div 16) (of_char b mod 16 * 4 + of_char c div 64)
    (of_char c mod 64) = [a, b, c]"
    using b64_second_byte [of "of_char c div 64" "of_char a mod 4" b] b64_third_byte [of "of_char b mod 16" c]
      b64_bytes_split [of "of_char b div 16" a] by (simp add: b64_bytes_def)
  with 4 show ?case by (simp add: Let_def)
qed simp

lemma b64_roundtrip: "b64_DecodeString True (b64_encode s) = Inr s"
proof -
  have "\<not> is_line_break b64_pad" by (simp add: is_line_break_def b64_pad_def)
  then have "filter (\<lambda>c. \<not> is_line_break c) (b64_encode s) = b64_encode s"
    using b64_encode_digits [of _ s] b64_char_no_break by (subst filter_id_conv) blast
  then show ?thesis by (simp add: b64_DecodeString_def b64_quanta_encode)
qed

end
