(* ===== verification/GetHistory.thy ===== *)
theory GetHistory
  imports History Rfc3339 Base64 Managers
begin

text \<open>
  The use case \<open>get-history\<close> (\<open>internal/usecases/client/get-history\<close>) and the cursors that clients carry
  from page to page (\<open>internal/cursor\<close>): JSON in the URL alphabet of base 64.  Following the cursors
  through the use case is a refinement of the walk over the pages of the repository.
\<close>

section \<open>Cursors as texts\<close>

definition cursor_Encode :: "('a \<Rightarrow> json result) \<Rightarrow> 'a \<Rightarrow> string result" where
  "cursor_Encode marshal data =
     (case marshal data of
        Inl err \<Rightarrow> Inl (errorf_v ''failed to marshall data'' err)
      | Inr v \<Rightarrow> Inr (b64_encode (json_Marshal v)))"

definition cursor_Decode :: "'a decoder \<Rightarrow> string \<Rightarrow> 'a \<Rightarrow> 'a result" where
  "cursor_Decode unmarshal s to =
     (case b64_DecodeString True s of
        Inl err \<Rightarrow> Inl (errorf_v (''failed to decode '' @ s) err)
      | Inr bytes \<Rightarrow>
          (case json_into unmarshal bytes to of
             Inl err \<Rightarrow> Inl (errorf_v ''failed to unmarshal json'' err)
           | Inr x \<Rightarrow> Inr x))"

text \<open>The JSON of a \<open>messagesrepo.Cursor\<close>; \<open>zone\<close> is the local offset from UTC at an instant, in minutes.\<close>

definition Cursor_json :: "(time \<Rightarrow> int) \<Rightarrow> Cursor \<Rightarrow> json result" where
  "Cursor_json zone c =
     (case time_MarshalText (zone (cur_LastCreatedAt c)) (cur_LastCreatedAt c) of
        Inl err \<Rightarrow> Inl err
      | Inr t \<Rightarrow> Inr (JObj [(''LastCreatedAt'', JStr t), (''PageSize'', JNum (itoa (cur_PageSize c)))]))"

definition Cursor_decoder :: "Cursor decoder" where
  "Cursor_decoder = decode_object ''Cursor''
     [(''LastCreatedAt'', decode_time (\<lambda>t c. c\<lparr>cur_LastCreatedAt := t\<rparr>)),
      (''PageSize'', decode_int (\<lambda>n c. c\<lparr>cur_PageSize := n\<rparr>))]"

section \<open>The use case\<close>

definition gethistory_ErrInvalidRequest :: goerr where
  "gethistory_ErrInvalidRequest = New ''gethistory.ErrInvalidRequest'' ''invalid request''"
definition gethistory_ErrInvalidCursor :: goerr where
  "gethistory_ErrInvalidCursor = New ''gethistory.ErrInvalidCursor'' ''invalid cursor''"

record gethistory_Request =
  hr_ID :: RequestID
  hr_ClientID :: UserID
  hr_PageSize :: int
  hr_Cursor :: string

definition gethistory_Request_Validate :: "gethistory_Request \<Rightarrow> goerr option" where
  "gethistory_Request_Validate r =
     (if (hr_Cursor r = [] \<and> hr_PageSize r = 0) \<or> (hr_Cursor r \<noteq> [] \<and> hr_PageSize r \<noteq> 0)
      then Some gethistory_ErrInvalidRequest
      else validate_struct ''Request''
        [(''ID'', VId (raw (hr_ID r)), [Required]), (''ClientID'', VId (raw (hr_ClientID r)), [Required]),
         (''PageSize'', VInt (hr_PageSize r), [Omitempty, Gte 10, Lte 100]),
         (''Cursor'', VStr (hr_Cursor r), [Omitempty, Base64url])])"

record gethistory_Message =
  hm_ID :: MessageID
  hm_AuthorID :: UserID
  hm_Body :: string
  hm_CreatedAt :: time
  hm_IsReceived :: bool
  hm_IsBlocked :: bool
  hm_IsService :: bool

record gethistory_Response =
  hp_Messages :: "gethistory_Message list"
  hp_NextCursor :: string

type_synonym 'w history_repository =
  "UserID \<Rightarrow> int \<Rightarrow> Cursor option \<Rightarrow> 'w \<Rightarrow> (RepoMessage list \<times> Cursor option) result \<times> 'w"

record 'w gethistory_Options =
  ho_msgRepo :: "'w history_repository option"

record 'w gethistory_UseCase =
  hu_msgRepo :: "'w history_repository"

definition gethistory_NewOptions where
  "gethistory_NewOptions msgRepo options =
     foldl (\<lambda>o' opt. opt o') (\<lparr>ho_msgRepo = msgRepo\<rparr> :: 'w gethistory_Options) options"

definition gethistory_Options_Validate :: "'w gethistory_Options \<Rightarrow> goerr option" where
  "gethistory_Options_Validate o' = validate_options [(''msgRepo'', iface (ho_msgRepo o'), [Required])]"

definition gethistory_New :: "'w gethistory_Options \<Rightarrow> 'w gethistory_UseCase result" where
  "gethistory_New opts =
     (case gethistory_Options_Validate opts of
        Some err \<Rightarrow> Inl (errorf_v ''validate options gethistory'' err)
      | None \<Rightarrow> Inr \<lparr>hu_msgRepo = the (ho_msgRepo opts)\<rparr>)"

definition history_message :: "RepoMessage \<Rightarrow> gethistory_Message" where
  "history_message msg = \<lparr>hm_ID = msg_ID msg, hm_AuthorID = msg_AuthorID msg, hm_Body = msg_Body msg,
     hm_CreatedAt = msg_CreatedAt msg, hm_IsReceived = (msg_IsVisibleForManager msg \<and> \<not> msg_IsBlocked msg),
     hm_IsBlocked = msg_IsBlocked msg, hm_IsService = msg_IsService msg\<rparr>"

definition gethistory_Handle ::
  "(time \<Rightarrow> int) \<Rightarrow> 'w gethistory_UseCase \<Rightarrow> gethistory_Request \<Rightarrow> 'w \<Rightarrow> gethistory_Response result \<times> 'w" where
  "gethistory_Handle zone u req w =
     (case gethistory_Request_Validate req of
        Some err \<Rightarrow> (Inl (errorf_w ''failed to validate'' err), w)
      | None \<Rightarrow>
          (case (if hr_Cursor req \<noteq> []
                 then (case cursor_Decode Cursor_decoder (hr_Cursor req) \<lparr>cur_LastCreatedAt = 0, cur_PageSize = 0\<rparr> of
                         Inl _ \<Rightarrow> Inl gethistory_ErrInvalidCursor
                       | Inr reqCursor \<Rightarrow> Inr (Some reqCursor))
                 else Inr None) of
             Inl err \<Rightarrow> (Inl err, w)
           | Inr cursorParam \<Rightarrow>
               (case hu_msgRepo u (hr_ClientID req) (hr_PageSize req) cursorParam w of
                  (Inl err, w) \<Rightarrow>
                    if errors_Is err messagesrepo_ErrInvalidCursor then (Inl gethistory_ErrInvalidCursor, w)
                    else (Inl (errorf_v ''failed to get messages'' err), w)
                | (Inr (msgs, respCursor), w) \<Rightarrow>
                    (case (case respCursor of
                             None \<Rightarrow> Inr []
                           | Some c \<Rightarrow> cursor_Encode (Cursor_json zone) c) of
                       Inl err \<Rightarrow> (Inl (errorf_v ''failed to encode cursor'' err), w)
                     | Inr nextCursor \<Rightarrow>
                         (Inr \<lparr>hp_Messages = map history_message msgs, hp_NextCursor = nextCursor\<rparr>, w)))))"

definition main_getHistory :: "'z store_scheme gethistory_UseCase result" where
  "main_getHistory = gethistory_New (gethistory_NewOptions (Some messagesrepo_GetClientChatMessages) [])"

definition wired_getHistory :: "'z store_scheme gethistory_UseCase" where
  "wired_getHistory = \<lparr>hu_msgRepo = messagesrepo_GetClientChatMessages\<rparr>"

lemma main_getHistory_wired: "main_getHistory = Inr wired_getHistory"
  by (simp add: main_getHistory_def gethistory_New_def gethistory_NewOptions_def gethistory_Options_Validate_def
      validate_options_None [THEN iffD2] wired_getHistory_def)

section \<open>Cursors read back\<close>

lemma is_b64url_char_digit: "n < 64 \<Longrightarrow> is_b64url_char (b64_char n)"
proof -
  assume n: "n < 64"
  consider "n < 26" | "26 \<le> n" "n < 52" | "52 \<le> n" "n < 62" | "n = 62" | "n = 63" using n by linarith
  then show ?thesis by cases (auto simp: b64_char_def is_b64url_char_def in_range_def)
qed

lemma is_base64url_encode: "s \<noteq> [] \<Longrightarrow> is_base64url (b64_encode s)"
proof (induction s rule: b64_encode.induct)
  case (2 a)
  then show ?case by (simp add: Let_def is_b64url_char_digit b64_pad_def)
next
  case (3 a b)
  then show ?case by (simp add: Let_def is_b64url_char_digit b64_pad_def)
next
  case (4 a b c s)
  have "b64_encode s = [] \<longleftrightarrow> s = []" by (cases s rule: b64_encode.cases) (auto simp: Let_def)
  with 4 show ?case by (cases "s = []") (auto simp: Let_def is_b64url_char_digit)
qed simp

lemma json_Marshal_obj: "json_Marshal (JObj ms) \<noteq> []" by simp

lemma time_text_ascii: "time_MarshalText zone t = Inr s \<Longrightarrow> \<forall>c \<in> set s. of_char c < (128 :: nat)"
proof -
  have d: "of_char (digit_char n) < (128 :: nat)" if "n < 10" for n using that by (simp add: digit_char_def)
  have fx: "c \<in> set (fixed_digits k n) \<Longrightarrow> of_char c < (128 :: nat)" for c k n
    by (induction k arbitrary: n) (auto simp: d)
  have "set (strip_zeros s) \<subseteq> set s" for s
    using strip_zeros_split [of s] by (metis Un_upper1 set_append)
  then have fr: "c \<in> set (fraction n) \<Longrightarrow> of_char c < (128 :: nat)" for c n
    using fx by (auto simp: fraction_def Let_def split: if_splits) blast
  have tw: "c \<in> set (two_digits n) \<Longrightarrow> of_char c < (128 :: nat)" for c n by (auto simp: two_digits_def d)
  then have fo: "c \<in> set (four_digits n) \<Longrightarrow> of_char c < (128 :: nat)" for c n by (auto simp: four_digits_def)
  have zo: "c \<in> set (zone_text z) \<Longrightarrow> of_char c < (128 :: nat)" for c z by (auto simp: zone_text_def tw split: if_splits)
  assume "time_MarshalText zone t = Inr s"
  then show ?thesis by (auto simp: time_MarshalText_def Let_def tw fo fr zo split: prod.splits if_splits)
qed

lemma cursor_roundtrip:
  assumes "cursor_Encode (Cursor_json zone) c = Inr s" "- (2 ^ 63) \<le> cur_PageSize c" "cur_PageSize c < 2 ^ 63"
  shows "cursor_Decode Cursor_decoder s c0 = Inr c \<and> is_base64url s \<and> s \<noteq> []"
proof -
  obtain t where t: "time_MarshalText (zone (cur_LastCreatedAt c)) (cur_LastCreatedAt c) = Inr t"
    and s: "s = b64_encode (json_Marshal (JObj [(''LastCreatedAt'', JStr t), (''PageSize'', JNum (itoa (cur_PageSize c)))]))"
    using assms(1) by (auto simp: cursor_Encode_def Cursor_json_def split: sum.splits)
  have "json_Unmarshal (json_Marshal (JObj [(''LastCreatedAt'', JStr t), (''PageSize'', JNum (itoa (cur_PageSize c)))])) =
      Inr (JObj [(''LastCreatedAt'', JStr t), (''PageSize'', JNum (itoa (cur_PageSize c)))])"
    using utf8_repair_ascii [OF time_text_ascii [OF t]]
    by (subst json_roundtrip) (auto simp: utf8_repair_ascii)
  then have "cursor_Decode Cursor_decoder s c0 = Inr c"
    using time_text_roundtrip [OF t] parse_int_itoa [OF assms(2, 3)]
    by (simp add: cursor_Decode_def s b64_roundtrip json_into_def Cursor_decoder_def decode_object_def json_field_def
        decode_time_def decode_int_def)
  moreover have "is_base64url s" unfolding s by (rule is_base64url_encode [OF json_Marshal_obj])
  ultimately show ?thesis by auto
qed

section \<open>Following the cursors\<close>

text \<open>
  A client reads on: the first request names a page size, every later one carries the cursor it was
  given and no size, until no cursor comes back.
\<close>

fun client_walk ::
  "nat \<Rightarrow> (time \<Rightarrow> int) \<Rightarrow> 'w gethistory_UseCase \<Rightarrow> RequestID \<Rightarrow> UserID \<Rightarrow> int \<Rightarrow> string \<Rightarrow> 'w
   \<Rightarrow> gethistory_Message list result option \<times> 'w" where
  "client_walk 0 zone s i u ps cur w = (None, w)"
| "client_walk (Suc n) zone s i u ps cur w =
     (case gethistory_Handle zone s \<lparr>hr_ID = i, hr_ClientID = u, hr_PageSize = ps, hr_Cursor = cur\<rparr> w of
        (Inl e, w) \<Rightarrow> (Some (Inl e), w)
      | (Inr resp, w) \<Rightarrow>
          if hp_NextCursor resp = [] then (Some (Inr (hp_Messages resp)), w)
          else (case client_walk n zone s i u 0 (hp_NextCursor resp) w of
                  (Some (Inr rest), w) \<Rightarrow> (Some (Inr (hp_Messages resp @ rest)), w)
                | other \<Rightarrow> other))"

text \<open>The year of the instant can be written, and the zone is one that RFC 3339 knows.\<close>

definition writable :: "(time \<Rightarrow> int) \<Rightarrow> time \<Rightarrow> bool" where
  "writable zone t \<longleftrightarrow> (\<exists>s. time_MarshalText (zone t) t = Inr s)"

lemma writable_cursor: "writable zone (cur_LastCreatedAt c) \<Longrightarrow> \<exists>s. cursor_Encode (Cursor_json zone) c = Inr s"
  by (auto simp: writable_def cursor_Encode_def Cursor_json_def)

lemma cursor_page_size: "messagesrepo_GetClientChatMessages u ps (Some c) w = messagesrepo_GetClientChatMessages u ps' (Some c) w"
  by (simp add: messagesrepo_GetClientChatMessages_def messagesrepo_getChatMessages_def)

text \<open>The request that stands for a call of the repository.\<close>

definition asks :: "(time \<Rightarrow> int) \<Rightarrow> int \<Rightarrow> Cursor option \<Rightarrow> int \<Rightarrow> string \<Rightarrow> bool" where
  "asks zone ps cur ps' cur' \<longleftrightarrow>
     (case cur of
        None \<Rightarrow> cur' = [] \<and> ps' = ps \<and> 10 \<le> ps \<and> ps \<le> 100
      | Some c \<Rightarrow> cursor_Encode (Cursor_json zone) c = Inr cur' \<and> ps' = 0 \<and> 10 \<le> cur_PageSize c \<and> cur_PageSize c \<le> 100)"

lemma asks_Handle:
  assumes "asks zone ps cur ps' cur'" "i \<noteq> 0" "u \<noteq> 0"
    and "messagesrepo_GetClientChatMessages u ps cur w = (Inr (ms, nxt), w')"
    and "\<And>c. nxt = Some c \<Longrightarrow> cursor_Encode (Cursor_json zone) c = Inr next'" "nxt = None \<Longrightarrow> next' = []"
  shows "gethistory_Handle zone wired_getHistory \<lparr>hr_ID = i, hr_ClientID = u, hr_PageSize = ps', hr_Cursor = cur'\<rparr> w =
    (Inr \<lparr>hp_Messages = map history_message ms, hp_NextCursor = next'\<rparr>, w')"
proof -
  have ids: "raw i \<noteq> uuid_Nil" "raw u \<noteq> uuid_Nil" using assms(2, 3) by (metis raw_zero id.expand)+
  show ?thesis
  proof (cases cur)
    case None
    then have c: "cur' = []" "ps' = ps" "10 \<le> ps" "ps \<le> 100" using assms(1) by (simp_all add: asks_def)
    have "gethistory_Request_Validate \<lparr>hr_ID = i, hr_ClientID = u, hr_PageSize = ps, hr_Cursor = []\<rparr> = None"
      unfolding gethistory_Request_Validate_def using c ids by (simp add: validate_struct_None)
    then show ?thesis using assms(4-6) None c
      by (cases nxt) (simp_all add: gethistory_Handle_def wired_getHistory_def)
  next
    case (Some c)
    then have a: "cursor_Encode (Cursor_json zone) c = Inr cur'" "ps' = 0" "10 \<le> cur_PageSize c" "cur_PageSize c \<le> 100"
      using assms(1) by (simp_all add: asks_def)
    have r: "cursor_Decode Cursor_decoder cur' \<lparr>cur_LastCreatedAt = 0, cur_PageSize = 0\<rparr> = Inr c" "is_base64url cur'" "cur' \<noteq> []"
      using cursor_roundtrip [OF a(1)] a(3, 4) by simp_all
    have "gethistory_Request_Validate \<lparr>hr_ID = i, hr_ClientID = u, hr_PageSize = 0, hr_Cursor = cur'\<rparr> = None"
      unfolding gethistory_Request_Validate_def using r ids by (simp add: validate_struct_None)
    moreover have "messagesrepo_GetClientChatMessages u 0 (Some c) w = (Inr (ms, nxt), w')"
      using assms(4) Some cursor_page_size by metis
    ultimately show ?thesis using assms(5, 6) r a
      by (cases nxt) (simp_all add: gethistory_Handle_def wired_getHistory_def)
  qed
qed

lemma page_cursor:
  assumes "messagesrepo_GetClientChatMessages u ps cur w = (Inr (ms, Some c), w')"
  shows "db w' = db w \<and> 10 \<le> cur_PageSize c \<and> cur_PageSize c \<le> 100 \<and> (\<exists>m \<in> set (messages (db w)). cur_LastCreatedAt c = m_CreatedAt m)"
proof -
  obtain sz before where p: "page_params ps cur (fst (time_Now w)) = (sz, before)" by force
  from page_ok [OF assms p] obtain rows where r: "db w' = db w" "page_request_ok ps cur"
    "mset rows = mset (history_before u before (db w))" "(ms, Some c) = page (nat sz) rows" by blast
  have sz: "10 \<le> sz" "sz \<le> 100" using page_params_size [OF r(2), of "fst (time_Now w)"] p by simp_all
  have c: "nat sz < length rows" "c = \<lparr>cur_LastCreatedAt = m_CreatedAt (rows ! (nat sz - 1)), cur_PageSize = int (nat sz)\<rparr>"
    using r(4) by (auto simp: page_def split: if_splits)
  then have "rows ! (nat sz - 1) \<in> set rows" by simp
  then have "rows ! (nat sz - 1) \<in> set (messages (db w))"
    using mset_eq_setD [OF r(3)] by (auto simp: history_before_def)
  then show ?thesis using r(1) c sz by auto
qed

lemma client_walk_refines:
  assumes "history_walk n u ps cur w = (Some (Inr ms), w')" "asks zone ps cur ps' cur'" "i \<noteq> 0" "u \<noteq> 0"
    and "\<forall>m \<in> set (messages (db w)). writable zone (m_CreatedAt m)"
  shows "client_walk n zone wired_getHistory i u ps' cur' w = (Some (Inr (map history_message ms)), w')"
  using assms(1, 2, 5)
proof (induction n arbitrary: cur ps' cur' w ms)
  case (Suc n)
  obtain r w1 where r: "messagesrepo_GetClientChatMessages u ps cur w = (r, w1)" by force
  obtain ms1 nxt where r1: "r = Inr (ms1, nxt)" using Suc.prems(1) r by (cases r) auto
  show ?case
  proof (cases nxt)
    case None
    with asks_Handle [OF Suc.prems(2) assms(3, 4) r [unfolded r1], of "[]"] Suc.prems(1) r r1
    show ?thesis by simp
  next
    case (Some c)
    note pc = page_cursor [OF r [unfolded r1 Some]]
    obtain s where s: "cursor_Encode (Cursor_json zone) c = Inr s"
      using writable_cursor [of zone c] pc Suc.prems(3) by metis
    have ne: "s \<noteq> []" using cursor_roundtrip [OF s] pc by simp
    obtain rest where rest: "history_walk n u ps (Some c) w1 = (Some (Inr rest), w')" "ms = ms1 @ rest"
      using Suc.prems(1) r r1 Some by (auto split: prod.splits option.splits sum.splits)
    have "asks zone ps (Some c) 0 s" using s pc by (simp add: asks_def)
    then have "client_walk n zone wired_getHistory i u 0 s w1 = (Some (Inr (map history_message rest)), w')"
      using Suc.IH [OF rest(1)] pc Suc.prems(3) by simp
    then show ?thesis
      using asks_Handle [OF Suc.prems(2) assms(3, 4) r [unfolded r1 Some], of s] s ne rest(2) by simp
  qed
qed simp

lemma get_history_sentinels [simp]:
  "errors_Is gethistory_ErrInvalidRequest gethistory_ErrInvalidRequest"
  "\<not> errors_Is gethistory_ErrInvalidRequest gethistory_ErrInvalidCursor"
  "errors_Is gethistory_ErrInvalidCursor gethistory_ErrInvalidCursor"
  "\<not> errors_Is gethistory_ErrInvalidCursor gethistory_ErrInvalidRequest"
  by (simp_all add: gethistory_ErrInvalidRequest_def gethistory_ErrInvalidCursor_def)

lemma plain_error_sentinels:
  "plain_error e \<Longrightarrow> \<not> errors_Is e messagesrepo_ErrInvalidCursor"
  by (simp add: plain_error_def messagesrepo_ErrInvalidCursor_def)

lemma Request_Validate_error:
  assumes "gethistory_Request_Validate req = Some e"
  shows "(errors_Is e gethistory_ErrInvalidRequest \<longleftrightarrow> (hr_Cursor req = []) = (hr_PageSize req = 0)) \<and>
    \<not> errors_Is e gethistory_ErrInvalidCursor"
  using assms validate_struct_Is unfolding gethistory_Request_Validate_def by (auto split: if_splits)

lemma Request_Validate_page_size:
  assumes "gethistory_Request_Validate req = None"
  shows "(hr_Cursor req = []) \<noteq> (hr_PageSize req = 0)" "hr_Cursor req = [] \<Longrightarrow> 10 \<le> hr_PageSize req \<and> hr_PageSize req \<le> 100"
  using assms unfolding gethistory_Request_Validate_def by (auto simp: validate_struct_None split: if_splits)

lemma Handle_run:
  assumes "gethistory_Request_Validate req = None"
    and "hr_Cursor req \<noteq> [] \<Longrightarrow>
        cursor_Decode Cursor_decoder (hr_Cursor req) \<lparr>cur_LastCreatedAt = 0, cur_PageSize = 0\<rparr> = Inr (the cur)"
    and "cur = None \<longleftrightarrow> hr_Cursor req = []"
    and "messagesrepo_GetClientChatMessages (hr_ClientID req) (hr_PageSize req) cur w = (r, w1)"
  shows "gethistory_Handle zone wired_getHistory req w =
    (case r of
       Inl err \<Rightarrow> (Inl (if errors_Is err messagesrepo_ErrInvalidCursor then gethistory_ErrInvalidCursor
                          else errorf_v ''failed to get messages'' err), w1)
     | Inr (ms, respCursor) \<Rightarrow>
         (case (case respCursor of None \<Rightarrow> Inr [] | Some c \<Rightarrow> cursor_Encode (Cursor_json zone) c) of
            Inl err \<Rightarrow> (Inl (errorf_v ''failed to encode cursor'' err), w1)
          | Inr next' \<Rightarrow> (Inr \<lparr>hp_Messages = map history_message ms, hp_NextCursor = next'\<rparr>, w1)))"
proof (cases "hr_Cursor req = []")
  case True
  with assms show ?thesis
    by (cases r) (simp_all add: gethistory_Handle_def wired_getHistory_def split: prod.split)
next
  case False
  then obtain c where "cur = Some c" using assms(3) by blast
  with assms False show ?thesis
    by (cases r) (simp_all add: gethistory_Handle_def wired_getHistory_def split: prod.split)
qed

lemma Handle_error:
  assumes "gethistory_Handle zone wired_getHistory req w = (Inl e, w')"
  shows "db w' = db w \<and>
    (errors_Is e gethistory_ErrInvalidRequest \<longleftrightarrow> (hr_Cursor req = []) = (hr_PageSize req = 0)) \<and>
    (errors_Is e gethistory_ErrInvalidCursor \<longleftrightarrow> gethistory_Request_Validate req = None \<and> hr_Cursor req \<noteq> [] \<and>
      (case cursor_Decode Cursor_decoder (hr_Cursor req) \<lparr>cur_LastCreatedAt = 0, cur_PageSize = 0\<rparr> of
         Inl _ \<Rightarrow> True | Inr c \<Rightarrow> Cursor_Validate c \<noteq> None))"
proof (cases "gethistory_Request_Validate req")
  case (Some err)
  with assms Request_Validate_error [OF Some] show ?thesis by (auto simp: gethistory_Handle_def)
next
  case None
  note form = Request_Validate_page_size [OF None]
  show ?thesis
  proof (cases "hr_Cursor req \<noteq> [] \<and> (\<exists>err. cursor_Decode Cursor_decoder (hr_Cursor req) \<lparr>cur_LastCreatedAt = 0, cur_PageSize = 0\<rparr> = Inl err)")
    case True
    with assms None form show ?thesis by (auto simp: gethistory_Handle_def)
  next
    case False
    define cur where "cur = (if hr_Cursor req = [] then None else
      Some (projr (cursor_Decode Cursor_decoder (hr_Cursor req) \<lparr>cur_LastCreatedAt = 0, cur_PageSize = 0\<rparr>)))"
    obtain r w1 where r: "messagesrepo_GetClientChatMessages (hr_ClientID req) (hr_PageSize req) cur w = (r, w1)" by force
    have dec: "hr_Cursor req \<noteq> [] \<Longrightarrow>
        cursor_Decode Cursor_decoder (hr_Cursor req) \<lparr>cur_LastCreatedAt = 0, cur_PageSize = 0\<rparr> = Inr (the cur)"
      using False by (cases "cursor_Decode Cursor_decoder (hr_Cursor req) \<lparr>cur_LastCreatedAt = 0, cur_PageSize = 0\<rparr>") (auto simp: cur_def)
    have cur_None: "cur = None \<longleftrightarrow> hr_Cursor req = []" by (simp add: cur_def)
    have okc: "page_request_ok (hr_PageSize req) cur \<longleftrightarrow> hr_Cursor req = [] \<or> Cursor_Validate (the cur) = None"
      using form cur_None by (auto simp: page_request_ok_def split: option.splits)
    note run = Handle_run [OF None dec cur_None r]
    show ?thesis
    proof (cases r)
      case (Inr p)
      then have "db w1 = db w" "page_request_ok (hr_PageSize req) cur"
        using r page_ok by (metis prod.collapse)+
      with run Inr assms form okc dec show ?thesis by (auto split: prod.splits sum.splits)
    next
      case (Inl err)
      note pe = page_error [OF r [unfolded Inl]]
      show ?thesis
      proof (cases "hr_Cursor req = []")
        case True
        have "page_request_ok (hr_PageSize req) None" using form True by (simp add: page_request_ok_def)
        with True run Inl assms form cur_None pe show ?thesis by (auto dest: plain_error_sentinels)
      next
        case False
        with run Inl assms form cur_None pe okc dec None show ?thesis
          by (auto dest: plain_error_sentinels split: if_splits)
      qed
    qed
  qed
qed

section \<open>Properties\<close>

text \<open>
  C28. A cursor reads back.  What \<open>Encode\<close> makes of a cursor, \<open>Decode\<close> turns into the same cursor,
  whatever was in the variable it decodes into; and it passes the validator of the next request.
\<close>

theorem cursor_text_roundtrip:
  assumes "cursor_Encode (Cursor_json zone) c = Inr s" and "- (2 ^ 63) \<le> cur_PageSize c" and "cur_PageSize c < 2 ^ 63"
  shows "cursor_Decode Cursor_decoder s c0 = Inr c \<and> run_tags [Omitempty, Base64url] (VStr s) = None"
  using cursor_roundtrip [OF assms] by simp

text \<open>
  C29. A client that follows the cursors reads his whole history: once per message, newest first, as long
  as nothing fails, no two of his messages have one creation time, and the years of the creation times
  can be written.
\<close>

theorem client_reads_whole_history:
  assumes "main_getHistory = Inr s" and "faults w = []" and "distinct_times u (db w)"
    and "\<forall>m \<in> set (messages (db w)). m_CreatedAt m \<noteq> 0 \<and> m_CreatedAt m \<le> clk w \<and> writable zone (m_CreatedAt m)"
    and "10 \<le> ps" and "ps \<le> 100" and "length (messages (db w)) < n" and "i \<noteq> 0" and "u \<noteq> 0"
  shows "fst (client_walk (Suc n) zone s i u ps [] w) =
    Some (Inr (map (\<lambda>m. history_message (adaptStoreMessage m)) (whole_history u (db w))))"
proof -
  have "fst (history_walk (Suc n) u ps None w) = Some (Inr (map adaptStoreMessage (whole_history u (db w))))"
    using walk_from_start [OF assms(2) refl assms(3) _ assms(5-7)] assms(4) by blast
  then obtain w' where "history_walk (Suc n) u ps None w = (Some (Inr (map adaptStoreMessage (whole_history u (db w)))), w')"
    by (metis prod.collapse)
  from client_walk_refines [OF this _ assms(8, 9), of zone ps "[]"] assms
  show ?thesis by (simp add: asks_def main_getHistory_wired comp_def)
qed

text \<open>
  C30. What a client is told about its page.  The error is the one of an invalid cursor exactly when a
  request of the right form carries a cursor that does not read back or that the repository does not
  accept, it is the one of an invalid request exactly when the request has both a cursor and a page
  size or neither; and a read changes nothing in the store.
\<close>

theorem get_history_errors:
  assumes "main_getHistory = Inr s" and "gethistory_Handle zone s req w = (Inl e, w')"
  shows "db w' = db w \<and>
    (errors_Is e gethistory_ErrInvalidRequest \<longleftrightarrow> (hr_Cursor req = []) = (hr_PageSize req = 0)) \<and>
    (errors_Is e gethistory_ErrInvalidCursor \<longleftrightarrow> gethistory_Request_Validate req = None \<and> hr_Cursor req \<noteq> [] \<and>
      (case cursor_Decode Cursor_decoder (hr_Cursor req) \<lparr>cur_LastCreatedAt = 0, cur_PageSize = 0\<rparr> of
         Inl _ \<Rightarrow> True | Inr c \<Rightarrow> Cursor_Validate c \<noteq> None))"
  using Handle_error [of zone req w e w'] assms unfolding main_getHistory_wired by simp

text \<open>A page of the history of the sample, its cursor as a text, and a cursor that is none.\<close>

lemma writable_small:
  assumes "0 \<le> t" "t < 100"
  shows "writable (\<lambda>_. 0) t"
proof -
  have "split_days (t div day_ns) = (0, 0)"
    using assms by (simp add: split_days_def duration_defs div_pos_pos_trivial)
  then show ?thesis by (simp add: writable_def time_MarshalText_def Let_def split: prod.split)
qed

theorem cursor_text_roundtrip_witness:
  "\<exists>s. cursor_Encode (Cursor_json (\<lambda>_. 0)) \<lparr>cur_LastCreatedAt = 7, cur_PageSize = 10\<rparr> = Inr s
     \<and> cursor_Decode Cursor_decoder s \<lparr>cur_LastCreatedAt = 1, cur_PageSize = 2\<rparr> = Inr \<lparr>cur_LastCreatedAt = 7, cur_PageSize = 10\<rparr>"
proof -
  let ?c = "\<lparr>cur_LastCreatedAt = 7, cur_PageSize = 10\<rparr>"
  obtain s where s: "cursor_Encode (Cursor_json (\<lambda>_. 0)) ?c = Inr s"
    using writable_cursor [OF writable_small, of ?c] by auto
  with cursor_text_roundtrip [OF s] show ?thesis by auto
qed

theorem client_reads_whole_history_witness:
  "let w = quiet_store (sample_messages [1..11]) 100
   in fst (client_walk 13 (\<lambda>_. 0) wired_getHistory (Id 9) sample_client 10 [] w) =
        Some (Inr (map (\<lambda>m. history_message (adaptStoreMessage m)) (whole_history sample_client (db w))))
      \<and> length (whole_history sample_client (db w)) = 11"
proof -
  let ?d = "sample_messages [1..11]"
  have "\<forall>m \<in> set (messages ?d). m_CreatedAt m \<in> set [1..11]"
    using sample_times [of "[1..11]"] by (metis imageI set_map)
  then have times: "\<forall>m \<in> set (messages ?d). m_CreatedAt m \<noteq> 0 \<and> m_CreatedAt m \<le> 100 \<and> writable (\<lambda>_. 0) (m_CreatedAt m)"
    using writable_small by force
  have "fst (client_walk (Suc 12) (\<lambda>_. 0) wired_getHistory (Id 9) sample_client 10 [] (quiet_store ?d 100)) =
      Some (Inr (map (\<lambda>m. history_message (adaptStoreMessage m)) (whole_history sample_client (db (quiet_store ?d 100)))))"
    by (rule client_reads_whole_history [OF main_getHistory_wired])
      (use times in \<open>simp_all add: distinct_times_def sample_times sample_length Id_eq_zero uuid_Nil_def\<close>)
  then show ?thesis by (simp add: whole_history_def sample_length)
qed

theorem get_history_errors_witness:
  "\<exists>cur e w'. gethistory_Handle (\<lambda>_. 0) wired_getHistory
       \<lparr>hr_ID = Id 9, hr_ClientID = sample_client, hr_PageSize = 0, hr_Cursor = cur\<rparr> (quiet_store (sample_messages [1]) 5) = (Inl e, w')
     \<and> errors_Is e gethistory_ErrInvalidCursor"
proof -
  let ?c = "\<lparr>cur_LastCreatedAt = 7, cur_PageSize = 7\<rparr>" and ?w = "quiet_store (sample_messages [1]) 5"
  obtain cur where cur: "cursor_Encode (Cursor_json (\<lambda>_. 0)) ?c = Inr cur"
    using writable_cursor [OF writable_small, of ?c] by auto
  let ?r = "\<lparr>hr_ID = Id 9, hr_ClientID = sample_client, hr_PageSize = 0, hr_Cursor = cur\<rparr>"
  have readback: "cursor_Decode Cursor_decoder cur \<lparr>cur_LastCreatedAt = 0, cur_PageSize = 0\<rparr> = Inr ?c" "is_base64url cur" "cur \<noteq> []"
    using cursor_roundtrip [OF cur] by auto
  have bad: "Cursor_Validate ?c \<noteq> None" by simp
  have ok: "gethistory_Request_Validate ?r = None"
    unfolding gethistory_Request_Validate_def using readback by (simp add: validate_struct_None uuid_Nil_def)
  obtain r w' where run: "gethistory_Handle (\<lambda>_. 0) wired_getHistory ?r ?w = (r, w')" by force
  obtain e where e: "r = Inl e"
  proof (cases r)
    case (Inr resp)
    have "\<not> page_request_ok 0 (Some ?c)" using bad by (simp add: page_request_ok_def)
    then obtain e w1 where "messagesrepo_GetClientChatMessages sample_client 0 (Some ?c) ?w = (Inl e, w1)"
      using page_ok by (metis sum.exhaust surj_pair)
    with Handle_run [OF ok, of "Some ?c" ?w] readback run Inr show ?thesis by (auto split: if_splits)
  qed
  from get_history_errors [OF main_getHistory_wired run [unfolded e]] ok readback bad run e show ?thesis by auto
qed

end
