(* ===== verification/MsgProducer.thy ===== *)
theory MsgProducer
  imports World Json Managers
begin

text \<open>
  The message producer (\<open>internal/services/msg-producer\<close>): options, the choice of a cipher, and the
  message that goes to the topic of the antifraud service.  The Kafka writer is an interface; AES-GCM
  is a parameter of \<open>New\<close> (\<open>gcm\<close>, from a key to sealing and opening), used through \<open>cipher.AEAD\<close>.
\<close>

section \<open>Options\<close>

record 'w KafkaWriter =
  kw_WriteMessages :: "kafka_Message list \<Rightarrow> 'w \<Rightarrow> unit result \<times> 'w"
  kw_Close :: "'w \<Rightarrow> unit result \<times> 'w"

text \<open>\<open>cipher.AEAD\<close>: \<open>ae_Seal nonce plaintext\<close> is what \<open>Seal\<close> appends to its destination.\<close>

record aead =
  ae_NonceSize :: nat
  ae_Seal :: "string \<Rightarrow> string \<Rightarrow> string"
  ae_Open :: "string \<Rightarrow> string \<Rightarrow> string option"

type_synonym 'w nonce_factory = "nat \<Rightarrow> 'w \<Rightarrow> string result \<times> 'w"

record 'w msgproducer_Options =
  po_wr :: "'w KafkaWriter option"
  po_encryptKey :: string
  po_nonceFactory :: "'w nonce_factory option"

record 'w msgproducer_Service =
  ps_wr :: "'w KafkaWriter"
  ps_cipher :: "aead option"
  ps_nonceFactory :: "'w nonce_factory"

definition msgproducer_NewOptions ::
  "'w KafkaWriter option \<Rightarrow> ('w msgproducer_Options \<Rightarrow> 'w msgproducer_Options) list \<Rightarrow> 'w msgproducer_Options" where
  "msgproducer_NewOptions wr options =
     foldl (\<lambda>o' opt. opt o') \<lparr>po_wr = wr, po_encryptKey = [], po_nonceFactory = None\<rparr> options"

definition WithEncryptKey :: "string \<Rightarrow> 'w msgproducer_Options \<Rightarrow> 'w msgproducer_Options" where
  "WithEncryptKey opt o' = o'\<lparr>po_encryptKey := opt\<rparr>"

definition WithNonceFactory :: "'w nonce_factory \<Rightarrow> 'w msgproducer_Options \<Rightarrow> 'w msgproducer_Options" where
  "WithNonceFactory opt o' = o'\<lparr>po_nonceFactory := Some opt\<rparr>"

definition msgproducer_Options_Validate :: "'w msgproducer_Options \<Rightarrow> goerr option" where
  "msgproducer_Options_Validate o' = validate_options
     [(''wr'', iface (po_wr o'), [Required]),
      (''encryptKey'', VStr (po_encryptKey o'), [Omitempty, Hexadecimal])]"

text \<open>\<open>hex.DecodeString\<close>: pairs of digits; an odd length or any other byte is an error.\<close>

fun hex_DecodeString :: "string \<Rightarrow> string result" where
  "hex_DecodeString [] = Inr []"
| "hex_DecodeString [c] =
     (if hex_val c = None then Inl (New ''hex.InvalidByteError'' ''encoding/hex: invalid byte'')
      else Inl (New ''hex.ErrLength'' ''encoding/hex: odd length hex string''))"
| "hex_DecodeString (a # b # cs) =
     (case (hex_val a, hex_val b) of
        (Some x, Some y) \<Rightarrow> map_sum id (Cons (char_of (16 * x + y))) (hex_DecodeString cs)
      | _ \<Rightarrow> Inl (New ''hex.InvalidByteError'' ''encoding/hex: invalid byte''))"

text \<open>\<open>aes.NewCipher\<close> takes keys of 16, 24 or 32 bytes.\<close>

definition aes_NewCipher :: "string \<Rightarrow> string result" where
  "aes_NewCipher key =
     (if length key \<in> {16, 24, 32} then Inr key
      else Inl (Errorf (''crypto/aes: invalid key size '' @ nat_itoa (length key)) None))"

text \<open>\<open>defaultNonceFactory\<close> reads random bytes.\<close>

fun random_bytes :: "nat \<Rightarrow> 'z env_scheme \<Rightarrow> string \<times> 'z env_scheme" where
  "random_bytes 0 w = ([], w)"
| "random_bytes (Suc n) w =
     (let (x, w) = random_word w; (s, w) = random_bytes n w in (char_of (unat (x AND 255)) # s, w))"

definition defaultNonceFactory :: "nat \<Rightarrow> 'z env_scheme \<Rightarrow> string result \<times> 'z env_scheme" where
  "defaultNonceFactory n w = (let (s, w) = random_bytes n w in (Inr s, w))"

definition msgproducer_New ::
  "(string \<Rightarrow> aead) \<Rightarrow> 'z env_scheme msgproducer_Options \<Rightarrow> 'z env_scheme msgproducer_Service result" where
  "msgproducer_New gcm opts =
     (case msgproducer_Options_Validate opts of
        Some err \<Rightarrow> Inl (errorf_v ''validate options msgproducer'' err)
      | None \<Rightarrow>
          (let nonceFactory = (case po_nonceFactory opts of None \<Rightarrow> defaultNonceFactory | Some f \<Rightarrow> f) in
           if po_encryptKey opts = []
           then Inr \<lparr>ps_wr = the (po_wr opts), ps_cipher = None, ps_nonceFactory = nonceFactory\<rparr>
           else (case hex_DecodeString (po_encryptKey opts) of
                   Inl err \<Rightarrow> Inl (errorf_v ''failed to hex decode string'' err)
                 | Inr key \<Rightarrow>
                     (case aes_NewCipher key of
                        Inl err \<Rightarrow> Inl (errorf_v ''failed to encrypt NewCipher'' err)
                      | Inr aesBlock \<Rightarrow> Inr \<lparr>ps_wr = the (po_wr opts), ps_cipher = Some (gcm aesBlock),
                          ps_nonceFactory = nonceFactory\<rparr>))))"

section \<open>Messages\<close>

record producer_Message =
  pm_ID :: MessageID
  pm_ChatID :: ChatID
  pm_Body :: string
  pm_FromClient :: bool

text \<open>The value \<open>json.Marshal\<close> writes for a message: identifiers go through \<open>MarshalText\<close>.\<close>

definition producer_Message_json :: "producer_Message \<Rightarrow> json" where
  "producer_Message_json msg = JObj
     [(''id'', JStr (uuid_encodeHex (raw (pm_ID msg)))), (''chatId'', JStr (uuid_encodeHex (raw (pm_ChatID msg)))),
      (''body'', JStr (pm_Body msg)), (''fromClient'', JBool (pm_FromClient msg))]"

definition msgproducer_ProduceMessage ::
  "'z env_scheme msgproducer_Service \<Rightarrow> producer_Message \<Rightarrow> 'z env_scheme \<Rightarrow> unit result \<times> 'z env_scheme" where
  "msgproducer_ProduceMessage s msg w =
     (let data = json_Marshal (producer_Message_json msg) in
      case (case ps_cipher s of
              None \<Rightarrow> (Inr data, w)
            | Some ci \<Rightarrow>
                (case ps_nonceFactory s (ae_NonceSize ci) w of
                   (Inl errN, w) \<Rightarrow> (Inl (errorf_v ''failed to get nonce'' errN), w)
                 | (Inr nonce, w) \<Rightarrow> (Inr (nonce @ ae_Seal ci nonce data), w))) of
        (Inl err, w) \<Rightarrow> (Inl err, w)
      | (Inr cipherText, w) \<Rightarrow>
          (let (now, w) = time_Now w in
           case kw_WriteMessages (ps_wr s)
                  [\<lparr>km_Key = uuid_encodeHex (raw (pm_ChatID msg)), km_Value = cipherText, km_Time = now\<rparr>] w of
             (Inl err, w) \<Rightarrow> (Inl (errorf_v ''failed to write message to kafka'' err), w)
           | (Inr _, w) \<Rightarrow> (Inr (), w)))"

definition msgproducer_Close :: "'w msgproducer_Service \<Rightarrow> 'w \<Rightarrow> unit result \<times> 'w" where
  "msgproducer_Close s w = kw_Close (ps_wr s) w"

section \<open>What a reader of the topic sees\<close>

text \<open>The message behind the value of a Kafka message, for a reader that has the cipher.\<close>

definition find_member :: "string \<Rightarrow> json \<Rightarrow> json option" where
  "find_member k v = (case v of JObj ms \<Rightarrow> map_of ms k | _ \<Rightarrow> None)"

definition read_producer_Message :: "aead option \<Rightarrow> string \<Rightarrow> producer_Message option" where
  "read_producer_Message ci v =
     (case (case ci of
              None \<Rightarrow> Some v
            | Some c \<Rightarrow> ae_Open c (take (ae_NonceSize c) v) (drop (ae_NonceSize c) v)) of
        None \<Rightarrow> None
      | Some data \<Rightarrow>
          (case json_Unmarshal data of
             Inl _ \<Rightarrow> None
           | Inr j \<Rightarrow>
               (case (find_member ''id'' j, find_member ''chatId'' j, find_member ''body'' j, find_member ''fromClient'' j) of
                  (Some (JStr i), Some (JStr c), Some (JStr b), Some (JBool f)) \<Rightarrow>
                    Some \<lparr>pm_ID = fst (types_Parse i), pm_ChatID = fst (types_Parse c), pm_Body = b, pm_FromClient = f\<rparr>
                | _ \<Rightarrow> None)))"

lemma json_ints_Message [simp]: "json_ints (producer_Message_json msg)"
  by (simp add: producer_Message_json_def)

lemma hex_char_ascii: "n < 16 \<Longrightarrow> of_char (hex_char n) < (128 :: nat)"
  by (simp add: hex_char_def)

lemma uuid_byte_div: "uuid_byte u i div 16 < 16"
  by (simp add: uuid_byte_def less_mult_imp_div_less)

lemma encodeHex_ascii: "\<forall>c \<in> set (uuid_encodeHex u). of_char c < (128 :: nat)"
  by (simp add: uuid_encodeHex_list Let_def hex_char_ascii uuid_byte_div)

lemma utf8_repair_encodeHex [simp]: "utf8_repair (uuid_encodeHex u) = uuid_encodeHex u"
  by (rule utf8_repair_ascii [OF encodeHex_ascii])

lemma Message_Unmarshal:
  "json_Unmarshal (json_Marshal (producer_Message_json msg)) =
     Inr (producer_Message_json (msg\<lparr>pm_Body := utf8_repair (pm_Body msg)\<rparr>))"
  using json_roundtrip [OF json_ints_Message [of msg]] utf8_repair_ascii
  by (simp add: producer_Message_json_def)

lemma random_bytes_length: "random_bytes n w = (s, w') \<Longrightarrow> length s = n \<and> topic w' = topic (w :: world)"
proof (induction n arbitrary: s w w')
  case (Suc n)
  then show ?case by (fastforce simp: random_word_def Let_def split: prod.splits)
qed simp

lemma topic_WriteMessages_cases:
  assumes "topic_WriteMessages ms w = (r, w')"
  shows "(r = Inr () \<and> topic w' = topic w @ ms) \<or> ((\<exists>e. r = Inl e) \<and> (topic w' = topic w \<or> topic w' = topic w @ ms))"
  using assms
  by (auto simp: topic_WriteMessages_def statement_def next_fault_def split: option.splits fault.splits list.splits)

lemma topic_time_Now: "time_Now (w :: world) = (t, w') \<Longrightarrow> topic w' = topic w"
  by (auto simp: time_Now_def split: list.splits)

definition topic_writer :: "world KafkaWriter" where
  "topic_writer = \<lparr>kw_WriteMessages = topic_WriteMessages, kw_Close = (\<lambda>w. (Inr (), w))\<rparr>"

text \<open>A cipher whose openings undo its sealings.\<close>

definition opens_sealed :: "aead \<Rightarrow> bool" where
  "opens_sealed c \<longleftrightarrow> (\<forall>n p. length n = ae_NonceSize c \<longrightarrow> ae_Open c n (ae_Seal c n p) = Some p)"

lemma read_sealed:
  assumes "opens_sealed c" and "length n = ae_NonceSize c"
  shows "read_producer_Message (Some c) (n @ ae_Seal c n (json_Marshal (producer_Message_json msg))) =
    Some (msg\<lparr>pm_Body := utf8_repair (pm_Body msg)\<rparr>)"
  using assms
  by (simp add: read_producer_Message_def opens_sealed_def Message_Unmarshal)
     (simp add: producer_Message_json_def find_member_def)

lemma read_plain:
  "read_producer_Message None (json_Marshal (producer_Message_json msg)) = Some (msg\<lparr>pm_Body := utf8_repair (pm_Body msg)\<rparr>)"
  by (simp add: read_producer_Message_def Message_Unmarshal)
     (simp add: producer_Message_json_def find_member_def)

lemma msgproducer_New_fields:
  assumes "msgproducer_New gcm (msgproducer_NewOptions (Some wr) opts) = Inr s" and "opts = [] \<or> opts = [WithEncryptKey key]"
  shows "ps_wr s = wr \<and> ps_nonceFactory s = defaultNonceFactory \<and> (ps_cipher s = None \<or> (\<exists>k. ps_cipher s = Some (gcm k)))"
  using assms
  by (auto simp: msgproducer_New_def msgproducer_NewOptions_def WithEncryptKey_def Let_def
      split: option.splits if_splits sum.splits)

lemma ProduceMessage_readable:
  assumes s: "ps_wr s = topic_writer \<and> ps_nonceFactory s = defaultNonceFactory"
    and law: "\<And>c. ps_cipher s = Some c \<Longrightarrow> opens_sealed c"
    and run: "msgproducer_ProduceMessage s msg w = (r, w')"
  shows "(r \<noteq> Inr () \<and> topic w' = topic w) \<or>
    (\<exists>m. topic w' = topic w @ [m] \<and> km_Key m = uuid_encodeHex (raw (pm_ChatID msg)) \<and>
      read_producer_Message (ps_cipher s) (km_Value m) = Some (msg\<lparr>pm_Body := utf8_repair (pm_Body msg)\<rparr>))"
proof -
  let ?data = "json_Marshal (producer_Message_json msg)"
  have written: "(r' \<noteq> Inr () \<and> topic w2 = topic w0) \<or> (\<exists>m. topic w2 = topic w0 @ [m] \<and> km_Key m = k \<and> km_Value m = v)"
    if "kw_WriteMessages (ps_wr s) [\<lparr>km_Key = k, km_Value = v, km_Time = t\<rparr>] w1 = (r', w2)" "topic w1 = topic w0"
    for k v t w0 w1 w2 r'
    using topic_WriteMessages_cases [of "[\<lparr>km_Key = k, km_Value = v, km_Time = t\<rparr>]" w1 r' w2] that s
    by (auto simp: topic_writer_def)
  show ?thesis
  proof (cases "ps_cipher s")
    case None
    obtain t w1 where t: "time_Now w = (t, w1)" by force
    obtain q w2 where q: "kw_WriteMessages (ps_wr s)
        [\<lparr>km_Key = uuid_encodeHex (raw (pm_ChatID msg)), km_Value = ?data, km_Time = t\<rparr>] w1 = (q, w2)" by force
    from written [OF q topic_time_Now [OF t]] read_plain [of msg] run None t q show ?thesis
      by (cases q) (auto simp: msgproducer_ProduceMessage_def)
  next
    case (Some c)
    then have c: "opens_sealed c" by (rule law)
    obtain n w0 where n: "random_bytes (ae_NonceSize c) w = (n, w0)" by force
    note len = random_bytes_length [OF n]
    obtain t w1 where t: "time_Now w0 = (t, w1)" by force
    let ?v = "n @ ae_Seal c n ?data"
    obtain q w2 where q: "kw_WriteMessages (ps_wr s)
        [\<lparr>km_Key = uuid_encodeHex (raw (pm_ChatID msg)), km_Value = ?v, km_Time = t\<rparr>] w1 = (q, w2)" by force
    have "r = (case q of Inl err \<Rightarrow> Inl (errorf_v ''failed to write message to kafka'' err) | Inr _ \<Rightarrow> Inr ())" "w' = w2"
      using run Some s n t q
      by (auto simp: msgproducer_ProduceMessage_def defaultNonceFactory_def split: sum.splits)
    with written [OF q topic_time_Now [OF t]] read_sealed [OF c, of n msg] len Some show ?thesis
      by (cases q) auto
  qed
qed

text \<open>
  C18. What the producer writes can be read.  A call of \<open>ProduceMessage\<close>, with or without a key, that
  reports success has appended one Kafka message to the topic, under the chat's identifier as key, from
  which a reader with the same cipher gets the message back (with U+FFFD in place of invalid UTF-8); a
  call that fails has appended that one message or none.
\<close>

theorem produced_message_readable:
  assumes "msgproducer_New gcm (msgproducer_NewOptions (Some topic_writer) opts) = Inr s"
    and "opts = [] \<or> opts = [WithEncryptKey key]" and "\<forall>k. opens_sealed (gcm k)"
    and "msgproducer_ProduceMessage s msg w = (r, w')"
  shows "(r \<noteq> Inr () \<and> topic w' = topic w) \<or>
    (\<exists>m. topic w' = topic w @ [m] \<and> km_Key m = uuid_encodeHex (raw (pm_ChatID msg)) \<and>
      read_producer_Message (ps_cipher s) (km_Value m) = Some (msg\<lparr>pm_Body := utf8_repair (pm_Body msg)\<rparr>))"
proof (rule ProduceMessage_readable)
  note s = msgproducer_New_fields [OF assms(1, 2)]
  then show "ps_wr s = topic_writer \<and> ps_nonceFactory s = defaultNonceFactory" by simp
  show "opens_sealed c" if "ps_cipher s = Some c" for c using s assms(3) that by auto
qed (rule assms(4))

text \<open>A cipher for the witness: the plaintext reversed behind an empty nonce.\<close>

definition sample_aead :: "string \<Rightarrow> aead" where
  "sample_aead k = \<lparr>ae_NonceSize = 0, ae_Seal = (\<lambda>n p. rev p), ae_Open = (\<lambda>n c. Some (rev c))\<rparr>"

definition sample_producer :: "world msgproducer_Service" where
  "sample_producer = \<lparr>ps_wr = topic_writer, ps_cipher = None, ps_nonceFactory = defaultNonceFactory\<rparr>"

definition sample_produced :: producer_Message where
  "sample_produced = \<lparr>pm_ID = Id 1, pm_ChatID = Id 2, pm_Body = ''hi'', pm_FromClient = True\<rparr>"

lemma sample_producer_New: "msgproducer_New sample_aead (msgproducer_NewOptions (Some topic_writer) []) = Inr sample_producer"
  by (simp add: msgproducer_New_def msgproducer_NewOptions_def msgproducer_Options_Validate_def
      validate_options_None [THEN iffD2] sample_producer_def)

theorem produced_message_readable_witness:
  "\<exists>m w'. msgproducer_ProduceMessage sample_producer sample_produced (quiet_world empty_database 5) = (Inr (), w') \<and>
     topic w' = [m] \<and> read_producer_Message None (km_Value m) = Some sample_produced"
proof -
  let ?w = "quiet_world empty_database 5"
  have law: "\<forall>k. opens_sealed (sample_aead k)" by (simp add: opens_sealed_def sample_aead_def)
  obtain w' where w': "msgproducer_ProduceMessage sample_producer sample_produced ?w = (Inr (), w')"
    by (simp add: msgproducer_ProduceMessage_def sample_producer_def topic_writer_def topic_WriteMessages_def quiet_simps)
  from produced_message_readable [OF sample_producer_New _ law w', of "[]"] show ?thesis
    using w' by (simp add: sample_producer_def) (auto simp: sample_produced_def)
qed

end
