(* ===== verification/ClientEvents.thy ===== *)
theory ClientEvents
  imports EventStream JsonEncode GetHistory MsgProducer
begin

text \<open>
  The events as clients see them (\<open>internal/server-client/events\<close>): the generated models, of which an
  \<open>Event\<close> holds one as raw JSON told apart by its \<open>eventType\<close>, and the adapter from the events of the
  stream.  What the adapter makes of an event reads back from what is written to the socket.
\<close>

section \<open>Models\<close>

record EventCommon =
  cc_EventId :: EventID
  cc_EventType :: string
  cc_MessageId :: MessageID
  cc_RequestId :: RequestID

definition EventCommon_json :: "EventCommon \<Rightarrow> json" where
  "EventCommon_json e = JObj [(''eventId'', id_json (cc_EventId e)), (''eventType'', JStr (cc_EventType e)),
     (''messageId'', id_json (cc_MessageId e)), (''requestId'', id_json (cc_RequestId e))]"

definition EventCommon_decoder :: "EventCommon decoder" where
  "EventCommon_decoder = decode_object ''EventCommon''
     [(''eventId'', decode_text EventID (\<lambda>x e. e\<lparr>cc_EventId := x\<rparr>)),
      (''eventType'', decode_string (\<lambda>x e. e\<lparr>cc_EventType := x\<rparr>)),
      (''messageId'', decode_text MessageID (\<lambda>x e. e\<lparr>cc_MessageId := x\<rparr>)),
      (''requestId'', decode_text RequestID (\<lambda>x e. e\<lparr>cc_RequestId := x\<rparr>))]"

record client_NewMessageEvent =
  cn_AuthorId :: "UserID option"
  cn_Body :: string
  cn_CreatedAt :: time
  cn_EventId :: EventID
  cn_EventType :: string
  cn_IsService :: bool
  cn_MessageId :: MessageID
  cn_RequestId :: RequestID

definition client_NewMessageEvent_json :: "(time \<Rightarrow> int) \<Rightarrow> client_NewMessageEvent \<Rightarrow> json result" where
  "client_NewMessageEvent_json zone e =
     (case time_json zone (cn_CreatedAt e) of
        Inl err \<Rightarrow> Inl err
      | Inr t \<Rightarrow> Inr (JObj (omit_nil ''authorId'' (map_option id_json (cn_AuthorId e))
          @ [(''body'', JStr (cn_Body e)), (''createdAt'', t), (''eventId'', id_json (cn_EventId e)),
             (''eventType'', JStr (cn_EventType e)), (''isService'', JBool (cn_IsService e)),
             (''messageId'', id_json (cn_MessageId e)), (''requestId'', id_json (cn_RequestId e))])))"

definition client_NewMessageEvent_decoder :: "client_NewMessageEvent decoder" where
  "client_NewMessageEvent_decoder = decode_object ''NewMessageEvent''
     [(''authorId'', decode_ptr cn_AuthorId (\<lambda>x e. e\<lparr>cn_AuthorId := x\<rparr>) 0 (decode_text UserID (\<lambda>x _. x))),
      (''body'', decode_string (\<lambda>x e. e\<lparr>cn_Body := x\<rparr>)),
      (''createdAt'', decode_time (\<lambda>x e. e\<lparr>cn_CreatedAt := x\<rparr>)),
      (''eventId'', decode_text EventID (\<lambda>x e. e\<lparr>cn_EventId := x\<rparr>)),
      (''eventType'', decode_string (\<lambda>x e. e\<lparr>cn_EventType := x\<rparr>)),
      (''isService'', decode_bool (\<lambda>x e. e\<lparr>cn_IsService := x\<rparr>)),
      (''messageId'', decode_text MessageID (\<lambda>x e. e\<lparr>cn_MessageId := x\<rparr>)),
      (''requestId'', decode_text RequestID (\<lambda>x e. e\<lparr>cn_RequestId := x\<rparr>))]"

text \<open>The zero values that decoding starts from; the zero time is the first instant of year 1.\<close>

definition zero_EventCommon :: EventCommon where
  "zero_EventCommon = \<lparr>cc_EventId = 0, cc_EventType = [], cc_MessageId = 0, cc_RequestId = 0\<rparr>"

definition zero_NewMessageEvent :: client_NewMessageEvent where
  "zero_NewMessageEvent = \<lparr>cn_AuthorId = None, cn_Body = [], cn_CreatedAt = 0, cn_EventId = 0, cn_EventType = [],
     cn_IsService = False, cn_MessageId = 0, cn_RequestId = 0\<rparr>"

section \<open>The union\<close>

record client_Event =
  union_of :: "string option"

text \<open>What \<open>ValueByDiscriminator\<close> can give; two of the three models are the same type.\<close>

datatype client_value =
    ValueCommon EventCommon
  | ValueNewMessage client_NewMessageEvent

definition raw_into :: "'s decoder \<Rightarrow> client_Event \<Rightarrow> 's \<Rightarrow> 's result" where
  "raw_into d t z = json_into d (case union_of t of None \<Rightarrow> [] | Some b \<Rightarrow> b) z"

definition Event_AsNewMessageEvent :: "client_Event \<Rightarrow> client_NewMessageEvent result" where
  "Event_AsNewMessageEvent t = raw_into client_NewMessageEvent_decoder t zero_NewMessageEvent"

definition Event_FromNewMessageEvent ::
  "(time \<Rightarrow> int) \<Rightarrow> client_NewMessageEvent \<Rightarrow> client_Event \<Rightarrow> goerr option \<times> client_Event" where
  "Event_FromNewMessageEvent zone v t =
     (case client_NewMessageEvent_json zone (v\<lparr>cn_EventType := ''NewMessageEvent''\<rparr>) of
        Inl err \<Rightarrow> (Some err, t\<lparr>union_of := None\<rparr>)
      | Inr j \<Rightarrow> (None, t\<lparr>union_of := Some (json_Marshal j)\<rparr>))"

definition merge_union :: "string \<Rightarrow> client_Event \<Rightarrow> goerr option \<times> client_Event" where
  "merge_union b t =
     (case JSONMerge (union_of t) (Some b) of
        Inl err \<Rightarrow> (Some err, t\<lparr>union_of := None\<rparr>)
      | Inr merged \<Rightarrow> (None, t\<lparr>union_of := Some merged\<rparr>))"

definition Event_MergeNewMessageEvent ::
  "(time \<Rightarrow> int) \<Rightarrow> client_NewMessageEvent \<Rightarrow> client_Event \<Rightarrow> goerr option \<times> client_Event" where
  "Event_MergeNewMessageEvent zone v t =
     (case client_NewMessageEvent_json zone (v\<lparr>cn_EventType := ''NewMessageEvent''\<rparr>) of
        Inl err \<Rightarrow> (Some err, t)
      | Inr j \<Rightarrow> merge_union (json_Marshal j) t)"

definition Event_AsMessageSentEvent :: "client_Event \<Rightarrow> EventCommon result" where
  "Event_AsMessageSentEvent t = raw_into EventCommon_decoder t zero_EventCommon"

definition Event_FromMessageSentEvent :: "EventCommon \<Rightarrow> client_Event \<Rightarrow> goerr option \<times> client_Event" where
  "Event_FromMessageSentEvent v t =
     (None, t\<lparr>union_of := Some (json_Marshal (EventCommon_json (v\<lparr>cc_EventType := ''MessageSentEvent''\<rparr>)))\<rparr>)"

definition Event_MergeMessageSentEvent :: "EventCommon \<Rightarrow> client_Event \<Rightarrow> goerr option \<times> client_Event" where
  "Event_MergeMessageSentEvent v t =
     merge_union (json_Marshal (EventCommon_json (v\<lparr>cc_EventType := ''MessageSentEvent''\<rparr>))) t"

definition Event_AsMessageBlockedEvent :: "client_Event \<Rightarrow> EventCommon result" where
  "Event_AsMessageBlockedEvent t = raw_into EventCommon_decoder t zero_EventCommon"

definition Event_FromMessageBlockedEvent :: "EventCommon \<Rightarrow> client_Event \<Rightarrow> goerr option \<times> client_Event" where
  "Event_FromMessageBlockedEvent v t =
     (None, t\<lparr>union_of := Some (json_Marshal (EventCommon_json (v\<lparr>cc_EventType := ''MessageBlockedEvent''\<rparr>)))\<rparr>)"

definition Event_MergeMessageBlockedEvent :: "EventCommon \<Rightarrow> client_Event \<Rightarrow> goerr option \<times> client_Event" where
  "Event_MergeMessageBlockedEvent v t =
     merge_union (json_Marshal (EventCommon_json (v\<lparr>cc_EventType := ''MessageBlockedEvent''\<rparr>))) t"

definition Event_Discriminator :: "client_Event \<Rightarrow> string result" where
  "Event_Discriminator t =
     raw_into (decode_object ''struct'' [(''eventType'', decode_string (\<lambda>x _. x))]) t []"

definition Event_ValueByDiscriminator :: "client_Event \<Rightarrow> client_value result" where
  "Event_ValueByDiscriminator t =
     (case Event_Discriminator t of
        Inl err \<Rightarrow> Inl err
      | Inr d \<Rightarrow>
          if d = ''MessageBlockedEvent'' then map_sum id ValueCommon (Event_AsMessageBlockedEvent t)
          else if d = ''MessageSentEvent'' then map_sum id ValueCommon (Event_AsMessageSentEvent t)
          else if d = ''NewMessageEvent'' then map_sum id ValueNewMessage (Event_AsNewMessageEvent t)
          else Inl (New ''errors.New'' (''unknown discriminator value: '' @ d)))"

definition Event_MarshalJSON :: "client_Event \<Rightarrow> string" where
  "Event_MarshalJSON t = raw_MarshalJSON (union_of t)"

definition Event_UnmarshalJSON :: "string \<Rightarrow> client_Event \<Rightarrow> client_Event" where
  "Event_UnmarshalJSON b t = t\<lparr>union_of := Some b\<rparr>"

section \<open>The adapter\<close>

definition ErrUnexpectedEventType :: goerr where
  "ErrUnexpectedEventType = New ''clientevents.ErrUnexpectedEventType'' ''unexpected event type''"

definition adapted :: "goerr option \<times> client_Event \<Rightarrow> client_Event result" where
  "adapted r = (case r of (Some err, _) \<Rightarrow> Inl (errorf_v ''from new message event'' err) | (None, event) \<Rightarrow> Inr event)"

text \<open>\<open>None\<close> is the nil event; no other type implements the interface.\<close>

definition Adapter_Adapt :: "(time \<Rightarrow> int) \<Rightarrow> event option \<Rightarrow> client_Event result" where
  "Adapter_Adapt zone ev =
     (case ev of
        Some (NewMessageEvent e r c m u t b s) \<Rightarrow>
          adapted (Event_FromNewMessageEvent zone
            \<lparr>cn_AuthorId = pointer_PtrWithZeroAsNil 0 u, cn_Body = b, cn_CreatedAt = t, cn_EventId = e, cn_EventType = [],
             cn_IsService = s, cn_MessageId = m, cn_RequestId = r\<rparr> \<lparr>union_of = None\<rparr>)
      | Some (MessageSentEvent e r m) \<Rightarrow>
          adapted (Event_FromMessageSentEvent \<lparr>cc_EventId = e, cc_EventType = [], cc_MessageId = m, cc_RequestId = r\<rparr>
            \<lparr>union_of = None\<rparr>)
      | Some (MessageBlockEvent e r m) \<Rightarrow>
          adapted (Event_FromMessageBlockedEvent \<lparr>cc_EventId = e, cc_EventType = [], cc_MessageId = m, cc_RequestId = r\<rparr>
            \<lparr>union_of = None\<rparr>)
      | None \<Rightarrow> Inl ErrUnexpectedEventType)"

text \<open>
  \<open>JSONEventWriter.Write\<close> of \<open>internal/websocket-stream\<close>, for adapted events: the text goes to the writer in
  one call.
\<close>

definition JSONEventWriter_Write :: "client_Event \<Rightarrow> (string \<Rightarrow> 'w \<Rightarrow> goerr option \<times> 'w) \<Rightarrow> 'w \<Rightarrow> goerr option \<times> 'w" where
  "JSONEventWriter_Write event out w =
     (case json_Encode ''clientevents.Event'' (Event_MarshalJSON event) of
        Inl err \<Rightarrow> (Some (errorf_v ''json encode'' err), w)
      | Inr b \<Rightarrow> (case out b w of
                    (Some err, w) \<Rightarrow> (Some (errorf_v ''json encode'' err), w)
                  | (None, w) \<Rightarrow> (None, w)))"

section \<open>What is sent reads back\<close>

text \<open>What a client can know of an event; the chat is not told.\<close>

definition client_view :: "event \<Rightarrow> client_value" where
  "client_view ev =
     (case ev of
        MessageSentEvent e r m \<Rightarrow> ValueCommon
          \<lparr>cc_EventId = e, cc_EventType = ''MessageSentEvent'', cc_MessageId = m, cc_RequestId = r\<rparr>
      | MessageBlockEvent e r m \<Rightarrow> ValueCommon
          \<lparr>cc_EventId = e, cc_EventType = ''MessageBlockedEvent'', cc_MessageId = m, cc_RequestId = r\<rparr>
      | NewMessageEvent e r c m u t b s \<Rightarrow> ValueNewMessage
          \<lparr>cn_AuthorId = (if u = 0 then None else Some u), cn_Body = utf8_repair b, cn_CreatedAt = t, cn_EventId = e,
           cn_EventType = ''NewMessageEvent'', cn_IsService = s, cn_MessageId = m, cn_RequestId = r\<rparr>)"

definition event_writable :: "(time \<Rightarrow> int) \<Rightarrow> event \<Rightarrow> bool" where
  "event_writable zone ev \<longleftrightarrow> (case ev of NewMessageEvent e r c m u t b s \<Rightarrow> writable zone t | _ \<Rightarrow> True)"

lemma json_folds:
  "json_fold ''eventId'' = ''EVENTID''" "json_fold ''messageId'' = ''MESSAGEID''" "json_fold ''requestId'' = ''REQUESTID''"
  "json_fold ''authorId'' = ''AUTHORID''" "json_fold ''body'' = ''BODY''" "json_fold ''createdAt'' = ''CREATEDAT''"
  "json_fold ''isService'' = ''ISSERVICE''" "json_fold ''eventType'' = ''EVENTTYPE''"
  by code_simp+

text \<open>The only member that the discriminator reads.\<close>

lemma discriminator_field:
  "json_field ''eventType'' [(''eventType'', d)] = Some d" "json_field ''eventId'' [(''eventType'', d)] = None"
  "json_field ''messageId'' [(''eventType'', d)] = None" "json_field ''requestId'' [(''eventType'', d)] = None"
  "json_field ''authorId'' [(''eventType'', d)] = None" "json_field ''body'' [(''eventType'', d)] = None"
  "json_field ''createdAt'' [(''eventType'', d)] = None" "json_field ''isService'' [(''eventType'', d)] = None"
  by (simp_all add: json_field_def json_folds del: json_fold.simps)

lemma decode_text_uuid [simp]:
  "decode_text (gen_type n) f (JStr (uuid_encodeHex (raw i))) s = (None, f i s)"
  by (simp add: decode_text_def)

lemma EventCommon_reads_back:
  assumes "json_Unmarshal b = Inr (json_repair (EventCommon_json v))"
    and "utf8_repair (cc_EventType v) = cc_EventType v"
  shows "Event_Discriminator \<lparr>union_of = Some b\<rparr> = Inr (cc_EventType v)"
    and "raw_into EventCommon_decoder \<lparr>union_of = Some b\<rparr> zero_EventCommon = Inr v"
proof -
  show "Event_Discriminator \<lparr>union_of = Some b\<rparr> = Inr (cc_EventType v)"
    using assms by (simp add: Event_Discriminator_def raw_into_def json_into_def EventCommon_json_def decode_object_def
        discriminator_field decode_string_def id_json_def)
  show "raw_into EventCommon_decoder \<lparr>union_of = Some b\<rparr> zero_EventCommon = Inr v"
    using assms by (simp add: raw_into_def json_into_def EventCommon_json_def decode_object_def json_field_def
        decode_string_def id_json_def EventCommon_decoder_def zero_EventCommon_def idops_defs uuid_String_def del: json_fold.simps)
qed

lemma EventCommon_ints [simp]: "json_ints (EventCommon_json v)"
  by (simp add: EventCommon_json_def id_json_def)

lemma NewMessage_reads_back:
  assumes "client_NewMessageEvent_json zone v = Inr j" and "json_Unmarshal b = Inr (json_repair j)"
    and "utf8_repair (cn_EventType v) = cn_EventType v"
  shows "Event_Discriminator \<lparr>union_of = Some b\<rparr> = Inr (cn_EventType v)"
    and "Event_AsNewMessageEvent \<lparr>union_of = Some b\<rparr> = Inr (v\<lparr>cn_Body := utf8_repair (cn_Body v)\<rparr>)"
proof -
  obtain t where t: "time_MarshalText (zone (cn_CreatedAt v)) (cn_CreatedAt v) = Inr t"
    and j: "j = JObj (omit_nil ''authorId'' (map_option id_json (cn_AuthorId v))
          @ [(''body'', JStr (cn_Body v)), (''createdAt'', JStr t), (''eventId'', id_json (cn_EventId v)),
             (''eventType'', JStr (cn_EventType v)), (''isService'', JBool (cn_IsService v)),
             (''messageId'', id_json (cn_MessageId v)), (''requestId'', id_json (cn_RequestId v))])"
    using assms(1) by (auto simp: client_NewMessageEvent_json_def time_json_def split: sum.splits)
  note rt = time_text_roundtrip [OF t] utf8_repair_ascii [OF time_text_ascii [OF t]] assms(2, 3)
  show "Event_Discriminator \<lparr>union_of = Some b\<rparr> = Inr (cn_EventType v)"
    by (cases "cn_AuthorId v") (simp_all add: rt j Event_Discriminator_def raw_into_def json_into_def decode_object_def
        discriminator_field decode_string_def id_json_def omit_nil_def)
  show "Event_AsNewMessageEvent \<lparr>union_of = Some b\<rparr> = Inr (v\<lparr>cn_Body := utf8_repair (cn_Body v)\<rparr>)"
    by (cases v; cases "cn_AuthorId v") (use rt j in \<open>simp_all add: Event_AsNewMessageEvent_def raw_into_def json_into_def decode_object_def json_field_def
        decode_string_def decode_bool_def decode_time_def decode_ptr_def id_json_def omit_nil_def uuid_String_def
        client_NewMessageEvent_decoder_def zero_NewMessageEvent_def idops_defs del: json_fold.simps\<close>)
qed

lemma NewMessage_ints: "client_NewMessageEvent_json zone v = Inr j \<Longrightarrow> json_ints j"
  by (auto simp: client_NewMessageEvent_json_def time_json_def id_json_def omit_nil_def split: sum.splits option.splits)

text \<open>The JSON that the adapter puts in the union for an event.\<close>

lemma Adapt_union:
  assumes "event_writable zone ev"
  obtains j where "Adapter_Adapt zone (Some ev) = Inr \<lparr>union_of = Some (json_Marshal j)\<rparr>" "json_ints j"
    "\<forall>b. json_Unmarshal b = Inr (json_repair j) \<longrightarrow> Event_ValueByDiscriminator \<lparr>union_of = Some b\<rparr> = Inr (client_view ev)"
proof (cases ev)
  case (MessageSentEvent e r m)
  let ?v = "\<lparr>cc_EventId = e, cc_EventType = ''MessageSentEvent'', cc_MessageId = m, cc_RequestId = r\<rparr>"
  have "utf8_repair (cc_EventType ?v) = cc_EventType ?v" by (simp add: utf8_repair_ascii)
  with MessageSentEvent show ?thesis
    using EventCommon_reads_back [of _ ?v]
    by (intro that [of "EventCommon_json ?v"]) (auto simp: Adapter_Adapt_def Event_FromMessageSentEvent_def adapted_def
        Event_ValueByDiscriminator_def client_view_def Event_AsMessageSentEvent_def)
next
  case (MessageBlockEvent e r m)
  let ?v = "\<lparr>cc_EventId = e, cc_EventType = ''MessageBlockedEvent'', cc_MessageId = m, cc_RequestId = r\<rparr>"
  have "utf8_repair (cc_EventType ?v) = cc_EventType ?v" by (simp add: utf8_repair_ascii)
  with MessageBlockEvent show ?thesis
    using EventCommon_reads_back [of _ ?v]
    by (intro that [of "EventCommon_json ?v"]) (auto simp: Adapter_Adapt_def Event_FromMessageBlockedEvent_def adapted_def
        Event_ValueByDiscriminator_def client_view_def Event_AsMessageBlockedEvent_def)
next
  case (NewMessageEvent e r c m u t b s)
  let ?v = "\<lparr>cn_AuthorId = pointer_PtrWithZeroAsNil 0 u, cn_Body = b, cn_CreatedAt = t, cn_EventId = e,
      cn_EventType = ''NewMessageEvent'', cn_IsService = s, cn_MessageId = m, cn_RequestId = r\<rparr>"
  obtain j where j: "client_NewMessageEvent_json zone ?v = Inr j"
    using assms NewMessageEvent
    by (auto simp: event_writable_def writable_def client_NewMessageEvent_json_def time_json_def)
  have "utf8_repair (cn_EventType ?v) = cn_EventType ?v" by (simp add: utf8_repair_ascii)
  with NewMessageEvent j NewMessage_ints [OF j] show ?thesis
    using NewMessage_reads_back [OF j]
    by (intro that [of j]) (auto simp: Adapter_Adapt_def Event_FromNewMessageEvent_def adapted_def
        Event_ValueByDiscriminator_def client_view_def pointer_PtrWithZeroAsNil_def)
qed

text \<open>
  C35. What the client API sends for an event is one line of JSON written in one piece, from which
  \<open>ValueByDiscriminator\<close> gives back everything that the event tells a client: its kind, the identifiers, and for
  a new message the author (none for a service message), the instant, whether it is a service message and
  the text, repaired where it is no UTF-8.  The one thing that can fail is an instant whose year RFC 3339 cannot write.
\<close>

theorem event_reads_back:
  "if event_writable zone ev
   then (\<exists>event line.
     Adapter_Adapt zone (Some ev) = Inr event \<and>
     JSONEventWriter_Write event out w = map_prod (map_option (errorf_v ''json encode'')) id (out (line @ [CHR 0x0A]) w) \<and>
     Event_ValueByDiscriminator (Event_UnmarshalJSON line \<lparr>union_of = None\<rparr>) = Inr (client_view ev))
   else (\<exists>err. Adapter_Adapt zone (Some ev) = Inl err)"
proof (cases "event_writable zone ev")
  case True
  then obtain j where j: "Adapter_Adapt zone (Some ev) = Inr \<lparr>union_of = Some (json_Marshal j)\<rparr>" "json_ints j"
    "\<forall>b. json_Unmarshal b = Inr (json_repair j) \<longrightarrow> Event_ValueByDiscriminator \<lparr>union_of = Some b\<rparr> = Inr (client_view ev)"
    by (rule Adapt_union)
  have "JSONEventWriter_Write \<lparr>union_of = Some (json_Marshal j)\<rparr> out w =
      map_prod (map_option (errorf_v ''json encode'')) id (out (json_Marshal j @ [CHR 0x0A]) w)"
    using json_Encode_Marshal [OF j(2)]
    by (simp add: JSONEventWriter_Write_def Event_MarshalJSON_def raw_MarshalJSON_def split: prod.splits option.splits)
  with j(1) j(3) json_roundtrip [OF j(2)] have "\<exists>event line.
     Adapter_Adapt zone (Some ev) = Inr event \<and>
     JSONEventWriter_Write event out w = map_prod (map_option (errorf_v ''json encode'')) id (out (line @ [CHR 0x0A]) w) \<and>
     Event_ValueByDiscriminator (Event_UnmarshalJSON line \<lparr>union_of = None\<rparr>) = Inr (client_view ev)"
    by (intro exI [of _ "\<lparr>union_of = Some (json_Marshal j)\<rparr>"] exI [of _ "json_Marshal j"])
      (simp add: Event_UnmarshalJSON_def)
  with True show ?thesis by simp
next
  case False
  then show ?thesis
    by (cases ev) (auto simp: event_writable_def writable_def Adapter_Adapt_def adapted_def Event_FromNewMessageEvent_def
        client_NewMessageEvent_json_def time_json_def split: sum.splits)
qed

end
