(* ===== verification/Auth.thy ===== *)
theory Auth
  imports Http Base64 "HOL-Library.AList"
begin

text \<open>
  Authentication (\<open>internal/middlewares\<close>): the claims of a token, the middleware that asks Keycloak about
  the token of every request, and the identity that the handlers read from the context.  The parser
  of tokens (\<open>golang-jwt\<close>) and the middleware \<open>KeyAuth\<close> of echo are modelled as far as they are used here;
  what Keycloak answers is an argument: its answers about one token do not change within a request.
\<close>

section \<open>Claims\<close>

text \<open>\<open>claims\<close>: the standard claims, embedded, and the roles per resource (a map without duplicates).\<close>

record claims =
  cl_Audience :: string
  cl_ExpiresAt :: int
  cl_Id :: string
  cl_IssuedAt :: int
  cl_Issuer :: string
  cl_NotBefore :: int
  cl_Subject :: string
  cl_ResourceAccess :: "(string \<times> string list) list"

definition no_claims :: claims where
  "no_claims = \<lparr>cl_Audience = [], cl_ExpiresAt = 0, cl_Id = [], cl_IssuedAt = 0, cl_Issuer = [],
     cl_NotBefore = 0, cl_Subject = [], cl_ResourceAccess = []\<rparr>"

definition ErrNoAllowedResources :: goerr where
  "ErrNoAllowedResources = New ''middlewares.ErrNoAllowedResources'' ''no allowed resources''"
definition ErrSubjectNotDefined :: goerr where
  "ErrSubjectNotDefined = New ''middlewares.ErrSubjectNotDefined'' (strconv_Quote ''sub'' @ '' is not defined'')"

definition claims_UserID :: "claims \<Rightarrow> UserID" where
  "claims_UserID c = fst (types_Parse (cl_Subject c))"

text \<open>
  \<open>jwt.StandardClaims.Valid\<close> at \<open>now\<close>, in seconds since 1970; the text of an expired token also has the
  time since, which is left out.
\<close>

definition unix_seconds :: "time \<Rightarrow> int" where
  "unix_seconds t = t div second - 62135596800"

definition jwt_error :: "string \<Rightarrow> goerr" where
  "jwt_error t = New ''jwt.ValidationError'' t"

definition StandardClaims_Valid :: "int \<Rightarrow> claims \<Rightarrow> goerr option" where
  "StandardClaims_Valid now c =
     (if cl_NotBefore c \<noteq> 0 \<and> now < cl_NotBefore c then Some (jwt_error ''token is not valid yet'')
      else if cl_IssuedAt c \<noteq> 0 \<and> now < cl_IssuedAt c then Some (jwt_error ''Token used before issued'')
      else if cl_ExpiresAt c \<noteq> 0 \<and> cl_ExpiresAt c < now then Some (jwt_error ''token is expired'')
      else None)"

definition claims_Valid :: "int \<Rightarrow> claims \<Rightarrow> goerr option" where
  "claims_Valid now c =
     (case StandardClaims_Valid now c of
        Some err \<Rightarrow> Some err
      | None \<Rightarrow>
          if length (cl_ResourceAccess c) = 0 then Some ErrNoAllowedResources
          else if op_IsZero UserID (claims_UserID c) then Some ErrSubjectNotDefined
          else None)"

section \<open>Tokens\<close>

text \<open>A slice of strings: an element that is \<open>null\<close> keeps what the slice held there.\<close>

fun decode_strings :: "json list \<Rightarrow> string list \<Rightarrow> goerr option \<times> string list" where
  "decode_strings [] xs = (None, [])"
| "decode_strings (v # vs) xs =
     (let (e, x) = decode_string (\<lambda>y _. y) v (case xs of [] \<Rightarrow> [] | x # _ \<Rightarrow> x); (e', ys) = decode_strings vs (drop 1 xs)
      in (case e of None \<Rightarrow> e' | Some _ \<Rightarrow> e, x # ys))"

definition decode_slice :: "string list decoder" where
  "decode_slice v xs =
     (case v of
        JArr vs \<Rightarrow> decode_strings vs xs
      | JNull \<Rightarrow> (None, [])
      | _ \<Rightarrow> (Some (json_type_error ''[]string''), xs))"

fun decode_resources :: "(string \<times> json) list \<Rightarrow> (string \<times> string list) list \<Rightarrow> goerr option \<times> (string \<times> string list) list" where
  "decode_resources [] m = (None, m)"
| "decode_resources ((k, v) # kvs) m =
     (let (e, roles) = decode_object ''struct'' [(''roles'', decode_slice)] v [];
          (e', m) = decode_resources kvs (AList.update k roles m)
      in (case e of None \<Rightarrow> e' | Some _ \<Rightarrow> e, m))"

definition decode_ResourceAccess :: "claims decoder" where
  "decode_ResourceAccess v c =
     (case v of
        JObj kvs \<Rightarrow> (case decode_resources kvs (cl_ResourceAccess c) of (e, m) \<Rightarrow> (e, c\<lparr>cl_ResourceAccess := m\<rparr>))
      | JNull \<Rightarrow> (None, c\<lparr>cl_ResourceAccess := []\<rparr>)
      | _ \<Rightarrow> (Some (json_type_error ''map''), c))"

definition claims_decoder :: "claims decoder" where
  "claims_decoder = decode_object ''claims''
     [(''aud'', decode_string (\<lambda>x c. c\<lparr>cl_Audience := x\<rparr>)), (''exp'', decode_int (\<lambda>x c. c\<lparr>cl_ExpiresAt := x\<rparr>)),
      (''jti'', decode_string (\<lambda>x c. c\<lparr>cl_Id := x\<rparr>)), (''iat'', decode_int (\<lambda>x c. c\<lparr>cl_IssuedAt := x\<rparr>)),
      (''iss'', decode_string (\<lambda>x c. c\<lparr>cl_Issuer := x\<rparr>)), (''nbf'', decode_int (\<lambda>x c. c\<lparr>cl_NotBefore := x\<rparr>)),
      (''sub'', decode_string (\<lambda>x c. c\<lparr>cl_Subject := x\<rparr>)), (''resource_access'', decode_ResourceAccess)]"

text \<open>The claims behind a token: ours, or those with which tests stand in for a user.\<close>

datatype token_claims = Claims claims | ClaimsMock UserID

record jwt_Token =
  tk_Claims :: "token_claims option"

text \<open>
  \<open>jwt.ParseWithClaims\<close> without a key: the token, nil when the text has no three parts, and the claims as
  far as they were filled.  Its error, which is always there without a key, is dropped by the caller;
  the signature is not looked at.
\<close>

definition jwt_ParseWithClaims :: "string \<Rightarrow> claims \<Rightarrow> jwt_Token option \<times> claims" where
  "jwt_ParseWithClaims tokenString c =
     (let parts = strings_Split (CHR ''.'') tokenString in
      if length parts \<noteq> 3 then (None, c)
      else
        (case b64_DecodeString False (parts ! 0) of
           Inl err \<Rightarrow> (Some \<lparr>tk_Claims = None\<rparr>, c)
         | Inr headerBytes \<Rightarrow>
             (case json_into (decode_object ''map'' []) headerBytes () of
                Inl err \<Rightarrow> (Some \<lparr>tk_Claims = None\<rparr>, c)
              | Inr _ \<Rightarrow>
                  (case b64_DecodeString False (parts ! 1) of
                     Inl err \<Rightarrow> (Some \<lparr>tk_Claims = Some (Claims c)\<rparr>, c)
                   | Inr claimBytes \<Rightarrow>
                       (let c = snd (json_Decode claims_decoder claimBytes c)
                        in (Some \<lparr>tk_Claims = Some (Claims c)\<rparr>, c))))))"

section \<open>Keycloak\<close>

record IntrospectTokenResult =
  it_Exp :: int
  it_Iat :: int
  it_Aud :: "string list"
  it_Active :: bool

text \<open>
  \<open>UnmarshalJSON\<close>: the audience is a string or a list, of which the strings are kept.  The temporary
  struct keeps the value of \<open>aud\<close> as JSON, \<open>None\<close> for a nil interface.
\<close>

record introspect_tmp =
  tmp_Exp :: int
  tmp_Iat :: int
  tmp_Aud :: "json option"
  tmp_Active :: bool

definition introspect_tmp_decoder :: "introspect_tmp decoder" where
  "introspect_tmp_decoder = decode_object ''struct''
     [(''exp'', decode_int (\<lambda>x t. t\<lparr>tmp_Exp := x\<rparr>)), (''iat'', decode_int (\<lambda>x t. t\<lparr>tmp_Iat := x\<rparr>)),
      (''aud'', \<lambda>v t. (None, t\<lparr>tmp_Aud := (if v = JNull then None else Some v)\<rparr>)),
      (''active'', decode_bool (\<lambda>x t. t\<lparr>tmp_Active := x\<rparr>))]"

definition IntrospectTokenResult_UnmarshalJSON ::
  "string \<Rightarrow> IntrospectTokenResult \<Rightarrow> goerr option \<times> IntrospectTokenResult" where
  "IntrospectTokenResult_UnmarshalJSON data t =
     (case json_into introspect_tmp_decoder data \<lparr>tmp_Exp = 0, tmp_Iat = 0, tmp_Aud = None, tmp_Active = False\<rparr> of
        Inl err \<Rightarrow> (Some (errorf_v ''failed to unmarshal'' err), t)
      | Inr tmp \<Rightarrow>
          (let t = t\<lparr>it_Exp := tmp_Exp tmp, it_Iat := tmp_Iat tmp, it_Active := tmp_Active tmp\<rparr> in
           case tmp_Aud tmp of
             None \<Rightarrow> (None, t)
           | Some (JArr elems) \<Rightarrow>
               (None, t\<lparr>it_Aud := it_Aud t @ concat (map (\<lambda>e. case e of JStr s \<Rightarrow> [s] | _ \<Rightarrow> []) elems)\<rparr>)
           | Some (JStr s) \<Rightarrow> (None, t\<lparr>it_Aud := [s]\<rparr>)
           | Some _ \<Rightarrow> (Some (New ''errors.New'' ''failed to unmarshall Aud type''), t)))"

text \<open>
  The client.  Its HTTP library is the argument \<open>post\<close>: given the URL, the credentials and the form it
  fails, or gives a status with its text and, when the status is a success and the body is JSON, the
  body, which the library hands to \<open>UnmarshalJSON\<close>.
\<close>

record keycloak_Options =
  ko_basePath :: string
  ko_realm :: string
  ko_clientID :: string
  ko_clientSecret :: string
  ko_production :: bool
  ko_debugMode :: bool

record keycloak_Client =
  kc_realm :: string
  kc_clientID :: string
  kc_clientSecret :: string
  kc_baseURL :: string

definition keycloak_NewOptions where
  "keycloak_NewOptions basePath realm clientID clientSecret production options =
     foldl (\<lambda>o' opt. opt o') \<lparr>ko_basePath = basePath, ko_realm = realm, ko_clientID = clientID,
       ko_clientSecret = clientSecret, ko_production = production, ko_debugMode = False\<rparr> options"

definition keycloak_WithDebugMode :: "bool \<Rightarrow> keycloak_Options \<Rightarrow> keycloak_Options" where
  "keycloak_WithDebugMode opt o' = o'\<lparr>ko_debugMode := opt\<rparr>"

definition keycloak_Options_Validate :: "keycloak_Options \<Rightarrow> goerr option" where
  "keycloak_Options_Validate o' = validate_options
     [(''basePath'', VStr (ko_basePath o'), [Required]), (''realm'', VStr (ko_realm o'), [Required]),
      (''clientID'', VStr (ko_clientID o'), [Required]), (''clientSecret'', VStr (ko_clientSecret o'), [Required])]"

definition keycloak_New :: "keycloak_Options \<Rightarrow> keycloak_Client result" where
  "keycloak_New opts =
     (case keycloak_Options_Validate opts of
        Some err \<Rightarrow> Inl (errorf_v ''validate options keycloakclient'' err)
      | None \<Rightarrow> Inr \<lparr>kc_realm = ko_realm opts, kc_clientID = ko_clientID opts,
          kc_clientSecret = ko_clientSecret opts, kc_baseURL = ko_basePath opts\<rparr>)"

type_synonym http_post =
  "string \<Rightarrow> string \<times> string \<Rightarrow> (string \<times> string) list \<Rightarrow> (int \<times> string \<times> string option) result"

definition keycloak_IntrospectToken :: "http_post \<Rightarrow> keycloak_Client \<Rightarrow> string \<Rightarrow> IntrospectTokenResult result" where
  "keycloak_IntrospectToken post c token =
     (let url = kc_baseURL c @ ''/realms/'' @ kc_realm c @ ''/protocol/openid-connect/token/introspect'';
          result = \<lparr>it_Exp = 0, it_Iat = 0, it_Aud = [], it_Active = False\<rparr>
      in case (case post url (kc_clientID c, kc_clientSecret c)
                 [(''token_type_hint'', ''requesting_party_token''), (''token'', token)] of
                 Inl err \<Rightarrow> Inl err
               | Inr (code, status, body) \<Rightarrow>
                   (case body of
                      None \<Rightarrow> Inr (code, status, result)
                    | Some data \<Rightarrow>
                        (case IntrospectTokenResult_UnmarshalJSON data result of
                           (Some err, _) \<Rightarrow> Inl err
                         | (None, result) \<Rightarrow> Inr (code, status, result)))) of
           Inl err \<Rightarrow> Inl (errorf_v ''failed to request to keycloak'' err)
         | Inr (code, status, result) \<Rightarrow>
             if code \<noteq> 200 then Inl (Errorf (''failed to request to keycloak: '' @ status) None)
             else Inr result)"

section \<open>The middleware\<close>

definition tokenCtxKey :: string where "tokenCtxKey = ''user-token''"
definition ErrTokenNotActive :: goerr where
  "ErrTokenNotActive = New ''middlewares.ErrTokenNotActive'' ''token not active''"
definition ErrNoRequiredResourceRole :: goerr where
  "ErrNoRequiredResourceRole = New ''middlewares.ErrNoRequiredResourceRole'' ''no required resource role''"

text \<open>The values that are kept in a context: the token, a pointer that may be nil, and the scopes of a route.\<close>

datatype ctx_value = CtxToken "jwt_Token option" | CtxScopes "string list"

type_synonym token_Context = "ctx_value echo_Context"

fun containsRole :: "string \<Rightarrow> string list \<Rightarrow> bool" where
  "containsRole role [] = False"
| "containsRole role (r # roles) = (if r = role then True else containsRole role roles)"

definition keycloak_Validator ::
  "(string \<Rightarrow> IntrospectTokenResult result) \<Rightarrow> string \<Rightarrow> string \<Rightarrow> string \<Rightarrow> string
   \<Rightarrow> token_Context \<Rightarrow> 'z env_scheme \<Rightarrow> bool result \<times> token_Context \<times> 'z env_scheme" where
  "keycloak_Validator introspect resource role protocol tokenStr c w =
     (let tokenStr = strings_TrimPrefix tokenStr (protocol @ '', '') in
      case introspect tokenStr of
        Inl err \<Rightarrow> (Inl (errorf_w ''failed to introspect token'' err), c, w)
      | Inr token \<Rightarrow>
          if \<not> it_Active token then (Inr False, c, w)
          else
            (let (parsedToken, parsedClaims) = jwt_ParseWithClaims tokenStr no_claims; (now, w) = time_Now w in
             case claims_Valid (unix_seconds now) parsedClaims of
               Some err \<Rightarrow> (Inl (errorf_w ''failed to validate claims'' err), c, w)
             | None \<Rightarrow>
                 (case map_of (cl_ResourceAccess parsedClaims) resource of
                    None \<Rightarrow> (Inl ErrNoRequiredResourceRole, c, w)
                  | Some roles \<Rightarrow>
                      if \<not> containsRole role roles then (Inl ErrNoRequiredResourceRole, c, w)
                      else (Inr True, c\<lparr>ec_store := (ec_store c)(tokenCtxKey \<mapsto> CtxToken parsedToken)\<rparr>, w))))"

text \<open>\<open>valuesFromHeader\<close> of echo: at most the first 20 values; a prefix is matched up to case and cut off.\<close>

fun prefixed_values :: "nat \<Rightarrow> string \<Rightarrow> string list \<Rightarrow> string list" where
  "prefixed_values i p [] = []"
| "prefixed_values i p (v # vs) =
     (if length p < length v \<and> json_fold (take (length p) v) = json_fold p
      then drop (length p) v # (if 19 \<le> i then [] else prefixed_values (Suc i) p vs)
      else prefixed_values (Suc i) p vs)"

definition valuesFromHeader :: "string \<Rightarrow> string \<Rightarrow> http_Request \<Rightarrow> string list result" where
  "valuesFromHeader header p r =
     (let values = header_Values header r in
      if values = [] then Inl (New ''middleware.errHeaderExtractorValueMissing'' ''missing key in request header'')
      else if p = [] then Inr (take 20 values)
      else (let result = prefixed_values 0 p values
            in if result = [] then Inl (New ''middleware.errHeaderExtractorValueInvalid'' ''invalid key in the request header'')
               else Inr result))"

fun try_keys ::
  "(string \<Rightarrow> token_Context \<Rightarrow> 'w \<Rightarrow> bool result \<times> token_Context \<times> 'w) \<Rightarrow> string list \<Rightarrow> goerr option
   \<Rightarrow> token_Context \<Rightarrow> 'w \<Rightarrow> bool \<times> goerr option \<times> token_Context \<times> 'w" where
  "try_keys validator [] lastV c w = (False, lastV, c, w)"
| "try_keys validator (key # keys) lastV c w =
     (case validator key c w of
        (Inl err, c, w) \<Rightarrow> try_keys validator keys (Some err) c w
      | (Inr valid, c, w) \<Rightarrow>
          if valid then (True, lastV, c, w)
          else try_keys validator keys (Some (New ''errors.New'' ''invalid key'')) c w)"

fun try_extractors ::
  "(string \<Rightarrow> token_Context \<Rightarrow> 'w \<Rightarrow> bool result \<times> token_Context \<times> 'w) \<Rightarrow> string list result list \<Rightarrow> goerr option
   \<Rightarrow> goerr option \<Rightarrow> token_Context \<Rightarrow> 'w \<Rightarrow> (bool \<times> goerr option \<times> goerr option) \<times> token_Context \<times> 'w" where
  "try_extractors validator [] lastE lastV c w = ((False, lastE, lastV), c, w)"
| "try_extractors validator (Inl err # xs) lastE lastV c w = try_extractors validator xs (Some err) lastV c w"
| "try_extractors validator (Inr keys # xs) lastE lastV c w =
     (case try_keys validator keys lastV c w of
        (valid, lastV, c, w) \<Rightarrow>
          if valid then ((True, lastE, lastV), c, w) else try_extractors validator xs lastE lastV c w)"

definition NewKeycloakTokenAuth ::
  "(string \<Rightarrow> IntrospectTokenResult result) \<Rightarrow> string \<Rightarrow> string \<Rightarrow> string
   \<Rightarrow> (ctx_value, 'z env_scheme) echo_HandlerFunc \<Rightarrow> (ctx_value, 'z env_scheme) echo_HandlerFunc" where
  "NewKeycloakTokenAuth introspect resource role protocol next' c w =
     (case try_extractors (keycloak_Validator introspect resource role protocol)
             [valuesFromHeader ''Authorization'' ''Bearer '' (ec_Request c),
              valuesFromHeader ''Sec-Websocket-Protocol'' [] (ec_Request c)] None None c w of
        ((valid, lastE, lastV), c, w) \<Rightarrow>
          if valid then next' c w
          else (case lastV of
                  Some err \<Rightarrow> (Returned (Some (HTTPErrorInternal 401 ''Unauthorized'' err)), c, w)
                | None \<Rightarrow> (Returned (Some (HTTPError 400 (case lastE of None \<Rightarrow> [] | Some err \<Rightarrow> errtext err))), c, w)))"

section \<open>The user of a request\<close>

definition SetToken :: "token_Context \<Rightarrow> UserID \<Rightarrow> token_Context" where
  "SetToken c uid = c\<lparr>ec_store := (ec_store c)(tokenCtxKey \<mapsto> CtxToken (Some \<lparr>tk_Claims = Some (ClaimsMock uid)\<rparr>))\<rparr>"

text \<open>\<open>userID\<close>: \<open>None\<close> stands for the panic on a nil token.\<close>

definition userID :: "token_Context \<Rightarrow> (UserID \<times> bool) option" where
  "userID c =
     (case ec_store c tokenCtxKey of
        None \<Rightarrow> Some (op_Nil UserID, False)
      | Some (CtxScopes _) \<Rightarrow> Some (op_Nil UserID, False)
      | Some (CtxToken None) \<Rightarrow> None
      | Some (CtxToken (Some tt)) \<Rightarrow>
          (case tk_Claims tt of
             None \<Rightarrow> Some (op_Nil UserID, False)
           | Some (Claims cl) \<Rightarrow> Some (claims_UserID cl, True)
           | Some (ClaimsMock uid) \<Rightarrow> Some (uid, True)))"

definition MustUserID :: "token_Context \<Rightarrow> string + UserID" where
  "MustUserID c =
     (case userID c of
        None \<Rightarrow> Inl ''runtime error: invalid memory address or nil pointer dereference''
      | Some (uid, ok) \<Rightarrow> if \<not> ok then Inl ''no user token in request context'' else Inr uid)"

lemma MustUserID_SetToken [simp]: "MustUserID (SetToken c uid) = Inr uid"
  by (simp add: MustUserID_def userID_def SetToken_def)

section \<open>Who gets through\<close>

text \<open>
  A token that the middleware accepts at an instant: Keycloak calls it active, its claims are in
  force, they give the role in the resource, and the subject is the identifier of a user.
\<close>

definition accepts ::
  "(string \<Rightarrow> IntrospectTokenResult result) \<Rightarrow> string \<Rightarrow> string \<Rightarrow> int \<Rightarrow> string \<Rightarrow> UserID \<Rightarrow> bool" where
  "accepts introspect resource role now token u \<longleftrightarrow>
     (\<exists>it tk cl roles. introspect token = Inr it \<and> it_Active it \<and> jwt_ParseWithClaims token no_claims = (tk, cl)
        \<and> claims_Valid now cl = None \<and> map_of (cl_ResourceAccess cl) resource = Some roles \<and> role \<in> set roles
        \<and> u = claims_UserID cl \<and> u \<noteq> 0)"

lemma containsRole_set [simp]: "containsRole role roles \<longleftrightarrow> role \<in> set roles"
  by (induction roles) auto

lemma claims_Valid_user: "claims_Valid now c = None \<Longrightarrow> claims_UserID c \<noteq> 0 \<and> cl_ResourceAccess c \<noteq> []"
  by (auto simp: claims_Valid_def UserID_def gen_type_def Id_eq_zero zero_id_def split: option.splits if_splits)

lemma parsed_token:
  "jwt_ParseWithClaims s no_claims = (tk, c) \<Longrightarrow> cl_ResourceAccess c \<noteq> [] \<Longrightarrow> tk = Some \<lparr>tk_Claims = Some (Claims c)\<rparr>"
  by (auto simp: jwt_ParseWithClaims_def no_claims_def Let_def split: if_splits sum.splits)

lemma Validator_accepts:
  assumes "keycloak_Validator introspect resource role protocol tokenStr c w = (r, c', w')"
  shows "(\<exists>t. w' = w \<or> time_Now w = (t, w')) \<and>
    (if r = Inr True then \<exists>u now token. accepts introspect resource role now token u \<and> MustUserID c' = Inr u
        \<and> token = strings_TrimPrefix tokenStr (protocol @ '', '') \<and> now = unix_seconds (fst (time_Now w))
        \<and> c' = c\<lparr>ec_store := ec_store c'\<rparr>
     else c' = c)"
proof -
  let ?t = "strings_TrimPrefix tokenStr (protocol @ '', '')"
  obtain tk cl where p: "jwt_ParseWithClaims ?t no_claims = (tk, cl)" by force
  obtain now w1 where n: "time_Now w = (now, w1)" by force
  show ?thesis
  proof (cases "r = Inr True")
    case True
    with assms p n obtain it roles where a: "introspect ?t = Inr it" "it_Active it" "claims_Valid (unix_seconds now) cl = None"
      "map_of (cl_ResourceAccess cl) resource = Some roles" "role \<in> set roles"
      "c' = c\<lparr>ec_store := (ec_store c)(tokenCtxKey \<mapsto> CtxToken tk)\<rparr>" "w' = w1"
      by (auto simp: keycloak_Validator_def Let_def split: sum.splits if_splits option.splits)
    note u = claims_Valid_user [OF a(3)]
    have "MustUserID c' = Inr (claims_UserID cl)"
      using parsed_token [OF p] u a(6) by (simp add: MustUserID_def userID_def)
    moreover have "accepts introspect resource role (unix_seconds now) ?t (claims_UserID cl)"
      unfolding accepts_def using a p u by blast
    ultimately show ?thesis using True n a(6, 7) by auto
  next
    case False
    with assms p n show ?thesis
      by (auto simp: keycloak_Validator_def Let_def split: sum.splits if_splits option.splits)
  qed
qed

text \<open>The clock may have gone on, and nothing else has changed.\<close>

definition only_clock :: "'z env_scheme \<Rightarrow> 'z env_scheme \<Rightarrow> bool" where
  "only_clock w w' \<longleftrightarrow> (\<exists>t ts. w' = w\<lparr>clk := t, ticks := ts\<rparr>)"

lemma only_clock_refl [simp]: "only_clock w w"
  unfolding only_clock_def by (rule exI [of _ "clk w"], rule exI [of _ "ticks w"]) simp

lemma only_clock_trans: "only_clock w w' \<Longrightarrow> only_clock w' w'' \<Longrightarrow> only_clock w w''"
  by (force simp: only_clock_def)

lemma only_clock_Now: "time_Now w = (t, w') \<Longrightarrow> only_clock w w'"
proof (cases "ticks w")
  case Nil
  then show "time_Now w = (t, w') \<Longrightarrow> ?thesis" by (simp add: time_Now_def)
next
  case (Cons d ds)
  then show "time_Now w = (t, w') \<Longrightarrow> ?thesis" by (auto simp: time_Now_def only_clock_def)
qed

lemma Validator_clock:
  "keycloak_Validator introspect resource role protocol tokenStr c w = (r, c', w') \<Longrightarrow> only_clock w w'"
  using Validator_accepts [of introspect resource role protocol tokenStr c w r c' w'] only_clock_Now by fastforce

text \<open>A context and a world with which the next handler is called: some key of the request was accepted.\<close>

definition let_in ::
  "(string \<Rightarrow> IntrospectTokenResult result) \<Rightarrow> string \<Rightarrow> string \<Rightarrow> string \<Rightarrow> string set \<Rightarrow> token_Context \<Rightarrow> 'z env_scheme
   \<Rightarrow> token_Context \<Rightarrow> 'z env_scheme \<Rightarrow> bool" where
  "let_in introspect resource role protocol keys c w c' w' \<longleftrightarrow> only_clock w w' \<and> c' = c\<lparr>ec_store := ec_store c'\<rparr> \<and>
     (\<exists>key \<in> keys. \<exists>now u. accepts introspect resource role now (strings_TrimPrefix key (protocol @ '', '')) u \<and> MustUserID c' = Inr u)"

lemma let_in_mono: "let_in i r ro p ks c w c' w' \<Longrightarrow> ks \<subseteq> ks' \<Longrightarrow> only_clock w0 w \<Longrightarrow> let_in i r ro p ks' c w0 c' w'"
  unfolding let_in_def using only_clock_trans by blast

lemma try_keys_cases:
  assumes "try_keys (keycloak_Validator i r ro p) keys lastV c w = (ok, lastV', c', w')"
  shows "if ok then let_in i r ro p (set keys) c w c' w' else c' = c \<and> only_clock w w'"
  using assms
proof (induction keys arbitrary: lastV w)
  case (Cons key keys)
  obtain x c1 w1 where v: "keycloak_Validator i r ro p key c w = (x, c1, w1)" by (metis prod_cases3)
  note a = Validator_accepts [OF v] and k = Validator_clock [OF v]
  show ?case
  proof (cases "x = Inr True")
    case True
    then have "ok" "c' = c1" "w' = w1" using Cons.prems v by simp_all
    with a k True show ?thesis by (auto simp: let_in_def)
  next
    case False
    then have c1: "c1 = c" using a by simp
    obtain l where "try_keys (keycloak_Validator i r ro p) keys l c w1 = (ok, lastV', c', w')"
      using Cons.prems v False c1 by (auto split: sum.splits if_splits)
    from Cons.IH [OF this] k show ?thesis
      using let_in_mono [of i r ro p "set keys" c w1 c' w' "set (key # keys)" w] only_clock_trans [OF k]
      by (cases ok) auto
  qed
qed simp

lemma try_extractors_cases:
  assumes "try_extractors (keycloak_Validator i r ro p) xs lastE lastV c w = ((ok, lastE', lastV'), c', w')"
  shows "if ok then let_in i r ro p (\<Union>ks \<in> {ks. Inr ks \<in> set xs}. set ks) c w c' w' else c' = c \<and> only_clock w w'"
  using assms
proof (induction xs arbitrary: lastE lastV w)
  case (Cons x xs)
  show ?case
  proof (cases x)
    case (Inl e)
    with Cons.prems have "try_extractors (keycloak_Validator i r ro p) xs (Some e) lastV c w = ((ok, lastE', lastV'), c', w')"
      by simp
    from Cons.IH [OF this] Inl show ?thesis by (auto elim: let_in_mono)
  next
    case (Inr keys)
    obtain ok1 l c1 w1 where t: "try_keys (keycloak_Validator i r ro p) keys lastV c w = (ok1, l, c1, w1)"
      by (metis prod_cases4)
    note a = try_keys_cases [OF t]
    show ?thesis
    proof (cases ok1)
      case True
      then have "ok" "c' = c1" "w' = w1" using Cons.prems Inr t by simp_all
      with a True Inr show ?thesis by (auto elim!: let_in_mono)
    next
      case False
      then have "c1 = c" "only_clock w w1" using a by simp_all
      moreover from this have "try_extractors (keycloak_Validator i r ro p) xs lastE l c w1 = ((ok, lastE', lastV'), c', w')"
        using Cons.prems Inr t False by simp
      ultimately show ?thesis using Cons.IH only_clock_trans Inr by (cases ok) (fastforce elim!: let_in_mono)+
    qed
  qed
qed simp

text \<open>The keys of a request, as the middleware takes them from its headers.\<close>

definition request_keys :: "http_Request \<Rightarrow> string set" where
  "request_keys r = (\<Union>ks \<in> {ks. Inr ks \<in> set [valuesFromHeader ''Authorization'' ''Bearer '' r,
     valuesFromHeader ''Sec-Websocket-Protocol'' [] r]}. set ks)"

lemma auth_cases:
  assumes "NewKeycloakTokenAuth i r ro p next' c w = (out, c', w')"
  obtains (refused) e where "out = Returned (Some e)" "c' = c" "only_clock w w'"
      "(\<exists>err. e = HTTPErrorInternal 401 ''Unauthorized'' err) \<or> (\<exists>m. e = HTTPError 400 m)"
  | (passed) c1 w1 where "next' c1 w1 = (out, c', w')" "let_in i r ro p (request_keys (ec_Request c)) c w c1 w1"
proof -
  obtain ok lastE lastV c1 w1 where t: "try_extractors (keycloak_Validator i r ro p)
      [valuesFromHeader ''Authorization'' ''Bearer '' (ec_Request c),
       valuesFromHeader ''Sec-Websocket-Protocol'' [] (ec_Request c)] None None c w = ((ok, lastE, lastV), c1, w1)"
    by (metis prod_cases3 prod.exhaust)
  note a = try_extractors_cases [OF t]
  show ?thesis
  proof (cases ok)
    case True
    with assms t have "next' c1 w1 = (out, c', w')" by (simp add: NewKeycloakTokenAuth_def)
    moreover have "let_in i r ro p (request_keys (ec_Request c)) c w c1 w1"
      using a True by (simp add: request_keys_def)
    ultimately show ?thesis by (rule passed)
  next
    case False
    with assms t have e: "(out, c', w') = (case lastV of
                  Some err \<Rightarrow> (Returned (Some (HTTPErrorInternal 401 ''Unauthorized'' err)), c1, w1)
                | None \<Rightarrow> (Returned (Some (HTTPError 400 (case lastE of None \<Rightarrow> [] | Some err \<Rightarrow> errtext err))), c1, w1))"
      by (simp add: NewKeycloakTokenAuth_def)
    with a False show ?thesis by (cases lastV) (auto intro: refused)
  qed
qed

end
