(* ===== verification/Tokens.thy ===== *)
theory Tokens
  imports Auth MsgProducer
begin

text \<open>
  Tokens as texts: header, claims and signature, each in base 64 without padding.  What the
  parser makes of a token with given claims; its signature plays no role.
\<close>

definition b64_encode_raw :: "string \<Rightarrow> string" where
  "b64_encode_raw s = filter (\<lambda>c. c \<noteq> b64_pad) (b64_encode s)"

lemma b64_char_not_pad [simp]: "n < 64 \<Longrightarrow> b64_char n \<noteq> b64_pad"
  by (metis b64_val_char b64_val_pad option.distinct(1))

lemma b64_quanta_raw: "b64_quanta False (b64_encode_raw s) = Some s"
proof (induction s rule: b64_encode.induct)
  case (2 a)
  show ?case using b64_bytes_split [of 0 a 0 0] by (simp add: b64_encode_raw_def Let_def b64_bytes_def)
next
  case (3 a b)
  have "b64_bytes (of_char a div 4) (of_char a mod 4 * 16 + of_char b div 16) (of_char b mod 16 * 4) 0 ! 1 = b"
    using b64_second_byte [of 0 "of_char a mod 4" b] by (simp add: b64_bytes_def)
  then show ?case using b64_bytes_split [of "of_char b div 16" a "of_char b mod 16 * 4" 0]
    by (simp add: b64_encode_raw_def Let_def b64_bytes_def numeral_2_eq_2)
next
  case (4 a b c s)
  have "b64_bytes (of_char a div 4) (of_char a mod 4 * 16 + of_char b div 16) (of_char b mod 16 * 4 + of_char c div 64)
    (of_char c mod 64) = [a, b, c]"
    using b64_second_byte [of "of_char c div 64" "of_char a mod 4" b] b64_third_byte [of "of_char b mod 16" c]
      b64_bytes_split [of "of_char b div 16" a] by (simp add: b64_bytes_def)
  with 4 show ?case by (simp add: b64_encode_raw_def Let_def)
qed (simp add: b64_encode_raw_def)

lemma b64_encode_raw_chars: "c \<in> set (b64_encode_raw s) \<Longrightarrow> \<not> is_line_break c \<and> c \<noteq> CHR ''.''"
proof -
  assume c: "c \<in> set (b64_encode_raw s)"
  then obtain n where "n < 64" "c = b64_char n" using b64_encode_digits [of c s] by (auto simp: b64_encode_raw_def)
  then show ?thesis using b64_char_no_break b64_val_char [of n] by (auto simp: b64_val_def simp del: b64_val_char)
qed

lemma b64_encode_raw_no_comma: "CHR '','' \<notin> set (b64_encode_raw s)"
proof
  assume "CHR '','' \<in> set (b64_encode_raw s)"
  then obtain n where "n < 64" "CHR '','' = b64_char n" using b64_encode_digits [of "CHR '',''" s] by (auto simp: b64_encode_raw_def b64_pad_def)
  moreover have "b64_val (CHR '','') = None" by (simp add: b64_val_def)
  ultimately show False using b64_val_char [of n] by simp
qed

lemma b64_raw_roundtrip: "b64_DecodeString False (b64_encode_raw s) = Inr s"
proof -
  have "filter (\<lambda>c. \<not> is_line_break c) (b64_encode_raw s) = b64_encode_raw s"
    using b64_encode_raw_chars [of _ s] by (subst filter_id_conv) blast
  then show ?thesis by (simp add: b64_DecodeString_def b64_quanta_raw)
qed

lemma split_none: "d \<notin> set s \<Longrightarrow> strings_Split d s = [s]"
  by (induction s) auto

lemma split_at: "d \<notin> set s \<Longrightarrow> strings_Split d (s @ d # t) = s # strings_Split d t"
  by (induction s) auto

definition jwt_text :: "json \<Rightarrow> json \<Rightarrow> string \<Rightarrow> string" where
  "jwt_text header v sig =
     b64_encode_raw (json_Marshal header) @ ''.'' @ b64_encode_raw (json_Marshal v) @ ''.'' @ sig"

lemma json_Decode_Marshal: "json_ints v \<Longrightarrow> json_Decode d (json_Marshal v) s = d (json_repair v) s"
  using read_Marshal(1) [of v "[]" "2 * length (json_Marshal v) + 2"] by (simp add: json_Decode_def)

lemma jwt_text_parsed:
  assumes "json_ints (JObj ms)" "json_ints v" "CHR ''.'' \<notin> set sig"
  shows "jwt_ParseWithClaims (jwt_text (JObj ms) v sig) c =
    (let c' = snd (claims_decoder (json_repair v) c) in (Some \<lparr>tk_Claims = Some (Claims c')\<rparr>, c'))"
proof -
  have none: "decode_members [] xs (None, ()) = (None, ())" for xs :: "(string \<times> json) list"
    by (induction xs) (auto simp: json_field_def)
  have no_dot: "CHR ''.'' \<notin> set (b64_encode_raw x)" for x using b64_encode_raw_chars by blast
  have "strings_Split (CHR ''.'') (jwt_text (JObj ms) v sig) =
      [b64_encode_raw (json_Marshal (JObj ms)), b64_encode_raw (json_Marshal v), sig]"
    using no_dot assms(3) by (simp add: jwt_text_def split_at split_none)
  moreover have "json_into (decode_object ''map'' []) (json_Marshal (JObj ms)) () = Inr ()"
    using json_roundtrip [OF assms(1)]
    by (simp add: json_into_def decode_object_def none)
  ultimately show ?thesis
    by (simp add: jwt_ParseWithClaims_def b64_raw_roundtrip json_Decode_Marshal [OF assms(2)])
qed

text \<open>The claims of a user with one role in one resource.\<close>

definition user_claims :: "UserID \<Rightarrow> string \<Rightarrow> string \<Rightarrow> json" where
  "user_claims u resource role = JObj [(''sub'', JStr (uuid_String (raw u))),
     (''resource_access'', JObj [(resource, JObj [(''roles'', JArr [JStr role])])])]"

definition user_token :: "UserID \<Rightarrow> string \<Rightarrow> string \<Rightarrow> string" where
  "user_token u resource role = jwt_text (JObj [(''alg'', JStr ''none'')]) (user_claims u resource role) []"

lemma uuid_text_ascii: "utf8_repair (uuid_String u) = uuid_String u"
  by (simp add: uuid_String_def)

lemma user_token_parsed:
  assumes "utf8_repair resource = resource" "utf8_repair role = role"
  shows "jwt_ParseWithClaims (user_token u resource role) no_claims =
    (let c = no_claims\<lparr>cl_Subject := uuid_String (raw u), cl_ResourceAccess := [(resource, [role])]\<rparr>
     in (Some \<lparr>tk_Claims = Some (Claims c)\<rparr>, c))"
  unfolding user_token_def
  by (subst jwt_text_parsed)
    (simp_all add: user_claims_def uuid_text_ascii assms claims_decoder_def decode_object_def json_field_def
      decode_string_def decode_ResourceAccess_def decode_slice_def no_claims_def)

lemma user_token_accepted:
  assumes "introspect (user_token u resource role) = Inr it" "it_Active it" "u \<noteq> 0"
    and "utf8_repair resource = resource" "utf8_repair role = role"
  shows "accepts introspect resource role now (user_token u resource role) u"
proof -
  let ?c = "no_claims\<lparr>cl_Subject := uuid_String (raw u), cl_ResourceAccess := [(resource, [role])]\<rparr>"
  have id: "claims_UserID ?c = u" by (simp add: claims_UserID_def uuid_String_def)
  have "claims_Valid now ?c = None"
    using assms(3) id by (simp add: claims_Valid_def StandardClaims_Valid_def no_claims_def UserID_def gen_type_def Id_eq_zero zero_id_def)
  then show ?thesis
    unfolding accepts_def using assms(1-3) user_token_parsed [OF assms(4, 5), of u] id
    by (intro exI [of _ it] exI [of _ "Some \<lparr>tk_Claims = Some (Claims ?c)\<rparr>"] exI [of _ ?c] exI [of _ "[role]"])
      (simp add: Let_def)
qed

lemma user_token_nonempty [simp]: "user_token u resource role \<noteq> []"
  by (simp add: user_token_def jwt_text_def)

section \<open>A sample user\<close>

definition sample_introspect :: "string \<Rightarrow> IntrospectTokenResult result" where
  "sample_introspect token = Inr \<lparr>it_Exp = 0, it_Iat = 0, it_Aud = [], it_Active = True\<rparr>"

definition sample_post :: "string \<Rightarrow> UserID \<Rightarrow> RequestID \<Rightarrow> json \<Rightarrow> token_Context" where
  "sample_post path u x body = \<lparr>ec_Request = \<lparr>rq_Method = ''POST'', rq_Path = path,
       rq_Header = [(''Authorization'', ''Bearer '' @ user_token u ''chat-ui'' ''client''),
         (''X-Request-Id'', uuid_encodeHex (raw x)), (''Content-Type'', ''application/json'')],
       rq_ContentLength = 20, rq_Body = json_Marshal body\<rparr>,
     ec_store = Map.empty, ec_broken = None, ec_responses = []\<rparr>"

lemma token_no_comma: "CHR '','' \<notin> set (user_token u r ro)"
  by (auto simp: user_token_def jwt_text_def b64_encode_raw_no_comma)

lemma trim_token: "strings_TrimPrefix (user_token u r ro) (''chat'' @ '', '') = user_token u r ro"
proof -
  have "\<not> has_prefix (user_token u r ro) ''chat, ''"
  proof
    assume "has_prefix (user_token u r ro) ''chat, ''"
    then have "take 6 (user_token u r ro) = ''chat, ''" by (simp add: has_prefix_def numeral_eq_Suc)
    then have "CHR '','' \<in> set (take 6 (user_token u r ro))" by simp
    then show False using token_no_comma in_set_takeD by metis
  qed
  then show ?thesis by (simp add: strings_TrimPrefix_def)
qed

lemma sample_auth:
  assumes "u \<noteq> 0" "ticks w = []"
  shows "NewKeycloakTokenAuth sample_introspect ''chat-ui'' ''client'' ''chat'' next' (sample_post path u x body) w =
    next' (let c = sample_post path u x body; cl = no_claims\<lparr>cl_Subject := uuid_encodeHex (raw u),
        cl_ResourceAccess := [(''chat-ui'', [''client''])]\<rparr>
      in c\<lparr>ec_store := (ec_store c)(tokenCtxKey \<mapsto> CtxToken (Some \<lparr>tk_Claims = Some (Claims cl)\<rparr>))\<rparr>) w"
proof -
  have p: "jwt_ParseWithClaims (user_token u ''chat-ui'' ''client'') no_claims =
    (let c = no_claims\<lparr>cl_Subject := uuid_encodeHex (raw u), cl_ResourceAccess := [(''chat-ui'', [''client''])]\<rparr>
     in (Some \<lparr>tk_Claims = Some (Claims c)\<rparr>, c))"
    using user_token_parsed [of "''chat-ui''" "''client''" u] utf8_repair_ascii by (simp add: uuid_String_def)
  have v: "claims_Valid n (no_claims\<lparr>cl_Subject := uuid_encodeHex (raw u), cl_ResourceAccess := [(''chat-ui'', [''client''])]\<rparr>) = None" for n
    using assms(1) by (simp add: claims_Valid_def StandardClaims_Valid_def no_claims_def claims_UserID_def UserID_def)
  have n: "time_Now w = (clk w, w)" using assms(2) by (simp add: time_Now_def)
  have h: "valuesFromHeader ''Authorization'' ''Bearer '' (ec_Request (sample_post path u x body)) = Inr [user_token u ''chat-ui'' ''client'']"
    by (simp add: valuesFromHeader_def header_Values_def sample_post_def user_token_nonempty)
  show ?thesis
    by (simp add: NewKeycloakTokenAuth_def h keycloak_Validator_def trim_token [simplified] sample_introspect_def p v n Let_def)
qed

lemma sample_keys:
  assumes "key \<in> request_keys (ec_Request (sample_post path u x body))"
    and "accepts sample_introspect ''chat-ui'' ''client'' now (strings_TrimPrefix key (''chat'' @ '', '')) v"
  shows "v = u"
proof -
  have "key = user_token u ''chat-ui'' ''client''"
    using assms(1) by (simp add: request_keys_def valuesFromHeader_def header_Values_def sample_post_def)
  then have "accepts sample_introspect ''chat-ui'' ''client'' now (user_token u ''chat-ui'' ''client'') v"
    using assms(2) trim_token by metis
  then show ?thesis
    using user_token_parsed [of "''chat-ui''" "''client''" u] utf8_repair_ascii
    by (auto simp: accepts_def Let_def claims_UserID_def uuid_String_def)
qed

end
