(* ===== verification/Server.thy ===== *)
theory Server
  imports Tokens
begin

text \<open>
  The HTTP server that the clients and the managers get (\<open>internal/server\<close>): its options and the chain of
  middlewares through which every request goes.  The middlewares of echo are modelled as far as they
  decide what happens to a request; the log is in \<open>RequestLog\<close>, and the headers of responses and the listening
  socket are not modelled.
  A request with a body of unknown length is taken to announce its length.
\<close>

section \<open>Middlewares\<close>

type_synonym 'w handler = "(ctx_value, 'w) echo_HandlerFunc"
type_synonym 'w middleware = "'w handler \<Rightarrow> 'w handler"

text \<open>\<open>NewRecovery\<close>: a panic becomes an error, which is handled at once.\<close>

definition NewRecovery :: "(goerr \<Rightarrow> token_Context \<Rightarrow> token_Context) \<Rightarrow> 'w middleware" where
  "NewRecovery errHandler next' c w =
     (case next' c w of
        (Panicked r, c, w) \<Rightarrow> (Returned None, errHandler (Errorf r None) c, w)
      | (Returned err, c, w) \<Rightarrow> (Returned err, c, w))"

text \<open>The CORS middleware answers a preflight request itself; its origins only show in headers.\<close>

definition echo_CORS :: "'w middleware" where
  "echo_CORS next' c w =
     (if rq_Method (ec_Request c) = ''OPTIONS''
      then (case eCtx_NoContent 204 c of (err, c) \<Rightarrow> (Returned err, c, w))
      else next' c w)"

definition bodyLimit :: int where "bodyLimit = 12 * 1000"

definition echo_BodyLimit :: "int \<Rightarrow> 'w middleware" where
  "echo_BodyLimit limit next' c w =
     (if limit < rq_ContentLength (ec_Request c)
      then (Returned (Some echo_ErrRequestEntityTooLarge), c, w) else next' c w)"

text \<open>\<open>applyMiddleware\<close>: the first middleware is the outermost.\<close>

definition applyMiddleware :: "'w handler \<Rightarrow> 'w middleware list \<Rightarrow> 'w handler" where
  "applyMiddleware h ms = foldr (\<lambda>m h. m h) ms h"

section \<open>The server\<close>

text \<open>
  \<open>registerHandlers\<close> fills the router, which gives each request its handler; a request without a route
  has the handler of the router.
\<close>

record 'w server_Options =
  vo_logger :: "unit option"
  vo_addr :: string
  vo_allowOrigins :: "string list"
  vo_v1Swagger :: "unit option"
  vo_registerHandlers :: "(http_Request \<Rightarrow> 'w handler) option"
  vo_introspector :: "(string \<Rightarrow> IntrospectTokenResult result) option"
  vo_resource :: string
  vo_role :: string
  vo_wsSecProtocol :: string
  vo_errHandler :: "(goerr \<Rightarrow> token_Context \<Rightarrow> token_Context) option"

definition server_NewOptions where
  "server_NewOptions logger addr allowOrigins v1Swagger registerHandlers introspector resource role wsSecProtocol
       errHandler options =
     foldl (\<lambda>o' opt. opt o') (\<lparr>vo_logger = logger, vo_addr = addr, vo_allowOrigins = allowOrigins,
       vo_v1Swagger = v1Swagger, vo_registerHandlers = registerHandlers, vo_introspector = introspector,
       vo_resource = resource, vo_role = role, vo_wsSecProtocol = wsSecProtocol,
       vo_errHandler = errHandler\<rparr> :: 'w server_Options) options"

definition server_Options_Validate :: "'w server_Options \<Rightarrow> goerr option" where
  "server_Options_Validate o' = validate_options
     [(''logger'', iface (vo_logger o'), [Required]), (''addr'', VStr (vo_addr o'), [Required, HostnamePort]),
      (''allowOrigins'', VSlice (length (vo_allowOrigins o')), [MinT 1]),
      (''v1Swagger'', iface (vo_v1Swagger o'), [Required]),
      (''registerHandlers'', iface (vo_registerHandlers o'), [Required]),
      (''introspector'', iface (vo_introspector o'), [Required]), (''resource'', VStr (vo_resource o'), [Required]),
      (''role'', VStr (vo_role o'), [Required]), (''wsSecProtocol'', VStr (vo_wsSecProtocol o'), [Required]),
      (''errHandler'', iface (vo_errHandler o'), [Required])]"

record 'w Server =
  sv_Addr :: string
  sv_Handler :: "token_Context \<Rightarrow> 'w \<Rightarrow> token_Context \<times> 'w"

text \<open>\<open>ServeHTTP\<close> of echo: route, go through the middlewares, hand an error to the handler of errors.\<close>

definition echo_ServeHTTP ::
  "(goerr \<Rightarrow> token_Context \<Rightarrow> token_Context) \<Rightarrow> 'w middleware list \<Rightarrow> (http_Request \<Rightarrow> 'w handler)
   \<Rightarrow> token_Context \<Rightarrow> 'w \<Rightarrow> token_Context \<times> 'w" where
  "echo_ServeHTTP errHandler ms router c w =
     (case applyMiddleware (router (ec_Request c)) ms c w of
        (Returned (Some err), c, w) \<Rightarrow> (errHandler err c, w)
      | (_, c, w) \<Rightarrow> (c, w))"

definition server_New :: "'z env_scheme server_Options \<Rightarrow> 'z env_scheme Server result" where
  "server_New opts =
     (case server_Options_Validate opts of
        Some err \<Rightarrow> Inl (errorf_v ''validate options server'' err)
      | None \<Rightarrow>
          (let errHandler = the (vo_errHandler opts) in
           Inr \<lparr>sv_Addr = vo_addr opts,
             sv_Handler = echo_ServeHTTP errHandler
               [NewRecovery errHandler, echo_CORS,
                NewKeycloakTokenAuth (the (vo_introspector opts)) (vo_resource opts) (vo_role opts) (vo_wsSecProtocol opts),
                echo_BodyLimit bodyLimit]
               (the (vo_registerHandlers opts))\<rparr>))"

section \<open>Parameters of a route\<close>

text \<open>
  The wrappers that \<open>oapi-codegen\<close> writes around the handlers: every route has one parameter, the header
  \<open>X-Request-ID\<close>, and all four wrappers read it the same way.
\<close>

definition quoted :: "string \<Rightarrow> string" where
  "quoted s = [CHR 0x27] @ s @ [CHR 0x27]"

definition BindStyledParameter :: "string \<Rightarrow> RequestID result" where
  "BindStyledParameter value =
     (if value = [] then Inl (Errorf (''parameter '' @ quoted ''X-Request-ID'' @ '' is empty, can'' @ [CHR 0x27] @ ''t bind its value'') None)
      else (case op_UnmarshalText RequestID value (op_Nil RequestID) of
              (_, Some err) \<Rightarrow> Inl (Errorf (''error unmarshaling '' @ quoted value @ '' text as *types.RequestID: '' @ errtext err) None)
            | (x, None) \<Rightarrow> Inr x))"

definition with_XRequestID :: "(RequestID \<Rightarrow> 'w handler) \<Rightarrow> 'w handler" where
  "with_XRequestID handler c w =
     (let c = c\<lparr>ec_store := (ec_store c)(''bearerAuth.Scopes'' \<mapsto> CtxScopes [])\<rparr>;
          valueList = header_Values ''X-Request-Id'' (ec_Request c)
      in if valueList \<noteq> [] then
           (let n = length valueList in
            if n \<noteq> 1 then (Returned (Some (HTTPError 400 (''Expected one value for X-Request-ID, got '' @ itoa (int n)))), c, w)
            else (case BindStyledParameter (hd valueList) of
                    Inl err \<Rightarrow> (Returned (Some (HTTPError 400 (''Invalid format for parameter X-Request-ID: '' @ errtext err))), c, w)
                  | Inr x \<Rightarrow> handler x c w))
         else (Returned (Some (HTTPError 400 ''Header parameter X-Request-ID is required, but not found'')), c, w))"

text \<open>
  The validator of requests against the OpenAPI document is an argument, which rejects a request with an
  error or lets it pass.
\<close>

definition oapi_validator :: "(http_Request \<Rightarrow> goerr option) \<Rightarrow> 'w middleware" where
  "oapi_validator check next' c w =
     (case check (ec_Request c) of
        Some err \<Rightarrow> (Returned (Some err), c, w)
      | None \<Rightarrow> next' c w)"

section \<open>What a request can do\<close>

text \<open>
  Every request is answered by the handler of errors, is a preflight request, or was let in with a user:
  then what happens is what its handler does.
\<close>

lemma Serve_cases:
  assumes "server_New opts = Inr s" and "sv_Handler s c w = (c', w')"
  obtains (preflight) "rq_Method (ec_Request c) = ''OPTIONS''" "w' = w"
      "c' = c\<lparr>ec_responses := ec_responses c @ [(204, None)]\<rparr>"
  | (refused) e where "only_clock w w'" "c' = the (vo_errHandler opts) e c"
      "(\<exists>err. e = HTTPErrorInternal 401 ''Unauthorized'' err) \<or> (\<exists>m. e = HTTPError 400 m)"
  | (too_large) c1 w1 where "only_clock w w1" "w' = w1" "c' = the (vo_errHandler opts) echo_ErrRequestEntityTooLarge c1"
      "c1 = c\<lparr>ec_store := ec_store c1\<rparr>" "12000 < rq_ContentLength (ec_Request c)"
  | (handled) out c1 w1 c2 where
      "let_in (the (vo_introspector opts)) (vo_resource opts) (vo_role opts) (vo_wsSecProtocol opts)
        (request_keys (ec_Request c)) c w c1 w1"
      "the (vo_registerHandlers opts) (ec_Request c) c1 w1 = (out, c2, w')"
      "c' = (case out of Returned None \<Rightarrow> c2 | Returned (Some e) \<Rightarrow> the (vo_errHandler opts) e c2
             | Panicked r \<Rightarrow> the (vo_errHandler opts) (Errorf r None) c2)"
proof -
  let ?eh = "the (vo_errHandler opts)" and ?h = "the (vo_registerHandlers opts) (ec_Request c)"
  let ?auth = "NewKeycloakTokenAuth (the (vo_introspector opts)) (vo_resource opts) (vo_role opts) (vo_wsSecProtocol opts)
    (echo_BodyLimit bodyLimit ?h)"
  have s: "sv_Handler s = echo_ServeHTTP ?eh [NewRecovery ?eh, echo_CORS,
      NewKeycloakTokenAuth (the (vo_introspector opts)) (vo_resource opts) (vo_role opts) (vo_wsSecProtocol opts),
      echo_BodyLimit bodyLimit] (the (vo_registerHandlers opts))"
    using assms(1) by (auto simp: server_New_def Let_def split: option.splits)
  show ?thesis
  proof (cases "rq_Method (ec_Request c) = ''OPTIONS''")
    case True
    with assms(2) s preflight show ?thesis
      by (auto simp: echo_ServeHTTP_def applyMiddleware_def NewRecovery_def echo_CORS_def eCtx_NoContent_def)
  next
    case False
    obtain out c2 w2 where a: "?auth c w = (out, c2, w2)" by (metis prod_cases3)
    have end': "w' = w2" "c' = (case out of Returned None \<Rightarrow> c2 | Returned (Some e) \<Rightarrow> ?eh e c2
             | Panicked r \<Rightarrow> ?eh (Errorf r None) c2)"
      using assms(2) s False a
      by (auto simp: echo_ServeHTTP_def applyMiddleware_def NewRecovery_def echo_CORS_def split: http_outcome.splits option.splits)
    from a show ?thesis
    proof (cases rule: auth_cases)
      case (refused e)
      with end' show ?thesis by (auto intro: that(2))
    next
      case (passed c1 w1)
      have c1: "ec_Request c1 = ec_Request c" using passed(2)
        by (auto simp: let_in_def) (metis echo_Context.ext_inject echo_Context.surjective echo_Context.update_convs(2))
      show ?thesis
      proof (cases "12000 < rq_ContentLength (ec_Request c)")
        case True
        with passed c1 end' show ?thesis
          by (auto simp: echo_BodyLimit_def bodyLimit_def let_in_def intro!: that(3))
      next
        case False
        with passed(1) c1 have "?h c1 w1 = (out, c2, w')" by (simp add: echo_BodyLimit_def bodyLimit_def end')
        with passed(2) end' show ?thesis by (intro that(4)) auto
      qed
    qed
  qed
qed

section \<open>What a server answers\<close>

text \<open>Every response has a \<open>data\<close> and an \<open>error\<close>, of which the handlers set the first.\<close>

definition data_json :: "json result \<Rightarrow> json result" where
  "data_json d = (case d of Inl err \<Rightarrow> Inl err | Inr j \<Rightarrow> Inr (JObj [(''data'', j)]))"

text \<open>The answer that the handler of errors gives; nothing, when the client is gone.\<close>

definition told_error :: "bool \<Rightarrow> token_Context \<Rightarrow> token_Context \<Rightarrow> goerr \<Rightarrow> bool" where
  "told_error isProduction c c' e \<longleftrightarrow> ec_responses c' = ec_responses c @
     (if ec_broken c = None then [(200, Some (error_response isProduction e))] else [])"

definition told_data :: "token_Context \<Rightarrow> token_Context \<Rightarrow> json result \<Rightarrow> bool" where
  "told_data c c' body \<longleftrightarrow> (\<exists>j. data_json body = Inr j \<and> ec_responses c' = ec_responses c @ [(200, Some j)])"

definition same_client :: "token_Context \<Rightarrow> token_Context \<Rightarrow> bool" where
  "same_client c c' \<longleftrightarrow> ec_Request c' = ec_Request c \<and> ec_broken c' = ec_broken c \<and> ec_responses c' = ec_responses c"

lemma same_client_store [simp]: "same_client c (c\<lparr>ec_store := x\<rparr>)"
  by (simp add: same_client_def)

lemma same_client_eq: "c' = c\<lparr>ec_store := ec_store c'\<rparr> \<Longrightarrow> same_client c c'"
  by (metis same_client_store)

lemma told_same:
  "same_client c c1 \<Longrightarrow> told_error p c1 c' e = told_error p c c' e"
  "same_client c c1 \<Longrightarrow> told_data c1 c' b = told_data c c' b"
  by (simp_all add: told_error_def told_data_def same_client_def)

text \<open>A handler that says what happens once it is called behind the validator and the wrapper.\<close>

lemma route_cases:
  assumes "oapi_validator check (with_XRequestID handler) c w = (out, c', w')" and "MustUserID c = Inr u"
  obtains (rejected) e where "out = Returned (Some e)" "same_client c c'" "w' = w"
  | (handled) x c1 where "handler x c1 w = (out, c', w')" "same_client c c1" "MustUserID c1 = Inr u"
proof (cases "check (ec_Request c)")
  case (Some e)
  with assms rejected show ?thesis by (auto simp: oapi_validator_def same_client_def)
next
  case None
  let ?c = "c\<lparr>ec_store := (ec_store c)(''bearerAuth.Scopes'' \<mapsto> CtxScopes [])\<rparr>"
  have u: "MustUserID ?c = Inr u" using assms(2) by (simp add: MustUserID_def userID_def tokenCtxKey_def)
  have w: "with_XRequestID handler c w = (out, c', w')" using assms(1) None by (simp add: oapi_validator_def)
  show ?thesis
  proof (cases "length (header_Values ''X-Request-Id'' (ec_Request c)) = 1")
    case False
    then obtain m where "with_XRequestID handler c w = (Returned (Some (HTTPError 400 m)), ?c, w)"
      by (cases "header_Values ''X-Request-Id'' (ec_Request c) = []") (simp_all add: with_XRequestID_def Let_def)
    with w show ?thesis by (intro rejected [of "HTTPError 400 m"]) auto
  next
    case True
    then have ne: "header_Values ''X-Request-Id'' (ec_Request c) \<noteq> []" by auto
    show ?thesis
    proof (cases "BindStyledParameter (hd (header_Values ''X-Request-Id'' (ec_Request c)))")
      case (Inl e)
      with w True ne show ?thesis by (intro rejected) (auto simp: with_XRequestID_def Let_def)
    next
      case (Inr x)
      with w True ne have "handler x ?c w = (out, c', w')" by (simp add: with_XRequestID_def Let_def)
      then show ?thesis using u by (rule handled [OF _ same_client_store])
    qed
  qed
qed

lemma data_told:
  assumes "eCtx_JSON 200 (data_json body) c = (e, c')"
  shows "if e = None then told_data c c' body else same_client c c'"
  using assms
  by (cases "data_json body"; cases "ec_broken c"; cases e) (auto simp: eCtx_JSON_def told_data_def same_client_def)

lemma code_of_errorf [simp]:
  "GetServerErrorCode (HTTPError k m) = k" "GetServerErrorCode (NewServerError k m e) = k"
  "GetServerErrorCode (errorf_wv echo_ErrBadRequest e) = 400"
  "GetServerErrorCode (errorf_wv echo_ErrInternalServerError e) = 500"
  by (simp_all add: GetServerErrorCode_def NewServerError_def errorf_wv_def echo_ErrBadRequest_def
      echo_ErrInternalServerError_def)

text \<open>A POST to a route behind the validator and the wrapper.\<close>

lemma post_cases:
  assumes "server_New opts = Inr s" and "main_errHandler p = Inr h"
    and "vo_errHandler opts = Some (errhandler_Handle errhandler_Response_json h)"
    and "vo_registerHandlers opts = Some router"
    and "router (ec_Request c) = oapi_validator check (with_XRequestID handler)"
    and "sv_Handler s c w = (c', w')" and "rq_Method (ec_Request c) = ''POST''"
  obtains (rejected) e where "told_error p c c' e" "only_clock w w'"
  | (handled) x c1 w1 u out c2 where "same_client c c1" "only_clock w w1"
      "\<exists>key \<in> request_keys (ec_Request c). \<exists>now. accepts (the (vo_introspector opts)) (vo_resource opts) (vo_role opts) now
         (strings_TrimPrefix key (vo_wsSecProtocol opts @ '', '')) u"
      "MustUserID c1 = Inr u" "handler x c1 w1 = (out, c2, w')" "out = Returned None \<Longrightarrow> c' = c2"
      "\<And>e. out = Returned (Some e) \<Longrightarrow> same_client c1 c2 \<Longrightarrow> told_error p c c' e"
proof -
  have told: "same_client c c2 \<Longrightarrow> told_error p c (errhandler_Handle errhandler_Response_json h e c2) e" for e c2
    by (simp add: main_errHandler_Handle [OF assms(2)] told_error_def same_client_def)
  from assms(1, 6) show ?thesis
  proof (cases rule: Serve_cases)
    case preflight
    then show ?thesis using assms(7) by simp
  next
    case (refused e)
    then show ?thesis using told [of c e] assms(3) by (intro rejected [of e]) (simp_all add: same_client_def)
  next
    case (too_large c1 w1)
    then show ?thesis using told [OF same_client_eq [OF too_large(4)]] assms(3) by (intro rejected) simp_all
  next
    case (handled out c1 w1 c2)
    let ?ok = "\<lambda>key now u. accepts (the (vo_introspector opts)) (vo_resource opts) (vo_role opts) now
         (strings_TrimPrefix key (vo_wsSecProtocol opts @ '', '')) u"
    from handled(1) obtain u key now where l: "only_clock w w1" "same_client c c1" "MustUserID c1 = Inr u"
      "key \<in> request_keys (ec_Request c)" "?ok key now u"
      by (auto simp: let_in_def intro: same_client_eq)
    have route: "oapi_validator check (with_XRequestID handler) c1 w1 = (out, c2, w')"
      using handled(2) assms(4, 5) by simp
    have shown: "out = Returned None \<Longrightarrow> c' = c2" using handled(3) by simp
    have told': "same_client c1 c2 \<Longrightarrow> told_error p c c' e" if "out = Returned (Some e)" for e
      using handled(3) that assms(3) told [of c2 e] l(2) by (simp add: same_client_def)
    from route l(3) show ?thesis
    proof (cases rule: route_cases)
      case (rejected e)
      with told' l show ?thesis by (intro that(1)) simp_all
    next
      case (handled x c3)
      have c3: "same_client c c3" using l(2) handled(2) by (simp add: same_client_def)
      show ?thesis
      proof (rule that(2) [OF c3 l(1) _ handled(3) handled(1) shown])
        show "\<exists>key \<in> request_keys (ec_Request c). \<exists>now. ?ok key now u" using l(4, 5) by blast
        show "told_error p c c' e" if "out = Returned (Some e)" "same_client c3 c2" for e
          using told' [OF that(1)] that(2) handled(2) by (simp add: same_client_def)
      qed
    qed
  qed
qed

section \<open>A request of a sample user\<close>

lemma sample_handled:
  assumes "server_New opts = Inr s" and "vo_registerHandlers opts = Some router"
    and "vo_introspector opts = Some sample_introspect" and "vo_resource opts = ''chat-ui''" and "vo_role opts = ''client''"
    and "vo_wsSecProtocol opts = ''chat''"
    and "router (ec_Request (sample_post path u x body)) = oapi_validator (\<lambda>_. None) (with_XRequestID handler)"
    and "u \<noteq> 0" and "ticks w = []"
    and "\<And>c. ec_Request c = ec_Request (sample_post path u x body) \<Longrightarrow> ec_broken c = None \<Longrightarrow> MustUserID c = Inr u \<Longrightarrow>
      \<exists>c2. handler x c w = (Returned None, c2, w') \<and> ec_responses c2 = ec_responses c @ [(200, Some j)]"
  shows "\<exists>c'. sv_Handler s (sample_post path u x body) w = (c', w') \<and> ec_responses c' = [(200, Some j)]"
proof -
  let ?c = "sample_post path u x body" and ?eh = "the (vo_errHandler opts)"
  let ?cl = "no_claims\<lparr>cl_Subject := uuid_encodeHex (raw u), cl_ResourceAccess := [(''chat-ui'', [''client''])]\<rparr>"
  let ?ca = "?c\<lparr>ec_store := (Map.empty)(tokenCtxKey \<mapsto> CtxToken (Some \<lparr>tk_Claims = Some (Claims ?cl)\<rparr>))\<rparr>"
  let ?cb = "?c\<lparr>ec_store := (Map.empty)(tokenCtxKey \<mapsto> CtxToken (Some \<lparr>tk_Claims = Some (Claims ?cl)\<rparr>), ''bearerAuth.Scopes'' \<mapsto> CtxScopes [])\<rparr>"
  have s: "sv_Handler s = echo_ServeHTTP ?eh [NewRecovery ?eh, echo_CORS,
      NewKeycloakTokenAuth sample_introspect ''chat-ui'' ''client'' ''chat'', echo_BodyLimit bodyLimit] router"
    using assms(1-6) by (auto simp: server_New_def Let_def split: option.splits)
  have "MustUserID ?cb = Inr u" by (simp add: MustUserID_def userID_def tokenCtxKey_def claims_UserID_def)
  from assms(10) [OF _ _ this] obtain c2 where c2: "handler x ?cb w = (Returned None, c2, w')" "ec_responses c2 = [(200, Some j)]"
    by (auto simp: sample_post_def)
  have "header_Values ''X-Request-Id'' (ec_Request ?c) = [uuid_encodeHex (raw x)]"
    by (simp add: header_Values_def sample_post_def)
  moreover have "BindStyledParameter (uuid_encodeHex (raw x)) = Inr x"
    by (simp add: BindStyledParameter_def RequestID_def)
  ultimately have wr: "with_XRequestID handler ?ca w = handler x ?cb w" by (simp add: with_XRequestID_def Let_def)
  have route: "router (ec_Request ?c) ?ca w = (Returned None, c2, w')"
    using c2(1) wr by (simp add: assms(7) oapi_validator_def)
  have st: "ec_store ?c = Map.empty" "rq_ContentLength (ec_Request ?c) = 20" "rq_Method (ec_Request ?c) = ''POST''"
    by (simp_all add: sample_post_def)
  have "applyMiddleware (router (ec_Request ?c)) [NewRecovery ?eh, echo_CORS,
      NewKeycloakTokenAuth sample_introspect ''chat-ui'' ''client'' ''chat'', echo_BodyLimit bodyLimit] ?c w = (Returned None, c2, w')"
    by (simp add: applyMiddleware_def NewRecovery_def echo_CORS_def st sample_auth [OF assms(8, 9)] Let_def
      echo_BodyLimit_def bodyLimit_def route)
  then have "sv_Handler s ?c w = (c2, w')" by (simp add: s echo_ServeHTTP_def)
  with c2(2) show ?thesis by blast
qed

end
