(* ===== verification/Websocket.thy ===== *)
theory Websocket
  imports ClientEvents Server
begin

text \<open>
  The websocket of a client or manager (\<open>internal/websocket-stream\<close>): the upgrade, the loop that waits for
  pongs, the loop that writes pings and events, the watcher of the shutdown channel and the closer that all
  share.  The three goroutines run as interleaved steps: an action says which of them moves and what the
  network answers, and \<open>serve_step\<close> is \<open>None\<close> for an action that cannot happen.
\<close>

section \<open>Connections\<close>

text \<open>
  What \<open>Conn\<close> of \<open>gorilla/websocket\<close> does with messages: the first error of writing is kept and returned from
  then on, a close frame counts as one, and a message that was begun and not closed goes out before the next.
\<close>

datatype ws_frame = PingFrame | PongFrame | TextFrame string | CloseFrame int

record ws_conn =
  wc_written :: "ws_frame list"
  wc_pending :: "string option"
  wc_writeErr :: "goerr option"
  wc_readDeadline :: "time option"
  wc_open :: bool

definition new_conn :: ws_conn where
  "new_conn = \<lparr>wc_written = [], wc_pending = None, wc_writeErr = None, wc_readDeadline = None, wc_open = True\<rparr>"

text \<open>The calls that the network, or the operating system, can fail.\<close>

datatype ws_call = OnWriteDeadline | OnReadDeadline | OnWrite | OnFlush

type_synonym ws_env = "ws_call \<Rightarrow> goerr option"

definition ErrCloseSent :: goerr where
  "ErrCloseSent = New ''websocket.ErrCloseSent'' ''websocket: close sent''"

definition net_ErrClosed :: goerr where
  "net_ErrClosed = New ''net.ErrClosed'' ''use of closed network connection''"

definition is_close :: "ws_frame \<Rightarrow> bool" where
  "is_close f \<longleftrightarrow> (case f of CloseFrame _ \<Rightarrow> True | _ \<Rightarrow> False)"

definition ws_flush :: "ws_env \<Rightarrow> ws_frame \<Rightarrow> ws_conn \<Rightarrow> goerr option \<times> ws_conn" where
  "ws_flush env f c =
     (case wc_writeErr c of
        Some err \<Rightarrow> (Some err, c)
      | None \<Rightarrow>
          (case (if wc_open c then env OnFlush else Some net_ErrClosed) of
             Some err \<Rightarrow> (Some err, c\<lparr>wc_writeErr := Some err\<rparr>)
           | None \<Rightarrow> (None, c\<lparr>wc_written := wc_written c @ [f],
                             wc_writeErr := (if is_close f then Some ErrCloseSent else None)\<rparr>)))"

definition ws_beginMessage :: "ws_env \<Rightarrow> ws_conn \<Rightarrow> goerr option \<times> ws_conn" where
  "ws_beginMessage env c =
     (let c = (case wc_pending c of None \<Rightarrow> c | Some t \<Rightarrow> (snd (ws_flush env (TextFrame t) c))\<lparr>wc_pending := None\<rparr>)
      in (wc_writeErr c, c))"

definition ws_WriteMessage :: "ws_env \<Rightarrow> ws_frame \<Rightarrow> ws_conn \<Rightarrow> goerr option \<times> ws_conn" where
  "ws_WriteMessage env f c =
     (case ws_beginMessage env c of
        (Some err, c) \<Rightarrow> (Some err, c)
      | (None, c) \<Rightarrow> ws_flush env f c)"

definition ws_NextWriter :: "ws_env \<Rightarrow> ws_conn \<Rightarrow> goerr option \<times> ws_conn" where
  "ws_NextWriter env c =
     (case ws_beginMessage env c of
        (Some err, c) \<Rightarrow> (Some err, c)
      | (None, c) \<Rightarrow> (None, c\<lparr>wc_pending := Some []\<rparr>))"

definition ws_Write :: "ws_env \<Rightarrow> string \<Rightarrow> ws_conn \<Rightarrow> goerr option \<times> ws_conn" where
  "ws_Write env b c =
     (case env OnWrite of
        Some err \<Rightarrow> (Some err, c)
      | None \<Rightarrow> (None, c\<lparr>wc_pending := map_option (\<lambda>t. t @ b) (wc_pending c)\<rparr>))"

definition ws_CloseWriter :: "ws_env \<Rightarrow> ws_conn \<Rightarrow> goerr option \<times> ws_conn" where
  "ws_CloseWriter env c =
     (case wc_pending c of
        None \<Rightarrow> (None, c)
      | Some t \<Rightarrow> (case ws_flush env (TextFrame t) c of (err, c) \<Rightarrow> (err, c\<lparr>wc_pending := None\<rparr>)))"

text \<open>\<open>SetReadDeadline\<close>, \<open>SetWriteDeadline\<close>; what runs into a write deadline is an error of the network.\<close>

definition ws_SetReadDeadline :: "ws_env \<Rightarrow> time \<Rightarrow> ws_conn \<Rightarrow> goerr option \<times> ws_conn" where
  "ws_SetReadDeadline env t c =
     (case env OnReadDeadline of Some err \<Rightarrow> (Some err, c) | None \<Rightarrow> (None, c\<lparr>wc_readDeadline := Some t\<rparr>))"

section \<open>The upgrader\<close>

text \<open>\<open>CheckOrigin\<close>; the handshake itself is the argument \<open>gorilla\<close>.\<close>

definition CheckOrigin :: "string list \<Rightarrow> http_Request \<Rightarrow> bool" where
  "CheckOrigin allowOrigins r = list_ex (\<lambda>o'. o' = header_Get ''Origin'' r) allowOrigins"

type_synonym 'w ws_upgrade = "http_Request \<Rightarrow> 'w \<Rightarrow> ws_conn result \<times> 'w"

definition NewUpgrader ::
  "((http_Request \<Rightarrow> bool) \<Rightarrow> string list \<Rightarrow> 'w ws_upgrade) \<Rightarrow> string list \<Rightarrow> string \<Rightarrow> 'w ws_upgrade" where
  "NewUpgrader gorilla allowOrigins secWsProtocol = gorilla (CheckOrigin allowOrigins) [secWsProtocol]"

section \<open>The handler\<close>

record ('e, 'w) websocket_Options =
  wo_pingPeriod :: int
  wo_logger :: "unit option"
  wo_eventStream :: "(UserID \<Rightarrow> 'w \<Rightarrow> EventClientID result \<times> 'w) option"
  wo_eventAdapter :: "(event \<Rightarrow> 'e result) option"
  wo_eventWriter :: "('e \<Rightarrow> (string \<Rightarrow> ws_conn \<Rightarrow> goerr option \<times> ws_conn) \<Rightarrow> ws_conn \<Rightarrow> goerr option \<times> ws_conn) option"
  wo_upgrader :: "'w ws_upgrade option"
  wo_shutdownCh :: "unit option"

definition websocket_NewOptions where
  "websocket_NewOptions logger eventStream eventAdapter eventWriter upgrader shutdownCh options =
     foldl (\<lambda>o' opt. opt o')
       (\<lparr>wo_pingPeriod = 3 * second, wo_logger = logger, wo_eventStream = eventStream, wo_eventAdapter = eventAdapter,
         wo_eventWriter = eventWriter, wo_upgrader = upgrader, wo_shutdownCh = shutdownCh\<rparr> :: ('e, 'w) websocket_Options)
       options"

definition WithPingPeriod :: "int \<Rightarrow> ('e, 'w) websocket_Options \<Rightarrow> ('e, 'w) websocket_Options" where
  "WithPingPeriod opt o' = o'\<lparr>wo_pingPeriod := opt\<rparr>"

definition websocket_Options_Validate :: "('e, 'w) websocket_Options \<Rightarrow> goerr option" where
  "websocket_Options_Validate o' = validate_options
     [(''pingPeriod'', VInt (wo_pingPeriod o'), [Omitempty, MinT (100 * millisecond), MaxT (30 * second)]),
      (''logger'', VIface (wo_logger o' \<noteq> None), [Required]),
      (''eventStream'', VIface (wo_eventStream o' \<noteq> None), [Required]),
      (''eventAdapter'', VIface (wo_eventAdapter o' \<noteq> None), [Required]),
      (''eventWriter'', VIface (wo_eventWriter o' \<noteq> None), [Required]),
      (''upgrader'', VIface (wo_upgrader o' \<noteq> None), [Required]),
      (''shutdownCh'', VIface (wo_shutdownCh o' \<noteq> None), [Required])]"

text \<open>A handler is its options.\<close>

definition NewHTTPHandler :: "('e, 'w) websocket_Options \<Rightarrow> ('e, 'w) websocket_Options result" where
  "NewHTTPHandler opts =
     (case websocket_Options_Validate opts of
        Some err \<Rightarrow> Inl (errorf_v ''validate options websocketstream'' err)
      | None \<Rightarrow> Inr opts)"

subsection \<open>Writing\<close>

definition writePing :: "ws_env \<Rightarrow> ws_conn \<Rightarrow> goerr option \<times> ws_conn" where
  "writePing env ws =
     (case env OnWriteDeadline of
        Some err \<Rightarrow> (Some (errorf_v ''set write deadline'' err), ws)
      | None \<Rightarrow>
          (case ws_WriteMessage env PingFrame ws of
             (Some err, ws) \<Rightarrow> (Some (errorf_v ''write ping message'' err), ws)
           | (None, ws) \<Rightarrow> (None, ws)))"

definition writeEvent :: "('e, 'w) websocket_Options \<Rightarrow> ws_env \<Rightarrow> event \<Rightarrow> ws_conn \<Rightarrow> goerr option \<times> ws_conn" where
  "writeEvent h env ev ws =
     (case env OnWriteDeadline of
        Some err \<Rightarrow> (Some (errorf_v ''set write deadline'' err), ws)
      | None \<Rightarrow>
          (case ws_NextWriter env ws of
             (Some err, ws) \<Rightarrow> (Some (errorf_v ''get next writer'' err), ws)
           | (None, ws) \<Rightarrow>
               (case the (wo_eventAdapter h) ev of
                  Inl err \<Rightarrow> (Some (errorf_v ''adapt event'' err), ws)
                | Inr res \<Rightarrow>
                    (case the (wo_eventWriter h) res (ws_Write env) ws of
                       (Some err, ws) \<Rightarrow> (Some (errorf_v ''write event'' err), ws)
                     | (None, ws) \<Rightarrow>
                         (case ws_CloseWriter env ws of
                            (Some err, ws) \<Rightarrow> (Some (errorf_v ''close writer'' err), ws)
                          | (None, ws) \<Rightarrow> (None, ws))))))"

subsection \<open>Closing\<close>

definition CloseNormalClosure :: int where "CloseNormalClosure = 1000"
definition closeDeadline :: int where "closeDeadline = 5 * second"
definition graceTimeout :: int where "graceTimeout = second"
definition writeTimeout :: int where "writeTimeout = second"

text \<open>
  What \<open>wsCloser.Close\<close> does before its sleep and after it; the errors are dropped.  A control message waits
  up to \<open>closeDeadline\<close> for its turn, which in steps that do not overlap it always has at once.
\<close>

definition closer_control :: "ws_env \<Rightarrow> int \<Rightarrow> ws_conn \<Rightarrow> ws_conn" where
  "closer_control env code ws = snd (ws_flush env (CloseFrame code) ws)"

definition closer_end :: "ws_conn \<Rightarrow> ws_conn" where
  "closer_end ws = ws\<lparr>wc_open := False\<rparr>"

subsection \<open>The goroutines of a connection\<close>

datatype reader_pc = ReaderStarts | ReaderLoops | ReaderEnded "goerr option"
datatype writer_pc = WriterLoops | WriterEnded "goerr option"
datatype watcher_pc = Watches | Sleeps time | WatcherEnded

text \<open>
  \<open>ss_once\<close> is the closer's \<open>sync.Once\<close>, \<open>ss_err\<close> and \<open>ss_cancelled\<close> are the group's first error and its context,
  \<open>ss_taken\<close> the events received so far, \<open>ss_result\<close> what \<open>Serve\<close> returned.
\<close>

record serve_state =
  ss_now :: time
  ss_conn :: ws_conn
  ss_reader :: reader_pc
  ss_writer :: writer_pc
  ss_watcher :: watcher_pc
  ss_cancelled :: bool
  ss_err :: "goerr option"
  ss_once :: bool
  ss_taken :: "event list"
  ss_result :: "goerr option option"

definition serve_loops :: "time \<Rightarrow> ws_conn \<Rightarrow> serve_state" where
  "serve_loops now ws = \<lparr>ss_now = now, ss_conn = ws, ss_reader = ReaderStarts, ss_writer = WriterLoops, ss_watcher = Watches,
     ss_cancelled = False, ss_err = None, ss_once = False, ss_taken = [], ss_result = None\<rparr>"

text \<open>
  \<open>Serve\<close> up to its loops.  When it ends before them, the upgraded connection, if there is one, stays as it is.
\<close>

datatype serve_start =
    ServeEnded http_outcome "ws_conn option"
  | ServeLoops EventClientID serve_state

definition Serve_begin ::
  "('e, 'w) websocket_Options \<Rightarrow> time \<Rightarrow> token_Context \<Rightarrow> 'w \<Rightarrow> serve_start \<times> 'w" where
  "Serve_begin h now eCtx w =
     (case the (wo_upgrader h) (ec_Request eCtx) w of
        (Inl err, w) \<Rightarrow> (ServeEnded (Returned (Some (errorf_v ''upgrade ws'' err))) None, w)
      | (Inr ws, w) \<Rightarrow>
          (case MustUserID eCtx of
             Inl r \<Rightarrow> (ServeEnded (Panicked r) (Some ws), w)
           | Inr uid \<Rightarrow>
               (case the (wo_eventStream h) uid w of
                  (Inl err, w) \<Rightarrow> (ServeEnded (Returned (Some (errorf_v ''subscribe on event stream'' err))) (Some ws), w)
                | (Inr events, w) \<Rightarrow> (ServeLoops events (serve_loops now ws), w))))"

text \<open>A goroutine of the group returns: the first error is kept and cancels the context.\<close>

definition group_done :: "goerr option \<Rightarrow> serve_state \<Rightarrow> serve_state" where
  "group_done r s =
     (case r of
        None \<Rightarrow> s
      | Some err \<Rightarrow> s\<lparr>ss_err := (case ss_err s of None \<Rightarrow> Some err | Some e \<Rightarrow> Some e), ss_cancelled := True\<rparr>)"

definition reader_done :: "goerr option \<Rightarrow> serve_state \<Rightarrow> serve_state" where
  "reader_done r s = group_done r (s\<lparr>ss_reader := ReaderEnded r\<rparr>)"

definition writer_done :: "goerr option \<Rightarrow> serve_state \<Rightarrow> serve_state" where
  "writer_done r s = group_done r (s\<lparr>ss_writer := WriterEnded r\<rparr>)"

text \<open>
  The actions.  A peer's ping is answered and its close frame is answered with one of the same code, as the
  handlers that \<open>gorilla\<close> installs do; \<open>NextReader\<close> returns data or an error.
\<close>

datatype serve_action =
    Pass int
  | RequestCancelled
  | ReaderStart ws_env
  | ReadData
  | ReadPong ws_env
  | ReadPing ws_env
  | ReadClose ws_env int goerr
  | ReadFails goerr
  | PeriodEnds ws_env
  | EventArrives ws_env event
  | EventsClosed
  | WriterCancelled
  | ShutdownClosed ws_env
  | GraceEnds
  | WatcherCancelled
  | ServeReturns ws_env

definition can_read :: "serve_state \<Rightarrow> bool" where
  "can_read s \<longleftrightarrow> ss_reader s = ReaderLoops \<and> wc_open (ss_conn s) \<and>
     (case wc_readDeadline (ss_conn s) of None \<Rightarrow> True | Some d \<Rightarrow> ss_now s < d)"

definition pongDeadline :: "('e, 'w) websocket_Options \<Rightarrow> int" where
  "pongDeadline h = 2 * wo_pingPeriod h"

fun serve_step :: "('e, 'w) websocket_Options \<Rightarrow> serve_action \<Rightarrow> serve_state \<Rightarrow> serve_state option" where
  "serve_step h (Pass d) s = (if 0 \<le> d then Some (s\<lparr>ss_now := ss_now s + d\<rparr>) else None)"
| "serve_step h RequestCancelled s = Some (s\<lparr>ss_cancelled := True\<rparr>)"
| "serve_step h (ReaderStart env) s =
     (if ss_reader s \<noteq> ReaderStarts then None
      else (case ws_SetReadDeadline env (ss_now s + pongDeadline h) (ss_conn s) of
              (Some err, ws) \<Rightarrow> Some (reader_done (Some (errorf_v ''set read deadline'' err)) (s\<lparr>ss_conn := ws\<rparr>))
            | (None, ws) \<Rightarrow> Some (s\<lparr>ss_conn := ws, ss_reader := ReaderLoops\<rparr>)))"
| "serve_step h ReadData s = (if can_read s then Some s else None)"
| "serve_step h (ReadPong env) s =
     (if can_read s then Some (s\<lparr>ss_conn := snd (ws_SetReadDeadline env (ss_now s + pongDeadline h) (ss_conn s))\<rparr>) else None)"
| "serve_step h (ReadPing env) s =
     (if can_read s then Some (s\<lparr>ss_conn := snd (ws_flush env PongFrame (ss_conn s))\<rparr>) else None)"
| "serve_step h (ReadClose env code err) s =
     (if can_read s
      then Some (reader_done (Some (errorf_v ''read next reader'' err)) (s\<lparr>ss_conn := snd (ws_flush env (CloseFrame code) (ss_conn s))\<rparr>))
      else None)"
| "serve_step h (ReadFails err) s =
     (if ss_reader s = ReaderLoops then Some (reader_done (Some (errorf_v ''read next reader'' err)) s) else None)"
| "serve_step h (PeriodEnds env) s =
     (if ss_writer s \<noteq> WriterLoops then None
      else (case writePing env (ss_conn s) of
              (Some err, ws) \<Rightarrow> Some (writer_done (Some (errorf_v ''write ping'' err)) (s\<lparr>ss_conn := ws\<rparr>))
            | (None, ws) \<Rightarrow> Some (s\<lparr>ss_conn := ws\<rparr>)))"
| "serve_step h (EventArrives env ev) s =
     (if ss_writer s \<noteq> WriterLoops then None
      else (case writeEvent h env ev (ss_conn s) of
              (Some err, ws) \<Rightarrow> Some (writer_done (Some (errorf_v ''write event'' err)) (s\<lparr>ss_conn := ws, ss_taken := ss_taken s @ [ev]\<rparr>))
            | (None, ws) \<Rightarrow> Some (s\<lparr>ss_conn := ws, ss_taken := ss_taken s @ [ev]\<rparr>)))"
| "serve_step h EventsClosed s = (if ss_writer s \<noteq> WriterLoops then None else Some (writer_done None s))"
| "serve_step h WriterCancelled s = (if ss_writer s \<noteq> WriterLoops \<or> \<not> ss_cancelled s then None else Some (writer_done None s))"
| "serve_step h (ShutdownClosed env) s =
     (if ss_watcher s \<noteq> Watches then None
      else Some (s\<lparr>ss_conn := closer_control env CloseNormalClosure (ss_conn s), ss_once := True,
                  ss_watcher := Sleeps (ss_now s + graceTimeout)\<rparr>))"
| "serve_step h GraceEnds s =
     (case ss_watcher s of
        Sleeps t \<Rightarrow> if ss_now s < t then None else Some (s\<lparr>ss_conn := closer_end (ss_conn s), ss_watcher := WatcherEnded\<rparr>)
      | _ \<Rightarrow> None)"
| "serve_step h WatcherCancelled s =
     (if ss_watcher s \<noteq> Watches \<or> \<not> ss_cancelled s then None else Some (s\<lparr>ss_watcher := WatcherEnded\<rparr>))"
| "serve_step h (ServeReturns env) s =
     (case (ss_reader s, ss_writer s, ss_watcher s, ss_result s) of
        (ReaderEnded _, WriterEnded _, WatcherEnded, None) \<Rightarrow>
          Some (if ss_once s then s\<lparr>ss_result := Some (ss_err s)\<rparr>
                else s\<lparr>ss_conn := closer_end (closer_control env CloseNormalClosure (ss_conn s)), ss_once := True,
                       ss_now := ss_now s + graceTimeout, ss_result := Some (ss_err s)\<rparr>)
      | _ \<Rightarrow> None)"

fun serve_run :: "('e, 'w) websocket_Options \<Rightarrow> serve_action list \<Rightarrow> serve_state \<Rightarrow> serve_state option" where
  "serve_run h [] s = Some s"
| "serve_run h (a # as) s = (case serve_step h a s of None \<Rightarrow> None | Some s' \<Rightarrow> serve_run h as s')"

section \<open>As the servers build it\<close>

text \<open>
  \<open>zone\<close> is the local offset from UTC, \<open>gorilla\<close> the handshake and \<open>subscribe\<close> the event stream; nobody closes
  the shutdown channel that the servers make.
\<close>

definition main_wsHandler ::
  "(time \<Rightarrow> int) \<Rightarrow> ((http_Request \<Rightarrow> bool) \<Rightarrow> string list \<Rightarrow> 'w ws_upgrade) \<Rightarrow> string list \<Rightarrow> string
   \<Rightarrow> (UserID \<Rightarrow> 'w \<Rightarrow> EventClientID result \<times> 'w) \<Rightarrow> (client_Event, 'w) websocket_Options result" where
  "main_wsHandler zone gorilla allowOrigins secWsProtocol subscribe =
     NewHTTPHandler (websocket_NewOptions (Some ()) (Some subscribe) (Some (\<lambda>ev. Adapter_Adapt zone (Some ev)))
       (Some JSONEventWriter_Write) (Some (NewUpgrader gorilla allowOrigins secWsProtocol)) (Some ()) [])"

lemma main_wsHandler_wired:
  obtains h where "main_wsHandler zone gorilla allowOrigins secWsProtocol subscribe = Inr h" "wo_pingPeriod h = 3 * second"
    "wo_eventAdapter h = Some (\<lambda>ev. Adapter_Adapt zone (Some ev))" "wo_eventWriter h = Some JSONEventWriter_Write"
    "wo_eventStream h = Some subscribe" "wo_upgrader h = Some (NewUpgrader gorilla allowOrigins secWsProtocol)"
  by (simp add: main_wsHandler_def NewHTTPHandler_def websocket_NewOptions_def websocket_Options_Validate_def
      validate_options_None [THEN iffD2] duration_defs)

section \<open>What a connection carries\<close>

definition ws_texts :: "ws_frame list \<Rightarrow> string list" where
  "ws_texts fs = concat (map (\<lambda>f. case f of TextFrame t \<Rightarrow> [t] | _ \<Rightarrow> []) fs)"

text \<open>The line that stands for an event.\<close>

definition event_line :: "(time \<Rightarrow> int) \<Rightarrow> event \<Rightarrow> string" where
  "event_line zone ev =
     (case Adapter_Adapt zone (Some ev) of Inr e \<Rightarrow> Event_MarshalJSON e @ [CHR 0x0A] | Inl _ \<Rightarrow> [])"

text \<open>A close frame is the last one, and no write succeeds after it.\<close>

definition close_last :: "ws_conn \<Rightarrow> bool" where
  "close_last c \<longleftrightarrow> list_all (\<lambda>f. \<not> is_close f) (butlast (wc_written c)) \<and>
     (wc_written c \<noteq> [] \<longrightarrow> is_close (last (wc_written c)) \<longrightarrow> wc_writeErr c \<noteq> None)"

text \<open>How a write changes a connection.\<close>

definition writes :: "ws_frame list \<Rightarrow> ws_conn \<Rightarrow> ws_conn \<Rightarrow> bool" where
  "writes fs c c' \<longleftrightarrow> wc_written c' = wc_written c @ fs \<and> (close_last c \<longrightarrow> close_last c') \<and> wc_open c' = wc_open c
     \<and> wc_readDeadline c' = wc_readDeadline c \<and> (wc_writeErr c \<noteq> None \<longrightarrow> wc_writeErr c' \<noteq> None)"

lemma ws_flush_cases:
  assumes "ws_flush env f c = (r, c')"
  obtains e where "r = Some e" "writes [] c c'" "wc_pending c' = wc_pending c"
  | "r = None" "writes [f] c c'" "wc_pending c' = wc_pending c"
proof (cases "wc_writeErr c")
  case (Some e)
  with assms show ?thesis by (intro that(1) [of e]) (auto simp: ws_flush_def writes_def)
next
  case None
  have "list_all (\<lambda>f. \<not> is_close f) (wc_written c)" if "close_last c"
    using that None by (cases "wc_written c" rule: rev_cases) (auto simp: close_last_def)
  then have "close_last c \<Longrightarrow> close_last (c\<lparr>wc_written := wc_written c @ [f], wc_writeErr := if is_close f then Some ErrCloseSent else None\<rparr>)"
    "close_last c \<Longrightarrow> close_last (c\<lparr>wc_writeErr := Some e\<rparr>)" for e
    by (auto simp: close_last_def)
  with assms None that show ?thesis
    by (auto simp: ws_flush_def writes_def split: option.splits if_splits)
qed

lemma writes_pending [simp]: "writes fs c (c'\<lparr>wc_pending := p\<rparr>) = writes fs c c'" "writes fs (c\<lparr>wc_pending := p\<rparr>) c' = writes fs c c'"
  by (simp_all add: writes_def close_last_def)

lemma writes_refl [simp]: "writes [] c c" by (simp add: writes_def)

lemma ws_beginMessage_idle: "wc_pending c = None \<Longrightarrow> ws_beginMessage env c = (wc_writeErr c, c)"
  by (simp add: ws_beginMessage_def)

lemma writePing_cases:
  assumes "writePing env c = (r, c')" "wc_pending c = None"
  obtains e where "r = Some e" "writes [] c c'" | "r = None" "writes [PingFrame] c c'" "wc_pending c' = None"
proof -
  obtain r2 c2 where f: "ws_flush env PingFrame c = (r2, c2)" by force
  from f show ?thesis
    by (cases rule: ws_flush_cases)
      (use assms f that in \<open>auto simp: writePing_def ws_WriteMessage_def ws_beginMessage_idle split: option.splits\<close>)
qed

lemma Adapt_writable: "Adapter_Adapt zone (Some ev) = Inr event \<Longrightarrow> event_writable zone ev"
  by (cases ev) (auto simp: event_writable_def writable_def Adapter_Adapt_def adapted_def Event_FromNewMessageEvent_def
      client_NewMessageEvent_json_def time_json_def split: sum.splits)

lemma Adapt_Encode:
  assumes "Adapter_Adapt zone (Some ev) = Inr event"
  shows "json_Encode t (Event_MarshalJSON event) = Inr (event_line zone ev)"
proof -
  from Adapt_writable [OF assms] obtain j where "Adapter_Adapt zone (Some ev) = Inr \<lparr>union_of = Some (json_Marshal j)\<rparr>" "json_ints j"
    by (rule Adapt_union)
  with assms json_Encode_Marshal [of j] show ?thesis
    by (auto simp: event_line_def Event_MarshalJSON_def raw_MarshalJSON_def)
qed

lemma writeEvent_cases:
  assumes "writeEvent h env ev c = (r, c')" "wc_pending c = None"
    and "wo_eventAdapter h = Some (\<lambda>ev. Adapter_Adapt zone (Some ev))" "wo_eventWriter h = Some JSONEventWriter_Write"
  obtains e where "r = Some e" "writes [] c c'" | "r = None" "writes [TextFrame (event_line zone ev)] c c'" "wc_pending c' = None"
proof (cases "env OnWriteDeadline \<noteq> None \<or> wc_writeErr c \<noteq> None")
  case True
  with assms(1, 2) that(1) show ?thesis by (auto simp: writeEvent_def ws_NextWriter_def ws_beginMessage_idle split: option.splits)
next
  case False
  let ?c = "c\<lparr>wc_pending := Some []\<rparr>"
  have n: "ws_NextWriter env c = (None, ?c)" using False assms(2) by (simp add: ws_NextWriter_def ws_beginMessage_idle)
  show ?thesis
  proof (cases "Adapter_Adapt zone (Some ev)")
    case (Inl e)
    with n False assms(1, 3) show ?thesis by (intro that(1)) (auto simp: writeEvent_def)
  next
    case (Inr event)
    note enc = Adapt_Encode [OF Inr]
    show ?thesis
    proof (cases "env OnWrite")
      case (Some e)
      with n enc Inr False assms(1, 3, 4) show ?thesis
        by (intro that(1)) (auto simp: writeEvent_def JSONEventWriter_Write_def ws_Write_def)
    next
      case None
      let ?d = "c\<lparr>wc_pending := Some (event_line zone ev)\<rparr>"
      obtain r2 c2 where f: "ws_flush env (TextFrame (event_line zone ev)) ?d = (r2, c2)" by force
      then have "writeEvent h env ev c = (map_option (errorf_v ''close writer'') r2, c2\<lparr>wc_pending := None\<rparr>)"
        using n enc Inr False None assms(3, 4)
        by (simp add: writeEvent_def JSONEventWriter_Write_def ws_Write_def ws_CloseWriter_def split: option.splits)
      with assms(1) have rc: "r = map_option (errorf_v ''close writer'') r2" "c' = c2\<lparr>wc_pending := None\<rparr>" by simp_all
      from f show ?thesis by (cases rule: ws_flush_cases) (use rc that in auto)
    qed
  qed
qed

section \<open>What holds along every run\<close>

definition loops_inv :: "('e, 'w) websocket_Options \<Rightarrow> serve_state \<Rightarrow> bool" where
  "loops_inv h s \<longleftrightarrow>
     (\<forall>r. ss_reader s = ReaderEnded r \<longrightarrow> ss_err s \<noteq> None) \<and>
     (ss_reader s = ReaderLoops \<longrightarrow> (\<exists>d. wc_readDeadline (ss_conn s) = Some d \<and> d \<le> ss_now s + pongDeadline h)) \<and>
     (\<forall>e. ss_writer s = WriterEnded (Some e) \<longrightarrow> ss_err s \<noteq> None) \<and>
     (ss_err s \<noteq> None \<longrightarrow> ss_cancelled s)"

text \<open>The events written, and the one on which writing stopped.\<close>

definition sent_inv :: "(time \<Rightarrow> int) \<Rightarrow> serve_state \<Rightarrow> bool" where
  "sent_inv zone s \<longleftrightarrow> close_last (ss_conn s) \<and>
     (let sent = ws_texts (wc_written (ss_conn s)); took = ss_taken s in
      sent = map (event_line zone) took \<and> (ss_writer s = WriterLoops \<longrightarrow> wc_pending (ss_conn s) = None)
      \<or> (\<exists>e. ss_writer s = WriterEnded (Some e)) \<and> took \<noteq> [] \<and> sent = map (event_line zone) (butlast took))"

definition close_inv :: "serve_state \<Rightarrow> bool" where
  "close_inv s \<longleftrightarrow>
     (\<forall>t. ss_watcher s = Sleeps t \<longrightarrow> ss_once s \<and> ss_result s = None) \<and>
     (ss_watcher s = Watches \<longrightarrow> \<not> ss_once s \<and> ss_result s = None) \<and>
     (ss_once s \<longrightarrow> ss_watcher s = WatcherEnded \<longrightarrow> \<not> wc_open (ss_conn s)) \<and>
     (\<forall>r. ss_result s = Some r \<longrightarrow> ss_once s \<and> r = ss_err s \<and> r \<noteq> None \<and> ss_watcher s = WatcherEnded \<and>
        (\<exists>r. ss_reader s = ReaderEnded r) \<and> (\<exists>r. ss_writer s = WriterEnded r))"

lemma ws_texts_append [simp]:
  "ws_texts [] = []" "ws_texts (fs @ [PingFrame]) = ws_texts fs" "ws_texts (fs @ [PongFrame]) = ws_texts fs"
  "ws_texts (fs @ [CloseFrame k]) = ws_texts fs" "ws_texts (fs @ [TextFrame t]) = ws_texts fs @ [t]"
  by (simp_all add: ws_texts_def)

text \<open>What an action other than the arrival of an event does to the connection.\<close>

lemma control_texts:
  fixes env :: ws_env and c :: ws_conn
  assumes "f = PongFrame \<or> f = CloseFrame k"
  defines "c' \<equiv> snd (ws_flush env f c)"
  shows "ws_texts (wc_written c') = ws_texts (wc_written c)" "close_last c \<Longrightarrow> close_last c'" "wc_open c' = wc_open c"
    "wc_readDeadline c' = wc_readDeadline c" "wc_pending c' = wc_pending c"
proof -
  obtain r where "ws_flush env f c = (r, c')" by (metis c'_def prod.collapse)
  then show "ws_texts (wc_written c') = ws_texts (wc_written c)" "close_last c \<Longrightarrow> close_last c'" "wc_open c' = wc_open c"
    "wc_readDeadline c' = wc_readDeadline c" "wc_pending c' = wc_pending c"
    by (cases rule: ws_flush_cases; use assms(1) in \<open>auto simp: writes_def\<close>)+
qed

lemmas control_simps = control_texts [OF disjI1 [OF refl]] control_texts [OF disjI2 [OF refl]]

lemma done_simps [simp]:
  "ss_conn (reader_done r s) = ss_conn s" "ss_writer (reader_done r s) = ss_writer s" "ss_taken (reader_done r s) = ss_taken s"
  "ss_watcher (reader_done r s) = ss_watcher s" "ss_once (reader_done r s) = ss_once s" "ss_result (reader_done r s) = ss_result s"
  "ss_conn (writer_done r s) = ss_conn s" "ss_writer (writer_done r s) = WriterEnded r" "ss_taken (writer_done r s) = ss_taken s"
  "ss_watcher (writer_done r s) = ss_watcher s" "ss_once (writer_done r s) = ss_once s" "ss_result (writer_done r s) = ss_result s"
  by (simp_all add: reader_done_def writer_done_def group_done_def split: option.splits)

lemma SetReadDeadline_simps:
  "wc_written (snd (ws_SetReadDeadline env t c)) = wc_written c" "wc_open (snd (ws_SetReadDeadline env t c)) = wc_open c"
  "wc_pending (snd (ws_SetReadDeadline env t c)) = wc_pending c" "close_last (snd (ws_SetReadDeadline env t c)) = close_last c"
  by (simp_all add: ws_SetReadDeadline_def close_last_def split: option.splits)

text \<open>A goroutine that ended stays as it ended: the writer and the result.\<close>

lemma loops_step:
  assumes "loops_inv h s" "serve_step h a s = Some s'" "wc_pending (ss_conn s) = None \<or> ss_writer s \<noteq> WriterLoops"
    and "wo_eventAdapter h = Some (\<lambda>ev. Adapter_Adapt zone (Some ev))" "wo_eventWriter h = Some JSONEventWriter_Write"
  shows "loops_inv h s'"
proof (cases a)
  case (ReaderStart env)
  then show ?thesis using assms(1, 2)
    by (auto simp: loops_inv_def ws_SetReadDeadline_def reader_done_def group_done_def split: if_splits option.splits)
next
  case (ReadPong env)
  then show ?thesis using assms(1, 2)
    by (auto simp: loops_inv_def ws_SetReadDeadline_def split: if_splits option.splits)
next
  case (PeriodEnds env)
  obtain r c' where p: "writePing env (ss_conn s) = (r, c')" by force
  with PeriodEnds assms(2, 3) have w: "wc_pending (ss_conn s) = None" by (auto split: if_splits)
  from p w show ?thesis
    by (cases rule: writePing_cases)
      (use PeriodEnds p assms(1, 2) in \<open>auto simp: loops_inv_def writes_def writer_done_def group_done_def split: if_splits option.splits\<close>)
next
  case (EventArrives env ev)
  obtain r c' where p: "writeEvent h env ev (ss_conn s) = (r, c')" by force
  with EventArrives assms(2, 3) have w: "wc_pending (ss_conn s) = None" by (auto split: if_splits)
  from p w assms(4, 5) show ?thesis
    by (cases rule: writeEvent_cases)
      (use EventArrives p assms(1, 2) in \<open>auto simp: loops_inv_def writes_def writer_done_def group_done_def split: if_splits option.splits\<close>)
qed (use assms(1, 2) in \<open>auto simp: loops_inv_def control_simps closer_control_def closer_end_def reader_done_def writer_done_def
    group_done_def split: if_splits option.splits reader_pc.splits writer_pc.splits watcher_pc.splits\<close>)

lemma closer_end_last: "close_last (closer_end c) = close_last c"
  by (simp add: closer_end_def close_last_def)

lemma closer_simps:
  "wc_written (closer_end c) = wc_written c" "wc_pending (closer_end c) = wc_pending c"
  "ws_texts (wc_written (closer_control env k c)) = ws_texts (wc_written c)" "close_last c \<Longrightarrow> close_last (closer_control env k c)"
  "wc_open (closer_control env k c) = wc_open c" "wc_pending (closer_control env k c) = wc_pending c" "\<not> wc_open (closer_end c)"
  by (simp_all add: closer_end_def closer_control_def control_simps)

lemma sent_same:
  assumes "sent_inv zone s" "close_last (ss_conn s) \<Longrightarrow> close_last (ss_conn s')" "ss_taken s' = ss_taken s"
    and "ws_texts (wc_written (ss_conn s')) = ws_texts (wc_written (ss_conn s))" "wc_pending (ss_conn s') = wc_pending (ss_conn s)"
    and "ss_writer s' = ss_writer s \<or> ss_writer s = WriterLoops \<and> ss_writer s' = WriterEnded None"
  shows "sent_inv zone s'"
  using assms by (auto simp: sent_inv_def Let_def)

lemma sent_step:
  assumes "sent_inv zone s" "serve_step h a s = Some s'"
    and "wo_eventAdapter h = Some (\<lambda>ev. Adapter_Adapt zone (Some ev))" "wo_eventWriter h = Some JSONEventWriter_Write"
  shows "sent_inv zone s'"
proof (cases a)
  case (PeriodEnds env)
  obtain r c' where p: "writePing env (ss_conn s) = (r, c')" by force
  with PeriodEnds assms(1, 2) have w: "wc_pending (ss_conn s) = None" by (auto simp: sent_inv_def split: if_splits)
  from p w show ?thesis
    by (cases rule: writePing_cases)
      (use PeriodEnds p assms(1, 2) in \<open>auto simp: sent_inv_def writes_def Let_def split: if_splits\<close>)
next
  case (EventArrives env ev)
  obtain r c' where p: "writeEvent h env ev (ss_conn s) = (r, c')" by force
  with EventArrives assms(1, 2) have w: "wc_pending (ss_conn s) = None" by (auto simp: sent_inv_def split: if_splits)
  from p w assms(3, 4) show ?thesis
    by (cases rule: writeEvent_cases)
      (use EventArrives p assms(1, 2) in \<open>auto simp: sent_inv_def writes_def Let_def split: if_splits\<close>)
next
  case (ReaderStart env)
  then show ?thesis using assms(2) SetReadDeadline_simps [of env "ss_now s + pongDeadline h" "ss_conn s"]
    by (intro sent_same [OF assms(1)]) (auto split: if_splits prod.splits option.splits)
qed (rule sent_same [OF assms(1)]; use assms(2) in \<open>auto simp: control_simps SetReadDeadline_simps closer_simps closer_end_last
    split: if_splits reader_pc.splits writer_pc.splits watcher_pc.splits option.splits\<close>)+

lemma ServeReturns_cases:
  assumes "serve_step h (ServeReturns env) s = Some s'"
  obtains r1 r2 where "ss_reader s = ReaderEnded r1" "ss_writer s = WriterEnded r2" "ss_watcher s = WatcherEnded" "ss_result s = None"
    "ss_once s" "s' = s\<lparr>ss_result := Some (ss_err s)\<rparr>"
  | r1 r2 where "ss_reader s = ReaderEnded r1" "ss_writer s = WriterEnded r2" "ss_watcher s = WatcherEnded" "ss_result s = None"
    "s' = s\<lparr>ss_conn := closer_end (closer_control env CloseNormalClosure (ss_conn s)), ss_once := True,
            ss_now := ss_now s + graceTimeout, ss_result := Some (ss_err s)\<rparr>"
  using assms by (cases "ss_reader s"; cases "ss_writer s"; cases "ss_watcher s"; cases "ss_result s"; cases "ss_once s") simp_all

lemma close_same:
  assumes "close_inv s" "ss_watcher s' = ss_watcher s" "ss_once s' = ss_once s" "ss_result s' = ss_result s"
    and "wc_open (ss_conn s') = wc_open (ss_conn s)"
    and "(\<forall>r. ss_reader s \<noteq> ReaderEnded r) \<or> (\<forall>r. ss_writer s \<noteq> WriterEnded r) \<or>
      ss_err s' = ss_err s \<and> ss_reader s' = ss_reader s \<and> ss_writer s' = ss_writer s"
  shows "close_inv s'"
  using assms unfolding close_inv_def by metis

lemma close_step:
  assumes "close_inv s" "loops_inv h s" "serve_step h a s = Some s'" "wc_pending (ss_conn s) = None \<or> ss_writer s \<noteq> WriterLoops"
    and "wo_eventAdapter h = Some (\<lambda>ev. Adapter_Adapt zone (Some ev))" "wo_eventWriter h = Some JSONEventWriter_Write"
  shows "close_inv s'"
proof (cases a)
  case (ReaderStart env)
  then show ?thesis using assms(3) SetReadDeadline_simps [of env "ss_now s + pongDeadline h" "ss_conn s"]
    by (intro close_same [OF assms(1)]) (auto split: if_splits prod.splits option.splits)
next
  case (PeriodEnds env)
  obtain r c' where p: "writePing env (ss_conn s) = (r, c')" by force
  with PeriodEnds assms(3, 4) have w: "wc_pending (ss_conn s) = None" by (auto split: if_splits)
  from p w have "wc_open c' = wc_open (ss_conn s)" by (cases rule: writePing_cases) (auto simp: writes_def)
  with PeriodEnds p assms(3) show ?thesis
    by (intro close_same [OF assms(1)]) (auto split: if_splits option.splits)
next
  case (EventArrives env ev)
  obtain r c' where p: "writeEvent h env ev (ss_conn s) = (r, c')" by force
  with EventArrives assms(3, 4) have w: "wc_pending (ss_conn s) = None" by (auto split: if_splits)
  from p w assms(5, 6) have "wc_open c' = wc_open (ss_conn s)" by (cases rule: writeEvent_cases) (auto simp: writes_def)
  with EventArrives p assms(3) show ?thesis
    by (intro close_same [OF assms(1)]) (auto split: if_splits option.splits)
next
  case (ServeReturns env)
  with assms(3) have "serve_step h (ServeReturns env) s = Some s'" by simp
  then show ?thesis
    by (cases rule: ServeReturns_cases) (use assms(1, 2) in \<open>auto simp: close_inv_def loops_inv_def closer_simps\<close>)
next
  case (ShutdownClosed env)
  have "ss_watcher s = Watches" "s' = s\<lparr>ss_conn := closer_control env CloseNormalClosure (ss_conn s), ss_once := True,
      ss_watcher := Sleeps (ss_now s + graceTimeout)\<rparr>"
    using assms(3) ShutdownClosed by (simp_all split: if_splits)
  with assms(1) show ?thesis unfolding close_inv_def by simp
next
  case GraceEnds
  obtain t where "ss_watcher s = Sleeps t" "s' = s\<lparr>ss_conn := closer_end (ss_conn s), ss_watcher := WatcherEnded\<rparr>"
    using assms(3) GraceEnds by (cases "ss_watcher s") (simp_all split: if_splits)
  with assms(1) show ?thesis unfolding close_inv_def by (simp add: closer_simps)
next
  case WatcherCancelled
  have "ss_watcher s = Watches" "s' = s\<lparr>ss_watcher := WatcherEnded\<rparr>"
    using assms(3) WatcherCancelled by (simp_all split: if_splits)
  with assms(1) show ?thesis unfolding close_inv_def by simp
qed (rule close_same [OF assms(1)]; use assms(3) in \<open>auto simp: control_simps SetReadDeadline_simps can_read_def split: if_splits\<close>)+

lemma run_inv:
  assumes "serve_run h as s = Some s'" "loops_inv h s" "sent_inv zone s" "close_inv s"
    and h: "wo_eventAdapter h = Some (\<lambda>ev. Adapter_Adapt zone (Some ev))" "wo_eventWriter h = Some JSONEventWriter_Write"
  shows "loops_inv h s' \<and> sent_inv zone s' \<and> close_inv s'"
  using assms(1-4)
proof (induction as arbitrary: s)
  case (Cons a as)
  then obtain s1 where s1: "serve_step h a s = Some s1" "serve_run h as s1 = Some s'" by (auto split: option.splits)
  have p: "wc_pending (ss_conn s) = None \<or> ss_writer s \<noteq> WriterLoops" using Cons.prems(3) by (auto simp: sent_inv_def Let_def)
  show ?case
    by (rule Cons.IH [OF s1(2) loops_step [OF Cons.prems(2) s1(1) p h] sent_step [OF Cons.prems(3) s1(1) h]
        close_step [OF Cons.prems(4) Cons.prems(2) s1(1) p h]])
qed simp

lemma start_inv: "loops_inv h (serve_loops now new_conn) \<and> sent_inv zone (serve_loops now new_conn) \<and> close_inv (serve_loops now new_conn)"
  by (simp add: loops_inv_def sent_inv_def close_inv_def serve_loops_def new_conn_def close_last_def)

section \<open>A connection can always end\<close>

lemma serve_run_append:
  "serve_run h as s = Some s1 \<Longrightarrow> serve_run h bs s1 = Some s2 \<Longrightarrow> serve_run h (as @ bs) s = Some s2"
  by (induction as arbitrary: s) (auto split: option.splits)

text \<open>\<open>s'\<close> can be reached from \<open>s\<close>.\<close>

definition leads_to :: "('e, 'w) websocket_Options \<Rightarrow> serve_state \<Rightarrow> serve_state \<Rightarrow> bool" where
  "leads_to h s s' \<longleftrightarrow> (\<exists>as. serve_run h as s = Some s')"

lemma leads_to_trans: "leads_to h s s1 \<Longrightarrow> leads_to h s1 s2 \<Longrightarrow> leads_to h s s2"
  using serve_run_append by (fastforce simp: leads_to_def)

lemma leads_to_step: "serve_step h a s = Some s' \<Longrightarrow> leads_to h s s'"
  by (auto simp: leads_to_def intro!: exI [of _ "[a]"])

lemma leads_to_refl: "leads_to h s s"
  by (auto simp: leads_to_def intro!: exI [of _ "[]"])

lemma reader_ends: "\<exists>s' r. leads_to h s s' \<and> ss_reader s' = ReaderEnded r"
proof -
  have loops: "\<exists>s' r. leads_to h s s' \<and> ss_reader s' = ReaderEnded r" if "ss_reader s = ReaderLoops" for s
    using that leads_to_step [of h "ReadFails net_ErrClosed" s]
    by (auto simp: reader_done_def group_done_def split: option.splits)
  show ?thesis
  proof (cases "ss_reader s")
    case ReaderStarts
    then have "leads_to h s (s\<lparr>ss_conn := (ss_conn s)\<lparr>wc_readDeadline := Some (ss_now s + pongDeadline h)\<rparr>, ss_reader := ReaderLoops\<rparr>)"
      by (intro leads_to_step [of _ "ReaderStart (\<lambda>_. None)"]) (simp add: ws_SetReadDeadline_def)
    with loops [of "s\<lparr>ss_conn := (ss_conn s)\<lparr>wc_readDeadline := Some (ss_now s + pongDeadline h)\<rparr>, ss_reader := ReaderLoops\<rparr>"]
    show ?thesis by (auto intro: leads_to_trans)
  qed (use loops leads_to_refl in blast)+
qed

lemma writer_ends:
  assumes "ss_reader s = ReaderEnded r"
  shows "\<exists>s' r'. leads_to h s s' \<and> ss_reader s' = ReaderEnded r \<and> ss_writer s' = WriterEnded r'"
proof (cases "ss_writer s")
  case WriterLoops
  with assms leads_to_step [of h EventsClosed s] show ?thesis by (auto simp: writer_done_def group_done_def)
qed (use assms leads_to_refl in blast)

lemma watcher_ends:
  assumes "ss_reader s = ReaderEnded r" "ss_writer s = WriterEnded r'"
  shows "\<exists>s'. leads_to h s s' \<and> ss_reader s' = ReaderEnded r \<and> ss_writer s' = WriterEnded r' \<and> ss_watcher s' = WatcherEnded"
proof (cases "ss_watcher s")
  case Watches
  have "leads_to h s (s\<lparr>ss_cancelled := True\<rparr>)" by (rule leads_to_step [of _ RequestCancelled]) simp
  moreover have "leads_to h (s\<lparr>ss_cancelled := True\<rparr>) (s\<lparr>ss_cancelled := True, ss_watcher := WatcherEnded\<rparr>)"
    by (rule leads_to_step [of _ WatcherCancelled]) (use Watches in simp)
  ultimately show ?thesis using assms leads_to_trans by fastforce
next
  case (Sleeps t)
  let ?s = "s\<lparr>ss_now := ss_now s + max 0 (t - ss_now s)\<rparr>"
  have "leads_to h s ?s" by (rule leads_to_step [of _ "Pass (max 0 (t - ss_now s))"]) simp
  moreover have "leads_to h ?s (?s\<lparr>ss_conn := closer_end (ss_conn ?s), ss_watcher := WatcherEnded\<rparr>)"
    by (rule leads_to_step [of _ GraceEnds]) (use Sleeps in simp)
  ultimately show ?thesis using assms leads_to_trans by fastforce
qed (use assms leads_to_refl in blast)

lemma serve_can_return: "\<exists>s' r. leads_to h s s' \<and> ss_result s' = Some r"
proof -
  obtain s1 r where s1: "leads_to h s s1" "ss_reader s1 = ReaderEnded r" using reader_ends by blast
  obtain s2 r' where s2: "leads_to h s1 s2" "ss_reader s2 = ReaderEnded r" "ss_writer s2 = WriterEnded r'"
    using writer_ends [OF s1(2)] by blast
  obtain s3 where s3: "leads_to h s2 s3" "ss_reader s3 = ReaderEnded r" "ss_writer s3 = WriterEnded r'" "ss_watcher s3 = WatcherEnded"
    using watcher_ends [OF s2(2, 3)] by blast
  have "\<exists>s' r. leads_to h s3 s' \<and> ss_result s' = Some r"
  proof (cases "ss_result s3")
    case None
    obtain s4 where s4: "serve_step h (ServeReturns (\<lambda>_. None)) s3 = Some s4" "ss_result s4 = Some (ss_err s3)"
      using s3 None by (cases "ss_once s3") simp_all
    then show ?thesis using leads_to_step by blast
  qed (use leads_to_refl in blast)
  with s1(1) s2(1) s3(1) show ?thesis by (meson leads_to_trans)
qed

section \<open>The websockets of the servers\<close>



end
