(* ===== verification/ManagerApi.thy ===== *)
theory ManagerApi
  imports Server
begin

text \<open>
  The API of the managers (\<open>internal/server-manager/v1\<close>) on top of the use cases that ask for problems,
  and the server as \<open>initServerManager\<close> builds it.  The routes have no bodies to read.
\<close>

section \<open>Handlers\<close>

record 'w managerv1_Options =
  yo_logger :: "unit option"
  yo_canReceiveProblemsUseCase :: "(manager_request \<Rightarrow> 'w \<Rightarrow> bool result \<times> 'w) option"
  yo_freeHandsUseCase :: "(manager_request \<Rightarrow> 'w \<Rightarrow> unit result \<times> 'w) option"

record 'w managerv1_Handlers =
  yh_canReceiveProblemsUseCase :: "manager_request \<Rightarrow> 'w \<Rightarrow> bool result \<times> 'w"
  yh_freeHandsUseCase :: "manager_request \<Rightarrow> 'w \<Rightarrow> unit result \<times> 'w"

definition managerv1_NewOptions where
  "managerv1_NewOptions logger canReceiveProblemsUseCase freeHandsUseCase options =
     foldl (\<lambda>o' opt. opt o') (\<lparr>yo_logger = logger, yo_canReceiveProblemsUseCase = canReceiveProblemsUseCase,
       yo_freeHandsUseCase = freeHandsUseCase\<rparr> :: 'w managerv1_Options) options"

definition managerv1_Options_Validate :: "'w managerv1_Options \<Rightarrow> goerr option" where
  "managerv1_Options_Validate o' = validate_options
     [(''logger'', iface (yo_logger o'), [Required]),
      (''canReceiveProblemsUseCase'', iface (yo_canReceiveProblemsUseCase o'), [Required]),
      (''freeHandsUseCase'', iface (yo_freeHandsUseCase o'), [Required])]"

definition managerv1_NewHandlers :: "'w managerv1_Options \<Rightarrow> 'w managerv1_Handlers result" where
  "managerv1_NewHandlers opts =
     (case managerv1_Options_Validate opts of
        Some err \<Rightarrow> Inl (errorf_v ''failed to validate options managerv1'' err)
      | None \<Rightarrow> Inr \<lparr>yh_canReceiveProblemsUseCase = the (yo_canReceiveProblemsUseCase opts),
          yh_freeHandsUseCase = the (yo_freeHandsUseCase opts)\<rparr>)"

definition ErrorCodeManagerOverloaded :: int where "ErrorCodeManagerOverloaded = 5000"
definition ManagerOverloadedError :: string where "ManagerOverloadedError = ''manager overloaded''"

definition PostGetFreeHandsBtnAvailability :: "'w managerv1_Handlers \<Rightarrow> RequestID \<Rightarrow> 'w handler" where
  "PostGetFreeHandsBtnAvailability h xRequestID c w =
     (case MustUserID c of
        Inl r \<Rightarrow> (Panicked r, c, w)
      | Inr managerID \<Rightarrow>
          (case yh_canReceiveProblemsUseCase h \<lparr>mr_ID = xRequestID, mr_ManagerID = managerID\<rparr> w of
             (Inl err, w) \<Rightarrow> (Returned (Some (errorf_v ''failed to handle can receive problems usecase'' err)), c, w)
           | (Inr b, w) \<Rightarrow>
               (case eCtx_JSON 200 (data_json (Inr (JObj [(''available'', JBool b)]))) c of
                  (Some err, c) \<Rightarrow>
                    (Returned (Some (errorf_v ''failed to send response GetFreeHandsBtnAvailabilityResponse'' err)), c, w)
                | (None, c) \<Rightarrow> (Returned None, c, w))))"

text \<open>The data of a response to free hands is nil and left out.\<close>

definition PostFreeHands :: "'w managerv1_Handlers \<Rightarrow> RequestID \<Rightarrow> 'w handler" where
  "PostFreeHands h xRequestID c w =
     (case MustUserID c of
        Inl r \<Rightarrow> (Panicked r, c, w)
      | Inr managerID \<Rightarrow>
          (case yh_freeHandsUseCase h \<lparr>mr_ID = xRequestID, mr_ManagerID = managerID\<rparr> w of
             (Inl err, w) \<Rightarrow>
               if errors_Is err freehands_ErrManagerOverloaded
               then (Returned (Some (NewServerError ErrorCodeManagerOverloaded ManagerOverloadedError err)), c, w)
               else (Returned (Some (errorf_v ''failed to handle freeHandsUseCase'' err)), c, w)
           | (Inr _, w) \<Rightarrow>
               (case eCtx_JSON 200 (Inr (JObj [])) c of
                  (Some err, c) \<Rightarrow> (Returned (Some (errorf_v ''failed to send response FreeHandsResponse'' err)), c, w)
                | (None, c) \<Rightarrow> (Returned None, c, w))))"

section \<open>The server of the managers\<close>

record 'w manager_environment =
  mn_oapi :: "http_Request \<Rightarrow> goerr option"
  mn_ws :: "'w handler"
  mn_notFound :: "'w handler"

definition managerv1_RegisterHandlers :: "'w manager_environment \<Rightarrow> 'w managerv1_Handlers \<Rightarrow> http_Request \<Rightarrow> 'w handler" where
  "managerv1_RegisterHandlers en h req =
     (if rq_Method req = ''GET'' \<and> rq_Path req = ''/ws'' then mn_ws en
      else if rq_Method req = ''POST'' \<and> rq_Path req = ''/v1/freeHands''
      then oapi_validator (mn_oapi en) (with_XRequestID (PostFreeHands h))
      else if rq_Method req = ''POST'' \<and> rq_Path req = ''/v1/getFreeHandsBtnAvailability''
      then oapi_validator (mn_oapi en) (with_XRequestID (PostGetFreeHandsBtnAvailability h))
      else mn_notFound en)"

definition main_initServerManager ::
  "world manager_environment \<Rightarrow> bool \<Rightarrow> string \<Rightarrow> string list \<Rightarrow> string
   \<Rightarrow> (string \<Rightarrow> IntrospectTokenResult result) \<Rightarrow> string \<Rightarrow> string \<Rightarrow> world managerload_Service \<Rightarrow> world Server result" where
  "main_initServerManager en isProduction addr allowOrigins secWsProtocol introspect resource role managerLoad =
     (case main_canReceiveProblems managerLoad of
        Inl err \<Rightarrow> Inl (errorf_v ''failed to init canReceiveProblemsUseCase'' err)
      | Inr canReceiveProblemsUseCase \<Rightarrow>
          (case main_freeHands managerLoad of
             Inl err \<Rightarrow> Inl (errorf_v ''failed to init freeHandsUseCase'' err)
           | Inr freeHandsUseCase \<Rightarrow>
               (case managerv1_NewHandlers (managerv1_NewOptions (Some ())
                       (Some (canreceiveproblems_Handle canReceiveProblemsUseCase))
                       (Some (freehands_Handle freeHandsUseCase)) []) of
                  Inl err \<Rightarrow> Inl (errorf_v ''failed to init manager handlers'' err)
                | Inr v1Handlers \<Rightarrow>
                    (case main_errHandler isProduction of
                       Inl err \<Rightarrow> Inl (errorf_v ''failed to create errorHandler'' err)
                     | Inr errHandler \<Rightarrow>
                         (case server_New (server_NewOptions (Some ()) addr allowOrigins (Some ())
                                 (Some (managerv1_RegisterHandlers en v1Handlers)) (Some introspect) resource role
                                 secWsProtocol (Some (errhandler_Handle errhandler_Response_json errHandler)) []) of
                            Inl err \<Rightarrow> Inl (errorf_v ''failed to build manager server'' err)
                          | Inr srv \<Rightarrow> Inr srv)))))"

section \<open>What the server answers\<close>

lemma initServerManager_opts:
  assumes "main_initServerManager en p addr origins proto introspect resource role ml = Inr s"
  obtains opts h fu cu where "server_New opts = Inr s" "main_errHandler p = Inr h"
    "vo_registerHandlers opts = Some (managerv1_RegisterHandlers en
       \<lparr>yh_canReceiveProblemsUseCase = canreceiveproblems_Handle cu, yh_freeHandsUseCase = freehands_Handle fu\<rparr>)"
    "vo_introspector opts = Some introspect" "vo_resource opts = resource" "vo_role opts = role"
    "vo_wsSecProtocol opts = proto" "vo_errHandler opts = Some (errhandler_Handle errhandler_Response_json h)"
    "main_freeHands ml = Inr fu" "main_canReceiveProblems ml = Inr cu"
proof -
  have h: "managerv1_NewHandlers (managerv1_NewOptions (Some ()) (Some f) (Some g) []) =
      Inr \<lparr>yh_canReceiveProblemsUseCase = f, yh_freeHandsUseCase = g\<rparr>" for f g
    by (simp add: managerv1_NewHandlers_def managerv1_NewOptions_def managerv1_Options_Validate_def
        validate_options_None [THEN iffD2])
  from assms that show ?thesis
    by (auto simp: main_initServerManager_def h server_NewOptions_def split: sum.splits)
qed

lemma only_clock_world: "only_clock (w :: world) w' \<Longrightarrow> pool w' = pool w \<and> db w' = db w"
  by (auto simp: only_clock_def)

text \<open>The overload code is the one of no other error.\<close>

lemma free_hands_codes [simp]:
  "GetServerErrorCode (errorf_v t e) = 500"
  by (simp add: GetServerErrorCode_def errorf_v_def)

lemma PostFreeHands_served:
  assumes "main_managerLoad n = Inr ml" and "main_freeHands ml = Inr fu" and "pool_ok (pool w)" and "MustUserID c = Inr u"
    and "PostFreeHands \<lparr>yh_canReceiveProblemsUseCase = cu, yh_freeHandsUseCase = freehands_Handle fu\<rparr> x c w = (out, c', w')"
  shows "db w' = db w \<and> pool_ok (pool w') \<and>
    ((\<exists>e. out = Returned (Some e) \<and> same_client c c' \<and> pool w' = pool w \<and>
        (GetServerErrorCode e = 5000 \<longrightarrow> n \<le> int (open_problems_of u (db w)))) \<or>
     (int (open_problems_of u (db w)) < n \<and> u \<in> set (mp_queue (pool w')) \<and>
        (\<exists>q. mp_queue (pool w') = mp_queue (pool w) @ q \<and> set q \<subseteq> {u}) \<and>
        ((out = Returned None \<and> ec_responses c' = ec_responses c @ [(200, Some (JObj []))]) \<or>
         (\<exists>e. out = Returned (Some e) \<and> same_client c c' \<and> GetServerErrorCode e = 500))))"
proof -
  obtain r w1 where r: "freehands_Handle fu \<lparr>mr_ID = x, mr_ManagerID = u\<rparr> w = (r, w1)" by force
  from assms(1-3) r show ?thesis
  proof (cases rule: freehands_Handle_cases)
    case (invalid e)
    with assms r show ?thesis by (auto simp: PostFreeHands_def same_client_def)
  next
    case busy
    with assms r show ?thesis
      by (auto simp: PostFreeHands_def same_client_def NewServerError_def)
  next
    case (full e)
    with assms r show ?thesis by (auto simp: PostFreeHands_def same_client_def)
  next
    case queued
    obtain je c1 where j: "eCtx_JSON 200 (Inr (JObj [])) c = (je, c1)" by force
    have o: "w' = w1" "c' = c1" "out = Returned (map_option (errorf_v ''failed to send response FreeHandsResponse'') je)"
      using assms(4, 5) r queued(1) j by (cases je; simp add: PostFreeHands_def)+
    have sent: "if je = None then ec_responses c1 = ec_responses c @ [(200, Some (JObj []))] else same_client c c1"
      using j by (cases "ec_broken c"; cases je) (auto simp: eCtx_JSON_def same_client_def)
    have q: "u \<in> set (mp_queue (pool w'))" "\<exists>q. mp_queue (pool w') = mp_queue (pool w) @ q \<and> set q \<subseteq> {u}"
      using queued(6) o(1) by (auto split: if_splits)
    with queued o sent show ?thesis by (cases je) auto
  qed
qed

section \<open>Properties\<close>

text \<open>
  C34. Free hands over HTTP.  Whatever the request, the store stays as it is and the pool well-formed.
  Whoever is answered without an error waits in the pool, behind those who waited before, and had
  fewer open problems than the limit; an error leaves the pool as it was, or its code is 500 and the
  manager waits although he could not be told.  The manager is the user of a token that Keycloak calls
  active, with the role that the server asks for.
\<close>

theorem free_hands_answers:
  assumes "main_managerLoad n = Inr ml"
    and "main_initServerManager en p addr origins proto introspect resource role ml = Inr s"
    and "rq_Method (ec_Request c) = ''POST''" and "rq_Path (ec_Request c) = ''/v1/freeHands''"
    and "sv_Handler s c w = (c', w')" and "pool_ok (pool w)"
  shows "db w' = db w \<and> pool_ok (pool w') \<and>
    ((pool w' = pool w \<and> (\<exists>e. told_error p c c' e)) \<or>
     (\<exists>u. (\<exists>key \<in> request_keys (ec_Request c). \<exists>now.
          accepts introspect resource role now (strings_TrimPrefix key (proto @ '', '')) u) \<and>
       int (open_problems_of u (db w)) < n \<and> u \<in> set (mp_queue (pool w')) \<and>
       (\<exists>q. mp_queue (pool w') = mp_queue (pool w) @ q \<and> set q \<subseteq> {u}) \<and>
       (ec_responses c' = ec_responses c @ [(200, Some (JObj []))] \<or>
        (\<exists>e. told_error p c c' e \<and> GetServerErrorCode e = 500))))"
proof -
  obtain opts h fu cu where o: "server_New opts = Inr s" "main_errHandler p = Inr h"
    "vo_registerHandlers opts = Some (managerv1_RegisterHandlers en
       \<lparr>yh_canReceiveProblemsUseCase = canreceiveproblems_Handle cu, yh_freeHandsUseCase = freehands_Handle fu\<rparr>)"
    "vo_introspector opts = Some introspect" "vo_resource opts = resource" "vo_role opts = role"
    "vo_wsSecProtocol opts = proto" "vo_errHandler opts = Some (errhandler_Handle errhandler_Response_json h)"
    "main_freeHands ml = Inr fu"
    by (rule initServerManager_opts [OF assms(2)])
  let ?h = "\<lparr>yh_canReceiveProblemsUseCase = canreceiveproblems_Handle cu, yh_freeHandsUseCase = freehands_Handle fu\<rparr>"
  have route: "managerv1_RegisterHandlers en ?h (ec_Request c) = oapi_validator (mn_oapi en) (with_XRequestID (PostFreeHands ?h))"
    using assms(3, 4) by (simp add: managerv1_RegisterHandlers_def)
  from o(1, 2, 8, 3) route assms(5, 3) show ?thesis
  proof (cases rule: post_cases)
    case (rejected e)
    with only_clock_world [OF rejected(2)] assms(6) show ?thesis by auto
  next
    case (handled x c1 w1 u out c2)
    have w1: "pool w1 = pool w" "db w1 = db w" using only_clock_world [OF handled(2)] by simp_all
    have "pool_ok (pool w1)" using w1 assms(6) by simp
    note served = PostFreeHands_served [OF assms(1) o(9) this handled(4, 5), unfolded w1]
    have ok: "\<exists>key \<in> request_keys (ec_Request c). \<exists>now. accepts introspect resource role now (strings_TrimPrefix key (proto @ '', '')) u"
      using handled(3) o by simp
    have r: "ec_responses c1 = ec_responses c" using handled(1) by (simp add: same_client_def)
    from served show ?thesis
    proof (elim conjE disjE exE, goal_cases)
      case (1 e)
      then show ?case using handled(7) [of e] by auto
    next
      case (2 q)
      then have resp: "ec_responses c' = ec_responses c @ [(200, Some (JObj []))]" using handled(6) r by simp
      have q: "\<exists>q. mp_queue (pool w') = mp_queue (pool w) @ q \<and> set q \<subseteq> {u}" using 2 by blast
      show ?case
        by (intro conjI disjI2 exI [of _ u] ok q disjI1 [OF resp]) (use 2 in simp_all)
    next
      case (3 q e)
      then have "told_error p c c' e" using handled(7) by simp
      then have resp: "\<exists>e. told_error p c c' e \<and> GetServerErrorCode e = 500" using 3 by blast
      have q: "\<exists>q. mp_queue (pool w') = mp_queue (pool w) @ q \<and> set q \<subseteq> {u}" using 3 by blast
      show ?case
        by (intro conjI disjI2 exI [of _ u] ok q disjI2 [OF resp]) (use 3 in simp_all)
    qed
  qed
qed

section \<open>A sample manager\<close>

definition sample_manager_environment :: "world manager_environment" where
  "sample_manager_environment = \<lparr>mn_oapi = (\<lambda>_. None), mn_ws = (\<lambda>c w. (Returned None, c, w)), mn_notFound = (\<lambda>c w. (Returned None, c, w))\<rparr>"

abbreviation sample_manager_server :: "world Server result" where
  "sample_manager_server \<equiv> main_initServerManager sample_manager_environment False '':8081'' [''*''] ''chat'' sample_introspect
     ''chat-ui'' ''client'' sample_load"

lemma sample_manager_server_starts: "\<exists>s. sample_manager_server = Inr s"
proof -
  have a: "is_hostname_port '':8081''" by code_simp
  have "run_tags [Required, HostnamePort] (VStr '':8081'') = None" using a by simp
  then show ?thesis
    by (simp add: main_initServerManager_def main_canReceiveProblems_def canreceiveproblems_New_def canreceiveproblems_NewOptions_def
      canreceiveproblems_Options_Validate_def main_freeHands_def freehands_New_def freehands_NewOptions_def freehands_Options_Validate_def
      managerv1_NewHandlers_def managerv1_NewOptions_def managerv1_Options_Validate_def
      validate_options_None [THEN iffD2] main_errHandler_def
      errhandler_New_def errhandler_NewOptions_def errhandler_Options_Validate_def server_NewOptions_def
      server_New_def server_Options_Validate_def Let_def)
qed

theorem free_hands_answers_witness:
  "\<exists>s c' w'. sample_manager_server = Inr s
     \<and> sv_Handler s (sample_post ''/v1/freeHands'' (Id 8) (Id 1) JNull) (quiet_world sample_manager_db 9) = (c', w')
     \<and> ec_responses c' = [(200, Some (JObj []))] \<and> Id 8 \<in> set (mp_queue (pool w'))"
proof -
  let ?c = "sample_post ''/v1/freeHands'' (Id 8) (Id 1) JNull" and ?w = "quiet_world sample_manager_db 9"
  obtain s where s: "sample_manager_server = Inr s" using sample_manager_server_starts by blast
  obtain opts h fu cu where o: "server_New opts = Inr s"
    "vo_registerHandlers opts = Some (managerv1_RegisterHandlers sample_manager_environment
       \<lparr>yh_canReceiveProblemsUseCase = canreceiveproblems_Handle cu, yh_freeHandsUseCase = freehands_Handle fu\<rparr>)"
    "vo_introspector opts = Some sample_introspect" "vo_resource opts = ''chat-ui''" "vo_role opts = ''client''"
    "vo_wsSecProtocol opts = ''chat''" "main_freeHands sample_load = Inr fu"
    by (rule initServerManager_opts [OF s])
  obtain w' where "freehands_Handle sample_freeHands free_request ?w = (Inr (), w')"
    by (simp add: sample_manager_eval free_request_def)
  moreover have "fu = sample_freeHands" using o(7) sample_freeHands_New by simp
  ultimately have h: "freehands_Handle fu \<lparr>mr_ID = Id 1, mr_ManagerID = Id 8\<rparr> ?w = (Inr (), w')"
    by (simp add: free_request_def)
  let ?h = "\<lparr>yh_canReceiveProblemsUseCase = canreceiveproblems_Handle cu, yh_freeHandsUseCase = freehands_Handle fu\<rparr>"
  have "managerv1_RegisterHandlers sample_manager_environment ?h (ec_Request ?c) = oapi_validator (\<lambda>_. None) (with_XRequestID (PostFreeHands ?h))"
    by (simp add: managerv1_RegisterHandlers_def sample_manager_environment_def sample_post_def)
  then have "\<exists>c'. sv_Handler s ?c ?w = (c', w') \<and> ec_responses c' = [(200, Some (JObj []))]"
    by (rule sample_handled [OF o(1-6)]) (use h in \<open>simp_all add: PostFreeHands_def eCtx_JSON_def Id_eq_zero uuid_Nil_def\<close>)
  then obtain c' where c': "sv_Handler s ?c ?w = (c', w')" "ec_responses c' = [(200, Some (JObj []))]" by blast
  have r: "rq_Method (ec_Request ?c) = ''POST''" "rq_Path (ec_Request ?c) = ''/v1/freeHands''" "ec_responses ?c = []" "ec_broken ?c = None"
    by (simp_all add: sample_post_def)
  have ne: "JObj [] \<noteq> error_response False e" for e by (simp add: error_response_def split: prod.split)
  have "\<exists>u. (\<exists>key \<in> request_keys (ec_Request ?c). \<exists>now.
          accepts sample_introspect ''chat-ui'' ''client'' now (strings_TrimPrefix key (''chat'' @ '', '')) u) \<and> u \<in> set (mp_queue (pool w'))"
    using free_hands_answers [OF sample_load_New s r(1, 2) c'(1) pool_ok_quiet] c'(2) r ne by (auto simp: told_error_def)
  moreover have "u = Id 8" if "key \<in> request_keys (ec_Request ?c)"
      "accepts sample_introspect ''chat-ui'' ''client'' now (strings_TrimPrefix key (''chat'' @ '', '')) u" for key now u
    using that by (auto dest!: sample_keys)
  ultimately show ?thesis using s c' by blast
qed

end
