(* ===== verification/JobsRepo.thy ===== *)
theory JobsRepo
  imports Repositories
begin

text \<open>
  The repository of outbox jobs (\<open>internal/repositories/jobs/api.go\<close>).  \<open>FindAndReserveJob\<close> is one
  SQL statement: it picks any job that is available and not reserved, counts the attempt and reserves
  the job until the given time.  The lemmas state what each operation can have done to the tables,
  whatever fault the database has.
\<close>

section \<open>Operations\<close>

definition jobsrepo_ErrNoJobs :: goerr where
  "jobsrepo_ErrNoJobs = New ''jobsrepo.ErrNoJobs'' ''no jobs found''"

record RepoJob =
  rj_ID :: JobID
  rj_Name :: string
  rj_Payload :: string
  rj_Attempts :: int

text \<open>\<open>where "available_at" <= now() and "reserved_until" <= now()\<close>\<close>

definition job_eligible :: "time \<Rightarrow> job_row \<Rightarrow> bool" where
  "job_eligible now j \<longleftrightarrow> j_AvailableAt j \<le> now \<and> j_ReservedUntil j \<le> now"

text \<open>\<open>set "attempts" = "attempts" + 1, "reserved_until" = $1\<close>\<close>

definition reserve_job :: "time \<Rightarrow> job_row \<Rightarrow> job_row" where
  "reserve_job until j = j\<lparr>j_Attempts := j_Attempts j + 1, j_ReservedUntil := until\<rparr>"

definition update_job :: "JobID \<Rightarrow> (job_row \<Rightarrow> job_row) \<Rightarrow> database \<Rightarrow> database" where
  "update_job i f d = d\<lparr>jobs := map (\<lambda>j. if j_ID j = i then f j else j) (jobs d)\<rparr>"

definition repo_job :: "job_row \<Rightarrow> RepoJob" where
  "repo_job j = \<lparr>rj_ID = j_ID j, rj_Name = j_Name j, rj_Payload = j_Payload j, rj_Attempts = j_Attempts j\<rparr>"

definition reserve_query :: "time \<Rightarrow> 'z store_scheme \<Rightarrow> RepoJob option \<times> 'z store_scheme" where
  "reserve_query until w =
     (let (now, w) = time_Now w in
      case pick_one (filter (job_eligible now) (jobs (db w))) w of
        (None, w) \<Rightarrow> (None, w)
      | (Some j, w) \<Rightarrow>
          (Some (repo_job (reserve_job until j)),
           w\<lparr>db := update_job (j_ID j) (reserve_job until) (db w)\<rparr>))"

text \<open>
  The query fails before it runs, or its rows are lost after it ran (\<open>rows.Err\<close>), or the first row
  is scanned.
\<close>

definition jobsrepo_FindAndReserveJob ::
  "time \<Rightarrow> 'z store_scheme \<Rightarrow> RepoJob result \<times> 'z store_scheme" where
  "jobsrepo_FindAndReserveJob until w =
     (case next_fault w of
        (Some (Fails m), w) \<Rightarrow> (Inl (errorf_w ''query context'' (DriverError m)), w)
      | (Some (AckLost m), w) \<Rightarrow>
          (Inl (errorf_v ''rows err'' (DriverError m)), snd (reserve_query until w))
      | (None, w) \<Rightarrow>
          (case reserve_query until w of
             (None, w) \<Rightarrow> (Inl jobsrepo_ErrNoJobs, w)
           | (Some j, w) \<Rightarrow> (Inr j, w)))"

definition jobsrepo_CreateJob ::
  "string \<Rightarrow> string \<Rightarrow> time \<Rightarrow> 'z store_scheme \<Rightarrow> JobID result \<times> 'z store_scheme" where
  "jobsrepo_CreateJob name payload availableAt w =
     (let (i, w) = NewID w in
      case JobCreate_Save
             (JobCreate_SetAvailableAt availableAt
               (JobCreate_SetPayload payload
               (JobCreate_SetName name
               (JobCreate_SetID i newJobMutation)))) w of
        (Inl err, w) \<Rightarrow> (Inl (errorf_v ''create a job'' err), w)
      | (Inr j, w) \<Rightarrow> (Inr (j_ID j), w))"

definition jobsrepo_CreateFailedJob ::
  "string \<Rightarrow> string \<Rightarrow> string \<Rightarrow> 'z store_scheme \<Rightarrow> unit result \<times> 'z store_scheme" where
  "jobsrepo_CreateFailedJob name payload reason w =
     (case FailedJobCreate_Save
             (FailedJobCreate_SetReason reason
               (FailedJobCreate_SetPayload payload
               (FailedJobCreate_SetName name newFailedJobMutation))) w of
        (Inl err, w) \<Rightarrow> (Inl err, w)
      | (Inr _, w) \<Rightarrow> (Inr (), w))"

definition jobsrepo_DeleteJob :: "JobID \<Rightarrow> 'z store_scheme \<Rightarrow> unit result \<times> 'z store_scheme" where
  "jobsrepo_DeleteJob jobID w = JobDeleteOne_Exec (JobClient_DeleteOneID jobID) w"

section \<open>Reserving\<close>

lemma ErrNoJobs_Is [simp]: "errors_Is jobsrepo_ErrNoJobs jobsrepo_ErrNoJobs"
  by (simp add: jobsrepo_ErrNoJobs_def)

lemma plain_not_ErrNoJobs: "plain_error e \<Longrightarrow> \<not> errors_Is e jobsrepo_ErrNoJobs"
  by (simp add: plain_error_def jobsrepo_ErrNoJobs_def)

lemma db_update_snd [simp]: "db (w\<lparr>db := d\<rparr>) = d"
  by simp

text \<open>One eligible job is reserved.\<close>

definition reserves :: "time \<Rightarrow> time \<Rightarrow> job_row \<Rightarrow> database \<Rightarrow> database \<Rightarrow> bool" where
  "reserves now until j d d' \<longleftrightarrow>
     j \<in> set (jobs d) \<and> job_eligible now j \<and> d' = update_job (j_ID j) (reserve_job until) d"

lemma reserve_query_cases:
  assumes "reserve_query until w = (r, w')"
  shows "(r = None \<and> db w' = db w \<and> filter (job_eligible (fst (time_Now w))) (jobs (db w)) = []) \<or>
    (\<exists>j. r = Some (repo_job (reserve_job until j)) \<and> reserves (fst (time_Now w)) until j (db w) (db w'))"
proof -
  obtain now w1 where now: "time_Now w = (now, w1)" by force
  note d1 = db_time_Now [OF now]
  obtain s w2 where s: "pick_one (filter (job_eligible now) (jobs (db w))) w1 = (s, w2)" by force
  note d2 = db_pick_one [OF s]
  show ?thesis
  proof (cases s)
    case None
    with s have "filter (job_eligible now) (jobs (db w)) = []" by (simp add: pick_one_None)
    with None assms now s d1 d2 show ?thesis by (simp add: reserve_query_def)
  next
    case (Some j)
    with pick_one_in_set s have "j \<in> set (filter (job_eligible now) (jobs (db w)))" by metis
    with Some assms now s d1 d2 show ?thesis by (auto simp: reserve_query_def reserves_def)
  qed
qed

lemma time_Now_next_fault: "next_fault w = (f, w1) \<Longrightarrow> fst (time_Now w1) = fst (time_Now w)"
  by (auto simp: next_fault_def time_Now_def split: list.splits)

lemma FindAndReserveJob_cases:
  assumes "jobsrepo_FindAndReserveJob until w = (r, w')"
  obtains (reserved) j where "r = Inr (repo_job (reserve_job until j))"
      "reserves (fst (time_Now w)) until j (db w) (db w')"
  | (none) "r = Inl jobsrepo_ErrNoJobs" "db w' = db w"
      "\<forall>j \<in> set (jobs (db w)). \<not> job_eligible (fst (time_Now w)) j"
  | (failed) e where "r = Inl e" "plain_error e" "db w' = db w"
  | (lost) e j where "r = Inl e" "plain_error e" "reserves (fst (time_Now w)) until j (db w) (db w')"
proof -
  obtain f w1 where f: "next_fault w = (f, w1)" by force
  note d1 = db_next_fault [OF f] time_Now_next_fault [OF f]
  obtain s w2 where s: "reserve_query until w1 = (s, w2)" by force
  note c = reserve_query_cases [OF s, unfolded d1]
  consider "f = None" | m where "f = Some (Fails m)" | m where "f = Some (AckLost m)"
    by (metis fault.exhaust option.exhaust)
  then show ?thesis
  proof cases
    case 1
    from c show ?thesis
    proof (elim disjE exE conjE)
      assume "s = None" "db w2 = db w" "filter (job_eligible (fst (time_Now w))) (jobs (db w)) = []"
      with 1 f s assms show ?thesis
        by (intro none) (auto simp: jobsrepo_FindAndReserveJob_def filter_empty_conv)
    next
      fix j assume "s = Some (repo_job (reserve_job until j))"
        "reserves (fst (time_Now w)) until j (db w) (db w2)"
      with 1 f s assms show ?thesis
        by (intro reserved [of j]) (auto simp: jobsrepo_FindAndReserveJob_def)
    qed
  next
    case (2 m)
    with f assms d1 show ?thesis by (auto simp: jobsrepo_FindAndReserveJob_def intro: failed)
  next
    case (3 m)
    then have r: "r = Inl (errorf_v ''rows err'' (DriverError m))" "w' = w2"
      using f s assms by (simp_all add: jobsrepo_FindAndReserveJob_def)
    from c r show ?thesis
      by (elim disjE exE conjE)
        (auto intro: failed [of "errorf_v ''rows err'' (DriverError m)"]
          lost [of "errorf_v ''rows err'' (DriverError m)"])
  qed
qed

lemma update_job_ids: "(\<And>j. j_ID (f j) = j_ID j) \<Longrightarrow> map j_ID (jobs (update_job i f d)) = map j_ID (jobs d)"
  by (simp add: update_job_def)

lemma update_job_frame [simp]:
  "chats (update_job i f d) = chats d" "problems (update_job i f d) = problems d"
  "messages (update_job i f d) = messages d" "failed_jobs (update_job i f d) = failed_jobs d"
  by (simp_all add: update_job_def)

lemma reserve_job_simps [simp]:
  "j_ID (reserve_job u j) = j_ID j" "j_Name (reserve_job u j) = j_Name j"
  "j_Payload (reserve_job u j) = j_Payload j" "j_Attempts (reserve_job u j) = j_Attempts j + 1"
  "j_AvailableAt (reserve_job u j) = j_AvailableAt j" "j_ReservedUntil (reserve_job u j) = u"
  by (simp_all add: reserve_job_def)

lemma reserves_wf: "reserves now until j d d' \<Longrightarrow> db_wf d \<Longrightarrow> db_wf d'"
  by (auto simp: reserves_def db_wf_def update_job_ids)

section \<open>Creating and deleting\<close>

definition new_job :: "JobID \<Rightarrow> string \<Rightarrow> string \<Rightarrow> time \<Rightarrow> time \<Rightarrow> time \<Rightarrow> job_row" where
  "new_job i name payload availableAt reservedUntil createdAt =
     \<lparr>j_ID = i, j_Name = name, j_Payload = payload, j_Attempts = 0, j_AvailableAt = availableAt,
      j_ReservedUntil = reservedUntil, j_CreatedAt = createdAt\<rparr>"

definition adds_job :: "string \<Rightarrow> string \<Rightarrow> time \<Rightarrow> JobID \<Rightarrow> database \<Rightarrow> database \<Rightarrow> bool" where
  "adds_job name payload availableAt i d d' \<longleftrightarrow>
     i \<noteq> 0 \<and> (\<exists>ru ca. insert_job (new_job i name payload availableAt ru ca) d = Inr d')"

lemma CreateJob_cases:
  assumes "jobsrepo_CreateJob name payload availableAt w = (r, w')"
  shows "(\<exists>i. r = Inr i \<and> adds_job name payload availableAt i (db w) (db w') \<and> name \<noteq> [] \<and> payload \<noteq> []) \<or>
    (\<exists>e. r = Inl e \<and> plain_error e \<and>
      (db w' = db w \<or> (\<exists>i. adds_job name payload availableAt i (db w) (db w'))))"
proof -
  obtain i :: JobID and w1 where i: "NewID w = (i, w1)" by force
  let ?m = "JobCreate_SetAvailableAt availableAt (JobCreate_SetPayload payload
    (JobCreate_SetName name (JobCreate_SetID i newJobMutation)))"
  obtain s w2 where s: "JobCreate_Save ?m w1 = (s, w2)" by force
  have r: "w' = w2" "r = (case s of Inl e \<Rightarrow> Inl (errorf_v ''create a job'' e) | Inr j \<Rightarrow> Inr (j_ID j))"
    using assms i s by (auto simp: jobsrepo_CreateJob_def split: sum.splits)
  from s obtain m' w3 where m': "JobCreate_defaults (?m, w1) = (m', w3)"
    and cr: "created insert_job (JobCreate_createSpec m') (db w3) s (db w2)"
    and ok: "\<forall>x. s = Inr x \<longrightarrow> JobCreate_check m' = None"
    by (rule JobCreate_Save_created)
  obtain t1 w4 where t1: "time_Now w1 = (t1, w4)" by force
  obtain t2 w5 where t2: "time_Now w4 = (t2, w5)" by force
  have db3: "db w3 = db w" and spec: "JobCreate_createSpec m' = new_job i name payload availableAt t1 t2"
    and fields: "jm_name m' = Some name" "jm_payload m' = Some payload"
    using m' t1 t2 db_time_Now [OF t1] db_time_Now [OF t2] db_NewID [OF i]
    by (auto simp: JobCreate_defaults_def set_default_def JobCreate_setters
        newJobMutation_def JobCreate_createSpec_def new_job_def)
  have adds: "insert_job (JobCreate_createSpec m') (db w3) = Inr d' \<Longrightarrow>
      adds_job name payload availableAt i (db w) d'" for d'
    using NewID_nonzero [OF i] spec db3 by (auto simp: adds_job_def)
  from cr show ?thesis
  proof (cases rule: createdE)
    case 1
    from ok 1(1) fields have "field_NotEmpty name = None" "field_NotEmpty payload = None"
      by (simp_all add: JobCreate_check_def first_err_None)
    with 1 r adds spec show ?thesis by (auto simp: field_NotEmpty_None new_job_def)
  next
    case (2 e)
    with r db3 show ?thesis by auto
  next
    case (3 e)
    with r adds show ?thesis by auto
  qed
qed

definition adds_failed_job :: "string \<Rightarrow> string \<Rightarrow> string \<Rightarrow> database \<Rightarrow> database \<Rightarrow> bool" where
  "adds_failed_job name payload reason d d' \<longleftrightarrow>
     (\<exists>f. f_ID f \<noteq> 0 \<and> f_Name f = name \<and> f_Payload f = payload \<and> f_Reason f = reason
        \<and> insert_failed_job f d = Inr d')"

lemma CreateFailedJob_cases:
  assumes "jobsrepo_CreateFailedJob name payload reason w = (r, w')"
  shows "(r = Inr () \<and> adds_failed_job name payload reason (db w) (db w')) \<or>
    (\<exists>e. r = Inl e \<and> plain_error e \<and> (db w' = db w \<or> adds_failed_job name payload reason (db w) (db w')))"
proof -
  let ?m = "FailedJobCreate_SetReason reason (FailedJobCreate_SetPayload payload
    (FailedJobCreate_SetName name newFailedJobMutation))"
  obtain s w2 where s: "FailedJobCreate_Save ?m w = (s, w2)" by force
  have r: "w' = w2" "r = (case s of Inl e \<Rightarrow> Inl e | Inr _ \<Rightarrow> Inr ())"
    using assms s by (auto simp: jobsrepo_CreateFailedJob_def split: sum.splits)
  from s obtain m' w3 where m': "FailedJobCreate_defaults (?m, w) = (m', w3)"
    and cr: "created insert_failed_job (FailedJobCreate_createSpec m') (db w3) s (db w2)"
    by (rule FailedJobCreate_Save_created)
  obtain t w4 where t: "time_Now w = (t, w4)" by force
  obtain i :: FailedJobID and w5 where i: "NewID w4 = (i, w5)" by force
  have db3: "db w3 = db w" and spec: "FailedJobCreate_createSpec m' =
      \<lparr>f_ID = i, f_Name = name, f_Payload = payload, f_Reason = reason, f_CreatedAt = t\<rparr>"
    using m' t i db_time_Now [OF t] db_NewID [OF i]
    by (auto simp: FailedJobCreate_defaults_def set_default_def FailedJobCreate_setters
        newFailedJobMutation_def FailedJobCreate_createSpec_def)
  have adds: "insert_failed_job (FailedJobCreate_createSpec m') (db w3) = Inr d' \<Longrightarrow>
      adds_failed_job name payload reason (db w) d'" for d'
    unfolding adds_failed_job_def
    by (rule exI [of _ "FailedJobCreate_createSpec m'"]) (use NewID_nonzero [OF i] spec db3 in simp)
  from cr show ?thesis
    by (cases rule: createdE) (use r adds db3 in auto)
qed

definition without_job :: "JobID \<Rightarrow> database \<Rightarrow> database" where
  "without_job i d = d\<lparr>jobs := filter (\<lambda>j. j_ID j \<noteq> i) (jobs d)\<rparr>"

lemma DeleteJob_cases:
  assumes "jobsrepo_DeleteJob i w = (r, w')"
  shows "(r = Inr () \<and> i \<in> j_ID ` set (jobs (db w)) \<and> db w' = without_job i (db w)) \<or>
    (r = Inl (NotFoundError ''job'') \<and> i \<notin> j_ID ` set (jobs (db w)) \<and> db w' = db w) \<or>
    (\<exists>m. r = Inl (DriverError m) \<and> (db w' = db w \<or> db w' = without_job i (db w)))"
proof -
  obtain s w1 where s: "JobDelete_Exec (JobClient_DeleteOneID i) w = (s, w1)" by force
  have "JobDelete_Exec (JobClient_DeleteOneID i) =
      (sql_exec (\<lambda>d. Inr (int (length (filter (\<lambda>j. j_ID j = i) (jobs d))), without_job i d))
        :: 'a store_scheme \<Rightarrow> _)"
    by (simp add: JobDelete_Exec_def JobClient_DeleteOneID_def job_ID_def without_job_def Let_def)
  with s have "sql_exec (\<lambda>d. Inr (int (length (filter (\<lambda>j. j_ID j = i) (jobs d))), without_job i d)) w = (s, w1)"
    by simp
  moreover have "filter (\<lambda>j. j_ID j = i) xs = [] \<longleftrightarrow> i \<notin> j_ID ` set xs" for xs
    by (auto simp: filter_empty_conv)
  moreover have "i \<notin> j_ID ` set (jobs d) \<Longrightarrow> without_job i d = d" for d
    unfolding without_job_def by (subst filter_True) auto
  ultimately show ?thesis
    using assms s
    by (cases rule: sql_exec_cases)
      (auto simp: jobsrepo_DeleteJob_def JobDeleteOne_Exec_def split: if_splits)
qed

lemma without_job_frame [simp]:
  "chats (without_job i d) = chats d" "problems (without_job i d) = problems d"
  "messages (without_job i d) = messages d" "failed_jobs (without_job i d) = failed_jobs d"
  by (simp_all add: without_job_def)

lemma without_job_wf: "db_wf d \<Longrightarrow> db_wf (without_job i d)"
  by (auto simp: db_wf_def without_job_def distinct_map_filter)

lemma adds_job_wf: "adds_job n p a i d d' \<Longrightarrow> db_wf d \<Longrightarrow> db_wf d'"
  by (auto simp: adds_job_def intro: insert_job_wf)

lemma adds_failed_job_wf: "adds_failed_job n p s d d' \<Longrightarrow> db_wf d \<Longrightarrow> db_wf d'"
  by (auto simp: adds_failed_job_def intro: insert_failed_job_wf)

section \<open>The interface that the outbox relies on\<close>

text \<open>
  The operations of the interface \<open>jobsRepository\<close> (\<open>internal/services/outbox/service.go\<close>) and the
  outcome that each promises: the reply together with what happened to the database.
\<close>

record 'w jobsRepository =
  jr_CreateJob :: "string \<Rightarrow> string \<Rightarrow> time \<Rightarrow> 'w \<Rightarrow> JobID result \<times> 'w"
  jr_CreateFailedJob :: "string \<Rightarrow> string \<Rightarrow> string \<Rightarrow> 'w \<Rightarrow> unit result \<times> 'w"
  jr_FindAndReserveJob :: "time \<Rightarrow> 'w \<Rightarrow> RepoJob result \<times> 'w"
  jr_DeleteJob :: "JobID \<Rightarrow> 'w \<Rightarrow> unit result \<times> 'w"

definition find_outcome :: "time \<Rightarrow> time \<Rightarrow> RepoJob result \<Rightarrow> database \<Rightarrow> database \<Rightarrow> bool" where
  "find_outcome until now r d d' \<longleftrightarrow>
     (case r of
        Inr job \<Rightarrow> (\<exists>j. job = repo_job (reserve_job until j) \<and> reserves now until j d d')
      | Inl e \<Rightarrow>
          (errors_Is e jobsrepo_ErrNoJobs \<and> d' = d \<and> (\<forall>j \<in> set (jobs d). \<not> job_eligible now j)) \<or>
          (plain_error e \<and> (d' = d \<or> (\<exists>j. reserves now until j d d'))))"

definition create_outcome ::
  "string \<Rightarrow> string \<Rightarrow> time \<Rightarrow> JobID result \<Rightarrow> database \<Rightarrow> database \<Rightarrow> bool" where
  "create_outcome name payload availableAt r d d' \<longleftrightarrow>
     (case r of
        Inr i \<Rightarrow> adds_job name payload availableAt i d d'
      | Inl e \<Rightarrow> plain_error e \<and> (d' = d \<or> (\<exists>i. adds_job name payload availableAt i d d')))"

definition create_failed_outcome ::
  "string \<Rightarrow> string \<Rightarrow> string \<Rightarrow> unit result \<Rightarrow> database \<Rightarrow> database \<Rightarrow> bool" where
  "create_failed_outcome name payload reason r d d' \<longleftrightarrow>
     (case r of
        Inr _ \<Rightarrow> adds_failed_job name payload reason d d'
      | Inl e \<Rightarrow> plain_error e \<and> (d' = d \<or> adds_failed_job name payload reason d d'))"

definition delete_outcome :: "JobID \<Rightarrow> unit result \<Rightarrow> database \<Rightarrow> database \<Rightarrow> bool" where
  "delete_outcome i r d d' \<longleftrightarrow>
     (case r of
        Inr _ \<Rightarrow> i \<in> j_ID ` set (jobs d) \<and> d' = without_job i d
      | Inl e \<Rightarrow> d' = d \<or> d' = without_job i d)"

lemmas outcome_defs = find_outcome_def create_outcome_def create_failed_outcome_def delete_outcome_def

text \<open>What the outbox relies on, whatever provides it.\<close>

locale jobs_repository =
  fixes repo :: "'z store_scheme jobsRepository"
  assumes find: "jr_FindAndReserveJob repo until w = (r, w') \<Longrightarrow>
      find_outcome until (fst (time_Now w)) r (db w) (db w')"
    and create: "jr_CreateJob repo name payload availableAt w = (s, w') \<Longrightarrow>
      create_outcome name payload availableAt s (db w) (db w')"
    and create_failed: "jr_CreateFailedJob repo name payload reason w = (u, w') \<Longrightarrow>
      create_failed_outcome name payload reason u (db w) (db w')"
    and delete: "jr_DeleteJob repo i w = (u, w') \<Longrightarrow> delete_outcome i u (db w) (db w')"

definition jobsrepo :: "'z store_scheme jobsRepository" where
  "jobsrepo = \<lparr>jr_CreateJob = jobsrepo_CreateJob, jr_CreateFailedJob = jobsrepo_CreateFailedJob,
     jr_FindAndReserveJob = jobsrepo_FindAndReserveJob, jr_DeleteJob = jobsrepo_DeleteJob\<rparr>"

lemma jobsrepo_simps [simp]:
  "jr_CreateJob jobsrepo = jobsrepo_CreateJob"
  "jr_CreateFailedJob jobsrepo = jobsrepo_CreateFailedJob"
  "jr_FindAndReserveJob jobsrepo = jobsrepo_FindAndReserveJob"
  "jr_DeleteJob jobsrepo = jobsrepo_DeleteJob"
  by (simp_all add: jobsrepo_def)

interpretation jobsrepo: jobs_repository "jobsrepo :: 'z store_scheme jobsRepository"
proof unfold_locales
  fix until and w w' :: "'z store_scheme" and r
  assume "jr_FindAndReserveJob jobsrepo until w = (r, w')"
  then have "jobsrepo_FindAndReserveJob until w = (r, w')" by simp
  then show "find_outcome until (fst (time_Now w)) r (db w) (db w')"
    by (cases rule: FindAndReserveJob_cases) (auto simp: find_outcome_def)
next
  fix name payload availableAt and w w' :: "'z store_scheme" and s
  assume "jr_CreateJob jobsrepo name payload availableAt w = (s, w')"
  then show "create_outcome name payload availableAt s (db w) (db w')"
    using CreateJob_cases [of name payload availableAt w s w'] by (auto simp: create_outcome_def)
next
  fix name payload reason and w w' :: "'z store_scheme" and u
  assume "jr_CreateFailedJob jobsrepo name payload reason w = (u, w')"
  then show "create_failed_outcome name payload reason u (db w) (db w')"
    using CreateFailedJob_cases [of name payload reason w u w'] by (auto simp: create_failed_outcome_def)
next
  fix i and w w' :: "'z store_scheme" and u
  assume "jr_DeleteJob jobsrepo i w = (u, w')"
  then show "delete_outcome i u (db w) (db w')"
    using DeleteJob_cases [of i w u w'] by (auto simp: delete_outcome_def)
qed

end
