(* ===== verification/Outbox.thy ===== *)
theory Outbox
  imports JobsRepo GoTime
begin

text \<open>
  The outbox service (\<open>internal/services/outbox\<close>): the registry of jobs, \<open>Put\<close>, the processing of
  one job (\<open>findAndProcessJob\<close>), the dead letter queue (\<open>dlq\<close>) and the loop of a worker
  (\<open>processAvailableJobs\<close>).  The service calls its repository and its transactor through the fields
  of its options, as the code does; the lemmas are proved in the context of the two contracts
  (\<open>outbox_service\<close>) and hold for every job handler that leaves the tables of the queue alone.
\<close>

section \<open>The service\<close>

text \<open>The interface \<open>Job\<close>: its name, handler, time limit and number of attempts.\<close>

record 'w outbox_Job =
  oj_Name :: string
  oj_Handle :: "string \<Rightarrow> 'w \<Rightarrow> unit result \<times> 'w"
  oj_ExecutionTimeout :: time
  oj_MaxAttempts :: int

definition defaultExecutionTimeout :: time where "defaultExecutionTimeout = 30 * second"
definition defaultMaxAttempts :: int where "defaultMaxAttempts = 30"

text \<open>A job that embeds \<open>DefaultJob\<close>.\<close>

definition DefaultJob :: "string \<Rightarrow> (string \<Rightarrow> 'w \<Rightarrow> unit result \<times> 'w) \<Rightarrow> 'w outbox_Job" where
  "DefaultJob nm h = \<lparr>oj_Name = nm, oj_Handle = h, oj_ExecutionTimeout = defaultExecutionTimeout,
     oj_MaxAttempts = defaultMaxAttempts\<rparr>"

type_synonym 'w txtor = "gctx \<Rightarrow> (gctx \<Rightarrow> 'w \<Rightarrow> unit result \<times> 'w) \<Rightarrow> 'w \<Rightarrow> unit result \<times> 'w"

record 'w outbox_Options =
  oo_workers :: int
  oo_idleTime :: time
  oo_reserveFor :: time
  oo_jobsRepo :: "'w jobsRepository"
  oo_txtor :: "'w txtor"

record 'w outbox_Service = "'w outbox_Options" +
  os_jobs :: "string \<Rightarrow> 'w outbox_Job option"

definition outbox_Options_Validate :: "'w outbox_Options \<Rightarrow> goerr option" where
  "outbox_Options_Validate opts = validate_options
     [(''workers'', VInt (oo_workers opts), [MinT 1, MaxT 32]),
      (''idleTime'', VInt (oo_idleTime opts), [MinT (100 * millisecond), MaxT (10 * second)]),
      (''reserveFor'', VInt (oo_reserveFor opts), [MinT second, MaxT (10 * minute)])]"

definition outbox_New :: "'w outbox_Options \<Rightarrow> 'w outbox_Service result" where
  "outbox_New opts =
     (case outbox_Options_Validate opts of
        Some err \<Rightarrow> Inl (errorf_v ''failed to validate options outbox'' err)
      | None \<Rightarrow> Inr \<lparr>oo_workers = oo_workers opts, oo_idleTime = oo_idleTime opts,
          oo_reserveFor = oo_reserveFor opts, oo_jobsRepo = oo_jobsRepo opts,
          oo_txtor = oo_txtor opts, os_jobs = (\<lambda>_. None)\<rparr>)"

definition outbox_RegisterJob ::
  "'w outbox_Job \<Rightarrow> 'w outbox_Service \<Rightarrow> goerr option \<times> 'w outbox_Service" where
  "outbox_RegisterJob job s =
     (case os_jobs s (oj_Name job) of
        Some _ \<Rightarrow> (Some (Errorf (''job '' @ strconv_Quote (oj_Name job) @ '' already registered'') None), s)
      | None \<Rightarrow> (None, s\<lparr>os_jobs := (os_jobs s)(oj_Name job \<mapsto> job)\<rparr>))"

definition outbox_Put ::
  "'w outbox_Service \<Rightarrow> string \<Rightarrow> string \<Rightarrow> time \<Rightarrow> 'w \<Rightarrow> JobID result \<times> 'w" where
  "outbox_Put s name payload availableAt w =
     (case jr_CreateJob (oo_jobsRepo s) name payload availableAt w of
        (Inl err, w) \<Rightarrow> (Inl (errorf_v ''failed to put a job'' err), w)
      | (Inr i, w) \<Rightarrow> (Inr i, w))"

section \<open>Processing\<close>

definition outbox_dlq ::
  "'w outbox_Service \<Rightarrow> gctx \<Rightarrow> JobID \<Rightarrow> string \<Rightarrow> string \<Rightarrow> string \<Rightarrow> 'w \<Rightarrow> unit result \<times> 'w" where
  "outbox_dlq s ctx jobID name payload reason = oo_txtor s ctx (\<lambda>ctx w.
     case jr_CreateFailedJob (oo_jobsRepo s) name payload reason w of
       (Inl err, w) \<Rightarrow> (Inl (errorf_v ''create failed job'' err), w)
     | (Inr _, w) \<Rightarrow>
         (case jr_DeleteJob (oo_jobsRepo s) jobID w of
            (Inl err, w) \<Rightarrow> (Inl (errorf_v ''delete job'' err), w)
          | (Inr _, w) \<Rightarrow> (Inr (), w)))"

text \<open>What follows the reservation in \<open>findAndProcessJob\<close>.\<close>

definition outbox_processJob ::
  "'w outbox_Service \<Rightarrow> gctx \<Rightarrow> RepoJob \<Rightarrow> 'w \<Rightarrow> unit result \<times> 'w" where
  "outbox_processJob s ctx job w =
     (case os_jobs s (rj_Name job) of
        None \<Rightarrow> outbox_dlq s ctx (rj_ID job) (rj_Name job) (rj_Payload job) ''unknown job'' w
      | Some j \<Rightarrow>
          (case oj_Handle j (rj_Payload job) w of
             (Inl err, w) \<Rightarrow>
               if rj_Attempts job \<ge> oj_MaxAttempts j
               then outbox_dlq s ctx (rj_ID job) (rj_Name job) (rj_Payload job)
                      (''max attempts exceeded: '' @ errtext err) w
               else (Inr (), w)
           | (Inr _, w) \<Rightarrow>
               (case jr_DeleteJob (oo_jobsRepo s) (rj_ID job) w of
                  (Inl err, w) \<Rightarrow> (Inr (), w)
                | (Inr _, w) \<Rightarrow> (Inr (), w))))"

definition outbox_findAndProcessJob ::
  "'z store_scheme outbox_Service \<Rightarrow> gctx \<Rightarrow> 'z store_scheme \<Rightarrow> unit result \<times> 'z store_scheme" where
  "outbox_findAndProcessJob s ctx w =
     (let (now, w) = time_Now w in
      case jr_FindAndReserveJob (oo_jobsRepo s) (now + oo_reserveFor s) w of
        (Inl err, w) \<Rightarrow> (Inl (errorf_w ''find and reserve job'' err), w)
      | (Inr job, w) \<Rightarrow> outbox_processJob s ctx job w)"

text \<open>
  The loop of a worker.  \<open>cancelled k\<close> is whether the context is done at the \<open>k\<close>-th look at it; the
  fuel bounds the iterations and \<open>None\<close> says that it did not suffice.
\<close>

fun outbox_processAvailableJobs ::
  "nat \<Rightarrow> (nat \<Rightarrow> bool) \<Rightarrow> 'z store_scheme outbox_Service \<Rightarrow> gctx \<Rightarrow> 'z store_scheme
   \<Rightarrow> unit result option \<times> 'z store_scheme" where
  "outbox_processAvailableJobs 0 cancelled s ctx w = (None, w)"
| "outbox_processAvailableJobs (Suc fuel) cancelled s ctx w =
     (if cancelled 0 then (Some (Inr ()), w)
      else (case outbox_findAndProcessJob s ctx w of
              (Inl err, w) \<Rightarrow>
                if errors_Is err jobsrepo_ErrNoJobs then (Some (Inr ()), w) else (Some (Inl err), w)
            | (Inr _, w) \<Rightarrow> outbox_processAvailableJobs fuel (\<lambda>k. cancelled (Suc k)) s ctx w))"

section \<open>Registration\<close>

lemma outbox_New_ok:
  "outbox_New opts = Inr s \<Longrightarrow> 1 \<le> oo_workers s \<and> oo_workers s \<le> 32
     \<and> second \<le> oo_reserveFor s \<and> oo_reserveFor s \<le> 10 * minute \<and> os_jobs s = (\<lambda>_. None)"
  by (auto simp: outbox_New_def outbox_Options_Validate_def validate_options_None
      split: option.splits if_splits)

lemma RegisterJob_cases:
  "outbox_RegisterJob job s = (r, s') \<Longrightarrow>
     (if os_jobs s (oj_Name job) = None
      then r = None \<and> os_jobs s' = (os_jobs s)(oj_Name job \<mapsto> job)
      else r \<noteq> None \<and> s' = s)"
  by (auto simp: outbox_RegisterJob_def split: option.splits)

section \<open>The outcome of processing one job\<close>

text \<open>A handler that leaves the tables of the queue alone.\<close>

definition keeps_queue :: "('z store_scheme \<Rightarrow> 'a \<times> 'z store_scheme) \<Rightarrow> bool" where
  "keeps_queue h \<longleftrightarrow> (\<forall>w r w'. h w = (r, w') \<longrightarrow>
     jobs (db w') = jobs (db w) \<and> failed_jobs (db w') = failed_jobs (db w))"

definition handlers_keep_queue :: "'z store_scheme outbox_Service \<Rightarrow> bool" where
  "handlers_keep_queue s \<longleftrightarrow> (\<forall>n j p. os_jobs s n = Some j \<longrightarrow> keeps_queue (oj_Handle j p))"

text \<open>The job leaves the queue and a failed job with its name and payload is recorded.\<close>

definition moves_to_dlq :: "JobID \<Rightarrow> string \<Rightarrow> string \<Rightarrow> string \<Rightarrow> database \<Rightarrow> database \<Rightarrow> bool" where
  "moves_to_dlq i name payload reason d d' \<longleftrightarrow>
     (\<exists>d1. adds_failed_job name payload reason d d1 \<and> i \<in> j_ID ` set (jobs d1) \<and> d' = without_job i d1)"

text \<open>
  The call of \<open>findAndProcessJob\<close> at \<open>w\<close> reserved \<open>job\<close>, which left the world \<open>w1\<close>; the handler
  registered under the job's name was then run on the job's payload and reported success.
\<close>

definition reserved_at :: "'z store_scheme outbox_Service \<Rightarrow> 'z store_scheme \<Rightarrow> RepoJob \<Rightarrow> 'z store_scheme \<Rightarrow> bool" where
  "reserved_at s w job w1 \<longleftrightarrow>
     jr_FindAndReserveJob (oo_jobsRepo s) (fst (time_Now w) + oo_reserveFor s) (snd (time_Now w)) = (Inr job, w1)"

definition handled_at :: "'z store_scheme outbox_Service \<Rightarrow> 'z store_scheme \<Rightarrow> RepoJob \<Rightarrow> bool" where
  "handled_at s w job \<longleftrightarrow>
     (\<exists>w1 w2 j. reserved_at s w job w1 \<and> os_jobs s (rj_Name job) = Some j
        \<and> oj_Handle j (rj_Payload job) w1 = (Inr (), w2))"

lemma adds_failed_job_jobs: "adds_failed_job n p r d d' \<Longrightarrow> jobs d' = jobs d"
  by (auto simp: adds_failed_job_def insert_failed_job_def split: if_splits)

lemma adds_failed_job_failed:
  "adds_failed_job n p r d d' \<Longrightarrow> \<exists>f. f_Name f = n \<and> f_Payload f = p \<and> f_Reason f = r
     \<and> failed_jobs d' = failed_jobs d @ [f]"
  by (auto simp: adds_failed_job_def insert_failed_job_def split: if_splits)

lemma moves_to_dlq_effect:
  assumes "moves_to_dlq i n p r d d'"
  shows "jobs d' = filter (\<lambda>j. j_ID j \<noteq> i) (jobs d) \<and>
    (\<exists>f. f_Name f = n \<and> f_Payload f = p \<and> f_Reason f = r \<and> failed_jobs d' = failed_jobs d @ [f])"
proof -
  from assms obtain d1 where d1: "adds_failed_job n p r d d1" "d' = without_job i d1"
    by (auto simp: moves_to_dlq_def)
  with adds_failed_job_jobs [OF d1(1)] adds_failed_job_failed [OF d1(1)] show ?thesis
    by (auto simp: without_job_def)
qed

section \<open>Under the two contracts\<close>

locale outbox_service =
  jobs_repository "oo_jobsRepo s" + tx: transactor "oo_txtor s" "db :: 'z store_scheme \<Rightarrow> database"
  for s :: "'z store_scheme outbox_Service" +
  assumes handlers: "handlers_keep_queue s"
begin

lemma handler_keeps:
  "os_jobs s n = Some j \<Longrightarrow> oj_Handle j p w = (r, w') \<Longrightarrow>
     jobs (db w') = jobs (db w) \<and> failed_jobs (db w') = failed_jobs (db w)"
  using handlers by (auto simp: handlers_keep_queue_def keeps_queue_def)

lemma dlq_body:
  assumes "(case jr_CreateFailedJob (oo_jobsRepo s) name payload reason w of
       (Inl err, w) \<Rightarrow> (Inl (errorf_v ''create failed job'' err), w)
     | (Inr _, w) \<Rightarrow>
         (case jr_DeleteJob (oo_jobsRepo s) jobID w of
            (Inl err, w) \<Rightarrow> (Inl (errorf_v ''delete job'' err), w)
          | (Inr _, w) \<Rightarrow> (Inr (), w))) = (r, w')"
  shows "(r = Inr () \<longrightarrow> moves_to_dlq jobID name payload reason (db w) (db w')) \<and>
    (\<forall>e. r = Inl e \<longrightarrow> plain_error e)"
proof -
  obtain u w1 where u: "jr_CreateFailedJob (oo_jobsRepo s) name payload reason w = (u, w1)" by force
  note cf = create_failed [OF u]
  show ?thesis
  proof (cases u)
    case (Inl e)
    with assms u show ?thesis by auto
  next
    case (Inr x)
    obtain v w2 where v: "jr_DeleteJob (oo_jobsRepo s) jobID w1 = (v, w2)" by force
    from delete [OF v] cf assms u v Inr show ?thesis
      by (cases v) (auto simp: create_failed_outcome_def delete_outcome_def moves_to_dlq_def)
  qed
qed

text \<open>
  The dead letter queue is atomic: outside a transaction, the job is moved as a whole or nothing
  changes, and success means that it was moved.
\<close>

lemma dlq_atomic:
  assumes "\<not> ctx_tx ctx" and "outbox_dlq s ctx jobID name payload reason w = (r, w')"
  shows "(r = Inr () \<and> moves_to_dlq jobID name payload reason (db w) (db w')) \<or>
    (\<exists>e. r = Inl e \<and> plain_error e \<and>
      (db w' = db w \<or> moves_to_dlq jobID name payload reason (db w) (db w')))"
proof -
  define body where "body = (\<lambda>(ctx :: gctx) w.
     case jr_CreateFailedJob (oo_jobsRepo s) name payload reason w of
       (Inl err, w) \<Rightarrow> (Inl (errorf_v ''create failed job'' err), w)
     | (Inr _, w) \<Rightarrow>
         (case jr_DeleteJob (oo_jobsRepo s) jobID w of
            (Inl err, w) \<Rightarrow> (Inl (errorf_v ''delete job'' err), w)
          | (Inr _, w) \<Rightarrow> (Inr (), w)))"
  have run: "oo_txtor s ctx body w = (r, w')"
    using assms(2) by (simp add: outbox_dlq_def body_def)
  have body: "body c w1 = (q, w2) \<Longrightarrow>
      (q = Inr () \<longrightarrow> moves_to_dlq jobID name payload reason (db w1) (db w2)) \<and>
      (\<forall>e. q = Inl e \<longrightarrow> plain_error e)" for c w1 q w2
    unfolding body_def by (rule dlq_body)
  show ?thesis
  proof (cases r)
    case (Inr x)
    with tx.committed [OF assms(1), of body w x w'] run obtain w1 w2 where
      "db w1 = db w" "body (ctx\<lparr>ctx_tx := True\<rparr>) w1 = (Inr x, w2)" "db w' = db w2" by blast
    with body [of "ctx\<lparr>ctx_tx := True\<rparr>" w1 "Inr x" w2] Inr show ?thesis by simp
  next
    case (Inl e)
    let ?ctx = "ctx\<lparr>ctx_tx := True\<rparr>"
    from tx.aborted [OF assms(1), of body w e w'] run Inl
    have "(db w' = db w \<and> (plain_error e \<or> (\<exists>w1 w2. db w1 = db w \<and> body ?ctx w1 = (Inl e, w2)))) \<or>
        (plain_error e \<and> (\<exists>w1 w2 x. db w1 = db w \<and> body ?ctx w1 = (Inr x, w2) \<and> db w' = db w2))"
      by blast
    then have "plain_error e \<and> (db w' = db w \<or> moves_to_dlq jobID name payload reason (db w) (db w'))"
    proof (elim disjE conjE exE)
      fix w1 w2 x assume "plain_error e" "db w1 = db w" "body ?ctx w1 = (Inr x, w2)" "db w' = db w2"
      with body [of ?ctx w1 "Inr x" w2] show ?thesis by simp
    next
      fix w1 w2 assume "db w' = db w" "body ?ctx w1 = (Inl e, w2)"
      with body [of ?ctx w1 "Inl e" w2] show ?thesis by simp
    qed simp
    with Inl show ?thesis by simp
  qed
qed

text \<open>
  What can have happened to the queue and to the dead letters when a reserved job is processed.
\<close>

lemma processJob_cases:
  assumes "\<not> ctx_tx ctx" and "outbox_processJob s ctx job w = (r, w')"
  obtains (kept) "jobs (db w') = jobs (db w)" "failed_jobs (db w') = failed_jobs (db w)"
      "r = Inr () \<or> (\<exists>e. r = Inl e \<and> plain_error e)"
  | (dead) reason where "jobs (db w') = filter (\<lambda>j. j_ID j \<noteq> rj_ID job) (jobs (db w))"
      "\<exists>f. f_Name f = rj_Name job \<and> f_Payload f = rj_Payload job \<and> f_Reason f = reason
        \<and> failed_jobs (db w') = failed_jobs (db w) @ [f]"
      "r = Inr () \<or> (\<exists>e. r = Inl e \<and> plain_error e)"
      "os_jobs s (rj_Name job) = None \<or> (\<exists>j e w1. os_jobs s (rj_Name job) = Some j
        \<and> oj_Handle j (rj_Payload job) w = (Inl e, w1) \<and> oj_MaxAttempts j \<le> rj_Attempts job)"
  | (deleted) j w1 where "jobs (db w') = filter (\<lambda>j. j_ID j \<noteq> rj_ID job) (jobs (db w))"
      "failed_jobs (db w') = failed_jobs (db w)" "r = Inr ()"
      "os_jobs s (rj_Name job) = Some j" "oj_Handle j (rj_Payload job) w = (Inr (), w1)"
proof (cases "os_jobs s (rj_Name job)")
  case None
  with assms(2) have q: "outbox_dlq s ctx (rj_ID job) (rj_Name job) (rj_Payload job) ''unknown job'' w = (r, w')"
    by (simp add: outbox_processJob_def)
  from dlq_atomic [OF assms(1) this] show ?thesis
    by (elim disjE exE conjE) (auto dest!: moves_to_dlq_effect intro: kept dead [of "''unknown job''"] None)
next
  case (Some j)
  obtain h w1 where h: "oj_Handle j (rj_Payload job) w = (h, w1)" by force
  note hk = handler_keeps [OF Some h]
  show ?thesis
  proof (cases h)
    case (Inl err)
    show ?thesis
    proof (cases "oj_MaxAttempts j \<le> rj_Attempts job")
      case True
      let ?reason = "''max attempts exceeded: '' @ errtext err"
      from True Inl h Some assms(2)
      have q: "outbox_dlq s ctx (rj_ID job) (rj_Name job) (rj_Payload job) ?reason w1 = (r, w')"
        by (simp add: outbox_processJob_def)
      from dlq_atomic [OF assms(1) this]
      have "(db w' = db w1 \<and> (\<exists>e. r = Inl e \<and> plain_error e)) \<or>
          (moves_to_dlq (rj_ID job) (rj_Name job) (rj_Payload job) ?reason (db w1) (db w')
            \<and> (r = Inr () \<or> (\<exists>e. r = Inl e \<and> plain_error e)))" by blast
      then show ?thesis
      proof
        assume "db w' = db w1 \<and> (\<exists>e. r = Inl e \<and> plain_error e)"
        then show ?thesis using hk by (intro kept) simp_all
      next
        assume mv: "moves_to_dlq (rj_ID job) (rj_Name job) (rj_Payload job) ?reason (db w1) (db w')
            \<and> (r = Inr () \<or> (\<exists>e. r = Inl e \<and> plain_error e))"
        from moves_to_dlq_effect [OF conjunct1 [OF mv]] hk mv Some h Inl True show ?thesis
          by (intro dead [of ?reason]) simp_all
      qed
    next
      case False
      with Inl h Some assms(2) hk show ?thesis by (intro kept) (auto simp: outbox_processJob_def)
    qed
  next
    case (Inr x)
    obtain v w2 where v: "jr_DeleteJob (oo_jobsRepo s) (rj_ID job) w1 = (v, w2)" by force
    from Inr h Some v assms(2) have r: "r = Inr () \<and> w' = w2"
      by (cases v) (simp_all add: outbox_processJob_def)
    from delete [OF v] have "db w2 = db w1 \<or> db w2 = without_job (rj_ID job) (db w1)"
      by (auto simp: delete_outcome_def split: sum.splits)
    then show ?thesis
    proof
      assume "db w2 = db w1"
      with r hk show ?thesis by (intro kept) simp_all
    next
      assume "db w2 = without_job (rj_ID job) (db w1)"
      with r hk Some h Inr show ?thesis by (intro deleted [of j w1]) (simp_all add: without_job_def)
    qed
  qed
qed

lemma processJob_error:
  assumes "\<not> ctx_tx ctx" and "outbox_processJob s ctx job w = (Inl e, w')"
  shows "plain_error e"
  using assms by (cases rule: processJob_cases) auto

lemma findAndProcessJob_cases:
  assumes "outbox_findAndProcessJob s ctx w = (r, w')"
  obtains (none) e where "r = Inl e" "errors_Is e jobsrepo_ErrNoJobs" "db w' = db w"
      "\<forall>j \<in> set (jobs (db w)). \<not> job_eligible (fst (time_Now (snd (time_Now w)))) j"
  | (failed) e e0 where "r = Inl e" "plain_error e"
      "jr_FindAndReserveJob (oo_jobsRepo s) (fst (time_Now w) + oo_reserveFor s) (snd (time_Now w)) = (Inl e0, w')"
      "db w' = db w \<or> (\<exists>j. reserves (fst (time_Now (snd (time_Now w))))
        (fst (time_Now w) + oo_reserveFor s) j (db w) (db w'))"
  | (processed) j job w1 where "job = repo_job (reserve_job (fst (time_Now w) + oo_reserveFor s) j)"
      "reserved_at s w job w1"
      "reserves (fst (time_Now (snd (time_Now w)))) (fst (time_Now w) + oo_reserveFor s) j (db w) (db w1)"
      "outbox_processJob s ctx job w1 = (r, w')"
proof -
  obtain now w0 where now: "time_Now w = (now, w0)" by force
  obtain q w1 where q: "jr_FindAndReserveJob (oo_jobsRepo s) (now + oo_reserveFor s) w0 = (q, w1)" by force
  note f = find [OF q] and d0 = db_time_Now [OF now]
  show ?thesis
  proof (cases q)
    case (Inr job)
    with f d0 obtain j where "job = repo_job (reserve_job (now + oo_reserveFor s) j)"
      "reserves (fst (time_Now w0)) (now + oo_reserveFor s) j (db w) (db w1)"
      by (auto simp: find_outcome_def)
    with Inr now q assms show ?thesis
      by (intro processed [of job j w1]) (auto simp: outbox_findAndProcessJob_def reserved_at_def)
  next
    case (Inl e)
    with now q assms have r: "r = Inl (errorf_w ''find and reserve job'' e)" "w' = w1"
      by (auto simp: outbox_findAndProcessJob_def)
    from f Inl d0 have "(errors_Is e jobsrepo_ErrNoJobs \<and> db w1 = db w
          \<and> (\<forall>j \<in> set (jobs (db w)). \<not> job_eligible (fst (time_Now w0)) j)) \<or>
        (plain_error e \<and> (db w1 = db w
          \<or> (\<exists>j. reserves (fst (time_Now w0)) (now + oo_reserveFor s) j (db w) (db w1))))"
      by (simp add: find_outcome_def)
    then show ?thesis
    proof
      assume "errors_Is e jobsrepo_ErrNoJobs \<and> db w1 = db w
          \<and> (\<forall>j \<in> set (jobs (db w)). \<not> job_eligible (fst (time_Now w0)) j)"
      with r now show ?thesis by (intro none [OF r(1)]) simp_all
    next
      assume "plain_error e \<and> (db w1 = db w
          \<or> (\<exists>j. reserves (fst (time_Now w0)) (now + oo_reserveFor s) j (db w) (db w1)))"
      with r now q Inl show ?thesis by (intro failed [OF r(1)]) simp_all
    qed
  qed
qed

text \<open>What becomes of a job of the queue when the service processes some job.\<close>

lemma job_fate:
  assumes "\<not> ctx_tx ctx" and "outbox_findAndProcessJob s ctx w = (r, w')"
    and "distinct (map j_ID (jobs (db w)))" and "j \<in> set (jobs (db w))"
  shows "(\<exists>j' \<in> set (jobs (db w')). j_ID j' = j_ID j \<and> j_Name j' = j_Name j
        \<and> j_Payload j' = j_Payload j \<and> j_Attempts j \<le> j_Attempts j') \<or>
    (\<exists>f. f_Name f = j_Name j \<and> f_Payload f = j_Payload j \<and> failed_jobs (db w') = failed_jobs (db w) @ [f]) \<or>
    handled_at s w (repo_job (reserve_job (fst (time_Now w) + oo_reserveFor s) j))"
    (is "?kept \<or> ?dead \<or> ?handled")
proof -
  let ?until = "fst (time_Now w) + oo_reserveFor s"
  have in_update: "\<exists>j' \<in> set (jobs (update_job i (reserve_job ?until) (db w))). j_ID j' = j_ID j
      \<and> j_Name j' = j_Name j \<and> j_Payload j' = j_Payload j \<and> j_Attempts j \<le> j_Attempts j'" for i
    using assms(4)
    by (intro bexI [of _ "if j_ID j = i then reserve_job ?until j else j"]) (auto simp: update_job_def)
  from assms(2) show ?thesis
  proof (cases rule: findAndProcessJob_cases)
    case (none e)
    then show ?thesis using assms(4) by auto
  next
    case (failed e)
    then show ?thesis using assms(4) in_update by (auto simp: reserves_def)
  next
    case (processed k job w1)
    let ?u = "update_job (j_ID k) (reserve_job ?until) (db w)"
    have w1: "db w1 = ?u" and k: "k \<in> set (jobs (db w))" using processed(3) by (simp_all add: reserves_def)
    have job: "rj_ID job = j_ID k" "rj_Name job = j_Name k" "rj_Payload job = j_Payload k"
      using processed(1) by (simp_all add: repo_job_def)
    have others: "j_ID j \<noteq> j_ID k \<Longrightarrow> j \<in> set (filter (\<lambda>x. j_ID x \<noteq> rj_ID job) (jobs ?u))"
      using assms(4) by (force simp: update_job_def job)
    have same: "j_ID j = j_ID k \<Longrightarrow> j = k"
      using assms(3,4) k by (metis distinct_map inj_onD)
    from assms(1) processed(4) show ?thesis
    proof (cases rule: processJob_cases)
      case kept
      with in_update [of "j_ID k"] w1 show ?thesis by simp
    next
      case (dead reason)
      show ?thesis
      proof (cases "j_ID j = j_ID k")
        case True
        with same dead(2) job w1 show ?thesis by auto
      next
        case False
        with others dead(1) w1 show ?thesis by auto
      qed
    next
      case (deleted h w2)
      show ?thesis
      proof (cases "j_ID j = j_ID k")
        case True
        with same processed(1,2) deleted show ?thesis by (auto simp: handled_at_def)
      next
        case False
        with others deleted(1) w1 show ?thesis by auto
      qed
    qed
  qed
qed

text \<open>The dead letters only grow, by one job at a time, and only when the attempts are used up.\<close>

lemma dead_letter_reason:
  assumes "\<not> ctx_tx ctx" and "outbox_findAndProcessJob s ctx w = (r, w')"
  shows "failed_jobs (db w') = failed_jobs (db w) \<or>
    (\<exists>f j w1. failed_jobs (db w') = failed_jobs (db w) @ [f] \<and> j \<in> set (jobs (db w))
      \<and> f_Name f = j_Name j \<and> f_Payload f = j_Payload j \<and> j_ID j \<notin> j_ID ` set (jobs (db w'))
      \<and> reserved_at s w (repo_job (reserve_job (fst (time_Now w) + oo_reserveFor s) j)) w1
      \<and> (os_jobs s (j_Name j) = None \<or> (\<exists>h e w2. os_jobs s (j_Name j) = Some h
          \<and> oj_Handle h (j_Payload j) w1 = (Inl e, w2) \<and> oj_MaxAttempts h \<le> j_Attempts j + 1)))"
  using assms(2)
proof (cases rule: findAndProcessJob_cases)
  case (none e)
  then show ?thesis by simp
next
  case (failed e)
  then show ?thesis by (auto simp: reserves_def)
next
  case (processed j job w1)
  then have w1: "failed_jobs (db w1) = failed_jobs (db w)" and j: "j \<in> set (jobs (db w))"
    by (simp_all add: reserves_def)
  have job: "rj_ID job = j_ID j" "rj_Name job = j_Name j" "rj_Payload job = j_Payload j"
    "rj_Attempts job = j_Attempts j + 1"
    using processed(1) by (simp_all add: repo_job_def)
  from assms(1) processed(4) show ?thesis
  proof (cases rule: processJob_cases)
    case kept
    with w1 show ?thesis by simp
  next
    case (dead reason)
    then obtain f where "f_Name f = j_Name j" "f_Payload f = j_Payload j"
      "failed_jobs (db w') = failed_jobs (db w) @ [f]"
      using w1 job by auto
    moreover have "j_ID j \<notin> j_ID ` set (jobs (db w'))" using dead(1) job by auto
    moreover have "reserved_at s w (repo_job (reserve_job (fst (time_Now w) + oo_reserveFor s) j)) w1"
      using processed(1,2) by simp
    moreover have "os_jobs s (j_Name j) = None \<or> (\<exists>h e w2. os_jobs s (j_Name j) = Some h
        \<and> oj_Handle h (j_Payload j) w1 = (Inl e, w2) \<and> oj_MaxAttempts h \<le> j_Attempts j + 1)"
      using dead(4) by (simp only: job)
    ultimately show ?thesis using j by blast
  next
    case (deleted h w2)
    with w1 show ?thesis by simp
  qed
qed

end

lemma outbox_serviceI:
  fixes s :: "'z store_scheme outbox_Service"
  assumes "oo_jobsRepo s = jobsrepo" and "oo_txtor s = RunInTx" and "handlers_keep_queue s"
  shows "outbox_service s"
  unfolding outbox_service_def outbox_service_axioms_def assms(1,2)
  using jobsrepo.jobs_repository_axioms tx.transactor_axioms assms(3) by blast

section \<open>Properties\<close>

text \<open>
  C1. No job is lost.  Whatever the database, the clock and the handlers do, after one
  \<open>findAndProcessJob\<close> every job that was in the queue is still there, with its name and payload and
  no fewer attempts; or a failed job with its name and payload was added to the dead letters; or it
  was the job reserved by this very call and its handler, run on its payload, reported success.
\<close>

theorem outbox_no_job_lost:
  assumes "oo_jobsRepo s = jobsrepo" and "oo_txtor s = RunInTx" and "handlers_keep_queue s"
    and "\<not> ctx_tx ctx" and "db_wf (db w)" and "outbox_findAndProcessJob s ctx w = (r, w')"
    and "j \<in> set (jobs (db w))"
  shows "(\<exists>j' \<in> set (jobs (db w')). j_ID j' = j_ID j \<and> j_Name j' = j_Name j
        \<and> j_Payload j' = j_Payload j \<and> j_Attempts j \<le> j_Attempts j') \<or>
    (\<exists>f. f_Name f = j_Name j \<and> f_Payload f = j_Payload j \<and> failed_jobs (db w') = failed_jobs (db w) @ [f]) \<or>
    handled_at s w (repo_job (reserve_job (fst (time_Now w) + oo_reserveFor s) j))"
proof (rule outbox_service.job_fate)
  show "outbox_service s" using assms(1-3) by (rule outbox_serviceI)
qed (use assms in \<open>simp_all add: db_wf_def\<close>)

text \<open>An outbox with one job, whose handler is given, and a queue with one job for it.\<close>

definition sample_outbox :: "(string \<Rightarrow> store \<Rightarrow> unit result \<times> store) \<Rightarrow> store outbox_Service" where
  "sample_outbox h = \<lparr>oo_workers = 1, oo_idleTime = second, oo_reserveFor = minute,
     oo_jobsRepo = jobsrepo, oo_txtor = RunInTx, os_jobs = [''greet'' \<mapsto> DefaultJob ''greet'' h]\<rparr>"

definition sample_queue :: "int \<Rightarrow> database" where
  "sample_queue n = empty_database\<lparr>jobs :=
     [\<lparr>j_ID = Id 1, j_Name = ''greet'', j_Payload = ''you'', j_Attempts = n, j_AvailableAt = 3,
       j_ReservedUntil = 3, j_CreatedAt = 3\<rparr>]\<rparr>"

lemma sample_queue_wf: "db_wf (sample_queue n)"
  by (simp add: db_wf_def sample_queue_def empty_database_def)

lemma sample_queue_length [simp]: "length (jobs (sample_queue n)) = 1"
  by (simp add: sample_queue_def)

lemma sample_outbox_simps [simp]:
  "oo_jobsRepo (sample_outbox h) = jobsrepo" "oo_txtor (sample_outbox h) = RunInTx"
  "oo_reserveFor (sample_outbox h) = minute"
  "os_jobs (sample_outbox h) = [''greet'' \<mapsto> DefaultJob ''greet'' h]"
  by (simp_all add: sample_outbox_def)

lemma sample_outbox_keeps: "(\<And>p. keeps_queue (h p)) \<Longrightarrow> handlers_keep_queue (sample_outbox h)"
  by (auto simp: handlers_keep_queue_def DefaultJob_def split: if_splits)

lemmas outbox_eval = outbox_findAndProcessJob_def outbox_processJob_def jobsrepo_FindAndReserveJob_def
  reserve_query_def job_eligible_def repo_job_def update_job_def quiet_simps DefaultJob_def
  jobsrepo_DeleteJob_def JobDeleteOne_Exec_def JobDelete_Exec_def JobClient_DeleteOneID_def job_ID_def

lemma outbox_no_job_lost_witness:
  "\<exists>r w'. outbox_findAndProcessJob (sample_outbox (\<lambda>p w. (Inr (), w))) background (quiet_store (sample_queue 0) 7) = (r, w')
     \<and> jobs (db w') = [] \<and> failed_jobs (db w') = []
     \<and> handled_at (sample_outbox (\<lambda>p w. (Inr (), w))) (quiet_store (sample_queue 0) 7)
         \<lparr>rj_ID = Id 1, rj_Name = ''greet'', rj_Payload = ''you'', rj_Attempts = 1\<rparr>"
proof -
  let ?s = "sample_outbox (\<lambda>p w. (Inr (), w))" and ?w = "quiet_store (sample_queue 0) 7"
  let ?j = "hd (jobs (sample_queue 0))"
  obtain r w' where run: "outbox_findAndProcessJob ?s background ?w = (r, w')" by force
  have keeps: "handlers_keep_queue ?s" by (rule sample_outbox_keeps) (simp add: keeps_queue_def)
  have gone: "jobs (db w') = [] \<and> failed_jobs (db w') = []"
    using run [symmetric] by (simp add: outbox_eval sample_queue_def empty_database_def)
  have j: "?j \<in> set (jobs (db ?w))" by (simp add: sample_queue_def)
  have "handled_at ?s ?w (repo_job (reserve_job (fst (time_Now ?w) + oo_reserveFor ?s) ?j))"
    using outbox_no_job_lost [OF _ _ keeps _ _ run j] gone
    by (simp add: background_def sample_queue_wf)
  then show ?thesis using run gone
    by (simp add: sample_queue_def repo_job_def reserve_job_def)
qed

text \<open>
  C8. A job reaches the dead letters only when it must.  Under \<open>findAndProcessJob\<close> the dead letters
  stay as they are, or exactly one failed job is added: that of a queued job which this call
  reserved, which is no longer in the queue, and which either has no registered handler or whose
  handler failed in this call with at least \<open>MaxAttempts\<close> attempts counted, this one included.
\<close>

theorem outbox_dead_letter_justified:
  assumes "oo_jobsRepo s = jobsrepo" and "oo_txtor s = RunInTx" and "handlers_keep_queue s"
    and "\<not> ctx_tx ctx" and "outbox_findAndProcessJob s ctx w = (r, w')"
  shows "failed_jobs (db w') = failed_jobs (db w) \<or>
    (\<exists>f j w1. failed_jobs (db w') = failed_jobs (db w) @ [f] \<and> j \<in> set (jobs (db w))
      \<and> f_Name f = j_Name j \<and> f_Payload f = j_Payload j \<and> j_ID j \<notin> j_ID ` set (jobs (db w'))
      \<and> reserved_at s w (repo_job (reserve_job (fst (time_Now w) + oo_reserveFor s) j)) w1
      \<and> (os_jobs s (j_Name j) = None \<or> (\<exists>h e w2. os_jobs s (j_Name j) = Some h
          \<and> oj_Handle h (j_Payload j) w1 = (Inl e, w2) \<and> oj_MaxAttempts h \<le> j_Attempts j + 1)))"
  using outbox_serviceI [OF assms(1-3)] assms(4,5) by (rule outbox_service.dead_letter_reason)

text \<open>The thirtieth attempt fails.\<close>

lemma outbox_dead_letter_justified_witness:
  "\<exists>r w' f. outbox_findAndProcessJob (sample_outbox (\<lambda>p w. (Inl (DriverError ''no''), w))) background
       (quiet_store (sample_queue 29) 7) = (r, w')
     \<and> jobs (db w') = [] \<and> failed_jobs (db w') = [f] \<and> f_Name f = ''greet'' \<and> f_Payload f = ''you''"
proof -
  let ?s = "sample_outbox (\<lambda>p w. (Inl (DriverError ''no''), w))" and ?w = "quiet_store (sample_queue 29) 7"
  obtain r w' where run: "outbox_findAndProcessJob ?s background ?w = (r, w')" by force
  have keeps: "handlers_keep_queue ?s" by (rule sample_outbox_keeps) (simp add: keeps_queue_def)
  have eff: "jobs (db w') = [] \<and> length (failed_jobs (db w')) = 1"
    using run [symmetric]
    by (simp add: outbox_eval sample_queue_def empty_database_def defaultMaxAttempts_def outbox_dlq_def
        RunInTx_def background_def jobsrepo_CreateFailedJob_def FailedJobCreate_Save_def
        FailedJobCreate_defaults_def set_default_def FailedJobCreate_setters newFailedJobMutation_def
        NewID_eq FailedJobCreate_sqlSave_def ent_sqlSave_def FailedJobCreate_check_def idops_defs
        need_field_def valid_field_def gen_type_Validate field_NotEmpty_def field_MinLen_def Id_eq_zero
        uuid_NewRandom_nonzero insert_failed_job_def FailedJobCreate_createSpec_def)
  from outbox_dead_letter_justified [OF _ _ keeps _ run] eff
  obtain f j where "failed_jobs (db w') = failed_jobs (sample_queue 29) @ [f]"
    "j \<in> set (jobs (sample_queue 29))" "f_Name f = j_Name j" "f_Payload f = j_Payload j"
    by (auto simp: background_def sample_queue_def empty_database_def)
  with run eff show ?thesis by (auto simp: sample_queue_def empty_database_def)
qed

end
