(* ===== verification/Worker.thy ===== *)
theory Worker
  imports Outbox
begin

text \<open>
  The loop of an outbox worker (\<open>processAvailableJobs\<close> in \<open>internal/services/outbox/service.go\<close>) ends.
  A reserved job is out of reach until its reservation runs out, so as long as the clock moves by less
  than \<open>reserveFor\<close> while the loop runs, every iteration that continues the loop uses up one job that
  was within reach.  The clock's \<open>horizon\<close> is the latest time it will ever show; the lemmas
  \<open>clocked\<close> say which operations only read the clock.
\<close>

section \<open>Operations that only read the clock\<close>

definition horizon :: "'z env_scheme \<Rightarrow> time" where
  "horizon w = clk w + int (sum_list (ticks w))"

definition keeps_clock :: "('z env_scheme \<Rightarrow> 'a \<times> 'z env_scheme) \<Rightarrow> bool" where
  "keeps_clock f \<longleftrightarrow> (\<forall>w r w'. f w = (r, w') \<longrightarrow> clk w \<le> clk w' \<and> horizon w' = horizon w)"

lemma keeps_clockD: "keeps_clock f \<Longrightarrow> f w = (r, w') \<Longrightarrow> clk w \<le> clk w' \<and> horizon w' = horizon w"
  by (simp add: keeps_clock_def)

lemma keeps_clockI:
  "(\<And>w r w'. f w = (r, w') \<Longrightarrow> clk w \<le> clk w' \<and> horizon w' = horizon w) \<Longrightarrow> keeps_clock f"
  by (simp add: keeps_clock_def)

lemma horizon_cong: "clk w = clk v \<Longrightarrow> ticks w = ticks v \<Longrightarrow> horizon w = horizon v"
  by (simp add: horizon_def)

lemma horizon_update [simp]:
  "horizon (w\<lparr>rnd_pos := n\<rparr>) = horizon w" "horizon (w\<lparr>faults := fs\<rparr>) = horizon w"
  "horizon (w\<lparr>picks := ps\<rparr>) = horizon w"
  by (simp_all add: horizon_def)

lemma horizon_db [simp]: "horizon (w\<lparr>db := d\<rparr>) = horizon w"
  by (simp add: horizon_def)

lemma time_Now_clocked: "keeps_clock time_Now"
  by (rule keeps_clockI) (auto simp: time_Now_def horizon_def split: list.splits)

lemma next_fault_clocked: "keeps_clock next_fault"
  by (rule keeps_clockI) (auto simp: next_fault_def split: list.splits)

lemma pick_one_clocked: "keeps_clock (pick_one xs)"
  by (rule keeps_clockI) (auto simp: pick_one_def split: list.splits if_splits)

lemma NewID_clocked: "keeps_clock NewID"
  by (rule keeps_clockI) (auto simp: NewID_eq)

lemma statement_clocked:
  assumes "keeps_clock body"
  shows "keeps_clock (statement body)"
proof (rule keeps_clockI)
  fix w r w' assume st: "statement body w = (r, w')"
  obtain f w1 where f: "next_fault w = (f, w1)" by force
  obtain q w2 where q: "body w1 = (q, w2)" by force
  from st f q have "w' = w1 \<or> w' = w2"
    by (auto simp: statement_def split: option.splits fault.splits)
  with keeps_clockD [OF next_fault_clocked f] keeps_clockD [OF assms q]
  show "clk w \<le> clk w' \<and> horizon w' = horizon w" by auto
qed

lemma sql_exec_clocked: "keeps_clock (sql_exec f)"
  unfolding sql_exec_def
  by (rule statement_clocked, rule keeps_clockI) (auto split: sum.splits)

lemma sql_read_clocked: "keeps_clock (sql_read f)"
  unfolding sql_read_def by (rule statement_clocked, rule keeps_clockI) auto

lemma query_All_clocked: "keeps_clock (query_All q)"
  unfolding query_All_def by (rule statement_clocked, rule keeps_clockI) (auto simp: Let_def)

lemma reserve_query_clocked: "keeps_clock (reserve_query until)"
proof (rule keeps_clockI)
  fix w r w' assume rq: "reserve_query until w = (r, w' :: 'a store_scheme)"
  obtain now w1 where now: "time_Now w = (now, w1)" by force
  obtain p w2 where p: "pick_one (filter (job_eligible now) (jobs (db w1))) w1 = (p, w2)" by force
  from rq now p have "clk w' = clk w2 \<and> horizon w' = horizon w2"
    by (auto simp: reserve_query_def split: option.splits)
  with keeps_clockD [OF time_Now_clocked now] keeps_clockD [OF pick_one_clocked p]
  show "clk w \<le> clk w' \<and> horizon w' = horizon w" by auto
qed

lemma FindAndReserveJob_clocked: "keeps_clock (jobsrepo_FindAndReserveJob until)"
proof (rule keeps_clockI)
  fix w r w' assume fr: "jobsrepo_FindAndReserveJob until w = (r, w' :: 'a store_scheme)"
  obtain f w1 where f: "next_fault w = (f, w1)" by force
  obtain q w2 where q: "reserve_query until w1 = (q, w2)" by force
  from fr f q have "w' = w1 \<or> w' = w2"
    by (auto simp: jobsrepo_FindAndReserveJob_def split: option.splits fault.splits)
  with keeps_clockD [OF next_fault_clocked f] keeps_clockD [OF reserve_query_clocked q]
  show "clk w \<le> clk w' \<and> horizon w' = horizon w" by auto
qed

text \<open>When the statement has changed the tables, the clock has reached the time that it read.\<close>

lemma FindAndReserveJob_late:
  assumes "jobsrepo_FindAndReserveJob until w = (r, w')" and "db w' \<noteq> db w"
  shows "fst (time_Now w) \<le> clk w'"
proof -
  obtain f w1 where f: "next_fault w = (f, w1)" by force
  note d1 = db_next_fault [OF f] time_Now_next_fault [OF f]
  obtain q w2 where q: "reserve_query until w1 = (q, w2)" by force
  obtain now w3 where now: "time_Now w1 = (now, w3)" by force
  obtain p w4 where p: "pick_one (filter (job_eligible now) (jobs (db w3))) w3 = (p, w4)" by force
  from assms f q d1(1) have "w' = w2"
    by (auto simp: jobsrepo_FindAndReserveJob_def split: option.splits fault.splits)
  moreover have "clk w2 = clk w4"
    using q now p by (auto simp: reserve_query_def split: option.splits)
  ultimately show ?thesis
    using time_Now_mono [OF now] keeps_clockD [OF pick_one_clocked p] d1(2) now by simp
qed

lemma DeleteJob_clocked: "keeps_clock (jobsrepo_DeleteJob i)"
proof (rule keeps_clockI)
  fix w r w' assume dj: "jobsrepo_DeleteJob i w = (r, w' :: 'a store_scheme)"
  obtain q w1 where q: "JobDelete_Exec (JobClient_DeleteOneID i) w = (q, w1)" by force
  from dj q have "w' = w1"
    by (auto simp: jobsrepo_DeleteJob_def JobDeleteOne_Exec_def split: sum.splits if_splits)
  with keeps_clockD [OF sql_exec_clocked q [unfolded JobDelete_Exec_def]]
  show "clk w \<le> clk w' \<and> horizon w' = horizon w" by simp
qed

lemma set_default_clocked:
  assumes "set_default getf setf dflt (m, w) = (m', w')" and "keeps_clock dflt"
  shows "clk w \<le> clk w' \<and> horizon w' = horizon w"
proof -
  obtain v w1 where v: "dflt w = (v, w1)" by force
  with assms(1) have "w' = w \<or> w' = w1" by (auto simp: set_default_def split: option.splits)
  with keeps_clockD [OF assms(2) v] show ?thesis by auto
qed

lemma FailedJobCreate_defaults_clocked: "FailedJobCreate_defaults (m, w) = (m', w') \<Longrightarrow>
    clk w \<le> clk w' \<and> horizon w' = horizon w"
proof -
  assume d: "FailedJobCreate_defaults (m, w) = (m', w')"
  obtain m1 w1 where s1: "set_default fm_created_at FailedJobCreate_SetCreatedAt time_Now (m, w) = (m1, w1)"
    by force
  with d have s2: "set_default fm_id FailedJobCreate_SetID NewID (m1, w1) = (m', w')"
    by (simp add: FailedJobCreate_defaults_def)
  from set_default_clocked [OF s1 time_Now_clocked] set_default_clocked [OF s2 NewID_clocked]
  show ?thesis by auto
qed

lemma CreateFailedJob_clocked: "keeps_clock (jobsrepo_CreateFailedJob n p r)"
proof (rule keeps_clockI)
  fix w and u :: "unit result" and w' assume cf: "jobsrepo_CreateFailedJob n p r w = (u, w' :: 'a store_scheme)"
  let ?m = "FailedJobCreate_SetReason r (FailedJobCreate_SetPayload p (FailedJobCreate_SetName n newFailedJobMutation))"
  obtain m' w1 where m': "FailedJobCreate_defaults (?m, w) = (m', w1)" by force
  obtain q w2 where q: "FailedJobCreate_sqlSave m' w1 = (q, w2)" by force
  from cf m' q have w': "w' = w2"
    by (auto simp: jobsrepo_CreateFailedJob_def FailedJobCreate_Save_def split: sum.splits)
  have "clk w1 \<le> clk w2 \<and> horizon w2 = horizon w1"
    using q keeps_clockD [OF sql_exec_clocked, of _ w1 q w2]
    by (auto simp: FailedJobCreate_sqlSave_def ent_sqlSave_def split: option.splits)
  with w' FailedJobCreate_defaults_clocked [OF m'] show "clk w \<le> clk w' \<and> horizon w' = horizon w" by auto
qed

lemma RunInTx_clocked:
  assumes "\<And>c. keeps_clock (f c)"
  shows "keeps_clock (RunInTx ctx f)"
proof (rule keeps_clockI)
  fix w r w' assume rt: "RunInTx ctx f w = (r, w' :: 'a store_scheme)"
  obtain f1 w1 where f1: "next_fault w = (f1, w1)" by force
  obtain q0 w0 where q0: "f ctx w = (q0, w0)" by force
  obtain q w2 where q: "f (ctx\<lparr>ctx_tx := True\<rparr>) w1 = (q, w2)" by force
  obtain f2 w3 where f2: "next_fault w2 = (f2, w3)" by force
  from rt f1 q0 q f2 have
    "\<exists>v \<in> {w0, w1, w2, w3}. clk w' = clk v \<and> horizon w' = horizon v"
    by (auto simp: RunInTx_def split: if_splits option.splits sum.splits fault.splits)
  with keeps_clockD [OF next_fault_clocked f1] keeps_clockD [OF next_fault_clocked f2]
    keeps_clockD [OF assms q0] keeps_clockD [OF assms q]
  show "clk w \<le> clk w' \<and> horizon w' = horizon w" by auto
qed

section \<open>The loop under contracts that keep the clock\<close>

text \<open>The jobs that are within reach before the horizon.\<close>

definition within_reach :: "time \<Rightarrow> database \<Rightarrow> nat" where
  "within_reach H d = length (filter (\<lambda>j. j_ReservedUntil j \<le> H) (jobs d))"

lemma length_filter_filter_le: "length (filter P (filter Q xs)) \<le> length (filter P xs)"
  by (induction xs) auto

lemma length_filter_map_less:
  assumes "x \<in> set xs" "P x" "\<not> P (f x)" "\<And>y. P (f y) \<Longrightarrow> P y"
  shows "length (filter P (map f xs)) < length (filter P xs)"
proof -
  obtain ys zs where xs: "xs = ys @ x # zs" using assms(1) by (metis split_list)
  have le: "length (filter P (map f us)) \<le> length (filter P us)" for us
    using assms(4) by (induction us) auto
  from le [of ys] le [of zs] show ?thesis using assms(2,3) by (simp add: xs)
qed

lemma reserves_reach:
  assumes "reserves now until j d d'" "now \<le> H" "H < until"
  shows "within_reach H d' < within_reach H d"
proof -
  from assms(1) have j: "j \<in> set (jobs d)" "j_ReservedUntil j \<le> now"
    and d': "jobs d' = map (\<lambda>k. if j_ID k = j_ID j then reserve_job until k else k) (jobs d)"
    by (auto simp: reserves_def update_job_def job_eligible_def)
  show ?thesis
    unfolding within_reach_def d'
    by (rule length_filter_map_less [OF j(1)]) (use j(2) assms(2,3) in \<open>auto split: if_splits\<close>)
qed

definition handlers_keep_clock :: "'z store_scheme outbox_Service \<Rightarrow> bool" where
  "handlers_keep_clock s \<longleftrightarrow> (\<forall>n j p. os_jobs s n = Some j \<longrightarrow> keeps_clock (oj_Handle j p))"

locale clocked_outbox = outbox_service s for s :: "'z store_scheme outbox_Service" +
  assumes find_clocked: "keeps_clock (jr_FindAndReserveJob (oo_jobsRepo s) until)"
    and find_late: "jr_FindAndReserveJob (oo_jobsRepo s) until w = (q, w') \<Longrightarrow> db w' \<noteq> db w \<Longrightarrow>
      fst (time_Now w) \<le> clk w'"
    and delete_clocked: "keeps_clock (jr_DeleteJob (oo_jobsRepo s) i)"
    and create_failed_clocked: "keeps_clock (jr_CreateFailedJob (oo_jobsRepo s) n p r)"
    and tx_clocked: "(\<And>c. keeps_clock (f c)) \<Longrightarrow> keeps_clock (oo_txtor s ctx f)"
    and handlers_clocked: "handlers_keep_clock s"
begin

lemma dlq_clocked: "keeps_clock (outbox_dlq s ctx i n p r)"
  unfolding outbox_dlq_def
proof (rule tx_clocked, rule keeps_clockI)
  fix c w and u :: "unit result" and w'
  assume body: "(case jr_CreateFailedJob (oo_jobsRepo s) n p r w of
       (Inl err, w) \<Rightarrow> (Inl (errorf_v ''create failed job'' err), w)
     | (Inr _, w) \<Rightarrow>
         (case jr_DeleteJob (oo_jobsRepo s) i w of
            (Inl err, w) \<Rightarrow> (Inl (errorf_v ''delete job'' err), w)
          | (Inr _, w) \<Rightarrow> (Inr (), w))) = (u, w')"
  obtain q w1 where q: "jr_CreateFailedJob (oo_jobsRepo s) n p r w = (q, w1)" by force
  obtain q2 w2 where q2: "jr_DeleteJob (oo_jobsRepo s) i w1 = (q2, w2)" by force
  from body q q2 have "w' = w1 \<or> w' = w2" by (auto split: sum.splits)
  with keeps_clockD [OF create_failed_clocked q] keeps_clockD [OF delete_clocked q2]
  show "clk w \<le> clk w' \<and> horizon w' = horizon w" by auto
qed

lemma processJob_clocked: "keeps_clock (outbox_processJob s ctx job)"
proof (rule keeps_clockI)
  fix w r w' assume pj: "outbox_processJob s ctx job w = (r, w')"
  show "clk w \<le> clk w' \<and> horizon w' = horizon w"
  proof (cases "os_jobs s (rj_Name job)")
    case None
    with pj keeps_clockD [OF dlq_clocked] show ?thesis by (simp add: outbox_processJob_def)
  next
    case (Some j)
    obtain h w1 where h: "oj_Handle j (rj_Payload job) w = (h, w1)" by force
    have hc: "clk w \<le> clk w1 \<and> horizon w1 = horizon w"
      using handlers_clocked Some h by (auto simp: handlers_keep_clock_def keeps_clock_def)
    obtain v w2 where v: "jr_DeleteJob (oo_jobsRepo s) (rj_ID job) w1 = (v, w2)" by force
    obtain x w3 where x: "outbox_dlq s ctx (rj_ID job) (rj_Name job) (rj_Payload job)
        (''max attempts exceeded: '' @ errtext (projl h)) w1 = (x, w3)" by force
    from pj Some h v x have "w' \<in> {w1, w2, w3}"
      by (cases h) (auto simp: outbox_processJob_def split: sum.splits if_splits)
    with hc keeps_clockD [OF delete_clocked v] keeps_clockD [OF dlq_clocked x] show ?thesis by auto
  qed
qed

lemma findAndProcessJob_clocked: "keeps_clock (outbox_findAndProcessJob s ctx)"
proof (rule keeps_clockI)
  fix w r w' assume fp: "outbox_findAndProcessJob s ctx w = (r, w')"
  obtain now w1 where now: "time_Now w = (now, w1)" by force
  obtain q w2 where q: "jr_FindAndReserveJob (oo_jobsRepo s) (now + oo_reserveFor s) w1 = (q, w2)" by force
  obtain x w3 where x: "outbox_processJob s ctx (projr q) w2 = (x, w3)" by force
  from fp now q x have "w' = w2 \<or> w' = w3"
    by (cases q) (auto simp: outbox_findAndProcessJob_def)
  with keeps_clockD [OF time_Now_clocked now] keeps_clockD [OF find_clocked q]
    keeps_clockD [OF processJob_clocked x]
  show "clk w \<le> clk w' \<and> horizon w' = horizon w" by auto
qed

text \<open>An iteration that continues the loop takes one job out of reach.\<close>

lemma iteration_reach:
  assumes "\<not> ctx_tx ctx" and fp: "outbox_findAndProcessJob s ctx w = (Inr x, w')"
    and H: "horizon w < clk w + oo_reserveFor s"
  shows "within_reach (horizon w) (db w') < within_reach (horizon w) (db w)"
  using fp
proof (cases rule: findAndProcessJob_cases)
  case (none e)
  then show ?thesis by simp
next
  case (failed e)
  then show ?thesis by simp
next
  case (processed j job w1)
  let ?n = "fst (time_Now w)" and ?now = "fst (time_Now (snd (time_Now w)))"
  have "clk w \<le> ?n" using time_Now_mono by (metis prod.collapse)
  then have "horizon w < ?n + oo_reserveFor s" using H by simp
  moreover have "?now \<le> horizon w"
  proof -
    have nowclk: "fst (time_Now v) \<le> horizon v" for v :: "'z store_scheme"
      by (auto simp: time_Now_def horizon_def split: list.splits)
    have "horizon (snd (time_Now w)) = horizon w"
      using keeps_clockD [OF time_Now_clocked, of w "fst (time_Now w)" "snd (time_Now w)"] by simp
    with nowclk [of "snd (time_Now w)"] show ?thesis by simp
  qed
  ultimately have "within_reach (horizon w) (db w1) < within_reach (horizon w) (db w)"
    using reserves_reach [OF processed(3)] by blast
  moreover have "within_reach (horizon w) (db w') \<le> within_reach (horizon w) (db w1)"
    using assms(1) processed(4)
  proof (cases rule: processJob_cases)
    case kept
    then show ?thesis by (simp add: within_reach_def)
  next
    case (dead reason)
    then show ?thesis by (simp only: within_reach_def length_filter_filter_le)
  next
    case (deleted h w2)
    then show ?thesis by (simp only: within_reach_def length_filter_filter_le)
  qed
  ultimately show ?thesis by simp
qed

lemma loop_ends:
  assumes "\<not> ctx_tx ctx" "horizon w < clk w + oo_reserveFor s"
    and "within_reach (horizon w) (db w) < fuel"
  shows "\<exists>r w'. outbox_processAvailableJobs fuel cancelled s ctx w = (Some r, w')"
  using assms(2,3)
proof (induction fuel arbitrary: cancelled w)
  case 0
  then show ?case by simp
next
  case (Suc fuel)
  obtain r w1 where fp: "outbox_findAndProcessJob s ctx w = (r, w1)" by force
  note c = keeps_clockD [OF findAndProcessJob_clocked fp]
  show ?case
  proof (cases r)
    case (Inl e)
    with fp show ?thesis by simp
  next
    case (Inr x)
    from iteration_reach [OF assms(1) fp [unfolded Inr] Suc.prems(1)] Suc.prems c
    have "horizon w1 < clk w1 + oo_reserveFor s" "within_reach (horizon w1) (db w1) < fuel" by simp_all
    from Suc.IH [OF this] fp Inr show ?thesis by simp
  qed
qed

text \<open>A loop that nobody cancels and that ends well has found no job that it could take.\<close>

lemma loop_drains:
  assumes "\<not> ctx_tx ctx" and "outbox_processAvailableJobs fuel (\<lambda>_. False) s ctx w = (Some (Inr x), w')"
  shows "\<exists>now. clk w \<le> now \<and> now \<le> horizon w \<and> (\<forall>j \<in> set (jobs (db w')). \<not> job_eligible now j)"
  using assms(2)
proof (induction fuel arbitrary: w)
  case 0
  then show ?case by simp
next
  case (Suc fuel)
  obtain r w1 where fp: "outbox_findAndProcessJob s ctx w = (r, w1)" by force
  note c = keeps_clockD [OF findAndProcessJob_clocked fp]
  show ?case
  proof (cases r)
    case (Inr y)
    with Suc.IH [of w1] Suc.prems fp c show ?thesis by (simp, meson order_trans)
  next
    case (Inl e)
    with Suc.prems fp have e: "errors_Is e jobsrepo_ErrNoJobs" "w' = w1" by (auto split: if_splits)
    let ?v = "snd (time_Now w)"
    have v: "clk w \<le> clk ?v" "horizon ?v = horizon w"
      using keeps_clockD [OF time_Now_clocked, of w "fst (time_Now w)" ?v] by auto
    have "clk ?v \<le> fst (time_Now ?v)" "fst (time_Now ?v) \<le> horizon ?v"
      by (auto simp: time_Now_def horizon_def split: list.splits)
    moreover have "\<forall>j \<in> set (jobs (db w')). \<not> job_eligible (fst (time_Now ?v)) j"
      using fp [unfolded Inl]
    proof (cases rule: findAndProcessJob_cases)
      case (processed j job w2)
      with processJob_error [OF assms(1)] e plain_not_ErrNoJobs show ?thesis by blast
    qed (use e plain_not_ErrNoJobs in auto)
    ultimately show ?thesis using v by (intro exI [of _ "fst (time_Now ?v)"]) auto
  qed
qed

end

lemma clocked_outboxI:
  fixes s :: "'z store_scheme outbox_Service"
  assumes "oo_jobsRepo s = jobsrepo" and "oo_txtor s = RunInTx"
    and "handlers_keep_queue s" and "handlers_keep_clock s"
  shows "clocked_outbox s"
  unfolding clocked_outbox_def clocked_outbox_axioms_def
  using outbox_serviceI [OF assms(1-3)] assms(4) FindAndReserveJob_late
  by (auto simp: assms(1,2) FindAndReserveJob_clocked DeleteJob_clocked CreateFailedJob_clocked RunInTx_clocked)

section \<open>Properties\<close>

text \<open>
  C5. The loop of a worker ends, whatever the faults of the database and the outcome of the handlers:
  if the clock moves by less than \<open>reserveFor\<close> in all, as many iterations as there are jobs, and one
  more, suffice.  A loop that ends well without being cancelled has found, at some time the clock
  showed, that no job of the queue could be taken.
\<close>

theorem outbox_loop_terminates:
  assumes "oo_jobsRepo s = jobsrepo" and "oo_txtor s = RunInTx" and "handlers_keep_queue s"
    and "handlers_keep_clock s" and "\<not> ctx_tx ctx" and "horizon w < clk w + oo_reserveFor s"
    and "length (jobs (db w)) < fuel"
  shows "\<exists>r w'. outbox_processAvailableJobs fuel (\<lambda>_. False) s ctx w = (Some r, w') \<and>
    (\<forall>x. r = Inr x \<longrightarrow> (\<exists>now. clk w \<le> now \<and> now \<le> horizon w
       \<and> (\<forall>j \<in> set (jobs (db w')). \<not> job_eligible now j)))"
proof -
  have c: "clocked_outbox s" using assms(1-4) by (rule clocked_outboxI)
  have "within_reach (horizon w) (db w) \<le> length (jobs (db w))"
    unfolding within_reach_def by (rule length_filter_le)
  then have "within_reach (horizon w) (db w) < fuel" using assms(7) by simp
  from clocked_outbox.loop_ends [OF c assms(5,6) this, of "\<lambda>_. False"] obtain r w' where
    e: "outbox_processAvailableJobs fuel (\<lambda>_. False) s ctx w = (Some r, w')" by blast
  with clocked_outbox.loop_drains [OF c assms(5), of fuel w _ w'] show ?thesis by auto
qed

text \<open>Two jobs, one of which cannot be taken yet; the handler of the other fails.\<close>

lemma outbox_loop_terminates_witness:
  "\<exists>w'. outbox_processAvailableJobs 2 (\<lambda>_. False) (sample_outbox (\<lambda>p w. (Inl (DriverError ''no''), w)))
       background (quiet_store (sample_queue 0) 7) = (Some (Inr ()), w')
     \<and> filter (job_eligible 7) (jobs (db w')) = []"
proof -
  let ?s = "sample_outbox (\<lambda>p w. (Inl (DriverError ''no''), w))" and ?w = "quiet_store (sample_queue 0) 7"
  have keeps: "handlers_keep_queue ?s" by (rule sample_outbox_keeps) (simp add: keeps_queue_def)
  have clocked: "handlers_keep_clock ?s"
    by (auto simp: handlers_keep_clock_def keeps_clock_def DefaultJob_def split: if_splits)
  have h: "horizon (quiet_store d t) = t" for d t by (simp add: horizon_def)
  from outbox_loop_terminates [OF _ _ keeps clocked, of background ?w 2] obtain r w' where
    e: "outbox_processAvailableJobs 2 (\<lambda>_. False) ?s background ?w = (Some r, w')"
    and d: "\<forall>x. r = Inr x \<longrightarrow> (\<exists>now. 7 \<le> now \<and> now \<le> 7 \<and> (\<forall>j \<in> set (jobs (db w')). \<not> job_eligible now j))"
    by (auto simp: h background_def duration_defs)
  have "r = Inr ()"
    using e by (simp add: numeral_2_eq_2 outbox_eval sample_queue_def empty_database_def
        defaultMaxAttempts_def duration_defs errorf_w_def)
  with e d have "\<forall>j \<in> set (jobs (db w')). \<not> job_eligible 7 j" by force
  with e \<open>r = Inr ()\<close> show ?thesis by (simp add: filter_empty_conv)
qed

end
