(* ===== verification/OutboxJobs.thy ===== *)
theory OutboxJobs
  imports MsgProducer MessagesRepo Worker
begin

text \<open>
  The three jobs of the outbox (\<open>internal/services/outbox/jobs\<close>): their names, payloads, options and
  handlers, and the outbox as \<open>cmd/chat-service/main.go\<close> wires it - the job repository and the
  transactor of the store, and the three jobs registered.  That outbox interprets the contracts
  \<open>outbox_service\<close> and \<open>clocked_outbox\<close>, so what was proved under them holds for it.
\<close>

section \<open>Payloads\<close>

definition sendclientmessagejob_Name :: string where "sendclientmessagejob_Name = ''send-client-message''"
definition clientmessageblockedjob_Name :: string where "clientmessageblockedjob_Name = ''client-message-blocked''"
definition clientmessagesentjob_Name :: string where "clientmessagesentjob_Name = ''client-message-sent''"

definition sendclientmessagejob_UnmarshalPayload :: "string \<Rightarrow> MessageID result" where
  "sendclientmessagejob_UnmarshalPayload payload =
     (case op_UnmarshalText (gen_type ''MessageID'') payload 0 of
        (messageID, Some err) \<Rightarrow> Inl (errorf_v ''unmarshal messageID'' err)
      | (messageID, None) \<Rightarrow> Inr messageID)"

definition sendclientmessagejob_MarshalPayload :: "MessageID \<Rightarrow> string result" where
  "sendclientmessagejob_MarshalPayload messageID =
     (case op_Validate (gen_type ''MessageID'') messageID of
        Some err \<Rightarrow> Inl (errorf_v ''validate messageID'' err)
      | None \<Rightarrow>
          (case op_MarshalText (gen_type ''MessageID'') messageID of
             Inl err \<Rightarrow> Inl (errorf_v ''marshal messageID'' err)
           | Inr payload \<Rightarrow> Inr payload))"

definition clientmessageblockedjob_UnmarshalPayload :: "string \<Rightarrow> MessageID result" where
  "clientmessageblockedjob_UnmarshalPayload payload =
     (case op_UnmarshalText (gen_type ''MessageID'') payload 0 of
        (messageID, Some err) \<Rightarrow> Inl (errorf_v ''unmarshal messageID'' err)
      | (messageID, None) \<Rightarrow> Inr messageID)"

definition clientmessageblockedjob_MarshalPayload :: "MessageID \<Rightarrow> string result" where
  "clientmessageblockedjob_MarshalPayload messageID =
     (case op_Validate (gen_type ''MessageID'') messageID of
        Some err \<Rightarrow> Inl (errorf_v ''validate messageID'' err)
      | None \<Rightarrow>
          (case op_MarshalText (gen_type ''MessageID'') messageID of
             Inl err \<Rightarrow> Inl (errorf_v ''marshal messageID'' err)
           | Inr payload \<Rightarrow> Inr payload))"

definition clientmessagesentjob_UnmarshalPayload :: "string \<Rightarrow> MessageID result" where
  "clientmessagesentjob_UnmarshalPayload payload =
     (case op_UnmarshalText (gen_type ''MessageID'') payload 0 of
        (messageID, Some err) \<Rightarrow> Inl (errorf_v ''unmarshal messageID'' err)
      | (messageID, None) \<Rightarrow> Inr messageID)"

definition clientmessagesentjob_MarshalPayload :: "MessageID \<Rightarrow> string result" where
  "clientmessagesentjob_MarshalPayload messageID =
     (case op_Validate (gen_type ''MessageID'') messageID of
        Some err \<Rightarrow> Inl (errorf_v ''validate messageID'' err)
      | None \<Rightarrow>
          (case op_MarshalText (gen_type ''MessageID'') messageID of
             Inl err \<Rightarrow> Inl (errorf_v ''marshal messageID'' err)
           | Inr payload \<Rightarrow> Inr payload))"

section \<open>The job that sends a message to the antifraud service\<close>

type_synonym 'w message_by_id = "MessageID \<Rightarrow> 'w \<Rightarrow> RepoMessage result \<times> 'w"
type_synonym 'w publisher = "UserID \<Rightarrow> event \<Rightarrow> 'w \<Rightarrow> unit result \<times> 'w"

record 'w send_Options =
  sjo_msgProducer :: "(producer_Message \<Rightarrow> 'w \<Rightarrow> unit result \<times> 'w) option"
  sjo_msgRepo :: "'w message_by_id option"
  sjo_eventStream :: "'w publisher option"

record 'w send_Job =
  sj_msgProducer :: "producer_Message \<Rightarrow> 'w \<Rightarrow> unit result \<times> 'w"
  sj_msgRepo :: "'w message_by_id"
  sj_eventStream :: "'w publisher"

definition sendclientmessagejob_NewOptions where
  "sendclientmessagejob_NewOptions msgProducer msgRepo eventStream options =
     foldl (\<lambda>o' opt. opt o')
       (\<lparr>sjo_msgProducer = msgProducer, sjo_msgRepo = msgRepo, sjo_eventStream = eventStream\<rparr> :: 'w send_Options)
       options"

definition sendclientmessagejob_Options_Validate :: "'w send_Options \<Rightarrow> goerr option" where
  "sendclientmessagejob_Options_Validate o' = validate_options
     [(''msgProducer'', iface (sjo_msgProducer o'), [Required]), (''msgRepo'', iface (sjo_msgRepo o'), [Required]),
      (''eventStream'', iface (sjo_eventStream o'), [Required])]"

definition sendclientmessagejob_New :: "'w send_Options \<Rightarrow> 'w send_Job result" where
  "sendclientmessagejob_New opts =
     (case sendclientmessagejob_Options_Validate opts of
        Some err \<Rightarrow> Inl (errorf_v ''validate options'' err)
      | None \<Rightarrow> Inr \<lparr>sj_msgProducer = the (sjo_msgProducer opts), sj_msgRepo = the (sjo_msgRepo opts),
          sj_eventStream = the (sjo_eventStream opts)\<rparr>)"

text \<open>\<open>Must\<close> panics (\<open>None\<close>) when \<open>New\<close> fails.\<close>

definition sendclientmessagejob_Must :: "'w send_Options \<Rightarrow> 'w send_Job option" where
  "sendclientmessagejob_Must opts = (case sendclientmessagejob_New opts of Inl err \<Rightarrow> None | Inr j \<Rightarrow> Some j)"

definition sendclientmessagejob_Handle ::
  "'z env_scheme send_Job \<Rightarrow> string \<Rightarrow> 'z env_scheme \<Rightarrow> unit result \<times> 'z env_scheme" where
  "sendclientmessagejob_Handle j payload w =
     (case sendclientmessagejob_UnmarshalPayload payload of
        Inl err \<Rightarrow> (Inl (errorf_v ''unmarshal payload'' err), w)
      | Inr messageID \<Rightarrow>
          (case sj_msgRepo j messageID w of
             (Inl err, w) \<Rightarrow> (Inl (errorf_v ''message repo, get message by id'' err), w)
           | (Inr message, w) \<Rightarrow>
               (case sj_msgProducer j \<lparr>pm_ID = msg_ID message, pm_ChatID = msg_ChatID message,
                       pm_Body = msg_Body message, pm_FromClient = True\<rparr> w of
                  (Inl err, w) \<Rightarrow> (Inl (errorf_v ''message producer, produce message'' err), w)
                | (Inr _, w) \<Rightarrow>
                    (let (eventID, w) = NewID w;
                         event = NewNewMessageEvent eventID (msg_RequestID message) (msg_ChatID message)
                           (msg_ID message) (msg_AuthorID message) (msg_CreatedAt message) (msg_Body message)
                           (msg_IsService message)
                     in case sj_eventStream j (msg_AuthorID message) event w of
                          (Inl err, w) \<Rightarrow> (Inl (errorf_v ''event stream, publish new message event'' err), w)
                        | (Inr _, w) \<Rightarrow> (Inr (), w)))))"

section \<open>The jobs that tell the client\<close>

record 'w notice_Options =
  njo_msgRepo :: "'w message_by_id option"
  njo_eventStream :: "'w publisher option"

record 'w notice_Job =
  nj_msgRepo :: "'w message_by_id"
  nj_eventStream :: "'w publisher"

definition clientmessageblockedjob_NewOptions where
  "clientmessageblockedjob_NewOptions msgRepo eventStream options =
     foldl (\<lambda>o' opt. opt o') (\<lparr>njo_msgRepo = msgRepo, njo_eventStream = eventStream\<rparr> :: 'w notice_Options) options"

definition clientmessageblockedjob_Options_Validate :: "'w notice_Options \<Rightarrow> goerr option" where
  "clientmessageblockedjob_Options_Validate o' = validate_options
     [(''msgRepo'', iface (njo_msgRepo o'), [Required]), (''eventStream'', iface (njo_eventStream o'), [Required])]"

definition clientmessageblockedjob_New :: "'w notice_Options \<Rightarrow> 'w notice_Job result" where
  "clientmessageblockedjob_New opts =
     (case clientmessageblockedjob_Options_Validate opts of
        Some err \<Rightarrow> Inl (errorf_v ''validate options'' err)
      | None \<Rightarrow> Inr \<lparr>nj_msgRepo = the (njo_msgRepo opts), nj_eventStream = the (njo_eventStream opts)\<rparr>)"

definition clientmessageblockedjob_Must :: "'w notice_Options \<Rightarrow> 'w notice_Job option" where
  "clientmessageblockedjob_Must opts = (case clientmessageblockedjob_New opts of Inl err \<Rightarrow> None | Inr j \<Rightarrow> Some j)"

definition clientmessageblockedjob_Handle ::
  "'z env_scheme notice_Job \<Rightarrow> string \<Rightarrow> 'z env_scheme \<Rightarrow> unit result \<times> 'z env_scheme" where
  "clientmessageblockedjob_Handle j payload w =
     (case clientmessageblockedjob_UnmarshalPayload payload of
        Inl err \<Rightarrow> (Inl (errorf_v ''unmarshal payload'' err), w)
      | Inr messageID \<Rightarrow>
          (case nj_msgRepo j messageID w of
             (Inl err, w) \<Rightarrow> (Inl (errorf_v ''message repo, get message by id'' err), w)
           | (Inr message, w) \<Rightarrow>
               (let (eventID, w) = NewID w;
                    event = NewMessageBlockEvent eventID (msg_RequestID message) (msg_ID message)
                in case nj_eventStream j (msg_AuthorID message) event w of
                     (Inl err, w) \<Rightarrow> (Inl (errorf_v ''event stream, publish message blick event'' err), w)
                   | (Inr _, w) \<Rightarrow> (Inr (), w))))"

definition clientmessagesentjob_NewOptions where
  "clientmessagesentjob_NewOptions msgRepo eventStream options =
     foldl (\<lambda>o' opt. opt o') (\<lparr>njo_msgRepo = msgRepo, njo_eventStream = eventStream\<rparr> :: 'w notice_Options) options"

definition clientmessagesentjob_Options_Validate :: "'w notice_Options \<Rightarrow> goerr option" where
  "clientmessagesentjob_Options_Validate o' = validate_options
     [(''msgRepo'', iface (njo_msgRepo o'), [Required]), (''eventStream'', iface (njo_eventStream o'), [Required])]"

definition clientmessagesentjob_New :: "'w notice_Options \<Rightarrow> 'w notice_Job result" where
  "clientmessagesentjob_New opts =
     (case clientmessagesentjob_Options_Validate opts of
        Some err \<Rightarrow> Inl (errorf_v ''validate options'' err)
      | None \<Rightarrow> Inr \<lparr>nj_msgRepo = the (njo_msgRepo opts), nj_eventStream = the (njo_eventStream opts)\<rparr>)"

definition clientmessagesentjob_Must :: "'w notice_Options \<Rightarrow> 'w notice_Job option" where
  "clientmessagesentjob_Must opts = (case clientmessagesentjob_New opts of Inl err \<Rightarrow> None | Inr j \<Rightarrow> Some j)"

definition clientmessagesentjob_Handle ::
  "'z env_scheme notice_Job \<Rightarrow> string \<Rightarrow> 'z env_scheme \<Rightarrow> unit result \<times> 'z env_scheme" where
  "clientmessagesentjob_Handle j payload w =
     (case clientmessagesentjob_UnmarshalPayload payload of
        Inl err \<Rightarrow> (Inl (errorf_v ''unmarshal payload'' err), w)
      | Inr messageID \<Rightarrow>
          (case nj_msgRepo j messageID w of
             (Inl err, w) \<Rightarrow> (Inl (errorf_v ''message repo, get message by id'' err), w)
           | (Inr message, w) \<Rightarrow>
               (let (eventID, w) = NewID w;
                    event = NewMessageSentEvent eventID (msg_RequestID message) (msg_ID message)
                in case nj_eventStream j (msg_AuthorID message) event w of
                     (Inl err, w) \<Rightarrow> (Inl (errorf_v ''event stream, publish message sent event'' err), w)
                   | (Inr _, w) \<Rightarrow> (Inr (), w))))"

section \<open>As the service wires them\<close>

text \<open>\<open>MustRegisterJob\<close> for each of the jobs; a name that is taken panics (\<open>None\<close>).\<close>

fun must_register :: "'w outbox_Job list \<Rightarrow> 'w outbox_Service \<Rightarrow> 'w outbox_Service option" where
  "must_register [] s = Some s"
| "must_register (j # js) s =
     (case outbox_RegisterJob j s of (Some err, s) \<Rightarrow> None | (None, s) \<Rightarrow> must_register js s)"

definition main_outbox ::
  "int \<Rightarrow> time \<Rightarrow> time \<Rightarrow> world msgproducer_Service \<Rightarrow> world outbox_Service result option" where
  "main_outbox workers idleTime reserveFor msgProducer =
     (case outbox_New \<lparr>oo_workers = workers, oo_idleTime = idleTime, oo_reserveFor = reserveFor,
             oo_jobsRepo = jobsrepo, oo_txtor = RunInTx\<rparr> of
        Inl err \<Rightarrow> Some (Inl (errorf_v ''failed to init outbox service'' err))
      | Inr outBox \<Rightarrow>
          (case (sendclientmessagejob_Must (sendclientmessagejob_NewOptions
                   (Some (msgproducer_ProduceMessage msgProducer)) (Some messagesrepo_GetMessageByID) (Some world_Publish) []),
                 clientmessageblockedjob_Must (clientmessageblockedjob_NewOptions
                   (Some messagesrepo_GetMessageByID) (Some world_Publish) []),
                 clientmessagesentjob_Must (clientmessagesentjob_NewOptions
                   (Some messagesrepo_GetMessageByID) (Some world_Publish) [])) of
             (Some a, Some b, Some c) \<Rightarrow>
               map_option Inr (must_register
                 [DefaultJob sendclientmessagejob_Name (sendclientmessagejob_Handle a),
                  DefaultJob clientmessageblockedjob_Name (clientmessageblockedjob_Handle b),
                  DefaultJob clientmessagesentjob_Name (clientmessagesentjob_Handle c)] outBox)
           | _ \<Rightarrow> None))"

text \<open>The outbox that comes of it.\<close>

definition wired_send :: "world msgproducer_Service \<Rightarrow> world send_Job" where
  "wired_send p = \<lparr>sj_msgProducer = msgproducer_ProduceMessage p, sj_msgRepo = messagesrepo_GetMessageByID,
     sj_eventStream = world_Publish\<rparr>"

definition wired_notice :: "world notice_Job" where
  "wired_notice = \<lparr>nj_msgRepo = messagesrepo_GetMessageByID, nj_eventStream = world_Publish\<rparr>"

definition wired_outbox :: "int \<Rightarrow> time \<Rightarrow> time \<Rightarrow> world msgproducer_Service \<Rightarrow> world outbox_Service" where
  "wired_outbox workers idleTime reserveFor p = \<lparr>oo_workers = workers, oo_idleTime = idleTime, oo_reserveFor = reserveFor,
     oo_jobsRepo = jobsrepo, oo_txtor = RunInTx,
     os_jobs = [sendclientmessagejob_Name \<mapsto> DefaultJob sendclientmessagejob_Name (sendclientmessagejob_Handle (wired_send p)),
       clientmessageblockedjob_Name \<mapsto> DefaultJob clientmessageblockedjob_Name (clientmessageblockedjob_Handle wired_notice),
       clientmessagesentjob_Name \<mapsto> DefaultJob clientmessagesentjob_Name (clientmessagesentjob_Handle wired_notice)]\<rparr>"

lemma main_outbox_wired:
  "main_outbox workers idleTime reserveFor p = Some (Inr s) \<Longrightarrow> s = wired_outbox workers idleTime reserveFor p"
  by (auto simp: main_outbox_def outbox_New_def outbox_RegisterJob_def wired_outbox_def wired_send_def wired_notice_def
      sendclientmessagejob_Must_def sendclientmessagejob_New_def sendclientmessagejob_NewOptions_def
      clientmessageblockedjob_Must_def clientmessageblockedjob_New_def clientmessageblockedjob_NewOptions_def
      clientmessagesentjob_Must_def clientmessagesentjob_New_def clientmessagesentjob_NewOptions_def DefaultJob_def
      sendclientmessagejob_Name_def clientmessageblockedjob_Name_def clientmessagesentjob_Name_def
      split: option.splits sum.splits)

lemma main_outbox_ok:
  assumes "1 \<le> workers" "workers \<le> 32" "100 * millisecond \<le> idleTime" "idleTime \<le> 10 * second"
    "second \<le> reserveFor" "reserveFor \<le> 10 * minute"
  shows "main_outbox workers idleTime reserveFor p = Some (Inr (wired_outbox workers idleTime reserveFor p))"
proof -
  have "outbox_Options_Validate (\<lparr>oo_workers = workers, oo_idleTime = idleTime, oo_reserveFor = reserveFor,
      oo_jobsRepo = jobsrepo, oo_txtor = RunInTx\<rparr> :: world outbox_Options) = None"
    using assms by (auto simp: outbox_Options_Validate_def intro!: validate_options_None [THEN iffD2])
  moreover have "sendclientmessagejob_Must (sendclientmessagejob_NewOptions
      (Some (msgproducer_ProduceMessage p)) (Some messagesrepo_GetMessageByID) (Some world_Publish) []) = Some (wired_send p)"
    by (simp add: sendclientmessagejob_Must_def sendclientmessagejob_New_def sendclientmessagejob_NewOptions_def
        sendclientmessagejob_Options_Validate_def validate_options_None [THEN iffD2] wired_send_def)
  moreover have "clientmessageblockedjob_Must (clientmessageblockedjob_NewOptions
      (Some messagesrepo_GetMessageByID) (Some world_Publish) []) = Some wired_notice"
    by (simp add: clientmessageblockedjob_Must_def clientmessageblockedjob_New_def clientmessageblockedjob_NewOptions_def
        clientmessageblockedjob_Options_Validate_def validate_options_None [THEN iffD2] wired_notice_def)
  moreover have "clientmessagesentjob_Must (clientmessagesentjob_NewOptions
      (Some messagesrepo_GetMessageByID) (Some world_Publish) []) = Some wired_notice"
    by (simp add: clientmessagesentjob_Must_def clientmessagesentjob_New_def clientmessagesentjob_NewOptions_def
        clientmessagesentjob_Options_Validate_def validate_options_None [THEN iffD2] wired_notice_def)
  ultimately show ?thesis
    by (simp add: main_outbox_def outbox_New_def outbox_RegisterJob_def DefaultJob_def wired_outbox_def
        sendclientmessagejob_Name_def clientmessageblockedjob_Name_def clientmessagesentjob_Name_def)
qed

section \<open>What the handlers leave alone\<close>

lemma keeps_clock_trans:
  "clk w \<le> clk w1 \<and> horizon w1 = horizon w \<Longrightarrow> clk w1 \<le> clk w2 \<and> horizon w2 = horizon w1 \<Longrightarrow>
     clk w \<le> clk w2 \<and> horizon w2 = horizon w"
  by simp

text \<open>Reading a message changes nothing but the schedule of faults.\<close>

definition world_same :: "world \<Rightarrow> world \<Rightarrow> bool" where
  "world_same w w' \<longleftrightarrow> db w' = db w \<and> pool w' = pool w \<and> stream w' = stream w \<and> topic w' = topic w \<and> crashed w' = crashed w
     \<and> clk w \<le> clk w' \<and> horizon w' = horizon w"

lemma world_same_refl [simp]: "world_same w w" by (simp add: world_same_def)

lemma world_same_trans: "world_same u v \<Longrightarrow> world_same v w \<Longrightarrow> world_same u w"
  by (auto simp: world_same_def)

lemma world_same_next_fault: "next_fault w = (f, w') \<Longrightarrow> world_same w w'"
  by (auto simp: world_same_def next_fault_def split: list.splits)

lemma world_same_time_Now: "time_Now w = (t, w') \<Longrightarrow> world_same w w'"
  using keeps_clockD [OF time_Now_clocked, of w t w']
  by (auto simp: world_same_def time_Now_def split: list.splits)

lemma world_same_NewID: "NewID w = (i, w') \<Longrightarrow> world_same w w'"
  by (auto simp: world_same_def NewID_eq)

lemma world_same_pick: "pick_one xs w = (x, w') \<Longrightarrow> world_same w w'"
  by (auto simp: world_same_def pick_one_def split: if_splits list.splits)

lemma world_same_statement:
  assumes "statement body w = (r, w')" and "\<And>u q u'. body u = (q, u') \<Longrightarrow> world_same u u'"
  shows "world_same w w'"
proof -
  obtain f w1 where f: "next_fault w = (f, w1)" by force
  obtain q w2 where q: "body w1 = (q, w2)" by force
  from assms(1) f q have "w' = w1 \<or> w' = w2" by (auto simp: statement_def split: option.splits fault.splits)
  with world_same_next_fault [OF f] assms(2) [OF q] world_same_trans show ?thesis by blast
qed

lemma world_same_query_All: "query_All q w = (r, w') \<Longrightarrow> world_same w w'"
  unfolding query_All_def
  by (rule world_same_statement) (auto simp: world_same_def Let_def)

lemma world_same_query_Only: "query_Only q w = (r, w') \<Longrightarrow> world_same w w'"
  by (auto simp: query_Only_def split: prod.splits sum.splits list.splits if_splits dest!: world_same_query_All)

lemma world_same_GetMessageByID: "messagesrepo_GetMessageByID i w = (r, w') \<Longrightarrow> world_same w w'"
  by (auto simp: messagesrepo_GetMessageByID_def MessageClient_Get_def split: prod.splits sum.splits
      dest!: world_same_query_Only)

text \<open>What a handler may change: the topic and the stream.\<close>

definition world_kept :: "world \<Rightarrow> world \<Rightarrow> bool" where
  "world_kept w w' \<longleftrightarrow> db w' = db w \<and> pool w' = pool w \<and> clk w \<le> clk w' \<and> horizon w' = horizon w"

lemma world_kept_refl [simp]: "world_kept w w" by (simp add: world_kept_def)

lemma world_kept_trans: "world_kept u v \<Longrightarrow> world_kept v w \<Longrightarrow> world_kept u w"
  by (auto simp: world_kept_def)

lemma world_same_kept: "world_same w w' \<Longrightarrow> world_kept w w'"
  by (auto simp: world_same_def world_kept_def)

lemma horizon_world [simp]: "horizon (w\<lparr>topic := ms\<rparr>) = horizon (w :: world)" "horizon (w\<lparr>stream := st\<rparr>) = horizon w"
  "horizon (w\<lparr>crashed := c\<rparr>) = horizon w" "horizon (w\<lparr>pool := p\<rparr>) = horizon w"
  by (rule horizon_cong; simp)+

lemma world_kept_Publish: "world_Publish u ev w = (r, w') \<Longrightarrow> world_kept w w'"
  by (auto simp: world_Publish_def world_kept_def split: option.splits)

lemma world_kept_WriteMessages:
  assumes "topic_WriteMessages ms w = (r, w')"
  shows "world_kept w w' \<and> stream w' = stream w \<and> crashed w' = crashed w"
proof -
  obtain f w1 where f: "next_fault w = (f, w1)" by force
  from world_same_next_fault [OF f] assms f show ?thesis
    by (auto simp: topic_WriteMessages_def statement_def world_kept_def world_same_def split: option.splits fault.splits)
qed

lemma random_bytes_same: "random_bytes n w = (s, w') \<Longrightarrow> world_same w w'"
proof (induction n arbitrary: s w w')
  case (Suc n)
  obtain x w1 where x: "random_word w = (x, w1)" by force
  obtain t w2 where t: "random_bytes n w1 = (t, w2)" by force
  have "world_same w w1" using x by (auto simp: random_word_def world_same_def)
  with Suc.IH [OF t] Suc.prems x t show ?case by (auto intro: world_same_trans)
qed simp

text \<open>The producer the service uses: the writer of the topic and the default nonces.\<close>

definition wired_producer :: "aead option \<Rightarrow> world msgproducer_Service" where
  "wired_producer ci = \<lparr>ps_wr = topic_writer, ps_cipher = ci, ps_nonceFactory = defaultNonceFactory\<rparr>"

lemma ProduceMessage_kept:
  assumes "msgproducer_ProduceMessage (wired_producer ci) msg w = (r, w')"
  shows "world_kept w w' \<and> stream w' = stream w \<and> crashed w' = crashed w"
proof -
  obtain q w0 where q: "(case ci of None \<Rightarrow> (Inr (json_Marshal (producer_Message_json msg)), w)
      | Some c \<Rightarrow> (case defaultNonceFactory (ae_NonceSize c) w of
          (Inl errN, w) \<Rightarrow> (Inl (errorf_v ''failed to get nonce'' errN), w)
        | (Inr nonce, w) \<Rightarrow> (Inr (nonce @ ae_Seal c nonce (json_Marshal (producer_Message_json msg))), w))) = (q, w0)"
    by force
  then have same: "world_same w w0" "\<exists>v. q = Inr v"
    by (auto simp: defaultNonceFactory_def split: option.splits prod.splits dest: random_bytes_same)
  then obtain v where v: "q = Inr v" by blast
  obtain t w1 where t: "time_Now w0 = (t, w1)" by force
  obtain u w2 where u: "topic_WriteMessages [\<lparr>km_Key = uuid_encodeHex (raw (pm_ChatID msg)), km_Value = v, km_Time = t\<rparr>] w1 = (u, w2)"
    by force
  have "w' = w2"
    using assms q v t u
    by (auto simp: msgproducer_ProduceMessage_def wired_producer_def topic_writer_def Let_def
        split: sum.splits option.splits)
  moreover have "world_same w w1" using same(1) world_same_time_Now [OF t] by (rule world_same_trans)
  ultimately show ?thesis using world_kept_WriteMessages [OF u]
    by (auto simp: world_same_def world_kept_def)
qed

lemma send_Handle_cases:
  assumes "sendclientmessagejob_Handle (wired_send p) payload w = (r, w')"
  obtains (unread) e where "r = Inl e" "world_same w w'"
  | (unsent) e e' i m w1 where "r = Inl e" "sendclientmessagejob_UnmarshalPayload payload = Inr i"
      "messagesrepo_GetMessageByID i w = (Inr m, w1)" "msgproducer_ProduceMessage p
        \<lparr>pm_ID = msg_ID m, pm_ChatID = msg_ChatID m, pm_Body = msg_Body m, pm_FromClient = True\<rparr> w1 = (Inl e', w')"
  | (sent) i m w1 w2 ev w3 q where "sendclientmessagejob_UnmarshalPayload payload = Inr i"
      "messagesrepo_GetMessageByID i w = (Inr m, w1)" "msgproducer_ProduceMessage p
        \<lparr>pm_ID = msg_ID m, pm_ChatID = msg_ChatID m, pm_Body = msg_Body m, pm_FromClient = True\<rparr> w1 = (Inr (), w2)"
      "NewID w2 = (ev, w3)" "world_Publish (msg_AuthorID m) (NewNewMessageEvent ev (msg_RequestID m) (msg_ChatID m)
        (msg_ID m) (msg_AuthorID m) (msg_CreatedAt m) (msg_Body m) (msg_IsService m)) w3 = (q, w')" "r = Inr () \<longleftrightarrow> q = Inr ()"
proof (cases "sendclientmessagejob_UnmarshalPayload payload")
  case (Inl e)
  with assms show ?thesis by (intro unread) (auto simp: sendclientmessagejob_Handle_def)
next
  case (Inr i)
  obtain g w1 where g: "messagesrepo_GetMessageByID i w = (g, w1)" by force
  show ?thesis
  proof (cases g)
    case (Inl e)
    with assms Inr g world_same_GetMessageByID [OF g] show ?thesis
      by (intro unread) (auto simp: sendclientmessagejob_Handle_def wired_send_def)
  next
    case m: (Inr m)
    let ?msg = "\<lparr>pm_ID = msg_ID m, pm_ChatID = msg_ChatID m, pm_Body = msg_Body m, pm_FromClient = True\<rparr>"
    obtain u w2 where u: "msgproducer_ProduceMessage p ?msg w1 = (u, w2)" by force
    note un = Inr
    show ?thesis
    proof (cases u)
      case (Inl e)
      with assms un g m u have "r = Inl (errorf_v ''message producer, produce message'' e)" "w' = w2"
        by (auto simp: sendclientmessagejob_Handle_def wired_send_def)
      with un g m u Inl show ?thesis by (intro unsent) simp_all
    next
      case (Inr x)
      obtain ev :: EventID and w3 where ev: "NewID w2 = (ev, w3)" by force
      obtain q w4 where q: "world_Publish (msg_AuthorID m) (NewNewMessageEvent ev (msg_RequestID m) (msg_ChatID m)
        (msg_ID m) (msg_AuthorID m) (msg_CreatedAt m) (msg_Body m) (msg_IsService m)) w3 = (q, w4)" by force
      have "w' = w4" "r = Inr () \<longleftrightarrow> q = Inr ()"
        using assms un g m u ev q Inr
        by (auto simp: sendclientmessagejob_Handle_def wired_send_def split: sum.splits)
      with un g m u Inr ev q show ?thesis by (intro sent) simp_all
    qed
  qed
qed

lemma send_Handle_kept:
  assumes "sendclientmessagejob_Handle (wired_send (wired_producer ci)) payload w = (r, w')"
  shows "world_kept w w'"
  using assms
proof (cases rule: send_Handle_cases)
  case (unread e)
  then show ?thesis by (simp add: world_same_kept)
next
  case (unsent e e' i m w1)
  from world_kept_trans [OF world_same_kept [OF world_same_GetMessageByID [OF unsent(3)]]]
    ProduceMessage_kept [OF unsent(4)] show ?thesis by blast
next
  case (sent i m w1 w2 ev w3 q)
  note g = world_same_kept [OF world_same_GetMessageByID [OF sent(2)]]
    and p = conjunct1 [OF ProduceMessage_kept [OF sent(3)]]
    and n = world_same_kept [OF world_same_NewID [OF sent(4)]] and u = world_kept_Publish [OF sent(5)]
  from world_kept_trans [OF world_kept_trans [OF world_kept_trans [OF g p] n] u] show ?thesis .
qed

lemma notice_kept:
  fixes ev :: "EventID \<Rightarrow> RepoMessage \<Rightarrow> event"
  assumes "(case nj_msgRepo wired_notice i w of
      (Inl err, w) \<Rightarrow> (Inl (e1 err), w)
    | (Inr message, w) \<Rightarrow> (case NewID w of (eventID, w) \<Rightarrow>
        case nj_eventStream wired_notice (msg_AuthorID message) (ev eventID message) w of
          (Inl err, w) \<Rightarrow> (Inl (e2 err), w) | (Inr _, w) \<Rightarrow> (Inr (), w))) = (r :: unit result, w')"
  shows "world_kept w w'"
proof -
  obtain g w1 where g: "messagesrepo_GetMessageByID i w = (g, w1)" by force
  note gk = world_same_kept [OF world_same_GetMessageByID [OF g]]
  show ?thesis
  proof (cases g)
    case (Inl e)
    with assms g gk show ?thesis by (simp add: wired_notice_def)
  next
    case (Inr m)
    obtain i :: EventID and w2 where i: "NewID w1 = (i, w2)" by force
    obtain q w3 where q: "world_Publish (msg_AuthorID m) (ev i m) w2 = (q, w3)" by force
    have "w' = w3" using assms g Inr i q by (auto simp: wired_notice_def split: sum.splits)
    with world_kept_trans [OF world_kept_trans [OF gk world_same_kept [OF world_same_NewID [OF i]]] world_kept_Publish [OF q]]
    show ?thesis by simp
  qed
qed

lemma blocked_Handle_kept:
  assumes "clientmessageblockedjob_Handle wired_notice payload w = (r, w')"
  shows "world_kept w w'"
proof (cases "clientmessageblockedjob_UnmarshalPayload payload")
  case (Inl e)
  with assms show ?thesis by (auto simp: clientmessageblockedjob_Handle_def)
next
  case (Inr i)
  show ?thesis
    by (rule notice_kept [where i = i and w = w and ev = "\<lambda>ev m. NewMessageBlockEvent ev (msg_RequestID m) (msg_ID m)"
          and ?e1.0 = "errorf_v ''message repo, get message by id''"
          and ?e2.0 = "errorf_v ''event stream, publish message blick event''"])
       (use assms in \<open>simp only: clientmessageblockedjob_Handle_def Let_def Inr sum.case\<close>)
qed

lemma sent_Handle_kept:
  assumes "clientmessagesentjob_Handle wired_notice payload w = (r, w')"
  shows "world_kept w w'"
proof (cases "clientmessagesentjob_UnmarshalPayload payload")
  case (Inl e)
  with assms show ?thesis by (auto simp: clientmessagesentjob_Handle_def)
next
  case (Inr i)
  show ?thesis
    by (rule notice_kept [where i = i and w = w and ev = "\<lambda>ev m. NewMessageSentEvent ev (msg_RequestID m) (msg_ID m)"
          and ?e1.0 = "errorf_v ''message repo, get message by id''"
          and ?e2.0 = "errorf_v ''event stream, publish message sent event''"])
       (use assms in \<open>simp only: clientmessagesentjob_Handle_def Let_def Inr sum.case\<close>)
qed

lemma wired_outbox_simps [simp]:
  "oo_jobsRepo (wired_outbox n i t p) = jobsrepo" "oo_txtor (wired_outbox n i t p) = RunInTx"
  "oo_reserveFor (wired_outbox n i t p) = t"
  by (simp_all add: wired_outbox_def)

lemma wired_handlers:
  assumes "os_jobs (wired_outbox n i t (wired_producer ci)) nm = Some j" and "oj_Handle j payload w = (r, w')"
  shows "world_kept w w'"
  using assms send_Handle_kept blocked_Handle_kept sent_Handle_kept
  by (auto simp: wired_outbox_def DefaultJob_def split: if_splits)

text \<open>The outbox of the service honours the contracts the outbox was verified under.\<close>

interpretation main_outbox: clocked_outbox "wired_outbox n i t (wired_producer ci)" for n i t ci
proof (rule clocked_outboxI)
  show "handlers_keep_queue (wired_outbox n i t (wired_producer ci))"
    by (auto simp: handlers_keep_queue_def keeps_queue_def world_kept_def dest!: wired_handlers)
  show "handlers_keep_clock (wired_outbox n i t (wired_producer ci))"
    by (auto simp: handlers_keep_clock_def world_kept_def intro!: keeps_clockI dest!: wired_handlers)
qed simp_all

section \<open>Properties\<close>

lemmas payload_defs = sendclientmessagejob_MarshalPayload_def sendclientmessagejob_UnmarshalPayload_def
  clientmessageblockedjob_MarshalPayload_def clientmessageblockedjob_UnmarshalPayload_def
  clientmessagesentjob_MarshalPayload_def clientmessagesentjob_UnmarshalPayload_def

text \<open>
  The payload of each of the three jobs survives the queue: what \<open>MarshalPayload\<close> writes for an
  identifier, \<open>UnmarshalPayload\<close> reads back as that identifier, and so does the payload that the
  use case and the verdict processor put without it, the identifier's text; only the zero identifier
  has no payload.
\<close>

lemma job_payload_roundtrip:
  "(if i = 0 then \<exists>e. sendclientmessagejob_MarshalPayload i = Inl e
    else sendclientmessagejob_MarshalPayload i = Inr (op_String (gen_type ''MessageID'') i)) \<and>
   (if i = 0 then \<exists>e. clientmessageblockedjob_MarshalPayload i = Inl e
    else clientmessageblockedjob_MarshalPayload i = Inr (op_String (gen_type ''MessageID'') i)) \<and>
   (if i = 0 then \<exists>e. clientmessagesentjob_MarshalPayload i = Inl e
    else clientmessagesentjob_MarshalPayload i = Inr (op_String (gen_type ''MessageID'') i)) \<and>
   sendclientmessagejob_UnmarshalPayload (op_String (gen_type ''MessageID'') i) = Inr i \<and>
   clientmessageblockedjob_UnmarshalPayload (op_String (gen_type ''MessageID'') i) = Inr i \<and>
   clientmessagesentjob_UnmarshalPayload (op_String (gen_type ''MessageID'') i) = Inr i"
  by (simp add: payload_defs gen_type_Validate)

lemma topic_sql_exec: "sql_exec f w = (r, w') \<Longrightarrow> topic w' = topic (w :: world)"
  by (auto simp: sql_exec_def statement_def next_fault_def split: option.splits fault.splits list.splits sum.splits)

lemma topic_DeleteJob: "jobsrepo_DeleteJob i w = (r, w') \<Longrightarrow> topic w' = topic (w :: world)"
  by (auto simp: jobsrepo_DeleteJob_def JobDeleteOne_Exec_def JobDelete_Exec_def split: prod.splits sum.splits if_splits
      dest!: topic_sql_exec)

lemma topic_FindAndReserveJob: "jobsrepo_FindAndReserveJob until w = (r, w') \<Longrightarrow> topic w' = topic (w :: world)"
  by (auto simp: jobsrepo_FindAndReserveJob_def reserve_query_def next_fault_def time_Now_def pick_one_def Let_def
      split: option.splits fault.splits list.splits prod.splits if_splits)

text \<open>What a client's message is for a reader of the topic.\<close>

definition on_topic :: "aead option \<Rightarrow> message_row \<Rightarrow> kafka_Message \<Rightarrow> bool" where
  "on_topic ci m k \<longleftrightarrow> km_Key k = uuid_encodeHex (raw (m_ChatID m)) \<and>
     read_producer_Message ci (km_Value k) =
       Some \<lparr>pm_ID = m_ID m, pm_ChatID = m_ChatID m, pm_Body = utf8_repair (m_Body m), pm_FromClient = True\<rparr>"

lemma send_handled_on_topic:
  assumes "sendclientmessagejob_Handle (wired_send (wired_producer ci)) (uuid_encodeHex (raw i)) w = (Inr (), w')"
    and "distinct (map m_ID (messages (db w)))" and "m \<in> set (messages (db w))" "m_ID m = i"
    and "\<And>c. ci = Some c \<Longrightarrow> opens_sealed c"
  shows "\<exists>k. topic w' = topic w @ [k] \<and> on_topic ci m k"
  using assms(1)
proof (cases rule: send_Handle_cases)
  case (sent i' m' w1 w2 ev w3 q)
  have "i' = i" using sent(1) by (simp add: sendclientmessagejob_UnmarshalPayload_def)
  note g = GetMessageByID_cases [OF sent(2) assms(2)]
  from g obtain m2 where "m2 \<in> set (messages (db w))" "m_ID m2 = i" "m' = adaptStoreMessage m2"
    using \<open>i' = i\<close> by auto
  then have m: "m' = adaptStoreMessage m" using assms(2-4) by (metis distinct_map inj_onD)
  have same: "topic w1 = topic w" using world_same_GetMessageByID [OF sent(2)] by (simp add: world_same_def)
  have "ps_wr (wired_producer ci) = topic_writer \<and> ps_nonceFactory (wired_producer ci) = defaultNonceFactory"
    by (simp add: wired_producer_def)
  from ProduceMessage_readable [OF this _ sent(3)] assms(5)
  obtain k where k: "topic w2 = topic w1 @ [k]" "on_topic ci m k"
    by (auto simp: wired_producer_def on_topic_def m)
  have "topic w' = topic w2"
    using world_same_NewID [OF sent(4)] sent(5) by (auto simp: world_same_def world_Publish_def split: option.splits)
  with k same show ?thesis by auto
qed simp_all

text \<open>
  C14. No client message is lost on its way to the antifraud service.  When the outbox as the service
  wires it processes a job, a queued job \<open>send-client-message\<close> for a stored message is still queued,
  with its payload and no fewer attempts, or is in the dead letters, or the topic now holds a Kafka
  message under the chat's key from which a reader with the cipher gets that client message.
\<close>

theorem client_message_reaches_topic:
  assumes "\<forall>c. ci = Some c \<longrightarrow> opens_sealed c" and "db_wf (db w)"
    and "outbox_findAndProcessJob (wired_outbox n idle reserve (wired_producer ci)) background w = (r, w')"
    and "j \<in> set (jobs (db w))" "j_Name j = sendclientmessagejob_Name" "j_Payload j = op_String (gen_type ''MessageID'') (m_ID m)"
    and "m \<in> set (messages (db w))"
  shows "(\<exists>j' \<in> set (jobs (db w')). j_ID j' = j_ID j \<and> j_Name j' = j_Name j
        \<and> j_Payload j' = j_Payload j \<and> j_Attempts j \<le> j_Attempts j') \<or>
    (\<exists>f. f_Name f = j_Name j \<and> f_Payload f = j_Payload j \<and> failed_jobs (db w') = failed_jobs (db w) @ [f]) \<or>
    (\<exists>k. topic w' = topic w @ [k] \<and> on_topic ci m k)"
proof -
  let ?s = "wired_outbox n idle reserve (wired_producer ci)"
  have d: "distinct (map j_ID (jobs (db w)))" "distinct (map m_ID (messages (db w)))"
    using assms(2) by (simp_all add: db_wf_def)
  let ?job = "repo_job (reserve_job (fst (time_Now w) + reserve) j)"
  from main_outbox.job_fate [OF _ assms(3) d(1) assms(4)] consider
    (kept) "\<exists>j' \<in> set (jobs (db w')). j_ID j' = j_ID j \<and> j_Name j' = j_Name j
        \<and> j_Payload j' = j_Payload j \<and> j_Attempts j \<le> j_Attempts j'"
    | (dead) "\<exists>f. f_Name f = j_Name j \<and> f_Payload f = j_Payload j \<and> failed_jobs (db w') = failed_jobs (db w) @ [f]"
    | (handled) "handled_at ?s w ?job"
    by (auto simp: background_def)
  then show ?thesis
  proof cases
    case handled
    have job: "rj_Name ?job = sendclientmessagejob_Name" "rj_Payload ?job = uuid_encodeHex (raw (m_ID m))"
      using assms(5, 6) by (simp_all add: repo_job_def reserve_job_def)
    from handled obtain w1 w2 where w1: "reserved_at ?s w ?job w1"
      and h: "sendclientmessagejob_Handle (wired_send (wired_producer ci)) (uuid_encodeHex (raw (m_ID m))) w1 = (Inr (), w2)"
      by (auto simp: handled_at_def job wired_outbox_def DefaultJob_def sendclientmessagejob_Name_def
          clientmessageblockedjob_Name_def clientmessagesentjob_Name_def)
    obtain now w0 where now: "time_Now w = (now, w0)" by force
    have f: "jobsrepo_FindAndReserveJob (now + reserve) w0 = (Inr ?job, w1)"
      using w1 now by (simp add: reserved_at_def)
    have msgs: "messages (db w1) = messages (db w)"
      using main_outbox.find [of n idle reserve ci, simplified, OF f] db_time_Now [OF now]
      by (auto simp: find_outcome_def reserves_def update_job_def)
    have t1: "topic w1 = topic w"
      using f world_same_time_Now [OF now] by (simp add: topic_FindAndReserveJob world_same_def)
    obtain k where k: "topic w2 = topic w1 @ [k]" "on_topic ci m k"
      using send_handled_on_topic [OF h] d(2) assms(1, 7) msgs by auto
    obtain q w3 where q: "jobsrepo_DeleteJob (rj_ID ?job) w2 = (q, w3)" by force
    have "w' = w3"
      using assms(3) now f h q job
      by (auto simp: outbox_findAndProcessJob_def outbox_processJob_def wired_outbox_def DefaultJob_def
          sendclientmessagejob_Name_def clientmessageblockedjob_Name_def clientmessagesentjob_Name_def split: sum.splits)
    with topic_DeleteJob [OF q] k t1 show ?thesis by auto
  qed auto
qed

text \<open>A store with one message and the job for it.\<close>

definition sample_sent_message :: message_row where
  "sample_sent_message = \<lparr>m_ID = Id 5, m_ChatID = Id 2, m_ProblemID = Id 3, m_AuthorID = Some (Id 4),
     m_IsVisibleForClient = True, m_IsVisibleForManager = False, m_Body = ''hi'', m_CheckedAt = None,
     m_IsBlocked = False, m_IsService = False, m_InitialRequestID = Id 6, m_CreatedAt = 3\<rparr>"

definition sample_send_db :: database where
  "sample_send_db = empty_database
     \<lparr>chats := [\<lparr>c_ID = Id 2, c_ClientID = Id 4, c_CreatedAt = 3\<rparr>],
      problems := [\<lparr>p_ID = Id 3, p_ChatID = Id 2, p_ManagerID = None, p_ResolvedAt = None, p_CreatedAt = 3\<rparr>],
      messages := [sample_sent_message],
      jobs := [\<lparr>j_ID = Id 1, j_Name = sendclientmessagejob_Name, j_Payload = uuid_encodeHex (raw (Id 5 :: MessageID)),
        j_Attempts = 0, j_AvailableAt = 3, j_ReservedUntil = 3, j_CreatedAt = 3\<rparr>]\<rparr>"

lemma sample_send_wf: "db_wf sample_send_db"
  by (simp add: db_wf_def sample_send_db_def empty_database_def sample_sent_message_def)

theorem client_message_reaches_topic_witness:
  "\<exists>r w' k. outbox_findAndProcessJob (wired_outbox 1 second minute (wired_producer None)) background
       (quiet_world sample_send_db 7) = (r, w') \<and>
     jobs (db w') = [] \<and> topic w' = [k] \<and> on_topic None sample_sent_message k"
proof -
  let ?s = "wired_outbox 1 second minute (wired_producer None)" and ?w = "quiet_world sample_send_db 7"
  obtain r w' where run: "outbox_findAndProcessJob ?s background ?w = (r, w')" by force
  have gone: "jobs (db w') = [] \<and> failed_jobs (db w') = []"
    using run [symmetric]
    by (simp add: outbox_eval sample_send_db_def empty_database_def wired_outbox_def clientmessagesentjob_Name_def
        clientmessageblockedjob_Name_def sendclientmessagejob_Name_def sendclientmessagejob_Handle_def
        sendclientmessagejob_UnmarshalPayload_def wired_send_def messagesrepo_GetMessageByID_def MessageClient_Get_def
        query_Only_def query_defs matching_def message_ID_def MessageQuery_def sample_sent_message_def reserve_job_def
        msgproducer_ProduceMessage_def wired_producer_def topic_writer_def topic_WriteMessages_def NewID_eq
        world_Publish_def inmem_Publish_def NewNewMessageEvent_def validate_struct_None [THEN iffD2] uuid_Nil_def
        uuid_NewRandom_nonzero [unfolded uuid_Nil_def] inmemeventstream_New_def gen_type_UnmarshalText types_Parse_def
        uuid_Parse_encodeHex limit_rows_def order_rows_def defaultMaxAttempts_def)
  let ?j = "hd (jobs sample_send_db)"
  have j: "?j \<in> set (jobs (db ?w))" "j_Name ?j = sendclientmessagejob_Name"
    "j_Payload ?j = op_String (gen_type ''MessageID'') (m_ID sample_sent_message)"
    "sample_sent_message \<in> set (messages (db ?w))"
    by (simp_all add: sample_send_db_def sample_sent_message_def)
  have law: "\<forall>c. None = Some c \<longrightarrow> opens_sealed c" and wf: "db_wf (db ?w)" by (simp_all add: sample_send_wf)
  have "failed_jobs sample_send_db = []" by (simp add: sample_send_db_def empty_database_def)
  with client_message_reaches_topic [OF law wf run j(1) j(2) j(3) j(4)] gone run
  show ?thesis by (auto simp del: gen_type_simps)
qed

end
