(* ===== verification/SendMessage.thy ===== *)
theory SendMessage
  imports OutboxJobs Repositories
begin

text \<open>
  The use case \<open>send-message\<close> (\<open>internal/usecases/client/send-message\<close>): in one transaction the client's
  chat, an open problem, the message and the job that sends it are made, or the message of an earlier
  request with the same identifier is found.  What the use case relies on is the locale
  \<open>message_sender\<close>: the outcomes of its five interfaces.
\<close>

section \<open>The use case\<close>

definition sendmessage_ErrInvalidRequest :: goerr where
  "sendmessage_ErrInvalidRequest = New ''sendmessage.ErrInvalidRequest'' ''invalid request''"
definition sendmessage_ErrChatNotCreated :: goerr where
  "sendmessage_ErrChatNotCreated = New ''sendmessage.ErrChatNotCreated'' ''chat not created''"
definition sendmessage_ErrProblemNotCreated :: goerr where
  "sendmessage_ErrProblemNotCreated = New ''sendmessage.ErrProblemNotCreated'' ''problem not created''"

record sendmessage_Request =
  sr_ID :: RequestID
  sr_ClientID :: UserID
  sr_MessageBody :: string

definition sendmessage_Request_Validate :: "sendmessage_Request \<Rightarrow> goerr option" where
  "sendmessage_Request_Validate r = validate_struct ''Request''
     [(''ID'', VId (raw (sr_ID r)), [Required]), (''ClientID'', VId (raw (sr_ClientID r)), [Required]),
      (''MessageBody'', VStr (sr_MessageBody r), [Required, MinT 1, MaxT 3000])]"

record sendmessage_Response =
  sp_MessageID :: MessageID
  sp_AuthorID :: UserID
  sp_CreatedAt :: time

text \<open>The interfaces of the use case.\<close>

record 'w sm_messagesRepository =
  smr_GetMessageByRequestID :: "RequestID \<Rightarrow> 'w \<Rightarrow> RepoMessage result \<times> 'w"
  smr_CreateClientVisible :: "RequestID \<Rightarrow> ProblemID \<Rightarrow> ChatID \<Rightarrow> UserID \<Rightarrow> string \<Rightarrow> 'w \<Rightarrow> RepoMessage result \<times> 'w"

type_synonym 'w message_txtor = "gctx \<Rightarrow> (gctx \<Rightarrow> 'w \<Rightarrow> RepoMessage result \<times> 'w) \<Rightarrow> 'w \<Rightarrow> RepoMessage result \<times> 'w"

record 'w sendmessage_Options =
  smo_chatRepo :: "(UserID \<Rightarrow> 'w \<Rightarrow> ChatID result \<times> 'w) option"
  smo_msgRepo :: "'w sm_messagesRepository option"
  smo_outboxService :: "(string \<Rightarrow> string \<Rightarrow> time \<Rightarrow> 'w \<Rightarrow> JobID result \<times> 'w) option"
  smo_problemRepo :: "(ChatID \<Rightarrow> 'w \<Rightarrow> ProblemID result \<times> 'w) option"
  smo_tx :: "'w message_txtor option"

record 'w sendmessage_UseCase =
  smu_chatRepo :: "UserID \<Rightarrow> 'w \<Rightarrow> ChatID result \<times> 'w"
  smu_msgRepo :: "'w sm_messagesRepository"
  smu_Put :: "string \<Rightarrow> string \<Rightarrow> time \<Rightarrow> 'w \<Rightarrow> JobID result \<times> 'w"
  smu_problemRepo :: "ChatID \<Rightarrow> 'w \<Rightarrow> ProblemID result \<times> 'w"
  smu_RunInTx :: "'w message_txtor"

definition sendmessage_NewOptions where
  "sendmessage_NewOptions chatRepo msgRepo outboxService problemRepo tx options =
     foldl (\<lambda>o' opt. opt o')
       (\<lparr>smo_chatRepo = chatRepo, smo_msgRepo = msgRepo, smo_outboxService = outboxService,
         smo_problemRepo = problemRepo, smo_tx = tx\<rparr> :: 'w sendmessage_Options) options"

definition sendmessage_Options_Validate :: "'w sendmessage_Options \<Rightarrow> goerr option" where
  "sendmessage_Options_Validate o' = validate_options
     [(''chatRepo'', iface (smo_chatRepo o'), [Required]), (''msgRepo'', iface (smo_msgRepo o'), [Required]),
      (''outboxService'', iface (smo_outboxService o'), [Required]),
      (''problemRepo'', iface (smo_problemRepo o'), [Required]), (''tx'', iface (smo_tx o'), [Required])]"

text \<open>\<open>New\<close> returns the use case beside the error of \<open>Validate\<close>; its caller looks at the error first.\<close>

definition sendmessage_New :: "'w sendmessage_Options \<Rightarrow> 'w sendmessage_UseCase result" where
  "sendmessage_New opts =
     (case sendmessage_Options_Validate opts of
        Some err \<Rightarrow> Inl err
      | None \<Rightarrow> Inr \<lparr>smu_chatRepo = the (smo_chatRepo opts), smu_msgRepo = the (smo_msgRepo opts),
          smu_Put = the (smo_outboxService opts), smu_problemRepo = the (smo_problemRepo opts),
          smu_RunInTx = the (smo_tx opts)\<rparr>)"

text \<open>The function that runs in the transaction; its result is the captured \<open>msg\<close>.\<close>

definition sendmessage_body ::
  "'z env_scheme sendmessage_UseCase \<Rightarrow> sendmessage_Request \<Rightarrow> gctx \<Rightarrow> 'z env_scheme \<Rightarrow> RepoMessage result \<times> 'z env_scheme" where
  "sendmessage_body u req ctx w =
     (case smr_GetMessageByRequestID (smu_msgRepo u) (sr_ID req) w of
        (Inr msg, w) \<Rightarrow> (Inr msg, w)
      | (Inl err, w) \<Rightarrow>
          if \<not> errors_Is err messagesrepo_ErrMsgNotFound
          then (Inl (errorf_v ''failed to get message by req id'' err), w)
          else
            (case smu_chatRepo u (sr_ClientID req) w of
               (Inl err, w) \<Rightarrow> (Inl (errorf_wv sendmessage_ErrChatNotCreated err), w)
             | (Inr chatID, w) \<Rightarrow>
                 (case smu_problemRepo u chatID w of
                    (Inl err, w) \<Rightarrow> (Inl (errorf_wv sendmessage_ErrProblemNotCreated err), w)
                  | (Inr problemID, w) \<Rightarrow>
                      (case smr_CreateClientVisible (smu_msgRepo u) (sr_ID req) problemID chatID
                              (sr_ClientID req) (sr_MessageBody req) w of
                         (Inl err, w) \<Rightarrow> (Inl (errorf_v ''failed to create msg'' err), w)
                       | (Inr msg, w) \<Rightarrow>
                           (case time_Now w of (now, w) \<Rightarrow>
                              (case smu_Put u sendclientmessagejob_Name
                                      (op_String (gen_type ''MessageID'') (msg_ID msg)) now w of
                                 (Inl err, w) \<Rightarrow> (Inl (errorf_v ''failed to put message'' err), w)
                               | (Inr _, w) \<Rightarrow> (Inr msg, w)))))))"

definition sendmessage_Handle ::
  "'z env_scheme sendmessage_UseCase \<Rightarrow> gctx \<Rightarrow> sendmessage_Request \<Rightarrow> 'z env_scheme
   \<Rightarrow> sendmessage_Response result \<times> 'z env_scheme" where
  "sendmessage_Handle u ctx req w =
     (case sendmessage_Request_Validate req of
        Some err \<Rightarrow> (Inl (errorf_wv sendmessage_ErrInvalidRequest err), w)
      | None \<Rightarrow>
          (case smu_RunInTx u ctx (sendmessage_body u req) w of
             (Inl err, w) \<Rightarrow> (Inl (errorf_w ''failed to run in tx'' err), w)
           | (Inr msg, w) \<Rightarrow>
               (Inr \<lparr>sp_MessageID = msg_ID msg, sp_AuthorID = msg_AuthorID msg, sp_CreatedAt = msg_CreatedAt msg\<rparr>, w)))"

section \<open>What a sent message is\<close>

text \<open>
  The effect of a request: the message of an earlier request with its identifier is found, or the chat
  and the problem are ensured, the message is added and the job that sends it is queued.
\<close>

definition sends :: "sendmessage_Request \<Rightarrow> RepoMessage \<Rightarrow> database \<Rightarrow> database \<Rightarrow> bool" where
  "sends req msg d d' \<longleftrightarrow>
     (d' = d \<and> (\<exists>m \<in> set (messages d). m_InitialRequestID m = sr_ID req \<and> msg = adaptStoreMessage m)) \<or>
     ((\<forall>m \<in> set (messages d). m_InitialRequestID m \<noteq> sr_ID req) \<and>
      (\<exists>c p m t i d1 d2 d3. ensures_chat (sr_ClientID req) c d d1 \<and> ensures_problem c p d1 d2 \<and>
         adds_client_message (sr_ID req) p c (sr_ClientID req) (sr_MessageBody req) m d2 d3 \<and>
         length (sr_MessageBody req) \<le> 3000 \<and>
         adds_job sendclientmessagejob_Name (op_String (gen_type ''MessageID'') (m_ID m)) t i d3 d' \<and>
         msg = adaptStoreMessage m))"

definition new_outcome :: "('i \<Rightarrow> database \<Rightarrow> database \<Rightarrow> bool) \<Rightarrow> 'i result \<Rightarrow> database \<Rightarrow> database \<Rightarrow> bool" where
  "new_outcome R r d d' \<longleftrightarrow> (case r of Inr i \<Rightarrow> R i d d' | Inl e \<Rightarrow> plain_error e)"

text \<open>The errors of the body.\<close>

definition body_error :: "goerr \<Rightarrow> bool" where
  "body_error e \<longleftrightarrow> plain_error e \<or> (\<exists>c. e = errorf_wv sendmessage_ErrChatNotCreated c)
     \<or> (\<exists>c. e = errorf_wv sendmessage_ErrProblemNotCreated c)"

definition response :: "RepoMessage \<Rightarrow> sendmessage_Response" where
  "response msg = \<lparr>sp_MessageID = msg_ID msg, sp_AuthorID = msg_AuthorID msg, sp_CreatedAt = msg_CreatedAt msg\<rparr>"

text \<open>The laws of the interfaces.\<close>

locale message_sender =
  tx: transactor "smu_RunInTx u" "db :: 'z store_scheme \<Rightarrow> database"
  for u :: "'z store_scheme sendmessage_UseCase" +
  assumes chat_law: "smu_chatRepo u client w = (rc, w') \<Longrightarrow> new_outcome (ensures_chat client) rc (db w) (db w')"
    and problem_law: "smu_problemRepo u c w = (rp, w') \<Longrightarrow> new_outcome (ensures_problem c) rp (db w) (db w')"
    and find_law: "smr_GetMessageByRequestID (smu_msgRepo u) q w = (rm, w') \<Longrightarrow>
      distinct (map m_InitialRequestID (messages (db w))) \<Longrightarrow> db w' = db w \<and>
      (case rm of
         Inr msg \<Rightarrow> \<exists>m \<in> set (messages (db w)). m_InitialRequestID m = q \<and> msg = adaptStoreMessage m
       | Inl e \<Rightarrow> plain_error e \<or>
           (errors_Is e messagesrepo_ErrMsgNotFound \<and> (\<forall>m \<in> set (messages (db w)). m_InitialRequestID m \<noteq> q)))"
    and create_law: "smr_CreateClientVisible (smu_msgRepo u) q p c client b w = (rm, w') \<Longrightarrow>
      (case rm of
         Inr msg \<Rightarrow> length b \<le> 3000 \<and>
           (\<exists>m. msg = adaptStoreMessage m \<and> adds_client_message q p c client b m (db w) (db w'))
       | Inl e \<Rightarrow> plain_error e)"
    and put_law: "smu_Put u name payload t w = (rj, w') \<Longrightarrow> new_outcome (adds_job name payload t) rj (db w) (db w')"
begin

lemma body_outcome:
  assumes "sendmessage_body u req ctx w = (r, w')"
    and "distinct (map m_InitialRequestID (messages (db w)))"
  shows "(\<exists>msg. r = Inr msg \<and> sends req msg (db w) (db w')) \<or> (\<exists>e. r = Inl e \<and> body_error e)"
proof -
  obtain g w1 where g: "smr_GetMessageByRequestID (smu_msgRepo u) (sr_ID req) w = (g, w1)" by force
  note gl = find_law [OF g assms(2)]
  show ?thesis
  proof (cases g)
    case (Inr msg)
    with assms(1) g gl show ?thesis by (auto simp: sendmessage_body_def sends_def)
  next
    case ge: (Inl e)
    show ?thesis
    proof (cases "errors_Is e messagesrepo_ErrMsgNotFound")
      case False
      with assms(1) g ge show ?thesis by (auto simp: sendmessage_body_def body_error_def)
    next
      case True
      then have new: "\<forall>m \<in> set (messages (db w)). m_InitialRequestID m \<noteq> sr_ID req"
        using gl ge by (auto simp: plain_error_def messagesrepo_ErrMsgNotFound_def)
      obtain c w2 where c: "smu_chatRepo u (sr_ClientID req) w1 = (c, w2)" by force
      show ?thesis
      proof (cases c)
        case (Inl e')
        with assms(1) g ge True c show ?thesis by (auto simp: sendmessage_body_def body_error_def)
      next
        case cr: (Inr ci)
        obtain p w3 where p: "smu_problemRepo u ci w2 = (p, w3)" by force
        show ?thesis
        proof (cases p)
          case (Inl e')
          with assms(1) g ge True c cr p show ?thesis by (auto simp: sendmessage_body_def body_error_def)
        next
          case pr: (Inr pi)
          obtain m w4 where m: "smr_CreateClientVisible (smu_msgRepo u) (sr_ID req) pi ci (sr_ClientID req)
            (sr_MessageBody req) w3 = (m, w4)" by force
          note mlaw = create_law [OF m]
          show ?thesis
          proof (cases m)
            case (Inl e')
            with assms(1) g ge True c cr p pr m show ?thesis by (auto simp: sendmessage_body_def body_error_def)
          next
            case mr: (Inr msg)
            obtain now w5 where now: "time_Now w4 = (now, w5)" by force
            obtain j w6 where j: "smu_Put u sendclientmessagejob_Name
              (op_String (gen_type ''MessageID'') (msg_ID msg)) now w5 = (j, w6)" by force
            show ?thesis
            proof (cases j)
              case (Inl e')
              with assms(1) g ge True c cr p pr m mr now j show ?thesis
                by (auto simp: sendmessage_body_def body_error_def)
            next
              case (Inr ji)
              have "r = Inr msg" "w' = w6"
                using assms(1) g ge True c cr p pr m mr now j Inr by (simp_all add: sendmessage_body_def)
              moreover obtain mrow where mrow: "msg = adaptStoreMessage mrow" "length (sr_MessageBody req) \<le> 3000"
                "adds_client_message (sr_ID req) pi ci (sr_ClientID req) (sr_MessageBody req) mrow (db w3) (db w4)"
                using mlaw mr by auto
              moreover have "ensures_chat (sr_ClientID req) ci (db w) (db w2)" "ensures_problem ci pi (db w2) (db w3)"
                using chat_law [OF c] problem_law [OF p] cr pr gl by (simp_all add: new_outcome_def)
              moreover have "adds_job sendclientmessagejob_Name (op_String (gen_type ''MessageID'') (m_ID mrow)) now ji (db w4) (db w6)"
                using put_law [OF j] Inr mrow(1) db_time_Now [OF now] by (simp add: new_outcome_def)
              ultimately show ?thesis using new unfolding sends_def by blast
            qed
          qed
        qed
      qed
    qed
  qed
qed

lemma Handle_cases:
  assumes "\<not> ctx_tx ctx" and "distinct (map m_InitialRequestID (messages (db w)))"
    and "sendmessage_Handle u ctx req w = (r, w')"
  obtains (invalid) e where "sendmessage_Request_Validate req = Some e"
      "r = Inl (errorf_wv sendmessage_ErrInvalidRequest e)" "w' = w"
  | (failed) e where "sendmessage_Request_Validate req = None" "r = Inl (errorf_w ''failed to run in tx'' e)"
      "body_error e" "db w' = db w"
  | (lost) e msg where "sendmessage_Request_Validate req = None" "r = Inl (errorf_w ''failed to run in tx'' e)"
      "plain_error e" "sends req msg (db w) (db w')"
  | (sent) msg where "sendmessage_Request_Validate req = None" "r = Inr (response msg)" "sends req msg (db w) (db w')"
proof (cases "sendmessage_Request_Validate req")
  case (Some e)
  with assms(3) show ?thesis by (intro invalid [of e]) (auto simp: sendmessage_Handle_def)
next
  case None
  obtain q w1 where q: "smu_RunInTx u ctx (sendmessage_body u req) w = (q, w1)" by force
  have w1: "w' = w1" using assms(3) None q by (auto simp: sendmessage_Handle_def split: sum.splits)
  have body: "(\<exists>msg. x = Inr msg \<and> sends req msg (db w) (db v')) \<or> (\<exists>e. x = Inl e \<and> body_error e)"
    if "sendmessage_body u req c v = (x, v')" "db v = db w" for c v x v'
    using body_outcome [OF that(1)] assms(2) that(2) by simp
  show ?thesis
  proof (cases q)
    case (Inr msg)
    with tx.committed [OF assms(1), of "sendmessage_body u req" w msg w1] q obtain v v' where
      "db v = db w" "sendmessage_body u req (ctx\<lparr>ctx_tx := True\<rparr>) v = (Inr msg, v')" "db w1 = db v'" by blast
    with body [of _ v "Inr msg" v'] have "sends req msg (db w) (db w1)" by fastforce
    with None q w1 Inr assms(3) show ?thesis by (intro sent [of msg]) (auto simp: sendmessage_Handle_def response_def)
  next
    case (Inl e)
    have r: "r = Inl (errorf_w ''failed to run in tx'' e)"
      using None q Inl assms(3) by (simp add: sendmessage_Handle_def)
    from tx.aborted [OF assms(1), of "sendmessage_body u req" w e w1] q Inl consider
      "db w1 = db w" "plain_error e"
      | v v' where "db w1 = db w" "db v = db w" "sendmessage_body u req (ctx\<lparr>ctx_tx := True\<rparr>) v = (Inl e, v')"
      | v v' msg where "plain_error e" "db v = db w" "sendmessage_body u req (ctx\<lparr>ctx_tx := True\<rparr>) v = (Inr msg, v')"
          "db w1 = db v'" by blast
    then show ?thesis
    proof cases
      case 1
      then show ?thesis using None r w1 by (intro failed [of e]) (auto simp: body_error_def)
    next
      case 2
      then show ?thesis using None r w1 body [OF 2(3) 2(2)] by (intro failed [of e]) auto
    next
      case 3
      then show ?thesis using None r w1 body [OF 3(3) 3(2)] by (intro lost [of e msg]) auto
    qed
  qed
qed

end

section \<open>As the service wires it\<close>

definition main_sendMessage :: "world outbox_Service \<Rightarrow> world sendmessage_UseCase result" where
  "main_sendMessage outBox = sendmessage_New (sendmessage_NewOptions (Some chatsrepo_CreateIfNotExists)
     (Some \<lparr>smr_GetMessageByRequestID = messagesrepo_GetMessageByRequestID,
            smr_CreateClientVisible = messagesrepo_CreateClientVisible\<rparr>)
     (Some (outbox_Put outBox)) (Some problemsrepo_CreateIfNotExists) (Some RunInTx) [])"

definition wired_sendMessage :: "'z store_scheme outbox_Service \<Rightarrow> 'z store_scheme sendmessage_UseCase" where
  "wired_sendMessage outBox = \<lparr>smu_chatRepo = chatsrepo_CreateIfNotExists,
     smu_msgRepo = \<lparr>smr_GetMessageByRequestID = messagesrepo_GetMessageByRequestID,
            smr_CreateClientVisible = messagesrepo_CreateClientVisible\<rparr>,
     smu_Put = outbox_Put outBox, smu_problemRepo = problemsrepo_CreateIfNotExists, smu_RunInTx = RunInTx\<rparr>"

lemma main_sendMessage_wired: "main_sendMessage outBox = Inr (wired_sendMessage outBox)"
  by (simp add: main_sendMessage_def sendmessage_New_def sendmessage_NewOptions_def sendmessage_Options_Validate_def
      validate_options_None [THEN iffD2] wired_sendMessage_def)

lemma wired_sendMessage_simps [simp]:
  "smu_chatRepo (wired_sendMessage o') = chatsrepo_CreateIfNotExists"
  "smr_GetMessageByRequestID (smu_msgRepo (wired_sendMessage o')) = messagesrepo_GetMessageByRequestID"
  "smr_CreateClientVisible (smu_msgRepo (wired_sendMessage o')) = messagesrepo_CreateClientVisible"
  "smu_Put (wired_sendMessage o') = outbox_Put o'"
  "smu_problemRepo (wired_sendMessage o') = problemsrepo_CreateIfNotExists"
  "smu_RunInTx (wired_sendMessage o') = RunInTx"
  by (simp_all add: wired_sendMessage_def)

interpretation main_send: message_sender "wired_sendMessage (wired_outbox n i t p)" for n i t p
proof (unfold message_sender_def message_sender_axioms_def wired_sendMessage_simps, intro conjI allI impI)
  show "transactor (RunInTx :: world message_txtor) db" by (rule tx.transactor_axioms)
next
  fix client and w w' :: world and rc
  assume "chatsrepo_CreateIfNotExists client w = (rc, w')"
  from chatsrepo_CreateIfNotExists_cases [OF this]
  show "new_outcome (ensures_chat client) rc (db w) (db w')" by (auto simp: new_outcome_def)
next
  fix c and w w' :: world and rp
  assume "problemsrepo_CreateIfNotExists c w = (rp, w')"
  from problemsrepo_CreateIfNotExists_cases [OF this]
  show "new_outcome (ensures_problem c) rp (db w) (db w')" by (auto simp: new_outcome_def)
next
  fix q and w w' :: world and rm
  assume "messagesrepo_GetMessageByRequestID q w = (rm, w')" "distinct (map m_InitialRequestID (messages (db w)))"
  then show "db w' = db w"
    by (cases rule: GetMessageByRequestID_cases)
  from \<open>messagesrepo_GetMessageByRequestID q w = (rm, w')\<close> \<open>distinct (map m_InitialRequestID (messages (db w)))\<close>
  show "case rm of
         Inl e \<Rightarrow> plain_error e \<or>
           (errors_Is e messagesrepo_ErrMsgNotFound \<and> (\<forall>m \<in> set (messages (db w)). m_InitialRequestID m \<noteq> q))
       | Inr msg \<Rightarrow> \<exists>m \<in> set (messages (db w)). m_InitialRequestID m = q \<and> msg = adaptStoreMessage m"
    by (cases rule: GetMessageByRequestID_cases) auto
next
  fix q p c client b and w w' :: world and rm
  assume "messagesrepo_CreateClientVisible q p c client b w = (rm, w')"
  then show "case rm of Inl e \<Rightarrow> plain_error e
     | Inr msg \<Rightarrow> length b \<le> 3000 \<and>
         (\<exists>m. msg = adaptStoreMessage m \<and> adds_client_message q p c client b m (db w) (db w'))"
    by (cases rule: CreateClientVisible_cases) auto
next
  fix name payload tm and w w' :: world and rj
  assume put: "outbox_Put (wired_outbox n i t p) name payload tm w = (rj, w')"
  obtain s w1 where s: "jobsrepo_CreateJob name payload tm w = (s, w1)" by force
  from CreateJob_cases [OF s] put s show "new_outcome (adds_job name payload tm) rj (db w) (db w')"
    by (auto simp: outbox_Put_def new_outcome_def)
qed

section \<open>Properties\<close>

abbreviation main_use_case :: "int \<Rightarrow> time \<Rightarrow> time \<Rightarrow> world msgproducer_Service \<Rightarrow> world sendmessage_UseCase" where
  "main_use_case n i t p \<equiv> wired_sendMessage (wired_outbox n i t p)"

lemma background_simps [simp]: "\<not> ctx_tx background" by (simp add: background_def)

lemma db_wf_distinct: "db_wf d \<Longrightarrow> distinct (map m_InitialRequestID (messages d))"
  by (simp add: db_wf_def)

text \<open>What the database holds after a request, told without its intermediate states.\<close>

definition stored_request :: "sendmessage_Request \<Rightarrow> RepoMessage \<Rightarrow> database \<Rightarrow> database \<Rightarrow> bool" where
  "stored_request req msg d d' \<longleftrightarrow>
     (d' = d \<and> (\<exists>m \<in> set (messages d). m_InitialRequestID m = sr_ID req \<and> msg = adaptStoreMessage m)) \<or>
     (\<exists>m j c p. messages d' = messages d @ [m] \<and> jobs d' = jobs d @ [j] \<and> msg = adaptStoreMessage m \<and>
        m_InitialRequestID m = sr_ID req \<and> m_AuthorID m = Some (sr_ClientID req) \<and> m_Body m = sr_MessageBody req \<and>
        c \<in> set (chats d') \<and> c_ClientID c = sr_ClientID req \<and> m_ChatID m = c_ID c \<and>
        p \<in> set (problems d') \<and> open_problem (c_ID c) p \<and> m_ProblemID m = p_ID p \<and>
        j_Name j = sendclientmessagejob_Name \<and> j_Payload j = op_String (gen_type ''MessageID'') (m_ID m) \<and>
        failed_jobs d' = failed_jobs d)"

lemma adds_job_eq:
  "adds_job n p t i d d' \<Longrightarrow> \<exists>j. j_Name j = n \<and> j_Payload j = p \<and> d' = d\<lparr>jobs := jobs d @ [j]\<rparr>"
proof -
  assume "adds_job n p t i d d'"
  then obtain ru ca where "d' = d\<lparr>jobs := jobs d @ [new_job i n p t ru ca]\<rparr>"
    by (auto simp: adds_job_def insert_job_def split: if_splits)
  then show ?thesis by (intro exI [of _ "new_job i n p t ru ca"]) (simp add: new_job_def)
qed

lemma sends_stored:
  assumes "sends req msg d d'"
  shows "stored_request req msg d d'"
proof (cases "d' = d \<and> (\<exists>m \<in> set (messages d). m_InitialRequestID m = sr_ID req \<and> msg = adaptStoreMessage m)")
  case False
  with assms obtain c p m t i d1 d2 d3 where
    e: "ensures_chat (sr_ClientID req) c d d1" "ensures_problem c p d1 d2"
      "adds_client_message (sr_ID req) p c (sr_ClientID req) (sr_MessageBody req) m d2 d3"
      "adds_job sendclientmessagejob_Name (op_String (gen_type ''MessageID'') (m_ID m)) t i d3 d'"
      "msg = adaptStoreMessage m" unfolding sends_def by blast
  obtain j where j: "j_Name j = sendclientmessagejob_Name" "j_Payload j = op_String (gen_type ''MessageID'') (m_ID m)"
    "d' = d3\<lparr>jobs := jobs d3 @ [j]\<rparr>" using adds_job_eq [OF e(4)] by blast
  obtain cr where cr: "cr \<in> set (chats d1)" "c_ClientID cr = sr_ClientID req" "c_ID cr = c"
    using ensures_chat_exists [OF e(1)] by blast
  obtain pr where pr: "pr \<in> set (problems d2)" "open_problem c pr" "p_ID pr = p"
    using ensures_problem_exists [OF e(2)] by blast
  note m = adds_client_message_eq [OF e(3)] and f1 = ensures_chat_frame [OF e(1)] and f2 = ensures_problem_frame [OF e(2)]
  have "messages d' = messages d @ [m]" "jobs d' = jobs d @ [j]" "failed_jobs d' = failed_jobs d"
    "chats d' = chats d1" "problems d' = problems d2"
    using j(3) m f1 f2 by simp_all
  moreover have "m_InitialRequestID m = sr_ID req" "m_AuthorID m = Some (sr_ClientID req)" "m_Body m = sr_MessageBody req"
    "m_ChatID m = c_ID cr" "m_ProblemID m = p_ID pr" using m cr pr by simp_all
  ultimately have "stored_request req msg d d'"
    unfolding stored_request_def
    by (intro disjI2 exI [of _ m] exI [of _ j] exI [of _ cr] exI [of _ pr]) (use cr pr j e(5) in simp_all)
  then show ?thesis .
qed (simp add: stored_request_def)

text \<open>
  C19. Sending a message is all or nothing.  Whatever fails, after \<open>Handle\<close> the database is as before, or
  it holds the whole of the request: the message of this request identifier was there already, or the
  client's message was added to his chat under an open problem together with the job that sends it, and
  nothing else was added to these tables.  A reported success means the latter, and its response names
  the stored message.
\<close>

theorem send_message_atomic:
  assumes "db_wf (db w)" and "sendmessage_Handle (main_use_case n i t p) background req w = (r, w')"
  shows "((\<exists>e. r = Inl e) \<and> db w' = db w) \<or>
    (\<exists>msg. ((\<exists>e. r = Inl e) \<or> r = Inr (response msg)) \<and> stored_request req msg (db w) (db w'))"
  using background_simps db_wf_distinct [OF assms(1)] assms(2)
  by (cases rule: main_send.Handle_cases) (auto dest: sends_stored)

definition message_key :: "message_row \<Rightarrow> MessageID \<times> RequestID \<times> UserID option \<times> time" where
  "message_key m = (m_ID m, m_InitialRequestID m, m_AuthorID m, m_CreatedAt m)"

lemma sends_key:
  assumes "sends req msg d d'"
  shows "\<exists>m \<in> set (messages d'). m_InitialRequestID m = sr_ID req \<and> msg = adaptStoreMessage m"
  using sends_stored [OF assms] by (auto simp: stored_request_def)

lemma same_response:
  assumes "message_key m = message_key m'"
  shows "response (adaptStoreMessage m) = response (adaptStoreMessage m')"
  using assms by (simp add: message_key_def response_def adaptStoreMessage_def)

text \<open>
  C20. A request is sent once.  When a request has been answered, every later request with its identifier
  that is answered at all gets the same message, author and time in its answer and changes nothing,
  whatever has happened to the database in between, as long as messages keep their identifiers, authors
  and creation times.
\<close>

theorem send_message_once:
  assumes "db_wf (db w)" and "sendmessage_Handle (main_use_case n i t p) background req w = (Inr resp, w1)"
    and "db_wf (db w2)" and "set (map message_key (messages (db w1))) \<subseteq> set (map message_key (messages (db w2)))"
    and "sendmessage_Handle (main_use_case n i t p) background req' w2 = (Inr resp', w3)" and "sr_ID req' = sr_ID req"
  shows "resp' = resp \<and> db w3 = db w2"
proof -
  have "\<exists>msg. resp = response msg \<and> sends req msg (db w) (db w1)"
    using background_simps db_wf_distinct [OF assms(1)] assms(2)
    by (cases rule: main_send.Handle_cases) auto
  then obtain m where m: "m \<in> set (messages (db w1))" "m_InitialRequestID m = sr_ID req" "resp = response (adaptStoreMessage m)"
    using sends_key by blast
  from m(1) have "message_key m \<in> set (map message_key (messages (db w1)))" by simp
  with assms(4) obtain k where k: "k \<in> set (messages (db w2))" "message_key k = message_key m" by auto
  have kq: "m_InitialRequestID k = sr_ID req'" using k(2) m(2) assms(6) by (simp add: message_key_def)
  have "\<exists>msg. resp' = response msg \<and> sends req' msg (db w2) (db w3)"
    using background_simps db_wf_distinct [OF assms(3)] assms(5)
    by (cases rule: main_send.Handle_cases) auto
  then obtain msg where msg: "resp' = response msg" "sends req' msg (db w2) (db w3)" by blast
  with k(1) kq obtain k' where "db w3 = db w2" "k' \<in> set (messages (db w2))" "m_InitialRequestID k' = sr_ID req'"
    "msg = adaptStoreMessage k'" unfolding sends_def by auto
  moreover from this kq k(1) db_wf_distinct [OF assms(3)] have "k' = k" by (metis distinct_map inj_onD)
  ultimately show ?thesis using msg m(3) same_response [OF k(2)] by simp
qed

text \<open>
  C21. Sending a message keeps the store in order: its keys and references stay sound and no chat gets a
  second open problem, whether the request succeeds, fails or loses its answer.
\<close>

theorem send_message_keeps:
  assumes "db_wf (db w)" "one_open_problem (db w)"
    and "sendmessage_Handle (main_use_case n i t p) background req w = (r, w')"
  shows "db_wf (db w') \<and> one_open_problem (db w')"
proof -
  have keep: "db_wf d' \<and> one_open_problem d'" if "sends req msg d d'" "db_wf d" "one_open_problem d" for msg d d'
    using that(1)
  proof (cases "d' = d")
    case False
    with that(1) obtain c q m tm i d1 d2 d3 where
      e: "ensures_chat (sr_ClientID req) c d d1" "ensures_problem c q d1 d2"
        "adds_client_message (sr_ID req) q c (sr_ClientID req) (sr_MessageBody req) m d2 d3"
        "adds_job sendclientmessagejob_Name (op_String (gen_type ''MessageID'') (m_ID m)) tm i d3 d'"
      unfolding sends_def by blast
    have "db_wf d'"
      using adds_job_wf [OF e(4)] adds_client_message_wf [OF e(3)] ensures_problem_wf [OF e(2)] ensures_chat_wf [OF e(1)] that(2)
      by simp
    moreover have "one_open_problem d1" using that(3) ensures_chat_frame [OF e(1)] by (simp add: one_open_problem_def)
    then have "one_open_problem d2" by (rule ensures_problem_one_open [OF e(2)])
    then have "one_open_problem d'"
      using adds_client_message_eq [OF e(3)] adds_job_eq [OF e(4)] by (auto simp: one_open_problem_def)
    ultimately show ?thesis by simp
  qed (use that in simp)
  show ?thesis
    using background_simps db_wf_distinct [OF assms(1)] assms(3)
    by (cases rule: main_send.Handle_cases) (use keep assms(1, 2) in auto)
qed

lemma sentinel_simps [simp]:
  "errors_Is sendmessage_ErrInvalidRequest sendmessage_ErrInvalidRequest"
  "\<not> errors_Is sendmessage_ErrInvalidRequest sendmessage_ErrChatNotCreated"
  "\<not> errors_Is sendmessage_ErrInvalidRequest sendmessage_ErrProblemNotCreated"
  "\<not> errors_Is sendmessage_ErrChatNotCreated sendmessage_ErrInvalidRequest"
  "\<not> errors_Is sendmessage_ErrChatNotCreated sendmessage_ErrProblemNotCreated"
  "\<not> errors_Is sendmessage_ErrProblemNotCreated sendmessage_ErrInvalidRequest"
  "\<not> errors_Is sendmessage_ErrProblemNotCreated sendmessage_ErrChatNotCreated"
  by (simp_all add: sendmessage_ErrInvalidRequest_def sendmessage_ErrChatNotCreated_def
      sendmessage_ErrProblemNotCreated_def)

lemma plain_error_sentinel:
  "plain_error e \<Longrightarrow> \<not> errors_Is e sendmessage_ErrInvalidRequest \<and> \<not> errors_Is e sendmessage_ErrChatNotCreated
     \<and> \<not> errors_Is e sendmessage_ErrProblemNotCreated"
  by (simp add: plain_error_def sendmessage_ErrInvalidRequest_def sendmessage_ErrChatNotCreated_def
      sendmessage_ErrProblemNotCreated_def)


text \<open>
  C23. Characters and bytes.  The request may have up to 3000 characters, but the store takes up to 3000
  bytes: a new request that validates and whose text is longer than that in bytes, as 2000 Cyrillic
  letters are, is never stored, and its error is not the one of an invalid request.
\<close>

theorem long_body_rejected:
  assumes "db_wf (db w)" and "sendmessage_Request_Validate req = None" and "3000 < length (sr_MessageBody req)"
    and "sr_ID req \<notin> m_InitialRequestID ` set (messages (db w))"
    and "sendmessage_Handle (main_use_case n i t p) background req w = (r, w')"
  shows "db w' = db w \<and> (\<exists>e. r = Inl e \<and> \<not> errors_Is e sendmessage_ErrInvalidRequest)"
proof -
  have new: "m_InitialRequestID m \<noteq> sr_ID req" if "m \<in> set (messages (db w))" for m
    using assms(4) that by (metis imageI)
  have "\<not> sends req msg (db w) d" for msg d
    using assms(3) new unfolding sends_def by auto
  with background_simps db_wf_distinct [OF assms(1)] assms(5) show ?thesis
    by (cases rule: main_send.Handle_cases) (use assms(2) in \<open>auto simp: body_error_def dest: plain_error_sentinel\<close>)
qed


text \<open>A request to an empty store, the same request again, and one whose text is too long in bytes.\<close>

definition sample_request :: sendmessage_Request where
  "sample_request = \<lparr>sr_ID = Id 6, sr_ClientID = Id 4, sr_MessageBody = ''hi''\<rparr>"

lemmas send_eval = sendmessage_Handle_def sendmessage_body_def RunInTx_def
  outbox_Put_def messagesrepo_GetMessageByRequestID_def messagesrepo_CreateClientVisible_def
  chatsrepo_CreateIfNotExists_def ChatUpsertOne_ID_def ChatCreate_defaults_def
  set_default_def ChatCreate_setters newChatMutation_def NewID_eq ChatCreate_check_def idops_defs
  upsert_chat_def insert_chat_def empty_database_def ChatCreate_createSpec_def Id_eq_zero
  uuid_NewRandom_nonzero [unfolded uuid_Nil_def] need_field_def valid_field_def gen_type_Validate quiet_simps
  problemsrepo_CreateIfNotExists_def query_First_def query_Only_def query_defs
  ProblemQuery_def MessageQuery_def matching_def predicate_defs limit_rows_def order_rows_def
  IsNotFound_def ProblemCreate_Save_def ProblemCreate_defaults_def ProblemCreate_setters newProblemMutation_def
  ProblemCreate_sqlSave_def ent_sqlSave_def ProblemCreate_check_def need_edge_def insert_problem_def
  ProblemCreate_createSpec_def message_InitialRequestID_def MessageCreate_Save_def MessageCreate_defaults_def
  MessageCreate_setters newMessageMutation_def MessageCreate_sqlSave_def MessageCreate_check_def
  MessageCreate_createSpec_def insert_message_def jobsrepo_CreateJob_def JobCreate_Save_def JobCreate_defaults_def
  JobCreate_setters newJobMutation_def JobCreate_sqlSave_def JobCreate_check_def JobCreate_createSpec_def insert_job_def

lemma sample_request_simps:
  "sr_ID sample_request = Id 6" "sr_ClientID sample_request = Id 4" "sr_MessageBody sample_request = ''hi''"
  by (simp_all add: sample_request_def)

lemma sample_valid: "sendmessage_Request_Validate sample_request = None"
proof -
  have "rune_count ''hi'' = 2" by (subst rune_count_ascii) auto
  then show ?thesis
    unfolding sendmessage_Request_Validate_def validate_struct_None
    by (simp add: sample_request_simps uuid_Nil_def del: rune_count.simps)
qed

abbreviation sample_use_case :: "world sendmessage_UseCase" where
  "sample_use_case \<equiv> main_use_case 1 second minute (wired_producer None)"

lemma sample_send:
  "\<exists>resp w1 w2. sendmessage_Handle sample_use_case background sample_request (quiet_world empty_database 7) = (Inr resp, w1)
     \<and> db_wf (db w1) \<and> length (messages (db w1)) = 1
     \<and> sendmessage_Handle sample_use_case background sample_request w1 = (Inr resp, w2)"
  by (simp add: send_eval sample_valid uuid_Nil_def sample_request_simps message_BodyValidator_None [THEN iffD2]
      job_AttemptsValidator_None [THEN iffD2] field_NotEmpty_None [THEN iffD2] sendclientmessagejob_Name_def db_wf_def)

lemma empty_wf: "db_wf empty_database" "one_open_problem empty_database"
  by (simp_all add: db_wf_def one_open_problem_def empty_database_def)

theorem send_message_atomic_witness:
  "\<exists>msg w'. sendmessage_Handle sample_use_case background sample_request (quiet_world empty_database 7) = (Inr (response msg), w')
     \<and> stored_request sample_request msg empty_database (db w')"
proof -
  obtain resp w1 where one: "sendmessage_Handle sample_use_case background sample_request (quiet_world empty_database 7) = (Inr resp, w1)"
    using sample_send by blast
  show ?thesis using send_message_atomic [OF _ one] empty_wf one by auto
qed

theorem send_message_once_witness:
  "\<exists>resp w1 w2. sendmessage_Handle sample_use_case background sample_request (quiet_world empty_database 7) = (Inr resp, w1)
     \<and> sendmessage_Handle sample_use_case background sample_request w1 = (Inr resp, w2) \<and> db w2 = db w1"
proof -
  obtain resp w1 w2 where run: "sendmessage_Handle sample_use_case background sample_request (quiet_world empty_database 7) = (Inr resp, w1)"
    "db_wf (db w1)" "sendmessage_Handle sample_use_case background sample_request w1 = (Inr resp, w2)"
    using sample_send by blast
  have "resp = resp \<and> db w2 = db w1"
    by (rule send_message_once [OF _ run(1) run(2) _ run(3)]) (simp_all add: empty_wf)
  with run show ?thesis by blast
qed

theorem send_message_keeps_witness:
  "\<exists>r w1. sendmessage_Handle sample_use_case background sample_request (quiet_world empty_database 7) = (r, w1)
     \<and> length (messages (db w1)) = 1 \<and> db_wf (db w1) \<and> one_open_problem (db w1)"
proof -
  obtain resp w1 where run: "sendmessage_Handle sample_use_case background sample_request (quiet_world empty_database 7) = (Inr resp, w1)"
    "length (messages (db w1)) = 1" using sample_send by blast
  show ?thesis using send_message_keeps [OF _ _ run(1)] run by (simp add: empty_wf)
qed

definition long_text :: string where
  "long_text = two_byte_text 2000 (char_of (208 :: nat)) (char_of (176 :: nat))"

definition long_request :: sendmessage_Request where
  "long_request = \<lparr>sr_ID = Id 6, sr_ClientID = Id 4, sr_MessageBody = long_text\<rparr>"

lemma long_text_size: "rune_count long_text = 2000" "length long_text = 4000"
  unfolding long_text_def
  by (subst rune_count_two_byte_text, auto simp: in_range_def length_two_byte_text)

lemma long_request_simps:
  "sr_ID long_request = Id 6" "sr_ClientID long_request = Id 4" "sr_MessageBody long_request = long_text"
  by (simp_all add: long_request_def)

lemma long_valid: "sendmessage_Request_Validate long_request = None"
  unfolding sendmessage_Request_Validate_def validate_struct_None
  by (use long_text_size in \<open>auto simp: long_request_simps uuid_Nil_def\<close>)


theorem long_body_rejected_witness:
  "\<exists>r w'. sendmessage_Handle sample_use_case background long_request (quiet_world empty_database 7) = (r, w')
     \<and> rune_count (sr_MessageBody long_request) \<le> 3000 \<and> db w' = empty_database"
proof -
  let ?w = "quiet_world empty_database 7"
  obtain r w' where run: "sendmessage_Handle sample_use_case background long_request ?w = (r, w')" by force
  have "db_wf (db ?w)" "3000 < length (sr_MessageBody long_request)"
    "sr_ID long_request \<notin> m_InitialRequestID ` set (messages (db ?w))"
    using long_text_size empty_wf(1) by (simp_all add: long_request_simps empty_database_def)
  from long_body_rejected [OF this(1) long_valid this(2) this(3) run] run show ?thesis
    using long_text_size by (simp add: long_request_simps)
qed

end
