(* ===== verification/ClientApi.thy ===== *)
theory ClientApi
  imports Server SendMessage GetHistory ApiJson
begin

text \<open>
  The API of the clients (\<open>internal/server-client/v1\<close>) on top of the use cases: the models of requests and
  responses, the two handlers, the routes, and the server as \<open>initServerClient\<close> builds it.
\<close>

section \<open>Models\<close>

record GetHistoryRequest =
  gr_Cursor :: "string option"
  gr_PageSize :: "int option"

definition GetHistoryRequest_decoder :: "GetHistoryRequest decoder" where
  "GetHistoryRequest_decoder = decode_object ''GetHistoryRequest''
     [(''cursor'', decode_ptr gr_Cursor (\<lambda>x r. r\<lparr>gr_Cursor := x\<rparr>) [] (decode_string (\<lambda>x _. x))),
      (''pageSize'', decode_ptr gr_PageSize (\<lambda>x r. r\<lparr>gr_PageSize := x\<rparr>) 0 (decode_int (\<lambda>x _. x)))]"

record SendMessageRequest =
  mr_MessageBody :: string

definition SendMessageRequest_decoder :: "SendMessageRequest decoder" where
  "SendMessageRequest_decoder = decode_object ''SendMessageRequest''
     [(''messageBody'', decode_string (\<lambda>x r. r\<lparr>mr_MessageBody := x\<rparr>))]"

record api_Message =
  am_AuthorId :: "UserID option"
  am_Body :: string
  am_CreatedAt :: time
  am_Id :: MessageID
  am_IsBlocked :: bool
  am_IsReceived :: bool
  am_IsService :: bool

record api_MessageHeader =
  ah_AuthorId :: "UserID option"
  ah_CreatedAt :: time
  ah_Id :: MessageID

record api_MessagesPage =
  ap_Messages :: "api_Message list"
  ap_Next :: string

text \<open>Their JSON.\<close>

definition api_Message_json :: "(time \<Rightarrow> int) \<Rightarrow> api_Message \<Rightarrow> json result" where
  "api_Message_json zone m =
     (case time_json zone (am_CreatedAt m) of
        Inl err \<Rightarrow> Inl err
      | Inr t \<Rightarrow> Inr (JObj (omit_nil ''authorId'' (map_option id_json (am_AuthorId m))
          @ [(''body'', JStr (am_Body m)), (''createdAt'', t), (''id'', id_json (am_Id m)),
             (''isBlocked'', JBool (am_IsBlocked m)), (''isReceived'', JBool (am_IsReceived m)),
             (''isService'', JBool (am_IsService m))])))"

definition api_MessageHeader_json :: "(time \<Rightarrow> int) \<Rightarrow> api_MessageHeader \<Rightarrow> json result" where
  "api_MessageHeader_json zone h =
     (case time_json zone (ah_CreatedAt h) of
        Inl err \<Rightarrow> Inl err
      | Inr t \<Rightarrow> Inr (JObj (omit_nil ''authorId'' (map_option id_json (ah_AuthorId h))
          @ [(''createdAt'', t), (''id'', id_json (ah_Id h))])))"

definition api_MessagesPage_json :: "(time \<Rightarrow> int) \<Rightarrow> api_MessagesPage \<Rightarrow> json result" where
  "api_MessagesPage_json zone p =
     (case json_array (api_Message_json zone) (ap_Messages p) of
        Inl err \<Rightarrow> Inl err
      | Inr js \<Rightarrow> Inr (JObj [(''messages'', JArr js), (''next'', JStr (ap_Next p))]))"

section \<open>Handlers\<close>

record 'w clientv1_Options =
  xo_logger :: "unit option"
  xo_getHistoryUseCase :: "(gethistory_Request \<Rightarrow> 'w \<Rightarrow> gethistory_Response result \<times> 'w) option"
  xo_sendMessageUseCase :: "(sendmessage_Request \<Rightarrow> 'w \<Rightarrow> sendmessage_Response result \<times> 'w) option"

record 'w clientv1_Handlers =
  xh_getHistoryUseCase :: "gethistory_Request \<Rightarrow> 'w \<Rightarrow> gethistory_Response result \<times> 'w"
  xh_sendMessageUseCase :: "sendmessage_Request \<Rightarrow> 'w \<Rightarrow> sendmessage_Response result \<times> 'w"

definition clientv1_NewOptions where
  "clientv1_NewOptions logger getHistoryUseCase sendMessageUseCase options =
     foldl (\<lambda>o' opt. opt o') (\<lparr>xo_logger = logger, xo_getHistoryUseCase = getHistoryUseCase,
       xo_sendMessageUseCase = sendMessageUseCase\<rparr> :: 'w clientv1_Options) options"

definition clientv1_Options_Validate :: "'w clientv1_Options \<Rightarrow> goerr option" where
  "clientv1_Options_Validate o' = validate_options
     [(''logger'', iface (xo_logger o'), [Required]), (''getHistoryUseCase'', iface (xo_getHistoryUseCase o'), [Required]),
      (''sendMessageUseCase'', iface (xo_sendMessageUseCase o'), [Required])]"

definition clientv1_NewHandlers :: "'w clientv1_Options \<Rightarrow> 'w clientv1_Handlers result" where
  "clientv1_NewHandlers opts =
     (case clientv1_Options_Validate opts of
        Some err \<Rightarrow> Inl (errorf_v ''failed to validate options clientv1'' err)
      | None \<Rightarrow> Inr \<lparr>xh_getHistoryUseCase = the (xo_getHistoryUseCase opts),
          xh_sendMessageUseCase = the (xo_sendMessageUseCase opts)\<rparr>)"

text \<open>
  \<open>other\<close> reads bodies of other media types than JSON; \<open>zone\<close> is the local offset from UTC at an instant.
\<close>

definition api_message :: "gethistory_Message \<Rightarrow> api_Message" where
  "api_message m = \<lparr>am_AuthorId = pointer_PtrWithZeroAsNil 0 (hm_AuthorID m), am_Body = hm_Body m,
     am_CreatedAt = hm_CreatedAt m, am_Id = hm_ID m, am_IsBlocked = hm_IsBlocked m,
     am_IsReceived = hm_IsReceived m, am_IsService = hm_IsService m\<rparr>"

definition PostGetHistory ::
  "(time \<Rightarrow> int) \<Rightarrow> (string \<Rightarrow> string \<Rightarrow> GetHistoryRequest \<Rightarrow> goerr option \<times> GetHistoryRequest)
   \<Rightarrow> 'w clientv1_Handlers \<Rightarrow> RequestID \<Rightarrow> 'w handler" where
  "PostGetHistory zone other h xRequestID c w =
     (case MustUserID c of
        Inl r \<Rightarrow> (Panicked r, c, w)
      | Inr clientID \<Rightarrow>
          (case echo_Bind other GetHistoryRequest_decoder c \<lparr>gr_Cursor = None, gr_PageSize = None\<rparr> of
             (Some err, _) \<Rightarrow> (Returned (Some (errorf_wv echo_ErrBadRequest err)), c, w)
           | (None, req) \<Rightarrow>
               (case xh_getHistoryUseCase h \<lparr>hr_ID = xRequestID, hr_ClientID = clientID,
                       hr_PageSize = pointer_Indirect 0 (gr_PageSize req), hr_Cursor = pointer_Indirect [] (gr_Cursor req)\<rparr> w of
                  (Inl err, w) \<Rightarrow>
                    if errors_Is err gethistory_ErrInvalidRequest \<or> errors_Is err gethistory_ErrInvalidCursor
                    then (Returned (Some (HTTPError 400 (errtext err))), c, w)
                    else (Returned (Some (errorf_wv echo_ErrInternalServerError err)), c, w)
                | (Inr resp, w) \<Rightarrow>
                    (case eCtx_JSON 200 (data_json (api_MessagesPage_json zone
                            \<lparr>ap_Messages = map api_message (hp_Messages resp), ap_Next = hp_NextCursor resp\<rparr>)) c of
                       (Some err, c) \<Rightarrow> (Returned (Some (errorf_wv echo_ErrInternalServerError err)), c, w)
                     | (None, c) \<Rightarrow> (Returned None, c, w)))))"

definition ErrorCodeCreateChatError :: int where "ErrorCodeCreateChatError = 1000"
definition ErrorCodeCreateProblemError :: int where "ErrorCodeCreateProblemError = 1001"

definition PostSendMessage ::
  "(time \<Rightarrow> int) \<Rightarrow> (string \<Rightarrow> string \<Rightarrow> SendMessageRequest \<Rightarrow> goerr option \<times> SendMessageRequest)
   \<Rightarrow> 'w clientv1_Handlers \<Rightarrow> RequestID \<Rightarrow> 'w handler" where
  "PostSendMessage zone other h xRequestID c w =
     (case MustUserID c of
        Inl r \<Rightarrow> (Panicked r, c, w)
      | Inr clientID \<Rightarrow>
          (case echo_Bind other SendMessageRequest_decoder c \<lparr>mr_MessageBody = []\<rparr> of
             (Some err, _) \<Rightarrow> (Returned (Some (errorf_wv echo_ErrBadRequest err)), c, w)
           | (None, req) \<Rightarrow>
               (case xh_sendMessageUseCase h \<lparr>sr_ID = xRequestID, sr_ClientID = clientID,
                       sr_MessageBody = mr_MessageBody req\<rparr> w of
                  (Inl err, w) \<Rightarrow>
                    (Returned (Some
                      (if errors_Is err sendmessage_ErrInvalidRequest then HTTPError 400 (errtext err)
                       else if errors_Is err sendmessage_ErrChatNotCreated
                       then NewServerError ErrorCodeCreateChatError ''failed to create chat'' err
                       else if errors_Is err sendmessage_ErrProblemNotCreated
                       then NewServerError ErrorCodeCreateProblemError ''failed to create problem'' err
                       else HTTPError 500 (errtext err))), c, w)
                | (Inr resp, w) \<Rightarrow>
                    (case eCtx_JSON 200 (data_json (api_MessageHeader_json zone
                            \<lparr>ah_AuthorId = pointer_PtrWithZeroAsNil 0 (sp_AuthorID resp),
                             ah_CreatedAt = sp_CreatedAt resp, ah_Id = sp_MessageID resp\<rparr>)) c of
                       (Some err, c) \<Rightarrow> (Returned (Some (errorf_wv echo_ErrInternalServerError err)), c, w)
                     | (None, c) \<Rightarrow> (Returned None, c, w)))))"

section \<open>The server of the clients\<close>

text \<open>
  \<open>RegisterHandlers\<close> under the group \<open>v1\<close>, and the websocket.  What the environment of the server
  decides is a record: the local zone, the reader of other media types, the verdict of the OpenAPI
  validator, the websocket handler and the answer to a request without a route.
\<close>

record ('r, 's, 'w) api_environment =
  en_zone :: "time \<Rightarrow> int"
  en_other1 :: "string \<Rightarrow> string \<Rightarrow> 'r \<Rightarrow> goerr option \<times> 'r"
  en_other2 :: "string \<Rightarrow> string \<Rightarrow> 's \<Rightarrow> goerr option \<times> 's"
  en_oapi :: "http_Request \<Rightarrow> goerr option"
  en_ws :: "'w handler"
  en_notFound :: "'w handler"

definition clientv1_RegisterHandlers ::
  "(GetHistoryRequest, SendMessageRequest, 'w) api_environment \<Rightarrow> 'w clientv1_Handlers \<Rightarrow> http_Request \<Rightarrow> 'w handler" where
  "clientv1_RegisterHandlers en h req =
     (if rq_Method req = ''GET'' \<and> rq_Path req = ''/ws'' then en_ws en
      else if rq_Method req = ''POST'' \<and> rq_Path req = ''/v1/getHistory''
      then oapi_validator (en_oapi en) (with_XRequestID (PostGetHistory (en_zone en) (en_other1 en) h))
      else if rq_Method req = ''POST'' \<and> rq_Path req = ''/v1/sendMessage''
      then oapi_validator (en_oapi en) (with_XRequestID (PostSendMessage (en_zone en) (en_other2 en) h))
      else en_notFound en)"

text \<open>\<open>initServerClient\<close>; the websocket handler is made apart.\<close>

definition main_initServerClient ::
  "(GetHistoryRequest, SendMessageRequest, world) api_environment \<Rightarrow> bool \<Rightarrow> string \<Rightarrow> string list \<Rightarrow> string
   \<Rightarrow> (string \<Rightarrow> IntrospectTokenResult result) \<Rightarrow> string \<Rightarrow> string \<Rightarrow> world outbox_Service \<Rightarrow> world Server result" where
  "main_initServerClient en isProduction addr allowOrigins secWsProtocol introspect resource role outboxService =
     (case main_getHistory of
        Inl err \<Rightarrow> Inl (errorf_v ''failed to create getHistoryUsrCase'' err)
      | Inr getHistoryUseCase \<Rightarrow>
          (case main_sendMessage outboxService of
             Inl err \<Rightarrow> Inl (errorf_v ''failed to create sendMessageUseCase'' err)
           | Inr sendMessageUseCase \<Rightarrow>
               (case clientv1_NewHandlers (clientv1_NewOptions (Some ())
                       (Some (gethistory_Handle (en_zone en) getHistoryUseCase))
                       (Some (sendmessage_Handle sendMessageUseCase background)) []) of
                  Inl err \<Rightarrow> Inl (errorf_v ''failed to create v1 handlers'' err)
                | Inr v1Handlers \<Rightarrow>
                    (case main_errHandler isProduction of
                       Inl err \<Rightarrow> Inl (errorf_v ''failed to create errorHandler'' err)
                     | Inr errHandler \<Rightarrow>
                         (case server_New (server_NewOptions (Some ()) addr allowOrigins (Some ())
                                 (Some (clientv1_RegisterHandlers en v1Handlers)) (Some introspect) resource role
                                 secWsProtocol (Some (errhandler_Handle errhandler_Response_json errHandler)) []) of
                            Inl err \<Rightarrow> Inl (errorf_v ''failed to build server'' err)
                          | Inr srv \<Rightarrow> Inr srv)))))"

section \<open>What the server answers\<close>

text \<open>The server as \<open>main\<close> builds it.\<close>

definition wired_clientv1 :: "(time \<Rightarrow> int) \<Rightarrow> world outbox_Service \<Rightarrow> world clientv1_Handlers" where
  "wired_clientv1 zone outBox = \<lparr>xh_getHistoryUseCase = gethistory_Handle zone wired_getHistory,
     xh_sendMessageUseCase = sendmessage_Handle (wired_sendMessage outBox) background\<rparr>"

lemma initServerClient_opts:
  assumes "main_initServerClient en p addr origins proto introspect resource role outBox = Inr s"
  obtains opts h where "server_New opts = Inr s" "main_errHandler p = Inr h"
    "vo_registerHandlers opts = Some (clientv1_RegisterHandlers en (wired_clientv1 (en_zone en) outBox))"
    "vo_introspector opts = Some introspect" "vo_resource opts = resource" "vo_role opts = role"
    "vo_wsSecProtocol opts = proto" "vo_errHandler opts = Some (errhandler_Handle errhandler_Response_json h)"
proof -
  have h: "clientv1_NewHandlers (clientv1_NewOptions (Some ()) (Some (gethistory_Handle (en_zone en) wired_getHistory))
      (Some (sendmessage_Handle (wired_sendMessage outBox) background)) []) = Inr (wired_clientv1 (en_zone en) outBox)"
    by (simp add: clientv1_NewHandlers_def clientv1_NewOptions_def clientv1_Options_Validate_def
        validate_options_None [THEN iffD2] wired_clientv1_def)
  from assms that show ?thesis
    by (auto simp: main_initServerClient_def main_getHistory_wired main_sendMessage_wired h server_NewOptions_def
        split: sum.splits)
qed

text \<open>A POST to one of the two routes.\<close>

lemma client_post:
  assumes "main_initServerClient en p addr origins proto introspect resource role outBox = Inr s"
    and "sv_Handler s c w = (c', w')" and "rq_Method (ec_Request c) = ''POST''"
    and "rq_Path (ec_Request c) = path" "path \<in> {''/v1/getHistory'', ''/v1/sendMessage''}"
  obtains (rejected) e where "told_error p c c' e" "only_clock w w'"
  | (handled) x c1 w1 u out c2 where "same_client c c1" "only_clock w w1"
      "\<exists>key \<in> request_keys (ec_Request c). \<exists>now. accepts introspect resource role now (strings_TrimPrefix key (proto @ '', '')) u"
      "MustUserID c1 = Inr u"
      "(if path = ''/v1/getHistory'' then PostGetHistory (en_zone en) (en_other1 en) (wired_clientv1 (en_zone en) outBox) x c1 w1
        else PostSendMessage (en_zone en) (en_other2 en) (wired_clientv1 (en_zone en) outBox) x c1 w1) = (out, c2, w')"
      "out = Returned None \<Longrightarrow> c' = c2"
      "\<And>e. out = Returned (Some e) \<Longrightarrow> same_client c1 c2 \<Longrightarrow> told_error p c c' e"
proof -
  obtain opts h where o: "server_New opts = Inr s" "main_errHandler p = Inr h"
    "vo_registerHandlers opts = Some (clientv1_RegisterHandlers en (wired_clientv1 (en_zone en) outBox))"
    "vo_introspector opts = Some introspect" "vo_resource opts = resource" "vo_role opts = role"
    "vo_wsSecProtocol opts = proto" "vo_errHandler opts = Some (errhandler_Handle errhandler_Response_json h)"
    by (rule initServerClient_opts [OF assms(1)])
  let ?h = "wired_clientv1 (en_zone en) outBox"
  let ?f = "if path = ''/v1/getHistory'' then PostGetHistory (en_zone en) (en_other1 en) ?h
      else PostSendMessage (en_zone en) (en_other2 en) ?h"
  have route: "clientv1_RegisterHandlers en ?h (ec_Request c) = oapi_validator (en_oapi en) (with_XRequestID ?f)"
    using assms(3-5) by (auto simp: clientv1_RegisterHandlers_def)
  from o(1, 2, 8, 3) route assms(2, 3) show ?thesis
  proof (cases rule: post_cases)
    case (rejected e)
    then show ?thesis by (rule that(1))
  next
    case (handled x c1 w1 u out c2)
    have f: "(if path = ''/v1/getHistory'' then PostGetHistory (en_zone en) (en_other1 en) ?h x c1 w1
      else PostSendMessage (en_zone en) (en_other2 en) ?h x c1 w1) = (out, c2, w')"
      using handled(5) by (simp split: if_splits)
    show ?thesis
      by (rule that(2) [OF handled(1, 2) _ handled(4) f handled(6, 7)]) (use handled(3) o in simp_all)
  qed
qed

lemma get_history_served:
  assumes "gethistory_Handle zone wired_getHistory req w = (r, w')"
  shows "db w' = db w \<and> (\<forall>resp. r = Inr resp \<longrightarrow>
    (\<exists>ms. set ms \<subseteq> {m \<in> set (messages (db w)). client_visible (hr_ClientID req) (db w) m}
       \<and> hp_Messages resp = map (\<lambda>m. history_message (adaptStoreMessage m)) ms))"
proof (cases r)
  case (Inl e)
  with Handle_error [of zone req w e w'] assms show ?thesis by simp
next
  case (Inr resp)
  have None: "gethistory_Request_Validate req = None" using assms Inr by (auto simp: gethistory_Handle_def split: option.splits)
  obtain cur where cur: "hr_Cursor req \<noteq> [] \<Longrightarrow>
        cursor_Decode Cursor_decoder (hr_Cursor req) \<lparr>cur_LastCreatedAt = 0, cur_PageSize = 0\<rparr> = Inr (the cur)"
      "cur = None \<longleftrightarrow> hr_Cursor req = []"
  proof (cases "hr_Cursor req = []")
    case True
    then show ?thesis using that [of None] by simp
  next
    case False
    then obtain c where "cursor_Decode Cursor_decoder (hr_Cursor req) \<lparr>cur_LastCreatedAt = 0, cur_PageSize = 0\<rparr> = Inr c"
      using assms Inr None by (auto simp: gethistory_Handle_def split: sum.splits)
    with False show ?thesis using that [of "Some c"] by simp
  qed
  obtain q w1 where q: "messagesrepo_GetClientChatMessages (hr_ClientID req) (hr_PageSize req) cur w = (q, w1)" by force
  note run = Handle_run [OF None cur q, of zone]
  obtain ms nxt where p: "q = Inr (ms, nxt)" "hp_Messages resp = map history_message ms" "w' = w1"
    using run assms Inr by (auto split: sum.splits prod.splits option.splits)
  obtain sz before where pp: "page_params (hr_PageSize req) cur (fst (time_Now w)) = (sz, before)" by force
  from page_ok [OF q [unfolded p(1)] pp] obtain rows where r: "db w1 = db w"
    "mset rows = mset (history_before (hr_ClientID req) before (db w))" "(ms, nxt) = page (nat sz) rows" by blast
  have "ms = map adaptStoreMessage (take (nat sz) rows)" using r(3) by (auto simp: page_def split: if_splits)
  moreover have "set (take (nat sz) rows) \<subseteq> {m \<in> set (messages (db w)). client_visible (hr_ClientID req) (db w) m}"
    using mset_eq_setD [OF r(2)] set_take_subset [of "nat sz" rows] by (auto simp: history_before_def)
  ultimately show ?thesis using p r(1) Inr by (auto simp: comp_def)
qed

lemma PostGetHistory_served:
  assumes "PostGetHistory zone other (wired_clientv1 zone outBox) x c w = (out, c', w')" and "MustUserID c = Inr u"
  shows "db w' = db w \<and> ((\<exists>e. out = Returned (Some e) \<and> same_client c c') \<or>
    (out = Returned None \<and> (\<exists>ms next'. set ms \<subseteq> {m \<in> set (messages (db w)). client_visible u (db w) m} \<and>
       told_data c c' (api_MessagesPage_json zone
         \<lparr>ap_Messages = map (\<lambda>m. api_message (history_message (adaptStoreMessage m))) ms, ap_Next = next'\<rparr>))))"
proof -
  obtain be req where b: "echo_Bind other GetHistoryRequest_decoder c \<lparr>gr_Cursor = None, gr_PageSize = None\<rparr> = (be, req)" by force
  show ?thesis
  proof (cases be)
    case (Some e)
    with assms b show ?thesis by (auto simp: PostGetHistory_def same_client_def)
  next
    case None
    let ?r = "\<lparr>hr_ID = x, hr_ClientID = u, hr_PageSize = pointer_Indirect 0 (gr_PageSize req),
      hr_Cursor = pointer_Indirect [] (gr_Cursor req)\<rparr>"
    obtain r w1 where r: "gethistory_Handle zone wired_getHistory ?r w = (r, w1)" by force
    note served = get_history_served [OF r]
    show ?thesis
    proof (cases r)
      case (Inl e)
      with assms b None r served show ?thesis
        by (auto simp: PostGetHistory_def wired_clientv1_def same_client_def split: if_splits)
    next
      case (Inr resp)
      with served obtain ms where ms: "set ms \<subseteq> {m \<in> set (messages (db w)). client_visible u (db w) m}"
        "hp_Messages resp = map (\<lambda>m. history_message (adaptStoreMessage m)) ms" "db w1 = db w" by auto
      let ?b = "api_MessagesPage_json zone \<lparr>ap_Messages = map api_message (hp_Messages resp), ap_Next = hp_NextCursor resp\<rparr>"
      obtain je c1 where j: "eCtx_JSON 200 (data_json ?b) c = (je, c1)" by force
      have "w' = w1" "c' = c1" "out = Returned (map_option (errorf_wv echo_ErrInternalServerError) je)"
        using assms b None r Inr j by (cases je; simp add: PostGetHistory_def wired_clientv1_def)+
      with data_told [OF j] ms show ?thesis by (cases je) (auto simp: comp_def)
    qed
  qed
qed

text \<open>What the answer to a message tells.\<close>

definition header_json :: "(time \<Rightarrow> int) \<Rightarrow> RepoMessage \<Rightarrow> json result" where
  "header_json zone msg = api_MessageHeader_json zone \<lparr>ah_AuthorId = pointer_PtrWithZeroAsNil 0 (msg_AuthorID msg),
     ah_CreatedAt = msg_CreatedAt msg, ah_Id = msg_ID msg\<rparr>"

lemma PostSendMessage_served:
  assumes "PostSendMessage zone other (wired_clientv1 zone (wired_outbox n i t pr)) x c w = (out, c', w')"
    and "MustUserID c = Inr u" and "db_wf (db w)"
  shows "(\<exists>e. out = Returned (Some e) \<and> same_client c c' \<and>
      (db w' = db w \<or> (GetServerErrorCode e = 500 \<and>
         (\<exists>body msg. stored_request \<lparr>sr_ID = x, sr_ClientID = u, sr_MessageBody = body\<rparr> msg (db w) (db w'))))) \<or>
    (out = Returned None \<and> (\<exists>body msg. told_data c c' (header_json zone msg) \<and>
       stored_request \<lparr>sr_ID = x, sr_ClientID = u, sr_MessageBody = body\<rparr> msg (db w) (db w')))"
proof -
  obtain be req where b: "echo_Bind other SendMessageRequest_decoder c \<lparr>mr_MessageBody = []\<rparr> = (be, req)" by force
  show ?thesis
  proof (cases be)
    case (Some e)
    with assms b show ?thesis by (auto simp: PostSendMessage_def same_client_def)
  next
    case None
    let ?r = "\<lparr>sr_ID = x, sr_ClientID = u, sr_MessageBody = mr_MessageBody req\<rparr>"
    obtain r w1 where r: "sendmessage_Handle (main_use_case n i t pr) background ?r w = (r, w1)" by force
    show ?thesis
    proof (cases r)
      case (Inl e)
      let ?e = "if errors_Is e sendmessage_ErrInvalidRequest then HTTPError 400 (errtext e)
                else if errors_Is e sendmessage_ErrChatNotCreated
                then NewServerError ErrorCodeCreateChatError ''failed to create chat'' e
                else if errors_Is e sendmessage_ErrProblemNotCreated
                then NewServerError ErrorCodeCreateProblemError ''failed to create problem'' e
                else HTTPError 500 (errtext e)"
      have o: "out = Returned (Some ?e)" "c' = c" "w' = w1"
        using assms b None r Inl by (simp_all add: PostSendMessage_def wired_clientv1_def)
      from background_simps db_wf_distinct [OF assms(3)] r
      have "db w1 = db w \<or> (GetServerErrorCode ?e = 500 \<and> (\<exists>msg. stored_request ?r msg (db w) (db w1)))"
        by (cases rule: main_send.Handle_cases) (use Inl in \<open>auto dest: plain_error_sentinel sends_stored\<close>)
      with o show ?thesis by (intro disjI1 exI [of _ ?e]) (auto simp: same_client_def)
    next
      case (Inr resp)
      from background_simps db_wf_distinct [OF assms(3)] r obtain msg where
        m: "resp = response msg" "sends ?r msg (db w) (db w1)"
        by (cases rule: main_send.Handle_cases) (use Inr in auto)
      obtain je c1 where j: "eCtx_JSON 200 (data_json (header_json zone msg)) c = (je, c1)" by force
      have o: "w' = w1" "c' = c1" "out = Returned (map_option (errorf_wv echo_ErrInternalServerError) je)"
        using assms b None r Inr j m
        by (cases je; simp add: PostSendMessage_def wired_clientv1_def response_def header_json_def)+
      note st = sends_stored [OF m(2)] and d = data_told [OF j]
      show ?thesis
      proof (cases je)
        case None
        with o st d show ?thesis by auto
      next
        case (Some err)
        with o st d show ?thesis
          by (intro disjI1 exI [of _ "errorf_wv echo_ErrInternalServerError err"]) auto
      qed
    qed
  qed
qed

section \<open>Properties\<close>

text \<open>
  C31. A client sees his own messages only.  Whatever a request for the history holds, it changes
  nothing in the store, and it is answered by an error or by messages that are visible to a client in
  his own chat, and this client is the user of a token of the request that Keycloak calls active, with
  the role that the server asks for.
\<close>

theorem client_history_private:
  assumes "main_initServerClient en p addr origins proto introspect resource role outBox = Inr s"
    and "rq_Method (ec_Request c) = ''POST''" and "rq_Path (ec_Request c) = ''/v1/getHistory''"
    and "sv_Handler s c w = (c', w')"
  shows "db w' = db w \<and>
    ((\<exists>e. told_error p c c' e) \<or>
     (\<exists>u ms next'. (\<exists>key \<in> request_keys (ec_Request c). \<exists>now.
          accepts introspect resource role now (strings_TrimPrefix key (proto @ '', '')) u) \<and>
        set ms \<subseteq> {m \<in> set (messages (db w)). client_visible u (db w) m} \<and>
        told_data c c' (api_MessagesPage_json (en_zone en)
          \<lparr>ap_Messages = map (\<lambda>m. api_message (history_message (adaptStoreMessage m))) ms, ap_Next = next'\<rparr>)))"
  using assms(1, 4, 2, 3) insertI1
proof (cases rule: client_post)
  case (rejected e)
  then show ?thesis by (auto simp: only_clock_def)
next
  case (handled x c1 w1 u out c2)
  have d: "db w1 = db w" using handled(2) by (auto simp: only_clock_def)
  have g: "PostGetHistory (en_zone en) (en_other1 en) (wired_clientv1 (en_zone en) outBox) x c1 w1 = (out, c2, w')"
    using handled(5) by simp
  from PostGetHistory_served [OF g handled(4)] d show ?thesis
  proof (elim conjE disjE exE, goal_cases)
    case (1 e)
    then show ?case using handled(7) [of e] by auto
  next
    case (2 ms next')
    then have t: "told_data c c' (api_MessagesPage_json (en_zone en)
          \<lparr>ap_Messages = map (\<lambda>m. api_message (history_message (adaptStoreMessage m))) ms, ap_Next = next'\<rparr>)"
      using handled(6) told_same(2) [OF handled(1)] by simp
    from 2 d have "db w' = db w" "set ms \<subseteq> {m \<in> set (messages (db w)). client_visible u (db w) m}" by simp_all
    with t handled(3) show ?case by (intro conjI disjI2 exI [of _ u] exI [of _ ms] exI [of _ next'])
  qed
qed



section \<open>Requests of a sample client\<close>

definition sample_environment :: "(GetHistoryRequest, SendMessageRequest, world) api_environment" where
  "sample_environment = \<lparr>en_zone = (\<lambda>_. 0), en_other1 = (\<lambda>_ _ r. (None, r)), en_other2 = (\<lambda>_ _ r. (None, r)),
     en_oapi = (\<lambda>_. None), en_ws = (\<lambda>c w. (Returned None, c, w)), en_notFound = (\<lambda>c w. (Returned None, c, w))\<rparr>"

abbreviation sample_server :: "world Server result" where
  "sample_server \<equiv> main_initServerClient sample_environment False '':8080'' [''*''] ''chat'' sample_introspect ''chat-ui''
     ''client'' (wired_outbox 1 second minute (wired_producer None))"

lemma sample_server_starts: "\<exists>s. sample_server = Inr s"
proof -
  have a: "is_hostname_port '':8080''" by code_simp
  have "run_tags [Required, HostnamePort] (VStr '':8080'') = None" using a by simp
  then show ?thesis
    by (simp add: main_initServerClient_def main_getHistory_wired main_sendMessage_wired clientv1_NewHandlers_def
      clientv1_NewOptions_def clientv1_Options_Validate_def validate_options_None [THEN iffD2] main_errHandler_def
      errhandler_New_def errhandler_NewOptions_def errhandler_Options_Validate_def server_NewOptions_def
      server_New_def server_Options_Validate_def Let_def)
qed

lemma sample_served:
  assumes "sample_server = Inr s" "u \<noteq> 0" "ticks w = []" "path \<in> {''/v1/getHistory'', ''/v1/sendMessage''}"
    and "\<And>c. ec_Request c = ec_Request (sample_post path u x body) \<Longrightarrow> ec_broken c = None \<Longrightarrow> MustUserID c = Inr u \<Longrightarrow>
      \<exists>c2. (if path = ''/v1/getHistory''
        then PostGetHistory (\<lambda>_. 0) (\<lambda>_ _ r. (None, r)) (wired_clientv1 (\<lambda>_. 0) (wired_outbox 1 second minute (wired_producer None)))
        else PostSendMessage (\<lambda>_. 0) (\<lambda>_ _ r. (None, r)) (wired_clientv1 (\<lambda>_. 0) (wired_outbox 1 second minute (wired_producer None)))) x c w
        = (Returned None, c2, w') \<and> ec_responses c2 = ec_responses c @ [(200, Some j)]"
  shows "\<exists>c'. sv_Handler s (sample_post path u x body) w = (c', w') \<and> ec_responses c' = [(200, Some j)]"
proof -
  let ?o = "wired_outbox 1 second minute (wired_producer None)"
  obtain opts h where o: "server_New opts = Inr s"
    "vo_registerHandlers opts = Some (clientv1_RegisterHandlers sample_environment (wired_clientv1 (en_zone sample_environment) ?o))"
    "vo_introspector opts = Some sample_introspect" "vo_resource opts = ''chat-ui''" "vo_role opts = ''client''"
    "vo_wsSecProtocol opts = ''chat''"
    by (rule initServerClient_opts [OF assms(1)])
  let ?f = "if path = ''/v1/getHistory'' then PostGetHistory (\<lambda>_. 0) (\<lambda>_ _ r. (None, r)) (wired_clientv1 (\<lambda>_. 0) ?o)
    else PostSendMessage (\<lambda>_. 0) (\<lambda>_ _ r. (None, r)) (wired_clientv1 (\<lambda>_. 0) ?o)"
  have "clientv1_RegisterHandlers sample_environment (wired_clientv1 (en_zone sample_environment) ?o)
      (ec_Request (sample_post path u x body)) = oapi_validator (\<lambda>_. None) (with_XRequestID ?f)"
    using assms(4) by (auto simp: clientv1_RegisterHandlers_def sample_environment_def sample_post_def)
  then show ?thesis
    by (rule sample_handled [OF o _ assms(2, 3)]) (rule assms(5))
qed

lemma json_array_ok: "\<forall>x \<in> set xs. \<exists>j. f x = Inr j \<Longrightarrow> \<exists>js. json_array f xs = Inr js"
  by (induction xs) fastforce+

lemma time_json_ok: "writable zone t \<Longrightarrow> \<exists>j. time_json zone t = Inr j"
  by (auto simp: writable_def time_json_def)

lemma bind_json:
  assumes "ec_Request c = ec_Request (sample_post path u x body)" "json_ints body"
  shows "echo_Bind other d c s = (case d (json_repair body) s of (None, s) \<Rightarrow> (None, s)
      | (Some err, s) \<Rightarrow> (Some (HTTPErrorInternal 400 (errtext err) err), s))"
  using assms by (simp add: echo_Bind_def header_Get_def header_Values_def sample_post_def has_prefix_def
      json_Decode_Marshal numeral_eq_Suc)

lemma sample_page:
  "\<exists>ms w'. messagesrepo_GetClientChatMessages sample_client 10 None (quiet_world (sample_messages [1]) 100) = (Inr (ms, None), w')
     \<and> (\<forall>m \<in> set ms. msg_CreatedAt m = 1)"
proof -
  let ?w = "quiet_world (sample_messages [1]) 100"
  have ok: "page_request_ok 10 None" by (simp add: page_request_ok_def)
  obtain ms nxt w' where p: "messagesrepo_GetClientChatMessages sample_client 10 None ?w = (Inr (ms, nxt), w')"
    by (rule page_served [OF _ ok, of ?w sample_client]) simp_all
  obtain sz before where pp: "page_params 10 None (fst (time_Now ?w)) = (sz, before)" by force
  from page_ok [OF p pp] obtain rows where rows: "mset rows = mset (history_before sample_client before (sample_messages [1]))"
    "(ms, nxt) = page (nat sz) rows" by auto
  have sz: "sz = 10" using pp by (simp add: page_params_def)
  have sub: "length rows \<le> 1" "set rows \<subseteq> set (messages (sample_messages [1]))"
    using rows(1) mset_eq_length [OF rows(1)] length_filter_le [of _ "messages (sample_messages [1])"] sample_length [of "[1]"]
      mset_eq_setD [OF rows(1)] by (auto simp: history_before_def)
  have "m_CreatedAt m = 1" if "m \<in> set rows" for m
    using that sub(2) sample_times [of "[1]"] by (metis (no_types) image_eqI list.set_map set_ConsD empty_iff empty_set subsetD)
  with rows(2) sz sub(1) p show ?thesis by (auto simp: page_def adaptStoreMessage_def)
qed

theorem client_history_private_witness:
  "\<exists>s c' w' ms next'. sample_server = Inr s
     \<and> sv_Handler s (sample_post ''/v1/getHistory'' sample_client (Id 9) (JObj [(''pageSize'', JNum ''10'')]))
          (quiet_world (sample_messages [1]) 100) = (c', w')
     \<and> told_data (sample_post ''/v1/getHistory'' sample_client (Id 9) (JObj [(''pageSize'', JNum ''10'')])) c'
          (api_MessagesPage_json (\<lambda>_. 0)
            \<lparr>ap_Messages = map (\<lambda>m. api_message (history_message (adaptStoreMessage m))) ms, ap_Next = next'\<rparr>)
     \<and> set ms \<subseteq> set (messages (sample_messages [1])) \<and> db w' = sample_messages [1]"
proof -
  let ?b = "JObj [(''pageSize'', JNum ''10'')]" and ?w = "quiet_world (sample_messages [1]) 100"
  let ?c = "sample_post ''/v1/getHistory'' sample_client (Id 9) ?b"
  have un: "sample_client \<noteq> 0" "(Id 9 :: RequestID) \<noteq> 0" by (simp_all add: Id_eq_zero uuid_Nil_def)
  obtain ms w' where pg: "messagesrepo_GetClientChatMessages sample_client 10 None ?w = (Inr (ms, None), w')"
    and t: "\<forall>m \<in> set ms. msg_CreatedAt m = 1" using sample_page by blast
  have h: "gethistory_Handle (\<lambda>_. 0) wired_getHistory \<lparr>hr_ID = Id 9, hr_ClientID = sample_client, hr_PageSize = 10, hr_Cursor = []\<rparr> ?w
      = (Inr \<lparr>hp_Messages = map history_message ms, hp_NextCursor = []\<rparr>, w')"
    by (rule asks_Handle [OF _ un(2, 1) pg]) (simp_all add: asks_def)
  have "\<exists>j. api_Message_json (\<lambda>_. 0) (api_message (history_message m)) = Inr j" if "m \<in> set ms" for m
    using time_json_ok [OF writable_small, of 1] t that
    by (auto simp: api_Message_json_def api_message_def history_message_def)
  then obtain js where js: "json_array (api_Message_json (\<lambda>_. 0)) (map api_message (map history_message ms)) = Inr js"
    using json_array_ok [of "map api_message (map history_message ms)" "api_Message_json (\<lambda>_. 0)"] by auto
  obtain j where j: "data_json (api_MessagesPage_json (\<lambda>_. 0) \<lparr>ap_Messages = map api_message (map history_message ms), ap_Next = []\<rparr>) = Inr j"
    using js by (simp add: data_json_def api_MessagesPage_json_def)
  have d: "GetHistoryRequest_decoder (json_repair ?b) \<lparr>gr_Cursor = None, gr_PageSize = None\<rparr> = (None, \<lparr>gr_Cursor = None, gr_PageSize = Some 10\<rparr>)"
    by (simp add: GetHistoryRequest_decoder_def decode_object_def json_field_def decode_ptr_def decode_int_def
        parse_int_def digits_val_def is_digit_def in_range_def pointer_Indirect_def)
  have "''10'' = itoa 10" by code_simp
  then have i: "json_ints ?b" by auto
  have b: "echo_Bind other GetHistoryRequest_decoder c \<lparr>gr_Cursor = None, gr_PageSize = None\<rparr> = (None, \<lparr>gr_Cursor = None, gr_PageSize = Some 10\<rparr>)"
    if "ec_Request c = ec_Request ?c" for c :: token_Context and other unfolding bind_json [OF that i] using d by simp
  obtain s where s: "sample_server = Inr s" using sample_server_starts by blast
  have "\<exists>c'. sv_Handler s ?c ?w = (c', w') \<and> ec_responses c' = [(200, Some j)]"
    by (rule sample_served [OF s un(1)])
      (use h j in \<open>simp_all add: PostGetHistory_def b wired_clientv1_def pointer_Indirect_def eCtx_JSON_def comp_def\<close>)
  then obtain c' where c': "sv_Handler s ?c ?w = (c', w')" "ec_responses c' = [(200, Some j)]" by blast
  have r: "rq_Method (ec_Request ?c) = ''POST''" "rq_Path (ec_Request ?c) = ''/v1/getHistory''" "ec_responses ?c = []" "ec_broken ?c = None"
    by (simp_all add: sample_post_def)
  have "(\<exists>e. j = error_response False e) \<or> (\<exists>ms next'. set ms \<subseteq> set (messages (sample_messages [1])) \<and>
     told_data ?c c' (api_MessagesPage_json (\<lambda>_. 0)
            \<lparr>ap_Messages = map (\<lambda>m. api_message (history_message (adaptStoreMessage m))) ms, ap_Next = next'\<rparr>)) \<and> db w' = sample_messages [1]"
    using client_history_private [OF s r(1, 2) c'(1)] r c'(2) by (auto simp: told_error_def sample_environment_def)
  moreover have "j \<noteq> error_response False e" for e
    using j by (auto simp: data_json_def error_response_def split: sum.splits prod.splits)
  ultimately show ?thesis using s c' by blast
qed

text \<open>The request of the sample client, and one of another client with its identifier.\<close>

definition foreign_request :: sendmessage_Request where
  "foreign_request = sample_request\<lparr>sr_ClientID := Id 77\<rparr>"

lemma foreign_request_simps:
  "sr_ID foreign_request = Id 6" "sr_ClientID foreign_request = Id 77" "sr_MessageBody foreign_request = ''hi''"
  by (simp_all add: foreign_request_def sample_request_def)

lemma foreign_valid: "sendmessage_Request_Validate foreign_request = None"
proof -
  have "rune_count ''hi'' = 2" by (subst rune_count_ascii) auto
  then show ?thesis
    unfolding sendmessage_Request_Validate_def validate_struct_None
    by (simp add: foreign_request_simps uuid_Nil_def del: rune_count.simps)
qed

lemma sample_send_twice:
  "\<exists>resp w1 m resp' w2. sendmessage_Handle sample_use_case background sample_request (quiet_world empty_database 7) = (Inr resp, w1)
     \<and> sp_CreatedAt resp = 7 \<and> db_wf (db w1) \<and> messages (db w1) = [m] \<and> m_InitialRequestID m = Id 6 \<and> m_AuthorID m = Some (Id 4)
     \<and> sendmessage_Handle sample_use_case background foreign_request w1 = (Inr resp', w2)"
  by (simp add: send_eval sample_valid foreign_valid uuid_Nil_def sample_request_simps foreign_request_simps message_BodyValidator_None [THEN iffD2]
      job_AttemptsValidator_None [THEN iffD2] field_NotEmpty_None [THEN iffD2] sendclientmessagejob_Name_def db_wf_def adaptStoreMessage_def)



end
