(* ===== verification/Verdicts.thy ===== *)
theory Verdicts
  imports Complex_Main OutboxJobs Base64 JsonDecode
begin

text \<open>
  The processor of verdicts (\<open>internal/services/afc-verdicts-processor\<close>): options and construction, the
  decoding and checking of a verdict, its effect in one transaction, the retries, the dead letters and
  the loop of a consumer.  Keys and signatures are code of other packages: reading a key is a pair of
  functions, checking a signature is the function \<open>verify\<close>.  What \<open>FetchMessage\<close> returns and when a
  batch times out is the input of the loop.
\<close>

section \<open>Options and construction\<close>

definition statusOk :: string where "statusOk = ''ok''"
definition statusSuspicious :: string where "statusSuspicious = ''suspicious''"

definition afc_ErrProcessingMessageWithKey :: goerr where
  "afc_ErrProcessingMessageWithKey = New ''afcverdictsprocessor.ErrProcessingMessageWithKey'' ''processing msg with key''"
definition afc_ErrUnknownStatus :: goerr where
  "afc_ErrUnknownStatus = New ''afcverdictsprocessor.ErrUnknownStatus'' ''unknown status''"

record 'w afc_messagesRepository =
  amr_MarkAsVisibleForManager :: "MessageID \<Rightarrow> 'w \<Rightarrow> unit result \<times> 'w"
  amr_BlockMessage :: "MessageID \<Rightarrow> 'w \<Rightarrow> unit result \<times> 'w"

record 'w KafkaReader =
  kr_CommitMessages :: "kafka_Received list \<Rightarrow> 'w \<Rightarrow> unit result \<times> 'w"

record 'w KafkaDLQWriter =
  kd_WriteMessages :: "kafka_Received list \<Rightarrow> 'w \<Rightarrow> unit result \<times> 'w"

type_synonym 'w KafkaReaderFactory = "string list \<Rightarrow> string \<Rightarrow> string \<Rightarrow> 'w KafkaReader"
type_synonym 'w unit_txtor = "gctx \<Rightarrow> (gctx \<Rightarrow> 'w \<Rightarrow> unit result \<times> 'w) \<Rightarrow> 'w \<Rightarrow> unit result \<times> 'w"

record 'w afc_Options =
  ao_backoffInitialInterval :: time
  ao_backoffMaxElapsedTime :: time
  ao_backoffFactor :: rat
  ao_brokers :: "string list"
  ao_consumers :: int
  ao_consumerGroup :: string
  ao_verdictsTopic :: string
  ao_verdictsSignKey :: string
  ao_processBatchSize :: int
  ao_processBatchMaxTimeout :: time
  ao_retries :: int
  ao_readerFactory :: "'w KafkaReaderFactory option"
  ao_dlqWriter :: "'w KafkaDLQWriter option"
  ao_txtor :: "'w unit_txtor option"
  ao_msgRepo :: "'w afc_messagesRepository option"
  ao_outBox :: "(string \<Rightarrow> string \<Rightarrow> time \<Rightarrow> 'w \<Rightarrow> JobID result \<times> 'w) option"

definition afc_NewOptions where
  "afc_NewOptions brokers consumers consumerGroup verdictsTopic readerFactory dlqWriter txtor msgRepo outBox options =
     foldl (\<lambda>o' opt. opt o')
       (\<lparr>ao_backoffInitialInterval = 100 * millisecond, ao_backoffMaxElapsedTime = 5 * second, ao_backoffFactor = 5,
         ao_brokers = brokers, ao_consumers = consumers, ao_consumerGroup = consumerGroup,
         ao_verdictsTopic = verdictsTopic, ao_verdictsSignKey = [], ao_processBatchSize = 1,
         ao_processBatchMaxTimeout = 100 * millisecond, ao_retries = 3, ao_readerFactory = readerFactory,
         ao_dlqWriter = dlqWriter, ao_txtor = txtor, ao_msgRepo = msgRepo, ao_outBox = outBox\<rparr> :: 'w afc_Options)
       options"

definition WithBackoffInitialInterval :: "time \<Rightarrow> 'w afc_Options \<Rightarrow> 'w afc_Options" where
  "WithBackoffInitialInterval opt o' = o'\<lparr>ao_backoffInitialInterval := opt\<rparr>"
definition WithBackoffMaxElapsedTime :: "time \<Rightarrow> 'w afc_Options \<Rightarrow> 'w afc_Options" where
  "WithBackoffMaxElapsedTime opt o' = o'\<lparr>ao_backoffMaxElapsedTime := opt\<rparr>"
definition WithBackoffFactor :: "rat \<Rightarrow> 'w afc_Options \<Rightarrow> 'w afc_Options" where
  "WithBackoffFactor opt o' = o'\<lparr>ao_backoffFactor := opt\<rparr>"
definition WithVerdictsSignKey :: "string \<Rightarrow> 'w afc_Options \<Rightarrow> 'w afc_Options" where
  "WithVerdictsSignKey opt o' = o'\<lparr>ao_verdictsSignKey := opt\<rparr>"
definition WithProcessBatchSize :: "int \<Rightarrow> 'w afc_Options \<Rightarrow> 'w afc_Options" where
  "WithProcessBatchSize opt o' = o'\<lparr>ao_processBatchSize := opt\<rparr>"
definition WithProcessBatchMaxTimeout :: "time \<Rightarrow> 'w afc_Options \<Rightarrow> 'w afc_Options" where
  "WithProcessBatchMaxTimeout opt o' = o'\<lparr>ao_processBatchMaxTimeout := opt\<rparr>"
definition WithRetries :: "int \<Rightarrow> 'w afc_Options \<Rightarrow> 'w afc_Options" where
  "WithRetries opt o' = o'\<lparr>ao_retries := opt\<rparr>"

text \<open>
  The bounds of \<open>backoffFactor\<close>, 1.01 and 10, are compared in hundredths, rounded so that each bound
  holds of the rounded value exactly when it holds of the factor.
\<close>

definition afc_Options_Validate :: "'w afc_Options \<Rightarrow> goerr option" where
  "afc_Options_Validate o' = validate_options
     [(''backoffInitialInterval'', VInt (ao_backoffInitialInterval o'), [MinT (50 * millisecond), MaxT second]),
      (''backoffMaxElapsedTime'', VInt (ao_backoffMaxElapsedTime o'), [MinT (500 * millisecond), MaxT minute]),
      (''backoffFactor'', VInt \<lfloor>ao_backoffFactor o' * 100\<rfloor>, [MinT 101]),
      (''backoffFactor'', VInt \<lceil>ao_backoffFactor o' * 100\<rceil>, [MaxT 1000]),
      (''brokers'', VSlice (length (ao_brokers o')), [MinT 1]),
      (''consumers'', VInt (ao_consumers o'), [MinT 1, MaxT 16]),
      (''consumerGroup'', VStr (ao_consumerGroup o'), [Required]),
      (''verdictsTopic'', VStr (ao_verdictsTopic o'), [Required]),
      (''processBatchSize'', VInt (ao_processBatchSize o'), [MinT 1, MaxT 1000]),
      (''processBatchMaxTimeout'', VInt (ao_processBatchMaxTimeout o'), [MinT (50 * millisecond), MaxT (10 * second)]),
      (''retries'', VInt (ao_retries o'), [MinT 1, MaxT 10]),
      (''readerFactory'', iface (ao_readerFactory o'), [Required]),
      (''dlqWriter'', iface (ao_dlqWriter o'), [Required]),
      (''txtor'', iface (ao_txtor o'), [Required]),
      (''msgRepo'', iface (ao_msgRepo o'), [Required]),
      (''outBox'', iface (ao_outBox o'), [Required])]"

text \<open>The service; \<open>'k\<close> is the type of RSA public keys.  The options are validated, so its parts are set.\<close>

record ('w, 'k) afc_Service =
  as_consumers :: int
  as_processBatchSize :: int
  as_retries :: int
  as_reader :: "'w KafkaReader"
  as_dlqWriter :: "'w KafkaDLQWriter"
  as_txtor :: "'w unit_txtor"
  as_msgRepo :: "'w afc_messagesRepository"
  as_Put :: "string \<Rightarrow> string \<Rightarrow> time \<Rightarrow> 'w \<Rightarrow> JobID result \<times> 'w"
  as_publicKey :: "'k option"

text \<open>
  \<open>pem\<close> gives the bytes of the first PEM block, \<open>pkix\<close> the key in them: an error, a key of another type
  (\<open>Inr None\<close>) or an RSA key.
\<close>

definition afc_New ::
  "(string \<Rightarrow> string option) \<Rightarrow> (string \<Rightarrow> 'k option result) \<Rightarrow> 'w afc_Options \<Rightarrow> ('w, 'k) afc_Service result" where
  "afc_New pem pkix opts =
     (case afc_Options_Validate opts of
        Some err \<Rightarrow> Inl (errorf_v ''validating afc verdict processor service options'' err)
      | None \<Rightarrow>
          let s = \<lparr>as_consumers = ao_consumers opts, as_processBatchSize = ao_processBatchSize opts,
                as_retries = ao_retries opts,
                as_reader = the (ao_readerFactory opts) (ao_brokers opts) (ao_consumerGroup opts) (ao_verdictsTopic opts),
                as_dlqWriter = the (ao_dlqWriter opts), as_txtor = the (ao_txtor opts),
                as_msgRepo = the (ao_msgRepo opts), as_Put = the (ao_outBox opts), as_publicKey = None\<rparr>
          in if ao_verdictsSignKey opts = [] then Inr s
             else (case pem (ao_verdictsSignKey opts) of
                     None \<Rightarrow> Inl (New ''errors.New'' ''invalid signing key'')
                   | Some bytes \<Rightarrow>
                       (case pkix bytes of
                          Inl err \<Rightarrow> Inl err
                        | Inr None \<Rightarrow> Inl (New ''errors.New'' ''invalid key type'')
                        | Inr (Some key) \<Rightarrow> Inr (s\<lparr>as_publicKey := Some key\<rparr>))))"

section \<open>One verdict\<close>

record verdict =
  v_ChatID :: string
  v_MessageID :: string
  v_Status :: string

definition verdict_fields :: "(string \<times> verdict decoder) list" where
  "verdict_fields = [(''chatId'', decode_string (\<lambda>x v. v\<lparr>v_ChatID := x\<rparr>)),
     (''messageId'', decode_string (\<lambda>x v. v\<lparr>v_MessageID := x\<rparr>)),
     (''status'', decode_string (\<lambda>x v. v\<lparr>v_Status := x\<rparr>))]"

definition afc_decodeMsg ::
  "('k \<Rightarrow> string \<Rightarrow> string \<Rightarrow> goerr option) \<Rightarrow> ('w, 'k) afc_Service \<Rightarrow> string \<Rightarrow> (verdict \<times> MessageID) result" where
  "afc_decodeMsg verify s msg =
     (case (case as_publicKey s of
              None \<Rightarrow> Inr msg
            | Some key \<Rightarrow>
                (let parts = strings_Split (CHR ''.'') msg in
                 if length parts \<noteq> 3
                 then Inl (Errorf (errtext afc_ErrProcessingMessageWithKey @ '': '' @ itoa (int (length parts)) @ '' parts'')
                             (Some afc_ErrProcessingMessageWithKey))
                 else (case b64_DecodeString False (parts ! 1) of
                         Inl err \<Rightarrow> Inl (Errorf (errtext afc_ErrProcessingMessageWithKey @ '': decode body: '' @ errtext err)
                                           (Some afc_ErrProcessingMessageWithKey))
                       | Inr data \<Rightarrow>
                           (case verify key (join ''.'' (take 2 parts)) (parts ! 2) of
                              Some err \<Rightarrow> Inl (Errorf (errtext afc_ErrProcessingMessageWithKey @ '': verify signature: '' @ errtext err)
                                                 (Some afc_ErrProcessingMessageWithKey))
                            | None \<Rightarrow> Inr data)))) of
        Inl err \<Rightarrow> Inl err
      | Inr data \<Rightarrow>
          (case json_into (decode_object ''verdict'' verdict_fields) data \<lparr>v_ChatID = [], v_MessageID = [], v_Status = []\<rparr> of
             Inl err \<Rightarrow> Inl (errorf_v ''unmarshal verdict'' err)
           | Inr v \<Rightarrow>
               (case types_Parse (v_MessageID v) of
                  (_, Some err) \<Rightarrow> Inl (errorf_v ''parse message id'' err)
                | (msgID, None) \<Rightarrow> Inr (v, msgID))))"

definition afc_verdict_body ::
  "('z env_scheme, 'k) afc_Service \<Rightarrow> (MessageID \<Rightarrow> 'z env_scheme \<Rightarrow> unit result \<times> 'z env_scheme) \<Rightarrow> string \<Rightarrow> string
   \<Rightarrow> MessageID \<Rightarrow> verdict \<Rightarrow> gctx \<Rightarrow> 'z env_scheme \<Rightarrow> unit result \<times> 'z env_scheme" where
  "afc_verdict_body s change what job msgID v ctx w =
     (case change msgID w of
        (Inl err, w) \<Rightarrow> (Inl (errorf_v what err), w)
      | (Inr _, w) \<Rightarrow>
          (case time_Now w of (now, w) \<Rightarrow>
             (case as_Put s job (v_MessageID v) now w of
                (Inl err, w) \<Rightarrow> (Inl (errorf_v (''put job '' @ job) err), w)
              | (Inr _, w) \<Rightarrow> (Inr (), w))))"

definition afc_processVerdict ::
  "('z env_scheme, 'k) afc_Service \<Rightarrow> gctx \<Rightarrow> MessageID \<Rightarrow> verdict \<Rightarrow> 'z env_scheme \<Rightarrow> unit result \<times> 'z env_scheme" where
  "afc_processVerdict s ctx msgID v w =
     (if v_Status v = statusOk
      then as_txtor s ctx (afc_verdict_body s (amr_MarkAsVisibleForManager (as_msgRepo s)) ''mark visible for manager''
             clientmessagesentjob_Name msgID v) w
      else if v_Status v = statusSuspicious
      then as_txtor s ctx (afc_verdict_body s (amr_BlockMessage (as_msgRepo s)) ''block message''
             clientmessageblockedjob_Name msgID v) w
      else (Inl afc_ErrUnknownStatus, w))"

text \<open>The loop over the attempts; the error of the last one, or none.\<close>

fun afc_attempts ::
  "('z env_scheme, 'k) afc_Service \<Rightarrow> gctx \<Rightarrow> MessageID \<Rightarrow> verdict \<Rightarrow> nat \<Rightarrow> goerr option \<Rightarrow> 'z env_scheme
   \<Rightarrow> goerr option \<times> 'z env_scheme" where
  "afc_attempts s ctx msgID v 0 err w = (err, w)"
| "afc_attempts s ctx msgID v (Suc n) err w =
     (case afc_processVerdict s ctx msgID v w of
        (Inl e, w) \<Rightarrow>
          if \<not> errors_Is e afc_ErrUnknownStatus then afc_attempts s ctx msgID v n (Some e) w else (Some e, w)
      | (Inr _, w) \<Rightarrow> (None, w))"

definition formHeaders :: "goerr \<Rightarrow> int \<Rightarrow> (string \<times> string) list" where
  "formHeaders lastError originalPartition =
     [(''LAST_ERROR'', errtext lastError), (''ORIGINAL_PARTITION'', itoa originalPartition)]"

text \<open>The body of the loop of \<open>processBatch\<close>: one message.\<close>

definition afc_processMessage ::
  "('k \<Rightarrow> string \<Rightarrow> string \<Rightarrow> goerr option) \<Rightarrow> ('z env_scheme, 'k) afc_Service \<Rightarrow> gctx \<Rightarrow> kafka_Received
   \<Rightarrow> 'z env_scheme \<Rightarrow> 'z env_scheme" where
  "afc_processMessage verify s ctx msg w =
     (case (case afc_decodeMsg verify s (km_Value msg) of
              Inl err \<Rightarrow> (Some err, msg, w)
            | Inr (v, msgID) \<Rightarrow>
                (case afc_attempts s ctx msgID v (nat (as_retries s)) None w of
                   (None, w) \<Rightarrow> (None, msg, w)
                 | (Some err, w) \<Rightarrow>
                     (Some err, msg\<lparr>km_Headers := km_Headers msg @ formHeaders err (km_Partition msg)\<rparr>, w))) of
        (None, msg, w) \<Rightarrow> w
      | (Some err, msg, w) \<Rightarrow> snd (kd_WriteMessages (as_dlqWriter s) [msg\<lparr>km_Topic := []\<rparr>] w))"

fun afc_processBatch ::
  "('k \<Rightarrow> string \<Rightarrow> string \<Rightarrow> goerr option) \<Rightarrow> ('z env_scheme, 'k) afc_Service \<Rightarrow> gctx \<Rightarrow> kafka_Received list
   \<Rightarrow> 'z env_scheme \<Rightarrow> 'z env_scheme" where
  "afc_processBatch verify s ctx [] w = w"
| "afc_processBatch verify s ctx (msg # msgs) w =
     afc_processBatch verify s ctx msgs (afc_processMessage verify s ctx msg w)"

section \<open>The loop of a consumer\<close>

text \<open>What a \<open>select\<close> of the loop may see: a fetched message, the end of the fetching goroutine, the time-out.\<close>

datatype consumer_input = Fetched kafka_Received | FetchFailed | BatchTimeout

datatype collected = Batch "kafka_Received list" "consumer_input list" | Stopped | Waiting

fun afc_collect :: "nat \<Rightarrow> consumer_input list \<Rightarrow> kafka_Received list \<Rightarrow> collected" where
  "afc_collect 0 ins msgs = Batch msgs ins"
| "afc_collect (Suc n) [] msgs = Waiting"
| "afc_collect (Suc n) (BatchTimeout # ins) msgs = Batch msgs ins"
| "afc_collect (Suc n) (FetchFailed # ins) msgs = Stopped"
| "afc_collect (Suc n) (Fetched msg # ins) msgs = afc_collect n ins (msgs @ [msg])"

text \<open>
  One round of \<open>processMessages\<close>: \<open>cancelled\<close> tells whether the context is done when the batch is
  complete.  The first component is \<open>None\<close> when the loop has returned.
\<close>

definition afc_round ::
  "('k \<Rightarrow> string \<Rightarrow> string \<Rightarrow> goerr option) \<Rightarrow> ('z env_scheme, 'k) afc_Service \<Rightarrow> gctx \<Rightarrow> bool \<Rightarrow> consumer_input list
   \<Rightarrow> 'z env_scheme \<Rightarrow> consumer_input list option \<times> 'z env_scheme" where
  "afc_round verify s ctx cancelled ins w =
     (case afc_collect (nat (as_processBatchSize s)) ins [] of
        Waiting \<Rightarrow> (Some ins, w)
      | Stopped \<Rightarrow> (None, w)
      | Batch msgs rest \<Rightarrow>
          if cancelled then (None, w)
          else (Some rest, snd (kr_CommitMessages (as_reader s) msgs (afc_processBatch verify s ctx msgs w))))"

text \<open>
  \<open>Run\<close>: the consumers take turns round by round, as the schedule says; \<open>readers i\<close> is what the reader of
  consumer \<open>i\<close> has still to give, or \<open>None\<close> when its loop has returned.
\<close>

fun afc_Run ::
  "('k \<Rightarrow> string \<Rightarrow> string \<Rightarrow> goerr option) \<Rightarrow> ('z env_scheme, 'k) afc_Service \<Rightarrow> gctx \<Rightarrow> (nat \<times> bool) list
   \<Rightarrow> (nat \<Rightarrow> consumer_input list option) \<Rightarrow> 'z env_scheme \<Rightarrow> (nat \<Rightarrow> consumer_input list option) \<times> 'z env_scheme" where
  "afc_Run verify s ctx [] readers w = (readers, w)"
| "afc_Run verify s ctx ((i, cancelled) # sched) readers w =
     (case (if int i < as_consumers s then readers i else None) of
        None \<Rightarrow> afc_Run verify s ctx sched readers w
      | Some ins \<Rightarrow>
          (case afc_round verify s ctx cancelled ins w of
             (ins', w) \<Rightarrow> afc_Run verify s ctx sched (readers(i := ins')) w))"

section \<open>The wiring\<close>

text \<open>
  The reader and the writer of dead letters over the state of the service: what is committed is logged,
  dead letters are appended; either may fail or lose its acknowledgement.
\<close>

definition NewKafkaReader :: "string list \<Rightarrow> string \<Rightarrow> string \<Rightarrow> world KafkaReader" where
  "NewKafkaReader brokers groupID topic' =
     \<lparr>kr_CommitMessages = \<lambda>msgs. statement (\<lambda>w. (Inr (), w\<lparr>committed := committed w @ msgs\<rparr>))\<rparr>"

definition NewKafkaDLQWriter :: "string list \<Rightarrow> string \<Rightarrow> world KafkaDLQWriter" where
  "NewKafkaDLQWriter brokers topic' =
     \<lparr>kd_WriteMessages = \<lambda>msgs. statement (\<lambda>w. (Inr (), w\<lparr>dlq := dlq w @ msgs\<rparr>))\<rparr>"

definition main_afcVerdictProcessor ::
  "(string \<Rightarrow> string option) \<Rightarrow> (string \<Rightarrow> 'k option result) \<Rightarrow> string list \<Rightarrow> int \<Rightarrow> string \<Rightarrow> string \<Rightarrow> string \<Rightarrow> string
   \<Rightarrow> int \<Rightarrow> world outbox_Service \<Rightarrow> (world, 'k) afc_Service result" where
  "main_afcVerdictProcessor pem pkix brokers consumers consumerGroup verdictsTopic dlqTopic signingKey batchSize outBox =
     (case afc_New pem pkix (afc_NewOptions brokers consumers consumerGroup verdictsTopic (Some NewKafkaReader)
             (Some (NewKafkaDLQWriter brokers dlqTopic)) (Some RunInTx)
             (Some \<lparr>amr_MarkAsVisibleForManager = messagesrepo_MarkAsVisibleForManager,
                    amr_BlockMessage = messagesrepo_BlockMessage\<rparr>)
             (Some (outbox_Put outBox)) [WithVerdictsSignKey signingKey, WithProcessBatchSize batchSize]) of
        Inl err \<Rightarrow> Inl (errorf_v ''AFC verdict processor'' err)
      | Inr s \<Rightarrow> Inr s)"

definition wired_afc :: "int \<Rightarrow> int \<Rightarrow> world outbox_Service \<Rightarrow> 'k option \<Rightarrow> (world, 'k) afc_Service" where
  "wired_afc consumers batchSize outBox key = \<lparr>as_consumers = consumers, as_processBatchSize = batchSize, as_retries = 3,
     as_reader = NewKafkaReader [] [] [], as_dlqWriter = NewKafkaDLQWriter [] [], as_txtor = RunInTx,
     as_msgRepo = \<lparr>amr_MarkAsVisibleForManager = messagesrepo_MarkAsVisibleForManager,
                   amr_BlockMessage = messagesrepo_BlockMessage\<rparr>,
     as_Put = outbox_Put outBox, as_publicKey = key\<rparr>"

text \<open>What \<open>main\<close> builds checks signatures exactly when a key is configured.\<close>

lemma main_afc_wired:
  assumes "main_afcVerdictProcessor pem pkix brokers consumers consumerGroup vt dt signingKey batchSize outBox = Inr s"
  obtains key where "s = wired_afc consumers batchSize outBox key" "key = None \<longleftrightarrow> signingKey = []"
    "1 \<le> consumers" "consumers \<le> 16" "1 \<le> batchSize" "batchSize \<le> 1000"
proof -
  have parts: "NewKafkaReader a b c = NewKafkaReader [] [] []" "NewKafkaDLQWriter a b = NewKafkaDLQWriter [] []" for a b c
    by (simp_all add: NewKafkaReader_def NewKafkaDLQWriter_def)
  have "\<exists>key. s = wired_afc consumers batchSize outBox key \<and> (key = None \<longleftrightarrow> signingKey = [])
      \<and> 1 \<le> consumers \<and> consumers \<le> 16 \<and> 1 \<le> batchSize \<and> batchSize \<le> 1000"
    using assms unfolding main_afcVerdictProcessor_def afc_New_def
    by (auto simp: afc_NewOptions_def WithVerdictsSignKey_def WithProcessBatchSize_def Let_def wired_afc_def
        parts(1) [of brokers consumerGroup vt] parts(2) [of brokers dt] afc_Options_Validate_def validate_options_None
        split: option.splits sum.splits if_splits)
  then show ?thesis using that by blast
qed

lemma wired_afc_simps [simp]:
  "as_consumers (wired_afc n b o' k) = n" "as_processBatchSize (wired_afc n b o' k) = b" "as_retries (wired_afc n b o' k) = 3"
  "as_txtor (wired_afc n b o' k) = RunInTx" "as_Put (wired_afc n b o' k) = outbox_Put o'" "as_publicKey (wired_afc n b o' k) = k"
  "amr_MarkAsVisibleForManager (as_msgRepo (wired_afc n b o' k)) = messagesrepo_MarkAsVisibleForManager"
  "amr_BlockMessage (as_msgRepo (wired_afc n b o' k)) = messagesrepo_BlockMessage"
  by (simp_all add: wired_afc_def)

section \<open>What the store operations leave alone\<close>

text \<open>An operation of the store leaves the rest of the state alone and brings no faults.\<close>

definition calm :: "('z store_scheme \<Rightarrow> 'a \<times> 'z store_scheme) \<Rightarrow> bool" where
  "calm f \<longleftrightarrow> (\<forall>w r w'. f w = (r, w') \<longrightarrow> store.more w' = store.more w \<and> (faults w = [] \<longrightarrow> faults w' = []))"

lemma calmI: "(\<And>w r w'. f w = (r, w') \<Longrightarrow> store.more w' = store.more w \<and> (faults w = [] \<longrightarrow> faults w' = [])) \<Longrightarrow> calm f"
  by (simp add: calm_def)

lemma calmD: "calm f \<Longrightarrow> f w = (r, w') \<Longrightarrow> store.more w' = store.more w \<and> (faults w = [] \<longrightarrow> faults w' = [])"
  by (simp add: calm_def)

lemma more_env [simp]:
  "store.more (w\<lparr>clk := c\<rparr>) = store.more w" "store.more (w\<lparr>ticks := ts\<rparr>) = store.more w"
  "store.more (w\<lparr>rnd_pos := n\<rparr>) = store.more w" "store.more (w\<lparr>faults := fs\<rparr>) = store.more w"
  "store.more (w\<lparr>picks := ps\<rparr>) = store.more w" "store.more (w\<lparr>db := d\<rparr>) = store.more w"
  by (cases w; simp)+

lemma calm_time_Now: "calm time_Now"
  by (rule calmI) (auto simp: time_Now_def split: list.splits)

lemma calm_NewID: "calm NewID"
  by (rule calmI) (auto simp: NewID_eq)

lemma calm_next_fault: "calm next_fault"
  by (rule calmI) (auto simp: next_fault_def split: list.splits)

lemma calm_statement:
  assumes "calm body"
  shows "calm (statement body)"
proof (rule calmI)
  fix w r w' assume st: "statement body w = (r, w')"
  obtain f w1 where f: "next_fault w = (f, w1)" by force
  obtain q w2 where q: "body w1 = (q, w2)" by force
  from st f q have "w' = w1 \<or> w' = w2"
    by (auto simp: statement_def split: option.splits fault.splits)
  with calmD [OF calm_next_fault f] calmD [OF assms q]
  show "store.more w' = store.more w \<and> (faults w = [] \<longrightarrow> faults w' = [])" by auto
qed

lemma calm_sql_exec: "calm (sql_exec f)"
  unfolding sql_exec_def by (rule calm_statement, rule calmI) (auto split: sum.splits)

lemma calm_MessageUpdateOne_Exec: "calm (MessageUpdateOne_Exec u)"
proof (rule calmI)
  fix w r w' assume "MessageUpdateOne_Exec u w = (r, w' :: 'a store_scheme)"
  then consider "w' = w" | i q where "sql_exec (update_message i (MessageUpdateOne_apply u)) w = (q, w')"
    by (auto simp: MessageUpdateOne_Exec_def MessageUpdateOne_sqlSave_def split: option.splits prod.splits sum.splits)
  then show "store.more w' = store.more w \<and> (faults w = [] \<longrightarrow> faults w' = [])"
    by cases (auto dest: calmD [OF calm_sql_exec])
qed

lemma calm_MarkAsVisibleForManager: "calm (messagesrepo_MarkAsVisibleForManager i)"
  and calm_BlockMessage: "calm (messagesrepo_BlockMessage i)"
  by (rule calmI; auto simp: messagesrepo_MarkAsVisibleForManager_def messagesrepo_BlockMessage_def Let_def
      split: prod.splits sum.splits dest!: calmD [OF calm_time_Now] calmD [OF calm_MessageUpdateOne_Exec])+

lemma calm_set_default:
  assumes "calm dflt"
  shows "set_default getf setf dflt mw = mw' \<Longrightarrow>
    store.more (snd mw') = store.more (snd mw) \<and> (faults (snd mw) = [] \<longrightarrow> faults (snd mw') = [])"
  using calmD [OF assms, of "snd mw"]
  by (auto simp: set_default_def split: option.splits prod.splits)

lemma calm_Pair: "calm (Pair x)"
  by (rule calmI) simp

lemma calm_JobCreate_defaults: "calm (\<lambda>w. JobCreate_defaults (m, w))"
proof (rule calmI)
  fix w :: "'a store_scheme" and m' w' assume "JobCreate_defaults (m, w) = (m', w')"
  then show "store.more w' = store.more w \<and> (faults w = [] \<longrightarrow> faults w' = [])"
    unfolding JobCreate_defaults_def
    using calm_set_default [OF calm_NewID] calm_set_default [OF calm_time_Now] calm_set_default [OF calm_Pair]
    by (metis (no_types, lifting) snd_conv)
qed

lemma calm_CreateJob: "calm (jobsrepo_CreateJob name payload t)"
proof (rule calmI)
  fix w r w' assume "jobsrepo_CreateJob name payload t w = (r, w' :: 'a store_scheme)"
  then show "store.more w' = store.more w \<and> (faults w = [] \<longrightarrow> faults w' = [])"
    by (auto simp: jobsrepo_CreateJob_def JobCreate_Save_def JobCreate_sqlSave_def ent_sqlSave_def Let_def
        split: prod.splits sum.splits option.splits
        dest!: calmD [OF calm_NewID] calmD [OF calm_JobCreate_defaults] calmD [OF calm_sql_exec])
qed

lemma calm_RunInTx:
  assumes "\<And>ctx. calm (f ctx)"
  shows "calm (RunInTx ctx f)"
proof (rule calmI)
  fix w r w' assume run: "RunInTx ctx f w = (r, w')"
  obtain flt w1 where n1: "next_fault w = (flt, w1)" by force
  obtain q w2 where f: "f (ctx\<lparr>ctx_tx := True\<rparr>) w1 = (q, w2)" by force
  obtain flt' w3 where n2: "next_fault w2 = (flt', w3)" by force
  have "store.more w' = store.more w2 \<and> faults w' = faults w2 \<or> store.more w' = store.more w3 \<and> faults w' = faults w3
    \<or> w' = w1 \<or> f ctx w = (r, w')"
    using run n1 f n2 by (auto simp: RunInTx_def split: if_splits option.splits sum.splits fault.splits)
  then show "store.more w' = store.more w \<and> (faults w = [] \<longrightarrow> faults w' = [])"
    using calmD [OF calm_next_fault n1] calmD [OF assms f] calmD [OF calm_next_fault n2] calmD [OF assms, of ctx w r w'] by auto
qed

section \<open>The effect of a verdict\<close>

definition known_status :: "verdict \<Rightarrow> bool" where
  "known_status v \<longleftrightarrow> v_Status v = statusOk \<or> v_Status v = statusSuspicious"

definition verdict_change :: "verdict \<Rightarrow> time \<Rightarrow> message_row \<Rightarrow> message_row" where
  "verdict_change v t = (if v_Status v = statusOk then visible_for_manager t else blocked t)"

definition verdict_job :: "verdict \<Rightarrow> string" where
  "verdict_job v = (if v_Status v = statusOk then clientmessagesentjob_Name else clientmessageblockedjob_Name)"

text \<open>A verdict takes effect: the message is changed and the job that tells the client is queued.\<close>

definition applied :: "verdict \<Rightarrow> MessageID \<Rightarrow> database \<Rightarrow> database \<Rightarrow> bool" where
  "applied v i d d' \<longleftrightarrow>
     (\<exists>t d1 t' j. changes_message i (verdict_change v t) d d1 \<and> adds_job (verdict_job v) (v_MessageID v) t' j d1 d')"

lemma plain_not_unknown: "plain_error e \<Longrightarrow> \<not> errors_Is e afc_ErrUnknownStatus"
  by (simp add: plain_error_def afc_ErrUnknownStatus_def)

lemma verdict_body_calm:
  assumes "calm (change i)" "oo_jobsRepo o' = jobsrepo"
  shows "calm (afc_verdict_body (wired_afc n b o' k) change what job i v ctx)"
proof (rule calmI)
  fix w r w' assume "afc_verdict_body (wired_afc n b o' k) change what job i v ctx w = (r, w')"
  then show "store.more w' = store.more w \<and> (faults w = [] \<longrightarrow> faults w' = [])"
    using assms(2) by (auto simp: afc_verdict_body_def outbox_Put_def split: prod.splits sum.splits
        dest!: calmD [OF assms(1)] calmD [OF calm_time_Now] calmD [OF calm_CreateJob])
qed

lemma verdict_body_cases:
  assumes "afc_verdict_body (wired_afc n b o' k) change what job i v ctx w = (r, w')" "oo_jobsRepo o' = jobsrepo"
    and law: "\<And>w q w1. change i w = (q, w1) \<Longrightarrow>
      \<exists>t. (q = Inr () \<and> changes_message i (f t) (db w) (db w1)) \<or> (\<exists>e. q = Inl e \<and> plain_error e)"
  shows "(r = Inr () \<and> (\<exists>t d1 t' j. changes_message i (f t) (db w) d1 \<and> adds_job job (v_MessageID v) t' j d1 (db w')))
    \<or> (\<exists>e. r = Inl e \<and> plain_error e)"
proof -
  obtain q w1 where q: "change i w = (q, w1)" by force
  obtain now w2 where now: "time_Now w1 = (now, w2)" by force
  obtain j w3 where j: "jobsrepo_CreateJob job (v_MessageID v) now w2 = (j, w3)" by force
  show ?thesis
  proof (cases "\<exists>u j'. q = Inr u \<and> j = Inr j'")
    case True
    then show ?thesis
      using assms(1, 2) q now j law [OF q] CreateJob_cases [OF j] db_time_Now [OF now]
      by (auto simp: afc_verdict_body_def outbox_Put_def)
  next
    case False
    then show ?thesis
      using assms(1, 2) q now j law [OF q] CreateJob_cases [OF j]
      by (auto simp: afc_verdict_body_def outbox_Put_def split: sum.splits)
  qed
qed

lemma processVerdict_known:
  assumes "afc_processVerdict (wired_afc n b o' k) background i v w = (r, w')" "oo_jobsRepo o' = jobsrepo" "known_status v"
  shows "(r = Inr () \<and> applied v i (db w) (db w')) \<or>
    (\<exists>e. r = Inl e \<and> \<not> errors_Is e afc_ErrUnknownStatus \<and> (db w' = db w \<or> applied v i (db w) (db w')))"
proof -
  let ?f = "afc_verdict_body (wired_afc n b o' k)
      (if v_Status v = statusOk then messagesrepo_MarkAsVisibleForManager else messagesrepo_BlockMessage)
      (if v_Status v = statusOk then ''mark visible for manager'' else ''block message'') (verdict_job v) i v"
  have run: "RunInTx background ?f w = (r, w')"
    using assms(1, 3) by (auto simp: afc_processVerdict_def known_status_def verdict_job_def statusOk_def statusSuspicious_def)
  let ?change = "if v_Status v = statusOk then messagesrepo_MarkAsVisibleForManager else messagesrepo_BlockMessage"
  have law: "\<exists>t. (q = Inr () \<and> changes_message i (verdict_change v t) (db u) (db u')) \<or> (\<exists>e. q = Inl e \<and> plain_error e)"
    if "?change i u = (q, u')" for u q and u' :: world
  proof (cases "v_Status v = statusOk")
    case True
    with that MarkAsVisibleForManager_cases [of i u q u'] show ?thesis unfolding verdict_change_def by auto
  next
    case False
    with that BlockMessage_cases [of i u q u'] show ?thesis unfolding verdict_change_def by auto
  qed
  have body: "(q = Inr () \<and> applied v i (db u) (db u')) \<or> (\<exists>e. q = Inl e \<and> plain_error e)"
    if "?f ctx u = (q, u')" for ctx u q u'
    using verdict_body_cases [OF that assms(2) law] unfolding applied_def .
  have "\<not> ctx_tx background" by (simp add: background_def)
  from RunInTx_cases [OF this run] show ?thesis
    by (auto dest!: body simp: plain_not_unknown)
qed

lemma RunInTx_quiet_aborts:
  assumes "\<not> ctx_tx ctx" "faults w = []" "\<And>ctx. calm (f ctx)" "RunInTx ctx f w = (Inl e, w')"
  shows "db w' = db w"
proof -
  obtain q w2 where f: "f (ctx\<lparr>ctx_tx := True\<rparr>) w = (q, w2)" by force
  then have "faults w2 = []" using calmD [OF assms(3) f] assms(2) by simp
  with assms f show ?thesis by (auto simp: RunInTx_def next_fault_none split: sum.splits)
qed

lemma processVerdict_calm:
  assumes "oo_jobsRepo o' = jobsrepo"
  shows "calm (afc_processVerdict (wired_afc n b o' k) ctx i v)"
proof -
  have *: "calm (RunInTx ctx (afc_verdict_body (wired_afc n b o' k) ch what job i v))" if "calm (ch i)" for ch what job
    by (rule calm_RunInTx, rule verdict_body_calm) (use that assms in auto)
  show ?thesis
    by (rule calmI) (auto simp: afc_processVerdict_def split: if_splits
        dest!: calmD [OF * [OF calm_MarkAsVisibleForManager]] calmD [OF * [OF calm_BlockMessage]])
qed

lemma processVerdict_quiet:
  assumes "afc_processVerdict (wired_afc n b o' k) background i v w = (Inl e, w')" "oo_jobsRepo o' = jobsrepo" "faults w = []"
  shows "db w' = db w"
proof -
  have *: "db w' = db w" if "RunInTx background (afc_verdict_body (wired_afc n b o' k) ch what job i v) w = (Inl e, w')"
    "calm (ch i)" for ch what job
    by (rule RunInTx_quiet_aborts [OF _ assms(3) _ that(1)])
      (use that(2) assms(2) in \<open>auto simp: background_def intro: verdict_body_calm\<close>)
  show ?thesis using assms(1)
    by (auto simp: afc_processVerdict_def calm_MarkAsVisibleForManager calm_BlockMessage dest!: * split: if_splits)
qed

text \<open>
  The outcomes of the attempts at a known verdict: it took effect at the last of \<open>k\<close> times, where an
  earlier time counts when its commit was lost; or it failed every time, \<open>k\<close> of them with a lost commit.
\<close>

definition tried :: "bool \<Rightarrow> nat \<Rightarrow> verdict \<Rightarrow> MessageID \<Rightarrow> goerr option \<Rightarrow> database \<Rightarrow> database \<Rightarrow> bool" where
  "tried lossy n v i err d d' \<longleftrightarrow>
     (\<exists>k \<le> n. (applied v i ^^ k) d d' \<and> (if err = None then 1 \<le> k \<and> (lossy \<or> k = 1) else lossy \<or> k = 0))"

lemma tried_later: "tried lossy n v i err d d' \<Longrightarrow> tried lossy (Suc n) v i err d d'"
  unfolding tried_def by (meson le_SucI)

lemma tried_again: "tried True n v i err d1 d' \<Longrightarrow> applied v i d d1 \<Longrightarrow> tried True (Suc n) v i err d d'"
  unfolding tried_def
  by (metis (full_types) Suc_le_mono le_Suc_eq relpowp_Suc_I2 le_refl le0 One_nat_def)

lemma attempts_known:
  assumes "oo_jobsRepo o' = jobsrepo" "known_status v" "faults w = [] \<or> lossy"
    and "afc_attempts (wired_afc n b o' key) background i v (Suc m) err0 w = (err, w')"
  shows "tried lossy (Suc m) v i err (db w) (db w') \<and> (faults w' = [] \<or> lossy) \<and> store.more w' = store.more w"
  using assms(3, 4)
proof (induction m arbitrary: w err0)
  case 0
  obtain r w1 where r: "afc_processVerdict (wired_afc n b o' key) background i v w = (r, w1)" by force
  note c = processVerdict_known [OF r assms(1, 2)] calmD [OF processVerdict_calm [OF assms(1)] r]
  show ?case
  proof (cases r)
    case (Inl e)
    then have db: "db w1 = db w \<or> lossy \<and> applied v i (db w) (db w1)"
      using c 0 processVerdict_quiet [OF _ assms(1), of n b key i v w e w1] r by auto
    have "err = Some e \<and> w' = w1" using 0 r Inl by (auto split: if_splits)
    moreover have "\<exists>k\<le>Suc 0. (applied v i ^^ k) (db w) (db w1) \<and> (lossy \<or> k = 0)"
    proof (cases "db w1 = db w")
      case True
      then show ?thesis by (auto intro: exI [of _ 0])
    next
      case False
      with db show ?thesis by (intro exI [of _ "Suc 0"]) auto
    qed
    ultimately show ?thesis using 0 c by (auto simp: tried_def)
  next
    case (Inr u)
    with 0 r c show ?thesis by (auto simp: tried_def intro!: exI [of _ "Suc 0"])
  qed
next
  case (Suc m)
  obtain r w1 where r: "afc_processVerdict (wired_afc n b o' key) background i v w = (r, w1)" by force
  note c = processVerdict_known [OF r assms(1, 2)] calmD [OF processVerdict_calm [OF assms(1)] r]
  show ?case
  proof (cases r)
    case (Inl e)
    then have db: "db w1 = db w \<or> lossy \<and> applied v i (db w) (db w1)" and e: "\<not> errors_Is e afc_ErrUnknownStatus"
      using c Suc.prems processVerdict_quiet [OF _ assms(1), of n b key i v w e w1] r by auto
    have "faults w1 = [] \<or> lossy" using c Suc.prems(1) by auto
    moreover have "afc_attempts (wired_afc n b o' key) background i v (Suc m) (Some e) w1 = (err, w')"
      using Suc.prems(2) r Inl e by simp
    ultimately have "tried lossy (Suc m) v i err (db w1) (db w') \<and> (faults w' = [] \<or> lossy) \<and> store.more w' = store.more w1"
      using Suc.IH by blast
    then show ?thesis using db c tried_later [of lossy "Suc m"] tried_again [of "Suc m"] by (metis (full_types))
  next
    case (Inr u)
    with Suc.prems r c show ?thesis by (auto simp: tried_def intro!: exI [of _ "Suc 0"])
  qed
qed

section \<open>Every fetched message is settled\<close>

text \<open>A dead letter: without topic, with the headers added; when writes may fail it may be missing.\<close>

definition buried :: "bool \<Rightarrow> kafka_Received \<Rightarrow> (string \<times> string) list \<Rightarrow> kafka_Received list \<Rightarrow> kafka_Received list \<Rightarrow> bool" where
  "buried lossy m hs q q' \<longleftrightarrow>
     q' = q @ [m\<lparr>km_Topic := [], km_Headers := km_Headers m @ hs\<rparr>] \<or> (lossy \<and> q' = q)"

text \<open>
  What the processor does with a message, as a relation between the store and the dead letters before and
  after; \<open>lossy\<close> tells that statements, commits and writes may fail.
\<close>

fun settles :: "('k \<Rightarrow> string \<Rightarrow> string \<Rightarrow> goerr option) \<Rightarrow> (world, 'k) afc_Service \<Rightarrow> bool \<Rightarrow> kafka_Received
  \<Rightarrow> database \<times> kafka_Received list \<Rightarrow> database \<times> kafka_Received list \<Rightarrow> bool" where
  "settles verify s lossy m (d, q) (d', q') \<longleftrightarrow>
     (case afc_decodeMsg verify s (km_Value m) of
        Inl _ \<Rightarrow> d' = d \<and> buried lossy m [] q q'
      | Inr (v, i) \<Rightarrow>
          if known_status v
          then (tried lossy (nat (as_retries s)) v i None d d' \<and> q' = q) \<or>
               (\<exists>e. tried lossy (nat (as_retries s)) v i (Some e) d d' \<and> buried lossy m (formHeaders e (km_Partition m)) q q')
          else d' = d \<and> buried lossy m (formHeaders afc_ErrUnknownStatus (km_Partition m)) q q')"

fun settles_all :: "('k \<Rightarrow> string \<Rightarrow> string \<Rightarrow> goerr option) \<Rightarrow> (world, 'k) afc_Service \<Rightarrow> bool \<Rightarrow> kafka_Received list
  \<Rightarrow> database \<times> kafka_Received list \<Rightarrow> database \<times> kafka_Received list \<Rightarrow> bool" where
  "settles_all verify s lossy [] x y \<longleftrightarrow> y = x"
| "settles_all verify s lossy (m # ms) x y \<longleftrightarrow> (\<exists>z. settles verify s lossy m x z \<and> settles_all verify s lossy ms z y)"

lemma settles_all_append:
  "settles_all verify s lossy (ms @ ms') x y \<longleftrightarrow> (\<exists>z. settles_all verify s lossy ms x z \<and> settles_all verify s lossy ms' z y)"
  by (induction ms arbitrary: x) auto

lemma more_fields: "store.more w' = store.more (w :: world) \<Longrightarrow> dlq w' = dlq w \<and> committed w' = committed w"
  by (cases w; cases w') simp

lemma logged_cases:
  assumes "statement (\<lambda>w. (Inr (), f w)) w = (r, w')" "\<And>w. db (f w) = db (w :: world)" "\<And>w. faults (f w) = faults w"
  shows "db w' = db w \<and> (faults w = [] \<longrightarrow> faults w' = [])"
    and "dlq w' = dlq w \<and> committed w' = committed w \<and> faults w \<noteq> [] \<or> (\<exists>u. w' = f u \<and> dlq u = dlq w \<and> committed u = committed w)"
proof -
  obtain x w1 where x: "next_fault w = (x, w1)" by force
  note c = calmD [OF calm_next_fault x] db_next_fault [OF x]
  have w': "w' = w1 \<and> x \<noteq> None \<or> w' = f w1" using assms(1) x by (auto simp: statement_def split: option.splits fault.splits)
  show "db w' = db w \<and> (faults w = [] \<longrightarrow> faults w' = [])" using w' c assms(2, 3) by auto
  have "x \<noteq> None \<Longrightarrow> faults w \<noteq> []" using x by (auto simp: next_fault_none)
  then show "dlq w' = dlq w \<and> committed w' = committed w \<and> faults w \<noteq> [] \<or> (\<exists>u. w' = f u \<and> dlq u = dlq w \<and> committed u = committed w)"
    using w' c more_fields by blast
qed

lemma dlq_write:
  assumes "kd_WriteMessages (as_dlqWriter (wired_afc n b o' k)) [x] w = (r, w')" "faults w = [] \<or> lossy"
  shows "db w' = db w \<and> (faults w' = [] \<or> lossy) \<and> committed w' = committed w \<and> (dlq w' = dlq w @ [x] \<or> lossy \<and> dlq w' = dlq w)"
  using assms logged_cases [of "\<lambda>w. w\<lparr>dlq := dlq w @ [x]\<rparr>" w r w']
  by (fastforce simp: wired_afc_def NewKafkaDLQWriter_def)

lemma commit_write:
  assumes "kr_CommitMessages (as_reader (wired_afc n b o' k)) ms w = (r, w')" "faults w = [] \<or> lossy"
  shows "db w' = db w \<and> (faults w' = [] \<or> lossy) \<and> dlq w' = dlq w \<and> (committed w' = committed w @ ms \<or> lossy \<and> committed w' = committed w)"
  using assms logged_cases [of "\<lambda>w. w\<lparr>committed := committed w @ ms\<rparr>" w r w']
  by (fastforce simp: wired_afc_def NewKafkaReader_def)

lemma attempts_unknown:
  assumes "\<not> known_status v" "afc_attempts s ctx i v (Suc m) err0 w = (err, w')"
  shows "err = Some afc_ErrUnknownStatus \<and> w' = w"
  using assms by (auto simp: afc_processVerdict_def known_status_def afc_ErrUnknownStatus_def)

lemma processMessage_settles:
  fixes w :: world
  assumes "oo_jobsRepo o' = jobsrepo" "faults w = [] \<or> lossy"
    and "w' = afc_processMessage verify (wired_afc n b o' k) background m w"
  shows "settles verify (wired_afc n b o' k) lossy m (db w, dlq w) (db w', dlq w') \<and> (faults w' = [] \<or> lossy) \<and> committed w' = committed w"
proof -
  let ?s = "wired_afc n b o' k :: (world, 'a) afc_Service"
  show ?thesis
  proof (cases "afc_decodeMsg verify ?s (km_Value m)")
    case (Inl e)
    obtain r w1 where r: "kd_WriteMessages (as_dlqWriter ?s) [m\<lparr>km_Topic := []\<rparr>] w = (r, w1)" by force
    then have "w' = w1" using assms(3) Inl by (simp add: afc_processMessage_def)
    with dlq_write [OF r assms(2)] Inl show ?thesis by (auto simp: buried_def)
  next
    case (Inr vi)
    then obtain v i where vi: "vi = (v, i)" by force
    obtain err w1 where a: "afc_attempts ?s background i v (Suc 2) None w = (err, w1)" by force
    have three: "nat (as_retries ?s) = Suc 2" by simp
    show ?thesis
    proof (cases err)
      case None
      then have "w' = w1" using assms(3) Inr vi a three by (simp add: afc_processMessage_def del: wired_afc_simps afc_attempts.simps)
      moreover have kn: "known_status v" using attempts_unknown a None by fastforce
      ultimately show ?thesis
        using attempts_known [OF assms(1) kn assms(2) a] more_fields [of w1 w] None Inr vi three by simp
    next
      case (Some e)
      let ?m = "m\<lparr>km_Headers := km_Headers m @ formHeaders e (km_Partition m), km_Topic := []\<rparr>"
      obtain r w2 where r: "kd_WriteMessages (as_dlqWriter ?s) [?m] w1 = (r, w2)" by force
      have w': "w' = w2"
        using assms(3) Inr vi a three Some r by (simp add: afc_processMessage_def del: wired_afc_simps afc_attempts.simps)
      show ?thesis
      proof (cases "known_status v")
        case True
        note t = attempts_known [OF assms(1) True assms(2) a]
        then have "faults w1 = [] \<or> lossy" "dlq w1 = dlq w" "committed w1 = committed w" using more_fields [of w1 w] by auto
        moreover from dlq_write [OF r this(1)] this have
          "db w2 = db w1 \<and> (faults w2 = [] \<or> lossy) \<and> committed w2 = committed w
            \<and> buried lossy m (formHeaders e (km_Partition m)) (dlq w) (dlq w2)" by (auto simp: buried_def)
        ultimately show ?thesis using t Some Inr vi three w' True by auto
      next
        case False
        with attempts_unknown [OF False a] Some have "e = afc_ErrUnknownStatus" "w1 = w" by auto
        with dlq_write [OF r, of lossy] assms(2) have
          "db w2 = db w \<and> (faults w2 = [] \<or> lossy) \<and> committed w2 = committed w
            \<and> buried lossy m (formHeaders afc_ErrUnknownStatus (km_Partition m)) (dlq w) (dlq w2)" by (auto simp: buried_def)
        then show ?thesis using False Inr vi w' by simp
      qed
    qed
  qed
qed

lemma processBatch_settles:
  fixes w :: world
  assumes "oo_jobsRepo o' = jobsrepo" "faults w = [] \<or> lossy" "w' = afc_processBatch verify (wired_afc n b o' k) background ms w"
  shows "settles_all verify (wired_afc n b o' k) lossy ms (db w, dlq w) (db w', dlq w') \<and> (faults w' = [] \<or> lossy) \<and> committed w' = committed w"
  using assms(2, 3)
proof (induction ms arbitrary: w)
  case (Cons m ms)
  let ?w1 = "afc_processMessage verify (wired_afc n b o' k) background m w"
  note one = processMessage_settles [OF assms(1) Cons.prems(1) refl, of verify n b k m]
  with Cons.IH [of ?w1] Cons.prems(2) show ?case by (auto simp del: settles.simps)
qed simp

definition given :: "(nat \<Rightarrow> consumer_input list option) \<Rightarrow> kafka_Received set" where
  "given readers = {m. \<exists>i ins. readers i = Some ins \<and> Fetched m \<in> set ins}"

lemma collect_given: "afc_collect n ins ms = Batch ms' rest \<Longrightarrow>
    set ms' \<subseteq> set ms \<union> {m. Fetched m \<in> set ins} \<and> set rest \<subseteq> set ins"
  by (induction n ins ms rule: afc_collect.induct) auto

lemma Run_settles:
  assumes "oo_jobsRepo o' = jobsrepo" "faults w = [] \<or> lossy"
    and "afc_Run verify (wired_afc n b o' k) background sched readers w = (readers', w')"
  shows "\<exists>ms. settles_all verify (wired_afc n b o' k) lossy ms (db w, dlq w) (db w', dlq w') \<and> set ms \<subseteq> given readers \<and>
    set (committed w') \<subseteq> set (committed w) \<union> set ms \<and> (lossy \<or> committed w' = committed w @ ms)"
  using assms(2, 3)
proof (induction sched arbitrary: readers w)
  case Nil
  then show ?case by (intro exI [of _ "[]"]) auto
next
  case (Cons ic sched)
  let ?s = "wired_afc n b o' k :: (world, 'a) afc_Service"
  obtain i c where ic: "ic = (i, c)" by force
  show ?case
  proof (cases "if int i < as_consumers ?s then readers i else None")
    case None
    with Cons ic show ?thesis by simp
  next
    case (Some ins)
    then have ri: "readers i = Some ins" by (simp split: if_splits)
    show ?thesis
    proof (cases "\<exists>ms rest. afc_collect (nat b) ins [] = Batch ms rest \<and> \<not> c")
      case False
      then obtain ins' where "afc_round verify ?s background c ins w = (ins', w)" "ins' = None \<or> ins' = Some ins"
        by (cases "afc_collect (nat b) ins []") (auto simp: afc_round_def)
      moreover from this have "given (readers(i := ins')) \<subseteq> given readers" using ri by (auto simp: given_def split: if_splits)
      moreover have "afc_Run verify ?s background sched (readers(i := ins')) w = (readers', w')"
        using Cons.prems(2) ic Some calculation(1) by simp
      ultimately show ?thesis using Cons.IH [OF Cons.prems(1)] by blast
    next
      case True
      then obtain ms rest where b: "afc_collect (nat b) ins [] = Batch ms rest" "\<not> c" by blast
      let ?w1 = "afc_processBatch verify ?s background ms w"
      obtain r w2 where r: "kr_CommitMessages (as_reader ?s) ms ?w1 = (r, w2)" by force
      have rest: "afc_Run verify ?s background sched (readers(i := Some rest)) w2 = (readers', w')"
        using Cons.prems(2) ic Some b r by (simp add: afc_round_def)
      note one = processBatch_settles [OF assms(1) Cons.prems(1) refl, of verify n b k ms]
      from one have "faults ?w1 = [] \<or> lossy" by blast
      note two = commit_write [OF r this]
      have c1: "settles_all verify ?s lossy ms (db w, dlq w) (db w2, dlq w2)" "faults w2 = [] \<or> lossy"
        "committed w2 = committed w @ ms \<or> lossy \<and> committed w2 = committed w"
        using one two by metis+
      obtain ms' where ms': "settles_all verify ?s lossy ms' (db w2, dlq w2) (db w', dlq w')" "set ms' \<subseteq> given (readers(i := Some rest))"
        "set (committed w') \<subseteq> set (committed w2) \<union> set ms'" "lossy \<or> committed w' = committed w2 @ ms'"
        using Cons.IH [OF c1(2) rest] by blast
      have "given (readers(i := Some rest)) \<subseteq> given readers" "set ms \<subseteq> given readers"
        using collect_given [OF b(1)] ri by (auto simp: given_def split: if_splits)
      then have "set (ms @ ms') \<subseteq> given readers" "set (committed w') \<subseteq> set (committed w) \<union> set (ms @ ms')"
        "lossy \<or> committed w' = committed w @ ms @ ms'" using ms'(2-4) c1(3) by auto
      moreover have "settles_all verify ?s lossy (ms @ ms') (db w, dlq w) (db w', dlq w')"
        using c1(1) ms'(1) unfolding settles_all_append by blast
      ultimately show ?thesis by blast
    qed
  qed
qed

section \<open>Properties\<close>

abbreviation main_verdicts where
  "main_verdicts pem pkix brokers consumers consumerGroup vt dt signingKey batchSize n i t p \<equiv>
     main_afcVerdictProcessor pem pkix brokers consumers consumerGroup vt dt signingKey batchSize (wired_outbox n i t p)"

text \<open>
  C24. No verdict is passed over.  Whatever the consumers fetch, in whatever order they take turns, what
  a run does to the store and to the dead letters is to settle a sequence of fetched messages one after
  the other, and only messages it has settled are committed to the broker.  Settling a message that does
  not decode, or whose status is unknown, leaves the store alone and buries it; a known verdict takes
  effect as a whole, or is buried with its last error after three failed attempts.  When nothing fails,
  a verdict that takes effect does so exactly once, no letter is lost, and exactly the settled messages
  are committed, in their order.
\<close>

theorem verdicts_settled:
  assumes "main_verdicts pem pkix brokers consumers consumerGroup vt dt signingKey batchSize n i t p = Inr s"
    and "afc_Run verify s background sched readers w = (readers', w')"
  shows "\<exists>ms. settles_all verify s (faults w \<noteq> []) ms (db w, dlq w) (db w', dlq w') \<and> set ms \<subseteq> given readers \<and>
    set (committed w') \<subseteq> set (committed w) \<union> set ms \<and> (faults w \<noteq> [] \<or> committed w' = committed w @ ms)"
proof -
  obtain key where s: "s = wired_afc consumers batchSize (wired_outbox n i t p) key"
    by (rule main_afc_wired [OF assms(1)])
  show ?thesis
    unfolding s by (rule Run_settles [OF wired_outbox_simps(1) _ assms(2) [unfolded s]]) simp
qed

lemma decode_payload:
  assumes "afc_decodeMsg verify s msg = Inr (v, i)"
  shows "types_Parse (v_MessageID v) = (i, None)"
  using assms by (auto simp: afc_decodeMsg_def split: sum.splits prod.splits option.splits)


text \<open>A message that carries a signature of its first two parts under the key of the service.\<close>

definition signed :: "('k \<Rightarrow> string \<Rightarrow> string \<Rightarrow> goerr option) \<Rightarrow> (world, 'k) afc_Service \<Rightarrow> string \<Rightarrow> bool" where
  "signed verify s msg \<longleftrightarrow>
     (case (as_publicKey s, strings_Split (CHR ''.'') msg) of
        (Some key, [h, p, g]) \<Rightarrow> verify key (h @ ''.'' @ p) g = None
      | _ \<Rightarrow> False)"

lemma decode_signed:
  assumes "afc_decodeMsg verify s msg = Inr x" "as_publicKey s = Some key"
  shows "signed verify s msg"
proof -
  have "length (strings_Split (CHR ''.'') msg) = 3"
    using assms by (auto simp: afc_decodeMsg_def Let_def split: if_splits)
  then obtain h p g where "strings_Split (CHR ''.'') msg = [h, p, g]"
    by (auto simp: numeral_3_eq_3 length_Suc_conv)
  with assms show ?thesis
    by (auto simp: signed_def afc_decodeMsg_def Let_def split: sum.splits option.splits)
qed

lemma settles_undecoded:
  assumes "settles_all verify s lossy ms x y" "\<forall>m \<in> set ms. \<exists>e. afc_decodeMsg verify s (km_Value m) = Inl e"
  shows "fst y = fst x"
  using assms
proof (induction ms arbitrary: x)
  case (Cons m ms)
  then obtain z where z: "settles verify s lossy m x z" "settles_all verify s lossy ms z y" by auto
  then have "fst z = fst x" using Cons.prems(2) by (cases x; cases z) auto
  with Cons z show ?case by simp
qed simp

text \<open>
  C26. Verdicts cannot be forged.  When a signing key is configured and no fetched message carries a
  signature that the key verifies, a run changes nothing in the store.
\<close>

theorem forged_verdicts_harmless:
  assumes "main_verdicts pem pkix brokers consumers consumerGroup vt dt signingKey batchSize n i t p = Inr s"
    and "signingKey \<noteq> []" and "given readers \<inter> {m. signed verify s (km_Value m)} = {}"
    and "afc_Run verify s background sched readers w = (readers', w')"
  shows "db w' = db w"
proof -
  obtain key where s: "s = wired_afc consumers batchSize (wired_outbox n i t p) key" "key = None \<longleftrightarrow> signingKey = []"
    by (rule main_afc_wired [OF assms(1)])
  then obtain k where k: "as_publicKey s = Some k" using assms(2) by auto
  obtain ms where ms: "settles_all verify s (faults w \<noteq> []) ms (db w, dlq w) (db w', dlq w')" "set ms \<subseteq> given readers"
    using Run_settles [OF wired_outbox_simps(1) _ assms(4) [unfolded s(1)], where lossy = "faults w \<noteq> []"] s(1) by blast
  have "\<exists>e. afc_decodeMsg verify s (km_Value m) = Inl e" if "m \<in> set ms" for m
    using decode_signed [OF _ k] that ms(2) assms(3) by (cases "afc_decodeMsg verify s (km_Value m)") auto
  with settles_undecoded [OF ms(1)] show ?thesis by simp
qed

text \<open>
  C27. A verdict can be lost.  The failure of a write of a dead letter is only logged: a message that does
  not decode, and whose dead letter cannot be written, is committed to the broker all the same, and then
  neither the store nor the dead letters nor the broker holds it.
\<close>

theorem verdict_lost:
  assumes "main_verdicts pem pkix brokers consumers consumerGroup vt dt signingKey 1 n i t p = Inr s"
    and "afc_decodeMsg verify s (km_Value m) = Inl e" and "faults w = [Some (Fails x)]"
  shows "\<exists>w'. afc_round verify s background False (Fetched m # ins) w = (Some ins, w') \<and>
    db w' = db w \<and> dlq w' = dlq w \<and> committed w' = committed w @ [m]"
proof -
  obtain key where s: "s = wired_afc consumers 1 (wired_outbox n i t p) key"
    by (rule main_afc_wired [OF assms(1)])
  show ?thesis using assms(2, 3)
    by (simp add: s afc_round_def afc_processMessage_def wired_afc_def NewKafkaDLQWriter_def NewKafkaReader_def
        statement_def next_fault_def)
qed

text \<open>A broken message, a good one, and the wiring with and without a key.\<close>

definition broken_message :: kafka_Received where
  "broken_message = \<lparr>km_Key = [], km_Value = [], km_Time = 3, km_Topic = ''afc'', km_Partition = 0, km_Offset = 9, km_Headers = []\<rparr>"

definition sample_verdict :: verdict where
  "sample_verdict = \<lparr>v_ChatID = [], v_MessageID = uuid_encodeHex (raw (Id 5 :: MessageID)), v_Status = statusOk\<rparr>"

definition verdict_text :: "verdict \<Rightarrow> string" where
  "verdict_text v = json_Marshal (JObj [(''chatId'', JStr (v_ChatID v)), (''messageId'', JStr (v_MessageID v)), (''status'', JStr (v_Status v))])"

abbreviation sample_afc :: "string \<Rightarrow> (world, unit) afc_Service result" where
  "sample_afc signingKey \<equiv> main_verdicts Some (\<lambda>_. Inr (Some ())) [''broker:9092''] 1 ''group'' ''verdicts'' ''dlq'' signingKey 1
     1 second minute (wired_producer None)"

lemma sample_afc_eq:
  "sample_afc [] = Inr (wired_afc 1 1 (wired_outbox 1 second minute (wired_producer None)) None)"
  "sample_afc ''key'' = Inr (wired_afc 1 1 (wired_outbox 1 second minute (wired_producer None)) (Some ()))"
  by (simp_all add: main_afcVerdictProcessor_def afc_New_def afc_NewOptions_def WithVerdictsSignKey_def WithProcessBatchSize_def
      afc_Options_Validate_def validate_options_None [THEN iffD2] duration_defs Let_def wired_afc_def NewKafkaReader_def NewKafkaDLQWriter_def)

lemma broken_decode: "afc_decodeMsg verify (wired_afc 1 1 o' None) [] = Inl (errorf_v ''unmarshal verdict'' (New ''json.SyntaxError'' ''invalid JSON''))"
  by (simp add: afc_decodeMsg_def json_into_def json_Unmarshal_def skip_ws_def numeral_2_eq_2 read_value.simps)

lemma quiet_writes:
  "faults w = [] \<Longrightarrow> kd_WriteMessages (as_dlqWriter (wired_afc n b o' k)) ms w = (Inr (), w\<lparr>dlq := dlq w @ ms\<rparr>)"
  "faults w = [] \<Longrightarrow> kr_CommitMessages (as_reader (wired_afc n b o' k)) ms w = (Inr (), w\<lparr>committed := committed w @ ms\<rparr>)"
  by (simp_all add: wired_afc_def NewKafkaDLQWriter_def NewKafkaReader_def statement_no_fault)

lemma broken_fields [simp]: "km_Value broken_message = []" "km_Headers broken_message = []"
  by (simp_all add: broken_message_def)

theorem verdicts_settled_witness:
  "\<exists>s w' ms. sample_afc [] = Inr s \<and>
     afc_Run (\<lambda>_ _ _. None) s background [(0, False)] [0 \<mapsto> [Fetched broken_message]] (quiet_world empty_database 7) = ([0 \<mapsto> []], w') \<and>
     dlq w' = [broken_message\<lparr>km_Topic := []\<rparr>] \<and> committed w' = ms \<and> settles_all (\<lambda>_ _ _. None) s False ms (empty_database, []) (db w', dlq w')"
proof -
  let ?s = "wired_afc 1 1 (wired_outbox 1 second minute (wired_producer None)) None :: (world, unit) afc_Service"
  let ?w = "quiet_world empty_database 7"
  obtain rd w' where run: "afc_Run (\<lambda>_ _ _. None) ?s background [(0, False)] [0 \<mapsto> [Fetched broken_message]] ?w = (rd, w')" by force
  have "rd = [0 \<mapsto> []]" "dlq w' = [broken_message\<lparr>km_Topic := []\<rparr>]"
    using run by (auto simp: afc_round_def afc_processMessage_def broken_decode quiet_writes)
  then show ?thesis using verdicts_settled [OF sample_afc_eq(1) run] run by (auto simp: sample_afc_eq)
qed

lemma sample_decode: "afc_decodeMsg verify (wired_afc 1 1 o' None) (verdict_text sample_verdict) = Inr (sample_verdict, Id 5)"
proof -
  have "json_Unmarshal (verdict_text sample_verdict) =
      Inr (JObj [(''chatId'', JStr []), (''messageId'', JStr (uuid_encodeHex 5)), (''status'', JStr ''ok'')])"
    unfolding verdict_text_def by (subst json_roundtrip) (simp_all add: sample_verdict_def statusOk_def utf8_repair_ascii)
  then show ?thesis
    by (simp add: afc_decodeMsg_def json_into_def decode_object_def verdict_fields_def json_field_def decode_string_def
        sample_verdict_def statusOk_def types_Parse_def uuid_Parse_encodeHex)
qed


theorem forged_verdicts_harmless_witness:
  "\<exists>s rd w'. sample_afc ''key'' = Inr s \<and>
     afc_Run (\<lambda>_ _ _. Some (New ''rsa'' ''bad'')) s background [(0, False)] [0 \<mapsto> [Fetched (broken_message\<lparr>km_Value := ''a.b.c''\<rparr>)]]
       (quiet_world sample_send_db 7) = (rd, w') \<and> db w' = sample_send_db"
proof -
  let ?s = "wired_afc 1 1 (wired_outbox 1 second minute (wired_producer None)) (Some ()) :: (world, unit) afc_Service"
  let ?v = "\<lambda>_ _ _. Some (New ''rsa'' ''bad'')" and ?r = "[0 \<mapsto> [Fetched (broken_message\<lparr>km_Value := ''a.b.c''\<rparr>)]]"
  obtain rd w' where run: "afc_Run ?v ?s background [(0, False)] ?r (quiet_world sample_send_db 7) = (rd, w')" by force
  have "given ?r \<inter> {m. signed ?v ?s (km_Value m)} = {}" by (auto simp: given_def signed_def split: if_splits)
  from forged_verdicts_harmless [OF sample_afc_eq(2) _ this run] run show ?thesis by (auto simp: sample_afc_eq)
qed

theorem verdict_lost_witness:
  "\<exists>s w'. sample_afc [] = Inr s \<and>
     afc_round (\<lambda>_ _ _. None) s background False [Fetched broken_message] ((quiet_world empty_database 7)\<lparr>faults := [Some (Fails ''down'')]\<rparr>)
       = (Some [], w') \<and> dlq w' = [] \<and> committed w' = [broken_message]"
proof -
  let ?w = "(quiet_world empty_database 7)\<lparr>faults := [Some (Fails ''down'')]\<rparr>"
  have d: "afc_decodeMsg (\<lambda>_ _ _. None) (wired_afc 1 1 (wired_outbox 1 second minute (wired_producer None)) (None :: unit option))
      (km_Value broken_message) = Inl (errorf_v ''unmarshal verdict'' (New ''json.SyntaxError'' ''invalid JSON''))"
    by (simp add: broken_decode)
  have "faults ?w = [Some (Fails ''down'')]" by simp
  from verdict_lost [OF sample_afc_eq(1) d this, of "[]"] show ?thesis by (auto simp: sample_afc_eq)
qed

end
