(* ===== verification/Startup.thy ===== *)
theory Startup
  imports Config Websocket ManagerApi ClientApi Verdicts Managers
begin

text \<open>
  How the service starts: the configuration is read and checked, and every part is built from it in the order of
  \<open>run\<close> (\<open>cmd/chat-service/main.go\<close>), each with its options validated once more: the logger
  (\<open>internal/logger\<close>), the debug server (\<open>internal/server-debug\<close>), the client of PostgreSQL
  (\<open>internal/store/client_psql.go\<close>), the repositories, and the parts of the other theories.  What the parts ask
  of the outside while they are built is an argument.  The property says which configurations get through.
\<close>

section \<open>The repositories\<close>

text \<open>The four packages have the same options and constructor but for the text of the error.\<close>

record repo_Options =
  ro_db :: "unit option"

definition repo_NewOptions where
  "repo_NewOptions d options = foldl (\<lambda>o' opt. opt o') (\<lparr>ro_db = d\<rparr> :: repo_Options) options"

definition repo_Options_Validate :: "repo_Options \<Rightarrow> goerr option" where
  "repo_Options_Validate o' = validate_options [(''db'', iface (ro_db o'), [Required])]"

definition repo_New :: "string \<Rightarrow> repo_Options \<Rightarrow> unit result" where
  "repo_New what opts =
     (case repo_Options_Validate opts of Some err \<Rightarrow> Inl (errorf_v what err) | None \<Rightarrow> Inr ())"

definition messagesrepo_New :: "repo_Options \<Rightarrow> unit result" where
  "messagesrepo_New = repo_New ''failed to validate options messagesrepo''"
definition chatsrepo_New :: "repo_Options \<Rightarrow> unit result" where
  "chatsrepo_New = repo_New ''validate options''"
definition problemsrepo_New :: "repo_Options \<Rightarrow> unit result" where
  "problemsrepo_New = repo_New ''failed to validate options problemsrepo''"
definition jobsrepo_New :: "repo_Options \<Rightarrow> unit result" where
  "jobsrepo_New = repo_New ''failed to validate options jobsrepo''"

section \<open>The logger\<close>

record logger_Options =
  lo_level :: string
  lo_productionMode :: bool
  lo_sentryDSN :: string
  lo_sentryEnv :: string

definition logger_NewOptions where
  "logger_NewOptions level options =
     foldl (\<lambda>o' opt. opt o') \<lparr>lo_level = level, lo_productionMode = False, lo_sentryDSN = [], lo_sentryEnv = []\<rparr> options"

definition WithProductionMode :: "bool \<Rightarrow> logger_Options \<Rightarrow> logger_Options" where
  "WithProductionMode opt o' = o'\<lparr>lo_productionMode := opt\<rparr>"
definition WithSentryDSN :: "string \<Rightarrow> logger_Options \<Rightarrow> logger_Options" where
  "WithSentryDSN opt o' = o'\<lparr>lo_sentryDSN := opt\<rparr>"
definition WithSentryEnv :: "string \<Rightarrow> logger_Options \<Rightarrow> logger_Options" where
  "WithSentryEnv opt o' = o'\<lparr>lo_sentryEnv := opt\<rparr>"

text \<open>The texts of generated options with the tag \<open>url\<close>, which \<open>options_errors\<close> does not have.\<close>

definition config_options_errors :: "(string \<times> gvalue \<times> config_tag list) list \<Rightarrow> string list" where
  "config_options_errors fs =
     List.map_filter (\<lambda>(f, v, ts). map_option (\<lambda>t. ''('' @ f @ ''): field `'' @ f @ ''` did not pass the test: ''
       @ field_error_text [] [] t) (run_config_tags ts v)) fs"

definition logger_Options_Validate :: "logger_Options \<Rightarrow> goerr option" where
  "logger_Options_Validate o' =
     (let es = config_options_errors
        [(''level'', VStr (lo_level o'), [Basic Required, Basic (OneOf [''debug'', ''info'', ''warn'', ''error''])]),
         (''sentryDSN'', VStr (lo_sentryDSN o'), [Basic Omitempty, UrlTag]),
         (''sentryEnv'', VStr (lo_sentryEnv o'), [Basic Omitempty, Basic (OneOf [''dev'', ''stage'', ''prod''])])]
      in if es = [] then None else Some (Errorf (''ValidationErrors: '' @ join ''; '' es) None))"

text \<open>\<open>zap.ParseAtomicLevel\<close>: the texts of levels, also in upper case.\<close>

definition zap_levels :: "string list" where
  "zap_levels = [''debug'', ''info'', ''warn'', ''error'', ''dpanic'', ''panic'', ''fatal'']"

definition zap_ParseAtomicLevel :: "string \<Rightarrow> string result" where
  "zap_ParseAtomicLevel text =
     (let l = url_ToLower text in
      if text = [] then Inr ''info''
      else if l \<in> set zap_levels then Inr l
      else Inl (Errorf (''unrecognized level: '' @ strconv_Quote text) None))"

text \<open>\<open>sentry\<close> is \<open>NewSentryClient\<close> with the version of the build; the logger itself is not modelled.\<close>

definition logger_Init :: "(string \<Rightarrow> string \<Rightarrow> goerr option) \<Rightarrow> logger_Options \<Rightarrow> goerr option" where
  "logger_Init sentry opts =
     (case logger_Options_Validate opts of
        Some err \<Rightarrow> Some (errorf_v ''failed to validate options logger'' err)
      | None \<Rightarrow>
          (case zap_ParseAtomicLevel (lo_level opts) of
             Inl err \<Rightarrow> Some (errorf_v ''failed to parse level'' err)
           | Inr Level \<Rightarrow>
               if lo_sentryDSN opts = [] then None
               else (case sentry (lo_sentryDSN opts) (if lo_productionMode opts then ''prod'' else ''dev'') of
                       Some e \<Rightarrow> Some (errorf_v ''new sentry client'' e)
                     | None \<Rightarrow> None)))"

section \<open>The debug server\<close>

record debug_Options =
  do_addr :: string
  do_v1ClientSwagger :: "unit option"
  do_v1ManagerSwagger :: "unit option"
  do_eventsSwagger :: "unit option"

definition debug_NewOptions where
  "debug_NewOptions addr v1ClientSwagger v1ManagerSwagger eventsSwagger options =
     foldl (\<lambda>o' opt. opt o') \<lparr>do_addr = addr, do_v1ClientSwagger = v1ClientSwagger, do_v1ManagerSwagger = v1ManagerSwagger,
       do_eventsSwagger = eventsSwagger\<rparr> options"

definition debug_Options_Validate :: "debug_Options \<Rightarrow> goerr option" where
  "debug_Options_Validate o' = validate_options
     [(''addr'', VStr (do_addr o'), [Required, HostnamePort]), (''v1ClientSwagger'', iface (do_v1ClientSwagger o'), [Required]),
      (''v1ManagerSwagger'', iface (do_v1ManagerSwagger o'), [Required]), (''eventsSwagger'', iface (do_eventsSwagger o'), [Required])]"

text \<open>The address, the routes, and the pages that the index lists with their descriptions.\<close>

record debug_Server =
  dg_Addr :: string
  dg_routes :: "(string \<times> string) list"
  dg_pages :: "(string \<times> string) list"

definition debug_New :: "debug_Options \<Rightarrow> debug_Server result" where
  "debug_New opts =
     (case debug_Options_Validate opts of
        Some err \<Rightarrow> Inl (errorf_v ''failed to validate options serverdebug'' err)
      | None \<Rightarrow> Inr \<lparr>dg_Addr = do_addr opts,
          dg_routes = [(''GET'', ''/version''), (''PUT'', ''/log/level''), (''GET'', ''/debug/pprof/*''), (''GET'', ''/debug/error''),
            (''GET'', ''/debug/log-levels''), (''GET'', ''/schema/client''), (''GET'', ''/schema/manager''),
            (''GET'', ''schema/events''), (''GET'', ''/'')],
          dg_pages = [(''/version'', ''Get build information''), (''/debug/pprof/'', ''Go std profiler''),
            (''/debug/pprof/profile?seconds=30'', ''Take half-min profile''), (''/debug/error'', ''Send Sentry error event''),
            (''/debug/log-levels'', ''Send all log levels messages''), (''/schema/client'', ''Get client OpenAPI specification''),
            (''/schema/manager'', ''Get manager OpenAPI specification''), (''/schema/events'', ''Get events OpenAPI specification'')]\<rparr>)"

section \<open>The client of PostgreSQL\<close>

record PSQLOptions =
  so_address :: string
  so_username :: string
  so_password :: string
  so_database :: string
  so_production :: bool
  so_debugMode :: bool

definition NewPSQLOptions where
  "NewPSQLOptions address username password database' production options =
     foldl (\<lambda>o' opt. opt o') \<lparr>so_address = address, so_username = username, so_password = password,
       so_database = database', so_production = production, so_debugMode = False\<rparr> options"

definition psql_WithDebugMode :: "bool \<Rightarrow> PSQLOptions \<Rightarrow> PSQLOptions" where
  "psql_WithDebugMode opt o' = o'\<lparr>so_debugMode := opt\<rparr>"

definition PSQLOptions_Validate :: "PSQLOptions \<Rightarrow> goerr option" where
  "PSQLOptions_Validate o' = validate_options
     [(''address'', VStr (so_address o'), [Required, HostnamePort]), (''username'', VStr (so_username o'), [Required]),
      (''password'', VStr (so_password o'), [Required]), (''database'', VStr (so_database o'), [Required])]"

record PgxOptions =
  xo_address :: string
  xo_username :: string
  xo_password :: string
  xo_database :: string

definition NewPgxOptions where
  "NewPgxOptions address username password database' options =
     foldl (\<lambda>o' opt. opt o') \<lparr>xo_address = address, xo_username = username, xo_password = password,
       xo_database = database'\<rparr> options"

definition PgxOptions_Validate :: "PgxOptions \<Rightarrow> goerr option" where
  "PgxOptions_Validate o' = validate_options
     [(''address'', VStr (xo_address o'), [Required, HostnamePort]), (''username'', VStr (xo_username o'), [Required]),
      (''password'', VStr (xo_password o'), [Required]), (''database'', VStr (xo_database o'), [Required])]"

text \<open>The name of the data source as the parts of its URL; \<open>sql_Open\<close> is the driver.\<close>

record data_source =
  dn_Scheme :: string
  dn_User :: "string \<times> string"
  dn_Host :: string
  dn_Path :: string

definition NewPgxDB :: "(string \<Rightarrow> data_source \<Rightarrow> goerr option) \<Rightarrow> PgxOptions \<Rightarrow> unit result" where
  "NewPgxDB sql_Open opts =
     (case PgxOptions_Validate opts of
        Some err \<Rightarrow> Inl (errorf_v ''failed to validate pgxOptions store'' err)
      | None \<Rightarrow>
          (case sql_Open ''pgx'' \<lparr>dn_Scheme = ''postgresql'', dn_User = (xo_username opts, xo_password opts),
                  dn_Host = xo_address opts, dn_Path = xo_database opts\<rparr> of
             Some err \<Rightarrow> Inl err
           | None \<Rightarrow> Inr ()))"

definition NewPSQLClient :: "(string \<Rightarrow> data_source \<Rightarrow> goerr option) \<Rightarrow> PSQLOptions \<Rightarrow> unit result" where
  "NewPSQLClient sql_Open opts =
     (case PSQLOptions_Validate opts of
        Some err \<Rightarrow> Inl (errorf_v ''failed to validate PSQLOptions store'' err)
      | None \<Rightarrow>
          (case NewPgxDB sql_Open (NewPgxOptions (so_address opts) (so_username opts) (so_password opts) (so_database opts) []) of
             Inl err \<Rightarrow> Inl (errorf_v ''failed to init db driver'' err)
           | Inr _ \<Rightarrow> Inr ()))"

section \<open>The start\<close>

text \<open>
  What \<open>run\<close> asks of the outside: the TOML file, Sentry, the OpenAPI documents embedded in the generated code
  (of the clients, the managers and the events), the driver and the schema of the database, Keycloak over HTTP, AES-GCM,
  PEM and PKIX, and what the two servers need of their environment, their websocket handlers among it.
\<close>

record 'k start_env =
  st_DecodeFile :: "string \<Rightarrow> Config result"
  st_sentry :: "string \<Rightarrow> string \<Rightarrow> goerr option"
  st_clientSwagger :: "unit result"
  st_managerSwagger :: "unit result"
  st_eventsSwagger :: "unit result"
  st_sqlOpen :: "string \<Rightarrow> data_source \<Rightarrow> goerr option"
  st_schemaCreate :: "goerr option"
  st_post :: http_post
  st_gcm :: "string \<Rightarrow> aead"
  st_pem :: "string \<Rightarrow> string option"
  st_pkix :: "string \<Rightarrow> 'k option result"
  st_client :: "(GetHistoryRequest, SendMessageRequest, world) api_environment"
  st_manager :: "world manager_environment"

text \<open>What runs in the end, besides the pool, the event stream and the store, which are part of the world.\<close>

record 'k services =
  rs_debug :: debug_Server
  rs_client :: "world Server"
  rs_manager :: "world Server"
  rs_outBox :: "world outbox_Service"
  rs_afc :: "(world, 'k) afc_Service"


text \<open>\<open>run\<close> from the logger to the schema.\<close>

definition main_infrastructure :: "'k start_env \<Rightarrow> Config \<Rightarrow> (debug_Server \<times> keycloak_Client) result" where
  "main_infrastructure env cfg =
     (case logger_Init (st_sentry env) (logger_NewOptions (lc_Level (co_Log cfg))
             [WithProductionMode (config_IsProduction cfg), WithSentryDSN (sn_DSN (co_Sentry cfg)),
              WithSentryEnv (gl_Env (co_Global cfg))]) of
        Some err \<Rightarrow> Inl (errorf_v ''failed to init logger'' err)
      | None \<Rightarrow>
     (case st_clientSwagger env of
        Inl err \<Rightarrow> Inl (errorf_v ''failed to get client swagger'' err)
      | Inr clientSwagger \<Rightarrow>
     (case st_managerSwagger env of
        Inl err \<Rightarrow> Inl (errorf_v ''failed to get client swagger'' err)
      | Inr managerSwagger \<Rightarrow>
     (case st_eventsSwagger env of
        Inl err \<Rightarrow> Inl (errorf_v ''failed to get events swagger'' err)
      | Inr eventsSwagger \<Rightarrow>
     (case debug_New (debug_NewOptions (ds_Addr (se_Debug (co_Servers cfg))) (Some clientSwagger) (Some managerSwagger)
             (Some eventsSwagger) []) of
        Inl err \<Rightarrow> Inl (errorf_v ''failed to init debug server'' err)
      | Inr srvDebug \<Rightarrow>
     (let k = cc_Keycloak (co_Clients cfg) in
      case keycloak_New (keycloak_NewOptions (kk_BasePath k) (kk_Realm k) (kk_ClientID k) (kk_ClientSecret k)
             (config_IsProduction cfg) [keycloak_WithDebugMode (kk_DebugMode k)]) of
        Inl err \<Rightarrow> Inl (errorf_w ''init keycloak client'' err)
      | Inr kcClient \<Rightarrow>
     (let p = dc_Postgres (co_DB cfg) in
      case NewPSQLClient (st_sqlOpen env) (NewPSQLOptions (pg_Addr p) (pg_User p) (pg_Password p) (pg_Database p)
             (config_IsProduction cfg) [psql_WithDebugMode (pg_DebugMode p)]) of
        Inl err \<Rightarrow> Inl (errorf_v ''failed to init psql client'' err)
      | Inr _ \<Rightarrow>
     (case st_schemaCreate env of
        Some err \<Rightarrow> Inl (errorf_v ''failed to init schema'' err)
      | None \<Rightarrow> Inr (srvDebug, kcClient)))))))))"

definition main_repositories :: "unit result" where
  "main_repositories =
     (case messagesrepo_New (repo_NewOptions (Some ()) []) of
        Inl err \<Rightarrow> Inl (errorf_v ''failed to init message repo'' err)
      | Inr _ \<Rightarrow>
     (case chatsrepo_New (repo_NewOptions (Some ()) []) of
        Inl err \<Rightarrow> Inl (errorf_v ''failed to init chat repo'' err)
      | Inr _ \<Rightarrow>
     (case problemsrepo_New (repo_NewOptions (Some ()) []) of
        Inl err \<Rightarrow> Inl (errorf_v ''failed to init problem repo'' err)
      | Inr _ \<Rightarrow>
     (case jobsrepo_New (repo_NewOptions (Some ()) []) of
        Inl err \<Rightarrow> Inl (errorf_v ''failed to init jobs repo'' err)
      | Inr _ \<Rightarrow> Inr ()))))"

text \<open>
  The parts, with their repositories.  \<open>run\<close> makes the outbox before the producer and registers the jobs
  after it, which is what \<open>main_outbox\<close> does for a producer that it is given; \<open>None\<close> is the panic of a
  \<open>Must\<close>.
\<close>

definition main_parts ::
  "'k start_env \<Rightarrow> Config \<Rightarrow> debug_Server \<Rightarrow> keycloak_Client \<Rightarrow> 'k services result option" where
  "main_parts env cfg srvDebug kcClient =
     (let o' = sc_OutboxConfig (co_Services cfg); v = sc_AFCVerdictProcessorConfig (co_Services cfg);
          c = se_Client (co_Servers cfg); m = se_Manager (co_Servers cfg) in
      case outbox_New \<lparr>oo_workers = oc_Workers o', oo_idleTime = oc_IdleTime o', oo_reserveFor = oc_ReserveFor o',
             oo_jobsRepo = jobsrepo :: world jobsRepository, oo_txtor = RunInTx\<rparr> of
        Inl err \<Rightarrow> Some (Inl (errorf_v ''failed to init outbox service'' err))
      | Inr _ \<Rightarrow>
     (case msgproducer_New (st_gcm env) (msgproducer_NewOptions (Some topic_writer) []) of
        Inl err \<Rightarrow> Some (Inl (errorf_v ''failed to init message producer'' err))
      | Inr msgProducer \<Rightarrow>
     (case main_outbox (oc_Workers o') (oc_IdleTime o') (oc_ReserveFor o') msgProducer of
        None \<Rightarrow> None
      | Some (Inl err) \<Rightarrow> Some (Inl err)
      | Some (Inr outBox) \<Rightarrow>
     (case main_afcVerdictProcessor (st_pem env) (st_pkix env) (vc_Brokers v) (vc_Consumers v) (vc_ConsumerGroup v)
             (vc_VerdictsTopic v) (vc_VerdictsDlqTopic v) (vc_VerdictsSigningPublicKey v) (vc_BatchSize v) outBox of
        Inl err \<Rightarrow> Some (Inl err)
      | Inr afcVerdictProcessor \<Rightarrow>
     (case main_initServerClient (st_client env) (config_IsProduction cfg) (cs_Addr c) (cs_AllowOrigins c) (cs_SecWSProtocol c)
             (keycloak_IntrospectToken (st_post env) kcClient) (ra_Resource (cs_RequiredAccess c))
             (ra_Role (cs_RequiredAccess c)) outBox of
        Inl err \<Rightarrow> Some (Inl (errorf_v ''failed to init server'' err))
      | Inr srvClient \<Rightarrow>
     (case main_managerLoad (lo_MaxProblems (sc_ManagerLoadConfig (co_Services cfg))) of
        Inl err \<Rightarrow> Some (Inl (errorf_v ''failed to init load service'' err))
      | Inr mngLoad \<Rightarrow>
     (case main_initServerManager (st_manager env) (config_IsProduction cfg) (gs_Addr m) (gs_AllowOrigins m) (gs_SecWSProtocol m)
             (keycloak_IntrospectToken (st_post env) kcClient) (ra_Resource (gs_RequiredAccess m))
             (ra_Role (gs_RequiredAccess m)) mngLoad of
        Inl err \<Rightarrow> Some (Inl (errorf_v ''failed to init manager server'' err))
      | Inr srvManager \<Rightarrow>
          Some (Inr \<lparr>rs_debug = srvDebug, rs_client = srvClient, rs_manager = srvManager, rs_outBox = outBox,
            rs_afc = afcVerdictProcessor\<rparr>))))))))"

definition main_run :: "'k start_env \<Rightarrow> string \<Rightarrow> 'k services result option" where
  "main_run env configPath =
     (case ParseAndValidate (st_DecodeFile env) configPath of
        Inl err \<Rightarrow> Some (Inl (errorf_v (''failed to parse and validate config '' @ strconv_Quote configPath) err))
      | Inr cfg \<Rightarrow>
     (case main_infrastructure env cfg of
        Inl err \<Rightarrow> Some (Inl err)
      | Inr (srvDebug, kcClient) \<Rightarrow>
     (case main_repositories of
        Inl err \<Rightarrow> Some (Inl err)
      | Inr _ \<Rightarrow> main_parts env cfg srvDebug kcClient)))"

section \<open>Which configurations start\<close>

definition addr_ok :: "string \<Rightarrow> bool" where
  "addr_ok s \<longleftrightarrow> s \<noteq> [] \<and> is_hostname_port s"

definition access_ok :: "RequiredAccess \<Rightarrow> bool" where
  "access_ok a \<longleftrightarrow> ra_Resource a \<noteq> [] \<and> ra_Role a \<noteq> []"

text \<open>What the tags of the configuration say.\<close>

definition servers_ok :: "ServersConfig \<Rightarrow> bool" where
  "servers_ok s \<longleftrightarrow> addr_ok (ds_Addr (se_Debug s))
     \<and> addr_ok (cs_Addr (se_Client s)) \<and> list_all isURL (cs_AllowOrigins (se_Client s)) \<and> cs_SecWSProtocol (se_Client s) \<noteq> []
     \<and> access_ok (cs_RequiredAccess (se_Client s))
     \<and> addr_ok (gs_Addr (se_Manager s)) \<and> list_all isURL (gs_AllowOrigins (se_Manager s)) \<and> gs_SecWSProtocol (se_Manager s) \<noteq> []
     \<and> access_ok (gs_RequiredAccess (se_Manager s))"

definition keycloak_ok :: "Keycloak \<Rightarrow> bool" where
  "keycloak_ok k \<longleftrightarrow> kk_BasePath k \<noteq> [] \<and> kk_Realm k \<noteq> [] \<and> kk_ClientID k \<noteq> [] \<and> kk_ClientSecret k \<noteq> []"

definition postgres_ok :: "PostgresConfig \<Rightarrow> bool" where
  "postgres_ok p \<longleftrightarrow> pg_User p \<noteq> [] \<and> pg_Password p \<noteq> [] \<and> addr_ok (pg_Addr p) \<and> pg_Database p \<noteq> []"

definition services_ok :: "ServicesConfig \<Rightarrow> bool" where
  "services_ok s \<longleftrightarrow>
     (let p = sc_MsgProducerConfig s; o' = sc_OutboxConfig s; v = sc_AFCVerdictProcessorConfig s in
      list_all addr_ok (pc_Brokers p) \<and> pc_Topic p \<noteq> [] \<and> 1 \<le> pc_BatchSize p \<and> pc_BatchSize p \<le> 1000
      \<and> 1 \<le> oc_Workers o' \<and> oc_IdleTime o' \<noteq> 0 \<and> oc_ReserveFor o' \<noteq> 0
      \<and> 1 \<le> lo_MaxProblems (sc_ManagerLoadConfig s)
      \<and> list_all addr_ok (vc_Brokers v) \<and> 1 \<le> vc_Consumers v \<and> vc_Consumers v \<le> 1000 \<and> vc_ConsumerGroup v \<noteq> []
      \<and> vc_VerdictsTopic v \<noteq> [] \<and> vc_VerdictsDlqTopic v \<noteq> [] \<and> vc_VerdictsSigningPublicKey v \<noteq> []
      \<and> 1 \<le> vc_BatchSize v \<and> vc_BatchSize v \<le> 1000)"

definition config_ok :: "Config \<Rightarrow> bool" where
  "config_ok c \<longleftrightarrow> keycloak_ok (cc_Keycloak (co_Clients c)) \<and> gl_Env (co_Global c) \<in> {''dev'', ''stage'', ''prod''}
     \<and> lc_Level (co_Log c) \<in> {''debug'', ''info'', ''warn'', ''error''} \<and> servers_ok (co_Servers c)
     \<and> postgres_ok (dc_Postgres (co_DB c)) \<and> services_ok (co_Services c)"

lemma passes_simps:
  "config_passes (required_field f s) \<longleftrightarrow> s \<noteq> []"
  "config_passes (hostport_field f s) \<longleftrightarrow> addr_ok s"
  "config_passes (AllowOrigins_field xs) \<longleftrightarrow> list_all isURL xs"
  "config_passes (Brokers_field xs) \<longleftrightarrow> list_all addr_ok xs"
proof -
  have "isURL s \<Longrightarrow> s \<noteq> []" for s by (auto simp: isURL_def)
  then have url: "run_config_tags [Basic Required, UrlTag] (VStr s) = None \<longleftrightarrow> isURL s" for s by auto
  have "s \<noteq> [] \<Longrightarrow> 1 \<le> int (rune_count s)" for s by (cases s) auto
  then have broker: "run_config_tags [Basic Required, Basic HostnamePort, Basic (MinT 1)] (VStr s) = None \<longleftrightarrow> addr_ok s" for s
    by (auto simp: addr_ok_def)
  show "config_passes (required_field f s) \<longleftrightarrow> s \<noteq> []" "config_passes (hostport_field f s) \<longleftrightarrow> addr_ok s"
    by (auto simp: required_field_def hostport_field_def addr_ok_def)
  show "config_passes (AllowOrigins_field xs) \<longleftrightarrow> list_all isURL xs" "config_passes (Brokers_field xs) \<longleftrightarrow> list_all addr_ok xs"
    unfolding AllowOrigins_field_def Brokers_field_def config_passes.simps list_all_iff using url broker by auto
qed

lemma servers_passes: "list_all config_passes (ServersConfig_fields s) \<longleftrightarrow> servers_ok s"
  by (simp add: ServersConfig_fields_def servers_ok_def RequiredAccess_fields_def access_ok_def passes_simps) blast

lemma services_passes: "list_all config_passes (ServicesConfig_fields s) \<longleftrightarrow> services_ok s"
  unfolding ServicesConfig_fields_def services_ok_def Let_def by (auto simp: passes_simps)

lemma config_Validate_ok: "config_Validate c = None \<longleftrightarrow> config_ok c"
proof -
  have "config_Validate c = None \<longleftrightarrow> config_passes (Config_fields c)"
    unfolding config_Validate_def Let_def config_errors_None by simp
  also have "\<dots> \<longleftrightarrow> config_ok c"
    by (auto simp: Config_fields_def config_ok_def servers_passes services_passes Keycloak_fields_def PostgresConfig_fields_def
        keycloak_ok_def postgres_ok_def passes_simps)
  finally show ?thesis .
qed


text \<open>What the start asks beyond the tags: of the outside, and of the options of the parts.\<close>

definition infrastructure_up :: "'k start_env \<Rightarrow> Config \<Rightarrow> bool" where
  "infrastructure_up env c \<longleftrightarrow>
     (let dsn = sn_DSN (co_Sentry c); p = dc_Postgres (co_DB c) in
      (dsn = [] \<or> isURL dsn \<and> st_sentry env dsn (if config_IsProduction c then ''prod'' else ''dev'') = None)
      \<and> st_clientSwagger env = Inr () \<and> st_managerSwagger env = Inr () \<and> st_eventsSwagger env = Inr ()
      \<and> st_sqlOpen env ''pgx'' \<lparr>dn_Scheme = ''postgresql'', dn_User = (pg_User p, pg_Password p), dn_Host = pg_Addr p,
            dn_Path = pg_Database p\<rparr> = None
      \<and> st_schemaCreate env = None)"

definition options_ok :: "'k start_env \<Rightarrow> Config \<Rightarrow> 'k \<Rightarrow> bool" where
  "options_ok env c key \<longleftrightarrow>
     (let o' = sc_OutboxConfig (co_Services c); v = sc_AFCVerdictProcessorConfig (co_Services c) in
      oc_Workers o' \<le> 32 \<and> 100 * millisecond \<le> oc_IdleTime o' \<and> oc_IdleTime o' \<le> 10 * second
      \<and> second \<le> oc_ReserveFor o' \<and> oc_ReserveFor o' \<le> 10 * minute
      \<and> vc_Brokers v \<noteq> [] \<and> vc_Consumers v \<le> 16
      \<and> (\<exists>der. st_pem env (vc_VerdictsSigningPublicKey v) = Some der \<and> st_pkix env der = Inr (Some key))
      \<and> cs_AllowOrigins (se_Client (co_Servers c)) \<noteq> [] \<and> gs_AllowOrigins (se_Manager (co_Servers c)) \<noteq> []
      \<and> lo_MaxProblems (sc_ManagerLoadConfig (co_Services c)) \<le> 30)"

lemma tag_addr: "run_tags [Required, HostnamePort] (VStr s) = None \<longleftrightarrow> addr_ok s"
  by (simp add: addr_ok_def)

lemma zap_levels_parse:
  "zap_ParseAtomicLevel ''debug'' = Inr ''debug''" "zap_ParseAtomicLevel ''info'' = Inr ''info''"
  "zap_ParseAtomicLevel ''warn'' = Inr ''warn''" "zap_ParseAtomicLevel ''error'' = Inr ''error''"
  by code_simp+

lemma logger_Init_ok:
  "logger_Init sentry o' = None \<longleftrightarrow> lo_level o' \<in> {''debug'', ''info'', ''warn'', ''error''}
     \<and> (lo_sentryEnv o' = [] \<or> lo_sentryEnv o' \<in> {''dev'', ''stage'', ''prod''})
     \<and> (lo_sentryDSN o' = [] \<or> isURL (lo_sentryDSN o') \<and>
          sentry (lo_sentryDSN o') (if lo_productionMode o' then ''prod'' else ''dev'') = None)"
proof -
  have empty: "config_options_errors fs = [] \<longleftrightarrow> (\<forall>(f, v, ts) \<in> set fs. run_config_tags ts v = None)" for fs
    by (induction fs) (auto simp: config_options_errors_def List.map_filter_def)
  have levels: "l \<in> {''debug'', ''info'', ''warn'', ''error''} \<Longrightarrow> zap_ParseAtomicLevel l = Inr l" for l
    using zap_levels_parse by blast
  have v: "logger_Options_Validate o' = None \<longleftrightarrow> lo_level o' \<in> {''debug'', ''info'', ''warn'', ''error''}
      \<and> (lo_sentryDSN o' = [] \<or> isURL (lo_sentryDSN o'))
      \<and> (lo_sentryEnv o' = [] \<or> lo_sentryEnv o' \<in> {''dev'', ''stage'', ''prod''})"
    unfolding logger_Options_Validate_def Let_def by (simp add: empty)
  show ?thesis
  proof (cases "logger_Options_Validate o'")
    case None
    with v levels have "zap_ParseAtomicLevel (lo_level o') = Inr (lo_level o')" by blast
    then have "logger_Init sentry o' = None \<longleftrightarrow> lo_sentryDSN o' = [] \<or>
        sentry (lo_sentryDSN o') (if lo_productionMode o' then ''prod'' else ''dev'') = None"
      using None by (simp add: logger_Init_def split: option.split)
    with v None show ?thesis by blast
  next
    case (Some e)
    with v show ?thesis by (auto simp: logger_Init_def)
  qed
qed

lemma debug_New_ok:
  "(\<exists>s. debug_New (debug_NewOptions a (Some ()) (Some ()) (Some ()) []) = Inr s) \<longleftrightarrow> addr_ok a"
proof -
  have "debug_Options_Validate (debug_NewOptions a (Some ()) (Some ()) (Some ()) []) = None \<longleftrightarrow> addr_ok a"
    unfolding debug_Options_Validate_def validate_options_None by (simp add: debug_NewOptions_def addr_ok_def)
  then show ?thesis by (auto simp: debug_New_def split: option.splits)
qed

lemma psql_ok:
  "NewPSQLClient sql (NewPSQLOptions a u p d pr [psql_WithDebugMode m]) = Inr () \<longleftrightarrow> addr_ok a \<and> u \<noteq> [] \<and> p \<noteq> [] \<and> d \<noteq> []
     \<and> sql ''pgx'' \<lparr>dn_Scheme = ''postgresql'', dn_User = (u, p), dn_Host = a, dn_Path = d\<rparr> = None"
proof -
  have "PSQLOptions_Validate (NewPSQLOptions a u p d pr [psql_WithDebugMode m]) = None \<longleftrightarrow> addr_ok a \<and> u \<noteq> [] \<and> p \<noteq> [] \<and> d \<noteq> []"
    unfolding PSQLOptions_Validate_def validate_options_None
    by (simp add: NewPSQLOptions_def psql_WithDebugMode_def addr_ok_def)
  moreover have "PgxOptions_Validate (NewPgxOptions a u p d []) = None \<longleftrightarrow> addr_ok a \<and> u \<noteq> [] \<and> p \<noteq> [] \<and> d \<noteq> []"
    unfolding PgxOptions_Validate_def validate_options_None by (simp add: NewPgxOptions_def addr_ok_def)
  ultimately show ?thesis
    by (auto simp: NewPSQLClient_def NewPgxDB_def NewPSQLOptions_def psql_WithDebugMode_def NewPgxOptions_def
        split: option.splits)
qed

lemma keycloak_New_ok:
  "(\<exists>k. keycloak_New (keycloak_NewOptions b r i c p [keycloak_WithDebugMode m]) = Inr k) \<longleftrightarrow> b \<noteq> [] \<and> r \<noteq> [] \<and> i \<noteq> [] \<and> c \<noteq> []"
proof -
  have "keycloak_Options_Validate (keycloak_NewOptions b r i c p [keycloak_WithDebugMode m]) = None \<longleftrightarrow>
      b \<noteq> [] \<and> r \<noteq> [] \<and> i \<noteq> [] \<and> c \<noteq> []"
    unfolding keycloak_Options_Validate_def validate_options_None by (simp add: keycloak_NewOptions_def keycloak_WithDebugMode_def)
  then show ?thesis by (auto simp: keycloak_New_def split: option.splits)
qed

lemma outbox_New_iff:
  "(\<exists>s. outbox_New \<lparr>oo_workers = n, oo_idleTime = i, oo_reserveFor = t, oo_jobsRepo = r, oo_txtor = x\<rparr> = Inr s) \<longleftrightarrow>
     1 \<le> n \<and> n \<le> 32 \<and> 100 * millisecond \<le> i \<and> i \<le> 10 * second \<and> second \<le> t \<and> t \<le> 10 * minute"
proof -
  have "outbox_Options_Validate \<lparr>oo_workers = n, oo_idleTime = i, oo_reserveFor = t, oo_jobsRepo = r, oo_txtor = x\<rparr> = None \<longleftrightarrow>
      1 \<le> n \<and> n \<le> 32 \<and> 100 * millisecond \<le> i \<and> i \<le> 10 * second \<and> second \<le> t \<and> t \<le> 10 * minute"
    unfolding outbox_Options_Validate_def validate_options_None by auto
  then show ?thesis by (auto simp: outbox_New_def split: option.splits)
qed

lemma main_repositories_ok: "main_repositories = Inr ()"
proof -
  have "repo_Options_Validate (repo_NewOptions (Some ()) []) = None"
    unfolding repo_Options_Validate_def validate_options_None by (simp add: repo_NewOptions_def)
  then show ?thesis
    by (simp add: main_repositories_def messagesrepo_New_def chatsrepo_New_def problemsrepo_New_def jobsrepo_New_def repo_New_def)
qed

lemma msgproducer_wired: "msgproducer_New gcm (msgproducer_NewOptions (Some topic_writer) []) = Inr (wired_producer None)"
  by (simp add: msgproducer_New_def msgproducer_NewOptions_def msgproducer_Options_Validate_def
      validate_options_None [THEN iffD2] wired_producer_def)


lemma server_Validate_ok:
  "server_Options_Validate (server_NewOptions (Some ()) a os (Some ()) (Some rh) (Some it) res role proto (Some eh) []) = None \<longleftrightarrow>
     addr_ok a \<and> os \<noteq> [] \<and> res \<noteq> [] \<and> role \<noteq> [] \<and> proto \<noteq> []"
  unfolding server_Options_Validate_def validate_options_None
  by (auto simp: server_NewOptions_def addr_ok_def Suc_le_eq)

lemma server_New_ok:
  "(\<exists>s. server_New (server_NewOptions (Some ()) a os (Some ()) (Some rh) (Some it) res role proto (Some eh) []) = Inr s) \<longleftrightarrow>
     addr_ok a \<and> os \<noteq> [] \<and> res \<noteq> [] \<and> role \<noteq> [] \<and> proto \<noteq> []"
  by (subst server_Validate_ok [symmetric]) (auto simp: server_New_def Let_def split: option.splits)

lemma pass_on: "(case x of Inl e \<Rightarrow> Inl (f e) | Inr v \<Rightarrow> Inr v) = Inr s \<longleftrightarrow> x = Inr s"
  by (auto split: sum.splits)

lemma initServerClient_ok:
  "(\<exists>s. main_initServerClient en p a os proto it res role outBox = Inr s) \<longleftrightarrow>
     addr_ok a \<and> os \<noteq> [] \<and> res \<noteq> [] \<and> role \<noteq> [] \<and> proto \<noteq> []"
proof -
  obtain h where "main_errHandler p = Inr h"
    by (simp add: main_errHandler_def errhandler_New_def errhandler_NewOptions_def errhandler_Options_Validate_def
        validate_options_None [THEN iffD2])
  then show ?thesis
    by (simp add: pass_on server_New_ok main_initServerClient_def main_getHistory_wired main_sendMessage_wired clientv1_NewHandlers_def
      clientv1_NewOptions_def clientv1_Options_Validate_def validate_options_None [THEN iffD2])
qed

lemma initServerManager_ok:
  assumes "main_managerLoad n = Inr ml"
  shows "(\<exists>s. main_initServerManager en p a os proto it res role ml = Inr s) \<longleftrightarrow>
     addr_ok a \<and> os \<noteq> [] \<and> res \<noteq> [] \<and> role \<noteq> [] \<and> proto \<noteq> []"
proof -
  obtain h where "main_errHandler p = Inr h"
    by (simp add: main_errHandler_def errhandler_New_def errhandler_NewOptions_def errhandler_Options_Validate_def
        validate_options_None [THEN iffD2])
  then show ?thesis
    by (simp add: pass_on server_New_ok main_initServerManager_def main_canReceiveProblems_def canreceiveproblems_New_def canreceiveproblems_NewOptions_def
      canreceiveproblems_Options_Validate_def main_freeHands_def freehands_New_def freehands_NewOptions_def freehands_Options_Validate_def
      managerv1_NewHandlers_def managerv1_NewOptions_def managerv1_Options_Validate_def
      validate_options_None [THEN iffD2])
qed

lemma managerLoad_ok: "(\<exists>ml. main_managerLoad n = Inr ml) \<longleftrightarrow> 1 \<le> n \<and> n \<le> 30"
proof -
  have "managerload_Options_Validate (managerload_NewOptions n (Some f) []) = None \<longleftrightarrow> 1 \<le> n \<and> n \<le> 30" for f :: "world problems_count"
    unfolding managerload_Options_Validate_def validate_options_None by (auto simp: managerload_NewOptions_def)
  then show ?thesis by (auto simp: main_managerLoad_def managerload_New_def split: option.splits)
qed

lemma afc_ok:
  assumes "sign \<noteq> []"
  shows "main_afcVerdictProcessor pem pkix brokers n grp vt dt sign b outBox = Inr s \<longleftrightarrow>
     brokers \<noteq> [] \<and> 1 \<le> n \<and> n \<le> 16 \<and> grp \<noteq> [] \<and> vt \<noteq> [] \<and> 1 \<le> b \<and> b \<le> 1000
     \<and> (\<exists>der key. pem sign = Some der \<and> pkix der = Inr (Some key) \<and> s = wired_afc n b outBox (Some key))"
proof -
  have parts: "NewKafkaReader x y z = NewKafkaReader [] [] []" "NewKafkaDLQWriter x y = NewKafkaDLQWriter [] []" for x y z
    by (simp_all add: NewKafkaReader_def NewKafkaDLQWriter_def)
  let ?o = "afc_NewOptions brokers n grp vt (Some NewKafkaReader) (Some (NewKafkaDLQWriter brokers dt)) (Some RunInTx)
     (Some \<lparr>amr_MarkAsVisibleForManager = messagesrepo_MarkAsVisibleForManager, amr_BlockMessage = messagesrepo_BlockMessage\<rparr>)
     (Some (outbox_Put outBox)) [WithVerdictsSignKey sign, WithProcessBatchSize b]"
  have v: "afc_Options_Validate ?o = None \<longleftrightarrow> brokers \<noteq> [] \<and> 1 \<le> n \<and> n \<le> 16 \<and> grp \<noteq> [] \<and> vt \<noteq> [] \<and> 1 \<le> b \<and> b \<le> 1000"
    unfolding afc_Options_Validate_def validate_options_None
    by (auto simp: afc_NewOptions_def WithVerdictsSignKey_def WithProcessBatchSize_def duration_defs Suc_le_eq)
  show ?thesis
  proof (cases "afc_Options_Validate ?o")
    case None
    with v assms show ?thesis
      by (auto simp: main_afcVerdictProcessor_def afc_New_def afc_NewOptions_def WithVerdictsSignKey_def WithProcessBatchSize_def
          Let_def wired_afc_def parts(1) [of brokers grp vt] parts(2) [of brokers dt] split: option.splits sum.splits)
  next
    case (Some e)
    with v show ?thesis by (auto simp: main_afcVerdictProcessor_def afc_New_def)
  qed
qed


text \<open>What is built from a configuration that starts, with the key that checks the verdicts.\<close>

definition built_from :: "'k start_env \<Rightarrow> Config \<Rightarrow> 'k \<Rightarrow> 'k services \<Rightarrow> bool" where
  "built_from env c key s \<longleftrightarrow>
     (let k = cc_Keycloak (co_Clients c); o' = sc_OutboxConfig (co_Services c); v = sc_AFCVerdictProcessorConfig (co_Services c);
          cl = se_Client (co_Servers c); m = se_Manager (co_Servers c); prod' = config_IsProduction c;
          introspect = keycloak_IntrospectToken (st_post env) \<lparr>kc_realm = kk_Realm k, kc_clientID = kk_ClientID k,
            kc_clientSecret = kk_ClientSecret k, kc_baseURL = kk_BasePath k\<rparr>
      in debug_New (debug_NewOptions (ds_Addr (se_Debug (co_Servers c))) (Some ()) (Some ()) (Some ()) []) = Inr (rs_debug s)
         \<and> rs_outBox s = wired_outbox (oc_Workers o') (oc_IdleTime o') (oc_ReserveFor o') (wired_producer None)
         \<and> rs_afc s = wired_afc (vc_Consumers v) (vc_BatchSize v) (rs_outBox s) (Some key)
         \<and> main_initServerClient (st_client env) prod' (cs_Addr cl) (cs_AllowOrigins cl) (cs_SecWSProtocol cl) introspect
              (ra_Resource (cs_RequiredAccess cl)) (ra_Role (cs_RequiredAccess cl)) (rs_outBox s) = Inr (rs_client s)
         \<and> (\<exists>ml. main_managerLoad (lo_MaxProblems (sc_ManagerLoadConfig (co_Services c))) = Inr ml
              \<and> main_initServerManager (st_manager env) prod' (gs_Addr m) (gs_AllowOrigins m) (gs_SecWSProtocol m) introspect
                   (ra_Resource (gs_RequiredAccess m)) (ra_Role (gs_RequiredAccess m)) ml = Inr (rs_manager s)))"

definition starts :: "'k start_env \<Rightarrow> string \<Rightarrow> Config \<Rightarrow> 'k \<Rightarrow> bool" where
  "starts env path c key \<longleftrightarrow> st_DecodeFile env path = Inr c \<and> config_ok c \<and> infrastructure_up env c \<and> options_ok env c key"

text \<open>The two halves of the start.\<close>

lemma infrastructure_ok:
  assumes "config_ok c"
  shows "main_infrastructure env c = Inr (srvDebug, kc) \<longleftrightarrow> infrastructure_up env c
     \<and> debug_New (debug_NewOptions (ds_Addr (se_Debug (co_Servers c))) (Some ()) (Some ()) (Some ()) []) = Inr srvDebug
     \<and> kc = (let k = cc_Keycloak (co_Clients c) in \<lparr>kc_realm = kk_Realm k, kc_clientID = kk_ClientID k,
              kc_clientSecret = kk_ClientSecret k, kc_baseURL = kk_BasePath k\<rparr>)"
proof -
  let ?k = "cc_Keycloak (co_Clients c)" and ?p = "dc_Postgres (co_DB c)"
  let ?ko = "keycloak_NewOptions (kk_BasePath ?k) (kk_Realm ?k) (kk_ClientID ?k) (kk_ClientSecret ?k) (config_IsProduction c)
      [keycloak_WithDebugMode (kk_DebugMode ?k)]"
  let ?lo = "logger_NewOptions (lc_Level (co_Log c)) [WithProductionMode (config_IsProduction c), WithSentryDSN (sn_DSN (co_Sentry c)),
              WithSentryEnv (gl_Env (co_Global c))]"
  have lo: "lo_level ?lo = lc_Level (co_Log c)" "lo_sentryDSN ?lo = sn_DSN (co_Sentry c)" "lo_sentryEnv ?lo = gl_Env (co_Global c)"
    "lo_productionMode ?lo = config_IsProduction c"
    by (simp_all add: logger_NewOptions_def WithProductionMode_def WithSentryDSN_def WithSentryEnv_def)
  have log: "logger_Init (st_sentry env) ?lo = None \<longleftrightarrow> sn_DSN (co_Sentry c) = [] \<or>
      isURL (sn_DSN (co_Sentry c)) \<and> st_sentry env (sn_DSN (co_Sentry c)) (if config_IsProduction c then ''prod'' else ''dev'') = None"
    unfolding logger_Init_ok lo using assms by (simp add: config_ok_def)
  have "\<exists>k. keycloak_New ?ko = Inr k" unfolding keycloak_New_ok using assms by (simp add: config_ok_def keycloak_ok_def)
  then have kc: "keycloak_New ?ko = Inr \<lparr>kc_realm = kk_Realm ?k, kc_clientID = kk_ClientID ?k,
              kc_clientSecret = kk_ClientSecret ?k, kc_baseURL = kk_BasePath ?k\<rparr>"
    by (auto simp: keycloak_New_def keycloak_NewOptions_def keycloak_WithDebugMode_def split: option.splits)
  have psql: "NewPSQLClient sql (NewPSQLOptions (pg_Addr ?p) (pg_User ?p) (pg_Password ?p) (pg_Database ?p) b [psql_WithDebugMode m]) = Inr ()
      \<longleftrightarrow> sql ''pgx'' \<lparr>dn_Scheme = ''postgresql'', dn_User = (pg_User ?p, pg_Password ?p), dn_Host = pg_Addr ?p, dn_Path = pg_Database ?p\<rparr> = None"
    for sql b m unfolding psql_ok using assms by (auto simp: config_ok_def postgres_ok_def)
  have unit: "(case x of Inl e \<Rightarrow> Inl (f e) | Inr u \<Rightarrow> g u) = Inr y \<longleftrightarrow> x = Inr () \<and> g () = Inr y" for x :: "unit result" and f g y
    by (auto split: sum.splits)
  have opt: "(case x of Some e \<Rightarrow> Inl (f e) | None \<Rightarrow> g) = Inr y \<longleftrightarrow> x = None \<and> g = Inr y" for x :: "goerr option" and f g y
    by (auto split: option.splits)
  have dbg: "(case x of Inl e \<Rightarrow> Inl (f e) | Inr u \<Rightarrow> g u) = Inr y \<longleftrightarrow> (\<exists>u. x = Inr u \<and> g u = Inr y)" for x :: "debug_Server result" and f g y
    by (auto split: sum.splits)
  show ?thesis
    unfolding main_infrastructure_def opt unit log dbg Let_def kc sum.case psql infrastructure_up_def by auto
qed


text \<open>The calls of \<open>main_parts\<close> one by one, once the outbox has been accepted.\<close>

abbreviation conf_outBox :: "Config \<Rightarrow> OutboxConfig" where "conf_outBox c \<equiv> sc_OutboxConfig (co_Services c)"
abbreviation conf_afc :: "Config \<Rightarrow> AFCVerdictsProcessorConfig" where "conf_afc c \<equiv> sc_AFCVerdictProcessorConfig (co_Services c)"
abbreviation conf_max :: "Config \<Rightarrow> int" where "conf_max c \<equiv> lo_MaxProblems (sc_ManagerLoadConfig (co_Services c))"

definition part_outbox :: "Config \<Rightarrow> world outbox_Service" where
  "part_outbox c = wired_outbox (oc_Workers (conf_outBox c)) (oc_IdleTime (conf_outBox c)) (oc_ReserveFor (conf_outBox c)) (wired_producer None)"

definition part_outbox_New :: "Config \<Rightarrow> world outbox_Service result" where
  "part_outbox_New c = outbox_New \<lparr>oo_workers = oc_Workers (conf_outBox c), oo_idleTime = oc_IdleTime (conf_outBox c),
     oo_reserveFor = oc_ReserveFor (conf_outBox c), oo_jobsRepo = jobsrepo :: world jobsRepository, oo_txtor = RunInTx\<rparr>"

definition part_afc :: "'k start_env \<Rightarrow> Config \<Rightarrow> (world, 'k) afc_Service result" where
  "part_afc env c = main_afcVerdictProcessor (st_pem env) (st_pkix env) (vc_Brokers (conf_afc c)) (vc_Consumers (conf_afc c))
     (vc_ConsumerGroup (conf_afc c)) (vc_VerdictsTopic (conf_afc c)) (vc_VerdictsDlqTopic (conf_afc c))
     (vc_VerdictsSigningPublicKey (conf_afc c)) (vc_BatchSize (conf_afc c)) (part_outbox c)"

definition part_client :: "'k start_env \<Rightarrow> Config \<Rightarrow> keycloak_Client \<Rightarrow> world Server result" where
  "part_client env c kc = (let cl = se_Client (co_Servers c) in
     main_initServerClient (st_client env) (config_IsProduction c) (cs_Addr cl) (cs_AllowOrigins cl) (cs_SecWSProtocol cl)
       (keycloak_IntrospectToken (st_post env) kc) (ra_Resource (cs_RequiredAccess cl)) (ra_Role (cs_RequiredAccess cl)) (part_outbox c))"

definition part_manager :: "'k start_env \<Rightarrow> Config \<Rightarrow> keycloak_Client \<Rightarrow> world managerload_Service \<Rightarrow> world Server result" where
  "part_manager env c kc ml = (let m = se_Manager (co_Servers c) in
     main_initServerManager (st_manager env) (config_IsProduction c) (gs_Addr m) (gs_AllowOrigins m) (gs_SecWSProtocol m)
       (keycloak_IntrospectToken (st_post env) kc) (ra_Resource (gs_RequiredAccess m)) (ra_Role (gs_RequiredAccess m)) ml)"

lemma part_outbox_ok:
  assumes "config_ok c"
  shows "(\<exists>s. part_outbox_New c = Inr s) \<longleftrightarrow> oc_Workers (conf_outBox c) \<le> 32
     \<and> 100 * millisecond \<le> oc_IdleTime (conf_outBox c) \<and> oc_IdleTime (conf_outBox c) \<le> 10 * second
     \<and> second \<le> oc_ReserveFor (conf_outBox c) \<and> oc_ReserveFor (conf_outBox c) \<le> 10 * minute"
  unfolding part_outbox_New_def outbox_New_iff using assms by (auto simp: config_ok_def services_ok_def Let_def)

lemma part_afc_ok:
  assumes "config_ok c"
  shows "part_afc env c = Inr s \<longleftrightarrow> vc_Brokers (conf_afc c) \<noteq> [] \<and> vc_Consumers (conf_afc c) \<le> 16
     \<and> (\<exists>der key. st_pem env (vc_VerdictsSigningPublicKey (conf_afc c)) = Some der \<and> st_pkix env der = Inr (Some key)
          \<and> s = wired_afc (vc_Consumers (conf_afc c)) (vc_BatchSize (conf_afc c)) (part_outbox c) (Some key))"
  unfolding part_afc_def using assms by (subst afc_ok) (auto simp: config_ok_def services_ok_def Let_def)

lemma part_client_ok:
  assumes "config_ok c"
  shows "(\<exists>s. part_client env c kc = Inr s) \<longleftrightarrow> cs_AllowOrigins (se_Client (co_Servers c)) \<noteq> []"
  unfolding part_client_def Let_def initServerClient_ok
  using assms by (auto simp: config_ok_def servers_ok_def access_ok_def)

lemma part_load_ok:
  assumes "config_ok c"
  shows "(\<exists>ml. main_managerLoad (conf_max c) = Inr ml) \<longleftrightarrow> conf_max c \<le> 30"
  unfolding managerLoad_ok using assms by (auto simp: config_ok_def services_ok_def Let_def)

lemma part_manager_ok:
  assumes "config_ok c" and "main_managerLoad (conf_max c) = Inr ml"
  shows "(\<exists>s. part_manager env c kc ml = Inr s) \<longleftrightarrow> gs_AllowOrigins (se_Manager (co_Servers c)) \<noteq> []"
  unfolding part_manager_def Let_def initServerManager_ok [OF assms(2)]
  using assms(1) by (auto simp: config_ok_def servers_ok_def access_ok_def)

lemma main_parts_run:
  assumes "config_ok c"
  shows "main_parts env c srvDebug kc =
     (case part_outbox_New c of Inl err \<Rightarrow> Some (Inl (errorf_v ''failed to init outbox service'' err))
      | Inr _ \<Rightarrow> (case part_afc env c of Inl err \<Rightarrow> Some (Inl err)
      | Inr a \<Rightarrow> (case part_client env c kc of Inl err \<Rightarrow> Some (Inl (errorf_v ''failed to init server'' err))
      | Inr sc \<Rightarrow> (case main_managerLoad (conf_max c) of Inl err \<Rightarrow> Some (Inl (errorf_v ''failed to init load service'' err))
      | Inr ml \<Rightarrow> (case part_manager env c kc ml of Inl err \<Rightarrow> Some (Inl (errorf_v ''failed to init manager server'' err))
      | Inr sm \<Rightarrow> Some (Inr \<lparr>rs_debug = srvDebug, rs_client = sc, rs_manager = sm, rs_outBox = part_outbox c, rs_afc = a\<rparr>))))))"
proof (cases "part_outbox_New c")
  case (Inl e)
  then show ?thesis by (simp add: main_parts_def Let_def part_outbox_New_def)
next
  case (Inr s)
  have "main_outbox (oc_Workers (conf_outBox c)) (oc_IdleTime (conf_outBox c)) (oc_ReserveFor (conf_outBox c)) (wired_producer None)
      = Some (Inr (part_outbox c))"
    unfolding part_outbox_def
    using Inr part_outbox_ok [OF assms] assms by (intro main_outbox_ok) (auto simp: config_ok_def services_ok_def Let_def)
  with Inr show ?thesis
    unfolding main_parts_def Let_def part_outbox_New_def [symmetric] msgproducer_wired part_afc_def part_client_def part_manager_def
    by simp
qed

lemma options_ok_parts:
  assumes "config_ok c"
  shows "(\<exists>key. options_ok env c key) \<longleftrightarrow> (\<exists>o' a sc ml sm. part_outbox_New c = Inr o' \<and> part_afc env c = Inr a
     \<and> part_client env c kc = Inr sc \<and> main_managerLoad (conf_max c) = Inr ml \<and> part_manager env c kc ml = Inr sm)"
  unfolding part_afc_ok [OF assms]
  using part_outbox_ok [OF assms] part_client_ok [OF assms, of env kc] part_load_ok [OF assms] part_manager_ok [OF assms, of _ env kc]
  unfolding options_ok_def Let_def by blast


definition conf_keycloak :: "Config \<Rightarrow> keycloak_Client" where
  "conf_keycloak c = (let k = cc_Keycloak (co_Clients c) in \<lparr>kc_realm = kk_Realm k, kc_clientID = kk_ClientID k,
     kc_clientSecret = kk_ClientSecret k, kc_baseURL = kk_BasePath k\<rparr>)"

lemma main_parts_cases:
  assumes c: "config_ok c" and dbg: "debug_New (debug_NewOptions (ds_Addr (se_Debug (co_Servers c))) (Some ()) (Some ()) (Some ()) []) = Inr srvDebug"
  obtains (failed) e where "main_parts env c srvDebug (conf_keycloak c) = Some (Inl e)" "\<not> (\<exists>key. options_ok env c key)"
  | (built) s key where "main_parts env c srvDebug (conf_keycloak c) = Some (Inr s)" "options_ok env c key" "built_from env c key s"
proof (cases "\<exists>key. options_ok env c key")
  case True
  then obtain key where key: "options_ok env c key" by blast
  from True obtain o' a sc ml sm where r: "part_outbox_New c = Inr o'" "part_afc env c = Inr a"
    "part_client env c (conf_keycloak c) = Inr sc" "main_managerLoad (conf_max c) = Inr ml" "part_manager env c (conf_keycloak c) ml = Inr sm"
    unfolding options_ok_parts [OF c, of env "conf_keycloak c"] by blast
  then obtain der k where k: "st_pem env (vc_VerdictsSigningPublicKey (conf_afc c)) = Some der" "st_pkix env der = Inr (Some k)"
    "a = wired_afc (vc_Consumers (conf_afc c)) (vc_BatchSize (conf_afc c)) (part_outbox c) (Some k)"
    unfolding part_afc_ok [OF c] by blast
  have "k = key" using key k(1, 2) unfolding options_ok_def Let_def by auto
  let ?s = "\<lparr>rs_debug = srvDebug, rs_client = sc, rs_manager = sm, rs_outBox = part_outbox c, rs_afc = a\<rparr>"
  have "main_parts env c srvDebug (conf_keycloak c) = Some (Inr ?s)"
    unfolding main_parts_run [OF c] r(1-4) using r(5) by simp
  moreover have "built_from env c key ?s"
    using dbg r(3-5) k(3) \<open>k = key\<close>
    unfolding built_from_def Let_def part_client_def part_manager_def conf_keycloak_def part_outbox_def by simp
  ultimately show ?thesis by (rule built [OF _ key])
next
  case False
  then have "\<exists>e. main_parts env c srvDebug (conf_keycloak c) = Some (Inl e)"
    unfolding main_parts_run [OF c] options_ok_parts [OF c, of env "conf_keycloak c"] by (auto split: sum.splits)
  then show ?thesis using False failed by blast
qed

lemma main_run_cases:
  obtains (failed) e where "main_run env path = Some (Inl e)" "\<not> (\<exists>c key. starts env path c key)"
  | (built) s c key where "main_run env path = Some (Inr s)" "starts env path c key" "built_from env c key s"
proof (cases "ParseAndValidate (st_DecodeFile env) path")
  case (Inl e)
  then show ?thesis
    by (intro failed) (auto simp: main_run_def starts_def ParseAndValidate_def config_Validate_ok [symmetric] split: sum.splits option.splits)
next
  case (Inr c)
  then have c: "st_DecodeFile env path = Inr c" "config_ok c"
    by (auto simp: ParseAndValidate_def config_Validate_ok split: sum.splits option.splits)
  show ?thesis
  proof (cases "main_infrastructure env c")
    case (Inl e)
    have "\<not> infrastructure_up env c"
    proof
      assume "infrastructure_up env c"
      moreover obtain d where "debug_New (debug_NewOptions (ds_Addr (se_Debug (co_Servers c))) (Some ()) (Some ()) (Some ()) []) = Inr d"
        using debug_New_ok c(2) by (auto simp: config_ok_def servers_ok_def)
      ultimately have "main_infrastructure env c = Inr (d, conf_keycloak c)"
        using infrastructure_ok [OF c(2), of env d "conf_keycloak c"] by (simp add: conf_keycloak_def)
      with Inl show False by simp
    qed
    with Inl Inr c show ?thesis by (intro failed) (auto simp: main_run_def starts_def)
  next
    case infra: (Inr dk)
    obtain d k where dk: "dk = (d, k)" by force
    note i = infrastructure_ok [OF c(2), THEN iffD1, OF infra [unfolded dk]]
    have k: "k = conf_keycloak c" using i by (simp add: conf_keycloak_def)
    have addr: "debug_New (debug_NewOptions (ds_Addr (se_Debug (co_Servers c))) (Some ()) (Some ()) (Some ()) []) = Inr d"
      using i by simp
    have run: "main_run env path = main_parts env c d (conf_keycloak c)"
      using Inr infra dk k by (simp add: main_run_def main_repositories_ok)
    show ?thesis
    proof (rule main_parts_cases [OF c(2) addr, of env])
      fix e
      assume "main_parts env c d (conf_keycloak c) = Some (Inl e)" "\<nexists>key. options_ok env c key"
      then show ?thesis using run c by (intro failed) (auto simp: starts_def)
    next
      fix s key
      assume "main_parts env c d (conf_keycloak c) = Some (Inr s)" "options_ok env c key" "built_from env c key s"
      then show ?thesis using run c i by (intro built) (auto simp: starts_def)
    qed
  qed
qed

section \<open>The example configuration\<close>

text \<open>\<open>configs/config.example.toml\<close>.\<close>

definition example_key :: string where
  "example_key = ''-----BEGIN PUBLIC KEY-----'' @ [CHR 0x0A]
     @ ''MFwwDQYJKoZIhvcNAQEBBQADSwAwSAJBAKg4vfl9h1Caqh55IKMoxPXs0JwL2it2'' @ [CHR 0x0A]
     @ ''eJSl6dbfg6YmdcaLcNkz9LbbSBKO7qXhWD1HpPpg6zg+/3NOdK2mF2MCAwEAAQ=='' @ [CHR 0x0A]
     @ ''-----END PUBLIC KEY-----'' @ [CHR 0x0A]"

definition example_servers :: ServersConfig where
  "example_servers = \<lparr>
     se_Client = \<lparr>cs_Addr = '':8080'', cs_AllowOrigins = [''http://localhost:3011'', ''http://localhost:3000''],
       cs_SecWSProtocol = ''chat-service-protocol'',
       cs_RequiredAccess = \<lparr>ra_Resource = ''chat-ui-client'', ra_Role = ''support-chat-client''\<rparr>\<rparr>,
     se_Manager = \<lparr>gs_Addr = '':8081'', gs_AllowOrigins = [''http://localhost:3011'', ''http://localhost:3001''],
       gs_SecWSProtocol = ''chat-service-protocol'',
       gs_RequiredAccess = \<lparr>ra_Resource = ''chat-ui-manager'', ra_Role = ''support-chat-manager''\<rparr>\<rparr>,
     se_Debug = \<lparr>ds_Addr = '':8079''\<rparr>\<rparr>"

definition example_services :: ServicesConfig where
  "example_services = \<lparr>
     sc_MsgProducerConfig = \<lparr>pc_Brokers = [''localhost:9092''], pc_Topic = ''chat.messages'', pc_BatchSize = 1,
       pc_EncryptKey = ''51655468576D5A7134743777397A2443''\<rparr>,
     sc_OutboxConfig = \<lparr>oc_Workers = 2, oc_IdleTime = second, oc_ReserveFor = 5 * minute\<rparr>,
     sc_ManagerLoadConfig = \<lparr>lo_MaxProblems = 5\<rparr>,
     sc_AFCVerdictProcessorConfig = \<lparr>vc_Brokers = [''localhost:9092''], vc_Consumers = 2, vc_ConsumerGroup = ''afc.msg-analyzers'',
       vc_VerdictsTopic = ''afc.msg-verdicts'', vc_VerdictsDlqTopic = ''afc.msg-verdicts.dlq'',
       vc_VerdictsSigningPublicKey = example_key, vc_BatchSize = 1\<rparr>\<rparr>"

definition example_config :: Config where
  "example_config = \<lparr>
     co_Clients = \<lparr>cc_Keycloak = \<lparr>kk_BasePath = ''http://localhost:3010'', kk_Realm = ''Bank'', kk_ClientID = ''chat-service'',
       kk_ClientSecret = [CHR 0xD0, CHR 0xBF, CHR 0xD0, CHR 0xBE, CHR 0xD0, CHR 0xB4, CHR 0xD1, CHR 0x81, CHR 0xD1, CHR 0x82, CHR 0xD0,
       CHR 0xB0, CHR 0xD0, CHR 0xB2, CHR 0xD1, CHR 0x8C, CHR 0xD1, CHR 0x82, CHR 0xD0, CHR 0xB5, CHR 0x2D, CHR 0xD1,
       CHR 0x81, CHR 0xD0, CHR 0xB2, CHR 0xD0, CHR 0xBE, CHR 0xD0, CHR 0xB9, CHR 0x2D, CHR 0xD1, CHR 0x81, CHR 0xD0,
       CHR 0xB5, CHR 0xD0, CHR 0xBA, CHR 0xD1, CHR 0x80, CHR 0xD0, CHR 0xB5, CHR 0xD1, CHR 0x82],
       kk_DebugMode = False\<rparr>\<rparr>,
     co_Global = \<lparr>gl_Env = ''dev''\<rparr>,
     co_Log = \<lparr>lc_Level = ''info''\<rparr>,
     co_Servers = example_servers,
     co_Sentry = \<lparr>sn_DSN = ''DSN from Client Keys page''\<rparr>,
     co_DB = \<lparr>dc_Postgres = \<lparr>pg_User = ''chat-service'', pg_Password = ''chat-service'', pg_Addr = ''localhost:5432'',
       pg_Database = ''postgres'', pg_DebugMode = True\<rparr>\<rparr>,
     co_Services = example_services\<rparr>"

lemma example_addrs:
  "is_hostname_port '':8079''" "is_hostname_port '':8080''" "is_hostname_port '':8081''"
  "is_hostname_port ''localhost:5432''" "is_hostname_port ''localhost:9092''"
  by code_simp+

lemma example_urls:
  "isURL ''http://localhost:3011''" "isURL ''http://localhost:3000''" "isURL ''http://localhost:3001''"
  by code_simp+

lemma example_config_ok: "config_ok example_config"
proof -
  have "servers_ok example_servers"
    by (simp add: servers_ok_def example_servers_def addr_ok_def access_ok_def example_addrs example_urls)
  moreover have "services_ok example_services"
    by (simp add: services_ok_def example_services_def addr_ok_def example_addrs example_key_def second_def minute_def
        millisecond_def)
  ultimately show ?thesis
    by (simp add: config_ok_def example_config_def keycloak_ok_def postgres_ok_def addr_ok_def example_addrs)
qed

text \<open>
  It passes the validation of the configuration and does not start: the placeholder of the Sentry address is no URL,
  which the logger insists on.  With no Sentry address it starts, given its environment.
\<close>

theorem example_config_refused:
  "config_Validate example_config = None
   \<and> (\<exists>e. main_run (env\<lparr>st_DecodeFile := \<lambda>_. Inr example_config\<rparr>) path = Some (Inl e))"
proof -
  have "\<not> isURL ''DSN from Client Keys page''" by (rule isURL_examples)
  then have "\<not> infrastructure_up env' example_config" for env'
    by (simp add: infrastructure_up_def example_config_def)
  then show ?thesis
    using example_config_ok by (cases rule: main_run_cases [of "env\<lparr>st_DecodeFile := \<lambda>_. Inr example_config\<rparr>" path])
      (auto simp: config_Validate_ok starts_def)
qed

definition example_env :: "unit start_env" where
  "example_env = \<lparr>st_DecodeFile = \<lambda>_. Inr (example_config\<lparr>co_Sentry := \<lparr>sn_DSN = []\<rparr>\<rparr>), st_sentry = \<lambda>_ _. None,
     st_clientSwagger = Inr (), st_managerSwagger = Inr (), st_eventsSwagger = Inr (), st_sqlOpen = \<lambda>_ _. None,
     st_schemaCreate = None, st_post = \<lambda>_ _ _. Inl net_ErrClosed, st_gcm = sample_aead, st_pem = Some, st_pkix = \<lambda>_. Inr (Some ()),
     st_client = sample_environment, st_manager = sample_manager_environment\<rparr>"

lemma example_starts: "\<exists>s. main_run example_env path = Some (Inr s)"
proof -
  have "config_ok (example_config\<lparr>co_Sentry := \<lparr>sn_DSN = []\<rparr>\<rparr>)"
    using example_config_ok by (simp add: config_ok_def)
  then have "starts example_env path (example_config\<lparr>co_Sentry := \<lparr>sn_DSN = []\<rparr>\<rparr>) ()"
    by (simp add: starts_def infrastructure_up_def options_ok_def example_env_def example_config_def example_services_def
        example_servers_def second_def minute_def millisecond_def)
  then show ?thesis by (cases rule: main_run_cases [of example_env path]) auto
qed

section \<open>What gets through\<close>

lemma built_from_unique: "built_from env c key s \<Longrightarrow> built_from env c key s' \<Longrightarrow> s = s'"
  unfolding built_from_def Let_def by (cases s; cases s') auto

lemma starts_unique: "starts env path c key \<Longrightarrow> starts env path c' key' \<Longrightarrow> c' = c \<and> key' = key"
  by (auto simp: starts_def options_ok_def Let_def)

text \<open>
  C40. The start.  \<open>run\<close> never panics, and it gets as far as its servers and services exactly with a configuration that
  passes its tags and besides keeps the tighter bounds of the options of the parts (at most 32 workers and 16
  consumers, an idle time from 100 ms to 10 s, a reservation from 1 s to 10 min, at most 30 problems, at least one
  broker and one allowed origin, a signing key that is an RSA key, a Sentry address that is a URL), with an environment
  that answers.  Then the parts are the ones the other properties speak of: the outbox without encryption of messages,
  the processor with a key, and the two servers.
\<close>

theorem main_run_starts:
  "main_run env path \<noteq> None
   \<and> ((\<exists>s. main_run env path = Some (Inr s)) \<longleftrightarrow> (\<exists>c key. starts env path c key))
   \<and> (main_run env path = Some (Inr s) \<longleftrightarrow> (\<exists>c key. starts env path c key \<and> built_from env c key s))"
proof (cases rule: main_run_cases [of env path])
  case (failed e)
  then show ?thesis by auto
next
  case (built s' c key)
  have "s' = s" if "starts env path c' key'" "built_from env c' key' s" for c' key'
    using built_from_unique built(3) that(2) starts_unique [OF built(2) that(1)] by simp
  with built show ?thesis by auto
qed

end
