(* ===== verification/RequestLog.thy ===== *)
theory RequestLog
  imports ManagerApi ClientApi
begin

text \<open>
  The log of requests (\<open>internal/middlewares/request_logger.go\<close>), the outermost middleware of both servers, and the
  middleware of \<open>echo\<close> that it configures.  What is modelled is what the logger is told: the level, the message and the
  fields of an entry.  The latency, the addresses and the pattern of the route, which requests of the model do not have,
  are arguments.
\<close>

section \<open>The middleware of echo\<close>

record RequestLoggerValues =
  lv_Latency :: int
  lv_RemoteIP :: string
  lv_Host :: string
  lv_Method :: string
  lv_URIPath :: string
  lv_RoutePath :: string
  lv_RequestID :: string
  lv_UserAgent :: string
  lv_Status :: int
  lv_Error :: "goerr option"

text \<open>Of the switches, those of values that no entry shows are left out.\<close>

record 'e RequestLoggerConfig =
  rl_Skipper :: "token_Context \<Rightarrow> bool"
  rl_HandleError :: bool
  rl_LogValuesFunc :: "token_Context \<Rightarrow> RequestLoggerValues \<Rightarrow> (string + goerr option) \<times> 'e list"
  rl_LogLatency :: bool
  rl_LogRemoteIP :: bool
  rl_LogHost :: bool
  rl_LogMethod :: bool
  rl_LogURIPath :: bool
  rl_LogRoutePath :: bool
  rl_LogRequestID :: bool
  rl_LogUserAgent :: bool
  rl_LogStatus :: bool
  rl_LogError :: bool

text \<open>What the server knows of a request beside what the model has: times, addresses, the route and a header of the answer.\<close>

record request_view =
  rv_Latency :: int
  rv_RealIP :: string
  rv_Host :: string
  rv_Path :: string
  rv_ResponseID :: string

text \<open>The status of an answer is the one of its first header, 200 before anything is written.\<close>

definition response_Status :: "token_Context \<Rightarrow> int" where
  "response_Status c = (case ec_responses c of [] \<Rightarrow> 200 | (code, _) # _ \<Rightarrow> code)"

definition request_values :: "'e RequestLoggerConfig \<Rightarrow> request_view \<Rightarrow> goerr option \<Rightarrow> token_Context \<Rightarrow> RequestLoggerValues" where
  "request_values config rv err c =
     (let req = ec_Request c in
      \<lparr>lv_Latency = (if rl_LogLatency config then rv_Latency rv else 0),
       lv_RemoteIP = (if rl_LogRemoteIP config then rv_RealIP rv else []),
       lv_Host = (if rl_LogHost config then rv_Host rv else []),
       lv_Method = (if rl_LogMethod config then rq_Method req else []),
       lv_URIPath = (if rl_LogURIPath config then if rq_Path req = [] then ''/'' else rq_Path req else []),
       lv_RoutePath = (if rl_LogRoutePath config then rv_Path rv else []),
       lv_RequestID = (if rl_LogRequestID config
         then let i = header_Get ''X-Request-Id'' req in if i = [] then rv_ResponseID rv else i else []),
       lv_UserAgent = (if rl_LogUserAgent config then header_Get ''User-Agent'' req else []),
       lv_Status = (if rl_LogStatus config
         then case err of
                None \<Rightarrow> response_Status c
              | Some e \<Rightarrow>
                  if rl_HandleError config then response_Status c
                  else (case errors_As_HTTPError e of None \<Rightarrow> response_Status c | Some (code, _, _) \<Rightarrow> code)
         else 0),
       lv_Error = (if rl_LogError config then err else None)\<rparr>)"

text \<open>A panic of the next handler passes through, and one of the function that logs is a panic of the middleware.\<close>

definition RequestLoggerWithConfig ::
  "'e RequestLoggerConfig \<Rightarrow> (goerr \<Rightarrow> token_Context \<Rightarrow> token_Context) \<Rightarrow> request_view \<Rightarrow> 'w handler
   \<Rightarrow> token_Context \<Rightarrow> 'w \<Rightarrow> (http_outcome \<times> token_Context \<times> 'w) \<times> 'e list" where
  "RequestLoggerWithConfig config errHandler rv next' c w =
     (if rl_Skipper config c then (next' c w, [])
      else (case next' c w of
              (Panicked r, c, w) \<Rightarrow> ((Panicked r, c, w), [])
            | (Returned err, c, w) \<Rightarrow>
                (let c = (case err of None \<Rightarrow> c | Some e \<Rightarrow> if rl_HandleError config then errHandler e c else c)
                 in case rl_LogValuesFunc config c (request_values config rv err c) of
                      (Inl r, es) \<Rightarrow> ((Panicked r, c, w), es)
                    | (Inr (Some errOnLog), es) \<Rightarrow> ((Returned (Some errOnLog), c, w), es)
                    | (Inr None, es) \<Rightarrow> ((Returned err, c, w), es))))"

section \<open>The log of requests\<close>

datatype log_value = LogDuration int | LogString string | LogInt int | LogUser UserID | LogError goerr

record log_entry =
  le_level :: string
  le_message :: string
  le_fields :: "(string \<times> log_value) list"

definition request_LogValuesFunc :: "token_Context \<Rightarrow> RequestLoggerValues \<Rightarrow> (string + goerr option) \<times> log_entry list" where
  "request_LogValuesFunc eCtx v =
     (let fields =
        [(''latency'', LogDuration (lv_Latency v)), (''remote_ip'', LogString (lv_RemoteIP v)), (''host'', LogString (lv_Host v)),
         (''method'', LogString (lv_Method v)), (''path'', LogString (lv_RoutePath v)),
         (''request_id'', LogString (lv_RequestID v)), (''user_agent'', LogString (lv_UserAgent v)),
         (''status'', LogInt (lv_Status v))]
      in case userID eCtx of
           None \<Rightarrow> (Inl ''runtime error: invalid memory address or nil pointer dereference'', [])
         | Some (uid, _) \<Rightarrow>
             (let fields = fields @ [(''user_id'', LogUser uid)];
                  fields = (case lv_Error v of None \<Rightarrow> fields | Some err \<Rightarrow> fields @ [(''error'', LogError err)]);
                  s = lv_Status v;
                  (level, message) =
                    (if s \<ge> 500 then (''error'', ''server error'')
                     else if s \<ge> 400 then (''error'', ''client error'') else (''info'', ''success''))
              in (Inr None, [\<lparr>le_level = level, le_message = message, le_fields = fields\<rparr>])))"

definition NewRequestLogger_config :: "log_entry RequestLoggerConfig" where
  "NewRequestLogger_config =
     \<lparr>rl_Skipper = (\<lambda>c. rq_Method (ec_Request c) = ''OPTIONS''), rl_HandleError = False,
      rl_LogValuesFunc = request_LogValuesFunc, rl_LogLatency = True, rl_LogRemoteIP = True, rl_LogHost = True,
      rl_LogMethod = True, rl_LogURIPath = True, rl_LogRoutePath = False, rl_LogRequestID = True, rl_LogUserAgent = True,
      rl_LogStatus = True, rl_LogError = True\<rparr>"

definition NewRequestLogger where
  "NewRequestLogger = RequestLoggerWithConfig NewRequestLogger_config"

section \<open>The servers with their log\<close>

text \<open>The middlewares of \<open>server.New\<close> below the log, and the answer to a request together with what is logged.\<close>

definition server_chain :: "'z env_scheme server_Options \<Rightarrow> 'z env_scheme handler" where
  "server_chain opts c =
     applyMiddleware (the (vo_registerHandlers opts) (ec_Request c))
       [NewRecovery (the (vo_errHandler opts)), echo_CORS,
        NewKeycloakTokenAuth (the (vo_introspector opts)) (vo_resource opts) (vo_role opts) (vo_wsSecProtocol opts),
        echo_BodyLimit bodyLimit] c"

definition server_Logged ::
  "'z env_scheme server_Options \<Rightarrow> request_view \<Rightarrow> token_Context \<Rightarrow> 'z env_scheme
   \<Rightarrow> (token_Context \<times> 'z env_scheme) \<times> log_entry list" where
  "server_Logged opts rv c w =
     (let errHandler = the (vo_errHandler opts) in
      case NewRequestLogger errHandler rv (server_chain opts) c w of
        ((Returned (Some err), c, w), es) \<Rightarrow> ((errHandler err c, w), es)
      | ((_, c, w), es) \<Rightarrow> ((c, w), es))"

lemma sv_Handler_chain:
  assumes "server_New opts = Inr s"
  shows "sv_Handler s c w = (case server_chain opts c w of
      (Returned (Some err), c, w) \<Rightarrow> (the (vo_errHandler opts) err c, w) | (_, c, w) \<Rightarrow> (c, w))"
  using assms by (auto simp: server_New_def Let_def echo_ServeHTTP_def server_chain_def split: option.splits)

section \<open>What a handler leaves to the log\<close>

text \<open>A handler keeps a user that can be asked for, and answers with statuses below 400.\<close>

definition keeps :: "token_Context \<Rightarrow> token_Context \<Rightarrow> bool" where
  "keeps c c' \<longleftrightarrow> (userID c \<noteq> None \<longrightarrow> userID c' \<noteq> None) \<and>
     (\<exists>rs. ec_responses c' = ec_responses c @ rs \<and> (\<forall>r \<in> set rs. fst r < 400))"

definition well_behaved :: "'w handler \<Rightarrow> bool" where
  "well_behaved h \<longleftrightarrow> (\<forall>c w. keeps c (fst (snd (h c w))))"

lemma keeps_refl [simp]: "keeps c c" by (simp add: keeps_def)

lemma keeps_trans: "keeps c c' \<Longrightarrow> keeps c' c'' \<Longrightarrow> keeps c c''"
  by (fastforce simp: keeps_def)

lemma well_behavedD: "well_behaved h \<Longrightarrow> h c w = (out, c', w') \<Longrightarrow> keeps c c'"
  unfolding well_behaved_def by (metis fst_conv snd_conv)

lemma well_behavedI: "(\<And>c w out c' w'. h c w = (out, c', w') \<Longrightarrow> keeps c c') \<Longrightarrow> well_behaved h"
  unfolding well_behaved_def by (metis prod.collapse)

lemma keeps_JSON: "eCtx_JSON 200 b c = (e, c') \<Longrightarrow> keeps c c'"
  by (auto simp: eCtx_JSON_def keeps_def userID_def split: sum.splits option.splits)

lemma keeps_scopes: "keeps c (c\<lparr>ec_store := (ec_store c)(''bearerAuth.Scopes'' \<mapsto> CtxScopes [])\<rparr>)"
  by (simp add: keeps_def userID_def tokenCtxKey_def)

lemma keeps_let_in: "let_in i r ro p ks c w c' w' \<Longrightarrow> keeps c c'"
proof -
  assume l: "let_in i r ro p ks c w c' w'"
  then obtain u where "MustUserID c' = Inr u" by (auto simp: let_in_def)
  then have "userID c' \<noteq> None" by (auto simp: MustUserID_def split: option.splits)
  moreover have "same_client c c'" using l by (auto simp: let_in_def intro: same_client_eq)
  ultimately show ?thesis by (simp add: keeps_def same_client_def)
qed

lemma well_behaved_auth: "well_behaved next' \<Longrightarrow> well_behaved (NewKeycloakTokenAuth i r ro p next')"
proof (rule well_behavedI)
  fix c w out c' w'
  assume "well_behaved next'" "NewKeycloakTokenAuth i r ro p next' c w = (out, c', w')"
  from this(2) show "keeps c c'"
  proof (cases rule: auth_cases)
    case (passed c1 w1)
    then show ?thesis using \<open>well_behaved next'\<close> by (auto intro: keeps_trans keeps_let_in dest: well_behavedD)
  qed simp
qed

lemma well_behaved_middlewares:
  "well_behaved next' \<Longrightarrow> well_behaved (echo_CORS next')"
  "well_behaved next' \<Longrightarrow> well_behaved (echo_BodyLimit n next')"
  "well_behaved next' \<Longrightarrow> well_behaved (oapi_validator check next')"
  "(\<And>e c. keeps c (eh e c)) \<Longrightarrow> well_behaved next' \<Longrightarrow> well_behaved (NewRecovery eh next')"
  subgoal by (rule well_behavedI) (auto simp: echo_CORS_def eCtx_NoContent_def keeps_def userID_def
        split: if_splits dest!: well_behavedD)
  subgoal by (rule well_behavedI) (auto simp: echo_BodyLimit_def split: if_splits dest!: well_behavedD)
  subgoal by (rule well_behavedI) (auto simp: oapi_validator_def split: option.splits dest!: well_behavedD)
  subgoal by (rule well_behavedI) (auto simp: NewRecovery_def split: prod.splits http_outcome.splits
        dest!: well_behavedD intro: keeps_trans)
  done

lemma well_behaved_with_XRequestID: "(\<And>x. well_behaved (f x)) \<Longrightarrow> well_behaved (with_XRequestID f)"
  by (rule well_behavedI) (auto simp: with_XRequestID_def Let_def keeps_scopes split: if_splits sum.splits
      dest!: well_behavedD intro: keeps_trans [OF keeps_scopes])

lemma well_behaved_managers: "well_behaved (PostFreeHands h x)" "well_behaved (PostGetFreeHandsBtnAvailability h x)"
  by (rule well_behavedI; auto simp: PostFreeHands_def PostGetFreeHandsBtnAvailability_def
      split: sum.splits prod.splits option.splits if_splits dest: keeps_JSON)+

lemma well_behaved_clients: "well_behaved (PostGetHistory z other h x)" "well_behaved (PostSendMessage z other' h x)"
  by (rule well_behavedI; auto simp: PostGetHistory_def PostSendMessage_def Let_def
      split: sum.splits prod.splits option.splits if_splits dest: keeps_JSON)+

text \<open>So do all the routes of a server, if the websocket and the answer to unknown routes do.\<close>

lemma routes_behaved:
  "well_behaved (mn_ws en) \<Longrightarrow> well_behaved (mn_notFound en) \<Longrightarrow> well_behaved (managerv1_RegisterHandlers en h req)"
  "well_behaved (en_ws en') \<Longrightarrow> well_behaved (en_notFound en') \<Longrightarrow> well_behaved (clientv1_RegisterHandlers en' h' req)"
  by (simp_all add: managerv1_RegisterHandlers_def clientv1_RegisterHandlers_def well_behaved_middlewares(3)
      well_behaved_with_XRequestID well_behaved_managers well_behaved_clients)

lemma keeps_errors: "keeps c (errhandler_Handle marshal h e c)"
  by (auto simp: errhandler_Handle_def eCtx_JSON_def keeps_def userID_def split: prod.splits option.splits)

lemma chain_behaved:
  assumes "well_behaved (the (vo_registerHandlers opts) (ec_Request c))" and "\<And>e c. keeps c (the (vo_errHandler opts) e c)"
    and "server_chain opts c w = (out, c', w')"
  shows "keeps c c'" "\<exists>err. out = Returned err"
proof -
  let ?h = "echo_CORS (NewKeycloakTokenAuth (the (vo_introspector opts)) (vo_resource opts) (vo_role opts) (vo_wsSecProtocol opts)
      (echo_BodyLimit bodyLimit (the (vo_registerHandlers opts) (ec_Request c))))"
  have c: "NewRecovery (the (vo_errHandler opts)) ?h c w = (out, c', w')"
    using assms(3) by (simp add: server_chain_def applyMiddleware_def)
  have "well_behaved (NewRecovery (the (vo_errHandler opts)) ?h)"
    by (intro well_behaved_middlewares well_behaved_auth assms(1, 2))
  then show "keeps c c'" using c by (rule well_behavedD)
  show "\<exists>err. out = Returned err" using c by (auto simp: NewRecovery_def split: prod.splits http_outcome.splits)
qed

section \<open>Properties\<close>

text \<open>The level and the message of an entry, by the error with which the chain of handlers ends.\<close>

definition log_verdict :: "goerr option \<Rightarrow> string \<times> string" where
  "log_verdict err =
     (case Option.bind err errors_As_HTTPError of
        None \<Rightarrow> (''info'', ''success'')
      | Some (code, _, _) \<Rightarrow>
          if 500 \<le> code then (''error'', ''server error'')
          else if 400 \<le> code then (''error'', ''client error'') else (''info'', ''success''))"

text \<open>
  C37. The log of the requests that are no preflight requests.  Logging changes neither the answer nor the world, and
  every request has exactly one entry.  It is an error only if the chain of handlers ends with an error of HTTP inside:
  any other error (an overloaded manager, a chat that cannot be created, everything unexpected) is logged as a success
  although its client is told the error.  The path in the entry is always empty, since the middleware is asked for the
  path of the URI and the entry takes the one of the route.
\<close>

theorem request_log:
  assumes "server_New opts = Inr s" and "vo_errHandler opts = Some (errhandler_Handle marshal h)"
    and "well_behaved (the (vo_registerHandlers opts) (ec_Request c))"
    and "rq_Method (ec_Request c) \<noteq> ''OPTIONS''" and "ec_store c = Map.empty" and "ec_responses c = []"
    and "server_Logged opts rv c w = ((c', w'), log)"
  shows "sv_Handler s c w = (c', w') \<and>
    (\<exists>err c1 entry. server_chain opts c w = (Returned err, c1, w') \<and> log = [entry]
       \<and> c' = (case err of None \<Rightarrow> c1 | Some e \<Rightarrow> errhandler_Handle marshal h e c1)
       \<and> (le_level entry, le_message entry) = log_verdict err
       \<and> map_of (le_fields entry) ''path'' = Some (LogString [])
       \<and> map_of (le_fields entry) ''error'' = map_option LogError err)"
proof -
  have eh: "keeps c (the (vo_errHandler opts) e c)" for e c using assms(2) by (simp add: keeps_errors)
  obtain out c1 w1 where ch: "server_chain opts c w = (out, c1, w1)" by (metis prod_cases3)
  obtain err where out: "out = Returned err" using chain_behaved(2) [OF assms(3) eh ch] by blast
  have k: "keeps c c1" by (rule chain_behaved(1) [OF assms(3) eh ch])
  have "userID c \<noteq> None" using assms(5) by (simp add: userID_def)
  then obtain u b where u: "userID c1 = Some (u, b)" using k by (auto simp: keeps_def)
  have st: "response_Status c1 < 400" using k assms(6) by (auto simp: keeps_def response_Status_def split: list.splits)
  show ?thesis
    using assms(7) st
    by (cases err) (auto simp: sv_Handler_chain [OF assms(1)] server_Logged_def ch out NewRequestLogger_def RequestLoggerWithConfig_def
        NewRequestLogger_config_def assms(2, 4) request_LogValuesFunc_def request_values_def u log_verdict_def Let_def
        split: option.splits if_splits)
qed

section \<open>A manager who has too much to do\<close>

lemma sample_chain:
  assumes "vo_registerHandlers opts = Some router"
    and "vo_introspector opts = Some sample_introspect" and "vo_resource opts = ''chat-ui''" and "vo_role opts = ''client''"
    and "vo_wsSecProtocol opts = ''chat''"
    and "router (ec_Request (sample_post path u x body)) = oapi_validator (\<lambda>_. None) (with_XRequestID handler)"
    and "u \<noteq> 0" and "ticks w = []"
    and "\<And>c. MustUserID c = Inr u \<Longrightarrow> handler x c w = (Returned (Some e), c, w')"
  shows "\<exists>c1. server_chain opts (sample_post path u x body) w = (Returned (Some e), c1, w') \<and> ec_responses c1 = [] \<and> ec_broken c1 = None"
proof -
  let ?c = "sample_post path u x body"
  let ?cl = "no_claims\<lparr>cl_Subject := uuid_encodeHex (raw u), cl_ResourceAccess := [(''chat-ui'', [''client''])]\<rparr>"
  let ?ca = "?c\<lparr>ec_store := (Map.empty)(tokenCtxKey \<mapsto> CtxToken (Some \<lparr>tk_Claims = Some (Claims ?cl)\<rparr>))\<rparr>"
  let ?cb = "?c\<lparr>ec_store := (Map.empty)(tokenCtxKey \<mapsto> CtxToken (Some \<lparr>tk_Claims = Some (Claims ?cl)\<rparr>), ''bearerAuth.Scopes'' \<mapsto> CtxScopes [])\<rparr>"
  have "MustUserID ?cb = Inr u" by (simp add: MustUserID_def userID_def tokenCtxKey_def claims_UserID_def)
  from assms(9) [OF this] have h: "handler x ?cb w = (Returned (Some e), ?cb, w')" .
  have "header_Values ''X-Request-Id'' (ec_Request ?c) = [uuid_encodeHex (raw x)]"
    by (simp add: header_Values_def sample_post_def)
  moreover have "BindStyledParameter (uuid_encodeHex (raw x)) = Inr x"
    by (simp add: BindStyledParameter_def RequestID_def)
  ultimately have wr: "with_XRequestID handler ?ca w = handler x ?cb w" by (simp add: with_XRequestID_def Let_def)
  have route: "router (ec_Request ?c) ?ca w = (Returned (Some e), ?cb, w')"
    using h wr by (simp add: assms(6) oapi_validator_def)
  have st: "ec_store ?c = Map.empty" "rq_ContentLength (ec_Request ?c) = 20" "rq_Method (ec_Request ?c) = ''POST''"
    "ec_responses ?c = []" "ec_broken ?c = None"
    by (simp_all add: sample_post_def)
  have "server_chain opts ?c w = (Returned (Some e), ?cb, w')"
    by (simp add: server_chain_def applyMiddleware_def NewRecovery_def echo_CORS_def st sample_auth [OF assms(7, 8)] Let_def
      echo_BodyLimit_def bodyLimit_def route assms(1-5))
  then show ?thesis by (simp add: st)
qed

definition sample_view :: request_view where
  "sample_view = \<lparr>rv_Latency = 12, rv_RealIP = ''10.0.0.1'', rv_Host = ''bank'', rv_Path = ''/v1/freeHands'', rv_ResponseID = []\<rparr>"

theorem request_log_witness:
  "\<exists>opts s c' w' entry. server_New opts = Inr s
     \<and> sv_Handler s (sample_post ''/v1/freeHands'' (Id 7) (Id 1) JNull) (quiet_world sample_manager_db 9) = (c', w')
     \<and> ec_responses c' = [(200, Some (error_response False
          (NewServerError 5000 ''manager overloaded'' freehands_ErrManagerOverloaded)))]
     \<and> server_Logged opts sample_view (sample_post ''/v1/freeHands'' (Id 7) (Id 1) JNull) (quiet_world sample_manager_db 9)
         = ((c', w'), [entry])
     \<and> le_level entry = ''info'' \<and> le_message entry = ''success''
     \<and> map_of (le_fields entry) ''path'' = Some (LogString [])"
proof -
  let ?c = "sample_post ''/v1/freeHands'' (Id 7) (Id 1) JNull" and ?w = "quiet_world sample_manager_db 9"
  let ?e = "NewServerError 5000 ''manager overloaded'' freehands_ErrManagerOverloaded"
  obtain s where s: "sample_manager_server = Inr s" using sample_manager_server_starts by blast
  obtain opts h fu cu where o: "server_New opts = Inr s" "main_errHandler False = Inr h"
    "vo_registerHandlers opts = Some (managerv1_RegisterHandlers sample_manager_environment
       \<lparr>yh_canReceiveProblemsUseCase = canreceiveproblems_Handle cu, yh_freeHandsUseCase = freehands_Handle fu\<rparr>)"
    "vo_introspector opts = Some sample_introspect" "vo_resource opts = ''chat-ui''" "vo_role opts = ''client''"
    "vo_wsSecProtocol opts = ''chat''" "vo_errHandler opts = Some (errhandler_Handle errhandler_Response_json h)"
    "main_freeHands sample_load = Inr fu"
    by (rule initServerManager_opts [OF s])
  let ?h = "\<lparr>yh_canReceiveProblemsUseCase = canreceiveproblems_Handle cu, yh_freeHandsUseCase = freehands_Handle fu\<rparr>"
  have "fu = sample_freeHands" using o(9) sample_freeHands_New by simp
  then have "freehands_Handle fu \<lparr>mr_ID = Id 1, mr_ManagerID = Id 7\<rparr> ?w = (Inl freehands_ErrManagerOverloaded, ?w)"
    by (simp add: sample_manager_eval)
  then have p: "PostFreeHands ?h (Id 1) c ?w = (Returned (Some ?e), c, ?w)" if "MustUserID c = Inr (Id 7)" for c
    using that by (simp add: PostFreeHands_def ErrorCodeManagerOverloaded_def ManagerOverloadedError_def)
  have route: "managerv1_RegisterHandlers sample_manager_environment ?h (ec_Request ?c) = oapi_validator (\<lambda>_. None) (with_XRequestID (PostFreeHands ?h))"
    by (simp add: managerv1_RegisterHandlers_def sample_manager_environment_def sample_post_def)
  then have "\<exists>c1. server_chain opts ?c ?w = (Returned (Some ?e), c1, ?w) \<and> ec_responses c1 = [] \<and> ec_broken c1 = None"
    by (rule sample_chain [OF o(3-7)]) (simp_all add: p Id_eq_zero uuid_Nil_def)
  then obtain c1 where c1: "server_chain opts ?c ?w = (Returned (Some ?e), c1, ?w)" "ec_responses c1 = []" "ec_broken c1 = None" by blast
  have "well_behaved (\<lambda>c (w :: world). (Returned None, c, w))" by (simp add: well_behaved_def)
  then have wb: "well_behaved (the (vo_registerHandlers opts) (ec_Request ?c))"
    using o(3) by (simp add: routes_behaved(1) sample_manager_environment_def)
  have r: "rq_Method (ec_Request ?c) \<noteq> ''OPTIONS''" "ec_store ?c = Map.empty" "ec_responses ?c = []"
    by (simp_all add: sample_post_def)
  obtain c' w' log where l: "server_Logged opts sample_view ?c ?w = ((c', w'), log)" by (metis prod.exhaust)
  from request_log [OF o(1, 8) wb r l] c1 obtain entry where e: "log = [entry]" "sv_Handler s ?c ?w = (c', w')"
    "c' = errhandler_Handle errhandler_Response_json h ?e c1"
    "(le_level entry, le_message entry) = log_verdict (Some ?e)" "map_of (le_fields entry) ''path'' = Some (LogString [])"
    by auto
  have "ec_responses c' = [(200, Some (error_response False ?e))]"
    using e(3) c1 by (simp add: main_errHandler_Handle [OF o(2)])
  moreover have "log_verdict (Some ?e) = (''info'', ''success'')" by (simp add: log_verdict_def NewServerError_def)
  ultimately show ?thesis using o(1) e l by fastforce
qed

end
