(* ===== verification/Mutation.thy ===== *)
theory Mutation
  imports Queries "HOL-Library.Word"
begin

text \<open>
  What the generated mutations share (\<open>internal/store/mutation.go\<close>, \<open>entgo.io/ent\<close>): the operations, the
  values of fields as the generic methods take and give them, the old values of a row, and the laws under which
  a mutation is a partial map from its fields to values of their types (the locale \<open>typed_fields\<close>), which
  the theories of the five tables interpret.
\<close>

unbundle bit_operations_syntax

section \<open>Operations\<close>

text \<open>\<open>Op\<close> is an unsigned integer of 64 bits, one bit per operation.\<close>

type_synonym ent_Op = "64 word"

definition OpCreate :: ent_Op where "OpCreate = 1"
definition OpUpdate :: ent_Op where "OpUpdate = 2"
definition OpUpdateOne :: ent_Op where "OpUpdateOne = 4"
definition OpDelete :: ent_Op where "OpDelete = 8"
definition OpDeleteOne :: ent_Op where "OpDeleteOne = 16"

definition Op_Is :: "ent_Op \<Rightarrow> ent_Op \<Rightarrow> bool" where
  "Op_Is i o' \<longleftrightarrow> i AND o' \<noteq> 0"

definition Op_String :: "ent_Op \<Rightarrow> string" where
  "Op_String i =
     (if i = OpCreate then ''OpCreate'' else if i = OpUpdate then ''OpUpdate'' else if i = OpUpdateOne then ''OpUpdateOne''
      else if i = OpDelete then ''OpDelete'' else if i = OpDeleteOne then ''OpDeleteOne''
      else ''Op('' @ itoa (sint i) @ '')'')"

section \<open>Values\<close>

text \<open>\<open>ent.Value\<close>: a value of one of the types of fields and edges, or of another type of the given name.\<close>

datatype ent_value =
    ValChatID ChatID
  | ValFailedJobID FailedJobID
  | ValJobID JobID
  | ValMessageID MessageID
  | ValProblemID ProblemID
  | ValUserID UserID
  | ValRequestID RequestID
  | ValString string
  | ValInt int
  | ValBool bool
  | ValTime time
  | ValOther string

datatype ent_kind =
    KindChatID | KindFailedJobID | KindJobID | KindMessageID | KindProblemID | KindUserID | KindRequestID
  | KindString | KindInt | KindBool | KindTime | KindOther string | KindNil

fun value_kind :: "ent_value option \<Rightarrow> ent_kind" where
  "value_kind None = KindNil"
| "value_kind (Some (ValChatID _)) = KindChatID"
| "value_kind (Some (ValFailedJobID _)) = KindFailedJobID"
| "value_kind (Some (ValJobID _)) = KindJobID"
| "value_kind (Some (ValMessageID _)) = KindMessageID"
| "value_kind (Some (ValProblemID _)) = KindProblemID"
| "value_kind (Some (ValUserID _)) = KindUserID"
| "value_kind (Some (ValRequestID _)) = KindRequestID"
| "value_kind (Some (ValString _)) = KindString"
| "value_kind (Some (ValInt _)) = KindInt"
| "value_kind (Some (ValBool _)) = KindBool"
| "value_kind (Some (ValTime _)) = KindTime"
| "value_kind (Some (ValOther t)) = KindOther t"

text \<open>The verb \<open>%T\<close>.\<close>

fun kind_text :: "ent_kind \<Rightarrow> string" where
  "kind_text KindChatID = ''types.ChatID''"
| "kind_text KindFailedJobID = ''types.FailedJobID''"
| "kind_text KindJobID = ''types.JobID''"
| "kind_text KindMessageID = ''types.MessageID''"
| "kind_text KindProblemID = ''types.ProblemID''"
| "kind_text KindUserID = ''types.UserID''"
| "kind_text KindRequestID = ''types.RequestID''"
| "kind_text KindString = ''string''"
| "kind_text KindInt = ''int''"
| "kind_text KindBool = ''bool''"
| "kind_text KindTime = ''time.Time''"
| "kind_text (KindOther t) = t"
| "kind_text KindNil = ''<nil>''"

definition unexpected_type :: "ent_value option \<Rightarrow> string \<Rightarrow> goerr" where
  "unexpected_type value name = Errorf (''unexpected type '' @ kind_text (value_kind value) @ '' for field '' @ name) None"

definition unknown_field :: "string \<Rightarrow> string \<Rightarrow> string \<Rightarrow> goerr" where
  "unknown_field entity what name = Errorf (''unknown '' @ entity @ '' '' @ what @ '' '' @ name) None"

text \<open>The results of a getter: the zero value and false when the field is not set.\<close>

definition go_ok :: "'a \<Rightarrow> 'a option \<Rightarrow> 'a \<times> bool" where
  "go_ok zero x = (case x of None \<Rightarrow> (zero, False) | Some v \<Rightarrow> (v, True))"

definition field_value :: "('a \<Rightarrow> ent_value) \<Rightarrow> 'a \<times> bool \<Rightarrow> ent_value option \<times> bool" where
  "field_value wrap p = (Some (wrap (fst p)), snd p)"

lemma go_ok_simps [simp]: "go_ok z None = (z, False)" "go_ok z (Some v) = (v, True)"
  by (simp_all add: go_ok_def)

lemma field_value_simps [simp]: "field_value f (v, b) = (Some (f v), b)" "snd (field_value f p) = snd p"
  by (simp_all add: field_value_def)

lemma go_ok_set [simp]: "snd (go_ok z x) \<longleftrightarrow> x \<noteq> None"
  by (simp add: go_ok_def split: option.splits)

lemma filter_Cons_append: "filter P (x # xs) = (if P x then [x] else []) @ filter P xs"
  by simp

text \<open>Addition on \<open>int\<close>, which has 64 bits.\<close>

definition add_int :: "int \<Rightarrow> int \<Rightarrow> int" where
  "add_int a b = signed_take_bit 63 (a + b)"

lemma add_int_small: "- (2 ^ 63) \<le> a + b \<Longrightarrow> a + b < 2 ^ 63 \<Longrightarrow> add_int a b = a + b"
  unfolding add_int_def by (rule signed_take_bit_int_eq_self) auto

section \<open>Old values\<close>

text \<open>
  \<open>oldValue\<close>: nil, the row that the mutation was built from, or a query by identifier that runs once, on the first
  use, and whose outcome is kept.
\<close>

datatype ('i, 'r) old_value = OldNil | OldNode 'r | OldQuery 'i "'r result option"

definition entity_Get ::
  "string \<Rightarrow> (database \<Rightarrow> 'r list) \<Rightarrow> ('r \<Rightarrow> 'i) \<Rightarrow> 'i \<Rightarrow> 'z store_scheme \<Rightarrow> 'r result \<times> 'z store_scheme" where
  "entity_Get label rows key i = query_Only (query_Where [\<lambda>d r. key r = i] (new_query label rows))"

definition mutation_oldValue ::
  "bool \<Rightarrow> ('i \<Rightarrow> 'z store_scheme \<Rightarrow> 'r result \<times> 'z store_scheme) \<Rightarrow> ('i, 'r) old_value \<Rightarrow> 'z store_scheme
   \<Rightarrow> 'r result \<times> ('i, 'r) old_value \<times> 'z store_scheme" where
  "mutation_oldValue don get old w =
     (case old of
        OldNil \<Rightarrow> (Inl (New ''panic'' ''nil function''), old, w)
      | OldNode r \<Rightarrow> (Inr r, old, w)
      | OldQuery i (Some r) \<Rightarrow> (r, old, w)
      | OldQuery i None \<Rightarrow>
          (let (r, w) = (if don then (Inl (New ''errors.New'' ''querying old values post mutation is not allowed''), w) else get i w)
           in (r, OldQuery i (Some r), w)))"

text \<open>The methods \<open>Old\<close>...: only for \<open>UpdateOne\<close>, with an identifier and an old value.\<close>

definition mutation_old ::
  "string \<Rightarrow> ent_Op \<Rightarrow> 'i option \<Rightarrow> ('i, 'r) old_value \<Rightarrow> bool \<Rightarrow> ('i \<Rightarrow> 'z store_scheme \<Rightarrow> 'r result \<times> 'z store_scheme)
   \<Rightarrow> 'z store_scheme \<Rightarrow> 'r result \<times> ('i, 'r) old_value \<times> 'z store_scheme" where
  "mutation_old name op i old don get w =
     (if \<not> Op_Is op OpUpdateOne then (Inl (New ''errors.New'' (name @ '' is only allowed on UpdateOne operations'')), old, w)
      else if i = None \<or> old = OldNil then (Inl (New ''errors.New'' (name @ '' requires an ID field in the mutation'')), old, w)
      else (case mutation_oldValue don get old w of
              (Inl err, old, w) \<Rightarrow> (Inl (errorf_w (''querying old value for '' @ name) err), old, w)
            | (Inr r, old, w) \<Rightarrow> (Inr r, old, w)))"

definition mutation_IDs ::
  "ent_Op \<Rightarrow> 'i option \<Rightarrow> ('r \<Rightarrow> 'i) \<Rightarrow> 'r query \<Rightarrow> 'z store_scheme \<Rightarrow> 'i list result \<times> 'z store_scheme" where
  "mutation_IDs op i key q w =
     (let one = Op_Is op (OpUpdateOne OR OpDeleteOne) in
      if one \<and> i \<noteq> None then (Inr [the i], w)
      else if one \<or> Op_Is op (OpUpdate OR OpDelete)
      then (case query_All q w of (Inl err, w) \<Rightarrow> (Inl err, w) | (Inr rows, w) \<Rightarrow> (Inr (map key rows), w))
      else (Inl (Errorf (''IDs is not allowed on '' @ Op_String op @ '' operations'') None), w))"

section \<open>A mutation as a typed map\<close>

text \<open>A call of a generic method, and what it does to a partial map whose keys have kinds.\<close>

datatype field_call = SetCall string "ent_value option" | ResetCall string

fun ref_ok :: "(string \<Rightarrow> ent_kind option) \<Rightarrow> field_call \<Rightarrow> bool" where
  "ref_ok kind (SetCall n v) \<longleftrightarrow> kind n = Some (value_kind v)"
| "ref_ok kind (ResetCall n) \<longleftrightarrow> kind n \<noteq> None"

fun ref_call :: "(string \<Rightarrow> ent_kind option) \<Rightarrow> field_call \<Rightarrow> (string \<rightharpoonup> ent_value option) \<Rightarrow> (string \<rightharpoonup> ent_value option)" where
  "ref_call kind (SetCall n v) mp = (if kind n = Some (value_kind v) then mp(n \<mapsto> v) else mp)"
| "ref_call kind (ResetCall n) mp = mp(n := None)"

fun field_step ::
  "(string \<Rightarrow> ent_value option \<Rightarrow> 'm \<Rightarrow> goerr option \<times> 'm) \<Rightarrow> (string \<Rightarrow> 'm \<Rightarrow> goerr option \<times> 'm) \<Rightarrow> field_call \<Rightarrow> 'm \<Rightarrow> goerr option \<times> 'm" where
  "field_step setf resetf (SetCall n v) m = setf n v m"
| "field_step setf resetf (ResetCall n) m = resetf n m"

fun field_steps ::
  "(string \<Rightarrow> ent_value option \<Rightarrow> 'm \<Rightarrow> goerr option \<times> 'm) \<Rightarrow> (string \<Rightarrow> 'm \<Rightarrow> goerr option \<times> 'm) \<Rightarrow> field_call list \<Rightarrow> 'm \<Rightarrow> bool list \<times> 'm" where
  "field_steps setf resetf [] m = ([], m)"
| "field_steps setf resetf (c # cs) m =
     (case field_step setf resetf c m of (e, m) \<Rightarrow> map_prod (\<lambda>es. (e = None) # es) id (field_steps setf resetf cs m))"

text \<open>The mutation holds exactly the values of the map.\<close>

definition holds_map :: "(string \<Rightarrow> 'm \<Rightarrow> ent_value option \<times> bool) \<Rightarrow> 'm \<Rightarrow> (string \<rightharpoonup> ent_value option) \<Rightarrow> bool" where
  "holds_map getf m mp \<longleftrightarrow> (\<forall>n. case mp n of Some v \<Rightarrow> getf n m = (v, True) | None \<Rightarrow> \<not> snd (getf n m))"

lemma holds_map_update:
  assumes "holds_map getf m mp" "\<forall>n'. n' \<noteq> n \<longrightarrow> getf n' m' = getf n' m"
    and "case x of Some v \<Rightarrow> getf n m' = (v, True) | None \<Rightarrow> \<not> snd (getf n m')"
  shows "holds_map getf m' (mp(n := x))"
  unfolding holds_map_def
proof
  fix k
  have "case mp k of Some v \<Rightarrow> getf k m = (v, True) | None \<Rightarrow> \<not> snd (getf k m)" using assms(1) by (simp add: holds_map_def)
  with assms(2, 3) show "case (mp(n := x)) k of Some v \<Rightarrow> getf k m' = (v, True) | None \<Rightarrow> \<not> snd (getf k m')"
    by (cases "k = n"; cases "mp k"; cases x) simp_all
qed

definition mutation_is_map ::
  "(string \<Rightarrow> ent_kind option) \<Rightarrow> (string \<Rightarrow> ent_value option \<Rightarrow> 'm \<Rightarrow> goerr option \<times> 'm) \<Rightarrow> (string \<Rightarrow> 'm \<Rightarrow> ent_value option \<times> bool)
   \<Rightarrow> (string \<Rightarrow> 'm \<Rightarrow> goerr option \<times> 'm) \<Rightarrow> ('m \<Rightarrow> string list) \<Rightarrow> 'm \<Rightarrow> field_call list \<Rightarrow> bool" where
  "mutation_is_map kind setf getf resetf fieldsf new cs \<longleftrightarrow>
     (case field_steps setf resetf cs new of
        (oks, m) \<Rightarrow> (let mp = fold (ref_call kind) cs Map.empty in
          oks = map (ref_ok kind) cs \<and> holds_map getf m mp \<and> set (fieldsf m) = dom mp))"

lemma fold_ref_dom: "dom mp \<subseteq> {n. kind n \<noteq> None} \<Longrightarrow> dom (fold (ref_call kind) cs mp) \<subseteq> {n. kind n \<noteq> None}"
proof (induction cs arbitrary: mp)
  case (Cons c cs)
  have "dom (ref_call kind c mp) \<subseteq> {n. kind n \<noteq> None}" using Cons.prems by (cases c) auto
  then show ?case using Cons.IH by simp
qed simp

locale typed_fields =
  fixes kind :: "string \<Rightarrow> ent_kind option"
    and setf :: "string \<Rightarrow> ent_value option \<Rightarrow> 'm \<Rightarrow> goerr option \<times> 'm"
    and getf :: "string \<Rightarrow> 'm \<Rightarrow> ent_value option \<times> bool"
    and resetf :: "string \<Rightarrow> 'm \<Rightarrow> goerr option \<times> 'm"
    and fieldsf :: "'m \<Rightarrow> string list"
    and columns :: "string list"
  assumes set_ok: "kind n = Some (value_kind v) \<Longrightarrow>
      \<exists>m'. setf n v m = (None, m') \<and> getf n m' = (v, True) \<and> (\<forall>n'. n' \<noteq> n \<longrightarrow> getf n' m' = getf n' m)"
    and set_err: "kind n \<noteq> Some (value_kind v) \<Longrightarrow> \<exists>e. setf n v m = (Some e, m)"
    and reset_ok: "kind n \<noteq> None \<Longrightarrow>
      \<exists>m'. resetf n m = (None, m') \<and> \<not> snd (getf n m') \<and> (\<forall>n'. n' \<noteq> n \<longrightarrow> getf n' m' = getf n' m)"
    and reset_err: "kind n = None \<Longrightarrow> \<exists>e. resetf n m = (Some e, m)"
    and get_unknown: "kind n = None \<Longrightarrow> getf n m = (None, False)"
    and fields_set: "fieldsf m = filter (\<lambda>n. snd (getf n m)) columns"
    and columns_kind: "set columns = {n. kind n \<noteq> None}"
begin

lemma step_holds:
  assumes "holds_map getf m mp" "field_step setf resetf c m = (e, m')"
  shows "holds_map getf m' (ref_call kind c mp) \<and> (e = None) = ref_ok kind c"
proof (cases c)
  case (SetCall n v)
  show ?thesis
  proof (cases "kind n = Some (value_kind v)")
    case True
    with assms SetCall set_ok [OF True, of m] show ?thesis by (auto intro!: holds_map_update)
  next
    case False
    with assms SetCall set_err [OF False, of m] show ?thesis by auto
  qed
next
  case (ResetCall n)
  show ?thesis
  proof (cases "kind n = None")
    case True
    with assms ResetCall reset_err [OF True, of m] get_unknown [OF True, of m] show ?thesis
      by (auto intro!: holds_map_update)
  next
    case False
    with assms ResetCall reset_ok [OF False, of m] show ?thesis by (auto intro!: holds_map_update)
  qed
qed

lemma steps_hold:
  "holds_map getf m mp \<Longrightarrow> field_steps setf resetf cs m = (oks, m') \<Longrightarrow>
   holds_map getf m' (fold (ref_call kind) cs mp) \<and> oks = map (ref_ok kind) cs"
proof (induction cs arbitrary: m mp oks)
  case (Cons c cs)
  obtain e m1 where s: "field_step setf resetf c m = (e, m1)" by force
  with Cons.prems(2) obtain oks1 where r: "field_steps setf resetf cs m1 = (oks1, m')" "oks = (e = None) # oks1"
    by (auto simp: map_prod_def split: prod.splits)
  have "holds_map getf m1 (ref_call kind c mp)" "(e = None) = ref_ok kind c" using step_holds [OF Cons.prems(1) s] by blast+
  with Cons.IH [OF _ r(1)] r(2) show ?case by simp
qed simp

lemma fields_hold: "holds_map getf m mp \<Longrightarrow> fieldsf m = filter (\<lambda>n. mp n \<noteq> None) columns"
  unfolding fields_set by (rule filter_cong) (auto simp: holds_map_def split: option.splits)

text \<open>Any calls on a mutation that holds a map give the mutation that holds the map after the calls.\<close>

lemma calls_as_map:
  assumes "holds_map getf m mp" "field_steps setf resetf cs m = (oks, m')"
  shows "oks = map (ref_ok kind) cs \<and> holds_map getf m' (fold (ref_call kind) cs mp) \<and>
    fieldsf m' = filter (\<lambda>n. fold (ref_call kind) cs mp n \<noteq> None) columns"
  using steps_hold [OF assms] fields_hold by blast

lemma is_map:
  assumes "holds_map getf new Map.empty"
  shows "mutation_is_map kind setf getf resetf fieldsf new cs"
proof -
  let ?mp = "fold (ref_call kind) cs Map.empty"
  obtain oks m where s: "field_steps setf resetf cs new = (oks, m)" by force
  have "dom ?mp \<subseteq> set columns" unfolding columns_kind by (rule fold_ref_dom) simp
  then have "set (filter (\<lambda>n. ?mp n \<noteq> None) columns) = dom ?mp" by auto
  with calls_as_map [OF assms s] show ?thesis by (simp add: mutation_is_map_def s Let_def)
qed

end

text \<open>A value of a kind.\<close>

lemma value_kind_iff:
  "value_kind v = KindChatID \<longleftrightarrow> (\<exists>x. v = Some (ValChatID x))" "value_kind v = KindFailedJobID \<longleftrightarrow> (\<exists>x. v = Some (ValFailedJobID x))"
  "value_kind v = KindJobID \<longleftrightarrow> (\<exists>x. v = Some (ValJobID x))" "value_kind v = KindMessageID \<longleftrightarrow> (\<exists>x. v = Some (ValMessageID x))"
  "value_kind v = KindProblemID \<longleftrightarrow> (\<exists>x. v = Some (ValProblemID x))" "value_kind v = KindUserID \<longleftrightarrow> (\<exists>x. v = Some (ValUserID x))"
  "value_kind v = KindRequestID \<longleftrightarrow> (\<exists>x. v = Some (ValRequestID x))" "value_kind v = KindString \<longleftrightarrow> (\<exists>x. v = Some (ValString x))"
  "value_kind v = KindInt \<longleftrightarrow> (\<exists>x. v = Some (ValInt x))" "value_kind v = KindBool \<longleftrightarrow> (\<exists>x. v = Some (ValBool x))"
  "value_kind v = KindTime \<longleftrightarrow> (\<exists>x. v = Some (ValTime x))"
  by (cases v rule: value_kind.cases; simp)+

end
