(* ===== verification/ChatMutations.thy ===== *)
theory ChatMutations
  imports Mutation
begin

text \<open>
  The mutation of a chat (\<open>ChatMutation\<close> in \<open>internal/store/mutation.go\<close>), one definition per method.  The edges to
  many rows are sets of identifiers or nil; the lists that Go makes of them are in no order.
\<close>

record ent_ChatMutation =
  cmu_op :: "ent_Op"
  cmu_typ :: "string"
  cmu_id :: "ChatID option"
  cmu_client_id :: "UserID option"
  cmu_created_at :: "time option"
  cmu_clearedFields :: "string set"
  cmu_messages :: "MessageID set option"
  cmu_removedmessages :: "MessageID set option"
  cmu_clearedmessages :: "bool"
  cmu_problems :: "ProblemID set option"
  cmu_removedproblems :: "ProblemID set option"
  cmu_clearedproblems :: "bool"
  cmu_done :: "bool"
  cmu_oldValue :: "(ChatID, chat_row) old_value"
  cmu_predicates :: "chat_row predicate list"

definition ent_newChatMutation :: "ent_Op \<Rightarrow> (ent_ChatMutation \<Rightarrow> ent_ChatMutation) list \<Rightarrow> ent_ChatMutation" where
  "ent_newChatMutation op opts = foldl (\<lambda>m opt. opt m)
     \<lparr>cmu_op = op, cmu_typ = ''Chat'', cmu_id = None,
       cmu_client_id = None, cmu_created_at = None, cmu_clearedFields = {},
       cmu_messages = None, cmu_removedmessages = None, cmu_clearedmessages = False,
       cmu_problems = None, cmu_removedproblems = None, cmu_clearedproblems = False,
       cmu_done = False, cmu_oldValue = OldNil, cmu_predicates = []\<rparr> opts"

definition withChatID :: "ChatID \<Rightarrow> ent_ChatMutation \<Rightarrow> ent_ChatMutation" where
  "withChatID i m = m\<lparr>cmu_oldValue := OldQuery i None, cmu_id := Some i\<rparr>"

definition withChat :: "chat_row \<Rightarrow> ent_ChatMutation \<Rightarrow> ent_ChatMutation" where
  "withChat node m = m\<lparr>cmu_oldValue := OldNode node, cmu_id := Some (c_ID node)\<rparr>"

definition ChatMutation_SetID :: "ChatID \<Rightarrow> ent_ChatMutation \<Rightarrow> ent_ChatMutation" where
  "ChatMutation_SetID v m = m\<lparr>cmu_id := Some v\<rparr>"

definition ChatMutation_ID :: "ent_ChatMutation \<Rightarrow> ChatID \<times> bool" where
  "ChatMutation_ID m = go_ok 0 (cmu_id m)"

definition ChatMutation_IDs :: "ent_ChatMutation \<Rightarrow> 'z store_scheme \<Rightarrow> ChatID list result \<times> 'z store_scheme" where
  "ChatMutation_IDs m w =
     mutation_IDs (cmu_op m) (cmu_id m) c_ID (query_Where (cmu_predicates m) (new_query ''chat'' chats)) w"

definition ChatMutation_SetClientID :: "UserID \<Rightarrow> ent_ChatMutation \<Rightarrow> ent_ChatMutation" where
  "ChatMutation_SetClientID v m = m\<lparr>cmu_client_id := Some v\<rparr>"

definition ChatMutation_ClientID :: "ent_ChatMutation \<Rightarrow> UserID \<times> bool" where
  "ChatMutation_ClientID m = go_ok 0 (cmu_client_id m)"

definition ChatMutation_OldClientID :: "ent_ChatMutation \<Rightarrow> 'z store_scheme \<Rightarrow> UserID result \<times> ent_ChatMutation \<times> 'z store_scheme" where
  "ChatMutation_OldClientID m w =
     (case mutation_old ''OldClientID'' (cmu_op m) (cmu_id m) (cmu_oldValue m) (cmu_done m) (entity_Get ''chat'' chats c_ID) w of
        (r, old, w) \<Rightarrow> (map_sum id c_ClientID r, m\<lparr>cmu_oldValue := old\<rparr>, w))"

definition ChatMutation_ResetClientID :: "ent_ChatMutation \<Rightarrow> ent_ChatMutation" where
  "ChatMutation_ResetClientID m = m\<lparr>cmu_client_id := None\<rparr>"

definition ChatMutation_SetCreatedAt :: "time \<Rightarrow> ent_ChatMutation \<Rightarrow> ent_ChatMutation" where
  "ChatMutation_SetCreatedAt v m = m\<lparr>cmu_created_at := Some v\<rparr>"

definition ChatMutation_CreatedAt :: "ent_ChatMutation \<Rightarrow> time \<times> bool" where
  "ChatMutation_CreatedAt m = go_ok 0 (cmu_created_at m)"

definition ChatMutation_OldCreatedAt :: "ent_ChatMutation \<Rightarrow> 'z store_scheme \<Rightarrow> time result \<times> ent_ChatMutation \<times> 'z store_scheme" where
  "ChatMutation_OldCreatedAt m w =
     (case mutation_old ''OldCreatedAt'' (cmu_op m) (cmu_id m) (cmu_oldValue m) (cmu_done m) (entity_Get ''chat'' chats c_ID) w of
        (r, old, w) \<Rightarrow> (map_sum id c_CreatedAt r, m\<lparr>cmu_oldValue := old\<rparr>, w))"

definition ChatMutation_ResetCreatedAt :: "ent_ChatMutation \<Rightarrow> ent_ChatMutation" where
  "ChatMutation_ResetCreatedAt m = m\<lparr>cmu_created_at := None\<rparr>"

definition ChatMutation_AddMessageIDs :: "MessageID list \<Rightarrow> ent_ChatMutation \<Rightarrow> ent_ChatMutation" where
  "ChatMutation_AddMessageIDs ids m = m\<lparr>cmu_messages := Some (or_zero {} (cmu_messages m) \<union> set ids)\<rparr>"

definition ChatMutation_ClearMessages :: "ent_ChatMutation \<Rightarrow> ent_ChatMutation" where
  "ChatMutation_ClearMessages m = m\<lparr>cmu_clearedmessages := True\<rparr>"

definition ChatMutation_MessagesCleared :: "ent_ChatMutation \<Rightarrow> bool" where
  "ChatMutation_MessagesCleared m \<longleftrightarrow> cmu_clearedmessages m"

definition ChatMutation_RemoveMessageIDs :: "MessageID list \<Rightarrow> ent_ChatMutation \<Rightarrow> ent_ChatMutation" where
  "ChatMutation_RemoveMessageIDs ids m = m\<lparr>cmu_messages := map_option (\<lambda>x. x - set ids) (cmu_messages m), cmu_removedmessages := Some (or_zero {} (cmu_removedmessages m) \<union> set ids)\<rparr>"

definition ChatMutation_RemovedMessagesIDs :: "ent_ChatMutation \<Rightarrow> MessageID set" where
  "ChatMutation_RemovedMessagesIDs m = or_zero {} (cmu_removedmessages m)"

definition ChatMutation_MessagesIDs :: "ent_ChatMutation \<Rightarrow> MessageID set" where
  "ChatMutation_MessagesIDs m = or_zero {} (cmu_messages m)"

definition ChatMutation_ResetMessages :: "ent_ChatMutation \<Rightarrow> ent_ChatMutation" where
  "ChatMutation_ResetMessages m = m\<lparr>cmu_messages := None, cmu_clearedmessages := False, cmu_removedmessages := None\<rparr>"

definition ChatMutation_AddProblemIDs :: "ProblemID list \<Rightarrow> ent_ChatMutation \<Rightarrow> ent_ChatMutation" where
  "ChatMutation_AddProblemIDs ids m = m\<lparr>cmu_problems := Some (or_zero {} (cmu_problems m) \<union> set ids)\<rparr>"

definition ChatMutation_ClearProblems :: "ent_ChatMutation \<Rightarrow> ent_ChatMutation" where
  "ChatMutation_ClearProblems m = m\<lparr>cmu_clearedproblems := True\<rparr>"

definition ChatMutation_ProblemsCleared :: "ent_ChatMutation \<Rightarrow> bool" where
  "ChatMutation_ProblemsCleared m \<longleftrightarrow> cmu_clearedproblems m"

definition ChatMutation_RemoveProblemIDs :: "ProblemID list \<Rightarrow> ent_ChatMutation \<Rightarrow> ent_ChatMutation" where
  "ChatMutation_RemoveProblemIDs ids m = m\<lparr>cmu_problems := map_option (\<lambda>x. x - set ids) (cmu_problems m), cmu_removedproblems := Some (or_zero {} (cmu_removedproblems m) \<union> set ids)\<rparr>"

definition ChatMutation_RemovedProblemsIDs :: "ent_ChatMutation \<Rightarrow> ProblemID set" where
  "ChatMutation_RemovedProblemsIDs m = or_zero {} (cmu_removedproblems m)"

definition ChatMutation_ProblemsIDs :: "ent_ChatMutation \<Rightarrow> ProblemID set" where
  "ChatMutation_ProblemsIDs m = or_zero {} (cmu_problems m)"

definition ChatMutation_ResetProblems :: "ent_ChatMutation \<Rightarrow> ent_ChatMutation" where
  "ChatMutation_ResetProblems m = m\<lparr>cmu_problems := None, cmu_clearedproblems := False, cmu_removedproblems := None\<rparr>"

definition ChatMutation_Where :: "chat_row predicate list \<Rightarrow> ent_ChatMutation \<Rightarrow> ent_ChatMutation" where
  "ChatMutation_Where ps m = m\<lparr>cmu_predicates := cmu_predicates m @ ps\<rparr>"

definition ChatMutation_WhereP :: "chat_row predicate list \<Rightarrow> ent_ChatMutation \<Rightarrow> ent_ChatMutation" where
  "ChatMutation_WhereP ps m = ChatMutation_Where (map id ps) m"

definition ChatMutation_Op :: "ent_ChatMutation \<Rightarrow> ent_Op" where
  "ChatMutation_Op m = cmu_op m"

definition ChatMutation_SetOp :: "ent_Op \<Rightarrow> ent_ChatMutation \<Rightarrow> ent_ChatMutation" where
  "ChatMutation_SetOp op m = m\<lparr>cmu_op := op\<rparr>"

definition ChatMutation_Type :: "ent_ChatMutation \<Rightarrow> string" where
  "ChatMutation_Type m = cmu_typ m"

definition ChatMutation_Fields :: "ent_ChatMutation \<Rightarrow> string list" where
  "ChatMutation_Fields m =
     (if cmu_client_id m \<noteq> None then [''client_id''] else [])
     @ (if cmu_created_at m \<noteq> None then [''created_at''] else [])"

definition ChatMutation_Field :: "string \<Rightarrow> ent_ChatMutation \<Rightarrow> ent_value option \<times> bool" where
  "ChatMutation_Field name m =
     (if name = ''client_id'' then field_value ValUserID (ChatMutation_ClientID m)
      else if name = ''created_at'' then field_value ValTime (ChatMutation_CreatedAt m)
      else (None, False))"

definition ChatMutation_OldField :: "string \<Rightarrow> ent_ChatMutation \<Rightarrow> 'z store_scheme \<Rightarrow> ent_value result \<times> ent_ChatMutation \<times> 'z store_scheme" where
  "ChatMutation_OldField name m w =
     (if name = ''client_id'' then map_prod (map_sum id ValUserID) id (ChatMutation_OldClientID m w)
      else if name = ''created_at'' then map_prod (map_sum id ValTime) id (ChatMutation_OldCreatedAt m w)
      else (Inl (unknown_field ''Chat'' ''field'' name), m, w))"

definition ChatMutation_SetField :: "string \<Rightarrow> ent_value option \<Rightarrow> ent_ChatMutation \<Rightarrow> goerr option \<times> ent_ChatMutation" where
  "ChatMutation_SetField name value m =
     (if name = ''client_id'' then (case value of Some (ValUserID v) \<Rightarrow> (None, ChatMutation_SetClientID v m) | _ \<Rightarrow> (Some (unexpected_type value name), m))
      else if name = ''created_at'' then (case value of Some (ValTime v) \<Rightarrow> (None, ChatMutation_SetCreatedAt v m) | _ \<Rightarrow> (Some (unexpected_type value name), m))
      else (Some (unknown_field ''Chat'' ''field'' name), m))"

definition ChatMutation_AddedFields :: "ent_ChatMutation \<Rightarrow> string list" where
  "ChatMutation_AddedFields m = []"

definition ChatMutation_AddedField :: "string \<Rightarrow> ent_ChatMutation \<Rightarrow> ent_value option \<times> bool" where
  "ChatMutation_AddedField name m =
     ((None, False))"

definition ChatMutation_AddField :: "string \<Rightarrow> ent_value option \<Rightarrow> ent_ChatMutation \<Rightarrow> goerr option \<times> ent_ChatMutation" where
  "ChatMutation_AddField name value m =
     ((Some (unknown_field ''Chat'' ''numeric field'' name), m))"

definition ChatMutation_ClearedFields :: "ent_ChatMutation \<Rightarrow> string list" where
  "ChatMutation_ClearedFields m = []"

definition ChatMutation_FieldCleared :: "string \<Rightarrow> ent_ChatMutation \<Rightarrow> bool" where
  "ChatMutation_FieldCleared name m \<longleftrightarrow> name \<in> cmu_clearedFields m"

definition ChatMutation_ClearField :: "string \<Rightarrow> ent_ChatMutation \<Rightarrow> goerr option \<times> ent_ChatMutation" where
  "ChatMutation_ClearField name m =
     ((Some (unknown_field ''Chat'' ''nullable field'' name), m))"

definition ChatMutation_ResetField :: "string \<Rightarrow> ent_ChatMutation \<Rightarrow> goerr option \<times> ent_ChatMutation" where
  "ChatMutation_ResetField name m =
     (if name = ''client_id'' then (None, ChatMutation_ResetClientID m)
      else if name = ''created_at'' then (None, ChatMutation_ResetCreatedAt m)
      else (Some (unknown_field ''Chat'' ''field'' name), m))"

definition ChatMutation_AddedEdges :: "ent_ChatMutation \<Rightarrow> string list" where
  "ChatMutation_AddedEdges m =
     (if cmu_messages m \<noteq> None then [''messages''] else [])
     @ (if cmu_problems m \<noteq> None then [''problems''] else [])"

definition ChatMutation_AddedIDs :: "string \<Rightarrow> ent_ChatMutation \<Rightarrow> ent_value set" where
  "ChatMutation_AddedIDs name m =
     (if name = ''messages'' then ValMessageID ` or_zero {} (cmu_messages m)
      else if name = ''problems'' then ValProblemID ` or_zero {} (cmu_problems m)
      else {})"

definition ChatMutation_RemovedEdges :: "ent_ChatMutation \<Rightarrow> string list" where
  "ChatMutation_RemovedEdges m =
     (if cmu_removedmessages m \<noteq> None then [''messages''] else [])
     @ (if cmu_removedproblems m \<noteq> None then [''problems''] else [])"

definition ChatMutation_RemovedIDs :: "string \<Rightarrow> ent_ChatMutation \<Rightarrow> ent_value set" where
  "ChatMutation_RemovedIDs name m =
     (if name = ''messages'' then ValMessageID ` or_zero {} (cmu_removedmessages m)
      else if name = ''problems'' then ValProblemID ` or_zero {} (cmu_removedproblems m)
      else {})"

definition ChatMutation_ClearedEdges :: "ent_ChatMutation \<Rightarrow> string list" where
  "ChatMutation_ClearedEdges m =
     (if cmu_clearedmessages m then [''messages''] else [])
     @ (if cmu_clearedproblems m then [''problems''] else [])"

definition ChatMutation_EdgeCleared :: "string \<Rightarrow> ent_ChatMutation \<Rightarrow> bool" where
  "ChatMutation_EdgeCleared name m \<longleftrightarrow>
     (if name = ''messages'' then cmu_clearedmessages m
      else if name = ''problems'' then cmu_clearedproblems m
      else False)"

definition ChatMutation_ClearEdge :: "string \<Rightarrow> ent_ChatMutation \<Rightarrow> goerr option \<times> ent_ChatMutation" where
  "ChatMutation_ClearEdge name m =
     ((Some (unknown_field ''Chat'' ''unique edge'' name), m))"

definition ChatMutation_ResetEdge :: "string \<Rightarrow> ent_ChatMutation \<Rightarrow> goerr option \<times> ent_ChatMutation" where
  "ChatMutation_ResetEdge name m =
     (if name = ''messages'' then (None, ChatMutation_ResetMessages m)
      else if name = ''problems'' then (None, ChatMutation_ResetProblems m)
      else (Some (unknown_field ''Chat'' ''edge'' name), m))"

section \<open>The fields by name\<close>

definition ChatMutation_kind :: "string \<Rightarrow> ent_kind option" where
  "ChatMutation_kind = map_of [(''client_id'', KindUserID), (''created_at'', KindTime)]"

lemmas ChatMutation_by_name = ChatMutation_SetField_def ChatMutation_Field_def ChatMutation_ResetField_def ChatMutation_Fields_def

lemmas ChatMutation_fields = ChatMutation_SetClientID_def ChatMutation_ClientID_def ChatMutation_ResetClientID_def
  ChatMutation_SetCreatedAt_def ChatMutation_CreatedAt_def ChatMutation_ResetCreatedAt_def

lemma ChatMutation_kind_columns: "{n. ChatMutation_kind n \<noteq> None} = set [''client_id'', ''created_at'']"
  by (auto simp: ChatMutation_kind_def)

lemma ChatMutation_columns:
  assumes "ChatMutation_kind n = Some k"
  obtains "n = ''client_id''" "k = KindUserID"
  | "n = ''created_at''" "k = KindTime"
  using assms by (auto simp: ChatMutation_kind_def split: if_splits)

lemma ChatMutation_unknown:
  assumes "ChatMutation_kind n = None"
  shows "ChatMutation_Field n m = (None, False)" "ChatMutation_SetField n v m = (Some (unknown_field ''Chat'' ''field'' n), m)"
    "ChatMutation_ResetField n m = (Some (unknown_field ''Chat'' ''field'' n), m)"
  using assms by (auto simp: ChatMutation_kind_def ChatMutation_by_name split: if_splits)

text \<open>One field at a time.\<close>

lemma ChatMutation_Field_Set:
  "ChatMutation_Field n (ChatMutation_SetClientID v0 m) = (if n = ''client_id'' then (Some (ValUserID v0), True) else ChatMutation_Field n m)"
  "ChatMutation_Field n (ChatMutation_SetCreatedAt v1 m) = (if n = ''created_at'' then (Some (ValTime v1), True) else ChatMutation_Field n m)"
  by (simp_all add: ChatMutation_Field_def ChatMutation_fields)

lemma ChatMutation_Field_Reset:
  "\<not> snd (ChatMutation_Field ''client_id'' (ChatMutation_ResetClientID m))" "n \<noteq> ''client_id'' \<Longrightarrow> ChatMutation_Field n (ChatMutation_ResetClientID m) = ChatMutation_Field n m"
  "\<not> snd (ChatMutation_Field ''created_at'' (ChatMutation_ResetCreatedAt m))" "n \<noteq> ''created_at'' \<Longrightarrow> ChatMutation_Field n (ChatMutation_ResetCreatedAt m) = ChatMutation_Field n m"
  by (simp_all add: ChatMutation_Field_def ChatMutation_fields)

lemma ChatMutation_Field_isset:
  "snd (ChatMutation_Field ''client_id'' m) \<longleftrightarrow> cmu_client_id m \<noteq> None"
  "snd (ChatMutation_Field ''created_at'' m) \<longleftrightarrow> cmu_created_at m \<noteq> None"
  by (simp_all add: ChatMutation_Field_def ChatMutation_fields)

lemma ChatMutation_set_ok:
  assumes "ChatMutation_kind n = Some (value_kind v)"
  shows "\<exists>m'. ChatMutation_SetField n v m = (None, m') \<and> ChatMutation_Field n m' = (v, True) \<and> (\<forall>n'. n' \<noteq> n \<longrightarrow> ChatMutation_Field n' m' = ChatMutation_Field n' m)"
proof -
  obtain k where k: "ChatMutation_kind n = Some k" "value_kind v = k" using assms by blast
  from k(1) show ?thesis
    by (rule ChatMutation_columns) (use k(2) in \<open>auto simp: value_kind_iff ChatMutation_SetField_def ChatMutation_Field_Set\<close>)
qed

lemma ChatMutation_set_err:
  assumes "ChatMutation_kind n \<noteq> Some (value_kind v)"
  shows "\<exists>e. ChatMutation_SetField n v m = (Some e, m)"
proof (cases "ChatMutation_kind n")
  case None
  then show ?thesis by (simp add: ChatMutation_unknown)
next
  case (Some k)
  then show ?thesis
    by (rule ChatMutation_columns) (use assms in \<open>auto simp: ChatMutation_SetField_def ChatMutation_kind_def split: option.splits ent_value.splits\<close>)
qed

lemma ChatMutation_reset_ok:
  assumes "ChatMutation_kind n \<noteq> None"
  shows "\<exists>m'. ChatMutation_ResetField n m = (None, m') \<and> \<not> snd (ChatMutation_Field n m') \<and> (\<forall>n'. n' \<noteq> n \<longrightarrow> ChatMutation_Field n' m' = ChatMutation_Field n' m)"
proof -
  from assms obtain k where "ChatMutation_kind n = Some k" by auto
  then show ?thesis by (rule ChatMutation_columns) (auto simp: ChatMutation_ResetField_def ChatMutation_Field_Reset)
qed

interpretation chat_fields: typed_fields ChatMutation_kind ChatMutation_SetField ChatMutation_Field ChatMutation_ResetField ChatMutation_Fields
    "[''client_id'', ''created_at'']"
proof
  show "ChatMutation_Fields m = filter (\<lambda>n. snd (ChatMutation_Field n m)) [''client_id'', ''created_at'']" for m
    by (simp add: filter_Cons_append ChatMutation_Fields_def ChatMutation_Field_isset del: filter.simps(2))
  show "set [''client_id'', ''created_at''] = {n. ChatMutation_kind n \<noteq> None}" by (rule ChatMutation_kind_columns [symmetric])
qed (auto simp: ChatMutation_unknown intro: ChatMutation_set_ok ChatMutation_set_err ChatMutation_reset_ok)

end
