(* ===== verification/FailedJobMutations.thy ===== *)
theory FailedJobMutations
  imports Mutation
begin

text \<open>
  The mutation of a dead letter (\<open>FailedJobMutation\<close> in \<open>internal/store/mutation.go\<close>), one definition per method.  The edges to
  many rows are sets of identifiers or nil; the lists that Go makes of them are in no order.
\<close>

record ent_FailedJobMutation =
  fmu_op :: "ent_Op"
  fmu_typ :: "string"
  fmu_id :: "FailedJobID option"
  fmu_name :: "string option"
  fmu_payload :: "string option"
  fmu_reason :: "string option"
  fmu_created_at :: "time option"
  fmu_clearedFields :: "string set"
  fmu_done :: "bool"
  fmu_oldValue :: "(FailedJobID, failed_job_row) old_value"
  fmu_predicates :: "failed_job_row predicate list"

definition ent_newFailedJobMutation :: "ent_Op \<Rightarrow> (ent_FailedJobMutation \<Rightarrow> ent_FailedJobMutation) list \<Rightarrow> ent_FailedJobMutation" where
  "ent_newFailedJobMutation op opts = foldl (\<lambda>m opt. opt m)
     \<lparr>fmu_op = op, fmu_typ = ''FailedJob'', fmu_id = None,
       fmu_name = None, fmu_payload = None, fmu_reason = None,
       fmu_created_at = None, fmu_clearedFields = {}, fmu_done = False,
       fmu_oldValue = OldNil, fmu_predicates = []\<rparr> opts"

definition withFailedJobID :: "FailedJobID \<Rightarrow> ent_FailedJobMutation \<Rightarrow> ent_FailedJobMutation" where
  "withFailedJobID i m = m\<lparr>fmu_oldValue := OldQuery i None, fmu_id := Some i\<rparr>"

definition withFailedJob :: "failed_job_row \<Rightarrow> ent_FailedJobMutation \<Rightarrow> ent_FailedJobMutation" where
  "withFailedJob node m = m\<lparr>fmu_oldValue := OldNode node, fmu_id := Some (f_ID node)\<rparr>"

definition FailedJobMutation_SetID :: "FailedJobID \<Rightarrow> ent_FailedJobMutation \<Rightarrow> ent_FailedJobMutation" where
  "FailedJobMutation_SetID v m = m\<lparr>fmu_id := Some v\<rparr>"

definition FailedJobMutation_ID :: "ent_FailedJobMutation \<Rightarrow> FailedJobID \<times> bool" where
  "FailedJobMutation_ID m = go_ok 0 (fmu_id m)"

definition FailedJobMutation_IDs :: "ent_FailedJobMutation \<Rightarrow> 'z store_scheme \<Rightarrow> FailedJobID list result \<times> 'z store_scheme" where
  "FailedJobMutation_IDs m w =
     mutation_IDs (fmu_op m) (fmu_id m) f_ID (query_Where (fmu_predicates m) (new_query ''failed_job'' failed_jobs)) w"

definition FailedJobMutation_SetName :: "string \<Rightarrow> ent_FailedJobMutation \<Rightarrow> ent_FailedJobMutation" where
  "FailedJobMutation_SetName v m = m\<lparr>fmu_name := Some v\<rparr>"

definition FailedJobMutation_Name :: "ent_FailedJobMutation \<Rightarrow> string \<times> bool" where
  "FailedJobMutation_Name m = go_ok [] (fmu_name m)"

definition FailedJobMutation_OldName :: "ent_FailedJobMutation \<Rightarrow> 'z store_scheme \<Rightarrow> string result \<times> ent_FailedJobMutation \<times> 'z store_scheme" where
  "FailedJobMutation_OldName m w =
     (case mutation_old ''OldName'' (fmu_op m) (fmu_id m) (fmu_oldValue m) (fmu_done m) (entity_Get ''failed_job'' failed_jobs f_ID) w of
        (r, old, w) \<Rightarrow> (map_sum id f_Name r, m\<lparr>fmu_oldValue := old\<rparr>, w))"

definition FailedJobMutation_ResetName :: "ent_FailedJobMutation \<Rightarrow> ent_FailedJobMutation" where
  "FailedJobMutation_ResetName m = m\<lparr>fmu_name := None\<rparr>"

definition FailedJobMutation_SetPayload :: "string \<Rightarrow> ent_FailedJobMutation \<Rightarrow> ent_FailedJobMutation" where
  "FailedJobMutation_SetPayload v m = m\<lparr>fmu_payload := Some v\<rparr>"

definition FailedJobMutation_Payload :: "ent_FailedJobMutation \<Rightarrow> string \<times> bool" where
  "FailedJobMutation_Payload m = go_ok [] (fmu_payload m)"

definition FailedJobMutation_OldPayload :: "ent_FailedJobMutation \<Rightarrow> 'z store_scheme \<Rightarrow> string result \<times> ent_FailedJobMutation \<times> 'z store_scheme" where
  "FailedJobMutation_OldPayload m w =
     (case mutation_old ''OldPayload'' (fmu_op m) (fmu_id m) (fmu_oldValue m) (fmu_done m) (entity_Get ''failed_job'' failed_jobs f_ID) w of
        (r, old, w) \<Rightarrow> (map_sum id f_Payload r, m\<lparr>fmu_oldValue := old\<rparr>, w))"

definition FailedJobMutation_ResetPayload :: "ent_FailedJobMutation \<Rightarrow> ent_FailedJobMutation" where
  "FailedJobMutation_ResetPayload m = m\<lparr>fmu_payload := None\<rparr>"

definition FailedJobMutation_SetReason :: "string \<Rightarrow> ent_FailedJobMutation \<Rightarrow> ent_FailedJobMutation" where
  "FailedJobMutation_SetReason v m = m\<lparr>fmu_reason := Some v\<rparr>"

definition FailedJobMutation_Reason :: "ent_FailedJobMutation \<Rightarrow> string \<times> bool" where
  "FailedJobMutation_Reason m = go_ok [] (fmu_reason m)"

definition FailedJobMutation_OldReason :: "ent_FailedJobMutation \<Rightarrow> 'z store_scheme \<Rightarrow> string result \<times> ent_FailedJobMutation \<times> 'z store_scheme" where
  "FailedJobMutation_OldReason m w =
     (case mutation_old ''OldReason'' (fmu_op m) (fmu_id m) (fmu_oldValue m) (fmu_done m) (entity_Get ''failed_job'' failed_jobs f_ID) w of
        (r, old, w) \<Rightarrow> (map_sum id f_Reason r, m\<lparr>fmu_oldValue := old\<rparr>, w))"

definition FailedJobMutation_ResetReason :: "ent_FailedJobMutation \<Rightarrow> ent_FailedJobMutation" where
  "FailedJobMutation_ResetReason m = m\<lparr>fmu_reason := None\<rparr>"

definition FailedJobMutation_SetCreatedAt :: "time \<Rightarrow> ent_FailedJobMutation \<Rightarrow> ent_FailedJobMutation" where
  "FailedJobMutation_SetCreatedAt v m = m\<lparr>fmu_created_at := Some v\<rparr>"

definition FailedJobMutation_CreatedAt :: "ent_FailedJobMutation \<Rightarrow> time \<times> bool" where
  "FailedJobMutation_CreatedAt m = go_ok 0 (fmu_created_at m)"

definition FailedJobMutation_OldCreatedAt :: "ent_FailedJobMutation \<Rightarrow> 'z store_scheme \<Rightarrow> time result \<times> ent_FailedJobMutation \<times> 'z store_scheme" where
  "FailedJobMutation_OldCreatedAt m w =
     (case mutation_old ''OldCreatedAt'' (fmu_op m) (fmu_id m) (fmu_oldValue m) (fmu_done m) (entity_Get ''failed_job'' failed_jobs f_ID) w of
        (r, old, w) \<Rightarrow> (map_sum id f_CreatedAt r, m\<lparr>fmu_oldValue := old\<rparr>, w))"

definition FailedJobMutation_ResetCreatedAt :: "ent_FailedJobMutation \<Rightarrow> ent_FailedJobMutation" where
  "FailedJobMutation_ResetCreatedAt m = m\<lparr>fmu_created_at := None\<rparr>"

definition FailedJobMutation_Where :: "failed_job_row predicate list \<Rightarrow> ent_FailedJobMutation \<Rightarrow> ent_FailedJobMutation" where
  "FailedJobMutation_Where ps m = m\<lparr>fmu_predicates := fmu_predicates m @ ps\<rparr>"

definition FailedJobMutation_WhereP :: "failed_job_row predicate list \<Rightarrow> ent_FailedJobMutation \<Rightarrow> ent_FailedJobMutation" where
  "FailedJobMutation_WhereP ps m = FailedJobMutation_Where (map id ps) m"

definition FailedJobMutation_Op :: "ent_FailedJobMutation \<Rightarrow> ent_Op" where
  "FailedJobMutation_Op m = fmu_op m"

definition FailedJobMutation_SetOp :: "ent_Op \<Rightarrow> ent_FailedJobMutation \<Rightarrow> ent_FailedJobMutation" where
  "FailedJobMutation_SetOp op m = m\<lparr>fmu_op := op\<rparr>"

definition FailedJobMutation_Type :: "ent_FailedJobMutation \<Rightarrow> string" where
  "FailedJobMutation_Type m = fmu_typ m"

definition FailedJobMutation_Fields :: "ent_FailedJobMutation \<Rightarrow> string list" where
  "FailedJobMutation_Fields m =
     (if fmu_name m \<noteq> None then [''name''] else [])
     @ (if fmu_payload m \<noteq> None then [''payload''] else [])
     @ (if fmu_reason m \<noteq> None then [''reason''] else [])
     @ (if fmu_created_at m \<noteq> None then [''created_at''] else [])"

definition FailedJobMutation_Field :: "string \<Rightarrow> ent_FailedJobMutation \<Rightarrow> ent_value option \<times> bool" where
  "FailedJobMutation_Field name m =
     (if name = ''name'' then field_value ValString (FailedJobMutation_Name m)
      else if name = ''payload'' then field_value ValString (FailedJobMutation_Payload m)
      else if name = ''reason'' then field_value ValString (FailedJobMutation_Reason m)
      else if name = ''created_at'' then field_value ValTime (FailedJobMutation_CreatedAt m)
      else (None, False))"

definition FailedJobMutation_OldField :: "string \<Rightarrow> ent_FailedJobMutation \<Rightarrow> 'z store_scheme \<Rightarrow> ent_value result \<times> ent_FailedJobMutation \<times> 'z store_scheme" where
  "FailedJobMutation_OldField name m w =
     (if name = ''name'' then map_prod (map_sum id ValString) id (FailedJobMutation_OldName m w)
      else if name = ''payload'' then map_prod (map_sum id ValString) id (FailedJobMutation_OldPayload m w)
      else if name = ''reason'' then map_prod (map_sum id ValString) id (FailedJobMutation_OldReason m w)
      else if name = ''created_at'' then map_prod (map_sum id ValTime) id (FailedJobMutation_OldCreatedAt m w)
      else (Inl (unknown_field ''FailedJob'' ''field'' name), m, w))"

definition FailedJobMutation_SetField :: "string \<Rightarrow> ent_value option \<Rightarrow> ent_FailedJobMutation \<Rightarrow> goerr option \<times> ent_FailedJobMutation" where
  "FailedJobMutation_SetField name value m =
     (if name = ''name'' then (case value of Some (ValString v) \<Rightarrow> (None, FailedJobMutation_SetName v m) | _ \<Rightarrow> (Some (unexpected_type value name), m))
      else if name = ''payload'' then (case value of Some (ValString v) \<Rightarrow> (None, FailedJobMutation_SetPayload v m) | _ \<Rightarrow> (Some (unexpected_type value name), m))
      else if name = ''reason'' then (case value of Some (ValString v) \<Rightarrow> (None, FailedJobMutation_SetReason v m) | _ \<Rightarrow> (Some (unexpected_type value name), m))
      else if name = ''created_at'' then (case value of Some (ValTime v) \<Rightarrow> (None, FailedJobMutation_SetCreatedAt v m) | _ \<Rightarrow> (Some (unexpected_type value name), m))
      else (Some (unknown_field ''FailedJob'' ''field'' name), m))"

definition FailedJobMutation_AddedFields :: "ent_FailedJobMutation \<Rightarrow> string list" where
  "FailedJobMutation_AddedFields m = []"

definition FailedJobMutation_AddedField :: "string \<Rightarrow> ent_FailedJobMutation \<Rightarrow> ent_value option \<times> bool" where
  "FailedJobMutation_AddedField name m =
     ((None, False))"

definition FailedJobMutation_AddField :: "string \<Rightarrow> ent_value option \<Rightarrow> ent_FailedJobMutation \<Rightarrow> goerr option \<times> ent_FailedJobMutation" where
  "FailedJobMutation_AddField name value m =
     ((Some (unknown_field ''FailedJob'' ''numeric field'' name), m))"

definition FailedJobMutation_ClearedFields :: "ent_FailedJobMutation \<Rightarrow> string list" where
  "FailedJobMutation_ClearedFields m = []"

definition FailedJobMutation_FieldCleared :: "string \<Rightarrow> ent_FailedJobMutation \<Rightarrow> bool" where
  "FailedJobMutation_FieldCleared name m \<longleftrightarrow> name \<in> fmu_clearedFields m"

definition FailedJobMutation_ClearField :: "string \<Rightarrow> ent_FailedJobMutation \<Rightarrow> goerr option \<times> ent_FailedJobMutation" where
  "FailedJobMutation_ClearField name m =
     ((Some (unknown_field ''FailedJob'' ''nullable field'' name), m))"

definition FailedJobMutation_ResetField :: "string \<Rightarrow> ent_FailedJobMutation \<Rightarrow> goerr option \<times> ent_FailedJobMutation" where
  "FailedJobMutation_ResetField name m =
     (if name = ''name'' then (None, FailedJobMutation_ResetName m)
      else if name = ''payload'' then (None, FailedJobMutation_ResetPayload m)
      else if name = ''reason'' then (None, FailedJobMutation_ResetReason m)
      else if name = ''created_at'' then (None, FailedJobMutation_ResetCreatedAt m)
      else (Some (unknown_field ''FailedJob'' ''field'' name), m))"

definition FailedJobMutation_AddedEdges :: "ent_FailedJobMutation \<Rightarrow> string list" where
  "FailedJobMutation_AddedEdges m =
     []"

definition FailedJobMutation_AddedIDs :: "string \<Rightarrow> ent_FailedJobMutation \<Rightarrow> ent_value set" where
  "FailedJobMutation_AddedIDs name m =
     ({})"

definition FailedJobMutation_RemovedEdges :: "ent_FailedJobMutation \<Rightarrow> string list" where
  "FailedJobMutation_RemovedEdges m =
     []"

definition FailedJobMutation_RemovedIDs :: "string \<Rightarrow> ent_FailedJobMutation \<Rightarrow> ent_value set" where
  "FailedJobMutation_RemovedIDs name m =
     ({})"

definition FailedJobMutation_ClearedEdges :: "ent_FailedJobMutation \<Rightarrow> string list" where
  "FailedJobMutation_ClearedEdges m =
     []"

definition FailedJobMutation_EdgeCleared :: "string \<Rightarrow> ent_FailedJobMutation \<Rightarrow> bool" where
  "FailedJobMutation_EdgeCleared name m \<longleftrightarrow>
     (False)"

definition FailedJobMutation_ClearEdge :: "string \<Rightarrow> ent_FailedJobMutation \<Rightarrow> goerr option \<times> ent_FailedJobMutation" where
  "FailedJobMutation_ClearEdge name m =
     ((Some (unknown_field ''FailedJob'' ''unique edge'' name), m))"

definition FailedJobMutation_ResetEdge :: "string \<Rightarrow> ent_FailedJobMutation \<Rightarrow> goerr option \<times> ent_FailedJobMutation" where
  "FailedJobMutation_ResetEdge name m =
     ((Some (unknown_field ''FailedJob'' ''edge'' name), m))"

section \<open>The fields by name\<close>

definition FailedJobMutation_kind :: "string \<Rightarrow> ent_kind option" where
  "FailedJobMutation_kind = map_of [(''name'', KindString), (''payload'', KindString), (''reason'', KindString),
     (''created_at'', KindTime)]"

lemmas FailedJobMutation_by_name = FailedJobMutation_SetField_def FailedJobMutation_Field_def FailedJobMutation_ResetField_def FailedJobMutation_Fields_def

lemmas FailedJobMutation_fields = FailedJobMutation_SetName_def FailedJobMutation_Name_def FailedJobMutation_ResetName_def
  FailedJobMutation_SetPayload_def FailedJobMutation_Payload_def FailedJobMutation_ResetPayload_def
  FailedJobMutation_SetReason_def FailedJobMutation_Reason_def FailedJobMutation_ResetReason_def
  FailedJobMutation_SetCreatedAt_def FailedJobMutation_CreatedAt_def FailedJobMutation_ResetCreatedAt_def

lemma FailedJobMutation_kind_columns: "{n. FailedJobMutation_kind n \<noteq> None} = set [''name'', ''payload'', ''reason'', ''created_at'']"
  by (auto simp: FailedJobMutation_kind_def)

lemma FailedJobMutation_columns:
  assumes "FailedJobMutation_kind n = Some k"
  obtains "n = ''name''" "k = KindString"
  | "n = ''payload''" "k = KindString"
  | "n = ''reason''" "k = KindString"
  | "n = ''created_at''" "k = KindTime"
  using assms by (auto simp: FailedJobMutation_kind_def split: if_splits)

lemma FailedJobMutation_unknown:
  assumes "FailedJobMutation_kind n = None"
  shows "FailedJobMutation_Field n m = (None, False)" "FailedJobMutation_SetField n v m = (Some (unknown_field ''FailedJob'' ''field'' n), m)"
    "FailedJobMutation_ResetField n m = (Some (unknown_field ''FailedJob'' ''field'' n), m)"
  using assms by (auto simp: FailedJobMutation_kind_def FailedJobMutation_by_name split: if_splits)

text \<open>One field at a time.\<close>

lemma FailedJobMutation_Field_Set:
  "FailedJobMutation_Field n (FailedJobMutation_SetName v0 m) = (if n = ''name'' then (Some (ValString v0), True) else FailedJobMutation_Field n m)"
  "FailedJobMutation_Field n (FailedJobMutation_SetPayload v1 m) = (if n = ''payload'' then (Some (ValString v1), True) else FailedJobMutation_Field n m)"
  "FailedJobMutation_Field n (FailedJobMutation_SetReason v2 m) = (if n = ''reason'' then (Some (ValString v2), True) else FailedJobMutation_Field n m)"
  "FailedJobMutation_Field n (FailedJobMutation_SetCreatedAt v3 m) = (if n = ''created_at'' then (Some (ValTime v3), True) else FailedJobMutation_Field n m)"
  by (simp_all add: FailedJobMutation_Field_def FailedJobMutation_fields)

lemma FailedJobMutation_Field_Reset:
  "\<not> snd (FailedJobMutation_Field ''name'' (FailedJobMutation_ResetName m))" "n \<noteq> ''name'' \<Longrightarrow> FailedJobMutation_Field n (FailedJobMutation_ResetName m) = FailedJobMutation_Field n m"
  "\<not> snd (FailedJobMutation_Field ''payload'' (FailedJobMutation_ResetPayload m))" "n \<noteq> ''payload'' \<Longrightarrow> FailedJobMutation_Field n (FailedJobMutation_ResetPayload m) = FailedJobMutation_Field n m"
  "\<not> snd (FailedJobMutation_Field ''reason'' (FailedJobMutation_ResetReason m))" "n \<noteq> ''reason'' \<Longrightarrow> FailedJobMutation_Field n (FailedJobMutation_ResetReason m) = FailedJobMutation_Field n m"
  "\<not> snd (FailedJobMutation_Field ''created_at'' (FailedJobMutation_ResetCreatedAt m))" "n \<noteq> ''created_at'' \<Longrightarrow> FailedJobMutation_Field n (FailedJobMutation_ResetCreatedAt m) = FailedJobMutation_Field n m"
  by (simp_all add: FailedJobMutation_Field_def FailedJobMutation_fields)

lemma FailedJobMutation_Field_isset:
  "snd (FailedJobMutation_Field ''name'' m) \<longleftrightarrow> fmu_name m \<noteq> None"
  "snd (FailedJobMutation_Field ''payload'' m) \<longleftrightarrow> fmu_payload m \<noteq> None"
  "snd (FailedJobMutation_Field ''reason'' m) \<longleftrightarrow> fmu_reason m \<noteq> None"
  "snd (FailedJobMutation_Field ''created_at'' m) \<longleftrightarrow> fmu_created_at m \<noteq> None"
  by (simp_all add: FailedJobMutation_Field_def FailedJobMutation_fields)

lemma FailedJobMutation_set_ok:
  assumes "FailedJobMutation_kind n = Some (value_kind v)"
  shows "\<exists>m'. FailedJobMutation_SetField n v m = (None, m') \<and> FailedJobMutation_Field n m' = (v, True) \<and> (\<forall>n'. n' \<noteq> n \<longrightarrow> FailedJobMutation_Field n' m' = FailedJobMutation_Field n' m)"
proof -
  obtain k where k: "FailedJobMutation_kind n = Some k" "value_kind v = k" using assms by blast
  from k(1) show ?thesis
    by (rule FailedJobMutation_columns) (use k(2) in \<open>auto simp: value_kind_iff FailedJobMutation_SetField_def FailedJobMutation_Field_Set\<close>)
qed

lemma FailedJobMutation_set_err:
  assumes "FailedJobMutation_kind n \<noteq> Some (value_kind v)"
  shows "\<exists>e. FailedJobMutation_SetField n v m = (Some e, m)"
proof (cases "FailedJobMutation_kind n")
  case None
  then show ?thesis by (simp add: FailedJobMutation_unknown)
next
  case (Some k)
  then show ?thesis
    by (rule FailedJobMutation_columns) (use assms in \<open>auto simp: FailedJobMutation_SetField_def FailedJobMutation_kind_def split: option.splits ent_value.splits\<close>)
qed

lemma FailedJobMutation_reset_ok:
  assumes "FailedJobMutation_kind n \<noteq> None"
  shows "\<exists>m'. FailedJobMutation_ResetField n m = (None, m') \<and> \<not> snd (FailedJobMutation_Field n m') \<and> (\<forall>n'. n' \<noteq> n \<longrightarrow> FailedJobMutation_Field n' m' = FailedJobMutation_Field n' m)"
proof -
  from assms obtain k where "FailedJobMutation_kind n = Some k" by auto
  then show ?thesis by (rule FailedJobMutation_columns) (auto simp: FailedJobMutation_ResetField_def FailedJobMutation_Field_Reset)
qed

interpretation failedjob_fields: typed_fields FailedJobMutation_kind FailedJobMutation_SetField FailedJobMutation_Field FailedJobMutation_ResetField FailedJobMutation_Fields
    "[''name'', ''payload'', ''reason'', ''created_at'']"
proof
  show "FailedJobMutation_Fields m = filter (\<lambda>n. snd (FailedJobMutation_Field n m)) [''name'', ''payload'', ''reason'', ''created_at'']" for m
    by (simp add: filter_Cons_append FailedJobMutation_Fields_def FailedJobMutation_Field_isset del: filter.simps(2))
  show "set [''name'', ''payload'', ''reason'', ''created_at''] = {n. FailedJobMutation_kind n \<noteq> None}" by (rule FailedJobMutation_kind_columns [symmetric])
qed (auto simp: FailedJobMutation_unknown intro: FailedJobMutation_set_ok FailedJobMutation_set_err FailedJobMutation_reset_ok)

end
