(* ===== verification/JobMutations.thy ===== *)
theory JobMutations
  imports Mutation
begin

text \<open>
  The mutation of a job (\<open>JobMutation\<close> in \<open>internal/store/mutation.go\<close>), one definition per method.  The edges to
  many rows are sets of identifiers or nil; the lists that Go makes of them are in no order.
\<close>

record ent_JobMutation =
  jmu_op :: "ent_Op"
  jmu_typ :: "string"
  jmu_id :: "JobID option"
  jmu_name :: "string option"
  jmu_payload :: "string option"
  jmu_attempts :: "int option"
  jmu_addattempts :: "int option"
  jmu_available_at :: "time option"
  jmu_reserved_until :: "time option"
  jmu_created_at :: "time option"
  jmu_clearedFields :: "string set"
  jmu_done :: "bool"
  jmu_oldValue :: "(JobID, job_row) old_value"
  jmu_predicates :: "job_row predicate list"

definition ent_newJobMutation :: "ent_Op \<Rightarrow> (ent_JobMutation \<Rightarrow> ent_JobMutation) list \<Rightarrow> ent_JobMutation" where
  "ent_newJobMutation op opts = foldl (\<lambda>m opt. opt m)
     \<lparr>jmu_op = op, jmu_typ = ''Job'', jmu_id = None,
       jmu_name = None, jmu_payload = None, jmu_attempts = None,
       jmu_addattempts = None, jmu_available_at = None, jmu_reserved_until = None,
       jmu_created_at = None, jmu_clearedFields = {}, jmu_done = False,
       jmu_oldValue = OldNil, jmu_predicates = []\<rparr> opts"

definition withJobID :: "JobID \<Rightarrow> ent_JobMutation \<Rightarrow> ent_JobMutation" where
  "withJobID i m = m\<lparr>jmu_oldValue := OldQuery i None, jmu_id := Some i\<rparr>"

definition withJob :: "job_row \<Rightarrow> ent_JobMutation \<Rightarrow> ent_JobMutation" where
  "withJob node m = m\<lparr>jmu_oldValue := OldNode node, jmu_id := Some (j_ID node)\<rparr>"

definition JobMutation_SetID :: "JobID \<Rightarrow> ent_JobMutation \<Rightarrow> ent_JobMutation" where
  "JobMutation_SetID v m = m\<lparr>jmu_id := Some v\<rparr>"

definition JobMutation_ID :: "ent_JobMutation \<Rightarrow> JobID \<times> bool" where
  "JobMutation_ID m = go_ok 0 (jmu_id m)"

definition JobMutation_IDs :: "ent_JobMutation \<Rightarrow> 'z store_scheme \<Rightarrow> JobID list result \<times> 'z store_scheme" where
  "JobMutation_IDs m w =
     mutation_IDs (jmu_op m) (jmu_id m) j_ID (query_Where (jmu_predicates m) (new_query ''job'' jobs)) w"

definition JobMutation_SetName :: "string \<Rightarrow> ent_JobMutation \<Rightarrow> ent_JobMutation" where
  "JobMutation_SetName v m = m\<lparr>jmu_name := Some v\<rparr>"

definition JobMutation_Name :: "ent_JobMutation \<Rightarrow> string \<times> bool" where
  "JobMutation_Name m = go_ok [] (jmu_name m)"

definition JobMutation_OldName :: "ent_JobMutation \<Rightarrow> 'z store_scheme \<Rightarrow> string result \<times> ent_JobMutation \<times> 'z store_scheme" where
  "JobMutation_OldName m w =
     (case mutation_old ''OldName'' (jmu_op m) (jmu_id m) (jmu_oldValue m) (jmu_done m) (entity_Get ''job'' jobs j_ID) w of
        (r, old, w) \<Rightarrow> (map_sum id j_Name r, m\<lparr>jmu_oldValue := old\<rparr>, w))"

definition JobMutation_ResetName :: "ent_JobMutation \<Rightarrow> ent_JobMutation" where
  "JobMutation_ResetName m = m\<lparr>jmu_name := None\<rparr>"

definition JobMutation_SetPayload :: "string \<Rightarrow> ent_JobMutation \<Rightarrow> ent_JobMutation" where
  "JobMutation_SetPayload v m = m\<lparr>jmu_payload := Some v\<rparr>"

definition JobMutation_Payload :: "ent_JobMutation \<Rightarrow> string \<times> bool" where
  "JobMutation_Payload m = go_ok [] (jmu_payload m)"

definition JobMutation_OldPayload :: "ent_JobMutation \<Rightarrow> 'z store_scheme \<Rightarrow> string result \<times> ent_JobMutation \<times> 'z store_scheme" where
  "JobMutation_OldPayload m w =
     (case mutation_old ''OldPayload'' (jmu_op m) (jmu_id m) (jmu_oldValue m) (jmu_done m) (entity_Get ''job'' jobs j_ID) w of
        (r, old, w) \<Rightarrow> (map_sum id j_Payload r, m\<lparr>jmu_oldValue := old\<rparr>, w))"

definition JobMutation_ResetPayload :: "ent_JobMutation \<Rightarrow> ent_JobMutation" where
  "JobMutation_ResetPayload m = m\<lparr>jmu_payload := None\<rparr>"

definition JobMutation_SetAttempts :: "int \<Rightarrow> ent_JobMutation \<Rightarrow> ent_JobMutation" where
  "JobMutation_SetAttempts v m = m\<lparr>jmu_attempts := Some v, jmu_addattempts := None\<rparr>"

definition JobMutation_Attempts :: "ent_JobMutation \<Rightarrow> int \<times> bool" where
  "JobMutation_Attempts m = go_ok 0 (jmu_attempts m)"

definition JobMutation_OldAttempts :: "ent_JobMutation \<Rightarrow> 'z store_scheme \<Rightarrow> int result \<times> ent_JobMutation \<times> 'z store_scheme" where
  "JobMutation_OldAttempts m w =
     (case mutation_old ''OldAttempts'' (jmu_op m) (jmu_id m) (jmu_oldValue m) (jmu_done m) (entity_Get ''job'' jobs j_ID) w of
        (r, old, w) \<Rightarrow> (map_sum id j_Attempts r, m\<lparr>jmu_oldValue := old\<rparr>, w))"

definition JobMutation_AddAttempts :: "int \<Rightarrow> ent_JobMutation \<Rightarrow> ent_JobMutation" where
  "JobMutation_AddAttempts i m = m\<lparr>jmu_addattempts := Some (case jmu_addattempts m of Some a \<Rightarrow> add_int a i | None \<Rightarrow> i)\<rparr>"

definition JobMutation_AddedAttempts :: "ent_JobMutation \<Rightarrow> int \<times> bool" where
  "JobMutation_AddedAttempts m = go_ok 0 (jmu_addattempts m)"

definition JobMutation_ResetAttempts :: "ent_JobMutation \<Rightarrow> ent_JobMutation" where
  "JobMutation_ResetAttempts m = m\<lparr>jmu_attempts := None, jmu_addattempts := None\<rparr>"

definition JobMutation_SetAvailableAt :: "time \<Rightarrow> ent_JobMutation \<Rightarrow> ent_JobMutation" where
  "JobMutation_SetAvailableAt v m = m\<lparr>jmu_available_at := Some v\<rparr>"

definition JobMutation_AvailableAt :: "ent_JobMutation \<Rightarrow> time \<times> bool" where
  "JobMutation_AvailableAt m = go_ok 0 (jmu_available_at m)"

definition JobMutation_OldAvailableAt :: "ent_JobMutation \<Rightarrow> 'z store_scheme \<Rightarrow> time result \<times> ent_JobMutation \<times> 'z store_scheme" where
  "JobMutation_OldAvailableAt m w =
     (case mutation_old ''OldAvailableAt'' (jmu_op m) (jmu_id m) (jmu_oldValue m) (jmu_done m) (entity_Get ''job'' jobs j_ID) w of
        (r, old, w) \<Rightarrow> (map_sum id j_AvailableAt r, m\<lparr>jmu_oldValue := old\<rparr>, w))"

definition JobMutation_ResetAvailableAt :: "ent_JobMutation \<Rightarrow> ent_JobMutation" where
  "JobMutation_ResetAvailableAt m = m\<lparr>jmu_available_at := None\<rparr>"

definition JobMutation_SetReservedUntil :: "time \<Rightarrow> ent_JobMutation \<Rightarrow> ent_JobMutation" where
  "JobMutation_SetReservedUntil v m = m\<lparr>jmu_reserved_until := Some v\<rparr>"

definition JobMutation_ReservedUntil :: "ent_JobMutation \<Rightarrow> time \<times> bool" where
  "JobMutation_ReservedUntil m = go_ok 0 (jmu_reserved_until m)"

definition JobMutation_OldReservedUntil :: "ent_JobMutation \<Rightarrow> 'z store_scheme \<Rightarrow> time result \<times> ent_JobMutation \<times> 'z store_scheme" where
  "JobMutation_OldReservedUntil m w =
     (case mutation_old ''OldReservedUntil'' (jmu_op m) (jmu_id m) (jmu_oldValue m) (jmu_done m) (entity_Get ''job'' jobs j_ID) w of
        (r, old, w) \<Rightarrow> (map_sum id j_ReservedUntil r, m\<lparr>jmu_oldValue := old\<rparr>, w))"

definition JobMutation_ResetReservedUntil :: "ent_JobMutation \<Rightarrow> ent_JobMutation" where
  "JobMutation_ResetReservedUntil m = m\<lparr>jmu_reserved_until := None\<rparr>"

definition JobMutation_SetCreatedAt :: "time \<Rightarrow> ent_JobMutation \<Rightarrow> ent_JobMutation" where
  "JobMutation_SetCreatedAt v m = m\<lparr>jmu_created_at := Some v\<rparr>"

definition JobMutation_CreatedAt :: "ent_JobMutation \<Rightarrow> time \<times> bool" where
  "JobMutation_CreatedAt m = go_ok 0 (jmu_created_at m)"

definition JobMutation_OldCreatedAt :: "ent_JobMutation \<Rightarrow> 'z store_scheme \<Rightarrow> time result \<times> ent_JobMutation \<times> 'z store_scheme" where
  "JobMutation_OldCreatedAt m w =
     (case mutation_old ''OldCreatedAt'' (jmu_op m) (jmu_id m) (jmu_oldValue m) (jmu_done m) (entity_Get ''job'' jobs j_ID) w of
        (r, old, w) \<Rightarrow> (map_sum id j_CreatedAt r, m\<lparr>jmu_oldValue := old\<rparr>, w))"

definition JobMutation_ResetCreatedAt :: "ent_JobMutation \<Rightarrow> ent_JobMutation" where
  "JobMutation_ResetCreatedAt m = m\<lparr>jmu_created_at := None\<rparr>"

definition JobMutation_Where :: "job_row predicate list \<Rightarrow> ent_JobMutation \<Rightarrow> ent_JobMutation" where
  "JobMutation_Where ps m = m\<lparr>jmu_predicates := jmu_predicates m @ ps\<rparr>"

definition JobMutation_WhereP :: "job_row predicate list \<Rightarrow> ent_JobMutation \<Rightarrow> ent_JobMutation" where
  "JobMutation_WhereP ps m = JobMutation_Where (map id ps) m"

definition JobMutation_Op :: "ent_JobMutation \<Rightarrow> ent_Op" where
  "JobMutation_Op m = jmu_op m"

definition JobMutation_SetOp :: "ent_Op \<Rightarrow> ent_JobMutation \<Rightarrow> ent_JobMutation" where
  "JobMutation_SetOp op m = m\<lparr>jmu_op := op\<rparr>"

definition JobMutation_Type :: "ent_JobMutation \<Rightarrow> string" where
  "JobMutation_Type m = jmu_typ m"

definition JobMutation_Fields :: "ent_JobMutation \<Rightarrow> string list" where
  "JobMutation_Fields m =
     (if jmu_name m \<noteq> None then [''name''] else [])
     @ (if jmu_payload m \<noteq> None then [''payload''] else [])
     @ (if jmu_attempts m \<noteq> None then [''attempts''] else [])
     @ (if jmu_available_at m \<noteq> None then [''available_at''] else [])
     @ (if jmu_reserved_until m \<noteq> None then [''reserved_until''] else [])
     @ (if jmu_created_at m \<noteq> None then [''created_at''] else [])"

definition JobMutation_Field :: "string \<Rightarrow> ent_JobMutation \<Rightarrow> ent_value option \<times> bool" where
  "JobMutation_Field name m =
     (if name = ''name'' then field_value ValString (JobMutation_Name m)
      else if name = ''payload'' then field_value ValString (JobMutation_Payload m)
      else if name = ''attempts'' then field_value ValInt (JobMutation_Attempts m)
      else if name = ''available_at'' then field_value ValTime (JobMutation_AvailableAt m)
      else if name = ''reserved_until'' then field_value ValTime (JobMutation_ReservedUntil m)
      else if name = ''created_at'' then field_value ValTime (JobMutation_CreatedAt m)
      else (None, False))"

definition JobMutation_OldField :: "string \<Rightarrow> ent_JobMutation \<Rightarrow> 'z store_scheme \<Rightarrow> ent_value result \<times> ent_JobMutation \<times> 'z store_scheme" where
  "JobMutation_OldField name m w =
     (if name = ''name'' then map_prod (map_sum id ValString) id (JobMutation_OldName m w)
      else if name = ''payload'' then map_prod (map_sum id ValString) id (JobMutation_OldPayload m w)
      else if name = ''attempts'' then map_prod (map_sum id ValInt) id (JobMutation_OldAttempts m w)
      else if name = ''available_at'' then map_prod (map_sum id ValTime) id (JobMutation_OldAvailableAt m w)
      else if name = ''reserved_until'' then map_prod (map_sum id ValTime) id (JobMutation_OldReservedUntil m w)
      else if name = ''created_at'' then map_prod (map_sum id ValTime) id (JobMutation_OldCreatedAt m w)
      else (Inl (unknown_field ''Job'' ''field'' name), m, w))"

definition JobMutation_SetField :: "string \<Rightarrow> ent_value option \<Rightarrow> ent_JobMutation \<Rightarrow> goerr option \<times> ent_JobMutation" where
  "JobMutation_SetField name value m =
     (if name = ''name'' then (case value of Some (ValString v) \<Rightarrow> (None, JobMutation_SetName v m) | _ \<Rightarrow> (Some (unexpected_type value name), m))
      else if name = ''payload'' then (case value of Some (ValString v) \<Rightarrow> (None, JobMutation_SetPayload v m) | _ \<Rightarrow> (Some (unexpected_type value name), m))
      else if name = ''attempts'' then (case value of Some (ValInt v) \<Rightarrow> (None, JobMutation_SetAttempts v m) | _ \<Rightarrow> (Some (unexpected_type value name), m))
      else if name = ''available_at'' then (case value of Some (ValTime v) \<Rightarrow> (None, JobMutation_SetAvailableAt v m) | _ \<Rightarrow> (Some (unexpected_type value name), m))
      else if name = ''reserved_until'' then (case value of Some (ValTime v) \<Rightarrow> (None, JobMutation_SetReservedUntil v m) | _ \<Rightarrow> (Some (unexpected_type value name), m))
      else if name = ''created_at'' then (case value of Some (ValTime v) \<Rightarrow> (None, JobMutation_SetCreatedAt v m) | _ \<Rightarrow> (Some (unexpected_type value name), m))
      else (Some (unknown_field ''Job'' ''field'' name), m))"

definition JobMutation_AddedFields :: "ent_JobMutation \<Rightarrow> string list" where
  "JobMutation_AddedFields m =
     (if jmu_addattempts m \<noteq> None then [''attempts''] else [])"

definition JobMutation_AddedField :: "string \<Rightarrow> ent_JobMutation \<Rightarrow> ent_value option \<times> bool" where
  "JobMutation_AddedField name m =
     (if name = ''attempts'' then field_value ValInt (JobMutation_AddedAttempts m)
      else (None, False))"

definition JobMutation_AddField :: "string \<Rightarrow> ent_value option \<Rightarrow> ent_JobMutation \<Rightarrow> goerr option \<times> ent_JobMutation" where
  "JobMutation_AddField name value m =
     (if name = ''attempts'' then (case value of Some (ValInt v) \<Rightarrow> (None, JobMutation_AddAttempts v m) | _ \<Rightarrow> (Some (unexpected_type value name), m))
      else (Some (unknown_field ''Job'' ''numeric field'' name), m))"

definition JobMutation_ClearedFields :: "ent_JobMutation \<Rightarrow> string list" where
  "JobMutation_ClearedFields m = []"

definition JobMutation_FieldCleared :: "string \<Rightarrow> ent_JobMutation \<Rightarrow> bool" where
  "JobMutation_FieldCleared name m \<longleftrightarrow> name \<in> jmu_clearedFields m"

definition JobMutation_ClearField :: "string \<Rightarrow> ent_JobMutation \<Rightarrow> goerr option \<times> ent_JobMutation" where
  "JobMutation_ClearField name m =
     ((Some (unknown_field ''Job'' ''nullable field'' name), m))"

definition JobMutation_ResetField :: "string \<Rightarrow> ent_JobMutation \<Rightarrow> goerr option \<times> ent_JobMutation" where
  "JobMutation_ResetField name m =
     (if name = ''name'' then (None, JobMutation_ResetName m)
      else if name = ''payload'' then (None, JobMutation_ResetPayload m)
      else if name = ''attempts'' then (None, JobMutation_ResetAttempts m)
      else if name = ''available_at'' then (None, JobMutation_ResetAvailableAt m)
      else if name = ''reserved_until'' then (None, JobMutation_ResetReservedUntil m)
      else if name = ''created_at'' then (None, JobMutation_ResetCreatedAt m)
      else (Some (unknown_field ''Job'' ''field'' name), m))"

definition JobMutation_AddedEdges :: "ent_JobMutation \<Rightarrow> string list" where
  "JobMutation_AddedEdges m =
     []"

definition JobMutation_AddedIDs :: "string \<Rightarrow> ent_JobMutation \<Rightarrow> ent_value set" where
  "JobMutation_AddedIDs name m =
     ({})"

definition JobMutation_RemovedEdges :: "ent_JobMutation \<Rightarrow> string list" where
  "JobMutation_RemovedEdges m =
     []"

definition JobMutation_RemovedIDs :: "string \<Rightarrow> ent_JobMutation \<Rightarrow> ent_value set" where
  "JobMutation_RemovedIDs name m =
     ({})"

definition JobMutation_ClearedEdges :: "ent_JobMutation \<Rightarrow> string list" where
  "JobMutation_ClearedEdges m =
     []"

definition JobMutation_EdgeCleared :: "string \<Rightarrow> ent_JobMutation \<Rightarrow> bool" where
  "JobMutation_EdgeCleared name m \<longleftrightarrow>
     (False)"

definition JobMutation_ClearEdge :: "string \<Rightarrow> ent_JobMutation \<Rightarrow> goerr option \<times> ent_JobMutation" where
  "JobMutation_ClearEdge name m =
     ((Some (unknown_field ''Job'' ''unique edge'' name), m))"

definition JobMutation_ResetEdge :: "string \<Rightarrow> ent_JobMutation \<Rightarrow> goerr option \<times> ent_JobMutation" where
  "JobMutation_ResetEdge name m =
     ((Some (unknown_field ''Job'' ''edge'' name), m))"

section \<open>The fields by name\<close>

definition JobMutation_kind :: "string \<Rightarrow> ent_kind option" where
  "JobMutation_kind = map_of [(''name'', KindString), (''payload'', KindString), (''attempts'', KindInt),
     (''available_at'', KindTime), (''reserved_until'', KindTime), (''created_at'', KindTime)]"

lemmas JobMutation_by_name = JobMutation_SetField_def JobMutation_Field_def JobMutation_ResetField_def JobMutation_Fields_def

lemmas JobMutation_fields = JobMutation_SetName_def JobMutation_Name_def JobMutation_ResetName_def
  JobMutation_SetPayload_def JobMutation_Payload_def JobMutation_ResetPayload_def
  JobMutation_SetAttempts_def JobMutation_Attempts_def JobMutation_ResetAttempts_def
  JobMutation_SetAvailableAt_def JobMutation_AvailableAt_def JobMutation_ResetAvailableAt_def
  JobMutation_SetReservedUntil_def JobMutation_ReservedUntil_def JobMutation_ResetReservedUntil_def
  JobMutation_SetCreatedAt_def JobMutation_CreatedAt_def JobMutation_ResetCreatedAt_def

lemma JobMutation_kind_columns: "{n. JobMutation_kind n \<noteq> None} = set [''name'', ''payload'', ''attempts'', ''available_at'', ''reserved_until'', ''created_at'']"
  by (auto simp: JobMutation_kind_def)

lemma JobMutation_columns:
  assumes "JobMutation_kind n = Some k"
  obtains "n = ''name''" "k = KindString"
  | "n = ''payload''" "k = KindString"
  | "n = ''attempts''" "k = KindInt"
  | "n = ''available_at''" "k = KindTime"
  | "n = ''reserved_until''" "k = KindTime"
  | "n = ''created_at''" "k = KindTime"
  using assms by (auto simp: JobMutation_kind_def split: if_splits)

lemma JobMutation_unknown:
  assumes "JobMutation_kind n = None"
  shows "JobMutation_Field n m = (None, False)" "JobMutation_SetField n v m = (Some (unknown_field ''Job'' ''field'' n), m)"
    "JobMutation_ResetField n m = (Some (unknown_field ''Job'' ''field'' n), m)"
  using assms by (auto simp: JobMutation_kind_def JobMutation_by_name split: if_splits)

text \<open>One field at a time.\<close>

lemma JobMutation_Field_Set:
  "JobMutation_Field n (JobMutation_SetName v0 m) = (if n = ''name'' then (Some (ValString v0), True) else JobMutation_Field n m)"
  "JobMutation_Field n (JobMutation_SetPayload v1 m) = (if n = ''payload'' then (Some (ValString v1), True) else JobMutation_Field n m)"
  "JobMutation_Field n (JobMutation_SetAttempts v2 m) = (if n = ''attempts'' then (Some (ValInt v2), True) else JobMutation_Field n m)"
  "JobMutation_Field n (JobMutation_SetAvailableAt v3 m) = (if n = ''available_at'' then (Some (ValTime v3), True) else JobMutation_Field n m)"
  "JobMutation_Field n (JobMutation_SetReservedUntil v4 m) = (if n = ''reserved_until'' then (Some (ValTime v4), True) else JobMutation_Field n m)"
  "JobMutation_Field n (JobMutation_SetCreatedAt v5 m) = (if n = ''created_at'' then (Some (ValTime v5), True) else JobMutation_Field n m)"
  by (simp_all add: JobMutation_Field_def JobMutation_fields)

lemma JobMutation_Field_Reset:
  "\<not> snd (JobMutation_Field ''name'' (JobMutation_ResetName m))" "n \<noteq> ''name'' \<Longrightarrow> JobMutation_Field n (JobMutation_ResetName m) = JobMutation_Field n m"
  "\<not> snd (JobMutation_Field ''payload'' (JobMutation_ResetPayload m))" "n \<noteq> ''payload'' \<Longrightarrow> JobMutation_Field n (JobMutation_ResetPayload m) = JobMutation_Field n m"
  "\<not> snd (JobMutation_Field ''attempts'' (JobMutation_ResetAttempts m))" "n \<noteq> ''attempts'' \<Longrightarrow> JobMutation_Field n (JobMutation_ResetAttempts m) = JobMutation_Field n m"
  "\<not> snd (JobMutation_Field ''available_at'' (JobMutation_ResetAvailableAt m))" "n \<noteq> ''available_at'' \<Longrightarrow> JobMutation_Field n (JobMutation_ResetAvailableAt m) = JobMutation_Field n m"
  "\<not> snd (JobMutation_Field ''reserved_until'' (JobMutation_ResetReservedUntil m))" "n \<noteq> ''reserved_until'' \<Longrightarrow> JobMutation_Field n (JobMutation_ResetReservedUntil m) = JobMutation_Field n m"
  "\<not> snd (JobMutation_Field ''created_at'' (JobMutation_ResetCreatedAt m))" "n \<noteq> ''created_at'' \<Longrightarrow> JobMutation_Field n (JobMutation_ResetCreatedAt m) = JobMutation_Field n m"
  by (simp_all add: JobMutation_Field_def JobMutation_fields)

lemma JobMutation_Field_isset:
  "snd (JobMutation_Field ''name'' m) \<longleftrightarrow> jmu_name m \<noteq> None"
  "snd (JobMutation_Field ''payload'' m) \<longleftrightarrow> jmu_payload m \<noteq> None"
  "snd (JobMutation_Field ''attempts'' m) \<longleftrightarrow> jmu_attempts m \<noteq> None"
  "snd (JobMutation_Field ''available_at'' m) \<longleftrightarrow> jmu_available_at m \<noteq> None"
  "snd (JobMutation_Field ''reserved_until'' m) \<longleftrightarrow> jmu_reserved_until m \<noteq> None"
  "snd (JobMutation_Field ''created_at'' m) \<longleftrightarrow> jmu_created_at m \<noteq> None"
  by (simp_all add: JobMutation_Field_def JobMutation_fields)

lemma JobMutation_set_ok:
  assumes "JobMutation_kind n = Some (value_kind v)"
  shows "\<exists>m'. JobMutation_SetField n v m = (None, m') \<and> JobMutation_Field n m' = (v, True) \<and> (\<forall>n'. n' \<noteq> n \<longrightarrow> JobMutation_Field n' m' = JobMutation_Field n' m)"
proof -
  obtain k where k: "JobMutation_kind n = Some k" "value_kind v = k" using assms by blast
  from k(1) show ?thesis
    by (rule JobMutation_columns) (use k(2) in \<open>auto simp: value_kind_iff JobMutation_SetField_def JobMutation_Field_Set\<close>)
qed

lemma JobMutation_set_err:
  assumes "JobMutation_kind n \<noteq> Some (value_kind v)"
  shows "\<exists>e. JobMutation_SetField n v m = (Some e, m)"
proof (cases "JobMutation_kind n")
  case None
  then show ?thesis by (simp add: JobMutation_unknown)
next
  case (Some k)
  then show ?thesis
    by (rule JobMutation_columns) (use assms in \<open>auto simp: JobMutation_SetField_def JobMutation_kind_def split: option.splits ent_value.splits\<close>)
qed

lemma JobMutation_reset_ok:
  assumes "JobMutation_kind n \<noteq> None"
  shows "\<exists>m'. JobMutation_ResetField n m = (None, m') \<and> \<not> snd (JobMutation_Field n m') \<and> (\<forall>n'. n' \<noteq> n \<longrightarrow> JobMutation_Field n' m' = JobMutation_Field n' m)"
proof -
  from assms obtain k where "JobMutation_kind n = Some k" by auto
  then show ?thesis by (rule JobMutation_columns) (auto simp: JobMutation_ResetField_def JobMutation_Field_Reset)
qed

interpretation job_fields: typed_fields JobMutation_kind JobMutation_SetField JobMutation_Field JobMutation_ResetField JobMutation_Fields
    "[''name'', ''payload'', ''attempts'', ''available_at'', ''reserved_until'', ''created_at'']"
proof
  show "JobMutation_Fields m = filter (\<lambda>n. snd (JobMutation_Field n m)) [''name'', ''payload'', ''attempts'', ''available_at'', ''reserved_until'', ''created_at'']" for m
    by (simp add: filter_Cons_append JobMutation_Fields_def JobMutation_Field_isset del: filter.simps(2))
  show "set [''name'', ''payload'', ''attempts'', ''available_at'', ''reserved_until'', ''created_at''] = {n. JobMutation_kind n \<noteq> None}" by (rule JobMutation_kind_columns [symmetric])
qed (auto simp: JobMutation_unknown intro: JobMutation_set_ok JobMutation_set_err JobMutation_reset_ok)

end
