(* ===== verification/MessageMutations.thy ===== *)
theory MessageMutations
  imports Mutation
begin

text \<open>
  The mutation of a message (\<open>MessageMutation\<close> in \<open>internal/store/mutation.go\<close>), one definition per method.  The edges to
  many rows are sets of identifiers or nil; the lists that Go makes of them are in no order.
\<close>

record ent_MessageMutation =
  mmu_op :: "ent_Op"
  mmu_typ :: "string"
  mmu_id :: "MessageID option"
  mmu_author_id :: "UserID option"
  mmu_is_visible_for_client :: "bool option"
  mmu_is_visible_for_manager :: "bool option"
  mmu_body :: "string option"
  mmu_checked_at :: "time option"
  mmu_is_blocked :: "bool option"
  mmu_is_service :: "bool option"
  mmu_initial_request_id :: "RequestID option"
  mmu_created_at :: "time option"
  mmu_clearedFields :: "string set"
  mmu_chat :: "ChatID option"
  mmu_clearedchat :: "bool"
  mmu_problem :: "ProblemID option"
  mmu_clearedproblem :: "bool"
  mmu_done :: "bool"
  mmu_oldValue :: "(MessageID, message_row) old_value"
  mmu_predicates :: "message_row predicate list"

definition ent_newMessageMutation :: "ent_Op \<Rightarrow> (ent_MessageMutation \<Rightarrow> ent_MessageMutation) list \<Rightarrow> ent_MessageMutation" where
  "ent_newMessageMutation op opts = foldl (\<lambda>m opt. opt m)
     \<lparr>mmu_op = op, mmu_typ = ''Message'', mmu_id = None,
       mmu_author_id = None, mmu_is_visible_for_client = None, mmu_is_visible_for_manager = None,
       mmu_body = None, mmu_checked_at = None, mmu_is_blocked = None,
       mmu_is_service = None, mmu_initial_request_id = None, mmu_created_at = None,
       mmu_clearedFields = {}, mmu_chat = None, mmu_clearedchat = False,
       mmu_problem = None, mmu_clearedproblem = False, mmu_done = False,
       mmu_oldValue = OldNil, mmu_predicates = []\<rparr> opts"

definition withMessageID :: "MessageID \<Rightarrow> ent_MessageMutation \<Rightarrow> ent_MessageMutation" where
  "withMessageID i m = m\<lparr>mmu_oldValue := OldQuery i None, mmu_id := Some i\<rparr>"

definition withMessage :: "message_row \<Rightarrow> ent_MessageMutation \<Rightarrow> ent_MessageMutation" where
  "withMessage node m = m\<lparr>mmu_oldValue := OldNode node, mmu_id := Some (m_ID node)\<rparr>"

definition MessageMutation_SetID :: "MessageID \<Rightarrow> ent_MessageMutation \<Rightarrow> ent_MessageMutation" where
  "MessageMutation_SetID v m = m\<lparr>mmu_id := Some v\<rparr>"

definition MessageMutation_ID :: "ent_MessageMutation \<Rightarrow> MessageID \<times> bool" where
  "MessageMutation_ID m = go_ok 0 (mmu_id m)"

definition MessageMutation_IDs :: "ent_MessageMutation \<Rightarrow> 'z store_scheme \<Rightarrow> MessageID list result \<times> 'z store_scheme" where
  "MessageMutation_IDs m w =
     mutation_IDs (mmu_op m) (mmu_id m) m_ID (query_Where (mmu_predicates m) (new_query ''message'' messages)) w"

definition MessageMutation_SetChatID :: "ChatID \<Rightarrow> ent_MessageMutation \<Rightarrow> ent_MessageMutation" where
  "MessageMutation_SetChatID v m = m\<lparr>mmu_chat := Some v\<rparr>"

definition MessageMutation_ChatID :: "ent_MessageMutation \<Rightarrow> ChatID \<times> bool" where
  "MessageMutation_ChatID m = go_ok 0 (mmu_chat m)"

definition MessageMutation_OldChatID :: "ent_MessageMutation \<Rightarrow> 'z store_scheme \<Rightarrow> ChatID result \<times> ent_MessageMutation \<times> 'z store_scheme" where
  "MessageMutation_OldChatID m w =
     (case mutation_old ''OldChatID'' (mmu_op m) (mmu_id m) (mmu_oldValue m) (mmu_done m) (entity_Get ''message'' messages m_ID) w of
        (r, old, w) \<Rightarrow> (map_sum id m_ChatID r, m\<lparr>mmu_oldValue := old\<rparr>, w))"

definition MessageMutation_ResetChatID :: "ent_MessageMutation \<Rightarrow> ent_MessageMutation" where
  "MessageMutation_ResetChatID m = m\<lparr>mmu_chat := None\<rparr>"

definition MessageMutation_SetProblemID :: "ProblemID \<Rightarrow> ent_MessageMutation \<Rightarrow> ent_MessageMutation" where
  "MessageMutation_SetProblemID v m = m\<lparr>mmu_problem := Some v\<rparr>"

definition MessageMutation_ProblemID :: "ent_MessageMutation \<Rightarrow> ProblemID \<times> bool" where
  "MessageMutation_ProblemID m = go_ok 0 (mmu_problem m)"

definition MessageMutation_OldProblemID :: "ent_MessageMutation \<Rightarrow> 'z store_scheme \<Rightarrow> ProblemID result \<times> ent_MessageMutation \<times> 'z store_scheme" where
  "MessageMutation_OldProblemID m w =
     (case mutation_old ''OldProblemID'' (mmu_op m) (mmu_id m) (mmu_oldValue m) (mmu_done m) (entity_Get ''message'' messages m_ID) w of
        (r, old, w) \<Rightarrow> (map_sum id m_ProblemID r, m\<lparr>mmu_oldValue := old\<rparr>, w))"

definition MessageMutation_ResetProblemID :: "ent_MessageMutation \<Rightarrow> ent_MessageMutation" where
  "MessageMutation_ResetProblemID m = m\<lparr>mmu_problem := None\<rparr>"

definition MessageMutation_SetAuthorID :: "UserID \<Rightarrow> ent_MessageMutation \<Rightarrow> ent_MessageMutation" where
  "MessageMutation_SetAuthorID v m = m\<lparr>mmu_author_id := Some v\<rparr>"

definition MessageMutation_AuthorID :: "ent_MessageMutation \<Rightarrow> UserID \<times> bool" where
  "MessageMutation_AuthorID m = go_ok 0 (mmu_author_id m)"

definition MessageMutation_OldAuthorID :: "ent_MessageMutation \<Rightarrow> 'z store_scheme \<Rightarrow> UserID result \<times> ent_MessageMutation \<times> 'z store_scheme" where
  "MessageMutation_OldAuthorID m w =
     (case mutation_old ''OldAuthorID'' (mmu_op m) (mmu_id m) (mmu_oldValue m) (mmu_done m) (entity_Get ''message'' messages m_ID) w of
        (r, old, w) \<Rightarrow> (map_sum id (\<lambda>r. or_zero 0 (m_AuthorID r)) r, m\<lparr>mmu_oldValue := old\<rparr>, w))"

definition MessageMutation_ClearAuthorID :: "ent_MessageMutation \<Rightarrow> ent_MessageMutation" where
  "MessageMutation_ClearAuthorID m = m\<lparr>mmu_author_id := None, mmu_clearedFields := insert ''author_id'' (mmu_clearedFields m)\<rparr>"

definition MessageMutation_AuthorIDCleared :: "ent_MessageMutation \<Rightarrow> bool" where
  "MessageMutation_AuthorIDCleared m \<longleftrightarrow> ''author_id'' \<in> mmu_clearedFields m"

definition MessageMutation_ResetAuthorID :: "ent_MessageMutation \<Rightarrow> ent_MessageMutation" where
  "MessageMutation_ResetAuthorID m = m\<lparr>mmu_author_id := None, mmu_clearedFields := mmu_clearedFields m - {''author_id''}\<rparr>"

definition MessageMutation_SetIsVisibleForClient :: "bool \<Rightarrow> ent_MessageMutation \<Rightarrow> ent_MessageMutation" where
  "MessageMutation_SetIsVisibleForClient v m = m\<lparr>mmu_is_visible_for_client := Some v\<rparr>"

definition MessageMutation_IsVisibleForClient :: "ent_MessageMutation \<Rightarrow> bool \<times> bool" where
  "MessageMutation_IsVisibleForClient m = go_ok False (mmu_is_visible_for_client m)"

definition MessageMutation_OldIsVisibleForClient :: "ent_MessageMutation \<Rightarrow> 'z store_scheme \<Rightarrow> bool result \<times> ent_MessageMutation \<times> 'z store_scheme" where
  "MessageMutation_OldIsVisibleForClient m w =
     (case mutation_old ''OldIsVisibleForClient'' (mmu_op m) (mmu_id m) (mmu_oldValue m) (mmu_done m) (entity_Get ''message'' messages m_ID) w of
        (r, old, w) \<Rightarrow> (map_sum id m_IsVisibleForClient r, m\<lparr>mmu_oldValue := old\<rparr>, w))"

definition MessageMutation_ResetIsVisibleForClient :: "ent_MessageMutation \<Rightarrow> ent_MessageMutation" where
  "MessageMutation_ResetIsVisibleForClient m = m\<lparr>mmu_is_visible_for_client := None\<rparr>"

definition MessageMutation_SetIsVisibleForManager :: "bool \<Rightarrow> ent_MessageMutation \<Rightarrow> ent_MessageMutation" where
  "MessageMutation_SetIsVisibleForManager v m = m\<lparr>mmu_is_visible_for_manager := Some v\<rparr>"

definition MessageMutation_IsVisibleForManager :: "ent_MessageMutation \<Rightarrow> bool \<times> bool" where
  "MessageMutation_IsVisibleForManager m = go_ok False (mmu_is_visible_for_manager m)"

definition MessageMutation_OldIsVisibleForManager :: "ent_MessageMutation \<Rightarrow> 'z store_scheme \<Rightarrow> bool result \<times> ent_MessageMutation \<times> 'z store_scheme" where
  "MessageMutation_OldIsVisibleForManager m w =
     (case mutation_old ''OldIsVisibleForManager'' (mmu_op m) (mmu_id m) (mmu_oldValue m) (mmu_done m) (entity_Get ''message'' messages m_ID) w of
        (r, old, w) \<Rightarrow> (map_sum id m_IsVisibleForManager r, m\<lparr>mmu_oldValue := old\<rparr>, w))"

definition MessageMutation_ResetIsVisibleForManager :: "ent_MessageMutation \<Rightarrow> ent_MessageMutation" where
  "MessageMutation_ResetIsVisibleForManager m = m\<lparr>mmu_is_visible_for_manager := None\<rparr>"

definition MessageMutation_SetBody :: "string \<Rightarrow> ent_MessageMutation \<Rightarrow> ent_MessageMutation" where
  "MessageMutation_SetBody v m = m\<lparr>mmu_body := Some v\<rparr>"

definition MessageMutation_Body :: "ent_MessageMutation \<Rightarrow> string \<times> bool" where
  "MessageMutation_Body m = go_ok [] (mmu_body m)"

definition MessageMutation_OldBody :: "ent_MessageMutation \<Rightarrow> 'z store_scheme \<Rightarrow> string result \<times> ent_MessageMutation \<times> 'z store_scheme" where
  "MessageMutation_OldBody m w =
     (case mutation_old ''OldBody'' (mmu_op m) (mmu_id m) (mmu_oldValue m) (mmu_done m) (entity_Get ''message'' messages m_ID) w of
        (r, old, w) \<Rightarrow> (map_sum id m_Body r, m\<lparr>mmu_oldValue := old\<rparr>, w))"

definition MessageMutation_ResetBody :: "ent_MessageMutation \<Rightarrow> ent_MessageMutation" where
  "MessageMutation_ResetBody m = m\<lparr>mmu_body := None\<rparr>"

definition MessageMutation_SetCheckedAt :: "time \<Rightarrow> ent_MessageMutation \<Rightarrow> ent_MessageMutation" where
  "MessageMutation_SetCheckedAt v m = m\<lparr>mmu_checked_at := Some v\<rparr>"

definition MessageMutation_CheckedAt :: "ent_MessageMutation \<Rightarrow> time \<times> bool" where
  "MessageMutation_CheckedAt m = go_ok 0 (mmu_checked_at m)"

definition MessageMutation_OldCheckedAt :: "ent_MessageMutation \<Rightarrow> 'z store_scheme \<Rightarrow> time result \<times> ent_MessageMutation \<times> 'z store_scheme" where
  "MessageMutation_OldCheckedAt m w =
     (case mutation_old ''OldCheckedAt'' (mmu_op m) (mmu_id m) (mmu_oldValue m) (mmu_done m) (entity_Get ''message'' messages m_ID) w of
        (r, old, w) \<Rightarrow> (map_sum id (\<lambda>r. or_zero 0 (m_CheckedAt r)) r, m\<lparr>mmu_oldValue := old\<rparr>, w))"

definition MessageMutation_ClearCheckedAt :: "ent_MessageMutation \<Rightarrow> ent_MessageMutation" where
  "MessageMutation_ClearCheckedAt m = m\<lparr>mmu_checked_at := None, mmu_clearedFields := insert ''checked_at'' (mmu_clearedFields m)\<rparr>"

definition MessageMutation_CheckedAtCleared :: "ent_MessageMutation \<Rightarrow> bool" where
  "MessageMutation_CheckedAtCleared m \<longleftrightarrow> ''checked_at'' \<in> mmu_clearedFields m"

definition MessageMutation_ResetCheckedAt :: "ent_MessageMutation \<Rightarrow> ent_MessageMutation" where
  "MessageMutation_ResetCheckedAt m = m\<lparr>mmu_checked_at := None, mmu_clearedFields := mmu_clearedFields m - {''checked_at''}\<rparr>"

definition MessageMutation_SetIsBlocked :: "bool \<Rightarrow> ent_MessageMutation \<Rightarrow> ent_MessageMutation" where
  "MessageMutation_SetIsBlocked v m = m\<lparr>mmu_is_blocked := Some v\<rparr>"

definition MessageMutation_IsBlocked :: "ent_MessageMutation \<Rightarrow> bool \<times> bool" where
  "MessageMutation_IsBlocked m = go_ok False (mmu_is_blocked m)"

definition MessageMutation_OldIsBlocked :: "ent_MessageMutation \<Rightarrow> 'z store_scheme \<Rightarrow> bool result \<times> ent_MessageMutation \<times> 'z store_scheme" where
  "MessageMutation_OldIsBlocked m w =
     (case mutation_old ''OldIsBlocked'' (mmu_op m) (mmu_id m) (mmu_oldValue m) (mmu_done m) (entity_Get ''message'' messages m_ID) w of
        (r, old, w) \<Rightarrow> (map_sum id m_IsBlocked r, m\<lparr>mmu_oldValue := old\<rparr>, w))"

definition MessageMutation_ResetIsBlocked :: "ent_MessageMutation \<Rightarrow> ent_MessageMutation" where
  "MessageMutation_ResetIsBlocked m = m\<lparr>mmu_is_blocked := None\<rparr>"

definition MessageMutation_SetIsService :: "bool \<Rightarrow> ent_MessageMutation \<Rightarrow> ent_MessageMutation" where
  "MessageMutation_SetIsService v m = m\<lparr>mmu_is_service := Some v\<rparr>"

definition MessageMutation_IsService :: "ent_MessageMutation \<Rightarrow> bool \<times> bool" where
  "MessageMutation_IsService m = go_ok False (mmu_is_service m)"

definition MessageMutation_OldIsService :: "ent_MessageMutation \<Rightarrow> 'z store_scheme \<Rightarrow> bool result \<times> ent_MessageMutation \<times> 'z store_scheme" where
  "MessageMutation_OldIsService m w =
     (case mutation_old ''OldIsService'' (mmu_op m) (mmu_id m) (mmu_oldValue m) (mmu_done m) (entity_Get ''message'' messages m_ID) w of
        (r, old, w) \<Rightarrow> (map_sum id m_IsService r, m\<lparr>mmu_oldValue := old\<rparr>, w))"

definition MessageMutation_ResetIsService :: "ent_MessageMutation \<Rightarrow> ent_MessageMutation" where
  "MessageMutation_ResetIsService m = m\<lparr>mmu_is_service := None\<rparr>"

definition MessageMutation_SetInitialRequestID :: "RequestID \<Rightarrow> ent_MessageMutation \<Rightarrow> ent_MessageMutation" where
  "MessageMutation_SetInitialRequestID v m = m\<lparr>mmu_initial_request_id := Some v\<rparr>"

definition MessageMutation_InitialRequestID :: "ent_MessageMutation \<Rightarrow> RequestID \<times> bool" where
  "MessageMutation_InitialRequestID m = go_ok 0 (mmu_initial_request_id m)"

definition MessageMutation_OldInitialRequestID :: "ent_MessageMutation \<Rightarrow> 'z store_scheme \<Rightarrow> RequestID result \<times> ent_MessageMutation \<times> 'z store_scheme" where
  "MessageMutation_OldInitialRequestID m w =
     (case mutation_old ''OldInitialRequestID'' (mmu_op m) (mmu_id m) (mmu_oldValue m) (mmu_done m) (entity_Get ''message'' messages m_ID) w of
        (r, old, w) \<Rightarrow> (map_sum id m_InitialRequestID r, m\<lparr>mmu_oldValue := old\<rparr>, w))"

definition MessageMutation_ResetInitialRequestID :: "ent_MessageMutation \<Rightarrow> ent_MessageMutation" where
  "MessageMutation_ResetInitialRequestID m = m\<lparr>mmu_initial_request_id := None\<rparr>"

definition MessageMutation_SetCreatedAt :: "time \<Rightarrow> ent_MessageMutation \<Rightarrow> ent_MessageMutation" where
  "MessageMutation_SetCreatedAt v m = m\<lparr>mmu_created_at := Some v\<rparr>"

definition MessageMutation_CreatedAt :: "ent_MessageMutation \<Rightarrow> time \<times> bool" where
  "MessageMutation_CreatedAt m = go_ok 0 (mmu_created_at m)"

definition MessageMutation_OldCreatedAt :: "ent_MessageMutation \<Rightarrow> 'z store_scheme \<Rightarrow> time result \<times> ent_MessageMutation \<times> 'z store_scheme" where
  "MessageMutation_OldCreatedAt m w =
     (case mutation_old ''OldCreatedAt'' (mmu_op m) (mmu_id m) (mmu_oldValue m) (mmu_done m) (entity_Get ''message'' messages m_ID) w of
        (r, old, w) \<Rightarrow> (map_sum id m_CreatedAt r, m\<lparr>mmu_oldValue := old\<rparr>, w))"

definition MessageMutation_ResetCreatedAt :: "ent_MessageMutation \<Rightarrow> ent_MessageMutation" where
  "MessageMutation_ResetCreatedAt m = m\<lparr>mmu_created_at := None\<rparr>"

definition MessageMutation_ClearChat :: "ent_MessageMutation \<Rightarrow> ent_MessageMutation" where
  "MessageMutation_ClearChat m = m\<lparr>mmu_clearedchat := True, mmu_clearedFields := insert ''chat_id'' (mmu_clearedFields m)\<rparr>"

definition MessageMutation_ChatCleared :: "ent_MessageMutation \<Rightarrow> bool" where
  "MessageMutation_ChatCleared m \<longleftrightarrow> mmu_clearedchat m"

definition MessageMutation_ChatIDs :: "ent_MessageMutation \<Rightarrow> ChatID list" where
  "MessageMutation_ChatIDs m = (case mmu_chat m of None \<Rightarrow> [] | Some i \<Rightarrow> [i])"

definition MessageMutation_ResetChat :: "ent_MessageMutation \<Rightarrow> ent_MessageMutation" where
  "MessageMutation_ResetChat m = m\<lparr>mmu_chat := None, mmu_clearedchat := False\<rparr>"

definition MessageMutation_ClearProblem :: "ent_MessageMutation \<Rightarrow> ent_MessageMutation" where
  "MessageMutation_ClearProblem m = m\<lparr>mmu_clearedproblem := True, mmu_clearedFields := insert ''problem_id'' (mmu_clearedFields m)\<rparr>"

definition MessageMutation_ProblemCleared :: "ent_MessageMutation \<Rightarrow> bool" where
  "MessageMutation_ProblemCleared m \<longleftrightarrow> mmu_clearedproblem m"

definition MessageMutation_ProblemIDs :: "ent_MessageMutation \<Rightarrow> ProblemID list" where
  "MessageMutation_ProblemIDs m = (case mmu_problem m of None \<Rightarrow> [] | Some i \<Rightarrow> [i])"

definition MessageMutation_ResetProblem :: "ent_MessageMutation \<Rightarrow> ent_MessageMutation" where
  "MessageMutation_ResetProblem m = m\<lparr>mmu_problem := None, mmu_clearedproblem := False\<rparr>"

definition MessageMutation_Where :: "message_row predicate list \<Rightarrow> ent_MessageMutation \<Rightarrow> ent_MessageMutation" where
  "MessageMutation_Where ps m = m\<lparr>mmu_predicates := mmu_predicates m @ ps\<rparr>"

definition MessageMutation_WhereP :: "message_row predicate list \<Rightarrow> ent_MessageMutation \<Rightarrow> ent_MessageMutation" where
  "MessageMutation_WhereP ps m = MessageMutation_Where (map id ps) m"

definition MessageMutation_Op :: "ent_MessageMutation \<Rightarrow> ent_Op" where
  "MessageMutation_Op m = mmu_op m"

definition MessageMutation_SetOp :: "ent_Op \<Rightarrow> ent_MessageMutation \<Rightarrow> ent_MessageMutation" where
  "MessageMutation_SetOp op m = m\<lparr>mmu_op := op\<rparr>"

definition MessageMutation_Type :: "ent_MessageMutation \<Rightarrow> string" where
  "MessageMutation_Type m = mmu_typ m"

definition MessageMutation_Fields :: "ent_MessageMutation \<Rightarrow> string list" where
  "MessageMutation_Fields m =
     (if mmu_chat m \<noteq> None then [''chat_id''] else [])
     @ (if mmu_problem m \<noteq> None then [''problem_id''] else [])
     @ (if mmu_author_id m \<noteq> None then [''author_id''] else [])
     @ (if mmu_is_visible_for_client m \<noteq> None then [''is_visible_for_client''] else [])
     @ (if mmu_is_visible_for_manager m \<noteq> None then [''is_visible_for_manager''] else [])
     @ (if mmu_body m \<noteq> None then [''body''] else [])
     @ (if mmu_checked_at m \<noteq> None then [''checked_at''] else [])
     @ (if mmu_is_blocked m \<noteq> None then [''is_blocked''] else [])
     @ (if mmu_is_service m \<noteq> None then [''is_service''] else [])
     @ (if mmu_initial_request_id m \<noteq> None then [''initial_request_id''] else [])
     @ (if mmu_created_at m \<noteq> None then [''created_at''] else [])"

definition MessageMutation_Field :: "string \<Rightarrow> ent_MessageMutation \<Rightarrow> ent_value option \<times> bool" where
  "MessageMutation_Field name m =
     (if name = ''chat_id'' then field_value ValChatID (MessageMutation_ChatID m)
      else if name = ''problem_id'' then field_value ValProblemID (MessageMutation_ProblemID m)
      else if name = ''author_id'' then field_value ValUserID (MessageMutation_AuthorID m)
      else if name = ''is_visible_for_client'' then field_value ValBool (MessageMutation_IsVisibleForClient m)
      else if name = ''is_visible_for_manager'' then field_value ValBool (MessageMutation_IsVisibleForManager m)
      else if name = ''body'' then field_value ValString (MessageMutation_Body m)
      else if name = ''checked_at'' then field_value ValTime (MessageMutation_CheckedAt m)
      else if name = ''is_blocked'' then field_value ValBool (MessageMutation_IsBlocked m)
      else if name = ''is_service'' then field_value ValBool (MessageMutation_IsService m)
      else if name = ''initial_request_id'' then field_value ValRequestID (MessageMutation_InitialRequestID m)
      else if name = ''created_at'' then field_value ValTime (MessageMutation_CreatedAt m)
      else (None, False))"

definition MessageMutation_OldField :: "string \<Rightarrow> ent_MessageMutation \<Rightarrow> 'z store_scheme \<Rightarrow> ent_value result \<times> ent_MessageMutation \<times> 'z store_scheme" where
  "MessageMutation_OldField name m w =
     (if name = ''chat_id'' then map_prod (map_sum id ValChatID) id (MessageMutation_OldChatID m w)
      else if name = ''problem_id'' then map_prod (map_sum id ValProblemID) id (MessageMutation_OldProblemID m w)
      else if name = ''author_id'' then map_prod (map_sum id ValUserID) id (MessageMutation_OldAuthorID m w)
      else if name = ''is_visible_for_client'' then map_prod (map_sum id ValBool) id (MessageMutation_OldIsVisibleForClient m w)
      else if name = ''is_visible_for_manager'' then map_prod (map_sum id ValBool) id (MessageMutation_OldIsVisibleForManager m w)
      else if name = ''body'' then map_prod (map_sum id ValString) id (MessageMutation_OldBody m w)
      else if name = ''checked_at'' then map_prod (map_sum id ValTime) id (MessageMutation_OldCheckedAt m w)
      else if name = ''is_blocked'' then map_prod (map_sum id ValBool) id (MessageMutation_OldIsBlocked m w)
      else if name = ''is_service'' then map_prod (map_sum id ValBool) id (MessageMutation_OldIsService m w)
      else if name = ''initial_request_id'' then map_prod (map_sum id ValRequestID) id (MessageMutation_OldInitialRequestID m w)
      else if name = ''created_at'' then map_prod (map_sum id ValTime) id (MessageMutation_OldCreatedAt m w)
      else (Inl (unknown_field ''Message'' ''field'' name), m, w))"

definition MessageMutation_SetField :: "string \<Rightarrow> ent_value option \<Rightarrow> ent_MessageMutation \<Rightarrow> goerr option \<times> ent_MessageMutation" where
  "MessageMutation_SetField name value m =
     (if name = ''chat_id'' then (case value of Some (ValChatID v) \<Rightarrow> (None, MessageMutation_SetChatID v m) | _ \<Rightarrow> (Some (unexpected_type value name), m))
      else if name = ''problem_id'' then (case value of Some (ValProblemID v) \<Rightarrow> (None, MessageMutation_SetProblemID v m) | _ \<Rightarrow> (Some (unexpected_type value name), m))
      else if name = ''author_id'' then (case value of Some (ValUserID v) \<Rightarrow> (None, MessageMutation_SetAuthorID v m) | _ \<Rightarrow> (Some (unexpected_type value name), m))
      else if name = ''is_visible_for_client'' then (case value of Some (ValBool v) \<Rightarrow> (None, MessageMutation_SetIsVisibleForClient v m) | _ \<Rightarrow> (Some (unexpected_type value name), m))
      else if name = ''is_visible_for_manager'' then (case value of Some (ValBool v) \<Rightarrow> (None, MessageMutation_SetIsVisibleForManager v m) | _ \<Rightarrow> (Some (unexpected_type value name), m))
      else if name = ''body'' then (case value of Some (ValString v) \<Rightarrow> (None, MessageMutation_SetBody v m) | _ \<Rightarrow> (Some (unexpected_type value name), m))
      else if name = ''checked_at'' then (case value of Some (ValTime v) \<Rightarrow> (None, MessageMutation_SetCheckedAt v m) | _ \<Rightarrow> (Some (unexpected_type value name), m))
      else if name = ''is_blocked'' then (case value of Some (ValBool v) \<Rightarrow> (None, MessageMutation_SetIsBlocked v m) | _ \<Rightarrow> (Some (unexpected_type value name), m))
      else if name = ''is_service'' then (case value of Some (ValBool v) \<Rightarrow> (None, MessageMutation_SetIsService v m) | _ \<Rightarrow> (Some (unexpected_type value name), m))
      else if name = ''initial_request_id'' then (case value of Some (ValRequestID v) \<Rightarrow> (None, MessageMutation_SetInitialRequestID v m) | _ \<Rightarrow> (Some (unexpected_type value name), m))
      else if name = ''created_at'' then (case value of Some (ValTime v) \<Rightarrow> (None, MessageMutation_SetCreatedAt v m) | _ \<Rightarrow> (Some (unexpected_type value name), m))
      else (Some (unknown_field ''Message'' ''field'' name), m))"

definition MessageMutation_AddedFields :: "ent_MessageMutation \<Rightarrow> string list" where
  "MessageMutation_AddedFields m = []"

definition MessageMutation_AddedField :: "string \<Rightarrow> ent_MessageMutation \<Rightarrow> ent_value option \<times> bool" where
  "MessageMutation_AddedField name m =
     ((None, False))"

definition MessageMutation_AddField :: "string \<Rightarrow> ent_value option \<Rightarrow> ent_MessageMutation \<Rightarrow> goerr option \<times> ent_MessageMutation" where
  "MessageMutation_AddField name value m =
     ((Some (unknown_field ''Message'' ''numeric field'' name), m))"

definition MessageMutation_FieldCleared :: "string \<Rightarrow> ent_MessageMutation \<Rightarrow> bool" where
  "MessageMutation_FieldCleared name m \<longleftrightarrow> name \<in> mmu_clearedFields m"

definition MessageMutation_ClearedFields :: "ent_MessageMutation \<Rightarrow> string list" where
  "MessageMutation_ClearedFields m =
     (if MessageMutation_FieldCleared ''author_id'' m then [''author_id''] else [])
     @ (if MessageMutation_FieldCleared ''checked_at'' m then [''checked_at''] else [])"

definition MessageMutation_ClearField :: "string \<Rightarrow> ent_MessageMutation \<Rightarrow> goerr option \<times> ent_MessageMutation" where
  "MessageMutation_ClearField name m =
     (if name = ''author_id'' then (None, MessageMutation_ClearAuthorID m)
      else if name = ''checked_at'' then (None, MessageMutation_ClearCheckedAt m)
      else (Some (unknown_field ''Message'' ''nullable field'' name), m))"

definition MessageMutation_ResetField :: "string \<Rightarrow> ent_MessageMutation \<Rightarrow> goerr option \<times> ent_MessageMutation" where
  "MessageMutation_ResetField name m =
     (if name = ''chat_id'' then (None, MessageMutation_ResetChatID m)
      else if name = ''problem_id'' then (None, MessageMutation_ResetProblemID m)
      else if name = ''author_id'' then (None, MessageMutation_ResetAuthorID m)
      else if name = ''is_visible_for_client'' then (None, MessageMutation_ResetIsVisibleForClient m)
      else if name = ''is_visible_for_manager'' then (None, MessageMutation_ResetIsVisibleForManager m)
      else if name = ''body'' then (None, MessageMutation_ResetBody m)
      else if name = ''checked_at'' then (None, MessageMutation_ResetCheckedAt m)
      else if name = ''is_blocked'' then (None, MessageMutation_ResetIsBlocked m)
      else if name = ''is_service'' then (None, MessageMutation_ResetIsService m)
      else if name = ''initial_request_id'' then (None, MessageMutation_ResetInitialRequestID m)
      else if name = ''created_at'' then (None, MessageMutation_ResetCreatedAt m)
      else (Some (unknown_field ''Message'' ''field'' name), m))"

definition MessageMutation_AddedEdges :: "ent_MessageMutation \<Rightarrow> string list" where
  "MessageMutation_AddedEdges m =
     (if mmu_chat m \<noteq> None then [''chat''] else [])
     @ (if mmu_problem m \<noteq> None then [''problem''] else [])"

definition MessageMutation_AddedIDs :: "string \<Rightarrow> ent_MessageMutation \<Rightarrow> ent_value set" where
  "MessageMutation_AddedIDs name m =
     (if name = ''chat'' then (case mmu_chat m of None \<Rightarrow> {} | Some i \<Rightarrow> {ValChatID i})
      else if name = ''problem'' then (case mmu_problem m of None \<Rightarrow> {} | Some i \<Rightarrow> {ValProblemID i})
      else {})"

definition MessageMutation_RemovedEdges :: "ent_MessageMutation \<Rightarrow> string list" where
  "MessageMutation_RemovedEdges m =
     []"

definition MessageMutation_RemovedIDs :: "string \<Rightarrow> ent_MessageMutation \<Rightarrow> ent_value set" where
  "MessageMutation_RemovedIDs name m =
     ({})"

definition MessageMutation_ClearedEdges :: "ent_MessageMutation \<Rightarrow> string list" where
  "MessageMutation_ClearedEdges m =
     (if mmu_clearedchat m then [''chat''] else [])
     @ (if mmu_clearedproblem m then [''problem''] else [])"

definition MessageMutation_EdgeCleared :: "string \<Rightarrow> ent_MessageMutation \<Rightarrow> bool" where
  "MessageMutation_EdgeCleared name m \<longleftrightarrow>
     (if name = ''chat'' then mmu_clearedchat m
      else if name = ''problem'' then mmu_clearedproblem m
      else False)"

definition MessageMutation_ClearEdge :: "string \<Rightarrow> ent_MessageMutation \<Rightarrow> goerr option \<times> ent_MessageMutation" where
  "MessageMutation_ClearEdge name m =
     (if name = ''chat'' then (None, MessageMutation_ClearChat m)
      else if name = ''problem'' then (None, MessageMutation_ClearProblem m)
      else (Some (unknown_field ''Message'' ''unique edge'' name), m))"

definition MessageMutation_ResetEdge :: "string \<Rightarrow> ent_MessageMutation \<Rightarrow> goerr option \<times> ent_MessageMutation" where
  "MessageMutation_ResetEdge name m =
     (if name = ''chat'' then (None, MessageMutation_ResetChat m)
      else if name = ''problem'' then (None, MessageMutation_ResetProblem m)
      else (Some (unknown_field ''Message'' ''edge'' name), m))"

section \<open>The fields by name\<close>

definition MessageMutation_kind :: "string \<Rightarrow> ent_kind option" where
  "MessageMutation_kind = map_of [(''chat_id'', KindChatID), (''problem_id'', KindProblemID), (''author_id'', KindUserID),
     (''is_visible_for_client'', KindBool), (''is_visible_for_manager'', KindBool), (''body'', KindString),
     (''checked_at'', KindTime), (''is_blocked'', KindBool), (''is_service'', KindBool),
     (''initial_request_id'', KindRequestID), (''created_at'', KindTime)]"

lemmas MessageMutation_by_name = MessageMutation_SetField_def MessageMutation_Field_def MessageMutation_ResetField_def MessageMutation_Fields_def

lemmas MessageMutation_fields = MessageMutation_SetChatID_def MessageMutation_ChatID_def MessageMutation_ResetChatID_def
  MessageMutation_SetProblemID_def MessageMutation_ProblemID_def MessageMutation_ResetProblemID_def
  MessageMutation_SetAuthorID_def MessageMutation_AuthorID_def MessageMutation_ResetAuthorID_def
  MessageMutation_SetIsVisibleForClient_def MessageMutation_IsVisibleForClient_def MessageMutation_ResetIsVisibleForClient_def
  MessageMutation_SetIsVisibleForManager_def MessageMutation_IsVisibleForManager_def MessageMutation_ResetIsVisibleForManager_def
  MessageMutation_SetBody_def MessageMutation_Body_def MessageMutation_ResetBody_def
  MessageMutation_SetCheckedAt_def MessageMutation_CheckedAt_def MessageMutation_ResetCheckedAt_def
  MessageMutation_SetIsBlocked_def MessageMutation_IsBlocked_def MessageMutation_ResetIsBlocked_def
  MessageMutation_SetIsService_def MessageMutation_IsService_def MessageMutation_ResetIsService_def
  MessageMutation_SetInitialRequestID_def MessageMutation_InitialRequestID_def MessageMutation_ResetInitialRequestID_def
  MessageMutation_SetCreatedAt_def MessageMutation_CreatedAt_def MessageMutation_ResetCreatedAt_def

lemma MessageMutation_kind_columns: "{n. MessageMutation_kind n \<noteq> None} = set [''chat_id'', ''problem_id'', ''author_id'', ''is_visible_for_client'', ''is_visible_for_manager'', ''body'', ''checked_at'', ''is_blocked'', ''is_service'', ''initial_request_id'', ''created_at'']"
  by (auto simp: MessageMutation_kind_def)

lemma MessageMutation_columns:
  assumes "MessageMutation_kind n = Some k"
  obtains "n = ''chat_id''" "k = KindChatID"
  | "n = ''problem_id''" "k = KindProblemID"
  | "n = ''author_id''" "k = KindUserID"
  | "n = ''is_visible_for_client''" "k = KindBool"
  | "n = ''is_visible_for_manager''" "k = KindBool"
  | "n = ''body''" "k = KindString"
  | "n = ''checked_at''" "k = KindTime"
  | "n = ''is_blocked''" "k = KindBool"
  | "n = ''is_service''" "k = KindBool"
  | "n = ''initial_request_id''" "k = KindRequestID"
  | "n = ''created_at''" "k = KindTime"
  using assms by (auto simp: MessageMutation_kind_def split: if_splits)

lemma MessageMutation_unknown:
  assumes "MessageMutation_kind n = None"
  shows "MessageMutation_Field n m = (None, False)" "MessageMutation_SetField n v m = (Some (unknown_field ''Message'' ''field'' n), m)"
    "MessageMutation_ResetField n m = (Some (unknown_field ''Message'' ''field'' n), m)"
  using assms by (auto simp: MessageMutation_kind_def MessageMutation_by_name split: if_splits)

text \<open>One field at a time.\<close>

lemma MessageMutation_Field_Set:
  "MessageMutation_Field n (MessageMutation_SetChatID v0 m) = (if n = ''chat_id'' then (Some (ValChatID v0), True) else MessageMutation_Field n m)"
  "MessageMutation_Field n (MessageMutation_SetProblemID v1 m) = (if n = ''problem_id'' then (Some (ValProblemID v1), True) else MessageMutation_Field n m)"
  "MessageMutation_Field n (MessageMutation_SetAuthorID v2 m) = (if n = ''author_id'' then (Some (ValUserID v2), True) else MessageMutation_Field n m)"
  "MessageMutation_Field n (MessageMutation_SetIsVisibleForClient v3 m) = (if n = ''is_visible_for_client'' then (Some (ValBool v3), True) else MessageMutation_Field n m)"
  "MessageMutation_Field n (MessageMutation_SetIsVisibleForManager v4 m) = (if n = ''is_visible_for_manager'' then (Some (ValBool v4), True) else MessageMutation_Field n m)"
  "MessageMutation_Field n (MessageMutation_SetBody v5 m) = (if n = ''body'' then (Some (ValString v5), True) else MessageMutation_Field n m)"
  "MessageMutation_Field n (MessageMutation_SetCheckedAt v6 m) = (if n = ''checked_at'' then (Some (ValTime v6), True) else MessageMutation_Field n m)"
  "MessageMutation_Field n (MessageMutation_SetIsBlocked v7 m) = (if n = ''is_blocked'' then (Some (ValBool v7), True) else MessageMutation_Field n m)"
  "MessageMutation_Field n (MessageMutation_SetIsService v8 m) = (if n = ''is_service'' then (Some (ValBool v8), True) else MessageMutation_Field n m)"
  "MessageMutation_Field n (MessageMutation_SetInitialRequestID v9 m) = (if n = ''initial_request_id'' then (Some (ValRequestID v9), True) else MessageMutation_Field n m)"
  "MessageMutation_Field n (MessageMutation_SetCreatedAt v10 m) = (if n = ''created_at'' then (Some (ValTime v10), True) else MessageMutation_Field n m)"
  by (simp_all add: MessageMutation_Field_def MessageMutation_fields)

lemma MessageMutation_Field_Reset:
  "\<not> snd (MessageMutation_Field ''chat_id'' (MessageMutation_ResetChatID m))" "n \<noteq> ''chat_id'' \<Longrightarrow> MessageMutation_Field n (MessageMutation_ResetChatID m) = MessageMutation_Field n m"
  "\<not> snd (MessageMutation_Field ''problem_id'' (MessageMutation_ResetProblemID m))" "n \<noteq> ''problem_id'' \<Longrightarrow> MessageMutation_Field n (MessageMutation_ResetProblemID m) = MessageMutation_Field n m"
  "\<not> snd (MessageMutation_Field ''author_id'' (MessageMutation_ResetAuthorID m))" "n \<noteq> ''author_id'' \<Longrightarrow> MessageMutation_Field n (MessageMutation_ResetAuthorID m) = MessageMutation_Field n m"
  "\<not> snd (MessageMutation_Field ''is_visible_for_client'' (MessageMutation_ResetIsVisibleForClient m))" "n \<noteq> ''is_visible_for_client'' \<Longrightarrow> MessageMutation_Field n (MessageMutation_ResetIsVisibleForClient m) = MessageMutation_Field n m"
  "\<not> snd (MessageMutation_Field ''is_visible_for_manager'' (MessageMutation_ResetIsVisibleForManager m))" "n \<noteq> ''is_visible_for_manager'' \<Longrightarrow> MessageMutation_Field n (MessageMutation_ResetIsVisibleForManager m) = MessageMutation_Field n m"
  "\<not> snd (MessageMutation_Field ''body'' (MessageMutation_ResetBody m))" "n \<noteq> ''body'' \<Longrightarrow> MessageMutation_Field n (MessageMutation_ResetBody m) = MessageMutation_Field n m"
  "\<not> snd (MessageMutation_Field ''checked_at'' (MessageMutation_ResetCheckedAt m))" "n \<noteq> ''checked_at'' \<Longrightarrow> MessageMutation_Field n (MessageMutation_ResetCheckedAt m) = MessageMutation_Field n m"
  "\<not> snd (MessageMutation_Field ''is_blocked'' (MessageMutation_ResetIsBlocked m))" "n \<noteq> ''is_blocked'' \<Longrightarrow> MessageMutation_Field n (MessageMutation_ResetIsBlocked m) = MessageMutation_Field n m"
  "\<not> snd (MessageMutation_Field ''is_service'' (MessageMutation_ResetIsService m))" "n \<noteq> ''is_service'' \<Longrightarrow> MessageMutation_Field n (MessageMutation_ResetIsService m) = MessageMutation_Field n m"
  "\<not> snd (MessageMutation_Field ''initial_request_id'' (MessageMutation_ResetInitialRequestID m))" "n \<noteq> ''initial_request_id'' \<Longrightarrow> MessageMutation_Field n (MessageMutation_ResetInitialRequestID m) = MessageMutation_Field n m"
  "\<not> snd (MessageMutation_Field ''created_at'' (MessageMutation_ResetCreatedAt m))" "n \<noteq> ''created_at'' \<Longrightarrow> MessageMutation_Field n (MessageMutation_ResetCreatedAt m) = MessageMutation_Field n m"
  by (simp_all add: MessageMutation_Field_def MessageMutation_fields)

lemma MessageMutation_Field_isset:
  "snd (MessageMutation_Field ''chat_id'' m) \<longleftrightarrow> mmu_chat m \<noteq> None"
  "snd (MessageMutation_Field ''problem_id'' m) \<longleftrightarrow> mmu_problem m \<noteq> None"
  "snd (MessageMutation_Field ''author_id'' m) \<longleftrightarrow> mmu_author_id m \<noteq> None"
  "snd (MessageMutation_Field ''is_visible_for_client'' m) \<longleftrightarrow> mmu_is_visible_for_client m \<noteq> None"
  "snd (MessageMutation_Field ''is_visible_for_manager'' m) \<longleftrightarrow> mmu_is_visible_for_manager m \<noteq> None"
  "snd (MessageMutation_Field ''body'' m) \<longleftrightarrow> mmu_body m \<noteq> None"
  "snd (MessageMutation_Field ''checked_at'' m) \<longleftrightarrow> mmu_checked_at m \<noteq> None"
  "snd (MessageMutation_Field ''is_blocked'' m) \<longleftrightarrow> mmu_is_blocked m \<noteq> None"
  "snd (MessageMutation_Field ''is_service'' m) \<longleftrightarrow> mmu_is_service m \<noteq> None"
  "snd (MessageMutation_Field ''initial_request_id'' m) \<longleftrightarrow> mmu_initial_request_id m \<noteq> None"
  "snd (MessageMutation_Field ''created_at'' m) \<longleftrightarrow> mmu_created_at m \<noteq> None"
  by (simp_all add: MessageMutation_Field_def MessageMutation_fields)

lemma MessageMutation_set_ok:
  assumes "MessageMutation_kind n = Some (value_kind v)"
  shows "\<exists>m'. MessageMutation_SetField n v m = (None, m') \<and> MessageMutation_Field n m' = (v, True) \<and> (\<forall>n'. n' \<noteq> n \<longrightarrow> MessageMutation_Field n' m' = MessageMutation_Field n' m)"
proof -
  obtain k where k: "MessageMutation_kind n = Some k" "value_kind v = k" using assms by blast
  from k(1) show ?thesis
    by (rule MessageMutation_columns) (use k(2) in \<open>auto simp: value_kind_iff MessageMutation_SetField_def MessageMutation_Field_Set\<close>)
qed

lemma MessageMutation_set_err:
  assumes "MessageMutation_kind n \<noteq> Some (value_kind v)"
  shows "\<exists>e. MessageMutation_SetField n v m = (Some e, m)"
proof (cases "MessageMutation_kind n")
  case None
  then show ?thesis by (simp add: MessageMutation_unknown)
next
  case (Some k)
  then show ?thesis
    by (rule MessageMutation_columns) (use assms in \<open>auto simp: MessageMutation_SetField_def MessageMutation_kind_def split: option.splits ent_value.splits\<close>)
qed

lemma MessageMutation_reset_ok:
  assumes "MessageMutation_kind n \<noteq> None"
  shows "\<exists>m'. MessageMutation_ResetField n m = (None, m') \<and> \<not> snd (MessageMutation_Field n m') \<and> (\<forall>n'. n' \<noteq> n \<longrightarrow> MessageMutation_Field n' m' = MessageMutation_Field n' m)"
proof -
  from assms obtain k where "MessageMutation_kind n = Some k" by auto
  then show ?thesis by (rule MessageMutation_columns) (auto simp: MessageMutation_ResetField_def MessageMutation_Field_Reset)
qed

interpretation message_fields: typed_fields MessageMutation_kind MessageMutation_SetField MessageMutation_Field MessageMutation_ResetField MessageMutation_Fields
    "[''chat_id'', ''problem_id'', ''author_id'', ''is_visible_for_client'', ''is_visible_for_manager'', ''body'', ''checked_at'', ''is_blocked'', ''is_service'', ''initial_request_id'', ''created_at'']"
proof
  show "MessageMutation_Fields m = filter (\<lambda>n. snd (MessageMutation_Field n m)) [''chat_id'', ''problem_id'', ''author_id'', ''is_visible_for_client'', ''is_visible_for_manager'', ''body'', ''checked_at'', ''is_blocked'', ''is_service'', ''initial_request_id'', ''created_at'']" for m
    by (simp add: filter_Cons_append MessageMutation_Fields_def MessageMutation_Field_isset del: filter.simps(2))
  show "set [''chat_id'', ''problem_id'', ''author_id'', ''is_visible_for_client'', ''is_visible_for_manager'', ''body'', ''checked_at'', ''is_blocked'', ''is_service'', ''initial_request_id'', ''created_at''] = {n. MessageMutation_kind n \<noteq> None}" by (rule MessageMutation_kind_columns [symmetric])
qed (auto simp: MessageMutation_unknown intro: MessageMutation_set_ok MessageMutation_set_err MessageMutation_reset_ok)

end
