(* ===== verification/ProblemMutations.thy ===== *)
theory ProblemMutations
  imports Mutation
begin

text \<open>
  The mutation of a problem (\<open>ProblemMutation\<close> in \<open>internal/store/mutation.go\<close>), one definition per method.  The edges to
  many rows are sets of identifiers or nil; the lists that Go makes of them are in no order.
\<close>

record ent_ProblemMutation =
  pmu_op :: "ent_Op"
  pmu_typ :: "string"
  pmu_id :: "ProblemID option"
  pmu_manager_id :: "UserID option"
  pmu_resolved_at :: "time option"
  pmu_created_at :: "time option"
  pmu_clearedFields :: "string set"
  pmu_chat :: "ChatID option"
  pmu_clearedchat :: "bool"
  pmu_messages :: "MessageID set option"
  pmu_removedmessages :: "MessageID set option"
  pmu_clearedmessages :: "bool"
  pmu_done :: "bool"
  pmu_oldValue :: "(ProblemID, problem_row) old_value"
  pmu_predicates :: "problem_row predicate list"

definition ent_newProblemMutation :: "ent_Op \<Rightarrow> (ent_ProblemMutation \<Rightarrow> ent_ProblemMutation) list \<Rightarrow> ent_ProblemMutation" where
  "ent_newProblemMutation op opts = foldl (\<lambda>m opt. opt m)
     \<lparr>pmu_op = op, pmu_typ = ''Problem'', pmu_id = None,
       pmu_manager_id = None, pmu_resolved_at = None, pmu_created_at = None,
       pmu_clearedFields = {}, pmu_chat = None, pmu_clearedchat = False,
       pmu_messages = None, pmu_removedmessages = None, pmu_clearedmessages = False,
       pmu_done = False, pmu_oldValue = OldNil, pmu_predicates = []\<rparr> opts"

definition withProblemID :: "ProblemID \<Rightarrow> ent_ProblemMutation \<Rightarrow> ent_ProblemMutation" where
  "withProblemID i m = m\<lparr>pmu_oldValue := OldQuery i None, pmu_id := Some i\<rparr>"

definition withProblem :: "problem_row \<Rightarrow> ent_ProblemMutation \<Rightarrow> ent_ProblemMutation" where
  "withProblem node m = m\<lparr>pmu_oldValue := OldNode node, pmu_id := Some (p_ID node)\<rparr>"

definition ProblemMutation_SetID :: "ProblemID \<Rightarrow> ent_ProblemMutation \<Rightarrow> ent_ProblemMutation" where
  "ProblemMutation_SetID v m = m\<lparr>pmu_id := Some v\<rparr>"

definition ProblemMutation_ID :: "ent_ProblemMutation \<Rightarrow> ProblemID \<times> bool" where
  "ProblemMutation_ID m = go_ok 0 (pmu_id m)"

definition ProblemMutation_IDs :: "ent_ProblemMutation \<Rightarrow> 'z store_scheme \<Rightarrow> ProblemID list result \<times> 'z store_scheme" where
  "ProblemMutation_IDs m w =
     mutation_IDs (pmu_op m) (pmu_id m) p_ID (query_Where (pmu_predicates m) (new_query ''problem'' problems)) w"

definition ProblemMutation_SetChatID :: "ChatID \<Rightarrow> ent_ProblemMutation \<Rightarrow> ent_ProblemMutation" where
  "ProblemMutation_SetChatID v m = m\<lparr>pmu_chat := Some v\<rparr>"

definition ProblemMutation_ChatID :: "ent_ProblemMutation \<Rightarrow> ChatID \<times> bool" where
  "ProblemMutation_ChatID m = go_ok 0 (pmu_chat m)"

definition ProblemMutation_OldChatID :: "ent_ProblemMutation \<Rightarrow> 'z store_scheme \<Rightarrow> ChatID result \<times> ent_ProblemMutation \<times> 'z store_scheme" where
  "ProblemMutation_OldChatID m w =
     (case mutation_old ''OldChatID'' (pmu_op m) (pmu_id m) (pmu_oldValue m) (pmu_done m) (entity_Get ''problem'' problems p_ID) w of
        (r, old, w) \<Rightarrow> (map_sum id p_ChatID r, m\<lparr>pmu_oldValue := old\<rparr>, w))"

definition ProblemMutation_ResetChatID :: "ent_ProblemMutation \<Rightarrow> ent_ProblemMutation" where
  "ProblemMutation_ResetChatID m = m\<lparr>pmu_chat := None\<rparr>"

definition ProblemMutation_SetManagerID :: "UserID \<Rightarrow> ent_ProblemMutation \<Rightarrow> ent_ProblemMutation" where
  "ProblemMutation_SetManagerID v m = m\<lparr>pmu_manager_id := Some v\<rparr>"

definition ProblemMutation_ManagerID :: "ent_ProblemMutation \<Rightarrow> UserID \<times> bool" where
  "ProblemMutation_ManagerID m = go_ok 0 (pmu_manager_id m)"

definition ProblemMutation_OldManagerID :: "ent_ProblemMutation \<Rightarrow> 'z store_scheme \<Rightarrow> UserID result \<times> ent_ProblemMutation \<times> 'z store_scheme" where
  "ProblemMutation_OldManagerID m w =
     (case mutation_old ''OldManagerID'' (pmu_op m) (pmu_id m) (pmu_oldValue m) (pmu_done m) (entity_Get ''problem'' problems p_ID) w of
        (r, old, w) \<Rightarrow> (map_sum id (\<lambda>r. or_zero 0 (p_ManagerID r)) r, m\<lparr>pmu_oldValue := old\<rparr>, w))"

definition ProblemMutation_ClearManagerID :: "ent_ProblemMutation \<Rightarrow> ent_ProblemMutation" where
  "ProblemMutation_ClearManagerID m = m\<lparr>pmu_manager_id := None, pmu_clearedFields := insert ''manager_id'' (pmu_clearedFields m)\<rparr>"

definition ProblemMutation_ManagerIDCleared :: "ent_ProblemMutation \<Rightarrow> bool" where
  "ProblemMutation_ManagerIDCleared m \<longleftrightarrow> ''manager_id'' \<in> pmu_clearedFields m"

definition ProblemMutation_ResetManagerID :: "ent_ProblemMutation \<Rightarrow> ent_ProblemMutation" where
  "ProblemMutation_ResetManagerID m = m\<lparr>pmu_manager_id := None, pmu_clearedFields := pmu_clearedFields m - {''manager_id''}\<rparr>"

definition ProblemMutation_SetResolvedAt :: "time \<Rightarrow> ent_ProblemMutation \<Rightarrow> ent_ProblemMutation" where
  "ProblemMutation_SetResolvedAt v m = m\<lparr>pmu_resolved_at := Some v\<rparr>"

definition ProblemMutation_ResolvedAt :: "ent_ProblemMutation \<Rightarrow> time \<times> bool" where
  "ProblemMutation_ResolvedAt m = go_ok 0 (pmu_resolved_at m)"

definition ProblemMutation_OldResolvedAt :: "ent_ProblemMutation \<Rightarrow> 'z store_scheme \<Rightarrow> time result \<times> ent_ProblemMutation \<times> 'z store_scheme" where
  "ProblemMutation_OldResolvedAt m w =
     (case mutation_old ''OldResolvedAt'' (pmu_op m) (pmu_id m) (pmu_oldValue m) (pmu_done m) (entity_Get ''problem'' problems p_ID) w of
        (r, old, w) \<Rightarrow> (map_sum id (\<lambda>r. or_zero 0 (p_ResolvedAt r)) r, m\<lparr>pmu_oldValue := old\<rparr>, w))"

definition ProblemMutation_ClearResolvedAt :: "ent_ProblemMutation \<Rightarrow> ent_ProblemMutation" where
  "ProblemMutation_ClearResolvedAt m = m\<lparr>pmu_resolved_at := None, pmu_clearedFields := insert ''resolved_at'' (pmu_clearedFields m)\<rparr>"

definition ProblemMutation_ResolvedAtCleared :: "ent_ProblemMutation \<Rightarrow> bool" where
  "ProblemMutation_ResolvedAtCleared m \<longleftrightarrow> ''resolved_at'' \<in> pmu_clearedFields m"

definition ProblemMutation_ResetResolvedAt :: "ent_ProblemMutation \<Rightarrow> ent_ProblemMutation" where
  "ProblemMutation_ResetResolvedAt m = m\<lparr>pmu_resolved_at := None, pmu_clearedFields := pmu_clearedFields m - {''resolved_at''}\<rparr>"

definition ProblemMutation_SetCreatedAt :: "time \<Rightarrow> ent_ProblemMutation \<Rightarrow> ent_ProblemMutation" where
  "ProblemMutation_SetCreatedAt v m = m\<lparr>pmu_created_at := Some v\<rparr>"

definition ProblemMutation_CreatedAt :: "ent_ProblemMutation \<Rightarrow> time \<times> bool" where
  "ProblemMutation_CreatedAt m = go_ok 0 (pmu_created_at m)"

definition ProblemMutation_OldCreatedAt :: "ent_ProblemMutation \<Rightarrow> 'z store_scheme \<Rightarrow> time result \<times> ent_ProblemMutation \<times> 'z store_scheme" where
  "ProblemMutation_OldCreatedAt m w =
     (case mutation_old ''OldCreatedAt'' (pmu_op m) (pmu_id m) (pmu_oldValue m) (pmu_done m) (entity_Get ''problem'' problems p_ID) w of
        (r, old, w) \<Rightarrow> (map_sum id p_CreatedAt r, m\<lparr>pmu_oldValue := old\<rparr>, w))"

definition ProblemMutation_ResetCreatedAt :: "ent_ProblemMutation \<Rightarrow> ent_ProblemMutation" where
  "ProblemMutation_ResetCreatedAt m = m\<lparr>pmu_created_at := None\<rparr>"

definition ProblemMutation_ClearChat :: "ent_ProblemMutation \<Rightarrow> ent_ProblemMutation" where
  "ProblemMutation_ClearChat m = m\<lparr>pmu_clearedchat := True, pmu_clearedFields := insert ''chat_id'' (pmu_clearedFields m)\<rparr>"

definition ProblemMutation_ChatCleared :: "ent_ProblemMutation \<Rightarrow> bool" where
  "ProblemMutation_ChatCleared m \<longleftrightarrow> pmu_clearedchat m"

definition ProblemMutation_ChatIDs :: "ent_ProblemMutation \<Rightarrow> ChatID list" where
  "ProblemMutation_ChatIDs m = (case pmu_chat m of None \<Rightarrow> [] | Some i \<Rightarrow> [i])"

definition ProblemMutation_ResetChat :: "ent_ProblemMutation \<Rightarrow> ent_ProblemMutation" where
  "ProblemMutation_ResetChat m = m\<lparr>pmu_chat := None, pmu_clearedchat := False\<rparr>"

definition ProblemMutation_AddMessageIDs :: "MessageID list \<Rightarrow> ent_ProblemMutation \<Rightarrow> ent_ProblemMutation" where
  "ProblemMutation_AddMessageIDs ids m = m\<lparr>pmu_messages := Some (or_zero {} (pmu_messages m) \<union> set ids)\<rparr>"

definition ProblemMutation_ClearMessages :: "ent_ProblemMutation \<Rightarrow> ent_ProblemMutation" where
  "ProblemMutation_ClearMessages m = m\<lparr>pmu_clearedmessages := True\<rparr>"

definition ProblemMutation_MessagesCleared :: "ent_ProblemMutation \<Rightarrow> bool" where
  "ProblemMutation_MessagesCleared m \<longleftrightarrow> pmu_clearedmessages m"

definition ProblemMutation_RemoveMessageIDs :: "MessageID list \<Rightarrow> ent_ProblemMutation \<Rightarrow> ent_ProblemMutation" where
  "ProblemMutation_RemoveMessageIDs ids m = m\<lparr>pmu_messages := map_option (\<lambda>x. x - set ids) (pmu_messages m), pmu_removedmessages := Some (or_zero {} (pmu_removedmessages m) \<union> set ids)\<rparr>"

definition ProblemMutation_RemovedMessagesIDs :: "ent_ProblemMutation \<Rightarrow> MessageID set" where
  "ProblemMutation_RemovedMessagesIDs m = or_zero {} (pmu_removedmessages m)"

definition ProblemMutation_MessagesIDs :: "ent_ProblemMutation \<Rightarrow> MessageID set" where
  "ProblemMutation_MessagesIDs m = or_zero {} (pmu_messages m)"

definition ProblemMutation_ResetMessages :: "ent_ProblemMutation \<Rightarrow> ent_ProblemMutation" where
  "ProblemMutation_ResetMessages m = m\<lparr>pmu_messages := None, pmu_clearedmessages := False, pmu_removedmessages := None\<rparr>"

definition ProblemMutation_Where :: "problem_row predicate list \<Rightarrow> ent_ProblemMutation \<Rightarrow> ent_ProblemMutation" where
  "ProblemMutation_Where ps m = m\<lparr>pmu_predicates := pmu_predicates m @ ps\<rparr>"

definition ProblemMutation_WhereP :: "problem_row predicate list \<Rightarrow> ent_ProblemMutation \<Rightarrow> ent_ProblemMutation" where
  "ProblemMutation_WhereP ps m = ProblemMutation_Where (map id ps) m"

definition ProblemMutation_Op :: "ent_ProblemMutation \<Rightarrow> ent_Op" where
  "ProblemMutation_Op m = pmu_op m"

definition ProblemMutation_SetOp :: "ent_Op \<Rightarrow> ent_ProblemMutation \<Rightarrow> ent_ProblemMutation" where
  "ProblemMutation_SetOp op m = m\<lparr>pmu_op := op\<rparr>"

definition ProblemMutation_Type :: "ent_ProblemMutation \<Rightarrow> string" where
  "ProblemMutation_Type m = pmu_typ m"

definition ProblemMutation_Fields :: "ent_ProblemMutation \<Rightarrow> string list" where
  "ProblemMutation_Fields m =
     (if pmu_chat m \<noteq> None then [''chat_id''] else [])
     @ (if pmu_manager_id m \<noteq> None then [''manager_id''] else [])
     @ (if pmu_resolved_at m \<noteq> None then [''resolved_at''] else [])
     @ (if pmu_created_at m \<noteq> None then [''created_at''] else [])"

definition ProblemMutation_Field :: "string \<Rightarrow> ent_ProblemMutation \<Rightarrow> ent_value option \<times> bool" where
  "ProblemMutation_Field name m =
     (if name = ''chat_id'' then field_value ValChatID (ProblemMutation_ChatID m)
      else if name = ''manager_id'' then field_value ValUserID (ProblemMutation_ManagerID m)
      else if name = ''resolved_at'' then field_value ValTime (ProblemMutation_ResolvedAt m)
      else if name = ''created_at'' then field_value ValTime (ProblemMutation_CreatedAt m)
      else (None, False))"

definition ProblemMutation_OldField :: "string \<Rightarrow> ent_ProblemMutation \<Rightarrow> 'z store_scheme \<Rightarrow> ent_value result \<times> ent_ProblemMutation \<times> 'z store_scheme" where
  "ProblemMutation_OldField name m w =
     (if name = ''chat_id'' then map_prod (map_sum id ValChatID) id (ProblemMutation_OldChatID m w)
      else if name = ''manager_id'' then map_prod (map_sum id ValUserID) id (ProblemMutation_OldManagerID m w)
      else if name = ''resolved_at'' then map_prod (map_sum id ValTime) id (ProblemMutation_OldResolvedAt m w)
      else if name = ''created_at'' then map_prod (map_sum id ValTime) id (ProblemMutation_OldCreatedAt m w)
      else (Inl (unknown_field ''Problem'' ''field'' name), m, w))"

definition ProblemMutation_SetField :: "string \<Rightarrow> ent_value option \<Rightarrow> ent_ProblemMutation \<Rightarrow> goerr option \<times> ent_ProblemMutation" where
  "ProblemMutation_SetField name value m =
     (if name = ''chat_id'' then (case value of Some (ValChatID v) \<Rightarrow> (None, ProblemMutation_SetChatID v m) | _ \<Rightarrow> (Some (unexpected_type value name), m))
      else if name = ''manager_id'' then (case value of Some (ValUserID v) \<Rightarrow> (None, ProblemMutation_SetManagerID v m) | _ \<Rightarrow> (Some (unexpected_type value name), m))
      else if name = ''resolved_at'' then (case value of Some (ValTime v) \<Rightarrow> (None, ProblemMutation_SetResolvedAt v m) | _ \<Rightarrow> (Some (unexpected_type value name), m))
      else if name = ''created_at'' then (case value of Some (ValTime v) \<Rightarrow> (None, ProblemMutation_SetCreatedAt v m) | _ \<Rightarrow> (Some (unexpected_type value name), m))
      else (Some (unknown_field ''Problem'' ''field'' name), m))"

definition ProblemMutation_AddedFields :: "ent_ProblemMutation \<Rightarrow> string list" where
  "ProblemMutation_AddedFields m = []"

definition ProblemMutation_AddedField :: "string \<Rightarrow> ent_ProblemMutation \<Rightarrow> ent_value option \<times> bool" where
  "ProblemMutation_AddedField name m =
     ((None, False))"

definition ProblemMutation_AddField :: "string \<Rightarrow> ent_value option \<Rightarrow> ent_ProblemMutation \<Rightarrow> goerr option \<times> ent_ProblemMutation" where
  "ProblemMutation_AddField name value m =
     ((Some (unknown_field ''Problem'' ''numeric field'' name), m))"

definition ProblemMutation_FieldCleared :: "string \<Rightarrow> ent_ProblemMutation \<Rightarrow> bool" where
  "ProblemMutation_FieldCleared name m \<longleftrightarrow> name \<in> pmu_clearedFields m"

definition ProblemMutation_ClearedFields :: "ent_ProblemMutation \<Rightarrow> string list" where
  "ProblemMutation_ClearedFields m =
     (if ProblemMutation_FieldCleared ''manager_id'' m then [''manager_id''] else [])
     @ (if ProblemMutation_FieldCleared ''resolved_at'' m then [''resolved_at''] else [])"

definition ProblemMutation_ClearField :: "string \<Rightarrow> ent_ProblemMutation \<Rightarrow> goerr option \<times> ent_ProblemMutation" where
  "ProblemMutation_ClearField name m =
     (if name = ''manager_id'' then (None, ProblemMutation_ClearManagerID m)
      else if name = ''resolved_at'' then (None, ProblemMutation_ClearResolvedAt m)
      else (Some (unknown_field ''Problem'' ''nullable field'' name), m))"

definition ProblemMutation_ResetField :: "string \<Rightarrow> ent_ProblemMutation \<Rightarrow> goerr option \<times> ent_ProblemMutation" where
  "ProblemMutation_ResetField name m =
     (if name = ''chat_id'' then (None, ProblemMutation_ResetChatID m)
      else if name = ''manager_id'' then (None, ProblemMutation_ResetManagerID m)
      else if name = ''resolved_at'' then (None, ProblemMutation_ResetResolvedAt m)
      else if name = ''created_at'' then (None, ProblemMutation_ResetCreatedAt m)
      else (Some (unknown_field ''Problem'' ''field'' name), m))"

definition ProblemMutation_AddedEdges :: "ent_ProblemMutation \<Rightarrow> string list" where
  "ProblemMutation_AddedEdges m =
     (if pmu_chat m \<noteq> None then [''chat''] else [])
     @ (if pmu_messages m \<noteq> None then [''messages''] else [])"

definition ProblemMutation_AddedIDs :: "string \<Rightarrow> ent_ProblemMutation \<Rightarrow> ent_value set" where
  "ProblemMutation_AddedIDs name m =
     (if name = ''chat'' then (case pmu_chat m of None \<Rightarrow> {} | Some i \<Rightarrow> {ValChatID i})
      else if name = ''messages'' then ValMessageID ` or_zero {} (pmu_messages m)
      else {})"

definition ProblemMutation_RemovedEdges :: "ent_ProblemMutation \<Rightarrow> string list" where
  "ProblemMutation_RemovedEdges m =
     (if pmu_removedmessages m \<noteq> None then [''messages''] else [])"

definition ProblemMutation_RemovedIDs :: "string \<Rightarrow> ent_ProblemMutation \<Rightarrow> ent_value set" where
  "ProblemMutation_RemovedIDs name m =
     (if name = ''messages'' then ValMessageID ` or_zero {} (pmu_removedmessages m)
      else {})"

definition ProblemMutation_ClearedEdges :: "ent_ProblemMutation \<Rightarrow> string list" where
  "ProblemMutation_ClearedEdges m =
     (if pmu_clearedchat m then [''chat''] else [])
     @ (if pmu_clearedmessages m then [''messages''] else [])"

definition ProblemMutation_EdgeCleared :: "string \<Rightarrow> ent_ProblemMutation \<Rightarrow> bool" where
  "ProblemMutation_EdgeCleared name m \<longleftrightarrow>
     (if name = ''chat'' then pmu_clearedchat m
      else if name = ''messages'' then pmu_clearedmessages m
      else False)"

definition ProblemMutation_ClearEdge :: "string \<Rightarrow> ent_ProblemMutation \<Rightarrow> goerr option \<times> ent_ProblemMutation" where
  "ProblemMutation_ClearEdge name m =
     (if name = ''chat'' then (None, ProblemMutation_ClearChat m)
      else (Some (unknown_field ''Problem'' ''unique edge'' name), m))"

definition ProblemMutation_ResetEdge :: "string \<Rightarrow> ent_ProblemMutation \<Rightarrow> goerr option \<times> ent_ProblemMutation" where
  "ProblemMutation_ResetEdge name m =
     (if name = ''chat'' then (None, ProblemMutation_ResetChat m)
      else if name = ''messages'' then (None, ProblemMutation_ResetMessages m)
      else (Some (unknown_field ''Problem'' ''edge'' name), m))"

section \<open>The fields by name\<close>

definition ProblemMutation_kind :: "string \<Rightarrow> ent_kind option" where
  "ProblemMutation_kind = map_of [(''chat_id'', KindChatID), (''manager_id'', KindUserID), (''resolved_at'', KindTime),
     (''created_at'', KindTime)]"

lemmas ProblemMutation_by_name = ProblemMutation_SetField_def ProblemMutation_Field_def ProblemMutation_ResetField_def ProblemMutation_Fields_def

lemmas ProblemMutation_fields = ProblemMutation_SetChatID_def ProblemMutation_ChatID_def ProblemMutation_ResetChatID_def
  ProblemMutation_SetManagerID_def ProblemMutation_ManagerID_def ProblemMutation_ResetManagerID_def
  ProblemMutation_SetResolvedAt_def ProblemMutation_ResolvedAt_def ProblemMutation_ResetResolvedAt_def
  ProblemMutation_SetCreatedAt_def ProblemMutation_CreatedAt_def ProblemMutation_ResetCreatedAt_def

lemma ProblemMutation_kind_columns: "{n. ProblemMutation_kind n \<noteq> None} = set [''chat_id'', ''manager_id'', ''resolved_at'', ''created_at'']"
  by (auto simp: ProblemMutation_kind_def)

lemma ProblemMutation_columns:
  assumes "ProblemMutation_kind n = Some k"
  obtains "n = ''chat_id''" "k = KindChatID"
  | "n = ''manager_id''" "k = KindUserID"
  | "n = ''resolved_at''" "k = KindTime"
  | "n = ''created_at''" "k = KindTime"
  using assms by (auto simp: ProblemMutation_kind_def split: if_splits)

lemma ProblemMutation_unknown:
  assumes "ProblemMutation_kind n = None"
  shows "ProblemMutation_Field n m = (None, False)" "ProblemMutation_SetField n v m = (Some (unknown_field ''Problem'' ''field'' n), m)"
    "ProblemMutation_ResetField n m = (Some (unknown_field ''Problem'' ''field'' n), m)"
  using assms by (auto simp: ProblemMutation_kind_def ProblemMutation_by_name split: if_splits)

text \<open>One field at a time.\<close>

lemma ProblemMutation_Field_Set:
  "ProblemMutation_Field n (ProblemMutation_SetChatID v0 m) = (if n = ''chat_id'' then (Some (ValChatID v0), True) else ProblemMutation_Field n m)"
  "ProblemMutation_Field n (ProblemMutation_SetManagerID v1 m) = (if n = ''manager_id'' then (Some (ValUserID v1), True) else ProblemMutation_Field n m)"
  "ProblemMutation_Field n (ProblemMutation_SetResolvedAt v2 m) = (if n = ''resolved_at'' then (Some (ValTime v2), True) else ProblemMutation_Field n m)"
  "ProblemMutation_Field n (ProblemMutation_SetCreatedAt v3 m) = (if n = ''created_at'' then (Some (ValTime v3), True) else ProblemMutation_Field n m)"
  by (simp_all add: ProblemMutation_Field_def ProblemMutation_fields)

lemma ProblemMutation_Field_Reset:
  "\<not> snd (ProblemMutation_Field ''chat_id'' (ProblemMutation_ResetChatID m))" "n \<noteq> ''chat_id'' \<Longrightarrow> ProblemMutation_Field n (ProblemMutation_ResetChatID m) = ProblemMutation_Field n m"
  "\<not> snd (ProblemMutation_Field ''manager_id'' (ProblemMutation_ResetManagerID m))" "n \<noteq> ''manager_id'' \<Longrightarrow> ProblemMutation_Field n (ProblemMutation_ResetManagerID m) = ProblemMutation_Field n m"
  "\<not> snd (ProblemMutation_Field ''resolved_at'' (ProblemMutation_ResetResolvedAt m))" "n \<noteq> ''resolved_at'' \<Longrightarrow> ProblemMutation_Field n (ProblemMutation_ResetResolvedAt m) = ProblemMutation_Field n m"
  "\<not> snd (ProblemMutation_Field ''created_at'' (ProblemMutation_ResetCreatedAt m))" "n \<noteq> ''created_at'' \<Longrightarrow> ProblemMutation_Field n (ProblemMutation_ResetCreatedAt m) = ProblemMutation_Field n m"
  by (simp_all add: ProblemMutation_Field_def ProblemMutation_fields)

lemma ProblemMutation_Field_isset:
  "snd (ProblemMutation_Field ''chat_id'' m) \<longleftrightarrow> pmu_chat m \<noteq> None"
  "snd (ProblemMutation_Field ''manager_id'' m) \<longleftrightarrow> pmu_manager_id m \<noteq> None"
  "snd (ProblemMutation_Field ''resolved_at'' m) \<longleftrightarrow> pmu_resolved_at m \<noteq> None"
  "snd (ProblemMutation_Field ''created_at'' m) \<longleftrightarrow> pmu_created_at m \<noteq> None"
  by (simp_all add: ProblemMutation_Field_def ProblemMutation_fields)

lemma ProblemMutation_set_ok:
  assumes "ProblemMutation_kind n = Some (value_kind v)"
  shows "\<exists>m'. ProblemMutation_SetField n v m = (None, m') \<and> ProblemMutation_Field n m' = (v, True) \<and> (\<forall>n'. n' \<noteq> n \<longrightarrow> ProblemMutation_Field n' m' = ProblemMutation_Field n' m)"
proof -
  obtain k where k: "ProblemMutation_kind n = Some k" "value_kind v = k" using assms by blast
  from k(1) show ?thesis
    by (rule ProblemMutation_columns) (use k(2) in \<open>auto simp: value_kind_iff ProblemMutation_SetField_def ProblemMutation_Field_Set\<close>)
qed

lemma ProblemMutation_set_err:
  assumes "ProblemMutation_kind n \<noteq> Some (value_kind v)"
  shows "\<exists>e. ProblemMutation_SetField n v m = (Some e, m)"
proof (cases "ProblemMutation_kind n")
  case None
  then show ?thesis by (simp add: ProblemMutation_unknown)
next
  case (Some k)
  then show ?thesis
    by (rule ProblemMutation_columns) (use assms in \<open>auto simp: ProblemMutation_SetField_def ProblemMutation_kind_def split: option.splits ent_value.splits\<close>)
qed

lemma ProblemMutation_reset_ok:
  assumes "ProblemMutation_kind n \<noteq> None"
  shows "\<exists>m'. ProblemMutation_ResetField n m = (None, m') \<and> \<not> snd (ProblemMutation_Field n m') \<and> (\<forall>n'. n' \<noteq> n \<longrightarrow> ProblemMutation_Field n' m' = ProblemMutation_Field n' m)"
proof -
  from assms obtain k where "ProblemMutation_kind n = Some k" by auto
  then show ?thesis by (rule ProblemMutation_columns) (auto simp: ProblemMutation_ResetField_def ProblemMutation_Field_Reset)
qed

interpretation problem_fields: typed_fields ProblemMutation_kind ProblemMutation_SetField ProblemMutation_Field ProblemMutation_ResetField ProblemMutation_Fields
    "[''chat_id'', ''manager_id'', ''resolved_at'', ''created_at'']"
proof
  show "ProblemMutation_Fields m = filter (\<lambda>n. snd (ProblemMutation_Field n m)) [''chat_id'', ''manager_id'', ''resolved_at'', ''created_at'']" for m
    by (simp add: filter_Cons_append ProblemMutation_Fields_def ProblemMutation_Field_isset del: filter.simps(2))
  show "set [''chat_id'', ''manager_id'', ''resolved_at'', ''created_at''] = {n. ProblemMutation_kind n \<noteq> None}" by (rule ProblemMutation_kind_columns [symmetric])
qed (auto simp: ProblemMutation_unknown intro: ProblemMutation_set_ok ProblemMutation_set_err ProblemMutation_reset_ok)

end
