(* ===== verification/Mutations.thy ===== *)
theory Mutations
  imports ChatMutations FailedJobMutations JobMutations MessageMutations ProblemMutations
begin

text \<open>
  The mutations together: each is a typed partial map, and the mutations of \<open>Builders\<close>, which hold only what a
  creation can set, are views of the ones that the code has.
\<close>

section \<open>The mutations of a creation are views\<close>

definition Chat_view :: "ent_ChatMutation \<Rightarrow> ChatMutation" where
  "Chat_view m = \<lparr>cm_client_id = cmu_client_id m, cm_created_at = cmu_created_at m, cm_id = cmu_id m\<rparr>"

lemma Chat_view:
  "Chat_view (ent_newChatMutation op []) = newChatMutation"
  "Chat_view (ChatMutation_SetClientID v0 m) = ChatCreate_SetClientID v0 (Chat_view m)"
  "Chat_view (ChatMutation_SetCreatedAt v1 m) = ChatCreate_SetCreatedAt v1 (Chat_view m)"
  "Chat_view (ChatMutation_SetID v2 m) = ChatCreate_SetID v2 (Chat_view m)"
  by (simp_all add: Chat_view_def ent_newChatMutation_def newChatMutation_def
    ChatMutation_SetClientID_def ChatCreate_SetClientID_def ChatMutation_SetCreatedAt_def ChatCreate_SetCreatedAt_def ChatMutation_SetID_def ChatCreate_SetID_def)

definition FailedJob_view :: "ent_FailedJobMutation \<Rightarrow> FailedJobMutation" where
  "FailedJob_view m = \<lparr>fm_name = fmu_name m, fm_payload = fmu_payload m, fm_reason = fmu_reason m, fm_created_at = fmu_created_at m, fm_id = fmu_id m\<rparr>"

lemma FailedJob_view:
  "FailedJob_view (ent_newFailedJobMutation op []) = newFailedJobMutation"
  "FailedJob_view (FailedJobMutation_SetName v0 m) = FailedJobCreate_SetName v0 (FailedJob_view m)"
  "FailedJob_view (FailedJobMutation_SetPayload v1 m) = FailedJobCreate_SetPayload v1 (FailedJob_view m)"
  "FailedJob_view (FailedJobMutation_SetReason v2 m) = FailedJobCreate_SetReason v2 (FailedJob_view m)"
  "FailedJob_view (FailedJobMutation_SetCreatedAt v3 m) = FailedJobCreate_SetCreatedAt v3 (FailedJob_view m)"
  "FailedJob_view (FailedJobMutation_SetID v4 m) = FailedJobCreate_SetID v4 (FailedJob_view m)"
  by (simp_all add: FailedJob_view_def ent_newFailedJobMutation_def newFailedJobMutation_def
    FailedJobMutation_SetName_def FailedJobCreate_SetName_def FailedJobMutation_SetPayload_def FailedJobCreate_SetPayload_def FailedJobMutation_SetReason_def FailedJobCreate_SetReason_def FailedJobMutation_SetCreatedAt_def FailedJobCreate_SetCreatedAt_def FailedJobMutation_SetID_def FailedJobCreate_SetID_def)

definition Job_view :: "ent_JobMutation \<Rightarrow> JobMutation" where
  "Job_view m = \<lparr>jm_name = jmu_name m, jm_payload = jmu_payload m, jm_attempts = jmu_attempts m, jm_available_at = jmu_available_at m, jm_reserved_until = jmu_reserved_until m, jm_created_at = jmu_created_at m, jm_id = jmu_id m\<rparr>"

lemma Job_view:
  "Job_view (ent_newJobMutation op []) = newJobMutation"
  "Job_view (JobMutation_SetName v0 m) = JobCreate_SetName v0 (Job_view m)"
  "Job_view (JobMutation_SetPayload v1 m) = JobCreate_SetPayload v1 (Job_view m)"
  "Job_view (JobMutation_SetAttempts v2 m) = JobCreate_SetAttempts v2 (Job_view m)"
  "Job_view (JobMutation_SetAvailableAt v3 m) = JobCreate_SetAvailableAt v3 (Job_view m)"
  "Job_view (JobMutation_SetReservedUntil v4 m) = JobCreate_SetReservedUntil v4 (Job_view m)"
  "Job_view (JobMutation_SetCreatedAt v5 m) = JobCreate_SetCreatedAt v5 (Job_view m)"
  "Job_view (JobMutation_SetID v6 m) = JobCreate_SetID v6 (Job_view m)"
  by (simp_all add: Job_view_def ent_newJobMutation_def newJobMutation_def
    JobMutation_SetName_def JobCreate_SetName_def JobMutation_SetPayload_def JobCreate_SetPayload_def JobMutation_SetAttempts_def JobCreate_SetAttempts_def JobMutation_SetAvailableAt_def JobCreate_SetAvailableAt_def JobMutation_SetReservedUntil_def JobCreate_SetReservedUntil_def JobMutation_SetCreatedAt_def JobCreate_SetCreatedAt_def JobMutation_SetID_def JobCreate_SetID_def)

definition Message_view :: "ent_MessageMutation \<Rightarrow> MessageMutation" where
  "Message_view m = \<lparr>mm_chat_id = mmu_chat m, mm_problem_id = mmu_problem m, mm_author_id = mmu_author_id m, mm_is_visible_for_client = mmu_is_visible_for_client m, mm_is_visible_for_manager = mmu_is_visible_for_manager m, mm_body = mmu_body m, mm_checked_at = mmu_checked_at m, mm_is_blocked = mmu_is_blocked m, mm_is_service = mmu_is_service m, mm_initial_request_id = mmu_initial_request_id m, mm_created_at = mmu_created_at m, mm_id = mmu_id m\<rparr>"

lemma Message_view:
  "Message_view (ent_newMessageMutation op []) = newMessageMutation"
  "Message_view (MessageMutation_SetChatID v0 m) = MessageCreate_SetChatID v0 (Message_view m)"
  "Message_view (MessageMutation_SetProblemID v1 m) = MessageCreate_SetProblemID v1 (Message_view m)"
  "Message_view (MessageMutation_SetAuthorID v2 m) = MessageCreate_SetAuthorID v2 (Message_view m)"
  "Message_view (MessageMutation_SetIsVisibleForClient v3 m) = MessageCreate_SetIsVisibleForClient v3 (Message_view m)"
  "Message_view (MessageMutation_SetIsVisibleForManager v4 m) = MessageCreate_SetIsVisibleForManager v4 (Message_view m)"
  "Message_view (MessageMutation_SetBody v5 m) = MessageCreate_SetBody v5 (Message_view m)"
  "Message_view (MessageMutation_SetCheckedAt v6 m) = MessageCreate_SetCheckedAt v6 (Message_view m)"
  "Message_view (MessageMutation_SetIsBlocked v7 m) = MessageCreate_SetIsBlocked v7 (Message_view m)"
  "Message_view (MessageMutation_SetIsService v8 m) = MessageCreate_SetIsService v8 (Message_view m)"
  "Message_view (MessageMutation_SetInitialRequestID v9 m) = MessageCreate_SetInitialRequestID v9 (Message_view m)"
  "Message_view (MessageMutation_SetCreatedAt v10 m) = MessageCreate_SetCreatedAt v10 (Message_view m)"
  "Message_view (MessageMutation_SetID v11 m) = MessageCreate_SetID v11 (Message_view m)"
  by (simp_all add: Message_view_def ent_newMessageMutation_def newMessageMutation_def
    MessageMutation_SetChatID_def MessageCreate_SetChatID_def MessageMutation_SetProblemID_def MessageCreate_SetProblemID_def MessageMutation_SetAuthorID_def MessageCreate_SetAuthorID_def MessageMutation_SetIsVisibleForClient_def MessageCreate_SetIsVisibleForClient_def MessageMutation_SetIsVisibleForManager_def MessageCreate_SetIsVisibleForManager_def MessageMutation_SetBody_def MessageCreate_SetBody_def MessageMutation_SetCheckedAt_def MessageCreate_SetCheckedAt_def MessageMutation_SetIsBlocked_def MessageCreate_SetIsBlocked_def MessageMutation_SetIsService_def MessageCreate_SetIsService_def MessageMutation_SetInitialRequestID_def MessageCreate_SetInitialRequestID_def MessageMutation_SetCreatedAt_def MessageCreate_SetCreatedAt_def MessageMutation_SetID_def MessageCreate_SetID_def)

definition Problem_view :: "ent_ProblemMutation \<Rightarrow> ProblemMutation" where
  "Problem_view m = \<lparr>pm_chat_id = pmu_chat m, pm_manager_id = pmu_manager_id m, pm_resolved_at = pmu_resolved_at m, pm_created_at = pmu_created_at m, pm_id = pmu_id m\<rparr>"

lemma Problem_view:
  "Problem_view (ent_newProblemMutation op []) = newProblemMutation"
  "Problem_view (ProblemMutation_SetChatID v0 m) = ProblemCreate_SetChatID v0 (Problem_view m)"
  "Problem_view (ProblemMutation_SetManagerID v1 m) = ProblemCreate_SetManagerID v1 (Problem_view m)"
  "Problem_view (ProblemMutation_SetResolvedAt v2 m) = ProblemCreate_SetResolvedAt v2 (Problem_view m)"
  "Problem_view (ProblemMutation_SetCreatedAt v3 m) = ProblemCreate_SetCreatedAt v3 (Problem_view m)"
  "Problem_view (ProblemMutation_SetID v4 m) = ProblemCreate_SetID v4 (Problem_view m)"
  by (simp_all add: Problem_view_def ent_newProblemMutation_def newProblemMutation_def
    ProblemMutation_SetChatID_def ProblemCreate_SetChatID_def ProblemMutation_SetManagerID_def ProblemCreate_SetManagerID_def ProblemMutation_SetResolvedAt_def ProblemCreate_SetResolvedAt_def ProblemMutation_SetCreatedAt_def ProblemCreate_SetCreatedAt_def ProblemMutation_SetID_def ProblemCreate_SetID_def)

section \<open>Old values\<close>

text \<open>Once asked for, an old value is not asked for again: the same answer, and the store is left alone.\<close>

lemma mutation_old_again:
  assumes "mutation_old name op i old don get w = (r, old', w')" and "Op_Is op OpUpdateOne" "i \<noteq> None" "old \<noteq> OldNil"
  shows "mutation_old name op i old' don' get' w' = (r, old', w')"
  using assms by (auto simp: mutation_old_def mutation_oldValue_def Let_def split: old_value.splits option.splits sum.splits prod.splits if_splits)

section \<open>The mutations are typed maps\<close>

lemma Chat_is_map: "mutation_is_map ChatMutation_kind ChatMutation_SetField ChatMutation_Field ChatMutation_ResetField
    ChatMutation_Fields (ent_newChatMutation op []) cs"
  by (rule chat_fields.is_map) (simp add: holds_map_def ChatMutation_Field_def ChatMutation_fields ent_newChatMutation_def)

lemma FailedJob_is_map: "mutation_is_map FailedJobMutation_kind FailedJobMutation_SetField FailedJobMutation_Field FailedJobMutation_ResetField
    FailedJobMutation_Fields (ent_newFailedJobMutation op []) cs"
  by (rule failedjob_fields.is_map) (simp add: holds_map_def FailedJobMutation_Field_def FailedJobMutation_fields ent_newFailedJobMutation_def)

lemma Job_is_map: "mutation_is_map JobMutation_kind JobMutation_SetField JobMutation_Field JobMutation_ResetField
    JobMutation_Fields (ent_newJobMutation op []) cs"
  by (rule job_fields.is_map) (simp add: holds_map_def JobMutation_Field_def JobMutation_fields ent_newJobMutation_def)

lemma Message_is_map: "mutation_is_map MessageMutation_kind MessageMutation_SetField MessageMutation_Field MessageMutation_ResetField
    MessageMutation_Fields (ent_newMessageMutation op []) cs"
  by (rule message_fields.is_map) (simp add: holds_map_def MessageMutation_Field_def MessageMutation_fields ent_newMessageMutation_def)

lemma Problem_is_map: "mutation_is_map ProblemMutation_kind ProblemMutation_SetField ProblemMutation_Field ProblemMutation_ResetField
    ProblemMutation_Fields (ent_newProblemMutation op []) cs"
  by (rule problem_fields.is_map) (simp add: holds_map_def ProblemMutation_Field_def ProblemMutation_fields ent_newProblemMutation_def)

text \<open>
  C38. Whatever is set and reset by name on a new mutation of any of the five tables, the mutation is the partial
  map that the accepted calls make: a value is accepted exactly when the field exists and the value has the type of the
  field, a refused call changes nothing, \<open>Field\<close> gives back the last value with its type, and \<open>Fields\<close> names exactly the fields set.
\<close>

theorem mutations_are_typed_maps:
  "mutation_is_map ChatMutation_kind ChatMutation_SetField ChatMutation_Field ChatMutation_ResetField
     ChatMutation_Fields (ent_newChatMutation op []) cs \<and>
   mutation_is_map FailedJobMutation_kind FailedJobMutation_SetField FailedJobMutation_Field FailedJobMutation_ResetField
     FailedJobMutation_Fields (ent_newFailedJobMutation op []) cs \<and>
   mutation_is_map JobMutation_kind JobMutation_SetField JobMutation_Field JobMutation_ResetField
     JobMutation_Fields (ent_newJobMutation op []) cs \<and>
   mutation_is_map MessageMutation_kind MessageMutation_SetField MessageMutation_Field MessageMutation_ResetField
     MessageMutation_Fields (ent_newMessageMutation op []) cs \<and>
   mutation_is_map ProblemMutation_kind ProblemMutation_SetField ProblemMutation_Field ProblemMutation_ResetField
     ProblemMutation_Fields (ent_newProblemMutation op []) cs"
  by (intro conjI Chat_is_map FailedJob_is_map Job_is_map Message_is_map Problem_is_map)

end
