(* ===== verification/SqlPredicates.thy ===== *)
theory SqlPredicates
  imports Mutation Updates
begin

text \<open>
  The conditions of SQL statements as \<open>entgo.io/ent/dialect/sql\<close> builds them: terms for the predicates that the
  generated code names, and their meaning for a row of a database in the logic of SQL with its third truth value,
  which a comparison with \<open>NULL\<close> has.  How PostgreSQL orders texts and folds their case depends on its locale and is
  an argument.
\<close>

section \<open>Terms\<close>

text \<open>The relation of an edge: the rows of the table that the step starts from own the foreign key, or the others do.\<close>

datatype sql_rel = O2M | M2O

record sql_step =
  sp_From :: "string \<times> string"
  sp_To :: "(string \<times> string) option"
  sp_Rel :: sql_rel
  sp_Inverse :: bool
  sp_Table :: string
  sp_Column :: string

datatype sql_pred =
    FieldEQ string ent_value
  | FieldNEQ string ent_value
  | FieldGT string ent_value
  | FieldGTE string ent_value
  | FieldLT string ent_value
  | FieldLTE string ent_value
  | FieldIn string "ent_value list"
  | FieldNotIn string "ent_value list"
  | FieldIsNull string
  | FieldNotNull string
  | FieldContains string string
  | FieldHasPrefix string string
  | FieldHasSuffix string string
  | FieldEqualFold string string
  | FieldContainsFold string string
  | HasNeighbors sql_step
  | HasNeighborsWith sql_step "sql_pred list"
  | AndPredicates "sql_pred list"
  | OrPredicates "sql_pred list"
  | NotPredicates sql_pred

text \<open>A group of no conditions adds none to the statement, neither true nor false.\<close>

fun contributes :: "sql_pred \<Rightarrow> bool" where
  "contributes (AndPredicates ps) = list_ex contributes ps"
| "contributes (OrPredicates ps) = list_ex contributes ps"
| "contributes (NotPredicates p) = contributes p"
| "contributes _ = True"

section \<open>Rows by column\<close>

text \<open>\<open>None\<close> is \<open>NULL\<close>.\<close>

type_synonym sql_row = "string \<Rightarrow> ent_value option"

definition columns :: "(string \<times> ent_value option) list \<Rightarrow> sql_row" where
  "columns cs c = (case map_of cs c of None \<Rightarrow> None | Some v \<Rightarrow> v)"

definition chat_cols :: "chat_row \<Rightarrow> sql_row" where
  "chat_cols r = columns [(''id'', Some (ValChatID (c_ID r))), (''client_id'', Some (ValUserID (c_ClientID r))),
     (''created_at'', Some (ValTime (c_CreatedAt r)))]"

definition problem_cols :: "problem_row \<Rightarrow> sql_row" where
  "problem_cols r = columns [(''id'', Some (ValProblemID (p_ID r))), (''chat_id'', Some (ValChatID (p_ChatID r))),
     (''manager_id'', map_option ValUserID (p_ManagerID r)), (''resolved_at'', map_option ValTime (p_ResolvedAt r)),
     (''created_at'', Some (ValTime (p_CreatedAt r)))]"

definition message_cols :: "message_row \<Rightarrow> sql_row" where
  "message_cols r = columns [(''id'', Some (ValMessageID (m_ID r))), (''chat_id'', Some (ValChatID (m_ChatID r))),
     (''problem_id'', Some (ValProblemID (m_ProblemID r))), (''author_id'', map_option ValUserID (m_AuthorID r)),
     (''is_visible_for_client'', Some (ValBool (m_IsVisibleForClient r))),
     (''is_visible_for_manager'', Some (ValBool (m_IsVisibleForManager r))), (''body'', Some (ValString (m_Body r))),
     (''checked_at'', map_option ValTime (m_CheckedAt r)), (''is_blocked'', Some (ValBool (m_IsBlocked r))),
     (''is_service'', Some (ValBool (m_IsService r))), (''initial_request_id'', Some (ValRequestID (m_InitialRequestID r))),
     (''created_at'', Some (ValTime (m_CreatedAt r)))]"

definition job_cols :: "job_row \<Rightarrow> sql_row" where
  "job_cols r = columns [(''id'', Some (ValJobID (j_ID r))), (''name'', Some (ValString (j_Name r))),
     (''payload'', Some (ValString (j_Payload r))), (''attempts'', Some (ValInt (j_Attempts r))),
     (''available_at'', Some (ValTime (j_AvailableAt r))), (''reserved_until'', Some (ValTime (j_ReservedUntil r))),
     (''created_at'', Some (ValTime (j_CreatedAt r)))]"

definition failed_job_cols :: "failed_job_row \<Rightarrow> sql_row" where
  "failed_job_cols r = columns [(''id'', Some (ValFailedJobID (f_ID r))), (''name'', Some (ValString (f_Name r))),
     (''payload'', Some (ValString (f_Payload r))), (''reason'', Some (ValString (f_Reason r))),
     (''created_at'', Some (ValTime (f_CreatedAt r)))]"

definition table_rows :: "database \<Rightarrow> string \<Rightarrow> sql_row list" where
  "table_rows d t =
     (if t = ''chats'' then map chat_cols (chats d)
      else if t = ''problems'' then map problem_cols (problems d)
      else if t = ''messages'' then map message_cols (messages d)
      else if t = ''jobs'' then map job_cols (jobs d)
      else if t = ''failed_jobs'' then map failed_job_cols (failed_jobs d) else [])"

section \<open>Three truth values\<close>

definition tv_all :: "bool option list \<Rightarrow> bool option" where
  "tv_all xs = (if Some False \<in> set xs then Some False else if None \<in> set xs then None else Some True)"

definition tv_any :: "bool option list \<Rightarrow> bool option" where
  "tv_any xs = (if Some True \<in> set xs then Some True else if None \<in> set xs then None else Some False)"

definition tv_not :: "bool option \<Rightarrow> bool option" where
  "tv_not = map_option Not"

text \<open>\<open>IN\<close>: of an empty list it is false, even for \<open>NULL\<close>.\<close>

definition tv_in :: "ent_value option \<Rightarrow> ent_value option list \<Rightarrow> bool option" where
  "tv_in c vs =
     (if vs = [] then Some False else if c = None then None
      else if c \<in> set vs then Some True else if None \<in> set vs then None else Some False)"

section \<open>Meaning\<close>

record sql_locale =
  sl_less :: "string \<Rightarrow> string \<Rightarrow> bool"
  sl_fold :: "string \<Rightarrow> string"

text \<open>
  The order of a column.  Identifiers are compared byte by byte, which is the order of their words; values of
  different types are never compared, since each function takes values of the type of its column.
\<close>

definition value_less :: "sql_locale \<Rightarrow> ent_value \<Rightarrow> ent_value \<Rightarrow> bool" where
  "value_less l a b =
     (case a of
        ValChatID x \<Rightarrow> (case b of ValChatID y \<Rightarrow> raw x < raw y | _ \<Rightarrow> False)
      | ValFailedJobID x \<Rightarrow> (case b of ValFailedJobID y \<Rightarrow> raw x < raw y | _ \<Rightarrow> False)
      | ValJobID x \<Rightarrow> (case b of ValJobID y \<Rightarrow> raw x < raw y | _ \<Rightarrow> False)
      | ValMessageID x \<Rightarrow> (case b of ValMessageID y \<Rightarrow> raw x < raw y | _ \<Rightarrow> False)
      | ValProblemID x \<Rightarrow> (case b of ValProblemID y \<Rightarrow> raw x < raw y | _ \<Rightarrow> False)
      | ValUserID x \<Rightarrow> (case b of ValUserID y \<Rightarrow> raw x < raw y | _ \<Rightarrow> False)
      | ValRequestID x \<Rightarrow> (case b of ValRequestID y \<Rightarrow> raw x < raw y | _ \<Rightarrow> False)
      | ValString x \<Rightarrow> (case b of ValString y \<Rightarrow> sl_less l x y | _ \<Rightarrow> False)
      | ValInt x \<Rightarrow> (case b of ValInt y \<Rightarrow> x < y | _ \<Rightarrow> False)
      | ValBool x \<Rightarrow> (case b of ValBool y \<Rightarrow> \<not> x \<and> y | _ \<Rightarrow> False)
      | ValTime x \<Rightarrow> (case b of ValTime y \<Rightarrow> x < y | _ \<Rightarrow> False)
      | ValOther t \<Rightarrow> False)"

text \<open>\<open>LIKE\<close> of a pattern whose special characters are escaped: the text itself, anywhere or at an end.\<close>

definition text_of :: "ent_value \<Rightarrow> string" where
  "text_of v = (case v of ValString s \<Rightarrow> s | _ \<Rightarrow> [])"

fun is_infix :: "string \<Rightarrow> string \<Rightarrow> bool" where
  "is_infix p [] = (p = [])"
| "is_infix p (c # cs) = (take (length p) (c # cs) = p \<or> is_infix p cs)"

definition is_suffix :: "string \<Rightarrow> string \<Rightarrow> bool" where
  "is_suffix p s \<longleftrightarrow> take (length p) (rev s) = rev p"

function sql_eval :: "sql_locale \<Rightarrow> database \<Rightarrow> sql_row \<Rightarrow> sql_pred \<Rightarrow> bool option" where
  "sql_eval l d r (FieldEQ c v) = map_option (\<lambda>x. x = v) (r c)"
| "sql_eval l d r (FieldNEQ c v) = map_option (\<lambda>x. x \<noteq> v) (r c)"
| "sql_eval l d r (FieldGT c v) = map_option (\<lambda>x. value_less l v x) (r c)"
| "sql_eval l d r (FieldGTE c v) = map_option (\<lambda>x. value_less l v x \<or> x = v) (r c)"
| "sql_eval l d r (FieldLT c v) = map_option (\<lambda>x. value_less l x v) (r c)"
| "sql_eval l d r (FieldLTE c v) = map_option (\<lambda>x. value_less l x v \<or> x = v) (r c)"
| "sql_eval l d r (FieldIn c vs) = tv_in (r c) (map Some vs)"
| "sql_eval l d r (FieldNotIn c vs) = tv_not (tv_in (r c) (map Some vs))"
| "sql_eval l d r (FieldIsNull c) = Some (r c = None)"
| "sql_eval l d r (FieldNotNull c) = Some (r c \<noteq> None)"
| "sql_eval l d r (FieldContains c s) = map_option (\<lambda>x. is_infix s (text_of x)) (r c)"
| "sql_eval l d r (FieldHasPrefix c s) = map_option (\<lambda>x. take (length s) (text_of x) = s) (r c)"
| "sql_eval l d r (FieldHasSuffix c s) = map_option (\<lambda>x. is_suffix s (text_of x)) (r c)"
| "sql_eval l d r (FieldEqualFold c s) = map_option (\<lambda>x. sl_fold l (text_of x) = sl_fold l s) (r c)"
| "sql_eval l d r (FieldContainsFold c s) = map_option (\<lambda>x. is_infix (sl_fold l s) (sl_fold l (text_of x))) (r c)"
| "sql_eval l d r (HasNeighbors st) =
     (case sp_Rel st of
        M2O \<Rightarrow> Some (r (sp_Column st) \<noteq> None)
      | O2M \<Rightarrow> Some (\<exists>q \<in> set (table_rows d (sp_Table st)). r (snd (sp_From st)) \<noteq> None \<and> q (sp_Column st) = r (snd (sp_From st))))"
| "sql_eval l d r (HasNeighborsWith st ps) =
     (let holds = (\<lambda>q. tv_all (map (sql_eval l d q) (filter contributes ps)) = Some True) in
      case sp_Rel st of
        M2O \<Rightarrow> tv_in (r (sp_Column st)) (map (\<lambda>q. q (snd (the (sp_To st)))) (filter holds (table_rows d (fst (the (sp_To st))))))
      | O2M \<Rightarrow> tv_in (r (snd (sp_From st))) (map (\<lambda>q. q (sp_Column st)) (filter holds (table_rows d (sp_Table st)))))"
| "sql_eval l d r (AndPredicates ps) = tv_all (map (sql_eval l d r) (filter contributes ps))"
| "sql_eval l d r (OrPredicates ps) = tv_any (map (sql_eval l d r) (filter contributes ps))"
| "sql_eval l d r (NotPredicates p) = tv_not (sql_eval l d r p)"
  by pat_completeness auto

termination
proof (relation "measure (\<lambda>(l, d, r, p). size p)")
  have "p \<in> set ps \<Longrightarrow> size p < Suc (size_list size ps)" for p and ps :: "sql_pred list"
    by (induction ps) auto
  then show "p \<in> set (filter contributes ps) \<Longrightarrow> ((l, d, q, p), l, d, r, HasNeighborsWith st ps) \<in> measure (\<lambda>(l, d, r, p). size p)"
    "p \<in> set (filter contributes ps) \<Longrightarrow> ((l, d, r, p), l, d, r, AndPredicates ps) \<in> measure (\<lambda>(l, d, r, p). size p)"
    "p \<in> set (filter contributes ps) \<Longrightarrow> ((l, d, r, p), l, d, r, OrPredicates ps) \<in> measure (\<lambda>(l, d, r, p). size p)"
    for l d r st ps p q by (fastforce simp: less_Suc_eq_le)+
qed auto

text \<open>\<open>WHERE\<close> keeps a row for which the condition is true, not one for which it is unknown.\<close>

definition sql_where :: "sql_locale \<Rightarrow> database \<Rightarrow> sql_row \<Rightarrow> sql_pred list \<Rightarrow> bool" where
  "sql_where l d r ps \<longleftrightarrow> tv_all (map (sql_eval l d r) (filter contributes ps)) = Some True"


section \<open>Laws\<close>

lemma tv_all_true: "tv_all xs = Some True \<longleftrightarrow> (\<forall>x \<in> set xs. x = Some True)"
proof -
  have "x = Some True" if "Some False \<notin> set xs" "None \<notin> set xs" "x \<in> set xs" for x
    using that by (cases x; cases "the x") auto
  then show ?thesis by (auto simp: tv_all_def)
qed

lemma tv_not_not [simp]: "tv_not (tv_not x) = x" by (cases x) (simp_all add: tv_not_def)

lemma tv_not_iff [simp]:
  "tv_not x = Some b \<longleftrightarrow> x = Some (\<not> b)" "tv_not x = None \<longleftrightarrow> x = None"
  by (cases x; auto simp: tv_not_def)+

lemma tv_not_mem: "Some b \<in> tv_not ` A \<longleftrightarrow> Some (\<not> b) \<in> A" "None \<in> tv_not ` A \<longleftrightarrow> None \<in> A"
  by (metis imageE imageI tv_not_iff(1)) (metis imageE imageI tv_not_iff(2))

lemma tv_not_all: "tv_not (tv_all xs) = tv_any (map tv_not xs)"
proof -
  have "Some False \<in> set (map tv_not xs) \<longleftrightarrow> Some True \<in> set xs" "Some True \<in> set (map tv_not xs) \<longleftrightarrow> Some False \<in> set xs"
    "None \<in> set (map tv_not xs) \<longleftrightarrow> None \<in> set xs" by (simp_all only: set_map tv_not_mem simp_thms)
  then show ?thesis by (simp only: tv_all_def tv_any_def) (simp add: tv_not_def)
qed

lemma tv_not_any: "tv_not (tv_any xs) = tv_all (map tv_not xs)"
proof -
  have "Some False \<in> set (map tv_not xs) \<longleftrightarrow> Some True \<in> set xs" "Some True \<in> set (map tv_not xs) \<longleftrightarrow> Some False \<in> set xs"
    "None \<in> set (map tv_not xs) \<longleftrightarrow> None \<in> set xs" by (simp_all only: set_map tv_not_mem simp_thms)
  then show ?thesis by (simp only: tv_all_def tv_any_def) (simp add: tv_not_def)
qed

lemma sql_where_iff: "sql_where l d r ps \<longleftrightarrow> (\<forall>p \<in> set ps. contributes p \<longrightarrow> sql_eval l d r p = Some True)"
  by (auto simp: sql_where_def tv_all_true)

lemma sql_where_list: "sql_where l d r ps \<longleftrightarrow> (\<forall>p \<in> set ps. sql_where l d r [p])"
  by (simp add: sql_where_iff)

text \<open>A negated comparison is the other comparison, unknown for \<open>NULL\<close> like the first.\<close>

lemma sql_eval_not:
  "tv_not (sql_eval l d r (FieldEQ c v)) = sql_eval l d r (FieldNEQ c v)"
  "tv_not (sql_eval l d r (FieldIn c vs)) = sql_eval l d r (FieldNotIn c vs)"
  "tv_not (sql_eval l d r (FieldIsNull c)) = sql_eval l d r (FieldNotNull c)"
  by (simp_all add: tv_not_def option.map_comp comp_def)

lemma sql_eval_de_morgan:
  "sql_eval l d r (NotPredicates (AndPredicates ps)) = sql_eval l d r (OrPredicates (map NotPredicates ps))"
  "sql_eval l d r (NotPredicates (OrPredicates ps)) = sql_eval l d r (AndPredicates (map NotPredicates ps))"
  by (simp_all add: tv_not_all tv_not_any filter_map comp_def)

end
