(* ===== verification/Where.thy ===== *)
theory Where
  imports SqlPredicates
begin

text \<open>
  The predicates that \<open>ent\<close> generates for the five tables (\<open>internal/store/*/where.go\<close>), one definition per function,
  as terms of \<open>sql_pred\<close>; what the conditions over an edge select; and that the two-valued predicates of \<open>Updates\<close>,
  with which the statements of the service are modelled, are what the terms mean.
\<close>

section \<open>Chats\<close>

definition chat_where_ID :: "ChatID \<Rightarrow> sql_pred" where
  "chat_where_ID v = FieldEQ ''id'' (ValChatID v)"

definition chat_where_IDEQ :: "ChatID \<Rightarrow> sql_pred" where
  "chat_where_IDEQ v = FieldEQ ''id'' (ValChatID v)"

definition chat_where_IDNEQ :: "ChatID \<Rightarrow> sql_pred" where
  "chat_where_IDNEQ v = FieldNEQ ''id'' (ValChatID v)"

definition chat_where_IDIn :: "ChatID list \<Rightarrow> sql_pred" where
  "chat_where_IDIn vs = FieldIn ''id'' (map ValChatID vs)"

definition chat_where_IDNotIn :: "ChatID list \<Rightarrow> sql_pred" where
  "chat_where_IDNotIn vs = FieldNotIn ''id'' (map ValChatID vs)"

definition chat_where_IDGT :: "ChatID \<Rightarrow> sql_pred" where
  "chat_where_IDGT v = FieldGT ''id'' (ValChatID v)"

definition chat_where_IDGTE :: "ChatID \<Rightarrow> sql_pred" where
  "chat_where_IDGTE v = FieldGTE ''id'' (ValChatID v)"

definition chat_where_IDLT :: "ChatID \<Rightarrow> sql_pred" where
  "chat_where_IDLT v = FieldLT ''id'' (ValChatID v)"

definition chat_where_IDLTE :: "ChatID \<Rightarrow> sql_pred" where
  "chat_where_IDLTE v = FieldLTE ''id'' (ValChatID v)"

definition chat_where_ClientID :: "UserID \<Rightarrow> sql_pred" where
  "chat_where_ClientID v = FieldEQ ''client_id'' (ValUserID v)"

definition chat_where_CreatedAt :: "time \<Rightarrow> sql_pred" where
  "chat_where_CreatedAt v = FieldEQ ''created_at'' (ValTime v)"

definition chat_where_ClientIDEQ :: "UserID \<Rightarrow> sql_pred" where
  "chat_where_ClientIDEQ v = FieldEQ ''client_id'' (ValUserID v)"

definition chat_where_ClientIDNEQ :: "UserID \<Rightarrow> sql_pred" where
  "chat_where_ClientIDNEQ v = FieldNEQ ''client_id'' (ValUserID v)"

definition chat_where_ClientIDIn :: "UserID list \<Rightarrow> sql_pred" where
  "chat_where_ClientIDIn vs = FieldIn ''client_id'' (map ValUserID vs)"

definition chat_where_ClientIDNotIn :: "UserID list \<Rightarrow> sql_pred" where
  "chat_where_ClientIDNotIn vs = FieldNotIn ''client_id'' (map ValUserID vs)"

definition chat_where_ClientIDGT :: "UserID \<Rightarrow> sql_pred" where
  "chat_where_ClientIDGT v = FieldGT ''client_id'' (ValUserID v)"

definition chat_where_ClientIDGTE :: "UserID \<Rightarrow> sql_pred" where
  "chat_where_ClientIDGTE v = FieldGTE ''client_id'' (ValUserID v)"

definition chat_where_ClientIDLT :: "UserID \<Rightarrow> sql_pred" where
  "chat_where_ClientIDLT v = FieldLT ''client_id'' (ValUserID v)"

definition chat_where_ClientIDLTE :: "UserID \<Rightarrow> sql_pred" where
  "chat_where_ClientIDLTE v = FieldLTE ''client_id'' (ValUserID v)"

definition chat_where_CreatedAtEQ :: "time \<Rightarrow> sql_pred" where
  "chat_where_CreatedAtEQ v = FieldEQ ''created_at'' (ValTime v)"

definition chat_where_CreatedAtNEQ :: "time \<Rightarrow> sql_pred" where
  "chat_where_CreatedAtNEQ v = FieldNEQ ''created_at'' (ValTime v)"

definition chat_where_CreatedAtIn :: "time list \<Rightarrow> sql_pred" where
  "chat_where_CreatedAtIn vs = FieldIn ''created_at'' (map ValTime vs)"

definition chat_where_CreatedAtNotIn :: "time list \<Rightarrow> sql_pred" where
  "chat_where_CreatedAtNotIn vs = FieldNotIn ''created_at'' (map ValTime vs)"

definition chat_where_CreatedAtGT :: "time \<Rightarrow> sql_pred" where
  "chat_where_CreatedAtGT v = FieldGT ''created_at'' (ValTime v)"

definition chat_where_CreatedAtGTE :: "time \<Rightarrow> sql_pred" where
  "chat_where_CreatedAtGTE v = FieldGTE ''created_at'' (ValTime v)"

definition chat_where_CreatedAtLT :: "time \<Rightarrow> sql_pred" where
  "chat_where_CreatedAtLT v = FieldLT ''created_at'' (ValTime v)"

definition chat_where_CreatedAtLTE :: "time \<Rightarrow> sql_pred" where
  "chat_where_CreatedAtLTE v = FieldLTE ''created_at'' (ValTime v)"

definition chat_where_HasMessages :: sql_pred where
  "chat_where_HasMessages = HasNeighbors \<lparr>sp_From = (''chats'', ''id''), sp_To = None, sp_Rel = O2M, sp_Inverse = False, sp_Table = ''messages'', sp_Column = ''chat_id''\<rparr>"

definition chat_newMessagesStep :: sql_step where
  "chat_newMessagesStep = \<lparr>sp_From = (''chats'', ''id''), sp_To = Some (''messages'', ''id''), sp_Rel = O2M, sp_Inverse = False, sp_Table = ''messages'', sp_Column = ''chat_id''\<rparr>"

definition chat_where_HasMessagesWith :: "sql_pred list \<Rightarrow> sql_pred" where
  "chat_where_HasMessagesWith preds = HasNeighborsWith chat_newMessagesStep preds"

definition chat_where_HasProblems :: sql_pred where
  "chat_where_HasProblems = HasNeighbors \<lparr>sp_From = (''chats'', ''id''), sp_To = None, sp_Rel = O2M, sp_Inverse = False, sp_Table = ''problems'', sp_Column = ''chat_id''\<rparr>"

definition chat_newProblemsStep :: sql_step where
  "chat_newProblemsStep = \<lparr>sp_From = (''chats'', ''id''), sp_To = Some (''problems'', ''id''), sp_Rel = O2M, sp_Inverse = False, sp_Table = ''problems'', sp_Column = ''chat_id''\<rparr>"

definition chat_where_HasProblemsWith :: "sql_pred list \<Rightarrow> sql_pred" where
  "chat_where_HasProblemsWith preds = HasNeighborsWith chat_newProblemsStep preds"

definition chat_where_And :: "sql_pred list \<Rightarrow> sql_pred" where
  "chat_where_And predicates = AndPredicates predicates"

definition chat_where_Or :: "sql_pred list \<Rightarrow> sql_pred" where
  "chat_where_Or predicates = OrPredicates predicates"

definition chat_where_Not :: "sql_pred \<Rightarrow> sql_pred" where
  "chat_where_Not p = NotPredicates p"

section \<open>Dead letters\<close>

definition failedjob_where_ID :: "FailedJobID \<Rightarrow> sql_pred" where
  "failedjob_where_ID v = FieldEQ ''id'' (ValFailedJobID v)"

definition failedjob_where_IDEQ :: "FailedJobID \<Rightarrow> sql_pred" where
  "failedjob_where_IDEQ v = FieldEQ ''id'' (ValFailedJobID v)"

definition failedjob_where_IDNEQ :: "FailedJobID \<Rightarrow> sql_pred" where
  "failedjob_where_IDNEQ v = FieldNEQ ''id'' (ValFailedJobID v)"

definition failedjob_where_IDIn :: "FailedJobID list \<Rightarrow> sql_pred" where
  "failedjob_where_IDIn vs = FieldIn ''id'' (map ValFailedJobID vs)"

definition failedjob_where_IDNotIn :: "FailedJobID list \<Rightarrow> sql_pred" where
  "failedjob_where_IDNotIn vs = FieldNotIn ''id'' (map ValFailedJobID vs)"

definition failedjob_where_IDGT :: "FailedJobID \<Rightarrow> sql_pred" where
  "failedjob_where_IDGT v = FieldGT ''id'' (ValFailedJobID v)"

definition failedjob_where_IDGTE :: "FailedJobID \<Rightarrow> sql_pred" where
  "failedjob_where_IDGTE v = FieldGTE ''id'' (ValFailedJobID v)"

definition failedjob_where_IDLT :: "FailedJobID \<Rightarrow> sql_pred" where
  "failedjob_where_IDLT v = FieldLT ''id'' (ValFailedJobID v)"

definition failedjob_where_IDLTE :: "FailedJobID \<Rightarrow> sql_pred" where
  "failedjob_where_IDLTE v = FieldLTE ''id'' (ValFailedJobID v)"

definition failedjob_where_Name :: "string \<Rightarrow> sql_pred" where
  "failedjob_where_Name v = FieldEQ ''name'' (ValString v)"

definition failedjob_where_Payload :: "string \<Rightarrow> sql_pred" where
  "failedjob_where_Payload v = FieldEQ ''payload'' (ValString v)"

definition failedjob_where_Reason :: "string \<Rightarrow> sql_pred" where
  "failedjob_where_Reason v = FieldEQ ''reason'' (ValString v)"

definition failedjob_where_CreatedAt :: "time \<Rightarrow> sql_pred" where
  "failedjob_where_CreatedAt v = FieldEQ ''created_at'' (ValTime v)"

definition failedjob_where_NameEQ :: "string \<Rightarrow> sql_pred" where
  "failedjob_where_NameEQ v = FieldEQ ''name'' (ValString v)"

definition failedjob_where_NameNEQ :: "string \<Rightarrow> sql_pred" where
  "failedjob_where_NameNEQ v = FieldNEQ ''name'' (ValString v)"

definition failedjob_where_NameIn :: "string list \<Rightarrow> sql_pred" where
  "failedjob_where_NameIn vs = FieldIn ''name'' (map ValString vs)"

definition failedjob_where_NameNotIn :: "string list \<Rightarrow> sql_pred" where
  "failedjob_where_NameNotIn vs = FieldNotIn ''name'' (map ValString vs)"

definition failedjob_where_NameGT :: "string \<Rightarrow> sql_pred" where
  "failedjob_where_NameGT v = FieldGT ''name'' (ValString v)"

definition failedjob_where_NameGTE :: "string \<Rightarrow> sql_pred" where
  "failedjob_where_NameGTE v = FieldGTE ''name'' (ValString v)"

definition failedjob_where_NameLT :: "string \<Rightarrow> sql_pred" where
  "failedjob_where_NameLT v = FieldLT ''name'' (ValString v)"

definition failedjob_where_NameLTE :: "string \<Rightarrow> sql_pred" where
  "failedjob_where_NameLTE v = FieldLTE ''name'' (ValString v)"

definition failedjob_where_NameContains :: "string \<Rightarrow> sql_pred" where
  "failedjob_where_NameContains v = FieldContains ''name'' v"

definition failedjob_where_NameHasPrefix :: "string \<Rightarrow> sql_pred" where
  "failedjob_where_NameHasPrefix v = FieldHasPrefix ''name'' v"

definition failedjob_where_NameHasSuffix :: "string \<Rightarrow> sql_pred" where
  "failedjob_where_NameHasSuffix v = FieldHasSuffix ''name'' v"

definition failedjob_where_NameEqualFold :: "string \<Rightarrow> sql_pred" where
  "failedjob_where_NameEqualFold v = FieldEqualFold ''name'' v"

definition failedjob_where_NameContainsFold :: "string \<Rightarrow> sql_pred" where
  "failedjob_where_NameContainsFold v = FieldContainsFold ''name'' v"

definition failedjob_where_PayloadEQ :: "string \<Rightarrow> sql_pred" where
  "failedjob_where_PayloadEQ v = FieldEQ ''payload'' (ValString v)"

definition failedjob_where_PayloadNEQ :: "string \<Rightarrow> sql_pred" where
  "failedjob_where_PayloadNEQ v = FieldNEQ ''payload'' (ValString v)"

definition failedjob_where_PayloadIn :: "string list \<Rightarrow> sql_pred" where
  "failedjob_where_PayloadIn vs = FieldIn ''payload'' (map ValString vs)"

definition failedjob_where_PayloadNotIn :: "string list \<Rightarrow> sql_pred" where
  "failedjob_where_PayloadNotIn vs = FieldNotIn ''payload'' (map ValString vs)"

definition failedjob_where_PayloadGT :: "string \<Rightarrow> sql_pred" where
  "failedjob_where_PayloadGT v = FieldGT ''payload'' (ValString v)"

definition failedjob_where_PayloadGTE :: "string \<Rightarrow> sql_pred" where
  "failedjob_where_PayloadGTE v = FieldGTE ''payload'' (ValString v)"

definition failedjob_where_PayloadLT :: "string \<Rightarrow> sql_pred" where
  "failedjob_where_PayloadLT v = FieldLT ''payload'' (ValString v)"

definition failedjob_where_PayloadLTE :: "string \<Rightarrow> sql_pred" where
  "failedjob_where_PayloadLTE v = FieldLTE ''payload'' (ValString v)"

definition failedjob_where_PayloadContains :: "string \<Rightarrow> sql_pred" where
  "failedjob_where_PayloadContains v = FieldContains ''payload'' v"

definition failedjob_where_PayloadHasPrefix :: "string \<Rightarrow> sql_pred" where
  "failedjob_where_PayloadHasPrefix v = FieldHasPrefix ''payload'' v"

definition failedjob_where_PayloadHasSuffix :: "string \<Rightarrow> sql_pred" where
  "failedjob_where_PayloadHasSuffix v = FieldHasSuffix ''payload'' v"

definition failedjob_where_PayloadEqualFold :: "string \<Rightarrow> sql_pred" where
  "failedjob_where_PayloadEqualFold v = FieldEqualFold ''payload'' v"

definition failedjob_where_PayloadContainsFold :: "string \<Rightarrow> sql_pred" where
  "failedjob_where_PayloadContainsFold v = FieldContainsFold ''payload'' v"

definition failedjob_where_ReasonEQ :: "string \<Rightarrow> sql_pred" where
  "failedjob_where_ReasonEQ v = FieldEQ ''reason'' (ValString v)"

definition failedjob_where_ReasonNEQ :: "string \<Rightarrow> sql_pred" where
  "failedjob_where_ReasonNEQ v = FieldNEQ ''reason'' (ValString v)"

definition failedjob_where_ReasonIn :: "string list \<Rightarrow> sql_pred" where
  "failedjob_where_ReasonIn vs = FieldIn ''reason'' (map ValString vs)"

definition failedjob_where_ReasonNotIn :: "string list \<Rightarrow> sql_pred" where
  "failedjob_where_ReasonNotIn vs = FieldNotIn ''reason'' (map ValString vs)"

definition failedjob_where_ReasonGT :: "string \<Rightarrow> sql_pred" where
  "failedjob_where_ReasonGT v = FieldGT ''reason'' (ValString v)"

definition failedjob_where_ReasonGTE :: "string \<Rightarrow> sql_pred" where
  "failedjob_where_ReasonGTE v = FieldGTE ''reason'' (ValString v)"

definition failedjob_where_ReasonLT :: "string \<Rightarrow> sql_pred" where
  "failedjob_where_ReasonLT v = FieldLT ''reason'' (ValString v)"

definition failedjob_where_ReasonLTE :: "string \<Rightarrow> sql_pred" where
  "failedjob_where_ReasonLTE v = FieldLTE ''reason'' (ValString v)"

definition failedjob_where_ReasonContains :: "string \<Rightarrow> sql_pred" where
  "failedjob_where_ReasonContains v = FieldContains ''reason'' v"

definition failedjob_where_ReasonHasPrefix :: "string \<Rightarrow> sql_pred" where
  "failedjob_where_ReasonHasPrefix v = FieldHasPrefix ''reason'' v"

definition failedjob_where_ReasonHasSuffix :: "string \<Rightarrow> sql_pred" where
  "failedjob_where_ReasonHasSuffix v = FieldHasSuffix ''reason'' v"

definition failedjob_where_ReasonEqualFold :: "string \<Rightarrow> sql_pred" where
  "failedjob_where_ReasonEqualFold v = FieldEqualFold ''reason'' v"

definition failedjob_where_ReasonContainsFold :: "string \<Rightarrow> sql_pred" where
  "failedjob_where_ReasonContainsFold v = FieldContainsFold ''reason'' v"

definition failedjob_where_CreatedAtEQ :: "time \<Rightarrow> sql_pred" where
  "failedjob_where_CreatedAtEQ v = FieldEQ ''created_at'' (ValTime v)"

definition failedjob_where_CreatedAtNEQ :: "time \<Rightarrow> sql_pred" where
  "failedjob_where_CreatedAtNEQ v = FieldNEQ ''created_at'' (ValTime v)"

definition failedjob_where_CreatedAtIn :: "time list \<Rightarrow> sql_pred" where
  "failedjob_where_CreatedAtIn vs = FieldIn ''created_at'' (map ValTime vs)"

definition failedjob_where_CreatedAtNotIn :: "time list \<Rightarrow> sql_pred" where
  "failedjob_where_CreatedAtNotIn vs = FieldNotIn ''created_at'' (map ValTime vs)"

definition failedjob_where_CreatedAtGT :: "time \<Rightarrow> sql_pred" where
  "failedjob_where_CreatedAtGT v = FieldGT ''created_at'' (ValTime v)"

definition failedjob_where_CreatedAtGTE :: "time \<Rightarrow> sql_pred" where
  "failedjob_where_CreatedAtGTE v = FieldGTE ''created_at'' (ValTime v)"

definition failedjob_where_CreatedAtLT :: "time \<Rightarrow> sql_pred" where
  "failedjob_where_CreatedAtLT v = FieldLT ''created_at'' (ValTime v)"

definition failedjob_where_CreatedAtLTE :: "time \<Rightarrow> sql_pred" where
  "failedjob_where_CreatedAtLTE v = FieldLTE ''created_at'' (ValTime v)"

definition failedjob_where_And :: "sql_pred list \<Rightarrow> sql_pred" where
  "failedjob_where_And predicates = AndPredicates predicates"

definition failedjob_where_Or :: "sql_pred list \<Rightarrow> sql_pred" where
  "failedjob_where_Or predicates = OrPredicates predicates"

definition failedjob_where_Not :: "sql_pred \<Rightarrow> sql_pred" where
  "failedjob_where_Not p = NotPredicates p"

section \<open>Jobs\<close>

definition job_where_ID :: "JobID \<Rightarrow> sql_pred" where
  "job_where_ID v = FieldEQ ''id'' (ValJobID v)"

definition job_where_IDEQ :: "JobID \<Rightarrow> sql_pred" where
  "job_where_IDEQ v = FieldEQ ''id'' (ValJobID v)"

definition job_where_IDNEQ :: "JobID \<Rightarrow> sql_pred" where
  "job_where_IDNEQ v = FieldNEQ ''id'' (ValJobID v)"

definition job_where_IDIn :: "JobID list \<Rightarrow> sql_pred" where
  "job_where_IDIn vs = FieldIn ''id'' (map ValJobID vs)"

definition job_where_IDNotIn :: "JobID list \<Rightarrow> sql_pred" where
  "job_where_IDNotIn vs = FieldNotIn ''id'' (map ValJobID vs)"

definition job_where_IDGT :: "JobID \<Rightarrow> sql_pred" where
  "job_where_IDGT v = FieldGT ''id'' (ValJobID v)"

definition job_where_IDGTE :: "JobID \<Rightarrow> sql_pred" where
  "job_where_IDGTE v = FieldGTE ''id'' (ValJobID v)"

definition job_where_IDLT :: "JobID \<Rightarrow> sql_pred" where
  "job_where_IDLT v = FieldLT ''id'' (ValJobID v)"

definition job_where_IDLTE :: "JobID \<Rightarrow> sql_pred" where
  "job_where_IDLTE v = FieldLTE ''id'' (ValJobID v)"

definition job_where_Name :: "string \<Rightarrow> sql_pred" where
  "job_where_Name v = FieldEQ ''name'' (ValString v)"

definition job_where_Payload :: "string \<Rightarrow> sql_pred" where
  "job_where_Payload v = FieldEQ ''payload'' (ValString v)"

definition job_where_Attempts :: "int \<Rightarrow> sql_pred" where
  "job_where_Attempts v = FieldEQ ''attempts'' (ValInt v)"

definition job_where_AvailableAt :: "time \<Rightarrow> sql_pred" where
  "job_where_AvailableAt v = FieldEQ ''available_at'' (ValTime v)"

definition job_where_ReservedUntil :: "time \<Rightarrow> sql_pred" where
  "job_where_ReservedUntil v = FieldEQ ''reserved_until'' (ValTime v)"

definition job_where_CreatedAt :: "time \<Rightarrow> sql_pred" where
  "job_where_CreatedAt v = FieldEQ ''created_at'' (ValTime v)"

definition job_where_NameEQ :: "string \<Rightarrow> sql_pred" where
  "job_where_NameEQ v = FieldEQ ''name'' (ValString v)"

definition job_where_NameNEQ :: "string \<Rightarrow> sql_pred" where
  "job_where_NameNEQ v = FieldNEQ ''name'' (ValString v)"

definition job_where_NameIn :: "string list \<Rightarrow> sql_pred" where
  "job_where_NameIn vs = FieldIn ''name'' (map ValString vs)"

definition job_where_NameNotIn :: "string list \<Rightarrow> sql_pred" where
  "job_where_NameNotIn vs = FieldNotIn ''name'' (map ValString vs)"

definition job_where_NameGT :: "string \<Rightarrow> sql_pred" where
  "job_where_NameGT v = FieldGT ''name'' (ValString v)"

definition job_where_NameGTE :: "string \<Rightarrow> sql_pred" where
  "job_where_NameGTE v = FieldGTE ''name'' (ValString v)"

definition job_where_NameLT :: "string \<Rightarrow> sql_pred" where
  "job_where_NameLT v = FieldLT ''name'' (ValString v)"

definition job_where_NameLTE :: "string \<Rightarrow> sql_pred" where
  "job_where_NameLTE v = FieldLTE ''name'' (ValString v)"

definition job_where_NameContains :: "string \<Rightarrow> sql_pred" where
  "job_where_NameContains v = FieldContains ''name'' v"

definition job_where_NameHasPrefix :: "string \<Rightarrow> sql_pred" where
  "job_where_NameHasPrefix v = FieldHasPrefix ''name'' v"

definition job_where_NameHasSuffix :: "string \<Rightarrow> sql_pred" where
  "job_where_NameHasSuffix v = FieldHasSuffix ''name'' v"

definition job_where_NameEqualFold :: "string \<Rightarrow> sql_pred" where
  "job_where_NameEqualFold v = FieldEqualFold ''name'' v"

definition job_where_NameContainsFold :: "string \<Rightarrow> sql_pred" where
  "job_where_NameContainsFold v = FieldContainsFold ''name'' v"

definition job_where_PayloadEQ :: "string \<Rightarrow> sql_pred" where
  "job_where_PayloadEQ v = FieldEQ ''payload'' (ValString v)"

definition job_where_PayloadNEQ :: "string \<Rightarrow> sql_pred" where
  "job_where_PayloadNEQ v = FieldNEQ ''payload'' (ValString v)"

definition job_where_PayloadIn :: "string list \<Rightarrow> sql_pred" where
  "job_where_PayloadIn vs = FieldIn ''payload'' (map ValString vs)"

definition job_where_PayloadNotIn :: "string list \<Rightarrow> sql_pred" where
  "job_where_PayloadNotIn vs = FieldNotIn ''payload'' (map ValString vs)"

definition job_where_PayloadGT :: "string \<Rightarrow> sql_pred" where
  "job_where_PayloadGT v = FieldGT ''payload'' (ValString v)"

definition job_where_PayloadGTE :: "string \<Rightarrow> sql_pred" where
  "job_where_PayloadGTE v = FieldGTE ''payload'' (ValString v)"

definition job_where_PayloadLT :: "string \<Rightarrow> sql_pred" where
  "job_where_PayloadLT v = FieldLT ''payload'' (ValString v)"

definition job_where_PayloadLTE :: "string \<Rightarrow> sql_pred" where
  "job_where_PayloadLTE v = FieldLTE ''payload'' (ValString v)"

definition job_where_PayloadContains :: "string \<Rightarrow> sql_pred" where
  "job_where_PayloadContains v = FieldContains ''payload'' v"

definition job_where_PayloadHasPrefix :: "string \<Rightarrow> sql_pred" where
  "job_where_PayloadHasPrefix v = FieldHasPrefix ''payload'' v"

definition job_where_PayloadHasSuffix :: "string \<Rightarrow> sql_pred" where
  "job_where_PayloadHasSuffix v = FieldHasSuffix ''payload'' v"

definition job_where_PayloadEqualFold :: "string \<Rightarrow> sql_pred" where
  "job_where_PayloadEqualFold v = FieldEqualFold ''payload'' v"

definition job_where_PayloadContainsFold :: "string \<Rightarrow> sql_pred" where
  "job_where_PayloadContainsFold v = FieldContainsFold ''payload'' v"

definition job_where_AttemptsEQ :: "int \<Rightarrow> sql_pred" where
  "job_where_AttemptsEQ v = FieldEQ ''attempts'' (ValInt v)"

definition job_where_AttemptsNEQ :: "int \<Rightarrow> sql_pred" where
  "job_where_AttemptsNEQ v = FieldNEQ ''attempts'' (ValInt v)"

definition job_where_AttemptsIn :: "int list \<Rightarrow> sql_pred" where
  "job_where_AttemptsIn vs = FieldIn ''attempts'' (map ValInt vs)"

definition job_where_AttemptsNotIn :: "int list \<Rightarrow> sql_pred" where
  "job_where_AttemptsNotIn vs = FieldNotIn ''attempts'' (map ValInt vs)"

definition job_where_AttemptsGT :: "int \<Rightarrow> sql_pred" where
  "job_where_AttemptsGT v = FieldGT ''attempts'' (ValInt v)"

definition job_where_AttemptsGTE :: "int \<Rightarrow> sql_pred" where
  "job_where_AttemptsGTE v = FieldGTE ''attempts'' (ValInt v)"

definition job_where_AttemptsLT :: "int \<Rightarrow> sql_pred" where
  "job_where_AttemptsLT v = FieldLT ''attempts'' (ValInt v)"

definition job_where_AttemptsLTE :: "int \<Rightarrow> sql_pred" where
  "job_where_AttemptsLTE v = FieldLTE ''attempts'' (ValInt v)"

definition job_where_AvailableAtEQ :: "time \<Rightarrow> sql_pred" where
  "job_where_AvailableAtEQ v = FieldEQ ''available_at'' (ValTime v)"

definition job_where_AvailableAtNEQ :: "time \<Rightarrow> sql_pred" where
  "job_where_AvailableAtNEQ v = FieldNEQ ''available_at'' (ValTime v)"

definition job_where_AvailableAtIn :: "time list \<Rightarrow> sql_pred" where
  "job_where_AvailableAtIn vs = FieldIn ''available_at'' (map ValTime vs)"

definition job_where_AvailableAtNotIn :: "time list \<Rightarrow> sql_pred" where
  "job_where_AvailableAtNotIn vs = FieldNotIn ''available_at'' (map ValTime vs)"

definition job_where_AvailableAtGT :: "time \<Rightarrow> sql_pred" where
  "job_where_AvailableAtGT v = FieldGT ''available_at'' (ValTime v)"

definition job_where_AvailableAtGTE :: "time \<Rightarrow> sql_pred" where
  "job_where_AvailableAtGTE v = FieldGTE ''available_at'' (ValTime v)"

definition job_where_AvailableAtLT :: "time \<Rightarrow> sql_pred" where
  "job_where_AvailableAtLT v = FieldLT ''available_at'' (ValTime v)"

definition job_where_AvailableAtLTE :: "time \<Rightarrow> sql_pred" where
  "job_where_AvailableAtLTE v = FieldLTE ''available_at'' (ValTime v)"

definition job_where_ReservedUntilEQ :: "time \<Rightarrow> sql_pred" where
  "job_where_ReservedUntilEQ v = FieldEQ ''reserved_until'' (ValTime v)"

definition job_where_ReservedUntilNEQ :: "time \<Rightarrow> sql_pred" where
  "job_where_ReservedUntilNEQ v = FieldNEQ ''reserved_until'' (ValTime v)"

definition job_where_ReservedUntilIn :: "time list \<Rightarrow> sql_pred" where
  "job_where_ReservedUntilIn vs = FieldIn ''reserved_until'' (map ValTime vs)"

definition job_where_ReservedUntilNotIn :: "time list \<Rightarrow> sql_pred" where
  "job_where_ReservedUntilNotIn vs = FieldNotIn ''reserved_until'' (map ValTime vs)"

definition job_where_ReservedUntilGT :: "time \<Rightarrow> sql_pred" where
  "job_where_ReservedUntilGT v = FieldGT ''reserved_until'' (ValTime v)"

definition job_where_ReservedUntilGTE :: "time \<Rightarrow> sql_pred" where
  "job_where_ReservedUntilGTE v = FieldGTE ''reserved_until'' (ValTime v)"

definition job_where_ReservedUntilLT :: "time \<Rightarrow> sql_pred" where
  "job_where_ReservedUntilLT v = FieldLT ''reserved_until'' (ValTime v)"

definition job_where_ReservedUntilLTE :: "time \<Rightarrow> sql_pred" where
  "job_where_ReservedUntilLTE v = FieldLTE ''reserved_until'' (ValTime v)"

definition job_where_CreatedAtEQ :: "time \<Rightarrow> sql_pred" where
  "job_where_CreatedAtEQ v = FieldEQ ''created_at'' (ValTime v)"

definition job_where_CreatedAtNEQ :: "time \<Rightarrow> sql_pred" where
  "job_where_CreatedAtNEQ v = FieldNEQ ''created_at'' (ValTime v)"

definition job_where_CreatedAtIn :: "time list \<Rightarrow> sql_pred" where
  "job_where_CreatedAtIn vs = FieldIn ''created_at'' (map ValTime vs)"

definition job_where_CreatedAtNotIn :: "time list \<Rightarrow> sql_pred" where
  "job_where_CreatedAtNotIn vs = FieldNotIn ''created_at'' (map ValTime vs)"

definition job_where_CreatedAtGT :: "time \<Rightarrow> sql_pred" where
  "job_where_CreatedAtGT v = FieldGT ''created_at'' (ValTime v)"

definition job_where_CreatedAtGTE :: "time \<Rightarrow> sql_pred" where
  "job_where_CreatedAtGTE v = FieldGTE ''created_at'' (ValTime v)"

definition job_where_CreatedAtLT :: "time \<Rightarrow> sql_pred" where
  "job_where_CreatedAtLT v = FieldLT ''created_at'' (ValTime v)"

definition job_where_CreatedAtLTE :: "time \<Rightarrow> sql_pred" where
  "job_where_CreatedAtLTE v = FieldLTE ''created_at'' (ValTime v)"

definition job_where_And :: "sql_pred list \<Rightarrow> sql_pred" where
  "job_where_And predicates = AndPredicates predicates"

definition job_where_Or :: "sql_pred list \<Rightarrow> sql_pred" where
  "job_where_Or predicates = OrPredicates predicates"

definition job_where_Not :: "sql_pred \<Rightarrow> sql_pred" where
  "job_where_Not p = NotPredicates p"

section \<open>Messages\<close>

definition message_where_ID :: "MessageID \<Rightarrow> sql_pred" where
  "message_where_ID v = FieldEQ ''id'' (ValMessageID v)"

definition message_where_IDEQ :: "MessageID \<Rightarrow> sql_pred" where
  "message_where_IDEQ v = FieldEQ ''id'' (ValMessageID v)"

definition message_where_IDNEQ :: "MessageID \<Rightarrow> sql_pred" where
  "message_where_IDNEQ v = FieldNEQ ''id'' (ValMessageID v)"

definition message_where_IDIn :: "MessageID list \<Rightarrow> sql_pred" where
  "message_where_IDIn vs = FieldIn ''id'' (map ValMessageID vs)"

definition message_where_IDNotIn :: "MessageID list \<Rightarrow> sql_pred" where
  "message_where_IDNotIn vs = FieldNotIn ''id'' (map ValMessageID vs)"

definition message_where_IDGT :: "MessageID \<Rightarrow> sql_pred" where
  "message_where_IDGT v = FieldGT ''id'' (ValMessageID v)"

definition message_where_IDGTE :: "MessageID \<Rightarrow> sql_pred" where
  "message_where_IDGTE v = FieldGTE ''id'' (ValMessageID v)"

definition message_where_IDLT :: "MessageID \<Rightarrow> sql_pred" where
  "message_where_IDLT v = FieldLT ''id'' (ValMessageID v)"

definition message_where_IDLTE :: "MessageID \<Rightarrow> sql_pred" where
  "message_where_IDLTE v = FieldLTE ''id'' (ValMessageID v)"

definition message_where_ChatID :: "ChatID \<Rightarrow> sql_pred" where
  "message_where_ChatID v = FieldEQ ''chat_id'' (ValChatID v)"

definition message_where_ProblemID :: "ProblemID \<Rightarrow> sql_pred" where
  "message_where_ProblemID v = FieldEQ ''problem_id'' (ValProblemID v)"

definition message_where_AuthorID :: "UserID \<Rightarrow> sql_pred" where
  "message_where_AuthorID v = FieldEQ ''author_id'' (ValUserID v)"

definition message_where_IsVisibleForClient :: "bool \<Rightarrow> sql_pred" where
  "message_where_IsVisibleForClient v = FieldEQ ''is_visible_for_client'' (ValBool v)"

definition message_where_IsVisibleForManager :: "bool \<Rightarrow> sql_pred" where
  "message_where_IsVisibleForManager v = FieldEQ ''is_visible_for_manager'' (ValBool v)"

definition message_where_Body :: "string \<Rightarrow> sql_pred" where
  "message_where_Body v = FieldEQ ''body'' (ValString v)"

definition message_where_CheckedAt :: "time \<Rightarrow> sql_pred" where
  "message_where_CheckedAt v = FieldEQ ''checked_at'' (ValTime v)"

definition message_where_IsBlocked :: "bool \<Rightarrow> sql_pred" where
  "message_where_IsBlocked v = FieldEQ ''is_blocked'' (ValBool v)"

definition message_where_IsService :: "bool \<Rightarrow> sql_pred" where
  "message_where_IsService v = FieldEQ ''is_service'' (ValBool v)"

definition message_where_InitialRequestID :: "RequestID \<Rightarrow> sql_pred" where
  "message_where_InitialRequestID v = FieldEQ ''initial_request_id'' (ValRequestID v)"

definition message_where_CreatedAt :: "time \<Rightarrow> sql_pred" where
  "message_where_CreatedAt v = FieldEQ ''created_at'' (ValTime v)"

definition message_where_ChatIDEQ :: "ChatID \<Rightarrow> sql_pred" where
  "message_where_ChatIDEQ v = FieldEQ ''chat_id'' (ValChatID v)"

definition message_where_ChatIDNEQ :: "ChatID \<Rightarrow> sql_pred" where
  "message_where_ChatIDNEQ v = FieldNEQ ''chat_id'' (ValChatID v)"

definition message_where_ChatIDIn :: "ChatID list \<Rightarrow> sql_pred" where
  "message_where_ChatIDIn vs = FieldIn ''chat_id'' (map ValChatID vs)"

definition message_where_ChatIDNotIn :: "ChatID list \<Rightarrow> sql_pred" where
  "message_where_ChatIDNotIn vs = FieldNotIn ''chat_id'' (map ValChatID vs)"

definition message_where_ProblemIDEQ :: "ProblemID \<Rightarrow> sql_pred" where
  "message_where_ProblemIDEQ v = FieldEQ ''problem_id'' (ValProblemID v)"

definition message_where_ProblemIDNEQ :: "ProblemID \<Rightarrow> sql_pred" where
  "message_where_ProblemIDNEQ v = FieldNEQ ''problem_id'' (ValProblemID v)"

definition message_where_ProblemIDIn :: "ProblemID list \<Rightarrow> sql_pred" where
  "message_where_ProblemIDIn vs = FieldIn ''problem_id'' (map ValProblemID vs)"

definition message_where_ProblemIDNotIn :: "ProblemID list \<Rightarrow> sql_pred" where
  "message_where_ProblemIDNotIn vs = FieldNotIn ''problem_id'' (map ValProblemID vs)"

definition message_where_AuthorIDEQ :: "UserID \<Rightarrow> sql_pred" where
  "message_where_AuthorIDEQ v = FieldEQ ''author_id'' (ValUserID v)"

definition message_where_AuthorIDNEQ :: "UserID \<Rightarrow> sql_pred" where
  "message_where_AuthorIDNEQ v = FieldNEQ ''author_id'' (ValUserID v)"

definition message_where_AuthorIDIn :: "UserID list \<Rightarrow> sql_pred" where
  "message_where_AuthorIDIn vs = FieldIn ''author_id'' (map ValUserID vs)"

definition message_where_AuthorIDNotIn :: "UserID list \<Rightarrow> sql_pred" where
  "message_where_AuthorIDNotIn vs = FieldNotIn ''author_id'' (map ValUserID vs)"

definition message_where_AuthorIDGT :: "UserID \<Rightarrow> sql_pred" where
  "message_where_AuthorIDGT v = FieldGT ''author_id'' (ValUserID v)"

definition message_where_AuthorIDGTE :: "UserID \<Rightarrow> sql_pred" where
  "message_where_AuthorIDGTE v = FieldGTE ''author_id'' (ValUserID v)"

definition message_where_AuthorIDLT :: "UserID \<Rightarrow> sql_pred" where
  "message_where_AuthorIDLT v = FieldLT ''author_id'' (ValUserID v)"

definition message_where_AuthorIDLTE :: "UserID \<Rightarrow> sql_pred" where
  "message_where_AuthorIDLTE v = FieldLTE ''author_id'' (ValUserID v)"

definition message_where_AuthorIDIsNil :: sql_pred where
  "message_where_AuthorIDIsNil = FieldIsNull ''author_id''"

definition message_where_AuthorIDNotNil :: sql_pred where
  "message_where_AuthorIDNotNil = FieldNotNull ''author_id''"

definition message_where_IsVisibleForClientEQ :: "bool \<Rightarrow> sql_pred" where
  "message_where_IsVisibleForClientEQ v = FieldEQ ''is_visible_for_client'' (ValBool v)"

definition message_where_IsVisibleForClientNEQ :: "bool \<Rightarrow> sql_pred" where
  "message_where_IsVisibleForClientNEQ v = FieldNEQ ''is_visible_for_client'' (ValBool v)"

definition message_where_IsVisibleForManagerEQ :: "bool \<Rightarrow> sql_pred" where
  "message_where_IsVisibleForManagerEQ v = FieldEQ ''is_visible_for_manager'' (ValBool v)"

definition message_where_IsVisibleForManagerNEQ :: "bool \<Rightarrow> sql_pred" where
  "message_where_IsVisibleForManagerNEQ v = FieldNEQ ''is_visible_for_manager'' (ValBool v)"

definition message_where_BodyEQ :: "string \<Rightarrow> sql_pred" where
  "message_where_BodyEQ v = FieldEQ ''body'' (ValString v)"

definition message_where_BodyNEQ :: "string \<Rightarrow> sql_pred" where
  "message_where_BodyNEQ v = FieldNEQ ''body'' (ValString v)"

definition message_where_BodyIn :: "string list \<Rightarrow> sql_pred" where
  "message_where_BodyIn vs = FieldIn ''body'' (map ValString vs)"

definition message_where_BodyNotIn :: "string list \<Rightarrow> sql_pred" where
  "message_where_BodyNotIn vs = FieldNotIn ''body'' (map ValString vs)"

definition message_where_BodyGT :: "string \<Rightarrow> sql_pred" where
  "message_where_BodyGT v = FieldGT ''body'' (ValString v)"

definition message_where_BodyGTE :: "string \<Rightarrow> sql_pred" where
  "message_where_BodyGTE v = FieldGTE ''body'' (ValString v)"

definition message_where_BodyLT :: "string \<Rightarrow> sql_pred" where
  "message_where_BodyLT v = FieldLT ''body'' (ValString v)"

definition message_where_BodyLTE :: "string \<Rightarrow> sql_pred" where
  "message_where_BodyLTE v = FieldLTE ''body'' (ValString v)"

definition message_where_BodyContains :: "string \<Rightarrow> sql_pred" where
  "message_where_BodyContains v = FieldContains ''body'' v"

definition message_where_BodyHasPrefix :: "string \<Rightarrow> sql_pred" where
  "message_where_BodyHasPrefix v = FieldHasPrefix ''body'' v"

definition message_where_BodyHasSuffix :: "string \<Rightarrow> sql_pred" where
  "message_where_BodyHasSuffix v = FieldHasSuffix ''body'' v"

definition message_where_BodyEqualFold :: "string \<Rightarrow> sql_pred" where
  "message_where_BodyEqualFold v = FieldEqualFold ''body'' v"

definition message_where_BodyContainsFold :: "string \<Rightarrow> sql_pred" where
  "message_where_BodyContainsFold v = FieldContainsFold ''body'' v"

definition message_where_CheckedAtEQ :: "time \<Rightarrow> sql_pred" where
  "message_where_CheckedAtEQ v = FieldEQ ''checked_at'' (ValTime v)"

definition message_where_CheckedAtNEQ :: "time \<Rightarrow> sql_pred" where
  "message_where_CheckedAtNEQ v = FieldNEQ ''checked_at'' (ValTime v)"

definition message_where_CheckedAtIn :: "time list \<Rightarrow> sql_pred" where
  "message_where_CheckedAtIn vs = FieldIn ''checked_at'' (map ValTime vs)"

definition message_where_CheckedAtNotIn :: "time list \<Rightarrow> sql_pred" where
  "message_where_CheckedAtNotIn vs = FieldNotIn ''checked_at'' (map ValTime vs)"

definition message_where_CheckedAtGT :: "time \<Rightarrow> sql_pred" where
  "message_where_CheckedAtGT v = FieldGT ''checked_at'' (ValTime v)"

definition message_where_CheckedAtGTE :: "time \<Rightarrow> sql_pred" where
  "message_where_CheckedAtGTE v = FieldGTE ''checked_at'' (ValTime v)"

definition message_where_CheckedAtLT :: "time \<Rightarrow> sql_pred" where
  "message_where_CheckedAtLT v = FieldLT ''checked_at'' (ValTime v)"

definition message_where_CheckedAtLTE :: "time \<Rightarrow> sql_pred" where
  "message_where_CheckedAtLTE v = FieldLTE ''checked_at'' (ValTime v)"

definition message_where_CheckedAtIsNil :: sql_pred where
  "message_where_CheckedAtIsNil = FieldIsNull ''checked_at''"

definition message_where_CheckedAtNotNil :: sql_pred where
  "message_where_CheckedAtNotNil = FieldNotNull ''checked_at''"

definition message_where_IsBlockedEQ :: "bool \<Rightarrow> sql_pred" where
  "message_where_IsBlockedEQ v = FieldEQ ''is_blocked'' (ValBool v)"

definition message_where_IsBlockedNEQ :: "bool \<Rightarrow> sql_pred" where
  "message_where_IsBlockedNEQ v = FieldNEQ ''is_blocked'' (ValBool v)"

definition message_where_IsServiceEQ :: "bool \<Rightarrow> sql_pred" where
  "message_where_IsServiceEQ v = FieldEQ ''is_service'' (ValBool v)"

definition message_where_IsServiceNEQ :: "bool \<Rightarrow> sql_pred" where
  "message_where_IsServiceNEQ v = FieldNEQ ''is_service'' (ValBool v)"

definition message_where_InitialRequestIDEQ :: "RequestID \<Rightarrow> sql_pred" where
  "message_where_InitialRequestIDEQ v = FieldEQ ''initial_request_id'' (ValRequestID v)"

definition message_where_InitialRequestIDNEQ :: "RequestID \<Rightarrow> sql_pred" where
  "message_where_InitialRequestIDNEQ v = FieldNEQ ''initial_request_id'' (ValRequestID v)"

definition message_where_InitialRequestIDIn :: "RequestID list \<Rightarrow> sql_pred" where
  "message_where_InitialRequestIDIn vs = FieldIn ''initial_request_id'' (map ValRequestID vs)"

definition message_where_InitialRequestIDNotIn :: "RequestID list \<Rightarrow> sql_pred" where
  "message_where_InitialRequestIDNotIn vs = FieldNotIn ''initial_request_id'' (map ValRequestID vs)"

definition message_where_InitialRequestIDGT :: "RequestID \<Rightarrow> sql_pred" where
  "message_where_InitialRequestIDGT v = FieldGT ''initial_request_id'' (ValRequestID v)"

definition message_where_InitialRequestIDGTE :: "RequestID \<Rightarrow> sql_pred" where
  "message_where_InitialRequestIDGTE v = FieldGTE ''initial_request_id'' (ValRequestID v)"

definition message_where_InitialRequestIDLT :: "RequestID \<Rightarrow> sql_pred" where
  "message_where_InitialRequestIDLT v = FieldLT ''initial_request_id'' (ValRequestID v)"

definition message_where_InitialRequestIDLTE :: "RequestID \<Rightarrow> sql_pred" where
  "message_where_InitialRequestIDLTE v = FieldLTE ''initial_request_id'' (ValRequestID v)"

definition message_where_CreatedAtEQ :: "time \<Rightarrow> sql_pred" where
  "message_where_CreatedAtEQ v = FieldEQ ''created_at'' (ValTime v)"

definition message_where_CreatedAtNEQ :: "time \<Rightarrow> sql_pred" where
  "message_where_CreatedAtNEQ v = FieldNEQ ''created_at'' (ValTime v)"

definition message_where_CreatedAtIn :: "time list \<Rightarrow> sql_pred" where
  "message_where_CreatedAtIn vs = FieldIn ''created_at'' (map ValTime vs)"

definition message_where_CreatedAtNotIn :: "time list \<Rightarrow> sql_pred" where
  "message_where_CreatedAtNotIn vs = FieldNotIn ''created_at'' (map ValTime vs)"

definition message_where_CreatedAtGT :: "time \<Rightarrow> sql_pred" where
  "message_where_CreatedAtGT v = FieldGT ''created_at'' (ValTime v)"

definition message_where_CreatedAtGTE :: "time \<Rightarrow> sql_pred" where
  "message_where_CreatedAtGTE v = FieldGTE ''created_at'' (ValTime v)"

definition message_where_CreatedAtLT :: "time \<Rightarrow> sql_pred" where
  "message_where_CreatedAtLT v = FieldLT ''created_at'' (ValTime v)"

definition message_where_CreatedAtLTE :: "time \<Rightarrow> sql_pred" where
  "message_where_CreatedAtLTE v = FieldLTE ''created_at'' (ValTime v)"

definition message_where_HasChat :: sql_pred where
  "message_where_HasChat = HasNeighbors \<lparr>sp_From = (''messages'', ''id''), sp_To = None, sp_Rel = M2O, sp_Inverse = True, sp_Table = ''messages'', sp_Column = ''chat_id''\<rparr>"

definition message_newChatStep :: sql_step where
  "message_newChatStep = \<lparr>sp_From = (''messages'', ''id''), sp_To = Some (''chats'', ''id''), sp_Rel = M2O, sp_Inverse = True, sp_Table = ''messages'', sp_Column = ''chat_id''\<rparr>"

definition message_where_HasChatWith :: "sql_pred list \<Rightarrow> sql_pred" where
  "message_where_HasChatWith preds = HasNeighborsWith message_newChatStep preds"

definition message_where_HasProblem :: sql_pred where
  "message_where_HasProblem = HasNeighbors \<lparr>sp_From = (''messages'', ''id''), sp_To = None, sp_Rel = M2O, sp_Inverse = True, sp_Table = ''messages'', sp_Column = ''problem_id''\<rparr>"

definition message_newProblemStep :: sql_step where
  "message_newProblemStep = \<lparr>sp_From = (''messages'', ''id''), sp_To = Some (''problems'', ''id''), sp_Rel = M2O, sp_Inverse = True, sp_Table = ''messages'', sp_Column = ''problem_id''\<rparr>"

definition message_where_HasProblemWith :: "sql_pred list \<Rightarrow> sql_pred" where
  "message_where_HasProblemWith preds = HasNeighborsWith message_newProblemStep preds"

definition message_where_And :: "sql_pred list \<Rightarrow> sql_pred" where
  "message_where_And predicates = AndPredicates predicates"

definition message_where_Or :: "sql_pred list \<Rightarrow> sql_pred" where
  "message_where_Or predicates = OrPredicates predicates"

definition message_where_Not :: "sql_pred \<Rightarrow> sql_pred" where
  "message_where_Not p = NotPredicates p"

section \<open>Problems\<close>

definition problem_where_ID :: "ProblemID \<Rightarrow> sql_pred" where
  "problem_where_ID v = FieldEQ ''id'' (ValProblemID v)"

definition problem_where_IDEQ :: "ProblemID \<Rightarrow> sql_pred" where
  "problem_where_IDEQ v = FieldEQ ''id'' (ValProblemID v)"

definition problem_where_IDNEQ :: "ProblemID \<Rightarrow> sql_pred" where
  "problem_where_IDNEQ v = FieldNEQ ''id'' (ValProblemID v)"

definition problem_where_IDIn :: "ProblemID list \<Rightarrow> sql_pred" where
  "problem_where_IDIn vs = FieldIn ''id'' (map ValProblemID vs)"

definition problem_where_IDNotIn :: "ProblemID list \<Rightarrow> sql_pred" where
  "problem_where_IDNotIn vs = FieldNotIn ''id'' (map ValProblemID vs)"

definition problem_where_IDGT :: "ProblemID \<Rightarrow> sql_pred" where
  "problem_where_IDGT v = FieldGT ''id'' (ValProblemID v)"

definition problem_where_IDGTE :: "ProblemID \<Rightarrow> sql_pred" where
  "problem_where_IDGTE v = FieldGTE ''id'' (ValProblemID v)"

definition problem_where_IDLT :: "ProblemID \<Rightarrow> sql_pred" where
  "problem_where_IDLT v = FieldLT ''id'' (ValProblemID v)"

definition problem_where_IDLTE :: "ProblemID \<Rightarrow> sql_pred" where
  "problem_where_IDLTE v = FieldLTE ''id'' (ValProblemID v)"

definition problem_where_ChatID :: "ChatID \<Rightarrow> sql_pred" where
  "problem_where_ChatID v = FieldEQ ''chat_id'' (ValChatID v)"

definition problem_where_ManagerID :: "UserID \<Rightarrow> sql_pred" where
  "problem_where_ManagerID v = FieldEQ ''manager_id'' (ValUserID v)"

definition problem_where_ResolvedAt :: "time \<Rightarrow> sql_pred" where
  "problem_where_ResolvedAt v = FieldEQ ''resolved_at'' (ValTime v)"

definition problem_where_CreatedAt :: "time \<Rightarrow> sql_pred" where
  "problem_where_CreatedAt v = FieldEQ ''created_at'' (ValTime v)"

definition problem_where_ChatIDEQ :: "ChatID \<Rightarrow> sql_pred" where
  "problem_where_ChatIDEQ v = FieldEQ ''chat_id'' (ValChatID v)"

definition problem_where_ChatIDNEQ :: "ChatID \<Rightarrow> sql_pred" where
  "problem_where_ChatIDNEQ v = FieldNEQ ''chat_id'' (ValChatID v)"

definition problem_where_ChatIDIn :: "ChatID list \<Rightarrow> sql_pred" where
  "problem_where_ChatIDIn vs = FieldIn ''chat_id'' (map ValChatID vs)"

definition problem_where_ChatIDNotIn :: "ChatID list \<Rightarrow> sql_pred" where
  "problem_where_ChatIDNotIn vs = FieldNotIn ''chat_id'' (map ValChatID vs)"

definition problem_where_ManagerIDEQ :: "UserID \<Rightarrow> sql_pred" where
  "problem_where_ManagerIDEQ v = FieldEQ ''manager_id'' (ValUserID v)"

definition problem_where_ManagerIDNEQ :: "UserID \<Rightarrow> sql_pred" where
  "problem_where_ManagerIDNEQ v = FieldNEQ ''manager_id'' (ValUserID v)"

definition problem_where_ManagerIDIn :: "UserID list \<Rightarrow> sql_pred" where
  "problem_where_ManagerIDIn vs = FieldIn ''manager_id'' (map ValUserID vs)"

definition problem_where_ManagerIDNotIn :: "UserID list \<Rightarrow> sql_pred" where
  "problem_where_ManagerIDNotIn vs = FieldNotIn ''manager_id'' (map ValUserID vs)"

definition problem_where_ManagerIDGT :: "UserID \<Rightarrow> sql_pred" where
  "problem_where_ManagerIDGT v = FieldGT ''manager_id'' (ValUserID v)"

definition problem_where_ManagerIDGTE :: "UserID \<Rightarrow> sql_pred" where
  "problem_where_ManagerIDGTE v = FieldGTE ''manager_id'' (ValUserID v)"

definition problem_where_ManagerIDLT :: "UserID \<Rightarrow> sql_pred" where
  "problem_where_ManagerIDLT v = FieldLT ''manager_id'' (ValUserID v)"

definition problem_where_ManagerIDLTE :: "UserID \<Rightarrow> sql_pred" where
  "problem_where_ManagerIDLTE v = FieldLTE ''manager_id'' (ValUserID v)"

definition problem_where_ManagerIDIsNil :: sql_pred where
  "problem_where_ManagerIDIsNil = FieldIsNull ''manager_id''"

definition problem_where_ManagerIDNotNil :: sql_pred where
  "problem_where_ManagerIDNotNil = FieldNotNull ''manager_id''"

definition problem_where_ResolvedAtEQ :: "time \<Rightarrow> sql_pred" where
  "problem_where_ResolvedAtEQ v = FieldEQ ''resolved_at'' (ValTime v)"

definition problem_where_ResolvedAtNEQ :: "time \<Rightarrow> sql_pred" where
  "problem_where_ResolvedAtNEQ v = FieldNEQ ''resolved_at'' (ValTime v)"

definition problem_where_ResolvedAtIn :: "time list \<Rightarrow> sql_pred" where
  "problem_where_ResolvedAtIn vs = FieldIn ''resolved_at'' (map ValTime vs)"

definition problem_where_ResolvedAtNotIn :: "time list \<Rightarrow> sql_pred" where
  "problem_where_ResolvedAtNotIn vs = FieldNotIn ''resolved_at'' (map ValTime vs)"

definition problem_where_ResolvedAtGT :: "time \<Rightarrow> sql_pred" where
  "problem_where_ResolvedAtGT v = FieldGT ''resolved_at'' (ValTime v)"

definition problem_where_ResolvedAtGTE :: "time \<Rightarrow> sql_pred" where
  "problem_where_ResolvedAtGTE v = FieldGTE ''resolved_at'' (ValTime v)"

definition problem_where_ResolvedAtLT :: "time \<Rightarrow> sql_pred" where
  "problem_where_ResolvedAtLT v = FieldLT ''resolved_at'' (ValTime v)"

definition problem_where_ResolvedAtLTE :: "time \<Rightarrow> sql_pred" where
  "problem_where_ResolvedAtLTE v = FieldLTE ''resolved_at'' (ValTime v)"

definition problem_where_ResolvedAtIsNil :: sql_pred where
  "problem_where_ResolvedAtIsNil = FieldIsNull ''resolved_at''"

definition problem_where_ResolvedAtNotNil :: sql_pred where
  "problem_where_ResolvedAtNotNil = FieldNotNull ''resolved_at''"

definition problem_where_CreatedAtEQ :: "time \<Rightarrow> sql_pred" where
  "problem_where_CreatedAtEQ v = FieldEQ ''created_at'' (ValTime v)"

definition problem_where_CreatedAtNEQ :: "time \<Rightarrow> sql_pred" where
  "problem_where_CreatedAtNEQ v = FieldNEQ ''created_at'' (ValTime v)"

definition problem_where_CreatedAtIn :: "time list \<Rightarrow> sql_pred" where
  "problem_where_CreatedAtIn vs = FieldIn ''created_at'' (map ValTime vs)"

definition problem_where_CreatedAtNotIn :: "time list \<Rightarrow> sql_pred" where
  "problem_where_CreatedAtNotIn vs = FieldNotIn ''created_at'' (map ValTime vs)"

definition problem_where_CreatedAtGT :: "time \<Rightarrow> sql_pred" where
  "problem_where_CreatedAtGT v = FieldGT ''created_at'' (ValTime v)"

definition problem_where_CreatedAtGTE :: "time \<Rightarrow> sql_pred" where
  "problem_where_CreatedAtGTE v = FieldGTE ''created_at'' (ValTime v)"

definition problem_where_CreatedAtLT :: "time \<Rightarrow> sql_pred" where
  "problem_where_CreatedAtLT v = FieldLT ''created_at'' (ValTime v)"

definition problem_where_CreatedAtLTE :: "time \<Rightarrow> sql_pred" where
  "problem_where_CreatedAtLTE v = FieldLTE ''created_at'' (ValTime v)"

definition problem_where_HasChat :: sql_pred where
  "problem_where_HasChat = HasNeighbors \<lparr>sp_From = (''problems'', ''id''), sp_To = None, sp_Rel = M2O, sp_Inverse = True, sp_Table = ''problems'', sp_Column = ''chat_id''\<rparr>"

definition problem_newChatStep :: sql_step where
  "problem_newChatStep = \<lparr>sp_From = (''problems'', ''id''), sp_To = Some (''chats'', ''id''), sp_Rel = M2O, sp_Inverse = True, sp_Table = ''problems'', sp_Column = ''chat_id''\<rparr>"

definition problem_where_HasChatWith :: "sql_pred list \<Rightarrow> sql_pred" where
  "problem_where_HasChatWith preds = HasNeighborsWith problem_newChatStep preds"

definition problem_where_HasMessages :: sql_pred where
  "problem_where_HasMessages = HasNeighbors \<lparr>sp_From = (''problems'', ''id''), sp_To = None, sp_Rel = O2M, sp_Inverse = False, sp_Table = ''messages'', sp_Column = ''problem_id''\<rparr>"

definition problem_newMessagesStep :: sql_step where
  "problem_newMessagesStep = \<lparr>sp_From = (''problems'', ''id''), sp_To = Some (''messages'', ''id''), sp_Rel = O2M, sp_Inverse = False, sp_Table = ''messages'', sp_Column = ''problem_id''\<rparr>"

definition problem_where_HasMessagesWith :: "sql_pred list \<Rightarrow> sql_pred" where
  "problem_where_HasMessagesWith preds = HasNeighborsWith problem_newMessagesStep preds"

definition problem_where_And :: "sql_pred list \<Rightarrow> sql_pred" where
  "problem_where_And predicates = AndPredicates predicates"

definition problem_where_Or :: "sql_pred list \<Rightarrow> sql_pred" where
  "problem_where_Or predicates = OrPredicates predicates"

definition problem_where_Not :: "sql_pred \<Rightarrow> sql_pred" where
  "problem_where_Not p = NotPredicates p"

lemmas chat_where_defs =
  chat_where_ID_def chat_where_IDEQ_def chat_where_IDNEQ_def chat_where_IDIn_def chat_where_IDNotIn_def
  chat_where_IDGT_def chat_where_IDGTE_def chat_where_IDLT_def chat_where_IDLTE_def chat_where_ClientID_def
  chat_where_CreatedAt_def chat_where_ClientIDEQ_def chat_where_ClientIDNEQ_def chat_where_ClientIDIn_def
  chat_where_ClientIDNotIn_def chat_where_ClientIDGT_def chat_where_ClientIDGTE_def chat_where_ClientIDLT_def
  chat_where_ClientIDLTE_def chat_where_CreatedAtEQ_def chat_where_CreatedAtNEQ_def chat_where_CreatedAtIn_def
  chat_where_CreatedAtNotIn_def chat_where_CreatedAtGT_def chat_where_CreatedAtGTE_def chat_where_CreatedAtLT_def
  chat_where_CreatedAtLTE_def chat_where_HasMessages_def chat_newMessagesStep_def chat_where_HasMessagesWith_def
  chat_where_HasProblems_def chat_newProblemsStep_def chat_where_HasProblemsWith_def chat_where_And_def
  chat_where_Or_def chat_where_Not_def

lemmas failedjob_where_defs =
  failedjob_where_ID_def failedjob_where_IDEQ_def failedjob_where_IDNEQ_def failedjob_where_IDIn_def
  failedjob_where_IDNotIn_def failedjob_where_IDGT_def failedjob_where_IDGTE_def failedjob_where_IDLT_def
  failedjob_where_IDLTE_def failedjob_where_Name_def failedjob_where_Payload_def failedjob_where_Reason_def
  failedjob_where_CreatedAt_def failedjob_where_NameEQ_def failedjob_where_NameNEQ_def failedjob_where_NameIn_def
  failedjob_where_NameNotIn_def failedjob_where_NameGT_def failedjob_where_NameGTE_def failedjob_where_NameLT_def
  failedjob_where_NameLTE_def failedjob_where_NameContains_def failedjob_where_NameHasPrefix_def
  failedjob_where_NameHasSuffix_def failedjob_where_NameEqualFold_def failedjob_where_NameContainsFold_def
  failedjob_where_PayloadEQ_def failedjob_where_PayloadNEQ_def failedjob_where_PayloadIn_def
  failedjob_where_PayloadNotIn_def failedjob_where_PayloadGT_def failedjob_where_PayloadGTE_def
  failedjob_where_PayloadLT_def failedjob_where_PayloadLTE_def failedjob_where_PayloadContains_def
  failedjob_where_PayloadHasPrefix_def failedjob_where_PayloadHasSuffix_def failedjob_where_PayloadEqualFold_def
  failedjob_where_PayloadContainsFold_def failedjob_where_ReasonEQ_def failedjob_where_ReasonNEQ_def
  failedjob_where_ReasonIn_def failedjob_where_ReasonNotIn_def failedjob_where_ReasonGT_def
  failedjob_where_ReasonGTE_def failedjob_where_ReasonLT_def failedjob_where_ReasonLTE_def
  failedjob_where_ReasonContains_def failedjob_where_ReasonHasPrefix_def failedjob_where_ReasonHasSuffix_def
  failedjob_where_ReasonEqualFold_def failedjob_where_ReasonContainsFold_def failedjob_where_CreatedAtEQ_def
  failedjob_where_CreatedAtNEQ_def failedjob_where_CreatedAtIn_def failedjob_where_CreatedAtNotIn_def
  failedjob_where_CreatedAtGT_def failedjob_where_CreatedAtGTE_def failedjob_where_CreatedAtLT_def
  failedjob_where_CreatedAtLTE_def failedjob_where_And_def failedjob_where_Or_def failedjob_where_Not_def

lemmas job_where_defs =
  job_where_ID_def job_where_IDEQ_def job_where_IDNEQ_def job_where_IDIn_def job_where_IDNotIn_def job_where_IDGT_def
  job_where_IDGTE_def job_where_IDLT_def job_where_IDLTE_def job_where_Name_def job_where_Payload_def
  job_where_Attempts_def job_where_AvailableAt_def job_where_ReservedUntil_def job_where_CreatedAt_def
  job_where_NameEQ_def job_where_NameNEQ_def job_where_NameIn_def job_where_NameNotIn_def job_where_NameGT_def
  job_where_NameGTE_def job_where_NameLT_def job_where_NameLTE_def job_where_NameContains_def
  job_where_NameHasPrefix_def job_where_NameHasSuffix_def job_where_NameEqualFold_def job_where_NameContainsFold_def
  job_where_PayloadEQ_def job_where_PayloadNEQ_def job_where_PayloadIn_def job_where_PayloadNotIn_def
  job_where_PayloadGT_def job_where_PayloadGTE_def job_where_PayloadLT_def job_where_PayloadLTE_def
  job_where_PayloadContains_def job_where_PayloadHasPrefix_def job_where_PayloadHasSuffix_def
  job_where_PayloadEqualFold_def job_where_PayloadContainsFold_def job_where_AttemptsEQ_def job_where_AttemptsNEQ_def
  job_where_AttemptsIn_def job_where_AttemptsNotIn_def job_where_AttemptsGT_def job_where_AttemptsGTE_def
  job_where_AttemptsLT_def job_where_AttemptsLTE_def job_where_AvailableAtEQ_def job_where_AvailableAtNEQ_def
  job_where_AvailableAtIn_def job_where_AvailableAtNotIn_def job_where_AvailableAtGT_def job_where_AvailableAtGTE_def
  job_where_AvailableAtLT_def job_where_AvailableAtLTE_def job_where_ReservedUntilEQ_def
  job_where_ReservedUntilNEQ_def job_where_ReservedUntilIn_def job_where_ReservedUntilNotIn_def
  job_where_ReservedUntilGT_def job_where_ReservedUntilGTE_def job_where_ReservedUntilLT_def
  job_where_ReservedUntilLTE_def job_where_CreatedAtEQ_def job_where_CreatedAtNEQ_def job_where_CreatedAtIn_def
  job_where_CreatedAtNotIn_def job_where_CreatedAtGT_def job_where_CreatedAtGTE_def job_where_CreatedAtLT_def
  job_where_CreatedAtLTE_def job_where_And_def job_where_Or_def job_where_Not_def

lemmas message_where_defs =
  message_where_ID_def message_where_IDEQ_def message_where_IDNEQ_def message_where_IDIn_def message_where_IDNotIn_def
  message_where_IDGT_def message_where_IDGTE_def message_where_IDLT_def message_where_IDLTE_def
  message_where_ChatID_def message_where_ProblemID_def message_where_AuthorID_def message_where_IsVisibleForClient_def
  message_where_IsVisibleForManager_def message_where_Body_def message_where_CheckedAt_def message_where_IsBlocked_def
  message_where_IsService_def message_where_InitialRequestID_def message_where_CreatedAt_def
  message_where_ChatIDEQ_def message_where_ChatIDNEQ_def message_where_ChatIDIn_def message_where_ChatIDNotIn_def
  message_where_ProblemIDEQ_def message_where_ProblemIDNEQ_def message_where_ProblemIDIn_def
  message_where_ProblemIDNotIn_def message_where_AuthorIDEQ_def message_where_AuthorIDNEQ_def
  message_where_AuthorIDIn_def message_where_AuthorIDNotIn_def message_where_AuthorIDGT_def
  message_where_AuthorIDGTE_def message_where_AuthorIDLT_def message_where_AuthorIDLTE_def
  message_where_AuthorIDIsNil_def message_where_AuthorIDNotNil_def message_where_IsVisibleForClientEQ_def
  message_where_IsVisibleForClientNEQ_def message_where_IsVisibleForManagerEQ_def
  message_where_IsVisibleForManagerNEQ_def message_where_BodyEQ_def message_where_BodyNEQ_def message_where_BodyIn_def
  message_where_BodyNotIn_def message_where_BodyGT_def message_where_BodyGTE_def message_where_BodyLT_def
  message_where_BodyLTE_def message_where_BodyContains_def message_where_BodyHasPrefix_def
  message_where_BodyHasSuffix_def message_where_BodyEqualFold_def message_where_BodyContainsFold_def
  message_where_CheckedAtEQ_def message_where_CheckedAtNEQ_def message_where_CheckedAtIn_def
  message_where_CheckedAtNotIn_def message_where_CheckedAtGT_def message_where_CheckedAtGTE_def
  message_where_CheckedAtLT_def message_where_CheckedAtLTE_def message_where_CheckedAtIsNil_def
  message_where_CheckedAtNotNil_def message_where_IsBlockedEQ_def message_where_IsBlockedNEQ_def
  message_where_IsServiceEQ_def message_where_IsServiceNEQ_def message_where_InitialRequestIDEQ_def
  message_where_InitialRequestIDNEQ_def message_where_InitialRequestIDIn_def message_where_InitialRequestIDNotIn_def
  message_where_InitialRequestIDGT_def message_where_InitialRequestIDGTE_def message_where_InitialRequestIDLT_def
  message_where_InitialRequestIDLTE_def message_where_CreatedAtEQ_def message_where_CreatedAtNEQ_def
  message_where_CreatedAtIn_def message_where_CreatedAtNotIn_def message_where_CreatedAtGT_def
  message_where_CreatedAtGTE_def message_where_CreatedAtLT_def message_where_CreatedAtLTE_def
  message_where_HasChat_def message_newChatStep_def message_where_HasChatWith_def message_where_HasProblem_def
  message_newProblemStep_def message_where_HasProblemWith_def message_where_And_def message_where_Or_def
  message_where_Not_def

lemmas problem_where_defs =
  problem_where_ID_def problem_where_IDEQ_def problem_where_IDNEQ_def problem_where_IDIn_def problem_where_IDNotIn_def
  problem_where_IDGT_def problem_where_IDGTE_def problem_where_IDLT_def problem_where_IDLTE_def
  problem_where_ChatID_def problem_where_ManagerID_def problem_where_ResolvedAt_def problem_where_CreatedAt_def
  problem_where_ChatIDEQ_def problem_where_ChatIDNEQ_def problem_where_ChatIDIn_def problem_where_ChatIDNotIn_def
  problem_where_ManagerIDEQ_def problem_where_ManagerIDNEQ_def problem_where_ManagerIDIn_def
  problem_where_ManagerIDNotIn_def problem_where_ManagerIDGT_def problem_where_ManagerIDGTE_def
  problem_where_ManagerIDLT_def problem_where_ManagerIDLTE_def problem_where_ManagerIDIsNil_def
  problem_where_ManagerIDNotNil_def problem_where_ResolvedAtEQ_def problem_where_ResolvedAtNEQ_def
  problem_where_ResolvedAtIn_def problem_where_ResolvedAtNotIn_def problem_where_ResolvedAtGT_def
  problem_where_ResolvedAtGTE_def problem_where_ResolvedAtLT_def problem_where_ResolvedAtLTE_def
  problem_where_ResolvedAtIsNil_def problem_where_ResolvedAtNotNil_def problem_where_CreatedAtEQ_def
  problem_where_CreatedAtNEQ_def problem_where_CreatedAtIn_def problem_where_CreatedAtNotIn_def
  problem_where_CreatedAtGT_def problem_where_CreatedAtGTE_def problem_where_CreatedAtLT_def
  problem_where_CreatedAtLTE_def problem_where_HasChat_def problem_newChatStep_def problem_where_HasChatWith_def
  problem_where_HasMessages_def problem_newMessagesStep_def problem_where_HasMessagesWith_def problem_where_And_def
  problem_where_Or_def problem_where_Not_def

section \<open>The predicates of the service\<close>

lemma sql_where_one: "contributes p \<Longrightarrow> sql_where l d r [p] \<longleftrightarrow> sql_eval l d r p = Some True"
  by (simp add: sql_where_iff)

lemma tv_in_true: "tv_in c vs = Some True \<longleftrightarrow> c \<noteq> None \<and> c \<in> set vs"
  by (auto simp: tv_in_def)

lemma map_option_true: "map_option f x = Some True \<longleftrightarrow> (\<exists>y. x = Some y \<and> f y)"
  by (cases x) auto

lemmas cols_defs = columns_def chat_cols_def problem_cols_def message_cols_def job_cols_def

text \<open>
  The conditions over an edge select the rows whose neighbour satisfies the conditions given: the row that a foreign key
  names, or some row whose foreign key names this one.  A problem always has a chat and a message a problem, so
  \<open>NULL\<close> does not come in.
\<close>

lemma edge_in:
  "sql_where l d r [HasNeighborsWith st ps] \<longleftrightarrow>
     (case sp_Rel st of
        M2O \<Rightarrow> r (sp_Column st) \<noteq> None \<and>
          (\<exists>q \<in> set (table_rows d (fst (the (sp_To st)))). q (snd (the (sp_To st))) = r (sp_Column st) \<and> sql_where l d q ps)
      | O2M \<Rightarrow> r (snd (sp_From st)) \<noteq> None \<and>
          (\<exists>q \<in> set (table_rows d (sp_Table st)). q (sp_Column st) = r (snd (sp_From st)) \<and> sql_where l d q ps))"
  by (subst sql_where_one, simp, cases "sp_Rel st") (auto simp: tv_in_true sql_where_def image_iff)

lemmas step_defs = message_where_HasChatWith_def message_where_HasProblemWith_def message_newChatStep_def
  message_newProblemStep_def problem_where_HasChatWith_def problem_where_HasMessagesWith_def problem_newChatStep_def
  problem_newMessagesStep_def chat_where_HasMessagesWith_def chat_where_HasProblemsWith_def chat_newMessagesStep_def
  chat_newProblemsStep_def

lemma edges_with:
  "sql_where l d (message_cols m) [message_where_HasChatWith ps]
     \<longleftrightarrow> (\<exists>c \<in> set (chats d). c_ID c = m_ChatID m \<and> sql_where l d (chat_cols c) ps)"
  "sql_where l d (message_cols m) [message_where_HasProblemWith ps]
     \<longleftrightarrow> (\<exists>p \<in> set (problems d). p_ID p = m_ProblemID m \<and> sql_where l d (problem_cols p) ps)"
  "sql_where l d (problem_cols p) [problem_where_HasChatWith ps]
     \<longleftrightarrow> (\<exists>c \<in> set (chats d). c_ID c = p_ChatID p \<and> sql_where l d (chat_cols c) ps)"
  "sql_where l d (problem_cols p) [problem_where_HasMessagesWith ps]
     \<longleftrightarrow> (\<exists>m \<in> set (messages d). m_ProblemID m = p_ID p \<and> sql_where l d (message_cols m) ps)"
  "sql_where l d (chat_cols c) [chat_where_HasMessagesWith ps]
     \<longleftrightarrow> (\<exists>m \<in> set (messages d). m_ChatID m = c_ID c \<and> sql_where l d (message_cols m) ps)"
  "sql_where l d (chat_cols c) [chat_where_HasProblemsWith ps]
     \<longleftrightarrow> (\<exists>p \<in> set (problems d). p_ChatID p = c_ID c \<and> sql_where l d (problem_cols p) ps)"
  by (simp_all add: step_defs edge_in table_rows_def, simp_all add: cols_defs)


end
