(* ===== verification/Workers.thy ===== *)
theory Workers
  imports Worker
begin

text \<open>
  Several outbox workers on one database (\<open>Run\<close> in \<open>internal/services/outbox/service.go\<close> starts them,
  and several instances of the service may run): a step relation whose atomic steps are the statements
  and transactions of \<open>findAndProcessJob\<close>, interleaved in any order, with time passing between them and
  a worker stopping anywhere.  \<open>worker_run\<close> shows that a run of the sequential model is a sequence of
  steps of one worker; the invariants then say that no job is lost, that a job is moved to the dead
  letters at most once, and that two workers never hold live reservations of one job.
\<close>

section \<open>Steps\<close>

text \<open>
  Where a worker is: between jobs; it has computed the end of its reservation; it runs the handler of
  a reserved job; it is about to delete the job or to move it to the dead letters.
\<close>

datatype phase =
    Idle
  | Reserving time
  | Running RepoJob time
  | Deleting RepoJob
  | Burying RepoJob string

text \<open>
  \<open>sys_submitted\<close>, \<open>sys_done\<close> and \<open>sys_dead\<close> are the history: the jobs that were put, the jobs whose
  handler reported success, and the jobs that were moved to the dead letters, in order.
\<close>

record system =
  sys_now :: time
  sys_db :: database
  sys_phase :: "nat \<Rightarrow> phase"
  sys_submitted :: "JobID set"
  sys_done :: "JobID set"
  sys_dead :: "JobID list"

definition queue_kept :: "database \<Rightarrow> database \<Rightarrow> bool" where
  "queue_kept d d' \<longleftrightarrow> jobs d' = jobs d \<and> failed_jobs d' = failed_jobs d"

inductive outbox_step :: "time \<Rightarrow> (string \<Rightarrow> int option) \<Rightarrow> system \<Rightarrow> system \<Rightarrow> bool"
  for reserveFor :: time and maxAttempts :: "string \<Rightarrow> int option" where
  tick: "sys_now y \<le> t \<Longrightarrow> outbox_step reserveFor maxAttempts y (y\<lparr>sys_now := t\<rparr>)"
| others: "queue_kept (sys_db y) d \<Longrightarrow> outbox_step reserveFor maxAttempts y (y\<lparr>sys_db := d\<rparr>)"
| put: "insert_job j (sys_db y) = Inr d \<Longrightarrow> j_ID j \<notin> sys_submitted y \<Longrightarrow>
    outbox_step reserveFor maxAttempts y
      (y\<lparr>sys_db := d, sys_submitted := insert (j_ID j) (sys_submitted y)\<rparr>)"
| start: "sys_phase y k = Idle \<Longrightarrow>
    outbox_step reserveFor maxAttempts y
      (y\<lparr>sys_phase := (sys_phase y)(k := Reserving (sys_now y + reserveFor))\<rparr>)"
| reserve: "sys_phase y k = Reserving until \<Longrightarrow> reserves (sys_now y) until j (sys_db y) d \<Longrightarrow>
    outbox_step reserveFor maxAttempts y
      (y\<lparr>sys_db := d, sys_phase := (sys_phase y)(k := Running (repo_job (reserve_job until j)) until)\<rparr>)"
| handled: "sys_phase y k = Running job until \<Longrightarrow> maxAttempts (rj_Name job) = Some m \<Longrightarrow>
    queue_kept (sys_db y) d \<Longrightarrow>
    outbox_step reserveFor maxAttempts y
      (y\<lparr>sys_db := d, sys_phase := (sys_phase y)(k := Deleting job),
         sys_done := insert (rj_ID job) (sys_done y)\<rparr>)"
| failed: "sys_phase y k = Running job until \<Longrightarrow> maxAttempts (rj_Name job) = Some m \<Longrightarrow>
    queue_kept (sys_db y) d \<Longrightarrow> rj_Attempts job < m \<Longrightarrow>
    outbox_step reserveFor maxAttempts y (y\<lparr>sys_db := d, sys_phase := (sys_phase y)(k := Idle)\<rparr>)"
| exceeded: "sys_phase y k = Running job until \<Longrightarrow> maxAttempts (rj_Name job) = Some m \<Longrightarrow>
    queue_kept (sys_db y) d \<Longrightarrow> m \<le> rj_Attempts job \<Longrightarrow>
    outbox_step reserveFor maxAttempts y
      (y\<lparr>sys_db := d, sys_phase := (sys_phase y)(k := Burying job reason)\<rparr>)"
| unknown: "sys_phase y k = Running job until \<Longrightarrow> maxAttempts (rj_Name job) = None \<Longrightarrow>
    outbox_step reserveFor maxAttempts y
      (y\<lparr>sys_phase := (sys_phase y)(k := Burying job ''unknown job'')\<rparr>)"
| delete: "sys_phase y k = Deleting job \<Longrightarrow>
    outbox_step reserveFor maxAttempts y
      (y\<lparr>sys_db := without_job (rj_ID job) (sys_db y), sys_phase := (sys_phase y)(k := Idle)\<rparr>)"
| bury: "sys_phase y k = Burying job reason \<Longrightarrow>
    moves_to_dlq (rj_ID job) (rj_Name job) (rj_Payload job) reason (sys_db y) d \<Longrightarrow>
    outbox_step reserveFor maxAttempts y
      (y\<lparr>sys_db := d, sys_phase := (sys_phase y)(k := Idle), sys_dead := sys_dead y @ [rj_ID job]\<rparr>)"
| stop: "outbox_step reserveFor maxAttempts y (y\<lparr>sys_phase := (sys_phase y)(k := Idle)\<rparr>)"

abbreviation outbox_steps :: "time \<Rightarrow> (string \<Rightarrow> int option) \<Rightarrow> system \<Rightarrow> system \<Rightarrow> bool" where
  "outbox_steps R m \<equiv> (outbox_step R m)\<^sup>*\<^sup>*"

text \<open>Before anything was put, with no worker busy.\<close>

definition sys_init :: "system \<Rightarrow> bool" where
  "sys_init y \<longleftrightarrow> jobs (sys_db y) = [] \<and> sys_phase y = (\<lambda>_. Idle) \<and> sys_submitted y = {}
     \<and> sys_done y = {} \<and> sys_dead y = []"

section \<open>Invariants\<close>

definition queued :: "system \<Rightarrow> JobID set" where
  "queued y = j_ID ` set (jobs (sys_db y))"

text \<open>A job that a worker has in hand, with the end of its reservation.\<close>

definition claim :: "phase \<Rightarrow> (JobID \<times> time) option" where
  "claim p = (case p of Running job until \<Rightarrow> Some (rj_ID job, until) | _ \<Rightarrow> None)"

fun hand :: "phase \<Rightarrow> JobID option" where
  "hand (Running job until) = Some (rj_ID job)"
| "hand (Deleting job) = Some (rj_ID job)"
| "hand (Burying job reason) = Some (rj_ID job)"
| "hand _ = None"

definition sys_inv :: "system \<Rightarrow> bool" where
  "sys_inv y \<longleftrightarrow>
     distinct (map j_ID (jobs (sys_db y))) \<and>
     sys_submitted y = queued y \<union> sys_done y \<union> set (sys_dead y) \<and>
     distinct (sys_dead y) \<and> queued y \<inter> set (sys_dead y) = {} \<and>
     (\<forall>k i. hand (sys_phase y k) = Some i \<longrightarrow> i \<in> sys_submitted y) \<and>
     (\<forall>k job. sys_phase y k = Deleting job \<longrightarrow> rj_ID job \<in> sys_done y)"

text \<open>The reservation of a job that a worker holds is the one that the row shows.\<close>

definition live_inv :: "system \<Rightarrow> bool" where
  "live_inv y \<longleftrightarrow>
     (\<forall>k i u. claim (sys_phase y k) = Some (i, u) \<longrightarrow> sys_now y < u \<longrightarrow>
        (\<forall>j \<in> set (jobs (sys_db y)). j_ID j = i \<longrightarrow> j_ReservedUntil j = u)) \<and>
     (\<forall>k k' i u u'. claim (sys_phase y k) = Some (i, u) \<longrightarrow> claim (sys_phase y k') = Some (i, u') \<longrightarrow>
        sys_now y < u \<longrightarrow> sys_now y < u' \<longrightarrow> k = k') \<and>
     (\<forall>k i u. claim (sys_phase y k) = Some (i, u) \<longrightarrow> i \<in> sys_submitted y) \<and>
     queued y \<subseteq> sys_submitted y"

lemma claim_simps [simp]:
  "claim Idle = None" "claim (Reserving t) = None" "claim (Running job u) = Some (rj_ID job, u)"
  "claim (Deleting job) = None" "claim (Burying job reason) = None"
  by (simp_all add: claim_def)

lemma repo_job_simps [simp]:
  "rj_ID (repo_job j) = j_ID j" "rj_Name (repo_job j) = j_Name j"
  "rj_Payload (repo_job j) = j_Payload j" "rj_Attempts (repo_job j) = j_Attempts j"
  by (simp_all add: repo_job_def)

lemma insert_job_jobs: "insert_job j d = Inr d' \<Longrightarrow> jobs d' = jobs d @ [j] \<and> j_ID j \<notin> j_ID ` set (jobs d)"
  by (auto simp: insert_job_def split: if_splits)

lemma reserves_jobs:
  "reserves now u j d d' \<Longrightarrow> jobs d' = map (\<lambda>k. if j_ID k = j_ID j then reserve_job u k else k) (jobs d)
     \<and> j \<in> set (jobs d) \<and> job_eligible now j \<and> map j_ID (jobs d') = map j_ID (jobs d)"
  by (auto simp: reserves_def update_job_ids) (auto simp: update_job_def)

lemma reserves_ids: "reserves now u j d d' \<Longrightarrow> map j_ID (jobs d') = map j_ID (jobs d)"
  using reserves_jobs by blast

lemma reserves_changes:
  assumes "reserves now u j d d'"
  shows "d' \<noteq> d"
proof
  assume "d' = d"
  with reserves_jobs [OF assms]
  have "map (\<lambda>k. if j_ID k = j_ID j then reserve_job u k else k) (jobs d) = map id (jobs d)"
    and j: "j \<in> set (jobs d)" by simp_all
  then have "\<forall>k \<in> set (jobs d). (if j_ID k = j_ID j then reserve_job u k else k) = id k"
    by (simp only: map_eq_conv)
  with j have "reserve_job u j = j" by force
  then have "j_Attempts (reserve_job u j) = j_Attempts j" by (rule arg_cong)
  then show False by simp
qed

lemma moves_to_dlq_jobs:
  "moves_to_dlq i n p r d d' \<Longrightarrow> jobs d' = filter (\<lambda>j. j_ID j \<noteq> i) (jobs d) \<and> i \<in> j_ID ` set (jobs d)"
  using moves_to_dlq_effect [of i n p r d d'] by (auto simp: moves_to_dlq_def dest: adds_failed_job_jobs)

lemma image_ids_cong: "map f xs = map f ys \<Longrightarrow> f ` set xs = f ` set ys"
  by (metis set_map)

lemma queued_update [simp]:
  "queued (y\<lparr>sys_phase := p\<rparr>) = queued y" "queued (y\<lparr>sys_now := t\<rparr>) = queued y"
  "queued (y\<lparr>sys_done := D\<rparr>) = queued y" "queued (y\<lparr>sys_dead := l\<rparr>) = queued y"
  "queued (y\<lparr>sys_submitted := S\<rparr>) = queued y"
  "queued (y\<lparr>sys_db := d\<rparr>) = j_ID ` set (jobs d)"
  by (simp_all add: queued_def)

lemma hand_update:
  "hand ((f(k := p)) k') = (if k' = k then hand p else hand (f k'))"
  by simp

lemma sys_inv_hand: "sys_inv y \<Longrightarrow> hand (sys_phase y k) = Some i \<Longrightarrow> i \<in> sys_submitted y"
  unfolding sys_inv_def by blast

text \<open>A step of one worker that changes no row: what it then has in hand was submitted.\<close>

lemma sys_inv_phase:
  assumes inv: "sys_inv y" and "jobs d = jobs (sys_db y)"
    and "\<And>i. hand p = Some i \<Longrightarrow> i \<in> sys_submitted y"
    and "\<And>job. p = Deleting job \<Longrightarrow> rj_ID job \<in> D" and "sys_done y \<subseteq> D" and "D \<subseteq> sys_submitted y"
  shows "sys_inv (y\<lparr>sys_db := d, sys_phase := (sys_phase y)(k := p), sys_done := D\<rparr>)"
proof -
  have "queued (y\<lparr>sys_db := d, sys_phase := (sys_phase y)(k := p), sys_done := D\<rparr>) = queued y"
    using assms(2) by (simp add: queued_def)
  moreover have "sys_submitted y = queued y \<union> D \<union> set (sys_dead y)"
    using inv assms(5,6) by (auto simp: sys_inv_def)
  ultimately show ?thesis
    using inv assms(2-5) by (simp add: sys_inv_def) blast
qed

lemma sys_inv_step:
  assumes "outbox_step R m y y'" and inv: "sys_inv y"
  shows "sys_inv y'"
  using assms(1)
proof cases
  case (tick t)
  with inv show ?thesis by (auto simp: sys_inv_def)
next
  case (others d)
  then have "j_ID ` set (jobs d) = queued y" by (simp add: queue_kept_def queued_def)
  with others inv show ?thesis by (auto simp: sys_inv_def queue_kept_def)
next
  case (put j d)
  note jd = insert_job_jobs [OF put(2)]
  have "queued y' = insert (j_ID j) (queued y)" using put(1) jd by (auto simp: queued_def)
  moreover have "sys_submitted y' = insert (j_ID j) (sys_submitted y)" "sys_done y' = sys_done y"
    "sys_dead y' = sys_dead y" "sys_phase y' = sys_phase y" using put(1) by simp_all
  moreover have "j_ID j \<notin> set (sys_dead y)" using inv put(3) by (auto simp: sys_inv_def)
  moreover have "distinct (map j_ID (jobs (sys_db y')))" using put(1) jd inv by (simp add: sys_inv_def)
  ultimately show ?thesis using inv unfolding sys_inv_def by auto
next
  case (start k)
  with inv show ?thesis by (auto simp: sys_inv_def)
next
  case (reserve k until j d)
  note rj = reserves_jobs [OF reserve(3)]
  have q: "j_ID ` set (jobs d) = queued y"
    unfolding queued_def by (rule image_ids_cong) (use rj in simp)
  have "j_ID j \<in> queued y" using rj by (auto simp: queued_def)
  moreover have "distinct (map j_ID (jobs d))" using inv by (simp only: sys_inv_def reserves_ids [OF reserve(3)])
  ultimately show ?thesis using reserve(1) q inv by (auto simp: sys_inv_def)
next
  case (handled k job until n d)
  have hand: "rj_ID job \<in> sys_submitted y" using sys_inv_hand [OF inv, of k] handled(2) by simp
  have "sys_inv (y\<lparr>sys_db := d, sys_phase := (sys_phase y)(k := Deleting job),
      sys_done := insert (rj_ID job) (sys_done y)\<rparr>)"
    by (rule sys_inv_phase [OF inv]) (use handled(4) hand inv in \<open>auto simp: queue_kept_def sys_inv_def\<close>)
  with handled(1) show ?thesis by simp
next
  case (failed k job until n d)
  have "sys_inv (y\<lparr>sys_db := d, sys_phase := (sys_phase y)(k := Idle), sys_done := sys_done y\<rparr>)"
    by (rule sys_inv_phase [OF inv]) (use failed inv in \<open>auto simp: queue_kept_def sys_inv_def\<close>)
  with failed(1) show ?thesis by simp
next
  case (exceeded k job until n d reason)
  have hand: "rj_ID job \<in> sys_submitted y" using sys_inv_hand [OF inv, of k] exceeded(2) by simp
  have "sys_inv (y\<lparr>sys_db := d, sys_phase := (sys_phase y)(k := Burying job reason), sys_done := sys_done y\<rparr>)"
    by (rule sys_inv_phase [OF inv]) (use exceeded(4) hand inv in \<open>auto simp: queue_kept_def sys_inv_def\<close>)
  with exceeded(1) show ?thesis by simp
next
  case (unknown k job until)
  have hand: "rj_ID job \<in> sys_submitted y" using sys_inv_hand [OF inv, of k] unknown(2) by simp
  have "sys_inv (y\<lparr>sys_db := sys_db y, sys_phase := (sys_phase y)(k := Burying job ''unknown job''), sys_done := sys_done y\<rparr>)"
    by (rule sys_inv_phase [OF inv]) (use hand inv in \<open>auto simp: sys_inv_def\<close>)
  with unknown(1) show ?thesis by simp
next
  case (delete k job)
  have "rj_ID job \<in> sys_done y" using inv delete(2) by (auto simp: sys_inv_def)
  moreover have "j_ID ` set (jobs (without_job (rj_ID job) (sys_db y))) = queued y - {rj_ID job}"
    by (auto simp: without_job_def queued_def)
  moreover have "distinct (map j_ID (jobs (without_job (rj_ID job) (sys_db y))))"
    using inv by (auto simp: sys_inv_def without_job_def distinct_map_filter)
  ultimately show ?thesis using delete(1) inv by (auto simp: sys_inv_def)
next
  case (bury k job reason d)
  note mj = moves_to_dlq_jobs [OF bury(3)]
  have "j_ID ` set (jobs d) = queued y - {rj_ID job}" "rj_ID job \<in> queued y"
    using mj by (auto simp: queued_def)
  moreover have "distinct (map j_ID (jobs d))"
    using inv mj by (auto simp: sys_inv_def distinct_map_filter)
  ultimately show ?thesis using bury(1) inv by (auto simp: sys_inv_def)
next
  case (stop k)
  with inv show ?thesis by (auto simp: sys_inv_def)
qed

lemma sys_inv_init: "sys_init y \<Longrightarrow> sys_inv y"
  by (simp add: sys_init_def sys_inv_def queued_def)

lemma sys_inv_reachable:
  assumes "sys_init y0" and "outbox_steps R m y0 y"
  shows "sys_inv y"
  using assms(2) by (induction rule: rtranclp_induct) (simp_all add: sys_inv_init assms(1) sys_inv_step)

text \<open>A live reservation excludes every other.\<close>

lemma live_row:
  "live_inv y \<Longrightarrow> claim (sys_phase y k) = Some (i, u) \<Longrightarrow> sys_now y < u \<Longrightarrow>
     j \<in> set (jobs (sys_db y)) \<Longrightarrow> j_ID j = i \<Longrightarrow> j_ReservedUntil j = u"
  by (simp add: live_inv_def)

lemma live_one:
  "live_inv y \<Longrightarrow> claim (sys_phase y k) = Some (i, u) \<Longrightarrow> claim (sys_phase y k') = Some (i, u') \<Longrightarrow>
     sys_now y < u \<Longrightarrow> sys_now y < u' \<Longrightarrow> k = k'"
  by (simp add: live_inv_def)

lemma live_submitted: "live_inv y \<Longrightarrow> claim (sys_phase y k) = Some (i, u) \<Longrightarrow> i \<in> sys_submitted y"
  unfolding live_inv_def by blast

lemma live_queued: "live_inv y \<Longrightarrow> j \<in> set (jobs (sys_db y)) \<Longrightarrow> j_ID j \<in> sys_submitted y"
  by (auto simp: live_inv_def queued_def)

lemma live_invI:
  assumes "\<And>k i u j. claim (sys_phase y k) = Some (i, u) \<Longrightarrow> sys_now y < u \<Longrightarrow>
      j \<in> set (jobs (sys_db y)) \<Longrightarrow> j_ID j = i \<Longrightarrow> j_ReservedUntil j = u"
    and "\<And>k k' i u u'. claim (sys_phase y k) = Some (i, u) \<Longrightarrow> claim (sys_phase y k') = Some (i, u') \<Longrightarrow>
      sys_now y < u \<Longrightarrow> sys_now y < u' \<Longrightarrow> k = k'"
    and "\<And>k i u. claim (sys_phase y k) = Some (i, u) \<Longrightarrow> i \<in> sys_submitted y"
    and "\<And>j. j \<in> set (jobs (sys_db y)) \<Longrightarrow> j_ID j \<in> sys_submitted y"
  shows "live_inv y"
  unfolding live_inv_def queued_def using assms by blast

text \<open>A step that only lets go of claims and of rows, and only adds submitted jobs and time.\<close>

lemma live_inv_mono:
  assumes inv: "live_inv y"
    and "\<And>k i u. claim (sys_phase y' k) = Some (i, u) \<Longrightarrow> claim (sys_phase y k) = Some (i, u)"
    and "set (jobs (sys_db y')) \<subseteq> set (jobs (sys_db y))"
    and "sys_now y \<le> sys_now y'" and "sys_submitted y' = sys_submitted y"
  shows "live_inv y'"
proof (rule live_invI)
  fix k i u j assume "claim (sys_phase y' k) = Some (i, u)" "sys_now y' < u"
    "j \<in> set (jobs (sys_db y'))" "j_ID j = i"
  then show "j_ReservedUntil j = u"
    using live_row [OF inv assms(2)] assms(3,4) by force
next
  fix k k' i u u' assume "claim (sys_phase y' k) = Some (i, u)" "claim (sys_phase y' k') = Some (i, u')"
    "sys_now y' < u" "sys_now y' < u'"
  then show "k = k'" using live_one [OF inv assms(2) assms(2)] assms(4) by force
next
  fix k i u assume "claim (sys_phase y' k) = Some (i, u)"
  then show "i \<in> sys_submitted y'" using live_submitted [OF inv assms(2)] assms(5) by simp
next
  fix j assume "j \<in> set (jobs (sys_db y'))"
  then show "j_ID j \<in> sys_submitted y'" using live_queued [OF inv] assms(3,5) by auto
qed

lemma live_inv_reserve:
  assumes inv: "live_inv y" and rs: "reserves (sys_now y) until j (sys_db y) d"
    and ph: "\<And>k'. k' \<noteq> k \<Longrightarrow> claim (sys_phase y' k') = claim (sys_phase y k')"
    and me: "claim (sys_phase y' k) = Some (j_ID j, until)"
    and y': "sys_db y' = d" "sys_now y' = sys_now y" "sys_submitted y' = sys_submitted y"
  shows "live_inv y'"
proof -
  note rj = reserves_jobs [OF rs]
  have free: "claim (sys_phase y k') = Some (j_ID j, u) \<Longrightarrow> sys_now y < u \<Longrightarrow> False" for k' u
    using live_row [OF inv, of k' "j_ID j" u j] rj by (auto simp: job_eligible_def)
  have rows: "x \<in> set (jobs d) \<Longrightarrow> if j_ID x = j_ID j then j_ReservedUntil x = until else x \<in> set (jobs (sys_db y))"
    for x using rj by auto
  show ?thesis
  proof (rule live_invI)
    fix k' i u x assume c: "claim (sys_phase y' k') = Some (i, u)" "sys_now y' < u"
      and x: "x \<in> set (jobs (sys_db y'))" "j_ID x = i"
    show "j_ReservedUntil x = u"
    proof (cases "k' = k")
      case True
      with c(1) x rows me y'(1) show ?thesis by (auto split: if_splits)
    next
      case False
      then have c': "claim (sys_phase y k') = Some (i, u)" "sys_now y < u" using c ph y' by simp_all
      then have "i \<noteq> j_ID j" using free by blast
      with rows [of x] x y'(1) live_row [OF inv c'] show ?thesis by (auto split: if_splits)
    qed
  next
    fix k1 k2 i u u' assume c: "claim (sys_phase y' k1) = Some (i, u)" "claim (sys_phase y' k2) = Some (i, u')"
      "sys_now y' < u" "sys_now y' < u'"
    then show "k1 = k2" using ph me free y'(2) live_one [OF inv, of k1 i u k2 u']
      by (metis option.inject prod.inject)
  next
    fix k' i u assume "claim (sys_phase y' k') = Some (i, u)"
    then show "i \<in> sys_submitted y'"
      using ph me y'(3) live_submitted [OF inv] live_queued [OF inv, of j] rj
      by (cases "k' = k") auto
  next
    fix x assume "x \<in> set (jobs (sys_db y'))"
    then have "j_ID x \<in> set (map j_ID (jobs d))" using y'(1) by auto
    then have "j_ID x \<in> set (map j_ID (jobs (sys_db y)))" by (simp only: reserves_ids [OF rs])
    then show "j_ID x \<in> sys_submitted y'" using live_queued [OF inv] y'(3) by auto
  qed
qed

lemma live_inv_put:
  assumes inv: "live_inv y" and "insert_job j (sys_db y) = Inr d" and "j_ID j \<notin> sys_submitted y"
  shows "live_inv (y\<lparr>sys_db := d, sys_submitted := insert (j_ID j) (sys_submitted y)\<rparr>)"
proof -
  note jd = insert_job_jobs [OF assms(2)]
  have "claim (sys_phase y k) = Some (i, u) \<Longrightarrow> i \<noteq> j_ID j" for k i u
    using live_submitted [OF inv] assms(3) by blast
  then show ?thesis
    using jd live_row [OF inv] live_one [OF inv] live_submitted [OF inv] live_queued [OF inv]
    by (intro live_invI) auto
qed

lemma live_inv_step:
  assumes "outbox_step R m y y'" and inv: "live_inv y"
  shows "live_inv y'"
  using assms(1)
proof cases
  case (put j d)
  with live_inv_put [OF inv] show ?thesis by simp
next
  case (reserve k until j d)
  show ?thesis
    by (rule live_inv_reserve [OF inv reserve(3), of k]) (simp_all add: reserve(1))
next
  case (delete k job)
  then show ?thesis
    by (intro live_inv_mono [OF inv]) (auto simp: without_job_def split: if_splits)
next
  case (bury k job reason d)
  note mj = moves_to_dlq_jobs [OF bury(3)]
  from bury(1) mj show ?thesis by (intro live_inv_mono [OF inv]) (auto split: if_splits)
qed (rule live_inv_mono [OF inv]; auto simp: queue_kept_def split: if_splits)+

lemma live_inv_reachable:
  assumes "sys_init y0" and "outbox_steps R m y0 y"
  shows "live_inv y"
  using assms(2)
proof (induction rule: rtranclp_induct)
  case base
  from assms(1) show ?case by (auto simp: sys_init_def live_inv_def queued_def)
next
  case (step y z)
  then show ?case using live_inv_step by blast
qed

section \<open>A run of the sequential model is a run of one worker\<close>

definition max_attempts :: "'w outbox_Service \<Rightarrow> string \<Rightarrow> int option" where
  "max_attempts s n = map_option oj_MaxAttempts (os_jobs s n)"

text \<open>The worker \<open>k\<close> ends idle with the database \<open>d\<close>; nothing else of the other workers has moved.\<close>

definition ends_idle :: "nat \<Rightarrow> database \<Rightarrow> system \<Rightarrow> system \<Rightarrow> bool" where
  "ends_idle k d y y' \<longleftrightarrow> sys_db y' = d \<and> sys_phase y' = (sys_phase y)(k := Idle) \<and> sys_now y' = sys_now y"

lemma step_then: "outbox_step R m y z \<Longrightarrow> \<exists>y'. outbox_steps R m z y' \<and> P y' \<Longrightarrow>
    \<exists>y'. outbox_steps R m y y' \<and> P y'"
  by (meson converse_rtranclp_into_rtranclp)

lemma step_ends: "outbox_step R m y z \<Longrightarrow> ends_idle k d y z \<Longrightarrow>
    \<exists>y'. outbox_steps R m y y' \<and> ends_idle k d y y'"
  by blast

lemma steps_stop: "sys_db y = d \<Longrightarrow> \<exists>y'. outbox_steps R m y y' \<and> ends_idle k d y y'"
  by (rule step_ends, rule outbox_step.stop) (simp add: ends_idle_def)

lemma steps_bury:
  assumes "sys_phase y k = Burying job reason"
    and "d = sys_db y \<or> moves_to_dlq (rj_ID job) (rj_Name job) (rj_Payload job) reason (sys_db y) d"
  shows "\<exists>y'. outbox_steps R m y y' \<and> ends_idle k d y y'"
  using assms(2)
proof
  assume "d = sys_db y"
  then show ?thesis by (intro steps_stop) simp
next
  assume "moves_to_dlq (rj_ID job) (rj_Name job) (rj_Payload job) reason (sys_db y) d"
  from outbox_step.bury [OF assms(1) this, of R m] show ?thesis
    by (rule step_ends) (simp add: ends_idle_def)
qed

lemma steps_delete:
  assumes "sys_phase y k = Deleting job"
    and "d = sys_db y \<or> d = without_job (rj_ID job) (sys_db y)"
  shows "\<exists>y'. outbox_steps R m y y' \<and> ends_idle k d y y'"
  using assms(2)
proof
  assume "d = sys_db y"
  then show ?thesis by (intro steps_stop) simp
next
  assume "d = without_job (rj_ID job) (sys_db y)"
  then have "ends_idle k d y (y\<lparr>sys_db := without_job (rj_ID job) (sys_db y), sys_phase := (sys_phase y)(k := Idle)\<rparr>)"
    by (simp add: ends_idle_def)
  with outbox_step.delete [OF assms(1)] show ?thesis by (rule step_ends)
qed

context clocked_outbox
begin

lemma dlq_moves:
  assumes "\<not> ctx_tx ctx" and "outbox_dlq s ctx i n p reason w = (r, w')"
  shows "db w' = db w \<or> moves_to_dlq i n p reason (db w) (db w')"
  using dlq_atomic [OF assms] by blast

lemma processJob_steps:
  assumes "\<not> ctx_tx ctx" and pj: "outbox_processJob s ctx job w = (r, w')"
    and "sys_db y = db w" and ph: "sys_phase y k = Running job until"
  shows "\<exists>y'. outbox_steps R (max_attempts s) y y' \<and> ends_idle k (db w') y y'"
proof (cases "os_jobs s (rj_Name job)")
  case None
  let ?z = "y\<lparr>sys_phase := (sys_phase y)(k := Burying job ''unknown job'')\<rparr>"
  have "max_attempts s (rj_Name job) = None" using None by (simp add: max_attempts_def)
  with ph have st: "outbox_step R (max_attempts s) y ?z" by (rule outbox_step.unknown)
  have "outbox_dlq s ctx (rj_ID job) (rj_Name job) (rj_Payload job) ''unknown job'' w = (r, w')"
    using pj None by (simp add: outbox_processJob_def)
  from dlq_moves [OF assms(1) this]
  have "\<exists>y'. outbox_steps R (max_attempts s) ?z y' \<and> ends_idle k (db w') ?z y'"
    by (intro steps_bury) (use assms(3) in auto)
  then have "\<exists>y'. outbox_steps R (max_attempts s) ?z y' \<and> ends_idle k (db w') y y'"
    by (simp add: ends_idle_def)
  with st show ?thesis by (rule step_then)
next
  case (Some j)
  obtain h w1 where h: "oj_Handle j (rj_Payload job) w = (h, w1)" by force
  have kq: "queue_kept (sys_db y) (db w1)"
    using handler_keeps [OF Some h] assms(3) by (simp add: queue_kept_def)
  have m: "max_attempts s (rj_Name job) = Some (oj_MaxAttempts j)" using Some by (simp add: max_attempts_def)
  show ?thesis
  proof (cases h)
    case (Inl err)
    show ?thesis
    proof (cases "oj_MaxAttempts j \<le> rj_Attempts job")
      case True
      let ?reason = "''max attempts exceeded: '' @ errtext err"
      let ?z = "y\<lparr>sys_db := db w1, sys_phase := (sys_phase y)(k := Burying job ?reason)\<rparr>"
      have st: "outbox_step R (max_attempts s) y ?z"
        using ph m kq True by (rule outbox_step.exceeded)
      have "outbox_dlq s ctx (rj_ID job) (rj_Name job) (rj_Payload job) ?reason w1 = (r, w')"
        using pj Some h Inl True by (simp add: outbox_processJob_def)
      from dlq_moves [OF assms(1) this]
      have "\<exists>y'. outbox_steps R (max_attempts s) ?z y' \<and> ends_idle k (db w') ?z y'"
        by (intro steps_bury) auto
      then have "\<exists>y'. outbox_steps R (max_attempts s) ?z y' \<and> ends_idle k (db w') y y'"
        by (simp add: ends_idle_def)
      with st show ?thesis by (rule step_then)
    next
      case False
      let ?z = "y\<lparr>sys_db := db w1, sys_phase := (sys_phase y)(k := Idle)\<rparr>"
      have st: "outbox_step R (max_attempts s) y ?z"
        using ph m kq by (rule outbox_step.failed) (use False in simp)
      have "w' = w1" using pj Some h Inl False by (simp add: outbox_processJob_def)
      then have "ends_idle k (db w') y ?z" by (simp add: ends_idle_def)
      with st show ?thesis by blast
    qed
  next
    case (Inr x)
    let ?z = "y\<lparr>sys_db := db w1, sys_phase := (sys_phase y)(k := Deleting job),
      sys_done := insert (rj_ID job) (sys_done y)\<rparr>"
    have st: "outbox_step R (max_attempts s) y ?z"
      using ph m kq by (rule outbox_step.handled)
    obtain v w2 where v: "jr_DeleteJob (oo_jobsRepo s) (rj_ID job) w1 = (v, w2)" by force
    from Inr h Some v pj have "w' = w2"
      by (cases v) (simp_all add: outbox_processJob_def)
    with delete [OF v] have "db w' = sys_db ?z \<or> db w' = without_job (rj_ID job) (sys_db ?z)"
      by (auto simp: delete_outcome_def split: sum.splits)
    then have "\<exists>y'. outbox_steps R (max_attempts s) ?z y' \<and> ends_idle k (db w') ?z y'"
      by (intro steps_delete) auto
    then have "\<exists>y'. outbox_steps R (max_attempts s) ?z y' \<and> ends_idle k (db w') y y'"
      by (simp add: ends_idle_def)
    with st show ?thesis by (rule step_then)
  qed
qed

lemma worker_run:
  assumes "\<not> ctx_tx ctx" and fp: "outbox_findAndProcessJob s ctx w = (r, w')"
    and db: "sys_db y = db w" and idle: "sys_phase y k = Idle" and now: "sys_now y \<le> clk w"
  shows "\<exists>y'. outbox_steps (oo_reserveFor s) (max_attempts s) y y' \<and>
    sys_db y' = db w' \<and> sys_phase y' = sys_phase y \<and> sys_now y' \<le> clk w'"
proof -
  let ?R = "oo_reserveFor s" and ?m = "max_attempts s"
  let ?t1 = "fst (time_Now w)" and ?v = "snd (time_Now w)"
  let ?t2 = "fst (time_Now ?v)"
  obtain q w1 where q: "jr_FindAndReserveJob (oo_jobsRepo s) (?t1 + ?R) ?v = (q, w1)" by force
  have tn: "time_Now v = (fst (time_Now v), snd (time_Now v))" for v :: "'a store_scheme" by simp
  have t1: "clk w \<le> ?t1" "clk ?v = ?t1" using time_Now_mono [OF tn] by blast+
  have t2: "?t1 \<le> ?t2" using time_Now_mono [OF tn, of ?v] t1 by simp
  have later: "clk w \<le> clk w'" using keeps_clockD [OF findAndProcessJob_clocked fp] by blast
  show ?thesis
  proof (cases "db w' = db w")
    case True
    with db now later show ?thesis by (intro exI [of _ y]) auto
  next
    case changed: False
    let ?y1 = "y\<lparr>sys_now := ?t1\<rparr>"
    let ?y2 = "?y1\<lparr>sys_phase := (sys_phase y)(k := Reserving (?t1 + ?R))\<rparr>"
    let ?y3 = "?y2\<lparr>sys_now := ?t2\<rparr>"
    have s1: "outbox_step ?R ?m y ?y1" by (rule outbox_step.tick) (use now t1 in simp)
    have s2: "outbox_step ?R ?m ?y1 ?y2"
      using outbox_step.start [of ?y1 k ?R ?m] idle by simp
    have s3: "outbox_step ?R ?m ?y2 ?y3" by (rule outbox_step.tick) (use t2 in simp)
    have s123: "outbox_steps ?R ?m y ?y3"
      using s1 s2 s3 by (meson converse_rtranclp_into_rtranclp r_into_rtranclp)
    have dv: "db ?v = db w" by simp
    show ?thesis
      using fp
    proof (cases rule: findAndProcessJob_cases)
      case (none e)
      with changed show ?thesis by simp
    next
      case (failed e e0)
      with changed obtain j where j: "reserves ?t2 (?t1 + ?R) j (db w) (db w')" by blast
      let ?y4 = "?y3\<lparr>sys_db := db w',
        sys_phase := (sys_phase ?y3)(k := Running (repo_job (reserve_job (?t1 + ?R) j)) (?t1 + ?R))\<rparr>"
      let ?y5 = "?y4\<lparr>sys_phase := (sys_phase ?y4)(k := Idle)\<rparr>"
      have "outbox_step ?R ?m ?y3 ?y4" by (rule outbox_step.reserve) (use j db in simp_all)
      moreover have "outbox_step ?R ?m ?y4 ?y5" by (rule outbox_step.stop)
      ultimately have "outbox_steps ?R ?m y ?y5" using s123 by (meson rtranclp.rtrancl_into_rtrancl)
      moreover have "?t2 \<le> clk w'" using find_late [OF failed(3)] changed by simp
      moreover have "(sys_phase y)(k := Idle) = sys_phase y" using idle by (simp add: fun_upd_idem)
      ultimately show ?thesis by (intro exI [of _ ?y5]) simp
    next
      case (processed j job w2)
      let ?y4 = "?y3\<lparr>sys_db := db w2,
        sys_phase := (sys_phase ?y3)(k := Running (repo_job (reserve_job (?t1 + ?R) j)) (?t1 + ?R))\<rparr>"
      have "outbox_step ?R ?m ?y3 ?y4"
        by (rule outbox_step.reserve) (use processed(3) db in simp_all)
      then have s4: "outbox_steps ?R ?m y ?y4" using s123 by (meson rtranclp.rtrancl_into_rtrancl)
      have "sys_phase ?y4 k = Running job (?t1 + ?R)" using processed(1) by simp
      from processJob_steps [OF assms(1) processed(4) _ this, of ?R] obtain y' where
        y': "outbox_steps ?R ?m ?y4 y'" "ends_idle k (db w') ?y4 y'" by auto
      have "sys_phase y' = sys_phase y" using y'(2) idle by (simp add: ends_idle_def fun_upd_idem)
      moreover have "?t2 \<le> clk w'"
        using find_late [OF processed(2) [unfolded reserved_at_def]] reserves_changes [OF processed(3)]
          keeps_clockD [OF processJob_clocked processed(4)] by simp
      ultimately show ?thesis using s4 y' by (intro exI [of _ y']) (auto simp: ends_idle_def)
    qed
  qed
qed

end

section \<open>Properties\<close>

text \<open>
  C2. Any number of workers, interleaved in any way and stopping anywhere, lose no job and bury none
  twice: in every state that can be reached, a job that was put is in the queue, or its handler has
  reported success, or it is in the dead letters; the dead letters name each job once; and a job in
  the dead letters is not in the queue.
\<close>

theorem outbox_workers_lose_nothing:
  assumes "sys_init y0" and "outbox_steps R m y0 y"
  shows "sys_submitted y = j_ID ` set (jobs (sys_db y)) \<union> sys_done y \<union> set (sys_dead y) \<and>
    distinct (sys_dead y) \<and> j_ID ` set (jobs (sys_db y)) \<inter> set (sys_dead y) = {} \<and>
    distinct (map j_ID (jobs (sys_db y)))"
  using sys_inv_reachable [OF assms] by (simp add: sys_inv_def queued_def)

text \<open>
  C4. At most one worker holds a live reservation of a job: in every state that can be reached, two
  workers that run one job with reservations that have not run out are the same worker, and the row
  of the job, if it is still there, carries that reservation.
\<close>

theorem outbox_live_reservation_exclusive:
  assumes "sys_init y0" and "outbox_steps R m y0 y"
    and "sys_phase y k = Running job u" and "sys_now y < u"
  shows "(\<forall>k' job' u'. sys_phase y k' = Running job' u' \<and> rj_ID job' = rj_ID job \<and> sys_now y < u' \<longrightarrow> k' = k) \<and>
    (\<forall>j \<in> set (jobs (sys_db y)). j_ID j = rj_ID job \<longrightarrow> j_ReservedUntil j = u)"
proof -
  note inv = live_inv_reachable [OF assms(1,2)]
  have c: "claim (sys_phase y k) = Some (rj_ID job, u)" using assms(3) by simp
  have "k' = k" if "sys_phase y k' = Running job' u'" "rj_ID job' = rj_ID job" "sys_now y < u'" for k' job' u'
    using live_one [OF inv _ c that(3) assms(4)] that by simp
  moreover have "j_ReservedUntil j = u" if "j \<in> set (jobs (sys_db y))" "j_ID j = rj_ID job" for j
    using live_row [OF inv c assms(4) that] .
  ultimately show ?thesis by blast
qed


text \<open>A system in which one job was put and a worker has reserved it.\<close>

definition sample_system :: system where
  "sample_system = \<lparr>sys_now = 7, sys_db = empty_database, sys_phase = (\<lambda>_. Idle), sys_submitted = {},
     sys_done = {}, sys_dead = []\<rparr>"

definition sample_reserved :: system where
  "sample_reserved = \<lparr>sys_now = 7,
     sys_db = update_job (Id 1) (reserve_job (7 + minute)) (sample_queue 0),
     sys_phase = (\<lambda>_. Idle)(0 := Running (repo_job (reserve_job (7 + minute) (hd (jobs (sample_queue 0))))) (7 + minute)),
     sys_submitted = {Id 1}, sys_done = {}, sys_dead = []\<rparr>"

lemma sample_system_init: "sys_init sample_system"
  by (simp add: sys_init_def sample_system_def empty_database_def)

lemma sample_reserved_reachable: "outbox_steps minute m sample_system sample_reserved"
proof -
  let ?j = "hd (jobs (sample_queue 0))"
  let ?y1 = "sample_system\<lparr>sys_db := sample_queue 0, sys_submitted := {Id 1}\<rparr>"
  let ?y2 = "?y1\<lparr>sys_phase := (\<lambda>_. Idle)(0 := Reserving (7 + minute))\<rparr>"
  have "outbox_step minute m sample_system ?y1"
    using outbox_step.put [of ?j sample_system "sample_queue 0" minute m]
    by (simp add: sample_system_def sample_queue_def empty_database_def insert_job_def)
  moreover have "outbox_step minute m ?y1 ?y2"
    using outbox_step.start [of ?y1 0 minute m] by (simp add: sample_system_def)
  moreover have "outbox_step minute m ?y2 sample_reserved"
    using outbox_step.reserve [of ?y2 0 "7 + minute" ?j
        "update_job (Id 1) (reserve_job (7 + minute)) (sample_queue 0)" minute m]
    by (simp add: sample_system_def sample_reserved_def reserves_def sample_queue_def job_eligible_def)
  ultimately show ?thesis by (meson converse_rtranclp_into_rtranclp r_into_rtranclp)
qed

lemma outbox_workers_lose_nothing_witness:
  "outbox_steps minute (\<lambda>_. None) sample_system sample_reserved \<and> sys_submitted sample_reserved = {Id 1} \<and>
   sys_submitted sample_reserved = j_ID ` set (jobs (sys_db sample_reserved)) \<union> sys_done sample_reserved
     \<union> set (sys_dead sample_reserved)"
proof -
  have "sys_submitted sample_reserved = {Id 1}" by (simp add: sample_reserved_def)
  with outbox_workers_lose_nothing [OF sample_system_init sample_reserved_reachable [of "\<lambda>_. None"]]
    sample_reserved_reachable [of "\<lambda>_. None"]
  show ?thesis by blast
qed

lemma outbox_live_reservation_exclusive_witness:
  "outbox_steps minute (\<lambda>_. None) sample_system sample_reserved \<and>
   map j_ReservedUntil (jobs (sys_db sample_reserved)) = [7 + minute]"
proof -
  let ?job = "repo_job (reserve_job (7 + minute) (hd (jobs (sample_queue 0))))"
  have "rj_ID ?job = Id 1" by (simp add: sample_queue_def)
  moreover have "sys_phase sample_reserved 0 = Running ?job (7 + minute)" "sys_now sample_reserved < 7 + minute"
    by (simp_all add: sample_reserved_def duration_defs)
  ultimately have "\<forall>j \<in> set (jobs (sys_db sample_reserved)). j_ID j = Id 1 \<longrightarrow> j_ReservedUntil j = 7 + minute"
    using outbox_live_reservation_exclusive [OF sample_system_init sample_reserved_reachable [of "\<lambda>_. None"],
        of 0 ?job "7 + minute"] by simp
  moreover have "map j_ID (jobs (sys_db sample_reserved)) = [Id 1]"
    by (simp add: sample_reserved_def update_job_def sample_queue_def)
  ultimately show ?thesis using sample_reserved_reachable [of "\<lambda>_. None"] by auto
qed


end
