(* ===== verification/Spec2Isabelle.thy ===== *)
theory Spec2Isabelle
  imports Startup RequestLog Verdicts Websocket Mutations Where ManagerApi ClientApi GetHistory Workers SendMessage Managers
begin

text \<open>
  \<^bold>\<open>What this is.\<close>  A model in higher-order logic of the chat service of a bank (\<open>cmd/chat-service\<close>), with the theorems
  that make it correct.  Clients send messages over HTTP and read them and their history; every message goes through a
  topic to an antifraud service (AFC), whose verdicts come back through another topic; managers say that they have free
  hands; both sides are told what happens over websockets.  The definitions follow the source declaration by
  declaration and compute, so they can be run on concrete inputs.

  \<^bold>\<open>How values are represented.\<close>  A struct is a record, an enumeration or union a datatype, a Go error is a value of
  \<open>goerr\<close> (\<open>Prelude\<close>: sentinels with a name, wrapped errors, \<open>errors.Is\<close>, \<open>errors.As\<close>), a fallible function returns
  \<open>goerr + 'a\<close>; a panic is a value of its own (\<open>Panicked\<close>, \<open>None\<close> of a \<open>Must\<close>).  Texts are lists of bytes, as in Go;
  the length of a text in characters is counted in runes (\<open>Validator\<close>).  Instants and durations are integers of
  nanoseconds; identifiers are 16 bytes, a 128-bit word (\<open>Uuid\<close>), under nine types (\<open>Types\<close>).  Go's \<open>int\<close> is an integer:
  the numbers of the service are bounded by its validators, and where a text is read into an \<open>int64\<close> the reader checks
  the width (\<open>JsonDecode\<close>).

  \<^bold>\<open>The environment.\<close>  Effects are explicit state passing.  \<open>env\<close> (\<open>Prelude\<close>) is what the code cannot choose: the clock
  and how far it advances at each look, random bytes, for every statement of the database whether it fails or its
  acknowledgement is lost, and in which order unordered rows come.  \<open>store\<close> (\<open>Database\<close>) adds the database, \<open>world\<close>
  (\<open>World\<close>) the pool of managers, the event stream and the topics.  A theorem about an operation holds for every
  schedule of the environment.  Goroutines are interleaved: the workers of the outbox as steps of an inductive relation
  (\<open>outbox_step\<close>), the consumers of verdicts in turns, the goroutines of a websocket as the actions of \<open>serve_step\<close>.
  A lost context is a choice of the schedule.

  \<^bold>\<open>The store\<close> (\<open>internal/store\<close>).  \<open>Schema\<close>: rows, constraints and field validators.  \<open>Database\<close>: statements, transactions;
  \<open>RunInTx\<close> is all or nothing (locale \<open>transactor\<close>, interpreted on it).  \<open>Builders\<close>, \<open>Queries\<close>, \<open>Updates\<close>: the generated
  builders as far as the service calls them.  \<open>Mutation\<close> and \<open>ChatMutations\<close>, \<open>FailedJobMutations\<close>, \<open>JobMutations\<close>,
  \<open>MessageMutations\<close>, \<open>ProblemMutations\<close>: every method of the generated mutations (\<open>mutation.go\<close>); \<open>Mutations\<close>: each is a
  typed partial map from the columns to values (locale \<open>typed_fields\<close>, interpreted on the five), and the mutations of
  \<open>Builders\<close> are views of them.  \<open>SqlPredicates\<close> and \<open>Where\<close>: every generated predicate (\<open>where.go\<close>) as a term, with
  the three truth values of SQL; the predicates of \<open>Updates\<close> are what those that the service uses mean.

  \<^bold>\<open>Repositories\<close> (\<open>internal/repositories\<close>).  \<open>Repositories\<close>: a client has one chat, a chat at most one open problem.
  \<open>MessagesRepo\<close>, \<open>History\<close>: a page of the history and its cursor; following the cursors visits the whole history once,
  newest first, provided that their creation times differ; messages of one time beyond a page are never
  shown.  \<open>JobsRepo\<close>: jobs and their reservation (locale \<open>jobs_repository\<close>).

  \<^bold>\<open>The outbox\<close> (\<open>internal/services/outbox\<close>).  \<open>Outbox\<close>: one step of a worker loses no job (locale \<open>outbox_service\<close>);
  \<open>Worker\<close>: its loop ends (locale \<open>clocked_outbox\<close>); \<open>Workers\<close>: several workers that may stop anywhere, of which the
  sequential model is a refinement; \<open>OutboxJobs\<close>: the three jobs, down to the topic (\<open>MsgProducer\<close>) and the event stream.

  \<^bold>\<open>Services.\<close>  \<open>EventStream\<close> (the subscribers down to the arrays behind their slices), \<open>ManagerPool\<close> (refines a bounded
  queue without duplicates, locale \<open>fifo_pool\<close>), \<open>Managers\<close> (load, free hands), \<open>Verdicts\<close> (reading, checking and applying
  verdicts, retries, dead letters, commits).

  \<^bold>\<open>Use cases and servers.\<close>  \<open>SendMessage\<close> (locale \<open>message_sender\<close>) and \<open>GetHistory\<close> are the use cases of the clients.
  \<open>Auth\<close>, \<open>Tokens\<close>: the middleware and the claims of a token.  \<open>Http\<close>, \<open>Server\<close>: errors with codes, the handler of errors,
  the chain of middlewares; \<open>ClientApi\<close>, \<open>ManagerApi\<close>: the routes, as functions from a request to what is answered;
  \<open>RequestLog\<close>: what is logged of a request.
  \<open>ClientEvents\<close>, \<open>Websocket\<close>: events as clients see them, and the connection that carries them.

  \<^bold>\<open>The start.\<close>  \<open>Config\<close> and \<open>Startup\<close> model the configuration and how \<open>run\<close> builds all parts from it, and say exactly which
  configurations get through.  The other properties are stated of the parts it builds (\<open>wired_outbox\<close>, \<open>wired_afc\<close>,
  \<open>main_initServerClient\<close>, \<open>main_initServerManager\<close>, \<open>main_wsHandler\<close>).

  \<^bold>\<open>Libraries.\<close>  Of Go's standard library and of the vendored packages what the service uses is modelled: \<open>encoding/json\<close>
  (\<open>Json\<close>, \<open>JsonDecode\<close>, \<open>JsonEncode\<close>), base 64 (\<open>Base64\<close>), the text of instants (\<open>Rfc3339\<close>, \<open>GoTime\<close>), URLs as far as a
  validator asks (\<open>Url\<close>), the validator of structs (\<open>Validator\<close>), \<open>google/uuid\<close>.  Their round trips carry those of
  cursors, payloads, messages and events.

  \<^bold>\<open>Bounds and fuel.\<close>  The reader of JSON recurses on fuel \<open>2 * length + 2\<close>, of which every call uses up at least half a
  byte; the round trips show that it is enough for whatever is written.  \<open>outbox_processAvailableJobs\<close> takes fuel and
  returns \<open>None\<close> when it runs out; the property on its termination gives a bound, the number of jobs in the queue, from
  which it never does.  \<open>history_walk\<close> and \<open>client_walk\<close> take as fuel the number of pages that the client asks for; the
  properties say that more than there are messages reach the end.  All other recursion is on the data or on a schedule.

  \<^bold>\<open>Parameters.\<close>  AES-GCM, RSA, PEM and PKIX, the Kafka clients, Keycloak over HTTP, Sentry, the reader of TOML, the
  driver of PostgreSQL, the handshake and the transport of a websocket, the validator of requests against the OpenAPI
  document, the reader of bodies other than JSON and the local time zone are arguments of the definitions.  What is
  relied on is stated as a hypothesis of the theorem that needs it: that opening undoes sealing, that a signature
  verifies only what the holder of the key has signed.

  \<^bold>\<open>Not modelled.\<close>  Logging, metrics and the debug pages, which have no effect on the service; listening on sockets and
  shutting down (\<open>Run\<close> of the servers), headers of answers and the origins that CORS allows, bodies without a length; the
  generated query, bulk and upsert builders that nobody calls, and the plumbing of \<open>ent\<close> (clients, drivers, hooks,
  schema migration); the rounding of instants to microseconds by PostgreSQL; the depth limit of \<open>encoding/json\<close> (10000),
  numbers out of the range of a float, escapes inside texts of instants, and which of several decoding errors is told
  (the first is); the offsets in errors of base 64; the user interfaces, tests, mocks and the end-to-end client.
\<close>

end
